(* ===== verification/Prelude.thy ===== *)
theory Prelude
  imports Main "HOL-Library.Multiset" "HOL-Library.List_Lexorder" "HOL-Library.Char_ord" "HOL-Library.Product_Lexorder"
begin

text \<open>
  Shared vocabulary of the development: the Python errors the modelled code raises, results and
  their sequencing, generators, insertion-ordered dictionaries and the string operations of the
  Python library that the modelled code calls.  Everything here is executable.
\<close>

named_theorems res_simps \<open>unfolding and inversion rules of the result combinators\<close>
named_theorems gen_simps \<open>unfolding rules of the generator combinators\<close>
named_theorems dict_simps \<open>lookup rules of the insertion-ordered dictionaries\<close>

section \<open>Errors and results\<close>

text \<open>
  One constructor per exception class the modelled code raises or lets through; \<open>Raised\<close> is for the classes
  that only one component uses, with the name of the class and its arguments.  \<open>OutOfFuel\<close> is
  not a Python exception: it marks a run of the model that used up the bound it was given.
\<close>

datatype py_error =
    KeyError string
  | IndexError
  | TypeError
  | AttributeError
  | NameError string
  | ValueError string
  | RuntimeError string
  | JsonPatchError string
  | JsonPointerException string
  | SonicYangException string
  | GenericConfigUpdaterError string
  | IllegalPatchOperationError string
  | EmptyTableError string
  | CtxFail string
  | AclLoaderException string
  | Raised string "string list"
  | OutOfFuel

type_synonym 'a res = "py_error + 'a"

definition rbind :: "'a res \<Rightarrow> ('a \<Rightarrow> 'b res) \<Rightarrow> 'b res" where
  "rbind x f = (case x of Inl e \<Rightarrow> Inl e | Inr a \<Rightarrow> f a)"

lemma rbind_simps [simp, res_simps]:
  "rbind (Inl e) f = Inl e"
  "rbind (Inr a) f = f a"
  by (simp_all add: rbind_def)

lemma rbind_Inr_iff [res_simps]:
  "rbind x f = Inr b \<longleftrightarrow> (\<exists>a. x = Inr a \<and> f a = Inr b)"
  by (cases x) auto

lemma rbind_Inl_iff [res_simps]:
  "rbind x f = Inl e \<longleftrightarrow> (x = Inl e \<or> (\<exists>a. x = Inr a \<and> f a = Inl e))"
  by (cases x) auto

lemma rbind_assoc: "rbind (rbind x f) g = rbind x (\<lambda>a. rbind (f a) g)"
  by (cases x) auto

lemma rbind_cong [fundef_cong]:
  "x = y \<Longrightarrow> (\<And>a. y = Inr a \<Longrightarrow> f a = g a) \<Longrightarrow> rbind x f = rbind y g"
  by (cases y) auto

lemma rbind_split:
  "P (rbind x f) \<longleftrightarrow> (\<forall>e. x = Inl e \<longrightarrow> P (Inl e)) \<and> (\<forall>a. x = Inr a \<longrightarrow> P (f a))"
  by (cases x) auto

text \<open>A \<open>for\<close> loop that returns \<open>False\<close> at the first failing element.\<close>

fun all_res :: "('a \<Rightarrow> bool res) \<Rightarrow> 'a list \<Rightarrow> bool res" where
  "all_res p [] = Inr True"
| "all_res p (x # xs) = rbind (p x) (\<lambda>b. if b then all_res p xs else Inr False)"

text \<open>A comprehension whose element expression may raise.\<close>

fun map_res :: "('a \<Rightarrow> 'b res) \<Rightarrow> 'a list \<Rightarrow> 'b list res" where
  "map_res f [] = Inr []"
| "map_res f (x # xs) = rbind (f x) (\<lambda>y. rbind (map_res f xs) (\<lambda>ys. Inr (y # ys)))"

text \<open>A loop that threads a state and may raise.\<close>

fun fold_res :: "('a \<Rightarrow> 's \<Rightarrow> 's res) \<Rightarrow> 'a list \<Rightarrow> 's \<Rightarrow> 's res" where
  "fold_res f [] s = Inr s"
| "fold_res f (x # xs) s = rbind (f x s) (fold_res f xs)"

lemma all_res_True_iff:
  "all_res p xs = Inr True \<longleftrightarrow> (\<forall>x \<in> set xs. p x = Inr True)"
  by (induction xs) (auto simp: res_simps split: if_splits)

lemma all_res_False:
  "all_res p xs = Inr False \<Longrightarrow> \<exists>x \<in> set xs. p x = Inr False"
  by (induction xs) (auto simp: res_simps split: if_splits)

lemma all_res_total:
  "(\<And>x. x \<in> set xs \<Longrightarrow> \<exists>b. p x = Inr b) \<Longrightarrow> \<exists>b. all_res p xs = Inr b"
proof (induction xs)
  case (Cons x xs)
  then obtain b c where "p x = Inr b" "all_res p xs = Inr c" by fastforce
  then show ?case by (cases b) auto
qed auto

lemma map_res_Inr_iff:
  "map_res f xs = Inr ys \<longleftrightarrow> list_all2 (\<lambda>x y. f x = Inr y) xs ys"
  by (induction xs arbitrary: ys) (auto simp: res_simps list_all2_Cons1)

lemma map_res_pure [simp]: "map_res (\<lambda>x. Inr (f x)) xs = Inr (map f xs)"
  by (induction xs) auto

lemma fold_res_append:
  "fold_res f (xs @ ys) s = rbind (fold_res f xs s) (fold_res f ys)"
proof (induction xs arbitrary: s)
  case (Cons x xs)
  then have "fold_res f (xs @ ys) = (\<lambda>s. rbind (fold_res f xs s) (fold_res f ys))" by (intro ext)
  then show ?case by (simp add: rbind_assoc)
qed simp

lemma fold_res_invariant:
  assumes "fold_res f xs s = Inr t" and "I s"
    and "\<And>x s t. x \<in> set xs \<Longrightarrow> I s \<Longrightarrow> f x s = Inr t \<Longrightarrow> I t"
  shows "I t"
  using assms
proof (induction xs arbitrary: s)
  case (Cons x xs)
  from Cons.prems(1) obtain u where u: "f x s = Inr u" "fold_res f xs u = Inr t"
    by (auto simp: res_simps)
  with Cons.prems have "I u" by auto
  with Cons u show ?case by auto
qed simp

section \<open>Generators\<close>

text \<open>
  A Python generator is the list of the values it yields and, when it ends with an exception, that
  exception: a consumer that stops early never meets it.
\<close>

type_synonym 'a gen = "'a list \<times> py_error option"

definition gen_nil :: "'a gen" where
  "gen_nil = ([], None)"

definition gen_one :: "'a \<Rightarrow> 'a gen" where
  "gen_one x = ([x], None)"

definition gen_app :: "'a gen \<Rightarrow> 'a gen \<Rightarrow> 'a gen" where
  "gen_app g h = (case snd g of None \<Rightarrow> (fst g @ fst h, snd h) | Some e \<Rightarrow> g)"

fun gen_for :: "'b list \<Rightarrow> ('b \<Rightarrow> 'a gen) \<Rightarrow> 'a gen" where
  "gen_for [] f = gen_nil"
| "gen_for (x # xs) f = gen_app (f x) (gen_for xs f)"

definition gen_res :: "'b res \<Rightarrow> ('b \<Rightarrow> 'a gen) \<Rightarrow> 'a gen" where
  "gen_res r f = (case r of Inl e \<Rightarrow> ([], Some e) | Inr x \<Rightarrow> f x)"

text \<open>\<open>for x in g: yield from f(x)\<close>, where \<open>g\<close> is a generator itself.\<close>

definition gen_bind :: "'b gen \<Rightarrow> ('b \<Rightarrow> 'a gen) \<Rightarrow> 'a gen" where
  "gen_bind g f = gen_app (gen_for (fst g) f) ([], snd g)"

text \<open>\<open>list(g)\<close>: consumes the whole generator, so its exception surfaces.\<close>

definition gen_list :: "'a gen \<Rightarrow> 'a list res" where
  "gen_list g = (case snd g of None \<Rightarrow> Inr (fst g) | Some e \<Rightarrow> Inl e)"

lemma gen_app_simps [simp, gen_simps]:
  "gen_app ([], None) h = h"
  "gen_app (xs, None) (ys, r) = (xs @ ys, r)"
  "gen_app (xs, Some x) h = (xs, Some x)"
  by (simp_all add: gen_app_def)

lemma gen_app_nil_right [simp]: "gen_app g ([], None) = g"
  by (cases g) (simp add: gen_app_def split: option.splits)

lemma gen_app_assoc: "gen_app (gen_app g h) k = gen_app g (gen_app h k)"
  by (cases g; cases h; cases k) (auto simp: gen_app_def split: option.splits)

lemma snd_gen_app: "snd (gen_app g h) = (case snd g of None \<Rightarrow> snd h | Some e \<Rightarrow> Some e)"
  by (simp add: gen_app_def split: option.splits)

lemma fst_gen_app: "fst (gen_app g h) = (if snd g = None then fst g @ fst h else fst g)"
  by (auto simp: gen_app_def split: option.splits)

lemma gen_basic_simps [simp, gen_simps]:
  "gen_nil = ([], None)"
  "gen_one x = ([x], None)"
  "gen_res (Inl e) f = ([], Some e)"
  "gen_res (Inr b) f = f b"
  by (simp_all add: gen_nil_def gen_one_def gen_res_def)

lemma set_gen_app: "set (fst (gen_app g h)) \<subseteq> set (fst g) \<union> set (fst h)"
  by (cases g; cases h) (auto simp: gen_app_def split: option.splits)

lemma gen_app_mem: "x \<in> set (fst (gen_app g h)) \<Longrightarrow> x \<in> set (fst g) \<or> x \<in> set (fst h)"
  using set_gen_app by fastforce

lemma gen_for_mem:
  "x \<in> set (fst (gen_for ys f)) \<Longrightarrow> \<exists>y \<in> set ys. x \<in> set (fst (f y))"
  by (induction ys) (auto dest: gen_app_mem)

lemma gen_bind_mem:
  "x \<in> set (fst (gen_bind g f)) \<Longrightarrow> \<exists>y \<in> set (fst g). x \<in> set (fst (f y))"
  by (auto simp: gen_bind_def dest: gen_app_mem gen_for_mem)

lemma gen_res_mem:
  "x \<in> set (fst (gen_res r f)) \<Longrightarrow> \<exists>b. r = Inr b \<and> x \<in> set (fst (f b))"
  by (cases r) auto

lemma gen_for_pure:
  "(\<And>y. y \<in> set ys \<Longrightarrow> f y = (h y, None)) \<Longrightarrow> gen_for ys f = (concat (map h ys), None)"
  by (induction ys) auto

lemma gen_for_cong [fundef_cong]:
  "xs = ys \<Longrightarrow> (\<And>y. y \<in> set ys \<Longrightarrow> f y = g y) \<Longrightarrow> gen_for xs f = gen_for ys g"
  by (induction xs arbitrary: ys) auto

lemma gen_res_cong [fundef_cong]:
  "x = y \<Longrightarrow> (\<And>a. y = Inr a \<Longrightarrow> f a = g a) \<Longrightarrow> gen_res x f = gen_res y g"
  by (cases y) auto

lemmas gen_mem = gen_app_mem gen_for_mem gen_bind_mem gen_res_mem

section \<open>Insertion-ordered dictionaries\<close>

text \<open>
  A Python \<open>dict\<close> with string keys is an association list in insertion order: assignment to an
  existing key keeps its place, assignment to a new key appends.
\<close>

type_synonym 'v dict = "(string \<times> 'v) list"

definition dkeys :: "'v dict \<Rightarrow> string list" where
  "dkeys d = map fst d"

definition dget :: "'v dict \<Rightarrow> string \<Rightarrow> 'v option" where
  "dget d k = map_of d k"

definition dhas :: "'v dict \<Rightarrow> string \<Rightarrow> bool" where
  "dhas d k = (dget d k \<noteq> None)"

fun dset :: "string \<Rightarrow> 'v \<Rightarrow> 'v dict \<Rightarrow> 'v dict" where
  "dset k v [] = [(k, v)]"
| "dset k v ((k', v') # d) = (if k = k' then (k, v) # d else (k', v') # dset k v d)"

definition ddel :: "string \<Rightarrow> 'v dict \<Rightarrow> 'v dict" where
  "ddel k d = filter (\<lambda>(k', _). k' \<noteq> k) d"

text \<open>\<open>d.update(e)\<close>.\<close>

definition dupdate :: "'v dict \<Rightarrow> 'v dict \<Rightarrow> 'v dict" where
  "dupdate d e = foldl (\<lambda>acc (k, v). dset k v acc) d e"

lemma dget_Nil [simp]: "dget [] k = None"
  by (simp add: dget_def)

lemma dget_Cons [simp]: "dget ((k', v) # d) k = (if k = k' then Some v else dget d k)"
  by (simp add: dget_def)

lemma dget_dset [simp, dict_simps]: "dget (dset k v d) k' = (if k' = k then Some v else dget d k')"
  by (induction d) auto

lemma dget_ddel [simp, dict_simps]: "dget (ddel k d) k' = (if k' = k then None else dget d k')"
  by (induction d) (auto simp: ddel_def)

lemma dhas_dget: "dhas d k \<longleftrightarrow> (\<exists>v. dget d k = Some v)"
  by (auto simp: dhas_def)

lemma dget_None_iff: "dget d k = None \<longleftrightarrow> k \<notin> set (dkeys d)"
  by (simp add: dget_def dkeys_def map_of_eq_None_iff)

lemma dhas_iff: "dhas d k \<longleftrightarrow> k \<in> set (dkeys d)"
  by (simp add: dhas_def dget_None_iff)

lemma dkeys_simps [simp]: "dkeys [] = []" "dkeys ((k, v) # d) = k # dkeys d"
  by (simp_all add: dkeys_def)

lemma set_dkeys_dset [simp, dict_simps]: "set (dkeys (dset k v d)) = insert k (set (dkeys d))"
  by (induction d) (auto split: if_splits)

lemma distinct_dset [simp]: "distinct (dkeys (dset k v d)) \<longleftrightarrow> distinct (dkeys d)"
  by (induction d) (auto split: if_splits)

lemma dkeys_ddel: "dkeys (ddel k d) = filter (\<lambda>k'. k' \<noteq> k) (dkeys d)"
  by (induction d) (auto simp: ddel_def)

lemma distinct_ddel [simp]: "distinct (dkeys d) \<Longrightarrow> distinct (dkeys (ddel k d))"
  by (simp add: dkeys_ddel)

lemma dset_ne_Nil [simp]: "dset k v d \<noteq> []"
  by (cases d) (auto split: if_splits)

lemma dget_SomeD: "dget d k = Some v \<Longrightarrow> (k, v) \<in> set d"
  by (auto simp: dget_def dest: map_of_SomeD)

lemma dget_Some_iff: "distinct (dkeys d) \<Longrightarrow> dget d k = Some v \<longleftrightarrow> (k, v) \<in> set d"
  by (simp add: dget_def dkeys_def map_of_eq_Some_iff)

lemma dget_dupdate [dict_simps]:
  "dget (dupdate d e) k = (case dget (rev e) k of None \<Rightarrow> dget d k | Some v \<Rightarrow> Some v)"
proof (induction e arbitrary: d)
  case (Cons p e)
  obtain a b where p: "p = (a, b)" by force
  have "dget (rev e @ [(a, b)]) k = (case dget (rev e) k of None \<Rightarrow> dget [(a, b)] k | Some v \<Rightarrow> Some v)"
    by (auto simp: dget_def map_add_def split: option.splits)
  with Cons p show ?case by (auto simp: dupdate_def split: option.splits)
qed (simp add: dupdate_def)

section \<open>Strings\<close>

definition startswith :: "string \<Rightarrow> string \<Rightarrow> bool" where
  "startswith s p = (take (length p) s = p)"

definition endswith :: "string \<Rightarrow> string \<Rightarrow> bool" where
  "endswith s p = (length p \<le> length s \<and> drop (length s - length p) s = p)"

text \<open>\<open>s.split(c)\<close> for a one-character separator: always at least one piece.\<close>

fun split_on :: "char \<Rightarrow> string \<Rightarrow> string list" where
  "split_on c [] = [[]]"
| "split_on c (x # xs) =
     (if x = c then [] # split_on c xs
      else case split_on c xs of [] \<Rightarrow> [[x]] | p # ps \<Rightarrow> (x # p) # ps)"

text \<open>\<open>s.split(c, 1)\<close>.\<close>

definition split_once :: "char \<Rightarrow> string \<Rightarrow> string list" where
  "split_once c s =
     (if c \<in> set s then [takeWhile (\<lambda>x. x \<noteq> c) s, tl (dropWhile (\<lambda>x. x \<noteq> c) s)] else [s])"

text \<open>\<open>s.rsplit(c, 1)[0]\<close>: everything before the last separator.\<close>

definition before_last :: "char \<Rightarrow> string \<Rightarrow> string" where
  "before_last c s = (if c \<in> set s then rev (tl (dropWhile (\<lambda>x. x \<noteq> c) (rev s))) else s)"

fun join_with :: "string \<Rightarrow> string list \<Rightarrow> string" where
  "join_with sep [] = []"
| "join_with sep [s] = s"
| "join_with sep (s # t # ss) = s @ sep @ join_with sep (t # ss)"

text \<open>\<open>s.replace(c, r)\<close> for a one-character pattern.\<close>

definition replace_char :: "char \<Rightarrow> string \<Rightarrow> string \<Rightarrow> string" where
  "replace_char c r s = concat (map (\<lambda>x. if x = c then r else [x]) s)"

definition count_char :: "char \<Rightarrow> string \<Rightarrow> int" where
  "count_char c s = int (length (filter (\<lambda>x. x = c) s))"

text \<open>\<open>s.upper()\<close> and \<open>s.lower()\<close> of ASCII text.\<close>

definition upper :: "string \<Rightarrow> string" where
  "upper s = map (\<lambda>c. if 97 \<le> (of_char c :: nat) \<and> (of_char c :: nat) \<le> 122
                     then char_of (of_char c - 32 :: nat) else c) s"

definition ascii_lower :: "string \<Rightarrow> string" where
  "ascii_lower s = map (\<lambda>c. if 65 \<le> (of_char c :: nat) \<and> (of_char c :: nat) \<le> 90
                           then char_of (of_char c + 32 :: nat) else c) s"

definition is_digit :: "char \<Rightarrow> bool" where
  "is_digit c = (48 \<le> (of_char c :: nat) \<and> (of_char c :: nat) \<le> 57)"

lemma is_digit_code [code]:
  "is_digit (Char b0 b1 b2 b3 b4 b5 b6 b7) \<longleftrightarrow> b4 \<and> b5 \<and> \<not> b6 \<and> \<not> b7 \<and> (b3 \<longrightarrow> \<not> b1 \<and> \<not> b2)"
  by (cases b0; cases b1; cases b2; cases b3; cases b4; cases b5; cases b6; cases b7) (simp_all add: is_digit_def)

text \<open>\<open>s.isdigit()\<close> on ASCII strings.\<close>

definition isdigit :: "string \<Rightarrow> bool" where
  "isdigit s = (s \<noteq> [] \<and> list_all is_digit s)"

definition is_space :: "char \<Rightarrow> bool" where
  "is_space c = (c \<in> {CHR '' '', CHR 0x09, CHR 0x0A, CHR 0x0B, CHR 0x0C, CHR 0x0D})"

definition strip :: "string \<Rightarrow> string" where
  "strip s = rev (dropWhile is_space (rev (dropWhile is_space s)))"

lemma split_on_nonempty [simp]: "split_on c s \<noteq> []"
  by (induction s) (auto split: list.splits)

lemma join_split_on [simp]: "join_with [c] (split_on c s) = s"
proof (induction s)
  case (Cons x xs)
  then show ?case
    by (cases "split_on c xs"; cases "tl (split_on c xs)") auto
qed simp

lemma split_on_none: "c \<notin> set s \<Longrightarrow> split_on c s = [s]"
  by (induction s) auto

lemma split_on_append:
  "c \<notin> set s \<Longrightarrow> split_on c (s @ c # t) = s # split_on c t"
  by (induction s) auto

lemma split_on_join:
  "ss \<noteq> [] \<Longrightarrow> (\<And>s. s \<in> set ss \<Longrightarrow> c \<notin> set s) \<Longrightarrow> split_on c (join_with [c] ss) = ss"
proof (induction "[c]" ss rule: join_with.induct)
  case (3 s t ss)
  then show ?case by (simp add: split_on_append)
qed (auto simp: split_on_none)

lemma startswith_append [simp]: "startswith (p @ s) p"
  by (simp add: startswith_def)

lemma startswith_refl [simp]: "startswith s s"
  by (simp add: startswith_def)

lemma startswith_iff: "startswith s p \<longleftrightarrow> (\<exists>r. s = p @ r)"
  unfolding startswith_def by (metis append_eq_conv_conj append_take_drop_id)

section \<open>Decimal numerals\<close>

definition digit_char :: "nat \<Rightarrow> char" where
  "digit_char n = char_of (48 + n :: nat)"

definition digit_val :: "char \<Rightarrow> nat" where
  "digit_val c = of_char c - 48"

fun str_nat :: "nat \<Rightarrow> string" where
  "str_nat n = (if n < 10 then [digit_char n] else str_nat (n div 10) @ [digit_char (n mod 10)])"

declare str_nat.simps [simp del]

definition str_int :: "int \<Rightarrow> string" where
  "str_int i = (if i < 0 then CHR ''-'' # str_nat (nat (- i)) else str_nat (nat i))"

definition nat_digits :: "string \<Rightarrow> nat" where
  "nat_digits s = foldl (\<lambda>a c. 10 * a + digit_val c) 0 s"

text \<open>
  \<open>int(s)\<close>: optional blanks, an optional sign and decimal digits, with single underscores between them;
  anything else is a \<open>ValueError\<close>.
\<close>

definition py_int :: "string \<Rightarrow> int res" where
  "py_int s =
     (let t = strip s;
          neg = startswith t ''-'';
          ds = (if neg \<or> startswith t ''+'' then tl t else t);
          digits = filter (\<lambda>c. c \<noteq> CHR ''_'') ds
      in if list_all isdigit (split_on (CHR ''_'') ds)
         then Inr (if neg then - int (nat_digits digits) else int (nat_digits digits))
         else Inl (ValueError ''invalid literal for int()''))"

lemma digit_char_val: "n < 10 \<Longrightarrow> digit_val (digit_char n) = n"
  by (simp add: digit_val_def digit_char_def)

lemma is_digit_char: "n < 10 \<Longrightarrow> is_digit (digit_char n)"
  by (simp add: is_digit_def digit_char_def)

lemma str_nat_digits: "list_all is_digit (str_nat n) \<and> str_nat n \<noteq> []"
proof (induction n rule: str_nat.induct)
  case (1 n)
  then show ?case
    by (subst (1 2) str_nat.simps) (auto simp: is_digit_char)
qed

lemma nat_digits_snoc: "nat_digits (s @ [c]) = 10 * nat_digits s + digit_val c"
  by (simp add: nat_digits_def)

lemma nat_digits_str_nat [simp]: "nat_digits (str_nat n) = n"
proof (induction n rule: str_nat.induct)
  case (1 n)
  show ?case
  proof (cases "n < 10")
    case True
    then show ?thesis
      by (subst str_nat.simps) (simp add: nat_digits_def digit_char_val)
  next
    case False
    then have "nat_digits (str_nat n) = 10 * (n div 10) + n mod 10"
      using 1 by (subst str_nat.simps) (simp add: nat_digits_snoc digit_char_val)
    then show ?thesis by simp
  qed
qed

lemma is_digit_not_space: "is_digit c \<Longrightarrow> \<not> is_space c"
  by (auto simp: is_digit_def is_space_def)

lemma strip_id:
  assumes "s \<noteq> []" and "\<not> is_space (hd s)" and "\<not> is_space (last s)"
  shows "strip s = s"
proof -
  have "dropWhile is_space s = s" using assms by (cases s) auto
  moreover have "dropWhile is_space (rev s) = rev s"
    using assms by (cases s rule: rev_cases) auto
  ultimately show ?thesis by (simp add: strip_def)
qed

lemma digits_hd_last:
  assumes "list_all is_digit s" and "s \<noteq> []"
  shows "is_digit (hd s)" and "is_digit (last s)"
  using assms by (auto simp: list_all_iff)

lemma not_digit_sign: "\<not> is_digit CHR ''-''" "\<not> is_digit CHR ''+''"
  by (simp_all add: is_digit_def)

lemma strip_digits: "list_all is_digit s \<Longrightarrow> s \<noteq> [] \<Longrightarrow> strip s = s"
  using digits_hd_last is_digit_not_space strip_id by blast

lemma plain_digits:
  assumes "list_all is_digit s" and "s \<noteq> []"
  shows "list_all isdigit (split_on (CHR ''_'') s)" and "filter (\<lambda>c. c \<noteq> CHR ''_'') s = s"
proof -
  have u: "\<not> is_digit CHR ''_''" by (simp add: is_digit_def)
  then have n: "CHR ''_'' \<notin> set s" using assms(1) by (auto simp: list_all_iff)
  then show "list_all isdigit (split_on (CHR ''_'') s)" using assms by (simp add: split_on_none isdigit_def)
  show "filter (\<lambda>c. c \<noteq> CHR ''_'') s = s" using n by (auto intro: filter_True)
qed

lemma py_int_digits:
  assumes "list_all is_digit s" and "s \<noteq> []"
  shows "py_int s = Inr (int (nat_digits s))"
proof -
  have "\<not> startswith s ''-''" "\<not> startswith s ''+''"
    using digits_hd_last(1) [OF assms] assms(2) not_digit_sign
    by (cases s; auto simp: startswith_def)+
  then show ?thesis
    using assms plain_digits [OF assms] by (simp add: py_int_def strip_digits)
qed

lemma py_int_str_int [simp]: "py_int (str_int i) = Inr i"
proof (cases "i < 0")
  case True
  let ?d = "str_nat (nat (- i))"
  have d: "list_all is_digit ?d" "?d \<noteq> []" using str_nat_digits by auto
  have "strip (CHR ''-'' # ?d) = CHR ''-'' # ?d"
    using d digits_hd_last(2) [OF d] is_digit_not_space
    by (intro strip_id) (auto simp: is_space_def)
  then show ?thesis
    using True d plain_digits [OF d] by (simp add: py_int_def str_int_def startswith_def)
next
  case False
  with str_nat_digits show ?thesis
    by (simp add: str_int_def py_int_digits)
qed

lemma str_int_inject [simp]: "str_int i = str_int j \<longleftrightarrow> i = j"
  by (metis py_int_str_int Inr_inject)

text \<open>Evaluation goes over integers, and the recursion over a condition in an argument.\<close>

definition int_digits :: "bool \<Rightarrow> int \<Rightarrow> string" where
  "int_digits b i = (if b then [digit_char (nat i)] else str_nat (nat (i div 10)) @ [digit_char (nat (i mod 10))])"

lemma int_digits_str_nat: "int_digits (i < 10) i = str_nat (nat i)"
proof (cases "i < 10")
  case True
  then have "nat i < 10" by simp
  with True show ?thesis by (simp add: int_digits_def str_nat.simps [of "nat i"])
next
  case False
  then have "nat i div 10 = nat (i div 10)" "nat i mod 10 = nat (i mod 10)"
    by (simp_all add: nat_div_distrib nat_mod_distrib)
  moreover have "\<not> nat i < 10" using False by simp
  ultimately show ?thesis using False by (simp add: int_digits_def str_nat.simps [of "nat i"])
qed

lemma int_digits_code [code]:
  "int_digits True i = [digit_char (nat i)]"
  "int_digits False i = int_digits (i div 10 < 10) (i div 10) @ [digit_char (nat (i mod 10))]"
  by (simp_all add: int_digits_str_nat) (simp_all add: int_digits_def)

lemma str_int_code [code]:
  "str_int i = (if i < 0 then CHR ''-'' # int_digits (- i < 10) (- i) else int_digits (i < 10) i)"
  by (simp add: str_int_def int_digits_str_nat)

lemma int_nat_digits: "int (nat_digits s) = foldl (\<lambda>a c. 10 * a + int (digit_val c)) 0 s"
  by (induction s rule: rev_induct) (simp_all add: nat_digits_def)

lemma py_int_code [code]:
  "py_int s =
     (let t = strip s;
          neg = startswith t ''-'';
          ds = (if neg \<or> startswith t ''+'' then tl t else t);
          n = foldl (\<lambda>a c. 10 * a + int (digit_val c)) 0 (filter (\<lambda>c. c \<noteq> CHR ''_'') ds)
      in if list_all isdigit (split_on (CHR ''_'') ds) then Inr (if neg then - n else n)
         else Inl (ValueError ''invalid literal for int()''))"
  by (simp add: py_int_def Let_def int_nat_digits)

section \<open>Sorting with a comparison function\<close>

text \<open>\<open>sorted(xs, key=cmp_to_key(cmp))\<close>: the stable sort, here by insertion.\<close>

fun insert_cmp :: "('a \<Rightarrow> 'a \<Rightarrow> int) \<Rightarrow> 'a \<Rightarrow> 'a list \<Rightarrow> 'a list" where
  "insert_cmp cmp x [] = [x]"
| "insert_cmp cmp x (y # ys) = (if cmp x y \<le> 0 then x # y # ys else y # insert_cmp cmp x ys)"

definition sorted_cmp :: "('a \<Rightarrow> 'a \<Rightarrow> int) \<Rightarrow> 'a list \<Rightarrow> 'a list" where
  "sorted_cmp cmp xs = foldr (insert_cmp cmp) xs []"

lemma mset_insert_cmp [simp]: "mset (insert_cmp cmp x xs) = add_mset x (mset xs)"
  by (induction xs) auto

lemma mset_sorted_cmp [simp]: "mset (sorted_cmp cmp xs) = mset xs"
  by (induction xs) (auto simp: sorted_cmp_def)

lemma set_sorted_cmp [simp]: "set (sorted_cmp cmp xs) = set xs"
  by (metis mset_sorted_cmp set_mset_mset)

lemma set_insert_cmp [simp]: "set (insert_cmp cmp x xs) = insert x (set xs)"
  by (induction xs) auto

lemma sorted_insert_cmp:
  assumes total: "\<And>a b. cmp a b \<le> 0 \<or> cmp b a \<le> 0"
    and trans: "\<And>a b c. cmp a b \<le> 0 \<Longrightarrow> cmp b c \<le> 0 \<Longrightarrow> cmp a c \<le> (0::int)"
    and "sorted_wrt (\<lambda>a b. cmp a b \<le> 0) xs"
  shows "sorted_wrt (\<lambda>a b. cmp a b \<le> 0) (insert_cmp cmp x xs)"
  using assms(3)
proof (induction xs)
  case (Cons y ys)
  show ?case
  proof (cases "cmp x y \<le> 0")
    case True
    with Cons.prems trans show ?thesis by auto
  next
    case False
    with total have "cmp y x \<le> 0" by blast
    with False Cons show ?thesis by auto
  qed
qed simp

lemma sorted_sorted_cmp:
  assumes "\<And>a b. cmp a b \<le> 0 \<or> cmp b a \<le> 0"
    and "\<And>a b c. cmp a b \<le> 0 \<Longrightarrow> cmp b c \<le> 0 \<Longrightarrow> cmp a c \<le> (0::int)"
  shows "sorted_wrt (\<lambda>a b. cmp a b \<le> 0) (sorted_cmp cmp xs)"
proof (induction xs)
  case (Cons x xs)
  then have "sorted_wrt (\<lambda>a b. cmp a b \<le> 0) (insert_cmp cmp x (sorted_cmp cmp xs))"
    using assms by (intro sorted_insert_cmp) blast+
  then show ?case by (simp add: sorted_cmp_def)
qed (simp add: sorted_cmp_def)

text \<open>\<open>set(...)\<close> iterated once: first occurrences, in order.\<close>

definition dedup :: "'a list \<Rightarrow> 'a list" where
  "dedup xs = rev (remdups (rev xs))"

lemma set_dedup [simp]: "set (dedup xs) = set xs"
  by (simp add: dedup_def)

lemma distinct_dedup [simp]: "distinct (dedup xs)"
  by (simp add: dedup_def)

end
