(* ===== verification/Json.thy ===== *)
theory Json
  imports Prelude
begin

text \<open>
  JSON documents as Python holds them after \<open>json.loads\<close>: dictionaries in insertion order, Python's
  \<open>==\<close>, truth value, subscription and membership, and the tokens of a path.  \<open>None\<close> is \<open>JNull\<close>.
  Floating-point numbers do not occur in ConfigDB documents and are left out.

  The second half states the documented behaviour of the two third-party packages the updater
  calls, JSON Pointer (RFC 6901) and JSON Patch (RFC 6902), as reference functions on token lists.
  They are the instance that shows the hypotheses about those packages can hold.
\<close>

named_theorems json_simps \<open>evaluation rules for documents\<close>

section \<open>Documents\<close>

datatype json =
    JNull
  | JBool bool
  | JInt int
  | JStr string
  | JList "json list"
  | JObj "(string \<times> json) list"

lemma size_member_obj [termination_simp]:
  "p \<in> set xs \<Longrightarrow> size (snd p) < Suc (size_list (size_prod (\<lambda>_. 0) size) xs)"
  by (induction xs) auto

lemma size_member_zip [termination_simp]:
  "p \<in> set (zip xs ys) \<Longrightarrow> size (fst p) < Suc (size_list size xs)"
proof -
  assume "p \<in> set (zip xs ys)"
  then have "fst p \<in> set xs" by (metis prod.collapse set_zip_leftD)
  then show ?thesis by (simp add: less_Suc_eq_le size_list_estimation')
qed

text \<open>Python's \<open>==\<close>: the order of dictionary keys does not matter, booleans are numbers.\<close>

fun json_eq :: "json \<Rightarrow> json \<Rightarrow> bool" where
  "json_eq JNull JNull = True"
| "json_eq (JBool a) (JBool b) = (a = b)"
| "json_eq (JBool a) (JInt i) = ((if a then 1 else 0) = i)"
| "json_eq (JInt i) (JBool a) = ((if a then 1 else 0) = i)"
| "json_eq (JInt i) (JInt j) = (i = j)"
| "json_eq (JStr s) (JStr t) = (s = t)"
| "json_eq (JList xs) (JList ys) =
     (length xs = length ys \<and> list_all (\<lambda>p. json_eq (fst p) (snd p)) (zip xs ys))"
| "json_eq (JObj xs) (JObj ys) =
     (length xs = length ys \<and>
      list_all (\<lambda>p. case dget ys (fst p) of None \<Rightarrow> False | Some w \<Rightarrow> json_eq (snd p) w) xs)"
| "json_eq _ _ = False"

fun truthy :: "json \<Rightarrow> bool" where
  "truthy JNull = False"
| "truthy (JBool b) = b"
| "truthy (JInt i) = (i \<noteq> 0)"
| "truthy (JStr s) = (s \<noteq> [])"
| "truthy (JList xs) = (xs \<noteq> [])"
| "truthy (JObj d) = (d \<noteq> [])"

fun is_obj :: "json \<Rightarrow> bool" where
  "is_obj (JObj _) = True"
| "is_obj _ = False"

fun is_list :: "json \<Rightarrow> bool" where
  "is_list (JList _) = True"
| "is_list _ = False"

text \<open>Keys of a dictionary are distinct, at every level.\<close>

fun wf_json :: "json \<Rightarrow> bool" where
  "wf_json (JList xs) = list_all wf_json xs"
| "wf_json (JObj d) = (distinct (dkeys d) \<and> list_all (\<lambda>p. wf_json (snd p)) d)"
| "wf_json _ = True"

lemma wf_json_dget: "wf_json (JObj d) \<Longrightarrow> dget d k = Some v \<Longrightarrow> wf_json v"
  by (force simp: list_all_iff dest: dget_SomeD)

lemma list_all_dset:
  "list_all (\<lambda>p. P (snd p)) d \<Longrightarrow> P v \<Longrightarrow> list_all (\<lambda>p. P (snd p)) (dset k v d)"
  by (induction d) (auto split: if_splits)

lemma wf_json_dset: "wf_json (JObj d) \<Longrightarrow> wf_json v \<Longrightarrow> wf_json (JObj (dset k v d))"
  by (simp add: list_all_dset)

lemma wf_json_ddel: "wf_json (JObj d) \<Longrightarrow> wf_json (JObj (ddel k d))"
  by (auto simp: ddel_def list_all_iff dkeys_def distinct_map_filter)

subsection \<open>Equality is an equivalence on well-formed documents\<close>

lemma json_eq_refl: "wf_json j \<Longrightarrow> json_eq j j"
proof (induction j)
  case (JList xs)
  then show ?case by (auto simp: list_all_iff zip_same)
next
  case (JObj d)
  have "list_all (\<lambda>p. case dget d (fst p) of None \<Rightarrow> False | Some w \<Rightarrow> json_eq (snd p) w) d"
    unfolding list_all_iff
  proof
    fix p assume p: "p \<in> set d"
    with JObj.prems have "dget d (fst p) = Some (snd p)" by (simp add: dget_Some_iff)
    moreover have "json_eq (snd p) (snd p)"
      using JObj p by (cases p) (auto simp: list_all_iff)
    ultimately show "case dget d (fst p) of None \<Rightarrow> False | Some w \<Rightarrow> json_eq (snd p) w" by simp
  qed
  then show ?case by simp
qed auto

lemma json_eq_trans: "json_eq a b \<Longrightarrow> json_eq b c \<Longrightarrow> json_eq a c"
proof (induction a arbitrary: b c)
  case (JList xs)
  from JList.prems obtain ys zs where l: "b = JList ys" "c = JList zs" by (cases b; cases c) auto
  with JList.prems have len: "length xs = length ys" "length ys = length zs" by auto
  have "json_eq (xs ! i) (zs ! i)" if "i < length xs" for i
  proof -
    have "json_eq (xs ! i) (ys ! i)" "json_eq (ys ! i) (zs ! i)"
      using JList.prems l len that by (simp_all add: list_all_length)
    moreover have "xs ! i \<in> set xs" using that by simp
    ultimately show ?thesis using JList.IH by blast
  qed
  with l len show ?case by (simp add: list_all_length)
next
  case (JObj xs)
  from JObj.prems obtain ys zs where l: "b = JObj ys" "c = JObj zs" by (cases b; cases c) auto
  with JObj.prems have len: "length xs = length ys" "length ys = length zs" by auto
  have "case dget zs (fst p) of None \<Rightarrow> False | Some w \<Rightarrow> json_eq (snd p) w" if p: "p \<in> set xs" for p
  proof -
    from JObj.prems(1) l p obtain w where w: "dget ys (fst p) = Some w" "json_eq (snd p) w"
      by (auto simp: list_all_iff split: option.splits)
    then have "(fst p, w) \<in> set ys" by (auto dest: dget_SomeD)
    with JObj.prems(2) l obtain u where u: "dget zs (fst p) = Some u" "json_eq w u"
      by (fastforce simp: list_all_iff split: option.splits)
    with w JObj.IH [of p "snd p"] p show ?thesis by (cases p) auto
  qed
  with l len show ?case by (simp add: list_all_iff)
next
  case JNull
  then show ?case by (cases b; cases c) auto
next
  case (JBool x)
  then show ?case by (cases b; cases c) (auto split: if_splits)
next
  case (JInt x)
  then show ?case by (cases b; cases c) (auto split: if_splits)
next
  case (JStr x)
  then show ?case by (cases b; cases c) auto
qed

lemma json_eq_obj_get:
  assumes eq: "json_eq (JObj xs) (JObj ys)" and wx: "wf_json (JObj xs)" and wy: "wf_json (JObj ys)"
  shows "rel_option json_eq (dget xs k) (dget ys k)"
proof (cases "dget xs k")
  case (Some v)
  then have "(k, v) \<in> set xs" by (rule dget_SomeD)
  with eq Some show ?thesis by (fastforce simp: list_all_iff split: option.splits)
next
  case None
  have sub: "set (dkeys xs) \<subseteq> set (dkeys ys)"
  proof
    fix a assume "a \<in> set (dkeys xs)"
    then obtain p where "p \<in> set xs" "fst p = a" by (auto simp: dkeys_def)
    with eq show "a \<in> set (dkeys ys)"
      by (fastforce simp: list_all_iff split: option.splits dest: dget_SomeD intro: rev_image_eqI
          simp: dkeys_def)
  qed
  have "card (set (dkeys ys)) = card (set (dkeys xs))"
    using eq wx wy by (simp add: distinct_card) (simp add: dkeys_def)
  with sub have "set (dkeys xs) = set (dkeys ys)" by (simp add: card_subset_eq)
  moreover from None have "k \<notin> set (dkeys xs)" by (simp add: dget_None_iff)
  ultimately have "dget ys k = None" by (simp add: dget_None_iff)
  with None show ?thesis by simp
qed

lemma json_eq_sym: "json_eq a b \<Longrightarrow> wf_json a \<Longrightarrow> wf_json b \<Longrightarrow> json_eq b a"
proof (induction a arbitrary: b)
  case (JList xs)
  from JList.prems(1) obtain ys where l: "b = JList ys" by (cases b) auto
  with JList.prems have len: "length xs = length ys" by auto
  have "json_eq (ys ! i) (xs ! i)" if "i < length xs" for i
  proof -
    have "json_eq (xs ! i) (ys ! i)" "wf_json (xs ! i)" "wf_json (ys ! i)"
      using JList.prems l len that by (simp_all add: list_all_length)
    moreover have "xs ! i \<in> set xs" using that by simp
    ultimately show ?thesis using JList.IH by blast
  qed
  with l len show ?case by (simp add: list_all_length)
next
  case (JObj xs)
  from JObj.prems(1) obtain ys where l: "b = JObj ys" by (cases b) auto
  with JObj.prems have len: "length xs = length ys" by auto
  have "case dget xs (fst p) of None \<Rightarrow> False | Some w \<Rightarrow> json_eq (snd p) w" if p: "p \<in> set ys" for p
  proof -
    have "dget ys (fst p) = Some (snd p)" using p JObj.prems(3) l by (simp add: dget_Some_iff)
    moreover have "rel_option json_eq (dget xs (fst p)) (dget ys (fst p))"
      using json_eq_obj_get JObj.prems l by blast
    ultimately obtain v where v: "dget xs (fst p) = Some v" "json_eq v (snd p)"
      by (cases "dget xs (fst p)") auto
    then have mem: "(fst p, v) \<in> set xs" by (auto dest: dget_SomeD)
    have "wf_json v" "wf_json (snd p)"
      using wf_json_dget [OF JObj.prems(2) v(1)] wf_json_dget JObj.prems(3) l
        \<open>dget ys (fst p) = Some (snd p)\<close> by blast+
    with JObj.IH [OF mem] v show ?thesis by simp
  qed
  with l len show ?case by (simp add: list_all_iff)
next
  case JNull
  then show ?case by (cases b) auto
next
  case (JBool x)
  then show ?case by (cases b) (auto split: if_splits)
next
  case (JInt x)
  then show ?case by (cases b) (auto split: if_splits)
next
  case (JStr x)
  then show ?case by (cases b) auto
qed

section \<open>Tokens, subscription and membership\<close>

text \<open>A path token is a dictionary key or a list index; indices appear where the code enumerates a list.\<close>

datatype token = TStr string | TIdx int

fun tok_str :: "token \<Rightarrow> string" where
  "tok_str (TStr s) = s"
| "tok_str (TIdx i) = str_int i"

text \<open>The documented order of the tokens: indices before keys; used where tokens are sorted.\<close>

instantiation token :: linorder
begin

fun less_eq_token :: "token \<Rightarrow> token \<Rightarrow> bool" where
  "less_eq_token (TIdx i) (TIdx j) = (i \<le> j)"
| "less_eq_token (TIdx _) (TStr _) = True"
| "less_eq_token (TStr _) (TIdx _) = False"
| "less_eq_token (TStr s) (TStr t) = (s \<le> t)"

definition less_token :: "token \<Rightarrow> token \<Rightarrow> bool" where
  "less_token a b \<longleftrightarrow> a \<le> b \<and> \<not> b \<le> (a :: token)"

instance
proof
  fix a b c :: token
  show "a < b \<longleftrightarrow> a \<le> b \<and> \<not> b \<le> a" by (rule less_token_def)
  show "a \<le> a" by (cases a) auto
  show "a \<le> b \<Longrightarrow> b \<le> c \<Longrightarrow> a \<le> c" by (cases a; cases b; cases c) auto
  show "a \<le> b \<Longrightarrow> b \<le> a \<Longrightarrow> a = b" by (cases a; cases b) auto
  show "a \<le> b \<or> b \<le> a" by (cases a; cases b) auto
qed

end

text \<open>\<open>obj[token]\<close>.\<close>

definition py_index :: "'a list \<Rightarrow> int \<Rightarrow> 'a res" where
  "py_index xs i =
     (let j = (if i < 0 then int (length xs) + i else i)
      in if 0 \<le> j \<and> j < int (length xs) then Inr (xs ! nat j) else Inl IndexError)"

fun py_getitem :: "json \<Rightarrow> token \<Rightarrow> json res" where
  "py_getitem (JObj d) (TStr k) = (case dget d k of None \<Rightarrow> Inl (KeyError k) | Some v \<Rightarrow> Inr v)"
| "py_getitem (JObj d) (TIdx i) = Inl (KeyError (str_int i))"
| "py_getitem (JList xs) (TIdx i) = py_index xs i"
| "py_getitem (JStr s) (TIdx i) = rbind (py_index s i) (\<lambda>c. Inr (JStr [c]))"
| "py_getitem _ _ = Inl TypeError"

text \<open>\<open>token in obj\<close>.\<close>

fun is_infix :: "string \<Rightarrow> string \<Rightarrow> bool" where
  "is_infix p [] = (p = [])"
| "is_infix p (c # s) = (startswith (c # s) p \<or> is_infix p s)"

fun py_in :: "token \<Rightarrow> json \<Rightarrow> bool res" where
  "py_in (TStr k) (JObj d) = Inr (dhas d k)"
| "py_in (TIdx i) (JObj d) = Inr False"
| "py_in (TStr k) (JList xs) = Inr (list_ex (json_eq (JStr k)) xs)"
| "py_in (TIdx i) (JList xs) = Inr (list_ex (json_eq (JInt i)) xs)"
| "py_in (TStr k) (JStr s) = Inr (is_infix k s)"
| "py_in _ _ = Inl TypeError"

text \<open>\<open>len(obj)\<close> and the keys a \<open>for\<close> loop over a dictionary visits.\<close>

fun py_len :: "json \<Rightarrow> int res" where
  "py_len (JObj d) = Inr (int (length d))"
| "py_len (JList xs) = Inr (int (length xs))"
| "py_len (JStr s) = Inr (int (length s))"
| "py_len _ = Inl TypeError"

fun py_keys :: "json \<Rightarrow> string list res" where
  "py_keys (JObj d) = Inr (dkeys d)"
| "py_keys _ = Inl AttributeError"

text \<open>\<open>obj.get(key)\<close>: \<open>None\<close> when absent.\<close>

fun py_get :: "json \<Rightarrow> string \<Rightarrow> json res" where
  "py_get (JObj d) k = Inr (case dget d k of None \<Rightarrow> JNull | Some v \<Rightarrow> v)"
| "py_get _ _ = Inl AttributeError"

text \<open>\<open>for token in tokens: config = config[token]\<close>.\<close>

fun py_path :: "json \<Rightarrow> token list \<Rightarrow> json res" where
  "py_path j [] = Inr j"
| "py_path j (t # ts) = rbind (py_getitem j t) (\<lambda>v. py_path v ts)"

lemma py_path_append: "py_path j (ts @ us) = rbind (py_path j ts) (\<lambda>v. py_path v us)"
  by (induction ts arbitrary: j) (auto simp: rbind_assoc)

lemma py_getitem_obj_iff:
  "py_getitem (JObj d) (TStr k) = Inr v \<longleftrightarrow> dget d k = Some v"
  by (auto split: option.splits)

section \<open>JSON Pointer, the documented behaviour (RFC 6901)\<close>

fun escape :: "string \<Rightarrow> string" where
  "escape [] = []"
| "escape (c # s) =
     (if c = CHR ''~'' then ''~0'' @ escape s
      else if c = CHR ''/'' then ''~1'' @ escape s else c # escape s)"

fun unescape :: "string \<Rightarrow> string" where
  "unescape [] = []"
| "unescape [c] = [c]"
| "unescape (c # d # s) =
     (if c = CHR ''~'' \<and> d = CHR ''1'' then CHR ''/'' # unescape s
      else if c = CHR ''~'' \<and> d = CHR ''0'' then CHR ''~'' # unescape s
      else c # unescape (d # s))"

definition ptr_join :: "token list \<Rightarrow> string" where
  "ptr_join ts = concat (map (\<lambda>t. CHR ''/'' # escape (tok_str t)) ts)"

definition ptr_split :: "string \<Rightarrow> string list" where
  "ptr_split p =
     (if p = [] \<or> p = ''/'' then [] else map unescape (tl (split_on (CHR ''/'') p)))"

lemma unescape_Cons_plain: "c \<noteq> CHR ''~'' \<Longrightarrow> unescape (c # s) = c # unescape s"
  by (cases s) auto

lemma unescape_escape [simp]: "unescape (escape s) = s"
  by (induction s) (auto simp: unescape_Cons_plain)

lemma escape_no_slash: "CHR ''/'' \<notin> set (escape s)"
  by (induction s) auto

lemma split_ptr_join:
  "split_on (CHR ''/'') (ptr_join ts) = [] # map (\<lambda>t. escape (tok_str t)) ts"
proof (induction ts)
  case (Cons t ts)
  have "split_on (CHR ''/'') (escape (tok_str t) @ ptr_join ts) =
        escape (tok_str t) # map (\<lambda>t. escape (tok_str t)) ts"
  proof (cases ts)
    case Nil
    then show ?thesis by (simp add: ptr_join_def split_on_none escape_no_slash)
  next
    case (Cons u us)
    then obtain r where r: "ptr_join ts = CHR ''/'' # r" by (simp add: ptr_join_def)
    with Cons.IH have "split_on (CHR ''/'') r = map (\<lambda>t. escape (tok_str t)) ts" by simp
    with r show ?thesis by (simp add: split_on_append escape_no_slash)
  qed
  then show ?case by (simp add: ptr_join_def)
qed (simp add: ptr_join_def)

lemma ptr_join_slash: "ptr_join ts = ''/'' \<Longrightarrow> map tok_str ts = [[]]"
  using split_ptr_join [of ts] by (cases ts) (auto, metis unescape.simps(1) unescape_escape)

text \<open>Splitting undoes joining, but for the single empty token, which the split drops.\<close>

theorem ptr_split_join:
  assumes "map tok_str ts \<noteq> [[]]"
  shows "ptr_split (ptr_join ts) = map tok_str ts"
proof (cases "ts = []")
  case False
  then have "ptr_join ts \<noteq> []" by (cases ts) (auto simp: ptr_join_def)
  moreover have "ptr_join ts \<noteq> ''/''" using assms ptr_join_slash by blast
  ultimately show ?thesis by (simp add: ptr_split_def split_ptr_join)
qed (simp add: ptr_split_def ptr_join_def)

definition array_index :: "string \<Rightarrow> nat option" where
  "array_index s = (if isdigit s \<and> (s = ''0'' \<or> hd s \<noteq> CHR ''0'') then Some (nat_digits s) else None)"

text \<open>\<open>JsonPointer(path).get(doc, default=None)\<close>.\<close>

fun ptr_get :: "string list \<Rightarrow> json \<Rightarrow> json" where
  "ptr_get [] j = j"
| "ptr_get (k # ks) (JObj d) = (case dget d k of None \<Rightarrow> JNull | Some v \<Rightarrow> ptr_get ks v)"
| "ptr_get (k # ks) (JList xs) =
     (case array_index k of
        None \<Rightarrow> JNull
      | Some i \<Rightarrow> if i < length xs then ptr_get ks (xs ! i) else JNull)"
| "ptr_get (k # ks) _ = JNull"

section \<open>JSON Patch, the documented behaviour (RFC 6902)\<close>

text \<open>
  \<open>edit f ks\<close> runs \<open>f\<close> on the container that holds the last token; every earlier token must exist.
\<close>

definition patch_conflict :: py_error where
  "patch_conflict = JsonPatchError ''conflict''"

fun edit :: "(string \<Rightarrow> json \<Rightarrow> json res) \<Rightarrow> string list \<Rightarrow> json \<Rightarrow> json res" where
  "edit f [] j = Inl patch_conflict"
| "edit f [k] j = f k j"
| "edit f (k # k' # ks) (JObj d) =
     (case dget d k of
        None \<Rightarrow> Inl patch_conflict
      | Some v \<Rightarrow> rbind (edit f (k' # ks) v) (\<lambda>w. Inr (JObj (dset k w d))))"
| "edit f (k # k' # ks) (JList xs) =
     (case array_index k of
        None \<Rightarrow> Inl patch_conflict
      | Some i \<Rightarrow> if i < length xs
                  then rbind (edit f (k' # ks) (xs ! i)) (\<lambda>w. Inr (JList (xs[i := w])))
                  else Inl patch_conflict)"
| "edit f (k # k' # ks) _ = Inl patch_conflict"

fun add_at :: "json \<Rightarrow> string \<Rightarrow> json \<Rightarrow> json res" where
  "add_at v k (JObj d) = Inr (JObj (dset k v d))"
| "add_at v k (JList xs) =
     (if k = ''-'' then Inr (JList (xs @ [v]))
      else case array_index k of
             None \<Rightarrow> Inl patch_conflict
           | Some i \<Rightarrow> if i \<le> length xs then Inr (JList (take i xs @ v # drop i xs))
                       else Inl patch_conflict)"
| "add_at v k _ = Inl patch_conflict"

fun remove_at :: "string \<Rightarrow> json \<Rightarrow> json res" where
  "remove_at k (JObj d) = (if dhas d k then Inr (JObj (ddel k d)) else Inl patch_conflict)"
| "remove_at k (JList xs) =
     (case array_index k of
        None \<Rightarrow> Inl patch_conflict
      | Some i \<Rightarrow> if i < length xs then Inr (JList (take i xs @ drop (Suc i) xs))
                  else Inl patch_conflict)"
| "remove_at k _ = Inl patch_conflict"

fun replace_at :: "json \<Rightarrow> string \<Rightarrow> json \<Rightarrow> json res" where
  "replace_at v k (JObj d) = (if dhas d k then Inr (JObj (dset k v d)) else Inl patch_conflict)"
| "replace_at v k (JList xs) =
     (case array_index k of
        None \<Rightarrow> Inl patch_conflict
      | Some i \<Rightarrow> if i < length xs then Inr (JList (xs[i := v])) else Inl patch_conflict)"
| "replace_at v k _ = Inl patch_conflict"

definition rfc_op :: "string \<Rightarrow> string list \<Rightarrow> json option \<Rightarrow> json \<Rightarrow> json res" where
  "rfc_op name ks val j =
     (if name = ''add'' then
        (case val of None \<Rightarrow> Inl patch_conflict
         | Some v \<Rightarrow> if ks = [] then Inr v else edit (add_at v) ks j)
      else if name = ''replace'' then
        (case val of None \<Rightarrow> Inl patch_conflict
         | Some v \<Rightarrow> if ks = [] then Inr v else edit (replace_at v) ks j)
      else if name = ''remove'' then edit remove_at ks j
      else Inl patch_conflict)"

end
