(* ===== verification/Moves.thy ===== *)
theory Moves
  imports Json
begin

text \<open>
  Operations, diffs, moves and move groups: \<open>OperationType\<close>, \<open>OperationWrapper\<close> and the path
  functions of \<open>PathAddressing\<close> (gu_common.py), \<open>Diff\<close>, \<open>JsonMove\<close> and \<open>JsonMoveGroup\<close>
  (patch_sorter.py).

  The code reaches three packages that are not part of the repository: \<open>sonic_yang\<close> for splitting
  and joining ConfigDB paths, \<open>jsonpointer\<close> for lookups and \<open>jsonpatch\<close> for applying and generating
  patches.  They are the fields of the record \<open>ext\<close>, an argument of every definition that reaches
  them; the locale \<open>json_ext\<close> states what the documentation of these packages promises.
\<close>

section \<open>Operations\<close>

datatype operation_type = ADD | REMOVE | REPLACE

fun op_name :: "operation_type \<Rightarrow> string" where
  "op_name ADD = ''add''"
| "op_name REMOVE = ''remove''"
| "op_name REPLACE = ''replace''"

text \<open>\<open>OperationType[name.upper()]\<close>.\<close>

definition op_of_name :: "string \<Rightarrow> operation_type res" where
  "op_of_name s =
     (if s = ''add'' then Inr ADD else if s = ''remove'' then Inr REMOVE
      else if s = ''replace'' then Inr REPLACE else Inl (KeyError s))"

record operation =
  op :: string
  op_path :: string
  op_value :: "json option"

text \<open>\<open>OperationWrapper.create\<close>: a value is recorded for \<open>add\<close> and \<open>replace\<close> only.\<close>

definition op_create :: "operation_type \<Rightarrow> string \<Rightarrow> json \<Rightarrow> operation" where
  "op_create t path v =
     \<lparr>op = op_name t, op_path = path, op_value = (if t = ADD \<or> t = REPLACE then Some v else None)\<rparr>"

section \<open>The packages outside the repository\<close>

record ext =
  path_split :: "string \<Rightarrow> string list"        \<comment> \<open>\<open>SonicYang.configdb_path_split\<close>\<close>
  path_join :: "token list \<Rightarrow> string"           \<comment> \<open>\<open>SonicYang.configdb_path_join\<close>\<close>
  pointer_get :: "string \<Rightarrow> json \<Rightarrow> json"       \<comment> \<open>\<open>JsonPointer(path).get(doc, default=None)\<close>\<close>
  patch_apply :: "operation list \<Rightarrow> json \<Rightarrow> json res"   \<comment> \<open>\<open>JsonPatch(ops).apply(doc)\<close>\<close>
  make_patch :: "json \<Rightarrow> json \<Rightarrow> operation list"         \<comment> \<open>\<open>jsonpatch.make_patch(src, dst)\<close>\<close>

text \<open>
  What the packages document: splitting a joined path gives the tokens back, a pointer is evaluated
  token by token, and a patch applies its operations in order, each as RFC 6902 says.
\<close>

locale json_ext =
  fixes E :: "'x ext_scheme"
  assumes split_join: "map tok_str ts \<noteq> [[]] \<Longrightarrow> path_split E (path_join E ts) = map tok_str ts"
    and pointer: "pointer_get E p j = ptr_get (path_split E p) j"
    and apply_nil: "patch_apply E [] j = Inr j"
    and apply_cons: "patch_apply E (x # xs) j =
      rbind (rfc_op (op x) (path_split E (op_path x)) (op_value x) j) (patch_apply E xs)"
begin

lemma apply_one:
  "patch_apply E [x] j = rfc_op (op x) (path_split E (op_path x)) (op_value x) j"
  by (cases "rfc_op (op x) (path_split E (op_path x)) (op_value x) j")
     (auto simp: apply_cons apply_nil)

lemma apply_append: "patch_apply E (xs @ ys) j = rbind (patch_apply E xs j) (patch_apply E ys)"
proof (induction xs arbitrary: j)
  case (Cons x xs)
  have "patch_apply E (xs @ ys) = (\<lambda>j. rbind (patch_apply E xs j) (patch_apply E ys))"
    using Cons.IH by (intro ext)
  then show ?case by (simp add: apply_cons rbind_assoc)
qed (simp add: apply_nil)

lemma split_join_keys: "ks \<noteq> [[]] \<Longrightarrow> path_split E (path_join E (map TStr ks)) = ks"
  using split_join [of "map TStr ks"] by (simp add: comp_def)

end

section \<open>Lookups through \<open>PathAddressing\<close>\<close>

definition get_path_tokens :: "'x ext_scheme \<Rightarrow> string \<Rightarrow> string list" where
  "get_path_tokens E path = path_split E path"

definition create_path :: "'x ext_scheme \<Rightarrow> token list \<Rightarrow> string" where
  "create_path E tokens = path_join E tokens"

definition get_from_path :: "'x ext_scheme \<Rightarrow> json \<Rightarrow> string \<Rightarrow> json" where
  "get_from_path E doc path = pointer_get E path doc"

definition has_path :: "'x ext_scheme \<Rightarrow> json \<Rightarrow> string \<Rightarrow> bool" where
  "has_path E doc path = (get_from_path E doc path \<noteq> JNull)"

definition is_config_different :: "'x ext_scheme \<Rightarrow> string \<Rightarrow> json \<Rightarrow> json \<Rightarrow> bool" where
  "is_config_different E path current target =
     (\<not> json_eq (get_from_path E current path) (get_from_path E target path))"

abbreviation str_path :: "'x ext_scheme \<Rightarrow> string list \<Rightarrow> string" where
  "str_path E ks \<equiv> create_path E (map TStr ks)"

section \<open>Diffs\<close>

record diff =
  current_config :: json
  target_config :: json

definition has_no_diff :: "diff \<Rightarrow> bool" where
  "has_no_diff d = json_eq (current_config d) (target_config d)"

text \<open>\<open>Diff.__eq__\<close>.\<close>

definition diff_eq :: "diff \<Rightarrow> diff \<Rightarrow> bool" where
  "diff_eq d d' =
     (json_eq (current_config d) (current_config d') \<and> json_eq (target_config d) (target_config d'))"

section \<open>Moves\<close>

record json_move =
  mv_patch :: operation
  mv_type :: operation_type
  mv_path :: string
  mv_value :: json
  mv_current :: "token list"
  mv_target :: "token list option"
  mv_orig :: json

text \<open>\<open>JsonMove._get_value\<close>: inside a list the token is converted with \<open>int\<close>.\<close>

definition to_index :: "token \<Rightarrow> token res" where
  "to_index t = (case t of TIdx i \<Rightarrow> Inr (TIdx i) | TStr s \<Rightarrow> rbind (py_int s) (\<lambda>i. Inr (TIdx i)))"

fun get_value :: "json \<Rightarrow> token list \<Rightarrow> json res" where
  "get_value j [] = Inr j"
| "get_value j (t # ts) =
     rbind (if is_list j then to_index t else Inr t)
       (\<lambda>t'. rbind (py_getitem j t') (\<lambda>v. get_value v ts))"

text \<open>
  The first loop of \<open>_to_jsonpatch_add_operation\<close>: the target restricted to one path.  A list on
  the way keeps the one element the path goes through.
\<close>

fun put_filtered :: "json \<Rightarrow> token \<Rightarrow> json \<Rightarrow> json res" where
  "put_filtered (JList xs) t v = Inr (JList (xs @ [v]))"
| "put_filtered (JObj d) (TStr k) v = Inr (JObj (dset k v d))"
| "put_filtered _ _ v = Inl TypeError"

fun filtered_config :: "json \<Rightarrow> token list \<Rightarrow> json \<Rightarrow> json res" where
  "filtered_config c [] ptr = Inr c"
| "filtered_config c (t # ts) ptr =
     rbind (py_getitem ptr t)
       (\<lambda>v. rbind (if ts = [] then Inr v
                   else filtered_config (if is_list v then JList [] else JObj []) ts v)
                  (put_filtered c t))"

text \<open>
  The second loop: follow the filtered target and the current configuration together, and stop after
  the first token the current configuration does not have.
\<close>

fun add_walk :: "token list \<Rightarrow> json \<Rightarrow> json \<Rightarrow> token list \<Rightarrow> (token list \<times> json) res" where
  "add_walk [] f c acc = Inr (acc, f)"
| "add_walk (t # ts) f c acc =
     rbind (if is_list f then py_getitem f (TIdx 0) else py_getitem f t)
       (\<lambda>f'. rbind (if is_list f
                    then (case t of TIdx i \<Rightarrow> rbind (py_len c) (\<lambda>n. Inr (n \<le> i))
                                  | TStr _ \<Rightarrow> Inl TypeError)
                    else rbind (py_in t c) (\<lambda>b. Inr (\<not> b)))
          (\<lambda>stop. if stop then Inr (acc @ [t], f')
                  else rbind (py_getitem c t) (\<lambda>c'. add_walk ts f' c' (acc @ [t]))))"

definition to_add_operation ::
  "'x ext_scheme \<Rightarrow> diff \<Rightarrow> token list \<Rightarrow> token list \<Rightarrow> operation res" where
  "to_add_operation E d cur tgt =
     (if cur = [] then
        rbind (get_value (target_config d) tgt) (\<lambda>v. Inr (op_create ADD (create_path E cur) v))
      else
        rbind (filtered_config (JObj []) tgt (target_config d))
          (\<lambda>f. rbind (add_walk cur f (current_config d) [])
             (\<lambda>(ts, v). Inr (op_create ADD (create_path E ts) v))))"

text \<open>
  \<open>_to_jsonpatch_operation\<close>.  A missing \<open>target_config_tokens\<close> is \<open>None\<close>, over which the loops of
  \<open>add\<close> and \<open>replace\<close> cannot run.
\<close>

definition to_operation ::
  "'x ext_scheme \<Rightarrow> diff \<Rightarrow> operation_type \<Rightarrow> token list \<Rightarrow> token list option \<Rightarrow> operation res" where
  "to_operation E d t cur tgt =
     (case t of
        REMOVE \<Rightarrow> Inr (op_create REMOVE (create_path E cur) JNull)
      | REPLACE \<Rightarrow>
          (case tgt of None \<Rightarrow> Inl TypeError
           | Some ts \<Rightarrow> rbind (get_value (target_config d) ts)
                          (\<lambda>v. Inr (op_create REPLACE (create_path E cur) v)))
      | ADD \<Rightarrow>
          (case tgt of None \<Rightarrow> Inl TypeError | Some ts \<Rightarrow> to_add_operation E d cur ts))"

definition json_move ::
  "'x ext_scheme \<Rightarrow> diff \<Rightarrow> operation_type \<Rightarrow> token list \<Rightarrow> token list option \<Rightarrow> json_move res" where
  "json_move E d t cur tgt =
     rbind (to_operation E d t cur tgt)
       (\<lambda>x. Inr \<lparr>mv_patch = x, mv_type = t, mv_path = op_path x,
                 mv_value = (case op_value x of None \<Rightarrow> JNull | Some v \<Rightarrow> v),
                 mv_current = cur, mv_target = tgt, mv_orig = JNull\<rparr>)"

text \<open>\<open>from_operation\<close> and \<open>from_patch\<close>: a move whose diff is just wide enough for the operation.\<close>

fun nest :: "string list \<Rightarrow> json \<Rightarrow> json" where
  "nest [] v = v"
| "nest (k # ks) v = JObj [(k, nest ks v)]"

definition from_operation :: "'x ext_scheme \<Rightarrow> operation \<Rightarrow> json_move res" where
  "from_operation E x =
     rbind (op_of_name (op x))
       (\<lambda>t. rbind (if t = ADD \<or> t = REPLACE
                   then (case op_value x of None \<Rightarrow> Inl (KeyError ''value'') | Some v \<Rightarrow> Inr v)
                   else Inr JNull)
          (\<lambda>v. let ks = get_path_tokens E (op_path x);
                   d = \<lparr>current_config = nest (butlast ks) (JObj []), target_config = nest ks v\<rparr>
               in json_move E d t (map TStr ks) (if t = REMOVE then None else Some (map TStr ks))))"

definition from_patch :: "'x ext_scheme \<Rightarrow> operation list \<Rightarrow> json_move res" where
  "from_patch E ops =
     (case ops of [x] \<Rightarrow> from_operation E x
      | _ \<Rightarrow> Inl (GenericConfigUpdaterError ''Only a patch of a single operation be converted to JsonMove''))"

text \<open>\<open>JsonMove.apply\<close> also records the value it is about to overwrite, for \<open>undo\<close>.\<close>

definition move_apply :: "'x ext_scheme \<Rightarrow> json_move \<Rightarrow> json \<Rightarrow> (json \<times> json_move) res" where
  "move_apply E m cfg =
     rbind (if mv_type m = REMOVE \<or> mv_type m = REPLACE
            then rbind (get_value cfg (map TStr (path_split E (mv_path m))))
                   (\<lambda>v. Inr (m\<lparr>mv_orig := v\<rparr>))
            else Inr m)
       (\<lambda>m'. rbind (patch_apply E [mv_patch m] cfg) (\<lambda>c. Inr (c, m')))"

definition move_undo :: "'x ext_scheme \<Rightarrow> json_move \<Rightarrow> json \<Rightarrow> json res" where
  "move_undo E m cfg =
     (let p = op_path (mv_patch m) in
      if op (mv_patch m) = ''add'' then
        patch_apply E [\<lparr>op = ''remove'', op_path = p, op_value = None\<rparr>] cfg
      else if op (mv_patch m) = ''replace'' then
        patch_apply E [\<lparr>op = ''replace'', op_path = p, op_value = Some (mv_orig m)\<rparr>] cfg
      else
        patch_apply E [\<lparr>op = ''add'', op_path = p, op_value = Some (mv_orig m)\<rparr>] cfg)"

section \<open>Move groups\<close>

record move_group =
  mg_name :: string
  mg_moves :: "json_move list"

definition move_group :: "string \<Rightarrow> json_move option \<Rightarrow> move_group" where
  "move_group name m = \<lparr>mg_name = name, mg_moves = (case m of None \<Rightarrow> [] | Some x \<Rightarrow> [x])\<rparr>"

definition mg_append :: "json_move \<Rightarrow> move_group \<Rightarrow> move_group" where
  "mg_append m g = g\<lparr>mg_moves := mg_moves g @ [m]\<rparr>"

definition mg_merge :: "move_group \<Rightarrow> move_group \<Rightarrow> move_group" where
  "mg_merge g h = g\<lparr>mg_moves := mg_moves g @ mg_moves h\<rparr>"

text \<open>Applying stops with \<open>None\<close> as soon as a move returns \<open>None\<close>.\<close>

fun apply_moves :: "'x ext_scheme \<Rightarrow> json_move list \<Rightarrow> json \<Rightarrow> (json \<times> json_move list) res" where
  "apply_moves E [] cfg = Inr (cfg, [])"
| "apply_moves E (m # ms) cfg =
     rbind (move_apply E m cfg)
       (\<lambda>(c, m'). if c = JNull then Inr (JNull, m' # ms)
                  else rbind (apply_moves E ms c) (\<lambda>(c', ms'). Inr (c', m' # ms')))"

definition group_apply :: "'x ext_scheme \<Rightarrow> move_group \<Rightarrow> json \<Rightarrow> (json \<times> move_group) res" where
  "group_apply E g cfg =
     rbind (apply_moves E (mg_moves g) cfg) (\<lambda>(c, ms). Inr (c, g\<lparr>mg_moves := ms\<rparr>))"

definition group_result :: "'x ext_scheme \<Rightarrow> move_group \<Rightarrow> json \<Rightarrow> json res" where
  "group_result E g cfg = rbind (group_apply E g cfg) (\<lambda>(c, _). Inr c)"

fun undo_moves :: "'x ext_scheme \<Rightarrow> json_move list \<Rightarrow> json \<Rightarrow> json res" where
  "undo_moves E [] cfg = Inr cfg"
| "undo_moves E (m # ms) cfg =
     rbind (move_undo E m cfg) (\<lambda>c. if c = JNull then Inr JNull else undo_moves E ms c)"

definition group_undo :: "'x ext_scheme \<Rightarrow> move_group \<Rightarrow> json \<Rightarrow> json res" where
  "group_undo E g cfg = undo_moves E (rev (mg_moves g)) cfg"

definition get_jsonpatch :: "move_group \<Rightarrow> operation list" where
  "get_jsonpatch g = map mv_patch (mg_moves g)"

definition apply_move :: "'x ext_scheme \<Rightarrow> diff \<Rightarrow> move_group \<Rightarrow> diff res" where
  "apply_move E d g =
     rbind (group_result E g (current_config d))
       (\<lambda>c. Inr \<lparr>current_config = c, target_config = target_config d\<rparr>)"

definition undo_move :: "'x ext_scheme \<Rightarrow> diff \<Rightarrow> move_group \<Rightarrow> diff res" where
  "undo_move E d g =
     rbind (group_undo E g (current_config d))
       (\<lambda>c. Inr \<lparr>current_config = c, target_config = target_config d\<rparr>)"

text \<open>\<open>parentTableName\<close>: the part of the first path the groups of one table share.\<close>

definition parent_table_name :: "'x ext_scheme \<Rightarrow> move_group \<Rightarrow> string res" where
  "parent_table_name E g =
     (case mg_moves g of
        [] \<Rightarrow> Inl IndexError
      | m # _ \<Rightarrow>
        (let ts = path_split E (mv_path m) in
         if ts = [] then Inl IndexError
         else if CHR ''|'' \<in> set (last ts)
         then Inr (str_path E (butlast ts @ [before_last (CHR ''|'') (last ts)]))
         else let us = butlast ts in
           if us = [] then Inl IndexError
           else if CHR ''|'' \<in> set (last us)
           then Inr (str_path E (butlast us @ [before_last (CHR ''|'') (last us)]))
           else Inr (str_path E (butlast us))))"

end
