(* ===== verification/Filters.thy ===== *)
theory Filters
  imports Moves
begin

text \<open>
  \<open>JsonPointerFilter\<close>, \<open>RequiredValueIdentifier\<close> and \<open>CreateOnlyFilter\<close> of patch_sorter.py: which
  paths of a configuration match a list of patterns, which paths require another path to have a
  value, and which fields can only be created.
\<close>

section \<open>\<open>JsonPointerFilter\<close>\<close>

text \<open>
  The keys of one level that a pattern token matches; \<open>*\<close> needs a dictionary, a plain token is
  looked up with \<open>in\<close>.
\<close>

definition matching_keys :: "string \<Rightarrow> json \<Rightarrow> string list res" where
  "matching_keys token config =
     (if token = ''*'' then py_keys config
      else if startswith token ''*|'' then
        rbind (py_keys config) (\<lambda>ks. Inr (filter (\<lambda>k. endswith k (drop 1 token)) ks))
      else if endswith token ''|*'' then
        rbind (py_keys config) (\<lambda>ks. Inr (filter (\<lambda>k. startswith k (butlast token)) ks))
      else rbind (py_in (TStr token) config) (\<lambda>b. Inr (if b then [token] else [])))"

text \<open>\<open>token.replace("@", common_key)\<close>, when a non-empty common key is given.\<close>

definition instantiate_token :: "string option \<Rightarrow> string \<Rightarrow> string" where
  "instantiate_token common_key token =
     (case common_key of
        None \<Rightarrow> token
      | Some k \<Rightarrow> if k = [] then token else replace_char (CHR ''@'') k token)"

fun get_paths_rec ::
  "'x ext_scheme \<Rightarrow> json \<Rightarrow> string list \<Rightarrow> string list \<Rightarrow> string option \<Rightarrow> string gen" where
  "get_paths_rec E config [] matching common_key = gen_one (str_path E matching)"
| "get_paths_rec E config (p # ps) matching common_key =
     gen_res (matching_keys (instantiate_token common_key p) config)
       (\<lambda>ks. gen_for ks
          (\<lambda>k. gen_res (py_getitem config (TStr k))
             (\<lambda>v. get_paths_rec E v ps (matching @ [k]) common_key)))"

definition get_paths ::
  "'x ext_scheme \<Rightarrow> string list list \<Rightarrow> json \<Rightarrow> string option \<Rightarrow> string gen" where
  "get_paths E patterns config common_key =
     gen_for patterns (\<lambda>p. get_paths_rec E config p [] common_key)"

text \<open>
  \<open>is_match\<close>.  The loop leaves with \<open>False\<close> at the first pattern that does not match, and a token
  with a bar reaches the undefined name \<open>token_part\<close>.
\<close>

definition is_simple_token_match :: "string \<Rightarrow> string \<Rightarrow> bool" where
  "is_simple_token_match pattern_token token =
     (if pattern_token = ''*'' \<or> pattern_token = ''@'' then True else pattern_token = token)"

definition is_token_match :: "string \<Rightarrow> string \<Rightarrow> bool res" where
  "is_token_match pattern_token token =
     (if CHR ''|'' \<in> set pattern_token then
        (if length (split_once (CHR ''|'') pattern_token) \<noteq> length (split_once (CHR ''|'') token)
         then Inr False
         else Inl (NameError ''token_part''))
      else Inr (is_simple_token_match pattern_token token))"

definition pattern_match :: "string list \<Rightarrow> string list \<Rightarrow> bool res" where
  "pattern_match pattern tokens =
     (if length pattern \<noteq> length tokens then Inr False
      else all_res (\<lambda>(p, t). is_token_match p t) (zip pattern tokens))"

definition is_match :: "'x ext_scheme \<Rightarrow> string list list \<Rightarrow> string \<Rightarrow> bool res" where
  "is_match E patterns path =
     (let tokens = get_path_tokens E path in all_res (\<lambda>p. pattern_match p tokens) patterns)"

section \<open>\<open>RequiredValueIdentifier\<close>\<close>

record setting =
  required_pattern :: "string list"
  required_value :: string
  default_value :: string
  requiring_patterns :: "string list list"

definition settings :: "setting list" where
  "settings =
     [\<lparr>required_pattern = [''PORT'', ''@'', ''admin_status''],
       required_value = ''down'',
       default_value = ''down'',
       requiring_patterns =
         [[''BUFFER_PG'', ''@|*''],
          [''BUFFER_PORT_EGRESS_PROFILE_LIST'', ''@''],
          [''BUFFER_PORT_INGRESS_PROFILE_LIST'', ''@''],
          [''BUFFER_QUEUE'', ''@|*''],
          [''PORT_QOS_MAP'', ''@''],
          [''QUEUE'', ''@|*'']]\<rparr>]"

text \<open>The entries the constructor derives from a setting.\<close>

definition required_parent_filter :: "setting \<Rightarrow> string list list" where
  "required_parent_filter s =
     [map (replace_char (CHR ''@'') ''*'') (butlast (required_pattern s))]"

definition required_field_name :: "setting \<Rightarrow> string" where
  "required_field_name s = last (required_pattern s)"

text \<open>The index of the last \<open>@\<close>, as the loop over the tokens leaves it.\<close>

definition common_key_index :: "setting \<Rightarrow> nat" where
  "common_key_index s =
     fst (last (filter (\<lambda>(i, t). t = ''@'') (zip [0..<length (required_pattern s)] (required_pattern s))))"

definition setting_match :: "string list \<Rightarrow> setting \<Rightarrow> bool" where
  "setting_match tokens s =
     (length (required_pattern s) = length tokens \<and>
      list_all (\<lambda>(p, t). p = ''*'' \<or> p = ''@'' \<or> p = t) (zip (required_pattern s) tokens))"

definition target_in_required_pattern :: "string list \<Rightarrow> bool" where
  "target_in_required_pattern tokens = list_ex (setting_match tokens) settings"

text \<open>
  \<open>get_required_value_data\<close>: first the pairs in the order the loops add them, then the sorted
  dictionary of sorted sets.
\<close>

type_synonym required = "string \<times> string"
type_synonym required_data = "(string \<times> required list) list"

definition required_pairs :: "'x ext_scheme \<Rightarrow> setting \<Rightarrow> json \<Rightarrow> (string \<times> required) gen" where
  "required_pairs E s config =
     gen_bind (get_paths E (required_parent_filter s) config None)
       (\<lambda>parent. let parent_tokens = get_path_tokens E parent in
          (if length parent_tokens \<le> common_key_index s then ([], Some IndexError)
           else gen_bind (get_paths E (requiring_patterns s) config
                            (Some (parent_tokens ! common_key_index s)))
                  (\<lambda>path. gen_one (path, (str_path E (parent_tokens @ [required_field_name s]),
                                          required_value s)))))"

definition group_pairs :: "(string \<times> required) list \<Rightarrow> required_data" where
  "group_pairs ps =
     map (\<lambda>k. (k, sort (remdups (map snd (filter (\<lambda>p. fst p = k) ps)))))
       (sort (remdups (map fst ps)))"

definition get_required_value_data :: "'x ext_scheme \<Rightarrow> json list \<Rightarrow> required_data res" where
  "get_required_value_data E configs =
     rbind (gen_list (gen_for settings (\<lambda>s. gen_for configs (required_pairs E s))))
       (\<lambda>ps. Inr (group_pairs ps))"

definition default_from_settings :: "'x ext_scheme \<Rightarrow> string \<Rightarrow> string \<Rightarrow> json res" where
  "default_from_settings E parent_path field_name =
     fold_res
       (\<lambda>s found. if found \<noteq> JNull then Inr found
          else rbind (is_match E (required_parent_filter s) parent_path)
                 (\<lambda>m. Inr (if m \<and> field_name = required_field_name s then JStr (default_value s)
                           else JNull)))
       settings JNull"

definition get_value_or_default :: "'x ext_scheme \<Rightarrow> json \<Rightarrow> string \<Rightarrow> json res" where
  "get_value_or_default E config path =
     (let value = get_from_path E config path in
      if value \<noteq> JNull then Inr value
      else let tokens = get_path_tokens E path in
        if tokens = [] then Inl IndexError
        else let parent_path = str_path E (butlast tokens) in
          if get_from_path E config parent_path = JNull then Inr JNull
          else default_from_settings E parent_path (last tokens))"

section \<open>\<open>CreateOnlyFilter\<close>\<close>

definition create_only_patterns :: "string list list" where
  "create_only_patterns =
     [[''PORT'', ''*'', ''lanes''],
      [''LOOPBACK_INTERFACE'', ''*'', ''vrf_name''],
      [''BGP_NEIGHBOR'', ''*'', ''holdtime''],
      [''BGP_NEIGHBOR'', ''*'', ''keepalive''],
      [''BGP_NEIGHBOR'', ''*'', ''name''],
      [''BGP_NEIGHBOR'', ''*'', ''asn''],
      [''BGP_NEIGHBOR'', ''*'', ''local_addr''],
      [''BGP_NEIGHBOR'', ''*'', ''nhopself''],
      [''BGP_NEIGHBOR'', ''*'', ''rrclient''],
      [''BGP_PEER_RANGE'', ''*'', ''*''],
      [''BGP_SENTINELS'', ''*'', ''*''],
      [''BGP_MONITORS'', ''*'', ''holdtime''],
      [''BGP_MONITORS'', ''*'', ''keepalive''],
      [''BGP_MONITORS'', ''*'', ''name''],
      [''BGP_MONITORS'', ''*'', ''asn''],
      [''BGP_MONITORS'', ''*'', ''local_addr''],
      [''BGP_MONITORS'', ''*'', ''nhopself''],
      [''BGP_MONITORS'', ''*'', ''rrclient''],
      [''MIRROR_SESSION'', ''*'', ''*'']]"

definition get_create_only_paths :: "'x ext_scheme \<Rightarrow> json \<Rightarrow> string gen" where
  "get_create_only_paths E config = get_paths E create_only_patterns config None"

section \<open>What the filters find\<close>

text \<open>
  \<open>pattern_path ps ck config ks v\<close>: following the keys \<open>ks\<close> through dictionaries, each matched by the
  pattern token of its level, leads to \<open>v\<close>.
\<close>

definition key_matches :: "string \<Rightarrow> string \<Rightarrow> bool" where
  "key_matches token k \<longleftrightarrow>
     token = ''*'' \<or>
     (token \<noteq> ''*'' \<and> startswith token ''*|'' \<and> endswith k (drop 1 token)) \<or>
     (token \<noteq> ''*'' \<and> \<not> startswith token ''*|'' \<and> endswith token ''|*'' \<and>
        startswith k (butlast token)) \<or>
     (token \<noteq> ''*'' \<and> \<not> startswith token ''*|'' \<and> \<not> endswith token ''|*'' \<and> k = token)"

inductive pattern_path :: "string list \<Rightarrow> string option \<Rightarrow> json \<Rightarrow> string list \<Rightarrow> json \<Rightarrow> bool" where
  pattern_path_end: "pattern_path [] ck j [] j"
| pattern_path_key: "dget d k = Some v \<Longrightarrow> key_matches (instantiate_token ck p) k \<Longrightarrow>
    pattern_path ps ck v ks w \<Longrightarrow> pattern_path (p # ps) ck (JObj d) (k # ks) w"

inductive_cases pattern_path_NilE: "pattern_path [] ck j ks w"
inductive_cases pattern_path_ConsE: "pattern_path (p # ps) ck j ks w"

lemma pattern_path_lookup:
  "pattern_path ps ck j ks w \<Longrightarrow> py_path j (map TStr ks) = Inr w"
  by (induction rule: pattern_path.induct) auto

lemma pattern_path_length: "pattern_path ps ck j ks w \<Longrightarrow> length ks = length ps"
  by (induction rule: pattern_path.induct) auto

lemma matching_keys_obj:
  "matching_keys token (JObj d) =
     Inr (if token = ''*'' then dkeys d
          else if startswith token ''*|'' then filter (\<lambda>k. endswith k (drop 1 token)) (dkeys d)
          else if endswith token ''|*'' then filter (\<lambda>k. startswith k (butlast token)) (dkeys d)
          else if dhas d token then [token] else [])"
  by (simp add: matching_keys_def)

lemma matching_keys_iff:
  "matching_keys token (JObj d) = Inr ks \<Longrightarrow> k \<in> set ks \<longleftrightarrow> key_matches token k \<and> dhas d k"
  by (auto simp: matching_keys_obj key_matches_def dhas_iff split: if_splits)

lemma matching_getitem:
  assumes "matching_keys token j = Inr ks" and "k \<in> set ks" and "py_getitem j (TStr k) = Inr v"
  shows "\<exists>d. j = JObj d \<and> dget d k = Some v \<and> key_matches token k"
proof -
  obtain d where d: "j = JObj d" using assms(3) by (cases j) auto
  with assms show ?thesis
    using matching_keys_iff [of token d ks k] by (auto split: option.splits)
qed

text \<open>Every path a filter yields is the joined key path of a match.\<close>

lemma get_paths_rec_sound:
  "path \<in> set (fst (get_paths_rec E config ps matching ck)) \<Longrightarrow>
   \<exists>ks w. pattern_path ps ck config ks w \<and> path = str_path E (matching @ ks)"
proof (induction ps arbitrary: config matching)
  case Nil
  then show ?case
    by (intro exI [of _ "[]"] exI [of _ config]) (simp add: pattern_path_end)
next
  case (Cons p ps)
  then obtain ks k v where s: "matching_keys (instantiate_token ck p) config = Inr ks" "k \<in> set ks"
      "py_getitem config (TStr k) = Inr v"
      "path \<in> set (fst (get_paths_rec E v ps (matching @ [k]) ck))"
    by (auto dest!: gen_mem)
  from matching_getitem [OF s(1-3)] obtain d where
    d: "config = JObj d" "dget d k = Some v" "key_matches (instantiate_token ck p) k" by blast
  from Cons.IH [OF s(4)] obtain ks' w where
    "pattern_path ps ck v ks' w" "path = str_path E (matching @ [k] @ ks')" by auto
  with d show ?case
    by (intro exI [of _ "k # ks'"] exI [of _ w]) (auto intro: pattern_path.intros)
qed

lemma gen_for_all:
  assumes "\<And>y. y \<in> set ys \<Longrightarrow> snd (f y) = None" and "y \<in> set ys" and "x \<in> set (fst (f y))"
  shows "x \<in> set (fst (gen_for ys f))"
  using assms
proof (induction ys)
  case (Cons z ys)
  then obtain zs where z: "f z = (zs, None)" by (metis list.set_intros(1) prod.collapse)
  obtain r e where "gen_for ys f = (r, e)" by force
  with Cons z show ?case by (cases "y = z") auto
qed simp

lemma gen_for_None:
  "(\<And>y. y \<in> set ys \<Longrightarrow> snd (f y) = None) \<Longrightarrow> snd (gen_for ys f) = None"
proof (induction ys)
  case (Cons z ys)
  then obtain zs where z: "f z = (zs, None)" by (metis list.set_intros(1) prod.collapse)
  then show ?case using Cons by (cases "gen_for ys f") auto
qed simp

text \<open>
  On a document that is a dictionary down to the depth of the pattern, the filter does not raise and
  finds every match.
\<close>

fun obj_depth :: "nat \<Rightarrow> json \<Rightarrow> bool" where
  "obj_depth 0 j = True"
| "obj_depth (Suc n) (JObj d) = (\<forall>p \<in> set d. obj_depth n (snd p))"
| "obj_depth (Suc n) _ = False"

lemma obj_depth_dget: "obj_depth (Suc n) (JObj d) \<Longrightarrow> dget d k = Some v \<Longrightarrow> obj_depth n v"
  by (force dest: dget_SomeD)

lemma get_paths_rec_no_error:
  "obj_depth (length ps) config \<Longrightarrow> snd (get_paths_rec E config ps matching ck) = None"
proof (induction ps arbitrary: config matching)
  case (Cons p ps)
  then obtain d where d: "config = JObj d" by (cases config) auto
  obtain ks where ks: "matching_keys (instantiate_token ck p) config = Inr ks"
    using d by (simp add: matching_keys_obj)
  have "snd (gen_res (py_getitem config (TStr k)) (\<lambda>v. get_paths_rec E v ps (matching @ [k]) ck)) = None"
    if k: "k \<in> set ks" for k
  proof -
    obtain v where "dget d k = Some v"
      using matching_keys_iff [of _ d ks k] ks d k by (auto simp: dhas_dget)
    moreover from this have "obj_depth (length ps) v" using Cons.prems d obj_depth_dget by auto
    ultimately show ?thesis using Cons.IH d by simp
  qed
  then show ?case using ks by (simp add: gen_for_None)
qed simp

lemma get_paths_rec_complete:
  "obj_depth (length ps) config \<Longrightarrow> pattern_path ps ck config ks w \<Longrightarrow>
   str_path E (matching @ ks) \<in> set (fst (get_paths_rec E config ps matching ck))"
proof (induction ps arbitrary: config matching ks)
  case Nil
  then show ?case by (auto elim: pattern_path_NilE)
next
  case (Cons p ps)
  from Cons.prems(2) obtain d k v ks' where
    c: "config = JObj d" "ks = k # ks'" "dget d k = Some v" "key_matches (instantiate_token ck p) k"
       "pattern_path ps ck v ks' w" by (auto elim: pattern_path_ConsE)
  have dep: "obj_depth (length ps) u" if "dget d k' = Some u" for k' u
    using Cons.prems(1) c(1) that obj_depth_dget by auto
  obtain ms where ms: "matching_keys (instantiate_token ck p) config = Inr ms"
    using c(1) by (simp add: matching_keys_obj)
  have k: "k \<in> set ms" using matching_keys_iff c ms by (auto simp: dhas_dget)
  have "str_path E (matching @ ks) \<in> set (fst (get_paths_rec E v ps (matching @ [k]) ck))"
    using Cons.IH [OF dep [OF c(3)] c(5), of "matching @ [k]"] c(2) by simp
  moreover have "snd (gen_res (py_getitem config (TStr k'))
      (\<lambda>v. get_paths_rec E v ps (matching @ [k']) ck)) = None" if kk: "k' \<in> set ms" for k'
  proof -
    obtain u where "dget d k' = Some u"
      using matching_keys_iff [of _ d ms k'] ms c(1) kk by (metis dhas_dget)
    with dep c(1) show ?thesis by (simp add: get_paths_rec_no_error)
  qed
  ultimately show ?case
    using ms k c(1,3) by (auto intro: gen_for_all)
qed

end
