(* ===== verification/Validators.thy ===== *)
theory Validators
  imports Filters
begin

text \<open>
  The seven move validators of patch_sorter.py.  Each takes the group of moves, the diff and the
  configuration the group would produce, and answers whether the step is allowed.

  The YANG library behind two of them is reached through \<open>PathAddressing.find_ref_paths\<close> and
  \<open>ConfigWrapper.validate_config_db_config\<close>; a validator receives the objects that own them as
  constructor arguments, so they are fields of the record \<open>yang_ext\<close>.  \<open>find_ref_paths\<close> keeps its
  \<open>reload_config\<close> flag; how the flag meets the loaded document is the subject of the theory
  \<open>YangCache\<close>.
\<close>

record yang_ext = ext +
  find_refs :: "string list \<Rightarrow> json \<Rightarrow> bool \<Rightarrow> string list res"   \<comment> \<open>\<open>PathAddressing.find_ref_paths\<close>\<close>
  validate_config :: "json \<Rightarrow> (bool \<times> string option) res"        \<comment> \<open>\<open>ConfigWrapper.validate_config_db_config\<close>\<close>

type_synonym verdict = "(bool \<times> string option) res"

definition accept :: verdict where "accept = Inr (True, None)"
definition reject :: verdict where "reject = Inr (False, None)"

lemma verdict_simps [simp]: "accept = Inr (True, None)" "reject = Inr (False, None)"
  by (simp_all add: accept_def reject_def)

text \<open>\<open>except (ValueError, KeyError)\<close>, with the subclasses of \<open>ValueError\<close> the package defines.\<close>

fun is_value_or_key_error :: "py_error \<Rightarrow> bool" where
  "is_value_or_key_error (KeyError _) = True"
| "is_value_or_key_error (ValueError _) = True"
| "is_value_or_key_error (IllegalPatchOperationError _) = True"
| "is_value_or_key_error (EmptyTableError _) = True"
| "is_value_or_key_error _ = False"

text \<open>Iteration over any value, and building a \<open>set\<close> from it.\<close>

fun py_iter :: "json \<Rightarrow> json list res" where
  "py_iter (JList xs) = Inr xs"
| "py_iter (JObj d) = Inr (map JStr (dkeys d))"
| "py_iter (JStr s) = Inr (map (\<lambda>c. JStr [c]) s)"
| "py_iter _ = Inl TypeError"

definition hashable :: "json \<Rightarrow> bool" where
  "hashable j = (\<not> is_list j \<and> \<not> is_obj j)"

definition py_set :: "json list \<Rightarrow> json list res" where
  "py_set xs = (if list_all hashable xs then Inr xs else Inl TypeError)"

definition in_set :: "json \<Rightarrow> json list \<Rightarrow> bool res" where
  "in_set x xs = (if hashable x then Inr (list_ex (json_eq x) xs) else Inl TypeError)"

section \<open>\<open>DeleteWholeConfigMoveValidator\<close> and \<open>FullConfigMoveValidator\<close>\<close>

definition first_move :: "move_group \<Rightarrow> json_move res" where
  "first_move g = (case mg_moves g of [] \<Rightarrow> Inl IndexError | m # _ \<Rightarrow> Inr m)"

definition delete_whole_config_validate :: "move_group \<Rightarrow> diff \<Rightarrow> json \<Rightarrow> verdict" where
  "delete_whole_config_validate g d sim =
     rbind (first_move g) (\<lambda>m. if mv_type m = REMOVE \<and> mv_path m = [] then reject else accept)"

definition full_config_validate :: "'x yang_ext_scheme \<Rightarrow> move_group \<Rightarrow> diff \<Rightarrow> json \<Rightarrow> verdict" where
  "full_config_validate E g d sim = validate_config E sim"

section \<open>\<open>RemoveCreateOnlyDependencyMoveValidator\<close>\<close>

definition member_path :: "string \<Rightarrow> string \<Rightarrow> string" where
  "member_path table member = ''/'' @ table @ ''/'' @ member"

definition get_create_only_field :: "json \<Rightarrow> string \<Rightarrow> string \<Rightarrow> string \<Rightarrow> json res" where
  "get_create_only_field config table member field =
     rbind (py_getitem config (TStr table))
       (\<lambda>t. rbind (py_getitem t (TStr member)) (\<lambda>m. py_get m field))"

definition validate_member ::
  "'x yang_ext_scheme \<Rightarrow> string list \<Rightarrow> string \<Rightarrow> json \<Rightarrow> json \<Rightarrow> json \<Rightarrow> bool \<Rightarrow> bool res" where
  "validate_member E tokens member current target sim reload =
     (let table = hd tokens; field = last tokens; path = member_path table member in
      rbind (get_create_only_field current table member field)
       (\<lambda>current_field. rbind (get_create_only_field target table member field)
         (\<lambda>target_field.
            if json_eq current_field target_field then Inr True
            else if get_from_path E sim path = JNull then Inr True
            else
              let current_admin = get_from_path E current (path @ ''/admin_status'');
                  sim_admin = get_from_path E sim (path @ ''/admin_status'')
              in if table = ''PORT'' \<and> \<not> json_eq current_admin sim_admin \<and>
                    \<not> json_eq current_admin (JStr ''up'') then Inr False
                 else case find_refs E [path] sim reload of
                        Inl e \<Rightarrow> if is_value_or_key_error e then Inr False else Inl e
                      | Inr refs \<Rightarrow> Inr (list_all (has_path E current) refs))))"

text \<open>The loop over the members: the flag \<open>reload\<close> is cleared once a member was validated.\<close>

fun rco_members ::
  "'x yang_ext_scheme \<Rightarrow> string list \<Rightarrow> json \<Rightarrow> json \<Rightarrow> json \<Rightarrow> json \<Rightarrow> string list \<Rightarrow> bool \<Rightarrow> (bool \<times> bool) res"
where
  "rco_members E tokens current target sim target_members [] reload = Inr (True, reload)"
| "rco_members E tokens current target sim target_members (m # ms) reload =
     rbind (py_in (TStr m) target_members)
       (\<lambda>here. if \<not> here then rco_members E tokens current target sim target_members ms reload
          else rbind (validate_member E tokens m current target sim reload)
                 (\<lambda>ok. if \<not> ok then Inr (False, reload)
                       else rco_members E tokens current target sim target_members ms False))"

text \<open>The table of one create-only path, when the path is the first one of its table.\<close>

definition rco_table ::
  "'x yang_ext_scheme \<Rightarrow> diff \<Rightarrow> json \<Rightarrow> string list \<Rightarrow> bool \<Rightarrow> (bool \<times> bool) res" where
  "rco_table E d sim tokens reload =
     (let current = current_config d; target = target_config d; table = hd tokens in
      rbind (py_in (TStr table) current)
       (\<lambda>in_current. if \<not> in_current then Inr (True, reload) else
        rbind (py_getitem current (TStr table))
       (\<lambda>current_members. if \<not> truthy current_members then Inr (True, reload) else
        rbind (py_in (TStr table) target)
       (\<lambda>in_target. if \<not> in_target then Inr (True, reload) else
        rbind (py_getitem target (TStr table))
       (\<lambda>target_members. if \<not> truthy target_members then Inr (True, reload) else
        rbind (py_keys current_members)
       (\<lambda>ms. rco_members E tokens current target sim target_members ms reload))))))"

fun rco_loop ::
  "'x yang_ext_scheme \<Rightarrow> diff \<Rightarrow> json \<Rightarrow> string list \<Rightarrow> py_error option \<Rightarrow> string list \<Rightarrow> bool \<Rightarrow> verdict"
where
  "rco_loop E d sim [] err processed reload = (case err of None \<Rightarrow> accept | Some e \<Rightarrow> Inl e)"
| "rco_loop E d sim (path # paths) err processed reload =
     (let tokens = get_path_tokens E path in
      if tokens = [] then Inl IndexError
      else if hd tokens \<in> set processed then rco_loop E d sim paths err processed reload
      else rbind (rco_table E d sim tokens reload)
             (\<lambda>(ok, reload'). if \<not> ok then reject
                else rco_loop E d sim paths err (hd tokens # processed) reload'))"

definition remove_create_only_dependency_validate ::
  "'x yang_ext_scheme \<Rightarrow> move_group \<Rightarrow> diff \<Rightarrow> json \<Rightarrow> verdict" where
  "remove_create_only_dependency_validate E g d sim =
     (let paths = get_create_only_paths E (current_config d)
      in rco_loop E d sim (fst paths) (snd paths) [] True)"

section \<open>\<open>CreateOnlyMoveValidator\<close>\<close>

fun value_exist_but_different :: "string list \<Rightarrow> json \<Rightarrow> json \<Rightarrow> bool res" where
  "value_exist_but_different [] cur sim = Inr (\<not> json_eq cur sim)"
| "value_exist_but_different (t # ts) cur sim =
     rbind (if is_list cur then to_index (TStr t) else Inr (TStr t))
       (\<lambda>mt. rbind (py_in mt cur)
       (\<lambda>b. if \<not> b then Inr False else
        rbind (py_in mt sim)
       (\<lambda>c. if \<not> c then Inr False else
        rbind (py_getitem cur mt)
       (\<lambda>cur'. rbind (py_getitem sim mt) (\<lambda>sim'. value_exist_but_different ts cur' sim')))))"

definition exist_only_in_first :: "'x ext_scheme \<Rightarrow> string list \<Rightarrow> json \<Rightarrow> json \<Rightarrow> bool" where
  "exist_only_in_first E tokens j1 j2 =
     (let path = str_path E tokens in has_path E j1 path \<and> \<not> has_path E j2 path)"

definition value_added_but_parent_exist :: "'x ext_scheme \<Rightarrow> string list \<Rightarrow> json \<Rightarrow> json \<Rightarrow> bool" where
  "value_added_but_parent_exist E tokens cur sim =
     (if \<not> exist_only_in_first E tokens sim cur then False
      else if exist_only_in_first E (butlast tokens) sim cur then False
      else True)"

definition value_removed_but_parent_remain :: "'x ext_scheme \<Rightarrow> string list \<Rightarrow> json \<Rightarrow> json \<Rightarrow> bool" where
  "value_removed_but_parent_remain E tokens cur sim =
     (if \<not> exist_only_in_first E tokens cur sim then False
      else if exist_only_in_first E (butlast tokens) cur sim then False
      else True)"

definition parent_added_child_not_as_target ::
  "'x ext_scheme \<Rightarrow> string list \<Rightarrow> json \<Rightarrow> json \<Rightarrow> json \<Rightarrow> bool" where
  "parent_added_child_not_as_target E tokens cur sim target =
     (if \<not> exist_only_in_first E (butlast tokens) sim cur then False
      else let child_path = str_path E tokens in
        if has_path E target child_path then \<not> has_path E sim child_path
        else has_path E sim child_path)"

definition create_only_path_ok :: "'x ext_scheme \<Rightarrow> diff \<Rightarrow> json \<Rightarrow> string \<Rightarrow> bool res" where
  "create_only_path_ok E d sim path =
     (let tokens = get_path_tokens E path; cur = current_config d in
      rbind (value_exist_but_different tokens cur sim)
        (\<lambda>different. Inr (\<not> different \<and> \<not> value_added_but_parent_exist E tokens cur sim \<and>
           \<not> value_removed_but_parent_remain E tokens cur sim \<and>
           \<not> parent_added_child_not_as_target E tokens cur sim (target_config d))))"

text \<open>The paths of the three configurations, each once; the code iterates a \<open>set\<close>.\<close>

definition create_only_validate :: "'x ext_scheme \<Rightarrow> move_group \<Rightarrow> diff \<Rightarrow> json \<Rightarrow> verdict" where
  "create_only_validate E g d sim =
     rbind (gen_list (get_create_only_paths E (current_config d)))
       (\<lambda>ps. rbind (gen_list (get_create_only_paths E sim))
       (\<lambda>qs. rbind (gen_list (get_create_only_paths E (target_config d)))
       (\<lambda>rs. rbind (all_res (create_only_path_ok E d sim) (dedup (ps @ qs @ rs)))
       (\<lambda>ok. Inr (ok, None)))))"

section \<open>\<open>NoDependencyMoveValidator\<close>\<close>

definition validate_paths_config ::
  "'x yang_ext_scheme \<Rightarrow> string list \<Rightarrow> json \<Rightarrow> bool \<Rightarrow> bool \<Rightarrow> bool res" where
  "validate_paths_config E paths config reload reject_on_unresolvable_ref =
     (case find_refs E paths config reload of
        Inl e \<Rightarrow> if is_value_or_key_error e \<and> reject_on_unresolvable_ref then Inr False else Inl e
      | Inr refs \<Rightarrow> Inr (\<not> list_ex (\<lambda>ref. list_ex (startswith ref) paths) refs))"

fun enumerate_missing ::
  "'x ext_scheme \<Rightarrow> token list \<Rightarrow> json list \<Rightarrow> int \<Rightarrow> json list \<Rightarrow> string list res" where
  "enumerate_missing E tokens hashed i [] = Inr []"
| "enumerate_missing E tokens hashed i (x # xs) =
     rbind (in_set x hashed)
       (\<lambda>here. rbind (enumerate_missing E tokens hashed (i + 1) xs)
          (\<lambda>ps. Inr (if here then ps else create_path E (tokens @ [TIdx i]) # ps)))"

definition get_list_paths ::
  "'x ext_scheme \<Rightarrow> json \<Rightarrow> json \<Rightarrow> token list \<Rightarrow> (string list \<times> string list) res" where
  "get_list_paths E current_list target_list tokens =
     rbind (py_iter target_list) (\<lambda>ts. rbind (py_set ts)
       (\<lambda>hashed_target. rbind (py_iter current_list)
       (\<lambda>cs. rbind (enumerate_missing E tokens hashed_target 0 cs)
       (\<lambda>deleted. rbind (py_set cs)
       (\<lambda>hashed_current. rbind (enumerate_missing E tokens hashed_current 0 ts)
       (\<lambda>added. Inr (deleted, added)))))))"

text \<open>The second loop over a dictionary: the keys only the target has.\<close>

definition added_keys :: "'x ext_scheme \<Rightarrow> json \<Rightarrow> json \<Rightarrow> token list \<Rightarrow> string list res" where
  "added_keys E current target tokens =
     rbind (py_iter target)
       (\<lambda>ts. fold_res (\<lambda>t acc. case t of
            JStr k \<Rightarrow> rbind (py_in (TStr k) current)
                        (\<lambda>b. Inr (if b then acc else acc @ [create_path E (tokens @ [TStr k])]))
          | _ \<Rightarrow> Inl TypeError) ts [])"


fun get_diff_paths ::
  "'x ext_scheme \<Rightarrow> json \<Rightarrow> json \<Rightarrow> token list \<Rightarrow> (string list \<times> string list) res"
  and get_diff_entries ::
  "'x ext_scheme \<Rightarrow> (string \<times> json) list \<Rightarrow> json \<Rightarrow> token list \<Rightarrow> (string list \<times> string list) res"
where
  "get_diff_paths E cur tgt tokens =
     (if is_list cur \<or> is_list tgt then get_list_paths E cur tgt tokens
      else case cur of
             JObj d \<Rightarrow>
               rbind (get_diff_entries E d tgt tokens)
                 (\<lambda>(deleted, added). rbind (added_keys E cur tgt tokens)
                    (\<lambda>more. Inr (deleted, added @ more)))
           | _ \<Rightarrow>
               Inr (if \<not> json_eq cur tgt then ([create_path E tokens], [create_path E tokens])
                    else ([], [])))"
| "get_diff_entries E [] tgt tokens = Inr ([], [])"
| "get_diff_entries E ((k, v) # d) tgt tokens =
     rbind (py_in (TStr k) tgt)
       (\<lambda>here. rbind
          (if \<not> here then Inr ([create_path E (tokens @ [TStr k])], [])
           else rbind (py_getitem tgt (TStr k))
                  (\<lambda>w. get_diff_paths E v w (tokens @ [TStr k])))
          (\<lambda>(deleted, added). rbind (get_diff_entries E d tgt tokens)
             (\<lambda>(deleted', added'). Inr (deleted @ deleted', added @ added'))))"

definition validate_replace :: "'x yang_ext_scheme \<Rightarrow> diff \<Rightarrow> json \<Rightarrow> bool res" where
  "validate_replace E d sim =
     rbind (get_diff_paths E (current_config d) sim [])
       (\<lambda>(deleted, added).
          rbind (validate_paths_config E added sim True True)
            (\<lambda>ok. if \<not> ok then Inr False
                  else validate_paths_config E deleted (current_config d) True False))"

definition no_dependency_move ::
  "'x yang_ext_scheme \<Rightarrow> json_move \<Rightarrow> diff \<Rightarrow> json \<Rightarrow> bool \<Rightarrow> bool res" where
  "no_dependency_move E m d sim reload =
     (case mv_type m of
        ADD \<Rightarrow> validate_paths_config E [mv_path m] sim reload True
      | REMOVE \<Rightarrow> validate_paths_config E [mv_path m] (current_config d) reload False
      | REPLACE \<Rightarrow> validate_replace E d sim)"

fun no_dependency_loop ::
  "'x yang_ext_scheme \<Rightarrow> json_move list \<Rightarrow> diff \<Rightarrow> json \<Rightarrow> bool \<Rightarrow> verdict" where
  "no_dependency_loop E [] d sim reload = accept"
| "no_dependency_loop E (m # ms) d sim reload =
     rbind (no_dependency_move E m d sim reload)
       (\<lambda>ok. if \<not> ok then reject else no_dependency_loop E ms d sim False)"

definition no_dependency_validate :: "'x yang_ext_scheme \<Rightarrow> move_group \<Rightarrow> diff \<Rightarrow> json \<Rightarrow> verdict" where
  "no_dependency_validate E g d sim = no_dependency_loop E (mg_moves g) d sim True"

section \<open>\<open>NoEmptyTableMoveValidator\<close>\<close>

definition validate_table :: "json \<Rightarrow> string \<Rightarrow> bool res" where
  "validate_table config table =
     rbind (py_in (TStr table) config)
       (\<lambda>b. if \<not> b then Inr True
            else rbind (py_getitem config (TStr table)) (\<lambda>v. Inr (truthy v)))"

definition no_empty_table_move :: "'x ext_scheme \<Rightarrow> json \<Rightarrow> json_move \<Rightarrow> bool res" where
  "no_empty_table_move E sim m =
     rbind (if mv_path m = [] then py_keys sim
            else case get_path_tokens E (mv_path m) of [] \<Rightarrow> Inl IndexError | t # _ \<Rightarrow> Inr [t])
       (all_res (validate_table sim))"

definition no_empty_table_validate :: "'x ext_scheme \<Rightarrow> move_group \<Rightarrow> diff \<Rightarrow> json \<Rightarrow> verdict" where
  "no_empty_table_validate E g d sim =
     rbind (all_res (no_empty_table_move E sim) (mg_moves g)) (\<lambda>ok. Inr (ok, None))"

section \<open>\<open>RequiredValueMoveValidator\<close>\<close>

text \<open>A requiring path the move changes while a required path does not have its value.\<close>

definition required_now_ok :: "'x ext_scheme \<Rightarrow> json \<Rightarrow> required \<Rightarrow> bool res" where
  "required_now_ok E cur r =
     rbind (get_value_or_default E cur (fst r))
       (\<lambda>actual. Inr (actual = JNull \<or> json_eq actual (JStr (snd r))))"

text \<open>A required path the move takes away from its value while requiring changes are left.\<close>

definition required_later_ok :: "'x ext_scheme \<Rightarrow> json \<Rightarrow> json \<Rightarrow> required \<Rightarrow> bool res" where
  "required_later_ok E cur sim r =
     rbind (get_value_or_default E cur (fst r))
       (\<lambda>current_value. rbind (get_value_or_default E sim (fst r))
          (\<lambda>sim_value. Inr (sim_value = JNull \<or>
             \<not> (\<not> json_eq current_value sim_value \<and> \<not> json_eq sim_value (JStr (snd r))))))"

definition required_value_validate :: "'x ext_scheme \<Rightarrow> move_group \<Rightarrow> diff \<Rightarrow> json \<Rightarrow> verdict" where
  "required_value_validate E g d sim =
     rbind (first_move g)
       (\<lambda>m. if mv_type m = REMOVE \<and> mv_path m = [] then reject
        else let cur = current_config d; tgt = target_config d in
          rbind (get_required_value_data E [cur, sim, tgt])
            (\<lambda>data. rbind (all_res (\<lambda>(path, rs).
                 if is_config_different E path cur sim then all_res (required_now_ok E cur) rs
                 else Inr True) data)
            (\<lambda>ok. if \<not> ok then reject
             else rbind (all_res (\<lambda>(path, rs).
                    if is_config_different E path cur tgt then all_res (required_later_ok E cur sim) rs
                    else Inr True) data)
                  (\<lambda>ok'. Inr (ok', None)))))"

end
