(* ===== verification/Generators.thy ===== *)
theory Generators
  imports Validators
begin

text \<open>
  The move generators of patch_sorter.py and the ordering of keys they use
  (\<open>PathAddressing.configdb_sorted_keys_by_backlinks\<close>, gu_common.py).  A generator is the list of
  the groups it yields and the exception it ends with, if any; token lists are values, where the
  code pushes and pops one shared list.
\<close>

section \<open>Keys sorted by backlinks\<close>

text \<open>
  What the schema knows of a path: its xpath (\<open>None\<close> is the \<open>KeyError\<close> of a table without a
  model), the schema nodes that refer to it and its \<open>must\<close> count.  \<open>with_wrapper\<close> says whether the
  \<open>PathAddressing\<close> object was given a \<open>ConfigWrapper\<close>.
\<close>

record schema_ext = yang_ext +
  with_wrapper :: bool
  schema_xpath :: "string \<Rightarrow> string option"
  schema_dependencies :: "string \<Rightarrow> string list"
  schema_must_count :: "string \<Rightarrow> int"

record key_info =
  ki_key :: string
  ki_backlinks :: int
  ki_musts :: int
  ki_nsep :: int

definition configdb_sort_cmp :: "key_info \<Rightarrow> key_info \<Rightarrow> int" where
  "configdb_sort_cmp a b =
     (if ki_backlinks a - ki_backlinks b \<noteq> 0 then ki_backlinks a - ki_backlinks b
      else if ki_musts b - ki_musts a \<noteq> 0 then ki_musts b - ki_musts a
      else ki_nsep a - ki_nsep b)"

definition key_info :: "'x schema_ext_scheme \<Rightarrow> string list \<Rightarrow> string \<Rightarrow> key_info" where
  "key_info E tokens key =
     (case schema_xpath E (str_path E (tokens @ [key])) of
        None \<Rightarrow> \<lparr>ki_key = key, ki_backlinks = 0, ki_musts = 0, ki_nsep = 0\<rparr>
      | Some xpath \<Rightarrow>
          \<lparr>ki_key = key, ki_backlinks = int (length (schema_dependencies E xpath)),
           ki_musts = schema_must_count E xpath, ki_nsep = count_char (CHR ''|'') key\<rparr>)"

text \<open>\<open>for key in ptr\<close>, where the keys have to be strings to become path tokens.\<close>

definition iter_strs :: "json \<Rightarrow> string list res" where
  "iter_strs j = rbind (py_iter j) (map_res (\<lambda>k. case k of JStr s \<Rightarrow> Inr s | _ \<Rightarrow> Inl TypeError))"

lemma iter_strs_obj [simp]: "iter_strs (JObj d) = Inr (dkeys d)"
proof -
  have "map_res (\<lambda>k. case k of JStr s \<Rightarrow> Inr s | _ \<Rightarrow> Inl TypeError) (map JStr ks) = Inr ks" for ks
    by (induction ks) auto
  then show ?thesis by (simp add: iter_strs_def)
qed

definition sorted_keys ::
  "'x schema_ext_scheme \<Rightarrow> string \<Rightarrow> json \<Rightarrow> bool \<Rightarrow> bool \<Rightarrow> string list res" where
  "sorted_keys E configdb_path configdb rev_order relative =
     (let tokens = get_path_tokens E configdb_path in
      rbind (if relative then Inr configdb else py_path configdb (map TStr tokens))
        (\<lambda>ptr. rbind (iter_strs ptr)
           (\<lambda>keys. Inr
              (if \<not> with_wrapper E then keys
               else map ki_key
                 (sorted_cmp (if rev_order then (\<lambda>a b. configdb_sort_cmp b a) else configdb_sort_cmp)
                   (map (key_info E tokens) keys))))))"

section \<open>Yielding one move\<close>

definition yield_move ::
  "'x ext_scheme \<Rightarrow> string \<Rightarrow> diff \<Rightarrow> operation_type \<Rightarrow> token list \<Rightarrow> token list option \<Rightarrow> move_group gen"
where
  "yield_move E name d t cur tgt =
     gen_res (json_move E d t cur tgt) (\<lambda>m. gen_one (move_group name (Some m)))"

section \<open>\<open>TableLevelMoveGenerator\<close> and \<open>KeyLevelMoveGenerator\<close>\<close>

definition non_existing_tables ::
  "'x schema_ext_scheme \<Rightarrow> json \<Rightarrow> json \<Rightarrow> bool \<Rightarrow> string gen" where
  "non_existing_tables E c1 c2 rev_order =
     gen_res (sorted_keys E ''/'' c1 rev_order False)
       (\<lambda>ts. gen_for ts (\<lambda>t. gen_res (py_in (TStr t) c2) (\<lambda>b. if b then gen_nil else gen_one t)))"

definition table_level_generate :: "'x schema_ext_scheme \<Rightarrow> diff \<Rightarrow> move_group gen" where
  "table_level_generate E d =
     gen_app
       (gen_bind (non_existing_tables E (current_config d) (target_config d) False)
          (\<lambda>t. yield_move E ''TableLevelMoveGenerator'' d REMOVE [TStr t] None))
       (gen_bind (non_existing_tables E (target_config d) (current_config d) True)
          (\<lambda>t. yield_move E ''TableLevelMoveGenerator'' d ADD [TStr t] (Some [TStr t])))"

definition non_existing_keys ::
  "'x schema_ext_scheme \<Rightarrow> json \<Rightarrow> json \<Rightarrow> bool \<Rightarrow> (string \<times> string) gen" where
  "non_existing_keys E c1 c2 rev_order =
     gen_res (sorted_keys E ''/'' c1 rev_order False)
       (\<lambda>ts. gen_for ts (\<lambda>t. gen_res (sorted_keys E (''/'' @ t) c1 rev_order False)
          (\<lambda>ks. gen_for ks (\<lambda>k.
             gen_res (rbind (py_in (TStr t) c2)
                        (\<lambda>b. if \<not> b then Inr False
                             else rbind (py_getitem c2 (TStr t)) (py_in (TStr k))))
               (\<lambda>here. if here then gen_nil else gen_one (t, k))))))"

definition table_length :: "json \<Rightarrow> string \<Rightarrow> int res" where
  "table_length config table = rbind (py_getitem config (TStr table)) py_len"

definition key_level_generate :: "'x schema_ext_scheme \<Rightarrow> diff \<Rightarrow> move_group gen" where
  "key_level_generate E d =
     gen_app
       (gen_bind (non_existing_keys E (current_config d) (target_config d) False)
          (\<lambda>(t, k). gen_res (table_length (current_config d) t)
             (\<lambda>n. yield_move E ''KeyLevelMoveGenerator'' d REMOVE
                    (if n = 1 then [TStr t] else [TStr t, TStr k]) None)))
       (gen_bind (non_existing_keys E (target_config d) (current_config d) True)
          (\<lambda>(t, k). yield_move E ''KeyLevelMoveGenerator'' d ADD [TStr t, TStr k]
                      (Some [TStr t, TStr k])))"

section \<open>\<open>BulkLeafListMoveGenerator\<close>\<close>

fun is_scalar :: "json \<Rightarrow> bool" where
  "is_scalar (JStr _) = True"
| "is_scalar (JInt _) = True"
| "is_scalar (JBool _) = True"
| "is_scalar _ = False"

definition is_leaf_list :: "json list \<Rightarrow> bool" where
  "is_leaf_list xs = list_all is_scalar xs"

fun leaf_list_traverse :: "'x ext_scheme \<Rightarrow> diff \<Rightarrow> json \<Rightarrow> json \<Rightarrow> token list \<Rightarrow> move_group gen"
  and leaf_list_entries ::
  "'x ext_scheme \<Rightarrow> diff \<Rightarrow> (string \<times> json) list \<Rightarrow> json dict \<Rightarrow> token list \<Rightarrow> move_group gen"
where
  "leaf_list_traverse E d (JObj cur) (JObj tgt) tokens = leaf_list_entries E d cur tgt tokens"
| "leaf_list_traverse E d _ _ tokens = gen_nil"
| "leaf_list_entries E d [] tgt tokens = gen_nil"
| "leaf_list_entries E d ((k, v) # cur) tgt tokens =
     gen_app
       (case dget tgt k of
          None \<Rightarrow> gen_nil
        | Some w \<Rightarrow>
            (case v of
               JList xs \<Rightarrow>
                 (case w of
                    JList ys \<Rightarrow>
                      if \<not> json_eq v w \<and> ys \<noteq> [] \<and> is_leaf_list xs \<and> is_leaf_list ys
                      then yield_move E ''BulkLeafListMoveGenerator'' d REPLACE
                             (tokens @ [TStr k]) (Some (tokens @ [TStr k]))
                      else gen_nil
                  | _ \<Rightarrow> gen_nil)
             | _ \<Rightarrow> leaf_list_traverse E d v w (tokens @ [TStr k])))
       (leaf_list_entries E d cur tgt tokens)"

definition bulk_leaf_list_generate :: "'x ext_scheme \<Rightarrow> diff \<Rightarrow> move_group gen" where
  "bulk_leaf_list_generate E d = leaf_list_traverse E d (current_config d) (target_config d) []"

section \<open>\<open>BulkKeyLevelMoveGenerator\<close>\<close>

text \<open>
  Emitting a finished group of removals: when it removes as many keys as \<open>count_table\<close> has, a removal
  of the table \<open>table\<close> is appended.  When the loop moves on to another table the code passes the new
  table here, and only the last group of the loop is closed with its own.
\<close>

definition close_removals ::
  "'x ext_scheme \<Rightarrow> diff \<Rightarrow> move_group \<Rightarrow> string \<Rightarrow> string \<Rightarrow> move_group res" where
  "close_removals E d g count_table table =
     rbind (table_length (current_config d) count_table)
       (\<lambda>n. if int (length (mg_moves g)) = n
            then rbind (json_move E d REMOVE [TStr table] None) (\<lambda>m. Inr (mg_append m g))
            else Inr g)"

definition bulk_name :: string where
  "bulk_name = ''BulkKeyLevelMoveGenerator''"

fun bulk_remove_loop ::
  "'x ext_scheme \<Rightarrow> diff \<Rightarrow> (string \<times> string) list \<Rightarrow> py_error option
     \<Rightarrow> move_group option \<Rightarrow> string \<Rightarrow> int \<Rightarrow> move_group gen"
where
  "bulk_remove_loop E d [] err grp prev_table prev_n =
     (case err of
        Some e \<Rightarrow> ([], Some e)
      | None \<Rightarrow> (case grp of None \<Rightarrow> gen_nil
                 | Some g \<Rightarrow> gen_res (close_removals E d g prev_table prev_table) gen_one))"
| "bulk_remove_loop E d ((table, key) # toks) err grp prev_table prev_n =
     (let n = count_char (CHR ''|'') key;
          continue = (\<lambda>g. gen_res (json_move E d REMOVE [TStr table, TStr key] None)
             (\<lambda>m. bulk_remove_loop E d toks err (Some (mg_append m g)) table n))
      in case grp of
           None \<Rightarrow> continue (move_group bulk_name None)
         | Some g \<Rightarrow>
             if prev_n \<noteq> n \<or> table \<noteq> prev_table
             then gen_res (close_removals E d g (if prev_table = [] then table else prev_table) table)
                    (\<lambda>g'. gen_app (gen_one g') (continue (move_group bulk_name None)))
             else continue g)"

fun bulk_add_loop ::
  "'x ext_scheme \<Rightarrow> diff \<Rightarrow> (string \<times> string) list \<Rightarrow> py_error option
     \<Rightarrow> move_group option \<Rightarrow> string \<Rightarrow> int \<Rightarrow> move_group gen"
where
  "bulk_add_loop E d [] err grp prev_table prev_n =
     (case err of
        Some e \<Rightarrow> ([], Some e)
      | None \<Rightarrow> (case grp of None \<Rightarrow> gen_nil | Some g \<Rightarrow> gen_one g))"
| "bulk_add_loop E d ((table, key) # toks) err grp prev_table prev_n =
     gen_res (py_in (TStr table) (current_config d))
       (\<lambda>b. if \<not> b then bulk_add_loop E d toks err grp prev_table prev_n
        else let n = count_char (CHR ''|'') key;
             continue = (\<lambda>g. gen_res
                (json_move E d ADD [TStr table, TStr key] (Some [TStr table, TStr key]))
                (\<lambda>m. bulk_add_loop E d toks err (Some (mg_append m g)) table n))
         in case grp of
              None \<Rightarrow> continue (move_group bulk_name None)
            | Some g \<Rightarrow>
                if prev_n \<noteq> n \<or> table \<noteq> prev_table
                then gen_app (gen_one g) (continue (move_group bulk_name None))
                else continue g)"

definition bulk_key_level_generate :: "'x schema_ext_scheme \<Rightarrow> diff \<Rightarrow> move_group gen" where
  "bulk_key_level_generate E d =
     (let removed = non_existing_keys E (current_config d) (target_config d) False;
          added = non_existing_keys E (target_config d) (current_config d) True
      in gen_app (bulk_remove_loop E d (fst removed) (snd removed) None [] (- 1))
                 (bulk_add_loop E d (fst added) (snd added) None [] (- 1)))"

section \<open>\<open>BulkLowLevelMoveGenerator\<close>\<close>

fun key_token :: "json \<Rightarrow> token res" where
  "key_token (JStr k) = Inr (TStr k)"
| "key_token (JInt i) = Inr (TIdx i)"
| "key_token (JBool b) = Inr (TIdx (if b then 1 else 0))"
| "key_token _ = Inl TypeError"

definition children_are_leafs :: "json \<Rightarrow> bool res" where
  "children_are_leafs j =
     rbind (py_iter j)
       (all_res (\<lambda>k. rbind (key_token k)
          (\<lambda>t. rbind (py_getitem j t) (\<lambda>v. Inr (\<not> is_obj v \<and> \<not> is_list v)))))"

definition restricted_key :: "string list \<Rightarrow> string \<Rightarrow> bool \<Rightarrow> bool" where
  "restricted_key tokens key invert =
     (let rv = target_in_required_pattern (tokens @ [key]) in if invert then \<not> rv else rv)"

definition bulk_low_name :: string where
  "bulk_low_name = ''BulkLowLevelMoveGenerator''"

text \<open>
  The three \<open>__output_bulk_*\<close> methods differ in the dictionary they walk and in the test of a key:
  \<open>bulk_wanted\<close> is that test.
\<close>

definition bulk_wanted :: "operation_type \<Rightarrow> json \<Rightarrow> json \<Rightarrow> string \<Rightarrow> bool res" where
  "bulk_wanted t cur tgt key =
     (case t of
        ADD \<Rightarrow> rbind (py_get cur key) (\<lambda>v. Inr (v = JNull))
      | REMOVE \<Rightarrow> rbind (py_get tgt key) (\<lambda>v. Inr (v = JNull))
      | REPLACE \<Rightarrow> rbind (py_get tgt key)
          (\<lambda>w. if w = JNull then Inr False
               else rbind (py_get cur key) (\<lambda>v. Inr (\<not> json_eq w v))))"

definition output_bulk_move ::
  "'x ext_scheme \<Rightarrow> diff \<Rightarrow> operation_type \<Rightarrow> json \<Rightarrow> json \<Rightarrow> string list \<Rightarrow> int \<Rightarrow> bool \<Rightarrow> move_group gen"
where
  "output_bulk_move E d t cur tgt tokens min_moves restricted_only =
     gen_res (rbind (py_keys (if t = ADD then tgt else cur))
       (\<lambda>keys. fold_res (\<lambda>key g. rbind (bulk_wanted t cur tgt key)
          (\<lambda>wanted. if wanted \<and> \<not> restricted_key tokens key restricted_only
             then let ts = map TStr (tokens @ [key]) in
               rbind (json_move E d t ts (if t = REMOVE then None else Some ts))
                 (\<lambda>m. Inr (mg_append m g))
             else Inr g)) keys (move_group bulk_low_name None)))
       (\<lambda>g. if int (length (mg_moves g)) \<ge> min_moves then gen_one g else gen_nil)"

lemma size_dget [termination_simp]:
  "dget d k = Some v \<Longrightarrow> size v < Suc (size_list (size_prod (\<lambda>_. 0) size) d)"
  using size_member_obj [of "(k, v)" d] by (auto dest: dget_SomeD)

function (sequential) bulk_low_traverse ::
  "'x schema_ext_scheme \<Rightarrow> diff \<Rightarrow> operation_type \<Rightarrow> json \<Rightarrow> json \<Rightarrow> string list \<Rightarrow> int \<Rightarrow> bool \<Rightarrow> move_group gen"
where
  "bulk_low_traverse E d t (JObj cur) tgt tokens min_moves restricted_only =
     gen_res (rbind (children_are_leafs (JObj cur))
                (\<lambda>b. if b then children_are_leafs tgt else Inr False))
       (\<lambda>leafs. if leafs
          then output_bulk_move E d t (JObj cur) tgt tokens min_moves restricted_only
          else if \<not> is_obj tgt then gen_nil
          else gen_res (sorted_keys E (str_path E tokens) (JObj cur) (t \<noteq> REMOVE) True)
            (\<lambda>keys. gen_for keys (\<lambda>key. gen_res (py_get tgt key)
               (\<lambda>w. if w = JNull then gen_nil
                 else case dget cur key of
                        None \<Rightarrow> ([], Some (KeyError key))
                      | Some v \<Rightarrow>
                          bulk_low_traverse E d t v w (tokens @ [key]) min_moves restricted_only))))"
| "bulk_low_traverse E d t _ tgt tokens min_moves restricted_only = gen_nil"
  by pat_completeness auto
termination
  by (relation "measure (\<lambda>(_, _, _, cur, _). size cur)") (auto dest: size_dget)

definition bulk_low_op ::
  "'x schema_ext_scheme \<Rightarrow> diff \<Rightarrow> operation_type \<Rightarrow> int \<Rightarrow> bool \<Rightarrow> move_group gen" where
  "bulk_low_op E d t min_moves restricted_only =
     bulk_low_traverse E d t (current_config d) (target_config d) [] min_moves restricted_only"

definition bulk_low_level_generate :: "'x schema_ext_scheme \<Rightarrow> diff \<Rightarrow> move_group gen" where
  "bulk_low_level_generate E d =
     gen_for [REMOVE, REPLACE, ADD] (\<lambda>t. bulk_low_op E d t 2 False)"

section \<open>\<open>BulkKeyGroupLowLevelMoveGenerator\<close>\<close>

text \<open>Consecutive groups of one parent table are merged; a group of one move is dropped.\<close>

fun merge_groups ::
  "'x ext_scheme \<Rightarrow> move_group option \<Rightarrow> move_group list \<Rightarrow> py_error option \<Rightarrow> move_group gen" where
  "merge_groups E grp [] err =
     (case err of
        Some e \<Rightarrow> ([], Some e)
      | None \<Rightarrow> (case grp of None \<Rightarrow> gen_nil
                 | Some g \<Rightarrow> if length (mg_moves g) > 1 then gen_one g else gen_nil))"
| "merge_groups E None (m # ms) err = merge_groups E (Some m) ms err"
| "merge_groups E (Some g) (m # ms) err =
     gen_res (rbind (parent_table_name E m) (\<lambda>a. rbind (parent_table_name E g) (\<lambda>b. Inr (a \<noteq> b))))
       (\<lambda>other. if other
          then gen_app (if length (mg_moves g) > 1 then gen_one g else gen_nil)
                 (merge_groups E (Some m) ms err)
          else merge_groups E (Some (mg_merge g m)) ms err)"

definition generate_groups ::
  "'x schema_ext_scheme \<Rightarrow> diff \<Rightarrow> operation_type \<Rightarrow> bool \<Rightarrow> move_group gen" where
  "generate_groups E d t restricted_only =
     (let moves = bulk_low_op E d t 1 restricted_only in merge_groups E None (fst moves) (snd moves))"

definition bulk_key_group_generate :: "'x schema_ext_scheme \<Rightarrow> diff \<Rightarrow> move_group gen" where
  "bulk_key_group_generate E d =
     gen_for [(REMOVE, False), (REMOVE, True), (REPLACE, False), (REPLACE, True),
              (ADD, False), (ADD, True)]
       (\<lambda>(t, restricted_only). generate_groups E d t restricted_only)"

section \<open>\<open>RemoveCreateOnlyDependencyMoveGenerator\<close>\<close>

fun fetch_path :: "json \<Rightarrow> string list \<Rightarrow> json res" where
  "fetch_path config [] = Inr config"
| "fetch_path config (t # ts) =
     rbind (py_get config t) (\<lambda>v. if v = JNull then Inr JNull else fetch_path v ts)"

definition get_path_count :: "json \<Rightarrow> string list \<Rightarrow> int res" where
  "get_path_count config tokens =
     rbind (fetch_path config tokens) (\<lambda>v. if v = JNull then Inr 0 else py_len v)"

text \<open>
  The \<open>while\<close> loop of \<open>__remove_nonempty\<close>: as long as the parent would be left empty and is not the
  whole configuration, the parent is removed instead.
\<close>

function trim_tokens :: "json \<Rightarrow> string list \<Rightarrow> string list res" where
  "trim_tokens config tokens =
     (if length tokens > 1
      then rbind (get_path_count config (butlast tokens))
             (\<lambda>n. if n = 1 then trim_tokens config (butlast tokens) else Inr tokens)
      else Inr tokens)"
  by pat_completeness auto
termination by (relation "measure (\<lambda>(_, tokens). length tokens)") auto

declare trim_tokens.simps [simp del]

definition rcod_name :: string where
  "rcod_name = ''RemoveCreateOnlyDependencyMoveGenerator''"

definition remove_nonempty :: "'x ext_scheme \<Rightarrow> diff \<Rightarrow> string list \<Rightarrow> move_group gen" where
  "remove_nonempty E d tokens =
     gen_res (trim_tokens (current_config d) tokens)
       (\<lambda>ts. yield_move E rcod_name d REMOVE (map TStr ts) None)"

text \<open>\<open>left\<close> is ten minus the recursion depth of the code.\<close>

fun remove_dependents ::
  "'x yang_ext_scheme \<Rightarrow> diff \<Rightarrow> nat \<Rightarrow> string list \<Rightarrow> bool \<Rightarrow> bool \<Rightarrow> move_group gen" where
  "remove_dependents E d 0 tokens reload remove_parent = gen_nil"
| "remove_dependents E d (Suc left) tokens reload remove_parent =
     gen_res (find_refs E [str_path E tokens] (current_config d) reload)
       (\<lambda>refs. gen_for refs (\<lambda>ref.
          let ref_tokens = get_path_tokens E ref in
          if remove_parent \<and> ref_tokens = [] then ([], Some IndexError)
          else let rt = (if remove_parent then butlast ref_tokens else ref_tokens) in
            gen_app (remove_dependents E d left rt False remove_parent) (remove_nonempty E d rt)))"

fun rcod_loop ::
  "'x yang_ext_scheme \<Rightarrow> diff \<Rightarrow> string list \<Rightarrow> py_error option \<Rightarrow> bool \<Rightarrow> move_group gen" where
  "rcod_loop E d [] err reload = ([], err)"
| "rcod_loop E d (path # paths) err reload =
     (let tokens = get_path_tokens E path in
      gen_res (rbind (fetch_path (current_config d) tokens)
                 (\<lambda>v. rbind (fetch_path (target_config d) tokens) (\<lambda>w. Inr (v, w))))
        (\<lambda>(v, w). if v = JNull \<or> w = JNull \<or> json_eq v w then rcod_loop E d paths err reload
           else if tokens = [] then ([], Some IndexError)
           else let parent = butlast tokens in
             gen_app (remove_dependents E d 10 parent reload False)
            (gen_app (remove_nonempty E d parent)
            (gen_app (remove_dependents E d 10 parent False True)
                     (rcod_loop E d paths err False)))))"

definition remove_create_only_dependency_generate ::
  "'x yang_ext_scheme \<Rightarrow> diff \<Rightarrow> move_group gen" where
  "remove_create_only_dependency_generate E d =
     (let paths = get_create_only_paths E (current_config d)
      in rcod_loop E d (fst paths) (snd paths) True)"

section \<open>\<open>LowLevelMoveGenerator\<close>\<close>

definition low_name :: string where
  "low_name = ''LowLevelMoveGenerator''"

definition traverse_value ::
  "'x ext_scheme \<Rightarrow> diff \<Rightarrow> json \<Rightarrow> json \<Rightarrow> token list \<Rightarrow> token list \<Rightarrow> move_group gen" where
  "traverse_value E d current_value target_value ct tt =
     (if json_eq current_value target_value then gen_nil
      else yield_move E low_name d REPLACE ct (Some tt))"

definition traverse_current_value :: "'x ext_scheme \<Rightarrow> diff \<Rightarrow> token list \<Rightarrow> move_group gen" where
  "traverse_current_value E d ct = yield_move E low_name d REMOVE ct None"

definition traverse_target_value ::
  "'x ext_scheme \<Rightarrow> diff \<Rightarrow> token list \<Rightarrow> token list \<Rightarrow> move_group gen" where
  "traverse_target_value E d ct tt = yield_move E low_name d ADD ct (Some tt)"

definition traverse_current_list :: "'x ext_scheme \<Rightarrow> diff \<Rightarrow> json list \<Rightarrow> token list \<Rightarrow> move_group gen" where
  "traverse_current_list E d xs ct =
     (if length xs \<le> 1 then traverse_current_value E d ct
      else gen_for [0..<length xs] (\<lambda>i. traverse_current_value E d (ct @ [TIdx (int i)])))"

fun traverse_current :: "'x ext_scheme \<Rightarrow> diff \<Rightarrow> json \<Rightarrow> token list \<Rightarrow> move_group gen"
  and traverse_current_entries ::
  "'x ext_scheme \<Rightarrow> diff \<Rightarrow> (string \<times> json) list \<Rightarrow> token list \<Rightarrow> move_group gen"
where
  "traverse_current E d ptr ct =
     (case ptr of
        JList xs \<Rightarrow> traverse_current_list E d xs ct
      | JObj es \<Rightarrow>
          if es = [] then yield_move E low_name d REMOVE ct None
          else traverse_current_entries E d es ct
      | _ \<Rightarrow> traverse_current_value E d ct)"
| "traverse_current_entries E d [] ct = gen_nil"
| "traverse_current_entries E d ((k, v) # es) ct =
     gen_app (traverse_current E d v (ct @ [TStr k])) (traverse_current_entries E d es ct)"

text \<open>Every item of a list that is missing as a whole is added at its first place.\<close>

definition traverse_target_list ::
  "'x ext_scheme \<Rightarrow> diff \<Rightarrow> json list \<Rightarrow> token list \<Rightarrow> token list \<Rightarrow> move_group gen" where
  "traverse_target_list E d xs ct tt =
     (if xs = [] then yield_move E low_name d ADD ct (Some tt)
      else gen_for [0..<length xs]
             (\<lambda>i. traverse_target_value E d (ct @ [TIdx 0]) (tt @ [TIdx (int i)])))"

fun traverse_target :: "'x ext_scheme \<Rightarrow> diff \<Rightarrow> json \<Rightarrow> token list \<Rightarrow> token list \<Rightarrow> move_group gen"
  and traverse_target_entries ::
  "'x ext_scheme \<Rightarrow> diff \<Rightarrow> (string \<times> json) list \<Rightarrow> token list \<Rightarrow> token list \<Rightarrow> move_group gen"
where
  "traverse_target E d ptr ct tt =
     (case ptr of
        JList xs \<Rightarrow> traverse_target_list E d xs ct tt
      | JObj es \<Rightarrow>
          if es = [] then yield_move E low_name d ADD ct (Some tt)
          else traverse_target_entries E d es ct tt
      | _ \<Rightarrow> traverse_target_value E d ct tt)"
| "traverse_target_entries E d [] ct tt = gen_nil"
| "traverse_target_entries E d ((k, v) # es) ct tt =
     gen_app (traverse_target E d v (ct @ [TStr k]) (tt @ [TStr k]))
             (traverse_target_entries E d es ct tt)"

text \<open>
  \<open>_list_to_dict_with_count\<close>: the items counted, none for \<open>None\<close>; an item has to be hashable.  The
  count of an item is the number of items equal to it, and two such dictionaries are equal when they
  count every item alike.
\<close>

definition counted_items :: "json \<Rightarrow> json list res" where
  "counted_items items = (if items = JNull then Inr [] else rbind (py_iter items) py_set)"

definition item_count :: "json list \<Rightarrow> json \<Rightarrow> nat" where
  "item_count xs x = length (filter (json_eq x) xs)"

definition same_counts :: "json list \<Rightarrow> json list \<Rightarrow> bool" where
  "same_counts xs ys = list_all (\<lambda>x. item_count xs x = item_count ys x) (xs @ ys)"

definition traverse_list ::
  "'x ext_scheme \<Rightarrow> diff \<Rightarrow> json \<Rightarrow> json \<Rightarrow> token list \<Rightarrow> token list \<Rightarrow> move_group gen" where
  "traverse_list E d cur tgt ct tt =
     gen_res (rbind (counted_items cur) (\<lambda>xs. rbind (counted_items tgt) (\<lambda>ys. Inr (xs, ys))))
       (\<lambda>(xs, ys).
          let extra = (\<lambda>x. item_count xs x > item_count ys x);
              missing = (\<lambda>y. item_count ys y > item_count xs y)
          in if same_counts xs ys then traverse_value E d cur tgt ct tt
          else gen_app
            (gen_for (List.enumerate 0 xs) (\<lambda>(i, x).
               if extra x then traverse_current_value E d (ct @ [TIdx (int i)]) else gen_nil))
         (gen_app
            (gen_for (List.enumerate 0 ys) (\<lambda>(j, y).
               if missing y
               then traverse_target_value E d (ct @ [TIdx (int (min (length xs) j))]) (tt @ [TIdx (int j)])
               else gen_nil))
            (gen_for (List.enumerate 0 xs) (\<lambda>(i, x). gen_for (List.enumerate 0 ys) (\<lambda>(j, y).
               if extra x \<and> missing y
               then traverse_value E d x y (ct @ [TIdx (int i)]) (tt @ [TIdx (int j)])
               else gen_nil)))))"

text \<open>The second loop over a dictionary: the keys only the target has.\<close>

definition traverse_added ::
  "'x ext_scheme \<Rightarrow> diff \<Rightarrow> json \<Rightarrow> json \<Rightarrow> token list \<Rightarrow> token list \<Rightarrow> move_group gen" where
  "traverse_added E d cur tgt ct tt =
     gen_res (py_iter tgt) (\<lambda>ks. gen_for ks (\<lambda>k.
       gen_res (rbind (key_token k) (\<lambda>t. rbind (py_in t cur) (\<lambda>b. Inr (t, b))))
         (\<lambda>(t, b). if b then gen_nil
            else gen_res (py_getitem tgt t) (\<lambda>w. traverse_target E d w (ct @ [t]) (tt @ [t])))))"

text \<open>
  \<open>_traverse\<close>.  A dictionary compared with a value that is neither a dictionary nor a list iterates
  or subscripts that value, which raises unless it is the empty string.
\<close>

fun traverse ::
  "'x ext_scheme \<Rightarrow> diff \<Rightarrow> json \<Rightarrow> json \<Rightarrow> token list \<Rightarrow> token list \<Rightarrow> move_group gen"
  and traverse_entries ::
  "'x ext_scheme \<Rightarrow> diff \<Rightarrow> (string \<times> json) list \<Rightarrow> json \<Rightarrow> token list \<Rightarrow> token list \<Rightarrow> move_group gen"
where
  "traverse E d cur tgt ct tt =
     (if is_list cur \<or> is_list tgt then traverse_list E d cur tgt ct tt
      else case cur of
        JObj es \<Rightarrow> gen_app (traverse_entries E d es tgt ct tt) (traverse_added E d cur tgt ct tt)
      | _ \<Rightarrow>
          if is_obj tgt
          then if cur = JStr [] then traverse_added E d cur tgt ct tt else ([], Some TypeError)
          else traverse_value E d cur tgt ct tt)"
| "traverse_entries E d [] tgt ct tt = gen_nil"
| "traverse_entries E d ((k, v) # es) tgt ct tt =
     gen_app
       (gen_res (py_in (TStr k) tgt)
          (\<lambda>here. if here
             then gen_res (py_getitem tgt (TStr k))
                    (\<lambda>w. traverse E d v w (ct @ [TStr k]) (tt @ [TStr k]))
             else traverse_current E d v (ct @ [TStr k])))
       (traverse_entries E d es tgt ct tt)"

definition low_level_generate :: "'x ext_scheme \<Rightarrow> diff \<Rightarrow> move_group gen" where
  "low_level_generate E d = traverse E d (current_config d) (target_config d) [] []"

end
