(* ===== verification/Extenders.thy ===== *)
theory Extenders
  imports Generators
begin

text \<open>
  The four move extenders of patch_sorter.py.  An extender is given one move and the diff and yields
  further moves, as a generator.
\<close>

section \<open>\<open>RequiredValueMoveExtender\<close>\<close>

text \<open>
  \<open>_change_value\<close>: the value of the move with one field below it replaced.  The code writes into a
  copy of the value; a step through or an assignment to anything but a dictionary raises.
\<close>

fun put_field :: "json \<Rightarrow> string list \<Rightarrow> json \<Rightarrow> json res" where
  "put_field j [] v = Inr v"
| "put_field (JObj d) [k] v = Inr (JObj (dset k v d))"
| "put_field (JObj d) (k # k' # ks) v =
     (case dget d k of
        None \<Rightarrow> Inl (KeyError k)
      | Some w \<Rightarrow> rbind (put_field w (k' # ks) v) (\<lambda>w'. Inr (JObj (dset k w' d))))"
| "put_field _ ks v = Inl TypeError"

definition change_value :: "string list \<Rightarrow> string \<Rightarrow> string list \<Rightarrow> json \<Rightarrow> json res" where
  "change_value field_tokens field_value move_tokens move_value =
     put_field move_value (drop (length move_tokens) field_tokens) (JStr field_value)"

definition flip :: "'x ext_scheme \<Rightarrow> json_move \<Rightarrow> (string \<times> string) list \<Rightarrow> json_move res" where
  "flip E m tuples =
     rbind (fold_res (\<lambda>(field_path, field_value) v.
              change_value (get_path_tokens E field_path) field_value (get_path_tokens E (mv_path m)) v)
              tuples (mv_value m))
       (\<lambda>v. from_operation E (op_create (mv_type m) (mv_path m) v))"

text \<open>
  The first loop: for every required path whose value is not the required one, a move that replaces
  it, each such move once (\<open>processed\<close> holds their operations).
\<close>

definition required_replacement :: "'x ext_scheme \<Rightarrow> required \<Rightarrow> json_move res" where
  "required_replacement E r = from_operation E (op_create REPLACE (fst r) (JStr (snd r)))"

fun required_moves ::
  "'x ext_scheme \<Rightarrow> json \<Rightarrow> required list \<Rightarrow> operation set \<Rightarrow> json_move gen" where
  "required_moves E cur [] processed = gen_nil"
| "required_moves E cur (r # rs) processed =
     gen_res (get_value_or_default E cur (fst r))
       (\<lambda>actual. if actual = JNull \<or> json_eq actual (JStr (snd r))
          then required_moves E cur rs processed
          else gen_res (required_replacement E r)
            (\<lambda>m. if mv_patch m \<in> processed then required_moves E cur rs processed
               else gen_app (gen_one m) (required_moves E cur rs (insert (mv_patch m) processed))))"

text \<open>The second loop: the required paths the move takes away from their value.\<close>

definition flip_needed :: "'x ext_scheme \<Rightarrow> json \<Rightarrow> json \<Rightarrow> required \<Rightarrow> bool res" where
  "flip_needed E cur sim r =
     rbind (get_value_or_default E cur (fst r))
       (\<lambda>current_value. rbind (get_value_or_default E sim (fst r))
          (\<lambda>sim_value. Inr (sim_value \<noteq> JNull \<and> \<not> json_eq current_value sim_value \<and>
             \<not> json_eq sim_value (JStr (snd r)))))"

definition flip_tuples :: "'x ext_scheme \<Rightarrow> json \<Rightarrow> json \<Rightarrow> required list \<Rightarrow> required list res" where
  "flip_tuples E cur sim rs =
     fold_res (\<lambda>r acc. rbind (flip_needed E cur sim r)
                 (\<lambda>b. Inr (if b then acc @ [r] else acc))) rs []"

definition required_value_extend :: "'x ext_scheme \<Rightarrow> json_move \<Rightarrow> diff \<Rightarrow> json_move gen" where
  "required_value_extend E m d =
     (if mv_type m = REMOVE \<and> mv_path m = [] then gen_nil
      else let cur = current_config d; tgt = target_config d in
        gen_res (rbind (move_apply E m cur)
                   (\<lambda>(sim, _). rbind (get_required_value_data E [cur, sim, tgt])
                      (\<lambda>data. Inr (sim, data))))
          (\<lambda>(sim, data).
             let changed_now = concat (map snd (filter (\<lambda>(path, _). is_config_different E path cur sim) data));
                 changes_left = concat (map snd (filter (\<lambda>(path, _). is_config_different E path cur tgt) data))
             in gen_app (required_moves E cur changed_now {})
                  (gen_res (flip_tuples E cur sim changes_left)
                     (\<lambda>tuples. if tuples = [] then gen_nil
                        else gen_res (flip E m (dedup tuples)) gen_one))))"

section \<open>\<open>UpperLevelMoveExtender\<close>\<close>

fun get_upper_operation :: "json \<Rightarrow> json \<Rightarrow> token list \<Rightarrow> operation_type res" where
  "get_upper_operation cur tgt [] = Inr REPLACE"
| "get_upper_operation cur tgt (t # ts) =
     rbind (py_in t cur)
       (\<lambda>b. if \<not> b then Inr ADD else
        rbind (py_getitem cur t)
       (\<lambda>cur'. rbind (py_in t tgt)
       (\<lambda>c. if \<not> c then Inr REMOVE else
        rbind (py_getitem tgt t) (\<lambda>tgt'. get_upper_operation cur' tgt' ts))))"

definition upper_level_extend :: "'x ext_scheme \<Rightarrow> json_move \<Rightarrow> diff \<Rightarrow> json_move gen" where
  "upper_level_extend E m d =
     (if mv_current m = [] then gen_nil
      else let upper = butlast (mv_current m) in
        gen_res (rbind (get_upper_operation (current_config d) (target_config d) upper)
                   (\<lambda>t. json_move E d t upper (if t = ADD \<or> t = REPLACE then Some upper else None)))
          gen_one)"

section \<open>\<open>DeleteInsteadOfReplaceMoveExtender\<close> and \<open>DeleteRefsMoveExtender\<close>\<close>

definition delete_instead_extend :: "'x ext_scheme \<Rightarrow> json_move \<Rightarrow> diff \<Rightarrow> json_move gen" where
  "delete_instead_extend E m d =
     (if mv_type m \<noteq> REPLACE then gen_nil
      else if mv_current m = [] then gen_nil
      else gen_res (json_move E d REMOVE (mv_current m) None) gen_one)"

definition delete_refs_extend :: "'x yang_ext_scheme \<Rightarrow> json_move \<Rightarrow> diff \<Rightarrow> json_move gen" where
  "delete_refs_extend E m d =
     (if mv_type m \<noteq> REMOVE then gen_nil
      else gen_res (find_refs E [mv_path m] (current_config d) True)
        (\<lambda>refs. gen_for refs (\<lambda>ref.
           gen_res (json_move E d REMOVE (map TStr (get_path_tokens E ref)) None) gen_one)))"

end
