(* ===== verification/Sorters.thy ===== *)
theory Sorters
  imports Prelude
begin

text \<open>
  The three search algorithms of patch_sorter.py: \<open>DfsSorter\<close>, \<open>BfsSorter\<close> and
  \<open>MemoizationSorter\<close>, with the debugging tree \<open>PatchSorterPath\<close> the depth-first sorter fills.

  As in the code, a sorter knows its move wrapper only through what it calls: the generator of
  moves, the validation of a move, its simulation, the test that nothing is left to do and the hash
  of a diff.  They are the fields of \<open>sort_env\<close>.  The dictionary \<open>visited\<close> and the memo \<open>mem\<close>
  live in the sorter object and survive between calls, so they are passed in and returned.
\<close>

record ('d, 'm) sort_env =
  se_done :: "'d \<Rightarrow> bool"
  se_hash :: "'d \<Rightarrow> int"
  se_generate :: "'d \<Rightarrow> 'm gen"
  se_validate :: "'m \<Rightarrow> 'd \<Rightarrow> (bool \<times> string option) res"
  se_simulate :: "'m \<Rightarrow> 'd \<Rightarrow> 'd res"

section \<open>What a sorting is\<close>

text \<open>
  \<open>legal S d m d'\<close>: the wrapper offers \<open>m\<close> in \<open>d\<close>, \<open>m\<close> passes every validator there and its
  simulation gives \<open>d'\<close>.  \<open>sorting S d ms d'\<close>: a chain of legal moves.
\<close>

definition legal :: "('d, 'm) sort_env \<Rightarrow> 'd \<Rightarrow> 'm \<Rightarrow> 'd \<Rightarrow> bool" where
  "legal S d m d' \<longleftrightarrow>
     m \<in> set (fst (se_generate S d)) \<and> (\<exists>msg. se_validate S m d = Inr (True, msg)) \<and>
     se_simulate S m d = Inr d'"

inductive sorting :: "('d, 'm) sort_env \<Rightarrow> 'd \<Rightarrow> 'm list \<Rightarrow> 'd \<Rightarrow> bool" for S where
  sorting_nil: "sorting S d [] d"
| sorting_cons: "legal S d m d' \<Longrightarrow> sorting S d' ms d'' \<Longrightarrow> sorting S d (m # ms) d''"

inductive_cases sorting_nilE: "sorting S d [] d'"
inductive_cases sorting_consE: "sorting S d (m # ms) d'"
inductive_simps sorting_Nil_iff [simp]: "sorting S d [] d'"
inductive_simps sorting_Cons_iff: "sorting S d (m # ms) d'"

definition reachable :: "('d, 'm) sort_env \<Rightarrow> 'd \<Rightarrow> 'd \<Rightarrow> bool" where
  "reachable S d d' \<longleftrightarrow> (\<exists>ms. sorting S d ms d')"

lemma sorting_append: "sorting S d ms d' \<Longrightarrow> sorting S d' ns d'' \<Longrightarrow> sorting S d (ms @ ns) d''"
  by (induction rule: sorting.induct) (auto intro: sorting.intros)

lemma sorting_snoc: "sorting S d ms d' \<Longrightarrow> legal S d' m d'' \<Longrightarrow> sorting S d (ms @ [m]) d''"
  by (blast intro: sorting_append sorting.intros)

lemma reachable_refl [simp, intro]: "reachable S d d"
  by (auto simp: reachable_def intro: sorting.intros)

lemma reachable_step: "legal S d m d' \<Longrightarrow> reachable S d' d'' \<Longrightarrow> reachable S d d''"
  by (auto simp: reachable_def intro: sorting.intros)

lemma reachable_trans_step: "reachable S d d' \<Longrightarrow> legal S d' m d'' \<Longrightarrow> reachable S d d''"
  by (auto simp: reachable_def intro: sorting_snoc)

section \<open>\<open>PatchSorterPath\<close>\<close>

datatype patch_status = TOPLEVEL | TESTING | VALID | INVALID | PATH_ISSUE | RECURSE_REJECT

datatype 'm path_item =
  PathItem (item_moves: 'm) (item_status: patch_status) (item_error: "string option")
    (item_children: "'m path_item list")

section \<open>\<open>DfsSorter\<close>\<close>

text \<open>
  \<open>dfs_sort S n v d\<close> is \<open>DfsSorter.sort(diff)\<close> with \<open>v\<close> the keys of \<open>visited\<close>; it returns the
  result, the new \<open>visited\<close> and the children the call appended to its path item.  \<open>dfs_loop\<close> is its
  \<open>for move in moves\<close>, whose generator ends with the exception \<open>err\<close> if there is one.  The fuel \<open>n\<close>
  bounds the depth of the recursion.
\<close>

function dfs_sort ::
  "('d, 'm) sort_env \<Rightarrow> nat \<Rightarrow> int set \<Rightarrow> 'd \<Rightarrow> 'm list option res \<times> int set \<times> 'm path_item list"
  and dfs_loop ::
  "('d, 'm) sort_env \<Rightarrow> nat \<Rightarrow> int set \<Rightarrow> 'd \<Rightarrow> 'm list \<Rightarrow> py_error option
     \<Rightarrow> 'm list option res \<times> int set \<times> 'm path_item list"
where
  "dfs_sort S 0 v d = (Inl OutOfFuel, v, [])"
| "dfs_sort S (Suc n) v d =
     (if se_done S d then (Inr (Some []), v, [])
      else if se_hash S d \<in> v then (Inr None, v, [])
      else dfs_loop S n (insert (se_hash S d) v) d (fst (se_generate S d)) (snd (se_generate S d)))"
| "dfs_loop S n v d [] err = ((case err of None \<Rightarrow> Inr None | Some e \<Rightarrow> Inl e), v, [])"
| "dfs_loop S n v d (m # ms) err =
     (case se_validate S m d of
        Inl e \<Rightarrow> (Inl e, v, [PathItem m TESTING None []])
      | Inr (True, _) \<Rightarrow>
          (case se_simulate S m d of
             Inl e \<Rightarrow> (Inl e, v, [PathItem m TESTING None []])
           | Inr d' \<Rightarrow>
               (case dfs_sort S n v d' of
                  (Inl e, v', cs) \<Rightarrow> (Inl e, v', [PathItem m TESTING None cs])
                | (Inr (Some ms'), v', cs) \<Rightarrow> (Inr (Some (m # ms')), v', [PathItem m VALID None cs])
                | (Inr None, v', cs) \<Rightarrow>
                    (let item = PathItem m (if cs \<noteq> [] then PATH_ISSUE else RECURSE_REJECT) None cs;
                         (r, v'', items) = dfs_loop S n v' d ms err
                     in (r, v'', item # items))))
      | Inr (False, msg) \<Rightarrow>
          (let (r, v'', items) = dfs_loop S n v d ms err
           in (r, v'', PathItem m INVALID msg [] # items)))"
  by pat_completeness auto
termination
  by (relation "measures [\<lambda>x. case x of Inl (S, n, v, d) \<Rightarrow> n | Inr (S, n, v, d, ms, err) \<Rightarrow> n,
                          \<lambda>x. case x of Inl _ \<Rightarrow> 0 | Inr (S, n, v, d, ms, err) \<Rightarrow> Suc (length ms)]")
     auto

section \<open>\<open>BfsSorter\<close>\<close>

text \<open>
  The inner loop of one dequeued diff: the new entries of the two queues, kept as one queue of
  pairs, or the exception that ends the search.
\<close>

fun bfs_expand ::
  "('d, 'm) sort_env \<Rightarrow> 'd \<Rightarrow> 'm list \<Rightarrow> 'm list \<Rightarrow> py_error option \<Rightarrow> ('d \<times> 'm list) list res" where
  "bfs_expand S d prv [] err = (case err of None \<Rightarrow> Inr [] | Some e \<Rightarrow> Inl e)"
| "bfs_expand S d prv (m # ms) err =
     rbind (se_validate S m d)
       (\<lambda>(ok, msg). if ok
          then rbind (se_simulate S m d)
                 (\<lambda>d'. rbind (bfs_expand S d prv ms err) (\<lambda>q. Inr ((d', prv @ [m]) # q)))
          else bfs_expand S d prv ms err)"

fun bfs_loop ::
  "('d, 'm) sort_env \<Rightarrow> nat \<Rightarrow> int set \<Rightarrow> ('d \<times> 'm list) list \<Rightarrow> 'm list option res \<times> int set" where
  "bfs_loop S 0 v q = (Inl OutOfFuel, v)"
| "bfs_loop S (Suc n) v [] = (Inr None, v)"
| "bfs_loop S (Suc n) v ((d, prv) # q) =
     (if se_hash S d \<in> v then bfs_loop S n v q
      else if se_done S d then (Inr (Some prv), insert (se_hash S d) v)
      else case bfs_expand S d prv (fst (se_generate S d)) (snd (se_generate S d)) of
             Inl e \<Rightarrow> (Inl e, insert (se_hash S d) v)
           | Inr new \<Rightarrow> bfs_loop S n (insert (se_hash S d) v) (q @ new))"

definition bfs_sort ::
  "('d, 'm) sort_env \<Rightarrow> nat \<Rightarrow> int set \<Rightarrow> 'd \<Rightarrow> 'm list option res \<times> int set" where
  "bfs_sort S n v d = bfs_loop S n v [(d, [])]"

section \<open>\<open>MemoizationSorter\<close>\<close>

type_synonym 'm memo = "int \<Rightarrow> 'm list option option"

definition better :: "'m list option \<Rightarrow> 'm \<Rightarrow> 'm list option \<Rightarrow> 'm list option" where
  "better best m found =
     (case found of
        None \<Rightarrow> best
      | Some ms \<Rightarrow>
          (case best of
             None \<Rightarrow> Some (m # ms)
           | Some bs \<Rightarrow> if length bs > length ms + 1 then Some (m # ms) else best))"

function memo_sort ::
  "('d, 'm) sort_env \<Rightarrow> nat \<Rightarrow> int set \<Rightarrow> 'm memo \<Rightarrow> 'd \<Rightarrow> 'm list option res \<times> int set \<times> 'm memo"
  and memo_loop ::
  "('d, 'm) sort_env \<Rightarrow> nat \<Rightarrow> int set \<Rightarrow> 'm memo \<Rightarrow> 'd \<Rightarrow> 'm list \<Rightarrow> py_error option \<Rightarrow> 'm list option
     \<Rightarrow> 'm list option res \<times> int set \<times> 'm memo"
where
  "memo_sort S 0 v mem d = (Inl OutOfFuel, v, mem)"
| "memo_sort S (Suc n) v mem d =
     (if se_done S d then (Inr (Some []), v, mem)
      else case mem (se_hash S d) of
             Some r \<Rightarrow> (Inr r, v, mem)
           | None \<Rightarrow>
               if se_hash S d \<in> v then (Inr None, v, mem)
               else case memo_loop S n (insert (se_hash S d) v) mem d
                           (fst (se_generate S d)) (snd (se_generate S d)) None of
                      (Inl e, v', mem') \<Rightarrow> (Inl e, v', mem')
                    | (Inr best, v', mem') \<Rightarrow> (Inr best, v', mem'(se_hash S d \<mapsto> best)))"
| "memo_loop S n v mem d [] err best =
     ((case err of None \<Rightarrow> Inr best | Some e \<Rightarrow> Inl e), v, mem)"
| "memo_loop S n v mem d (m # ms) err best =
     (case se_validate S m d of
        Inl e \<Rightarrow> (Inl e, v, mem)
      | Inr (True, _) \<Rightarrow>
          (case se_simulate S m d of
             Inl e \<Rightarrow> (Inl e, v, mem)
           | Inr d' \<Rightarrow>
               (case memo_sort S n v mem d' of
                  (Inl e, v', mem') \<Rightarrow> (Inl e, v', mem')
                | (Inr found, v', mem') \<Rightarrow> memo_loop S n v' mem' d ms err (better best m found)))
      | Inr (False, _) \<Rightarrow> memo_loop S n v mem d ms err best)"
  by pat_completeness auto
termination
  by (relation "measures [\<lambda>x. case x of Inl (S, n, v, mem, d) \<Rightarrow> n
                                       | Inr (S, n, v, mem, d, ms, err, best) \<Rightarrow> n,
                          \<lambda>x. case x of Inl _ \<Rightarrow> 0
                                       | Inr (S, n, v, mem, d, ms, err, best) \<Rightarrow> Suc (length ms)]")
     auto


section \<open>Big-step view of the depth-first search\<close>

text \<open>
  The runs of \<open>dfs_sort\<close> that do not end with an exception, as a relation: one rule per branch.
  The properties are rule inductions over it.
\<close>

inductive run_sort :: "('d, 'm) sort_env \<Rightarrow> int set \<Rightarrow> 'd \<Rightarrow> 'm list option \<Rightarrow> int set \<Rightarrow> bool"
  and run_loop :: "('d, 'm) sort_env \<Rightarrow> int set \<Rightarrow> 'd \<Rightarrow> 'm list \<Rightarrow> 'm list option \<Rightarrow> int set \<Rightarrow> bool"
  for S where
  run_done: "se_done S d \<Longrightarrow> run_sort S v d (Some []) v"
| run_seen: "\<not> se_done S d \<Longrightarrow> se_hash S d \<in> v \<Longrightarrow> run_sort S v d None v"
| run_search: "\<not> se_done S d \<Longrightarrow> se_hash S d \<notin> v \<Longrightarrow>
    run_loop S (insert (se_hash S d) v) d (fst (se_generate S d)) r v' \<Longrightarrow> run_sort S v d r v'"
| run_end: "run_loop S v d [] None v"
| run_invalid: "se_validate S m d = Inr (False, msg) \<Longrightarrow> run_loop S v d ms r v' \<Longrightarrow>
    run_loop S v d (m # ms) r v'"
| run_found: "se_validate S m d = Inr (True, msg) \<Longrightarrow> se_simulate S m d = Inr d' \<Longrightarrow>
    run_sort S v d' (Some ms') v' \<Longrightarrow> run_loop S v d (m # ms) (Some (m # ms')) v'"
| run_back: "se_validate S m d = Inr (True, msg) \<Longrightarrow> se_simulate S m d = Inr d' \<Longrightarrow>
    run_sort S v d' None v' \<Longrightarrow> run_loop S v' d ms r v'' \<Longrightarrow> run_loop S v d (m # ms) r v''"

lemma dfs_loop_cases:
  assumes "dfs_loop S n v d (m # ms) err = (r, v', cs)"
  obtains (val_err) e where "se_validate S m d = Inl e" "r = Inl e"
  | (invalid) msg c1 where "se_validate S m d = Inr (False, msg)"
      "dfs_loop S n v d ms err = (r, v', c1)"
  | (sim_err) msg e where "se_validate S m d = Inr (True, msg)" "se_simulate S m d = Inl e" "r = Inl e"
  | (sub_err) msg d' e c1 where "se_validate S m d = Inr (True, msg)" "se_simulate S m d = Inr d'"
      "dfs_sort S n v d' = (Inl e, v', c1)" "r = Inl e"
  | (found) msg d' ms1 c1 where "se_validate S m d = Inr (True, msg)" "se_simulate S m d = Inr d'"
      "dfs_sort S n v d' = (Inr (Some ms1), v', c1)" "r = Inr (Some (m # ms1))"
      "cs = [PathItem m VALID None c1]"
  | (backtrack) msg d' v1 c1 c2 where "se_validate S m d = Inr (True, msg)" "se_simulate S m d = Inr d'"
      "dfs_sort S n v d' = (Inr None, v1, c1)" "dfs_loop S n v1 d ms err = (r, v', c2)"
proof (cases "se_validate S m d")
  case (Inl e)
  with assms val_err show ?thesis by auto
next
  case (Inr bm)
  obtain b msg where bm: "bm = (b, msg)" by force
  show ?thesis
  proof (cases b)
    case False
    obtain r1 v1 c1 where "dfs_loop S n v d ms err = (r1, v1, c1)" by (metis prod_cases3)
    with assms Inr bm False invalid show ?thesis by auto
  next
    case True
    show ?thesis
    proof (cases "se_simulate S m d")
      case (Inl e)
      with assms Inr bm True sim_err show ?thesis by auto
    next
      case sim: (Inr d')
      obtain r1 v1 c1 where rec: "dfs_sort S n v d' = (r1, v1, c1)" by (metis prod_cases3)
      obtain r2 v2 c2 where "dfs_loop S n v1 d ms err = (r2, v2, c2)" by (metis prod_cases3)
      then show ?thesis
        using assms Inr bm True sim rec sub_err found backtrack
        by (cases r1; cases "projr r1") (auto simp: Let_def)
    qed
  qed
qed

text \<open>
  The recursion of \<open>dfs_sort\<close> and \<open>dfs_loop\<close> as an induction rule: depth first, then the moves left.
\<close>

lemma dfs_induct:
  assumes zero: "\<And>v d. P 0 v d"
    and search: "\<And>n v d. (\<And>w todo err. Q n w d todo err) \<Longrightarrow> P (Suc n) v d"
    and nil: "\<And>n v d err. Q n v d [] err"
    and cons: "\<And>n v d m ms err. (\<And>w d'. P n w d') \<Longrightarrow> (\<And>w. Q n w d ms err) \<Longrightarrow> Q n v d (m # ms) err"
  shows "P n v d" and "Q n v d todo err"
proof -
  have loop: "Q n v d todo err" if "\<And>w d'. P n w d'" for n v d todo err
    using that by (induction todo arbitrary: v) (auto intro: nil cons)
  have "P n v d" for n v d
    by (induction n arbitrary: v d) (auto intro: zero search loop)
  then show "P n v d" "Q n v d todo err" by (auto intro: loop)
qed

lemma dfs_run:
  "dfs_sort S n v d = (Inr r, v', cs) \<Longrightarrow> run_sort S v d r v'"
  "dfs_loop S n v d todo err = (Inr r, v', cs) \<Longrightarrow> run_loop S v d todo r v'"
proof (induction n v d and n v d todo err arbitrary: r v' cs and r v' cs rule: dfs_induct)
  case (4 n v d m ms err)
  from 4(3) show ?case
  proof (cases rule: dfs_loop_cases)
    case (invalid msg c1)
    then show ?thesis using 4(2) by (auto intro: run_invalid)
  next
    case (found msg d' ms1 c1)
    then show ?thesis using 4(1) by (auto intro: run_found)
  next
    case (backtrack msg d' v1 c1 c2)
    then show ?thesis using 4(1) [of v d' None v1] 4(2) [of v1 r v'] by (auto intro: run_back)
  qed auto
qed (auto split: if_splits option.splits intro: run_sort_run_loop.intros)

section \<open>Soundness\<close>

lemma run_sound:
  "run_sort S v d r v' \<Longrightarrow> r = Some ms \<Longrightarrow> \<exists>d'. sorting S d ms d' \<and> se_done S d'"
  "run_loop S v d todo r v' \<Longrightarrow> r = Some ms \<Longrightarrow> set todo \<subseteq> set (fst (se_generate S d)) \<Longrightarrow>
     \<exists>d'. sorting S d ms d' \<and> se_done S d'"
proof (induction arbitrary: ms and ms rule: run_sort_run_loop.inducts)
  case (run_found m d msg d' v ms' v' todo)
  then obtain d'' where "sorting S d' ms' d''" "se_done S d''" by blast
  moreover have "legal S d m d'" using run_found by (auto simp: legal_def)
  ultimately show ?case using run_found.prems by (auto intro: sorting.intros)
qed auto

lemma dfs_sound:
  "dfs_sort S n v d = (Inr (Some ms), v', cs) \<Longrightarrow> \<exists>d'. sorting S d ms d' \<and> se_done S d'"
  by (rule run_sound(1) [OF dfs_run(1) refl])

section \<open>Completeness of the depth-first search\<close>

text \<open>
  Every diff whose hash the search added is not done and has all its legal successors visited.  Hashes
  need not tell diffs apart: \<open>Diff.__hash__\<close> prints the configurations with sorted keys, so that diffs which
  differ in the order of keys only have the same hash.  It is enough that diffs with the same hash are
  both done or both not, and that the legal moves of one lead to the same hashes as those of the other, on
  a set \<open>U\<close> that legal moves do not leave.
\<close>

definition hashes_respect :: "('d, 'm) sort_env \<Rightarrow> 'd set \<Rightarrow> bool" where
  "hashes_respect S U \<longleftrightarrow>
     (\<forall>x \<in> U. \<forall>y \<in> U. se_hash S x = se_hash S y \<longrightarrow>
        (se_done S x \<longrightarrow> se_done S y) \<and>
        (\<forall>m x'. legal S x m x' \<longrightarrow> (\<exists>n y'. legal S y n y' \<and> se_hash S y' = se_hash S x')))"

lemma hashes_respectD:
  assumes "hashes_respect S U" and "x \<in> U" and "y \<in> U" and "se_hash S x = se_hash S y"
  shows "se_done S x \<Longrightarrow> se_done S y"
    and "legal S x m x' \<Longrightarrow> \<exists>n y'. legal S y n y' \<and> se_hash S y' = se_hash S x'"
  using assms unfolding hashes_respect_def by blast+

lemma distinct_hashes_respect: "inj_on (se_hash S) U \<Longrightarrow> hashes_respect S U"
  unfolding hashes_respect_def by (metis inj_onD)

definition explored :: "('d, 'm) sort_env \<Rightarrow> 'd set \<Rightarrow> int set \<Rightarrow> int set \<Rightarrow> bool" where
  "explored S U new v \<longleftrightarrow>
     (\<forall>x \<in> U. se_hash S x \<in> new \<longrightarrow>
        \<not> se_done S x \<and> (\<forall>m x'. legal S x m x' \<longrightarrow> se_hash S x' \<in> v))"

definition closed_under_moves :: "('d, 'm) sort_env \<Rightarrow> 'd set \<Rightarrow> bool" where
  "closed_under_moves S U \<longleftrightarrow> (\<forall>x \<in> U. \<forall>m x'. legal S x m x' \<longrightarrow> x' \<in> U)"

lemma explored_mono: "explored S U A v \<Longrightarrow> v \<subseteq> w \<Longrightarrow> explored S U A w"
  by (auto simp: explored_def)

lemma explored_Un: "explored S U A v \<Longrightarrow> explored S U B v \<Longrightarrow> explored S U (A \<union> B) v"
  by (auto simp: explored_def)

lemma run_visited:
  "run_sort S v d r v' \<Longrightarrow> v \<subseteq> v'"
  "run_loop S v d todo r v' \<Longrightarrow> v \<subseteq> v'"
  by (induction rule: run_sort_run_loop.inducts) auto

lemma run_complete:
  assumes res: "hashes_respect S U" and cl: "closed_under_moves S U"
  shows "run_sort S v d r v' \<Longrightarrow> r = None \<Longrightarrow> d \<in> U \<Longrightarrow>
      se_hash S d \<in> v' \<and> explored S U (v' - v) v'"
    and "run_loop S v d todo r v' \<Longrightarrow> r = None \<Longrightarrow> d \<in> U \<Longrightarrow>
      set todo \<subseteq> set (fst (se_generate S d)) \<Longrightarrow>
      explored S U (v' - v) v' \<and> (\<forall>m \<in> set todo. \<forall>d'. legal S d m d' \<longrightarrow> se_hash S d' \<in> v')"
proof (induction rule: run_sort_run_loop.inducts)
  case (run_search d v r v')
  let ?w = "insert (se_hash S d) v"
  have w: "?w \<subseteq> v'" using run_search(3) by (rule run_visited)
  have "explored S U {se_hash S d} v'"
    unfolding explored_def
  proof (intro ballI impI)
    fix x assume x: "x \<in> U" "se_hash S x \<in> {se_hash S d}"
    note alike = hashes_respectD [OF res x(1), of d]
    have "se_hash S y \<in> v'" if "legal S d m y" for m y
      using that run_search by (auto simp: legal_def)
    with alike x run_search show "\<not> se_done S x \<and> (\<forall>m x'. legal S x m x' \<longrightarrow> se_hash S x' \<in> v')"
      by (metis singletonD)
  qed
  moreover have "explored S U (v' - ?w) v'" using run_search by auto
  moreover have "v' - v \<subseteq> {se_hash S d} \<union> (v' - ?w)" by auto
  ultimately show ?case using w explored_Un unfolding explored_def by blast
next
  case (run_back m d msg d' v v' ms r v'')
  have "legal S d m d'" using run_back by (auto simp: legal_def)
  then have "d' \<in> U" using cl run_back.prems by (auto simp: closed_under_moves_def)
  then have d': "se_hash S d' \<in> v'" "explored S U (v' - v) v'" using run_back by auto
  have mono: "v' \<subseteq> v''" using run_back(5) by (rule run_visited)
  have rest: "explored S U (v'' - v') v''"
    "\<forall>x \<in> set ms. \<forall>d'. legal S d x d' \<longrightarrow> se_hash S d' \<in> v''"
    using run_back by auto
  have "explored S U (v'' - v) v''"
    using explored_mono [OF d'(2) mono] rest(1) unfolding explored_def by blast
  moreover have "se_hash S x \<in> v''" if "legal S d m x" for x
    using that run_back(2) d'(1) mono by (auto simp: legal_def)
  ultimately show ?case using rest(2) by auto
next
  case (run_invalid m d msg v ms r v')
  then have "\<not> legal S d m x" for x by (auto simp: legal_def)
  with run_invalid show ?case by simp
qed (simp_all add: explored_def)

lemma reachable_closed:
  assumes "sorting S d ms d'" and "se_hash S d \<in> v" and "explored S U v v"
    and "closed_under_moves S U" and "d \<in> U"
  shows "\<not> se_done S d'"
  using assms
  by (induction rule: sorting.induct) (auto simp: explored_def closed_under_moves_def)

lemma closed_under_reachable: "closed_under_moves S {x. reachable S d x}"
  by (auto simp: closed_under_moves_def intro: reachable_trans_step)

lemma dfs_complete:
  assumes "dfs_sort S n {} d = (Inr None, v', cs)"
    and "hashes_respect S {x. reachable S d x}"
    and "reachable S d d'"
  shows "\<not> se_done S d'"
proof -
  let ?U = "{x. reachable S d x}"
  have cl: "closed_under_moves S ?U" by (rule closed_under_reachable)
  have "run_sort S {} d None v'" using assms(1) by (rule dfs_run)
  then have "se_hash S d \<in> v'" "explored S ?U v' v'"
    using run_complete(1) [OF assms(2) cl, of "{}" d None v'] by auto
  moreover obtain ms where "sorting S d ms d'" using assms(3) by (auto simp: reachable_def)
  ultimately show ?thesis using cl by (intro reachable_closed) auto
qed

section \<open>Termination: enough fuel\<close>

text \<open>No operation of the wrapper reports the model's own bound on the diffs of a search.\<close>

definition fuel_free :: "('d, 'm) sort_env \<Rightarrow> 'd set \<Rightarrow> bool" where
  "fuel_free S U \<longleftrightarrow>
     (\<forall>d \<in> U. snd (se_generate S d) \<noteq> Some OutOfFuel \<and>
        (\<forall>m \<in> set (fst (se_generate S d)). se_validate S m d \<noteq> Inl OutOfFuel \<and> se_simulate S m d \<noteq> Inl OutOfFuel))"

lemma dfs_enough_fuel_aux:
  assumes fin: "finite H" and cl: "closed_under_moves S U" and sub: "se_hash S ` U \<subseteq> H"
    and ff: "fuel_free S U"
  shows "dfs_sort S n v d = (r, v', cs) \<Longrightarrow> d \<in> U \<Longrightarrow> card (H - v) < n \<Longrightarrow> r \<noteq> Inl OutOfFuel"
    and "dfs_loop S n v d todo err = (r, v', cs) \<Longrightarrow> d \<in> U \<Longrightarrow> card (H - v) < n \<Longrightarrow>
      set todo \<subseteq> set (fst (se_generate S d)) \<Longrightarrow> err \<noteq> Some OutOfFuel \<Longrightarrow> r \<noteq> Inl OutOfFuel"
proof (induction n v d and n v d todo err arbitrary: r v' cs and r v' cs rule: dfs_induct)
  case (2 n v d)
  show ?case
  proof (cases "se_done S d \<or> se_hash S d \<in> v")
    case True
    with 2(2) show ?thesis by (auto split: if_splits)
  next
    case False
    have "se_hash S d \<in> H - v" using 2(3) sub False by blast
    then have "card (H - insert (se_hash S d) v) < card (H - v)"
      using fin by (intro psubset_card_mono) auto
    then show ?thesis using 2 False ff by (auto simp: fuel_free_def)
  qed
next
  case (4 n v d m ms err)
  have step: "d' \<in> U" if "se_validate S m d = Inr (True, msg)" "se_simulate S m d = Inr d'" for d' msg
    using that 4(4,6) cl by (auto simp: closed_under_moves_def legal_def)
  from 4(3) show ?case
  proof (cases rule: dfs_loop_cases)
    case (invalid msg c1)
    with 4 show ?thesis by auto
  next
    case (backtrack msg d' v1 c1 c2)
    have "v \<subseteq> v1" using dfs_run(1) [OF backtrack(3)] by (rule run_visited)
    then have "card (H - v1) \<le> card (H - v)" using fin by (intro card_mono) auto
    with backtrack 4(4-) show ?thesis using 4(2) [of v1 r v' c2] by auto
  next
    case (sub_err msg d' e c1)
    with 4(4-) step show ?thesis using 4(1) [of v d' "Inl e" v' c1] by auto
  qed (use ff 4(4,6) in \<open>auto simp: fuel_free_def\<close>)
qed (auto split: option.splits)

lemma dfs_enough_fuel:
  assumes "finite (se_hash S ` {x. reachable S d x})" and "fuel_free S {x. reachable S d x}"
    and "card (se_hash S ` {x. reachable S d x}) < n"
  shows "fst (dfs_sort S n {} d) \<noteq> Inl OutOfFuel"
proof -
  obtain r v' cs where "dfs_sort S n {} d = (r, v', cs)" by (metis prod_cases3)
  then show ?thesis
    using dfs_enough_fuel_aux(1) [OF assms(1) closed_under_reachable order_refl assms(2)] assms(3)
    by fastforce
qed


section \<open>The trace tree\<close>

text \<open>The chain of \<open>VALID\<close> items, read from the last child of each level.\<close>

fun valid_chain :: "'m path_item list \<Rightarrow> 'm list" where
  "valid_chain [] = []"
| "valid_chain [PathItem m st e cs] = (if st = VALID then m # valid_chain cs else [])"
| "valid_chain (i # j # items) = valid_chain (j # items)"

lemma valid_chain_Cons: "valid_chain (i # items) =
    (if items = [] then (if item_status i = VALID then item_moves i # valid_chain (item_children i) else [])
     else valid_chain items)"
  by (cases i; cases items) auto

lemma dfs_trace:
  "dfs_sort S n v d = (Inr (Some ms), v', cs) \<Longrightarrow> valid_chain cs = ms"
  "dfs_loop S n v d todo err = (Inr (Some ms), v', cs) \<Longrightarrow> cs \<noteq> [] \<and> valid_chain cs = ms"
proof (induction n v d and n v d todo err arbitrary: ms v' cs and ms v' cs rule: dfs_induct)
  case (4 n v d m todo err)
  from 4(3) show ?case
  proof (cases rule: dfs_loop_cases)
    case (invalid msg c1)
    with 4(2) have "c1 \<noteq> []" "valid_chain c1 = ms" by auto
    with invalid 4(3) show ?thesis by (auto simp: valid_chain_Cons)
  next
    case (found msg d' ms1 c1)
    with 4(1) have "valid_chain c1 = ms1" by auto
    with found show ?thesis by auto
  next
    case (backtrack msg d' v1 c1 c2)
    with 4(2) have "c2 \<noteq> []" "valid_chain c2 = ms" by blast+
    with backtrack 4(3) show ?thesis by (auto simp: Let_def valid_chain_Cons)
  qed auto
qed (auto split: if_splits option.splits)

section \<open>Breadth-first search: soundness and shortest results\<close>

lemma bfs_expand_mem:
  "bfs_expand S d prv todo err = Inr q \<Longrightarrow> set todo \<subseteq> set (fst (se_generate S d)) \<Longrightarrow>
   (x, p) \<in> set q \<Longrightarrow> \<exists>m. legal S d m x \<and> p = prv @ [m]"
proof (induction todo arbitrary: q)
  case (Cons m todo)
  obtain b msg where val: "se_validate S m d = Inr (b, msg)"
    using Cons.prems(1) by (auto simp: res_simps)
  show ?case
  proof (cases b)
    case True
    then obtain d' q' where s: "se_simulate S m d = Inr d'" "bfs_expand S d prv todo err = Inr q'"
        "q = (d', prv @ [m]) # q'"
      using Cons.prems(1) val by (auto simp: res_simps)
    with Cons val True show ?thesis by (auto simp: legal_def)
  next
    case False
    with Cons val show ?thesis by auto
  qed
qed (auto split: option.splits)

lemma bfs_expand_all:
  "bfs_expand S d prv todo err = Inr q \<Longrightarrow> m \<in> set todo \<Longrightarrow> legal S d m x \<Longrightarrow> (x, prv @ [m]) \<in> set q"
proof (induction todo arbitrary: q)
  case (Cons m' todo)
  obtain b msg where val: "se_validate S m' d = Inr (b, msg)"
    using Cons.prems(1) by (auto simp: res_simps)
  show ?case
  proof (cases b)
    case True
    then obtain d' q' where s: "se_simulate S m' d = Inr d'" "bfs_expand S d prv todo err = Inr q'"
        "q = (d', prv @ [m']) # q'"
      using Cons.prems(1) val by (auto simp: res_simps)
    with Cons val True show ?thesis by (auto simp: legal_def)
  next
    case False
    with Cons val show ?thesis by (auto simp: legal_def)
  qed
qed simp

lemma bfs_expand_length: "bfs_expand S d prv todo err = Inr q \<Longrightarrow> length q \<le> length todo"
proof (induction todo arbitrary: q)
  case (Cons m todo)
  then show ?case by (fastforce simp: res_simps split: if_splits)
qed (auto split: option.splits)

text \<open>
  The queue holds sortings of the start, by length, over at most two lengths; a visited diff is not
  done, its recorded distance \<open>k\<close> is a lower bound, and its successors are visited or queued at
  distance at most \<open>k + 1\<close>.
\<close>

definition queued :: "('d, 'm) sort_env \<Rightarrow> 'd \<Rightarrow> nat \<Rightarrow> ('d \<times> 'm list) list \<Rightarrow> bool" where
  "queued S z k q \<longleftrightarrow> (\<exists>x r. (x, r) \<in> set q \<and> se_hash S x = se_hash S z \<and> length r \<le> k)"

definition bfs_inv :: "('d, 'm) sort_env \<Rightarrow> 'd \<Rightarrow> int set \<Rightarrow> ('d \<times> 'm list) list \<Rightarrow> bool" where
  "bfs_inv S d0 v q \<longleftrightarrow>
     (\<forall>(x, p) \<in> set q. sorting S d0 p x) \<and>
     sorted (map (length \<circ> snd) q) \<and>
     (\<forall>(x, p) \<in> set q. length p \<le> Suc (length (snd (hd q)))) \<and>
     (\<forall>z. reachable S d0 z \<longrightarrow> se_hash S z \<in> v \<longrightarrow> \<not> se_done S z \<and>
        (\<exists>k. (\<forall>p. sorting S d0 p z \<longrightarrow> k \<le> length p) \<and>
             (\<forall>m z'. legal S z m z' \<longrightarrow> se_hash S z' \<in> v \<or> queued S z' (Suc k) q))) \<and>
     (se_hash S d0 \<in> v \<or> (d0, []) \<in> set q)"

lemma sorting_last_visited:
  assumes "sorting S d p x" and "se_hash S x \<notin> v" and "se_hash S d \<in> v"
  shows "\<exists>p1 z m z' p2. p = p1 @ m # p2 \<and> sorting S d p1 z \<and> se_hash S z \<in> v \<and> legal S z m z' \<and>
           se_hash S z' \<notin> v"
  using assms
proof (induction rule: sorting.induct)
  case (sorting_cons d m d' ms d'')
  show ?case
  proof (cases "se_hash S d' \<in> v")
    case True
    with sorting_cons obtain p1 z m1 z' p2 where
      "ms = p1 @ m1 # p2" "sorting S d' p1 z" "se_hash S z \<in> v" "legal S z m1 z'" "se_hash S z' \<notin> v"
      by blast
    with sorting_cons(1) show ?thesis
      by (intro exI [of _ "m # p1"] exI [of _ z] exI [of _ m1] exI [of _ z'] exI [of _ p2])
         (auto intro: sorting.intros)
  next
    case False
    with sorting_cons show ?thesis
      by (intro exI [of _ "[]"] exI [of _ d] exI [of _ m] exI [of _ d'] exI [of _ ms])
         (auto intro: sorting.intros)
  qed
qed auto

text \<open>Whatever leads to an unvisited diff is at least as long as the head of the queue.\<close>

lemma bfs_head_shortest:
  assumes inv: "bfs_inv S d0 v ((y, r) # q)" and p: "sorting S d0 p x" and x: "se_hash S x \<notin> v"
  shows "length r \<le> length p"
proof -
  have head: "length r \<le> length r'" if "(x', r') \<in> set ((y, r) # q)" for x' r'
    using that inv by (fastforce simp: bfs_inv_def)
  show ?thesis
  proof (cases "se_hash S d0 \<in> v")
    case False
    with inv have "(d0, []) \<in> set ((y, r) # q)" unfolding bfs_inv_def by blast
    from head [OF this] show ?thesis by simp
  next
    case True
    from sorting_last_visited [OF p x True] obtain p1 z m z' p2 where
      s: "p = p1 @ m # p2" "sorting S d0 p1 z" "se_hash S z \<in> v" "legal S z m z'" "se_hash S z' \<notin> v"
      by blast
    have "reachable S d0 z" using s by (auto simp: reachable_def)
    then obtain k where k: "\<forall>p. sorting S d0 p z \<longrightarrow> k \<le> length p"
        "\<forall>m z'. legal S z m z' \<longrightarrow> se_hash S z' \<in> v \<or> queued S z' (Suc k) ((y, r) # q)"
      using inv s(3) unfolding bfs_inv_def by blast
    then obtain x' r' where "(x', r') \<in> set ((y, r) # q)" "length r' \<le> Suc k"
      using s unfolding queued_def by blast
    moreover have "k \<le> length p1" using k(1) s(2) by blast
    ultimately show ?thesis using head s(1) by fastforce
  qed
qed


lemma bfs_inv_init: "bfs_inv S d {} [(d, [])]"
  by (simp add: bfs_inv_def sorting.intros)

lemma bfs_inv_skip:
  assumes inv: "bfs_inv S d0 v ((y, r) # q)" and y: "se_hash S y \<in> v"
  shows "bfs_inv S d0 v q"
proof -
  have le: "length r' \<le> Suc (length (snd (hd q)))" if "(x', r') \<in> set q" for x' r'
  proof -
    have "length r' \<le> Suc (length r)" using that inv by (fastforce simp: bfs_inv_def)
    moreover have "length r \<le> length (snd (hd q))"
      using that inv by (cases q) (auto simp: bfs_inv_def)
    ultimately show ?thesis by simp
  qed
  show ?thesis
    unfolding bfs_inv_def
  proof (intro conjI allI impI)
    fix z assume z: "reachable S d0 z" "se_hash S z \<in> v"
    then obtain k where k: "\<not> se_done S z" "\<forall>p. sorting S d0 p z \<longrightarrow> k \<le> length p"
        "\<forall>m z'. legal S z m z' \<longrightarrow> se_hash S z' \<in> v \<or> queued S z' (Suc k) ((y, r) # q)"
      using inv unfolding bfs_inv_def by blast
    show "\<not> se_done S z" by (rule k)
    have "se_hash S z' \<in> v \<or> queued S z' (Suc k) q" if "legal S z m z'" for m z'
      using k(3) that y by (fastforce simp: queued_def)
    with k(2) show "\<exists>k. (\<forall>p. sorting S d0 p z \<longrightarrow> k \<le> length p) \<and>
        (\<forall>m z'. legal S z m z' \<longrightarrow> se_hash S z' \<in> v \<or> queued S z' (Suc k) q)"
      by blast
  qed (use inv y le in \<open>auto simp: bfs_inv_def\<close>)
qed

lemma bfs_inv_expand:
  assumes inv: "bfs_inv S d0 v ((y, r) # q)" and y: "se_hash S y \<notin> v" "\<not> se_done S y"
    and res: "hashes_respect S {x. reachable S d0 x}"
    and new: "\<And>x p. (x, p) \<in> set new \<Longrightarrow> \<exists>m. legal S y m x \<and> p = r @ [m]"
    and all: "\<And>m x. legal S y m x \<Longrightarrow> (x, r @ [m]) \<in> set new"
  shows "bfs_inv S d0 (insert (se_hash S y) v) (q @ new)"
proof -
  have ry: "sorting S d0 r y" using inv by (auto simp: bfs_inv_def)
  have qle: "length r \<le> length r' \<and> length r' \<le> Suc (length r)" if "(x', r') \<in> set q" for x' r'
    using that inv by (fastforce simp: bfs_inv_def)
  have nle: "length r' = Suc (length r)" if "(x', r') \<in> set new" for x' r'
    using new [OF that] by auto
  show ?thesis
    unfolding bfs_inv_def
  proof (intro conjI allI impI)
    show "\<forall>(x, p) \<in> set (q @ new). sorting S d0 p x"
      using inv new ry by (auto simp: bfs_inv_def dest!: new intro: sorting_snoc)
    have "sorted (map (length \<circ> snd) q)" using inv by (simp add: bfs_inv_def)
    moreover have "map (length \<circ> snd) new = replicate (length new) (Suc (length r))"
      using nle by (intro replicate_eqI) auto
    ultimately show "sorted (map (length \<circ> snd) (q @ new))"
      using qle by (fastforce simp: sorted_append)
    show "\<forall>(x, p) \<in> set (q @ new). length p \<le> Suc (length (snd (hd (q @ new))))"
    proof -
      have le: "length r' \<le> Suc (length r)" if "(x', r') \<in> set (q @ new)" for x' r'
        using that qle nle by fastforce
      have "length r \<le> length (snd (hd (q @ new)))" if "q @ new \<noteq> []"
      proof -
        have "hd (q @ new) \<in> set q \<or> hd (q @ new) \<in> set new" using that by (cases q) auto
        then show ?thesis using qle nle by (metis le_SucI order_refl prod.collapse)
      qed
      with le show ?thesis by (force dest: le)
    qed
    show "se_hash S d0 \<in> insert (se_hash S y) v \<or> (d0, []) \<in> set (q @ new)"
      using inv by (auto simp: bfs_inv_def)
    fix z assume z: "reachable S d0 z" "se_hash S z \<in> insert (se_hash S y) v"
    show "\<not> se_done S z"
    proof (cases "se_hash S z = se_hash S y")
      case True
      with hashes_respectD(1) [OF res, of z y] z(1) ry y show ?thesis by (auto simp: reachable_def)
    next
      case False
      with z inv show ?thesis unfolding bfs_inv_def by blast
    qed
    show "\<exists>k. (\<forall>p. sorting S d0 p z \<longrightarrow> k \<le> length p) \<and>
        (\<forall>m z'. legal S z m z' \<longrightarrow> se_hash S z' \<in> insert (se_hash S y) v \<or> queued S z' (Suc k) (q @ new))"
    proof (cases "se_hash S z = se_hash S y")
      case True
      have "queued S z' (Suc (length r)) (q @ new)" if z': "legal S z m z'" for m z'
      proof -
        obtain n y' where "legal S y n y'" "se_hash S y' = se_hash S z'"
          using hashes_respectD(2) [OF res _ _ True z'] z(1) ry by (auto simp: reachable_def)
        with all [of n y'] show ?thesis unfolding queued_def by force
      qed
      moreover have "length r \<le> length p" if "sorting S d0 p z" for p
        using bfs_head_shortest [OF inv that] y(1) True by simp
      ultimately show ?thesis by blast
    next
      case False
      with z obtain k where k: "\<forall>p. sorting S d0 p z \<longrightarrow> k \<le> length p"
        "\<forall>m z'. legal S z m z' \<longrightarrow> se_hash S z' \<in> v \<or> queued S z' (Suc k) ((y, r) # q)"
        using inv unfolding bfs_inv_def by blast
      then show ?thesis by (intro exI [of _ k]) (fastforce simp: queued_def)
    qed
  qed
qed

lemma bfs_loop_correct:
  assumes "bfs_loop S n v q = (Inr (Some ms), v')" and "bfs_inv S d0 v q"
    and "hashes_respect S {x. reachable S d0 x}"
  shows "\<exists>d'. sorting S d0 ms d' \<and> se_done S d' \<and>
           (\<forall>ns d''. sorting S d0 ns d'' \<and> se_done S d'' \<longrightarrow> length ms \<le> length ns)"
  using assms(1,2)
proof (induction n arbitrary: v q)
  case (Suc n)
  show ?case
  proof (cases q)
    case (Cons a q')
    obtain y r where a: "a = (y, r)" by force
    show ?thesis
    proof (cases "se_hash S y \<in> v")
      case True
      with Suc Cons a show ?thesis using bfs_inv_skip by fastforce
    next
      case unseen: False
      show ?thesis
      proof (cases "se_done S y")
        case True
        with Suc.prems Cons a unseen have "ms = r" "sorting S d0 r y" by (auto simp: bfs_inv_def)
        moreover have "length r \<le> length ns" if "sorting S d0 ns d''" "se_done S d''" for ns d''
        proof -
          have "se_hash S d'' \<notin> v"
            using Suc.prems(2) that unfolding bfs_inv_def reachable_def by blast
          with that Suc.prems(2) Cons a show ?thesis using bfs_head_shortest by fastforce
        qed
        ultimately show ?thesis using True by blast
      next
        case False
        with Suc.prems(1) Cons a unseen obtain new where
          e: "bfs_expand S y r (fst (se_generate S y)) (snd (se_generate S y)) = Inr new"
             "bfs_loop S n (insert (se_hash S y) v) (q' @ new) = (Inr (Some ms), v')"
          by (auto split: sum.splits)
        have "(x, r @ [m]) \<in> set new" if "legal S y m x" for m x
          using that bfs_expand_all [OF e(1)] by (auto simp: legal_def)
        then have "bfs_inv S d0 (insert (se_hash S y) v) (q' @ new)"
          using Suc.prems(2) unseen False assms(3) Cons a bfs_expand_mem [OF e(1) order_refl]
          by (intro bfs_inv_expand) simp_all
        with e(2) Suc.IH show ?thesis by blast
      qed
    qed
  qed (use Suc in auto)
qed simp

lemma bfs_sound_shortest:
  assumes "bfs_sort S n {} d = (Inr (Some ms), v')" and "hashes_respect S {x. reachable S d x}"
  shows "\<exists>d'. sorting S d ms d' \<and> se_done S d' \<and>
           (\<forall>ns d''. sorting S d ns d'' \<and> se_done S d'' \<longrightarrow> length ms \<le> length ns)"
  by (rule bfs_loop_correct [OF assms(1) [unfolded bfs_sort_def] bfs_inv_init assms(2)])

text \<open>An exhausted queue: everything reachable was visited, and nothing visited is done.\<close>

lemma bfs_inv_empty:
  assumes inv: "bfs_inv S d0 v []" and z: "reachable S d0 z"
  shows "\<not> se_done S z"
proof -
  have step: "se_hash S y' \<in> v" if "reachable S d0 y" "se_hash S y \<in> v" "legal S y m y'" for y m y'
    using inv that unfolding bfs_inv_def queued_def by fastforce
  have "sorting S y ms z \<Longrightarrow> reachable S d0 y \<Longrightarrow> se_hash S y \<in> v \<Longrightarrow> se_hash S z \<in> v" for y ms
    by (induction rule: sorting.induct) (auto intro: step reachable_trans_step)
  moreover have "se_hash S d0 \<in> v" using inv by (simp add: bfs_inv_def)
  ultimately have "se_hash S z \<in> v" using z unfolding reachable_def by (blast intro: sorting_nil)
  with inv z show ?thesis unfolding bfs_inv_def by blast
qed

lemma bfs_loop_exhausted:
  assumes "bfs_loop S n v q = (Inr None, v')" and "bfs_inv S d0 v q"
    and "hashes_respect S {x. reachable S d0 x}"
  shows "bfs_inv S d0 v' []"
  using assms(1,2)
proof (induction n arbitrary: v q)
  case (Suc n)
  show ?case
  proof (cases q)
    case (Cons a q')
    obtain y r where a: "a = (y, r)" by force
    show ?thesis
    proof (cases "se_hash S y \<in> v")
      case True
      with Suc Cons a show ?thesis using bfs_inv_skip by fastforce
    next
      case unseen: False
      with Suc.prems(1) Cons a obtain new where
        e: "\<not> se_done S y"
           "bfs_expand S y r (fst (se_generate S y)) (snd (se_generate S y)) = Inr new"
           "bfs_loop S n (insert (se_hash S y) v) (q' @ new) = (Inr None, v')"
        by (auto split: sum.splits if_splits)
      have "(x, r @ [m]) \<in> set new" if "legal S y m x" for m x
        using that bfs_expand_all [OF e(2)] by (auto simp: legal_def)
      then have "bfs_inv S d0 (insert (se_hash S y) v) (q' @ new)"
        using Suc.prems(2) unseen e(1) assms(3) Cons a bfs_expand_mem [OF e(2) order_refl]
        by (intro bfs_inv_expand) simp_all
      with e(3) Suc.IH show ?thesis by blast
    qed
  qed (use Suc in auto)
qed simp

lemma bfs_complete:
  assumes "bfs_sort S n {} d = (Inr None, v')" and "hashes_respect S {x. reachable S d x}"
    and "reachable S d d'"
  shows "\<not> se_done S d'"
  using bfs_loop_exhausted [OF assms(1) [unfolded bfs_sort_def] bfs_inv_init assms(2)] assms(3)
  by (rule bfs_inv_empty)

text \<open>Soundness alone needs no assumption on the hashes.\<close>

lemma bfs_loop_sound:
  assumes "bfs_loop S n v q = (Inr (Some ms), v')" and "\<forall>(x, p) \<in> set q. sorting S d0 p x"
  shows "\<exists>d'. sorting S d0 ms d' \<and> se_done S d'"
  using assms
proof (induction n arbitrary: v q)
  case (Suc n)
  show ?case
  proof (cases q)
    case (Cons a q')
    obtain y r where a: "a = (y, r)" by force
    show ?thesis
    proof (cases "se_hash S y \<in> v \<or> se_done S y")
      case True
      with Suc Cons a show ?thesis by (auto split: if_splits)
    next
      case False
      with Suc.prems(1) Cons a obtain new where
        e: "bfs_expand S y r (fst (se_generate S y)) (snd (se_generate S y)) = Inr new"
           "bfs_loop S n (insert (se_hash S y) v) (q' @ new) = (Inr (Some ms), v')"
        by (auto split: sum.splits)
      have "\<forall>(x, p) \<in> set (q' @ new). sorting S d0 p x"
        using Suc.prems(2) Cons a bfs_expand_mem [OF e(1) order_refl]
        by (auto intro: sorting_snoc)
      with e(2) Suc.IH show ?thesis by blast
    qed
  qed (use Suc in auto)
qed simp

lemma bfs_enough_fuel_aux:
  assumes fin: "finite H" and cl: "closed_under_moves S U" and sub: "se_hash S ` U \<subseteq> H"
    and ff: "fuel_free S U" and B: "\<And>x. x \<in> U \<Longrightarrow> length (fst (se_generate S x)) \<le> B"
  shows "fst ` set q \<subseteq> U \<Longrightarrow> length q + card (H - v) * B < n \<Longrightarrow> fst (bfs_loop S n v q) \<noteq> Inl OutOfFuel"
proof (induction n arbitrary: v q)
  case (Suc n)
  show ?case
  proof (cases q)
    case (Cons a q')
    obtain y r where a: "a = (y, r)" by force
    show ?thesis
    proof (cases "se_hash S y \<in> v \<or> se_done S y")
      case True
      with Suc Cons a show ?thesis by auto
    next
      case False
      have yU: "y \<in> U" using Suc.prems(1) Cons a by auto
      show ?thesis
      proof (cases "bfs_expand S y r (fst (se_generate S y)) (snd (se_generate S y))")
        case (Inl e)
        have "set todo \<subseteq> set (fst (se_generate S y)) \<Longrightarrow> bfs_expand S y r todo err = Inl e' \<Longrightarrow>
            err \<noteq> Some OutOfFuel \<Longrightarrow> e' \<noteq> OutOfFuel" for todo err e'
          using ff yU by (induction todo)
            (auto simp: res_simps fuel_free_def split: option.splits if_splits)
        with Inl ff yU have "e \<noteq> OutOfFuel" unfolding fuel_free_def by (metis order_refl)
        with Inl False Cons a show ?thesis by auto
      next
        case (Inr new)
        have "se_hash S y \<in> H - v" using yU sub False by blast
        then have c: "Suc (card (H - insert (se_hash S y) v)) = card (H - v)"
          using fin by (metis Diff_insert card_Suc_Diff1 finite_Diff)
        have "length new \<le> B" using bfs_expand_length [OF Inr] B [OF yU] by simp
        moreover have "card (H - v) * B = B + card (H - insert (se_hash S y) v) * B"
          by (simp flip: c)
        ultimately have "length (q' @ new) + card (H - insert (se_hash S y) v) * B < n"
          using Suc.prems(2) Cons by simp
        moreover have "fst ` set (q' @ new) \<subseteq> U"
          using Suc.prems(1) Cons cl yU bfs_expand_mem [OF Inr order_refl]
          by (fastforce simp: closed_under_moves_def)
        ultimately show ?thesis using Suc.IH Inr False Cons a by simp
      qed
    qed
  qed simp
qed simp


section \<open>The memoizing search\<close>

lemma memo_loop_cases:
  assumes "memo_loop S n v mem d (m # ms) err best = (r, v', mem')"
  obtains (val_err) e where "se_validate S m d = Inl e" "r = Inl e"
  | (invalid) msg where "se_validate S m d = Inr (False, msg)"
      "memo_loop S n v mem d ms err best = (r, v', mem')"
  | (sim_err) msg e where "se_validate S m d = Inr (True, msg)" "se_simulate S m d = Inl e" "r = Inl e"
  | (sub_err) msg d' e where "se_validate S m d = Inr (True, msg)" "se_simulate S m d = Inr d'"
      "memo_sort S n v mem d' = (Inl e, v', mem')" "r = Inl e"
  | (step) msg d' v1 mem1 found1 where "se_validate S m d = Inr (True, msg)"
      "se_simulate S m d = Inr d'" "memo_sort S n v mem d' = (Inr found1, v1, mem1)"
      "memo_loop S n v1 mem1 d ms err (better best m found1) = (r, v', mem')"
proof (cases "se_validate S m d")
  case (Inl e)
  with assms val_err show ?thesis by auto
next
  case (Inr bm)
  obtain b msg where bm: "bm = (b, msg)" by force
  show ?thesis
  proof (cases b)
    case False
    with assms Inr bm invalid show ?thesis by auto
  next
    case True
    show ?thesis
    proof (cases "se_simulate S m d")
      case (Inl e)
      with assms Inr bm True sim_err show ?thesis by auto
    next
      case sim: (Inr d')
      obtain r1 v1 mem1 where "memo_sort S n v mem d' = (r1, v1, mem1)" by (metis prod_cases3)
      then show ?thesis
        using assms Inr bm True sim sub_err step by (cases r1) auto
    qed
  qed
qed

lemma memo_induct:
  assumes zero: "\<And>v mem d. P 0 v mem d"
    and search: "\<And>n v mem d. (\<And>w mem todo err best. Q n w mem d todo err best) \<Longrightarrow> P (Suc n) v mem d"
    and nil: "\<And>n v mem d err best. Q n v mem d [] err best"
    and cons: "\<And>n v mem d m ms err best. (\<And>w mem d'. P n w mem d') \<Longrightarrow>
      (\<And>w mem best. Q n w mem d ms err best) \<Longrightarrow> Q n v mem d (m # ms) err best"
  shows "P n v mem d" and "Q n v mem d todo err best"
proof -
  have loop: "Q n v mem d todo err best" if "\<And>w mem d'. P n w mem d'" for n v mem d todo err best
    using that by (induction todo arbitrary: v mem best) (auto intro: nil cons)
  have "P n v mem d" for n v mem d
  proof (induction n arbitrary: v mem d)
    case (Suc n)
    show ?case by (rule search, rule loop, rule Suc)
  qed (rule zero)
  then show "P n v mem d" "Q n v mem d todo err best" by (auto intro: loop)
qed

text \<open>
  The memo returns for a diff the moves found for another one with the same hash.  They were offered there,
  and are replayed here: \<open>passes S U d m d'\<close> says that a move which is offered somewhere in \<open>U\<close> is accepted by the
  validators in \<open>d\<close> and its simulation gives \<open>d'\<close>.
\<close>

definition passes :: "('d, 'm) sort_env \<Rightarrow> 'd set \<Rightarrow> 'd \<Rightarrow> 'm \<Rightarrow> 'd \<Rightarrow> bool" where
  "passes S U d m d' \<longleftrightarrow>
     (\<exists>x \<in> U. m \<in> set (fst (se_generate S x))) \<and> (\<exists>msg. se_validate S m d = Inr (True, msg)) \<and>
     se_simulate S m d = Inr d'"

inductive replay :: "('d, 'm) sort_env \<Rightarrow> 'd set \<Rightarrow> 'd \<Rightarrow> 'm list \<Rightarrow> 'd \<Rightarrow> bool" for S U where
  replay_nil: "replay S U d [] d"
| replay_cons: "passes S U d m d' \<Longrightarrow> replay S U d' ms d'' \<Longrightarrow> replay S U d (m # ms) d''"

inductive_simps replay_Cons_iff: "replay S U d (m # ms) d'"

lemma legal_passes: "d \<in> U \<Longrightarrow> legal S d m d' \<Longrightarrow> passes S U d m d'"
  by (auto simp: legal_def passes_def)

lemma sorting_replays: "sorting S d ms d' \<Longrightarrow> closed_under_moves S U \<Longrightarrow> d \<in> U \<Longrightarrow> replay S U d ms d'"
  by (induction rule: sorting.induct) (auto simp: closed_under_moves_def intro: replay.intros legal_passes)

text \<open>
  What the memo needs of the hashes: diffs with the same hash are related by a simulation \<open>R\<close>, under which
  what passes in the one passes in the other and what is done in the one is done in the other.  For
  hashes that are blind to the order of keys it is equality up to that order.
\<close>

definition replays_along :: "('d, 'm) sort_env \<Rightarrow> 'd set \<Rightarrow> ('d \<Rightarrow> 'd \<Rightarrow> bool) \<Rightarrow> bool" where
  "replays_along S U R \<longleftrightarrow>
     (\<forall>x y. R x y \<longrightarrow> (se_done S x \<longrightarrow> se_done S y) \<and>
        (\<forall>m x'. passes S U x m x' \<longrightarrow> (\<exists>y'. passes S U y m y' \<and> R x' y')))"

definition hashes_replay :: "('d, 'm) sort_env \<Rightarrow> 'd set \<Rightarrow> bool" where
  "hashes_replay S U \<longleftrightarrow>
     (\<exists>R. replays_along S U R \<and> (\<forall>x \<in> U. \<forall>y \<in> U. se_hash S x = se_hash S y \<longrightarrow> R x y))"

lemma distinct_hashes_replay: "inj_on (se_hash S) U \<Longrightarrow> hashes_replay S U"
  unfolding hashes_replay_def replays_along_def by (intro exI [of _ "(=)"]) (auto dest: inj_onD)

lemma replay_along:
  assumes "replays_along S U R"
  shows "replay S U x ms x' \<Longrightarrow> R x y \<Longrightarrow> \<exists>y'. replay S U y ms y' \<and> R x' y'"
proof (induction arbitrary: y rule: replay.induct)
  case (replay_cons x m x1 ms x2)
  with assms obtain y1 where "passes S U y m y1" "R x1 y1" unfolding replays_along_def by blast
  with replay_cons.IH show ?case by (blast intro: replay.replay_cons)
qed (auto intro: replay_nil)

definition solves :: "('d, 'm) sort_env \<Rightarrow> 'd set \<Rightarrow> 'd \<Rightarrow> 'm list option \<Rightarrow> bool" where
  "solves S U d r \<longleftrightarrow> (\<forall>ms. r = Some ms \<longrightarrow> (\<exists>d'. replay S U d ms d' \<and> se_done S d'))"

definition memo_ok :: "('d, 'm) sort_env \<Rightarrow> 'd set \<Rightarrow> 'm memo \<Rightarrow> bool" where
  "memo_ok S U mem \<longleftrightarrow> (\<forall>x \<in> U. \<forall>r. mem (se_hash S x) = Some r \<longrightarrow> solves S U x r)"

lemma solves_same_hash:
  assumes "hashes_replay S U" and "x \<in> U" and "y \<in> U" and "se_hash S x = se_hash S y" and "solves S U x r"
  shows "solves S U y r"
proof -
  obtain R where R: "replays_along S U R" "R x y" using assms(1-4) unfolding hashes_replay_def by blast
  have "\<exists>y'. replay S U y ms y' \<and> se_done S y'" if r: "r = Some ms" for ms
  proof -
    obtain x' where x': "replay S U x ms x'" "se_done S x'" using assms(5) r by (auto simp: solves_def)
    then obtain y' where "replay S U y ms y'" "R x' y'" using replay_along [OF R(1)] R(2) by blast
    with x'(2) R(1) show ?thesis unfolding replays_along_def by blast
  qed
  then show ?thesis by (simp add: solves_def)
qed

lemma solves_better:
  assumes "solves S U d best" and "d \<in> U" and "legal S d m d'" and "solves S U d' found1"
  shows "solves S U d (better best m found1)"
  using assms legal_passes [OF assms(2,3)]
  by (auto simp: solves_def better_def replay_Cons_iff split: option.splits if_splits) blast+

lemma memo_sound_aux:
  assumes res: "hashes_replay S U" and cl: "closed_under_moves S U"
  shows "memo_sort S n v mem d = (Inr r, v', mem') \<Longrightarrow> d \<in> U \<Longrightarrow> memo_ok S U mem \<Longrightarrow>
      solves S U d r \<and> memo_ok S U mem'"
    and "memo_loop S n v mem d todo err best = (Inr r, v', mem') \<Longrightarrow> d \<in> U \<Longrightarrow> memo_ok S U mem \<Longrightarrow>
      solves S U d best \<Longrightarrow> set todo \<subseteq> set (fst (se_generate S d)) \<Longrightarrow> solves S U d r \<and> memo_ok S U mem'"
proof (induction n v mem d and n v mem d todo err best arbitrary: r v' mem' and r v' mem'
    rule: memo_induct)
  case (2 n v mem d)
  consider (now) "se_done S d" | (memo) r1 where "\<not> se_done S d" "mem (se_hash S d) = Some r1"
    | (seen) "\<not> se_done S d" "mem (se_hash S d) = None" "se_hash S d \<in> v"
    | (search) "\<not> se_done S d" "mem (se_hash S d) = None" "se_hash S d \<notin> v" by fastforce
  then show ?case
  proof cases
    case now
    with 2 show ?thesis by (auto simp: solves_def intro: replay_nil)
  next
    case (memo r1)
    with 2 show ?thesis by (auto simp: memo_ok_def)
  next
    case seen
    with 2 show ?thesis by (auto simp: solves_def)
  next
    case search
    then obtain mem1 where l: "memo_loop S n (insert (se_hash S d) v) mem d
        (fst (se_generate S d)) (snd (se_generate S d)) None = (Inr r, v', mem1)"
        "mem' = mem1(se_hash S d \<mapsto> r)"
      using 2(2) by (auto split: prod.splits sum.splits)
    have "solves S U d r" "memo_ok S U mem1"
      using 2(1) [OF l(1)] 2(3,4) by (auto simp: solves_def)
    then show ?thesis
      using l(2) 2(3) solves_same_hash [OF res 2(3)] by (auto simp: memo_ok_def)
  qed
next
  case (4 n v mem d m ms err best)
  from 4(3) show ?case
  proof (cases rule: memo_loop_cases)
    case (invalid msg)
    with 4 show ?thesis by auto
  next
    case (step msg d' v1 mem1 found1)
    have lg: "legal S d m d'" using step 4(7) by (auto simp: legal_def)
    then have "d' \<in> U" using cl 4(4) by (auto simp: closed_under_moves_def)
    then have "solves S U d' found1" "memo_ok S U mem1" using 4(1) step 4(5) by blast+
    then show ?thesis using 4(2) [OF step(4) 4(4)] solves_better [OF 4(6) 4(4) lg] 4(7) by auto
  qed auto
qed (auto split: option.splits)

lemma memo_sound:
  assumes "memo_sort S n {} Map.empty d = (Inr (Some ms), v', mem')"
    and "hashes_replay S {x. reachable S d x}"
  shows "\<exists>d'. replay S {x. reachable S d x} d ms d' \<and> se_done S d'"
  using memo_sound_aux(1) [OF assms(2) closed_under_reachable assms(1)]
  by (auto simp: memo_ok_def solves_def)

lemma memo_visited:
  "memo_sort S n v mem d = (r, v', mem') \<Longrightarrow> v \<subseteq> v'"
  "memo_loop S n v mem d todo err best = (r, v', mem') \<Longrightarrow> v \<subseteq> v'"
proof (induction n v mem d and n v mem d todo err best arbitrary: r v' mem' and r v' mem'
    rule: memo_induct)
  case (2 n v mem d)
  obtain r1 v1 mem1 where l: "memo_loop S n (insert (se_hash S d) v) mem d
      (fst (se_generate S d)) (snd (se_generate S d)) None = (r1, v1, mem1)" by (metis prod_cases3)
  from 2(1) [OF l] have "insert (se_hash S d) v \<subseteq> v1" .
  with 2(2) l show ?case by (cases r1) (auto split: if_splits option.splits)
next
  case (4 n v mem d m ms err best)
  from 4(3) show ?case
  proof (cases rule: memo_loop_cases)
    case (step msg d' v1 mem1 found1)
    with 4(1) [OF step(3)] 4(2) [OF step(4)] show ?thesis by blast
  next
    case (sub_err msg d' e)
    with 4(1) [OF sub_err(3)] show ?thesis by blast
  next
    case (invalid msg)
    with 4(2) show ?thesis by blast
  qed (use 4(3) in auto)
qed auto

lemma memo_enough_fuel_aux:
  assumes fin: "finite H" and cl: "closed_under_moves S U" and sub: "se_hash S ` U \<subseteq> H"
    and ff: "fuel_free S U"
  shows "memo_sort S n v mem d = (r, v', mem') \<Longrightarrow> d \<in> U \<Longrightarrow> card (H - v) < n \<Longrightarrow> r \<noteq> Inl OutOfFuel"
    and "memo_loop S n v mem d todo err best = (r, v', mem') \<Longrightarrow> d \<in> U \<Longrightarrow> card (H - v) < n \<Longrightarrow>
      set todo \<subseteq> set (fst (se_generate S d)) \<Longrightarrow> err \<noteq> Some OutOfFuel \<Longrightarrow> r \<noteq> Inl OutOfFuel"
proof (induction n v mem d and n v mem d todo err best arbitrary: r v' mem' and r v' mem'
    rule: memo_induct)
  case (2 n v mem d)
  show ?case
  proof (cases "se_done S d \<or> mem (se_hash S d) \<noteq> None \<or> se_hash S d \<in> v")
    case True
    with 2(2) show ?thesis by (auto split: if_splits option.splits)
  next
    case False
    have "se_hash S d \<in> H - v" using 2(3) sub False by blast
    then have c: "card (H - insert (se_hash S d) v) < card (H - v)"
      using fin by (intro psubset_card_mono) auto
    obtain r1 v1 mem1 where l: "memo_loop S n (insert (se_hash S d) v) mem d
        (fst (se_generate S d)) (snd (se_generate S d)) None = (r1, v1, mem1)" by (metis prod_cases3)
    have "r1 \<noteq> Inl OutOfFuel"
      using 2(1) [OF l] 2(3,4) c ff by (auto simp: fuel_free_def)
    with 2(2) False l show ?thesis by (cases r1) auto
  qed
next
  case (4 n v mem d m ms err best)
  have dU: "d' \<in> U" if "se_validate S m d = Inr (True, msg)" "se_simulate S m d = Inr d'" for d' msg
    using that 4(4,6) cl by (auto simp: closed_under_moves_def legal_def)
  from 4(3) show ?case
  proof (cases rule: memo_loop_cases)
    case (invalid msg)
    with 4 show ?thesis by auto
  next
    case (step msg d' v1 mem1 found1)
    have "v \<subseteq> v1" using step(3) by (rule memo_visited)
    then have "card (H - v1) \<le> card (H - v)" using fin by (intro card_mono) auto
    with 4(4-) show ?thesis using 4(2) [OF step(4)] by auto
  next
    case (sub_err msg d' e)
    with 4(4-) dU show ?thesis using 4(1) [OF sub_err(3)] by auto
  qed (use ff 4(4,6) in \<open>auto simp: fuel_free_def\<close>)
qed (auto split: option.splits)

section \<open>The contract the patch sorter relies on\<close>

text \<open>
  A sorter started on fresh state: what \<open>PatchSorter\<close> needs of the algorithm it was given is that a
  returned list is a chain of moves that pass and end in a diff with nothing left to do.
\<close>

locale sorter =
  fixes sort :: "('d, 'm) sort_env \<Rightarrow> nat \<Rightarrow> 'd \<Rightarrow> 'm list option res"
    and good :: "('d, 'm) sort_env \<Rightarrow> 'd \<Rightarrow> bool"
  assumes sound: "good S d \<Longrightarrow> sort S n d = Inr (Some ms) \<Longrightarrow>
      \<exists>d'. replay S {x. reachable S d x} d ms d' \<and> se_done S d'"
begin

text \<open>A property that passing moves keep holds at every diff on the way.\<close>

lemma keeps:
  assumes "good S d" and "sort S n d = Inr (Some ms)" and "I d"
    and "\<And>x m x'. I x \<Longrightarrow> passes S {x. reachable S d x} x m x' \<Longrightarrow> I x'"
  shows "\<exists>d'. replay S {x. reachable S d x} d ms d' \<and> se_done S d' \<and> I d'"
proof -
  obtain d' where d': "replay S {x. reachable S d x} d ms d'" "se_done S d'" using sound assms(1,2) by blast
  from d'(1) assms(3) have "I d'"
    by (induction rule: replay.induct) (auto intro: assms(4))
  with d' show ?thesis by blast
qed

text \<open>Every move of the result was offered, and accepted by the validators in the diff it is applied to.\<close>

lemma all_validated:
  assumes "good S d" and "sort S n d = Inr (Some ms)"
  shows "\<forall>m \<in> set ms. \<exists>x x'. passes S {x. reachable S d x} x m x'"
proof -
  have "\<forall>m \<in> set ms. \<exists>x x'. passes S U x m x'" if "replay S U d ms d'" for U d ms d'
    using that by (induction rule: replay.induct) auto
  with sound assms show ?thesis by blast
qed

end

definition dfs :: "('d, 'm) sort_env \<Rightarrow> nat \<Rightarrow> 'd \<Rightarrow> 'm list option res" where
  "dfs S n d = fst (dfs_sort S n {} d)"

definition bfs :: "('d, 'm) sort_env \<Rightarrow> nat \<Rightarrow> 'd \<Rightarrow> 'm list option res" where
  "bfs S n d = fst (bfs_sort S n {} d)"

definition memoized :: "('d, 'm) sort_env \<Rightarrow> nat \<Rightarrow> 'd \<Rightarrow> 'm list option res" where
  "memoized S n d = fst (memo_sort S n {} Map.empty d)"

text \<open>The hypotheses on the hashes of the diffs one search can reach.\<close>

definition respectful_hashes :: "('d, 'm) sort_env \<Rightarrow> 'd \<Rightarrow> bool" where
  "respectful_hashes S d = hashes_respect S {x. reachable S d x}"

definition replayable_hashes :: "('d, 'm) sort_env \<Rightarrow> 'd \<Rightarrow> bool" where
  "replayable_hashes S d = hashes_replay S {x. reachable S d x}"

lemma sorting_reached: "sorting S d ms d' \<Longrightarrow> replay S {x. reachable S d x} d ms d'"
  by (rule sorting_replays) (auto intro: closed_under_reachable)

lemma dfs_sorting: "dfs S n d = Inr (Some ms) \<Longrightarrow> \<exists>d'. sorting S d ms d' \<and> se_done S d'"
  unfolding dfs_def by (metis dfs_sound prod.collapse)

lemma bfs_sorting: "bfs S n d = Inr (Some ms) \<Longrightarrow> \<exists>d'. sorting S d ms d' \<and> se_done S d'"
proof -
  assume "bfs S n d = Inr (Some ms)"
  then have "bfs_loop S n {} [(d, [])] = (Inr (Some ms), snd (bfs_sort S n {} d))"
    by (metis bfs_def bfs_sort_def prod.collapse)
  then show ?thesis by (rule bfs_loop_sound) (auto intro: sorting.intros)
qed

interpretation dfs: sorter dfs "\<lambda>_ _. True"
  by unfold_locales (meson dfs_sorting sorting_reached)

interpretation bfs: sorter bfs "\<lambda>_ _. True"
  by unfold_locales (meson bfs_sorting sorting_reached)

interpretation memoized: sorter memoized replayable_hashes
proof unfold_locales
  fix S :: "('d, 'm) sort_env" and d n ms
  assume "replayable_hashes S d" and "memoized S n d = Inr (Some ms)"
  then show "\<exists>d'. replay S {x. reachable S d x} d ms d' \<and> se_done S d'"
    unfolding memoized_def replayable_hashes_def by (metis memo_sound prod.collapse)
qed

end
