(* ===== verification/MoveWrapper.thy ===== *)
theory MoveWrapper
  imports Extenders Sorters
begin

text \<open>
  \<open>MoveWrapper\<close> and \<open>SortAlgorithmFactory\<close> of patch_sorter.py: the generators, extenders and
  validators of a sort put together, and the environment the sorters of the theory \<open>Sorters\<close> run
  in.
\<close>

section \<open>The wrapper\<close>

record move_wrapper =
  mw_generators :: "(diff \<Rightarrow> move_group gen) list"
  mw_non_extendable :: "(diff \<Rightarrow> move_group gen) list"
  mw_extenders :: "(string \<times> (json_move \<Rightarrow> diff \<Rightarrow> json_move gen)) list"
  mw_validators :: "(string \<times> (move_group \<Rightarrow> diff \<Rightarrow> json \<Rightarrow> verdict)) list"

text \<open>
  Two groups are equal for the sets of the wrapper when they hold the same operations: the name of
  the generator is not compared, and the hash is that of the printed operations.
\<close>

definition generate_all :: "(diff \<Rightarrow> move_group gen) list \<Rightarrow> diff \<Rightarrow> move_group gen" where
  "generate_all gs d = gen_for gs (\<lambda>g. g d)"

definition extend_moves :: "move_wrapper \<Rightarrow> move_group \<Rightarrow> diff \<Rightarrow> move_group gen" where
  "extend_moves W g d =
     gen_for (mg_moves g) (\<lambda>m. gen_for (mw_extenders W) (\<lambda>(name, extend).
       gen_bind (extend m d)
         (\<lambda>m'. gen_one (move_group (name @ '' extends '' @ mg_name g) (Some m')))))"

text \<open>The groups of a list that are not processed yet, each once, and what is processed then.\<close>

fun fresh_moves :: "operation list set \<Rightarrow> move_group list \<Rightarrow> move_group list \<times> operation list set" where
  "fresh_moves processed [] = ([], processed)"
| "fresh_moves processed (g # gs) =
     (if get_jsonpatch g \<in> processed then fresh_moves processed gs
      else let (ms, p) = fresh_moves (insert (get_jsonpatch g) processed) gs in (g # ms, p))"

definition fresh :: "operation list set \<Rightarrow> move_group \<Rightarrow> move_group gen" where
  "fresh processed g = (if get_jsonpatch g \<in> processed then gen_nil else gen_one g)"

text \<open>\<open>if not (move in extended_moves)\<close>: what one group appends to the queue.\<close>

definition extension ::
  "move_wrapper \<Rightarrow> diff \<Rightarrow> operation list set \<Rightarrow> move_group \<Rightarrow> move_group list res" where
  "extension W d extended g =
     (if get_jsonpatch g \<in> extended then Inr [] else gen_list (extend_moves W g d))"

text \<open>The loop \<open>while moves\<close>: the queue holds the extensions still to be offered and extended.\<close>

fun drain_moves ::
  "move_wrapper \<Rightarrow> diff \<Rightarrow> nat \<Rightarrow> operation list set \<Rightarrow> operation list set \<Rightarrow> move_group list \<Rightarrow> move_group gen"
where
  "drain_moves W d 0 processed extended queue =
     (if queue = [] then gen_nil else ([], Some OutOfFuel))"
| "drain_moves W d (Suc n) processed extended [] = gen_nil"
| "drain_moves W d (Suc n) processed extended (g # queue) =
     gen_app (fresh processed g)
       (gen_res (extension W d extended g)
          (\<lambda>more. drain_moves W d n (insert (get_jsonpatch g) processed)
                    (insert (get_jsonpatch g) extended) (queue @ more)))"

text \<open>The loop over the extendable moves, which fills the queue; \<open>err\<close> ends their generator.\<close>

fun extendable_moves ::
  "move_wrapper \<Rightarrow> diff \<Rightarrow> nat \<Rightarrow> operation list set \<Rightarrow> operation list set \<Rightarrow> move_group list
     \<Rightarrow> move_group list \<Rightarrow> py_error option \<Rightarrow> move_group gen"
where
  "extendable_moves W d n processed extended queue [] err =
     (case err of Some e \<Rightarrow> ([], Some e) | None \<Rightarrow> drain_moves W d n processed extended queue)"
| "extendable_moves W d n processed extended queue (g # gs) err =
     gen_app (fresh processed g)
       (gen_res (extension W d extended g)
          (\<lambda>more. extendable_moves W d n (insert (get_jsonpatch g) processed)
                    (insert (get_jsonpatch g) extended) (queue @ more) gs err))"

definition wrapper_generate :: "move_wrapper \<Rightarrow> nat \<Rightarrow> diff \<Rightarrow> move_group gen" where
  "wrapper_generate W n d =
     (let non_ext = generate_all (mw_non_extendable W) d;
          (first, processed) = fresh_moves {} (fst non_ext);
          ext = generate_all (mw_generators W) d
      in gen_app (first, snd non_ext)
           (extendable_moves W d n processed {} [] (fst ext) (snd ext)))"

fun run_validators ::
  "(string \<times> (move_group \<Rightarrow> diff \<Rightarrow> json \<Rightarrow> verdict)) list \<Rightarrow> move_group \<Rightarrow> diff \<Rightarrow> json \<Rightarrow> verdict" where
  "run_validators [] g d sim = accept"
| "run_validators ((name, validate) # vs) g d sim =
     rbind (validate g d sim)
       (\<lambda>(ok, msg). if ok then run_validators vs g d sim
          else Inr (False, Some (name @ '' failed'' @
                      (case msg of None \<Rightarrow> [] | Some e \<Rightarrow> '': '' @ e))))"

definition wrapper_validate :: "'x ext_scheme \<Rightarrow> move_wrapper \<Rightarrow> move_group \<Rightarrow> diff \<Rightarrow> verdict" where
  "wrapper_validate E W g d =
     rbind (group_result E g (current_config d)) (run_validators (mw_validators W) g d)"

definition simulate :: "'x ext_scheme \<Rightarrow> move_group \<Rightarrow> diff \<Rightarrow> diff res" where
  "simulate E g d = apply_move E d g"

definition undo_simulate :: "'x ext_scheme \<Rightarrow> move_group \<Rightarrow> diff \<Rightarrow> diff res" where
  "undo_simulate E g d = undo_move E d g"

text \<open>
  What a sorter sees of a wrapper.  \<open>h\<close> is the hash of a diff, Python's hash of the two printed
  configurations.
\<close>

definition wrapper_env ::
  "'x ext_scheme \<Rightarrow> move_wrapper \<Rightarrow> (diff \<Rightarrow> int) \<Rightarrow> nat \<Rightarrow> (diff, move_group) sort_env" where
  "wrapper_env E W h n =
     \<lparr>se_done = has_no_diff, se_hash = h, se_generate = wrapper_generate W n,
      se_validate = wrapper_validate E W, se_simulate = simulate E\<rparr>"

section \<open>\<open>SortAlgorithmFactory\<close>\<close>

datatype algorithm = DFS | BFS | MEMOIZATION

definition factory_wrapper :: "'x schema_ext_scheme \<Rightarrow> move_wrapper" where
  "factory_wrapper E =
     \<lparr>mw_generators = [low_level_generate E],
      mw_non_extendable =
        [remove_create_only_dependency_generate E, bulk_leaf_list_generate E,
         bulk_key_level_generate E, key_level_generate E, bulk_key_group_generate E,
         bulk_low_level_generate E],
      mw_extenders =
        [(''RequiredValueMoveExtender'', required_value_extend E),
         (''UpperLevelMoveExtender'', upper_level_extend E),
         (''DeleteInsteadOfReplaceMoveExtender'', delete_instead_extend E),
         (''DeleteRefsMoveExtender'', delete_refs_extend E)],
      mw_validators =
        [(''DeleteWholeConfigMoveValidator'', delete_whole_config_validate),
         (''FullConfigMoveValidator'', full_config_validate E),
         (''NoDependencyMoveValidator'', no_dependency_validate E),
         (''CreateOnlyMoveValidator'', create_only_validate E),
         (''RequiredValueMoveValidator'', required_value_validate E),
         (''RemoveCreateOnlyDependencyMoveValidator'', remove_create_only_dependency_validate E),
         (''NoEmptyTableMoveValidator'', no_empty_table_validate E)]\<rparr>"

definition create_sorter ::
  "algorithm \<Rightarrow> ('d, 'm) sort_env \<Rightarrow> nat \<Rightarrow> 'd \<Rightarrow> 'm list option res" where
  "create_sorter a = (case a of DFS \<Rightarrow> dfs | BFS \<Rightarrow> bfs | MEMOIZATION \<Rightarrow> memoized)"

definition factory_env ::
  "'x schema_ext_scheme \<Rightarrow> (diff \<Rightarrow> int) \<Rightarrow> nat \<Rightarrow> (diff, move_group) sort_env" where
  "factory_env E h n = wrapper_env E (factory_wrapper E) h n"

section \<open>What the wrapper offers and accepts\<close>

text \<open>
  \<open>offered W d g\<close>: a generator yields \<open>g\<close>, or an extender yields it from a move of a group that is
  offered.
\<close>

inductive offered :: "move_wrapper \<Rightarrow> diff \<Rightarrow> move_group \<Rightarrow> bool" for W d where
  offered_first: "g \<in> set (fst (generate_all (mw_non_extendable W) d)) \<Longrightarrow> offered W d g"
| offered_low: "g \<in> set (fst (generate_all (mw_generators W) d)) \<Longrightarrow> offered W d g"
| offered_ext: "offered W d g \<Longrightarrow> g' \<in> set (fst (extend_moves W g d)) \<Longrightarrow> offered W d g'"

lemma fresh_simps [simp]:
  "get_jsonpatch g \<in> P \<Longrightarrow> fresh P g = ([], None)"
  "get_jsonpatch g \<notin> P \<Longrightarrow> fresh P g = ([g], None)"
  by (simp_all add: fresh_def)

lemma snd_fresh [simp]: "snd (fresh P g) = None"
  by (simp add: fresh_def)

lemma fresh_moves_spec:
  "fresh_moves P gs = (ms, P') \<Longrightarrow>
     P' = P \<union> get_jsonpatch ` set gs \<and> set ms \<subseteq> set gs \<and> distinct (map get_jsonpatch ms) \<and>
     get_jsonpatch ` set ms = get_jsonpatch ` set gs - P"
proof (induction P gs arbitrary: ms P' rule: fresh_moves.induct)
  case (2 P g gs)
  show ?case
  proof (cases "get_jsonpatch g \<in> P")
    case True
    with 2 show ?thesis by auto
  next
    case False
    then obtain ns where ns: "fresh_moves (insert (get_jsonpatch g) P) gs = (ns, P')" "ms = g # ns"
      using 2(3) by (auto simp: Let_def split: prod.splits)
    note ih = 2(2) [OF False ns(1)]
    then have "get_jsonpatch g \<notin> get_jsonpatch ` set ns" by auto
    with ih ns(2) False show ?thesis by auto
  qed
qed auto

lemma extension_mem:
  "extension W d X g = Inr es \<Longrightarrow> set es \<subseteq> set (fst (extend_moves W g d))"
  by (auto simp: extension_def gen_list_def split: if_splits option.splits)

lemma drain_offered:
  "x \<in> set (fst (drain_moves W d n P X q)) \<Longrightarrow> \<forall>g \<in> set q. offered W d g \<Longrightarrow> offered W d x"
proof (induction W d n P X q rule: drain_moves.induct)
  case (3 W d n P X g q)
  from 3(2) consider "x = g"
    | es where "extension W d X g = Inr es"
        "x \<in> set (fst (drain_moves W d n (insert (get_jsonpatch g) P) (insert (get_jsonpatch g) X) (q @ es)))"
    by (auto simp: fresh_def dest!: gen_app_mem gen_res_mem split: if_splits)
  then show ?case
  proof cases
    case 2
    moreover from this have "\<forall>h \<in> set (q @ es). offered W d h"
      using 3(3) extension_mem [OF 2(1)] by (auto intro: offered_ext)
    ultimately show ?thesis using 3(1) by blast
  qed (use 3 in auto)
qed (auto split: if_splits)

lemma extendable_offered:
  "x \<in> set (fst (extendable_moves W d n P X q gs err)) \<Longrightarrow> \<forall>g \<in> set (q @ gs). offered W d g
     \<Longrightarrow> offered W d x"
proof (induction W d n P X q gs err rule: extendable_moves.induct)
  case (1 W d n P X q err)
  then show ?case by (auto split: option.splits intro: drain_offered)
next
  case (2 W d n P X q g gs err)
  from 2(2) consider "x = g"
    | es where "extension W d X g = Inr es"
        "x \<in> set (fst (extendable_moves W d n (insert (get_jsonpatch g) P)
                        (insert (get_jsonpatch g) X) (q @ es) gs err))"
    by (auto simp: fresh_def dest!: gen_app_mem gen_res_mem split: if_splits)
  then show ?case
  proof cases
    case b: 2
    then have "\<forall>h \<in> set ((q @ es) @ gs). offered W d h"
      using 2(3) extension_mem [OF b(1)] by (auto intro: offered_ext)
    with b 2(1) show ?thesis by blast
  qed (use 2 in auto)
qed

lemma wrapper_generate_offered:
  assumes "x \<in> set (fst (wrapper_generate W n d))"
  shows "offered W d x"
proof -
  obtain ms P where f: "fresh_moves {} (fst (generate_all (mw_non_extendable W) d)) = (ms, P)" by force
  from fresh_moves_spec [OF f] have "\<forall>g \<in> set ms. offered W d g" by (auto intro: offered_first)
  moreover have "x \<in> set ms \<or> x \<in> set (fst (extendable_moves W d n P {} []
      (fst (generate_all (mw_generators W) d)) (snd (generate_all (mw_generators W) d))))"
    using assms f by (auto simp: wrapper_generate_def Let_def dest!: gen_app_mem)
  moreover have "\<forall>g \<in> set ([] @ fst (generate_all (mw_generators W) d)). offered W d g"
    by (auto intro: offered_low)
  ultimately show ?thesis by (blast intro: extendable_offered)
qed

text \<open>No operation list is offered twice.\<close>

lemma drain_distinct:
  "distinct (map get_jsonpatch (fst (drain_moves W d n P X q))) \<and>
   get_jsonpatch ` set (fst (drain_moves W d n P X q)) \<inter> P = {}"
proof (induction W d n P X q rule: drain_moves.induct)
  case (3 W d n P X g q)
  show ?case
  proof (cases "extension W d X g")
    case (Inr es)
    with 3 [OF Inr] show ?thesis
      by (cases "get_jsonpatch g \<in> P";
          cases "drain_moves W d n (insert (get_jsonpatch g) P) (insert (get_jsonpatch g) X) (q @ es)")
         (auto simp: insert_absorb)
  qed (auto simp: fresh_def)
qed auto

lemma extendable_distinct:
  "distinct (map get_jsonpatch (fst (extendable_moves W d n P X q gs err))) \<and>
   get_jsonpatch ` set (fst (extendable_moves W d n P X q gs err)) \<inter> P = {}"
proof (induction W d n P X q gs err rule: extendable_moves.induct)
  case (1 W d n P X q err)
  then show ?case using drain_distinct by (cases err) auto
next
  case (2 W d n P X q g gs err)
  show ?case
  proof (cases "extension W d X g")
    case (Inr es)
    with 2 [OF Inr] show ?thesis
      by (cases "get_jsonpatch g \<in> P";
          cases "extendable_moves W d n (insert (get_jsonpatch g) P) (insert (get_jsonpatch g) X)
                   (q @ es) gs err")
         (auto simp: insert_absorb)
  qed (auto simp: fresh_def)
qed

lemma wrapper_generate_distinct:
  "distinct (map get_jsonpatch (fst (wrapper_generate W n d)))"
proof -
  obtain ms P where f: "fresh_moves {} (fst (generate_all (mw_non_extendable W) d)) = (ms, P)" by force
  let ?e = "generate_all (mw_generators W) d"
  let ?x = "extendable_moves W d n P {} [] (fst ?e) (snd ?e)"
  have "distinct (map get_jsonpatch (fst ?x)) \<and> get_jsonpatch ` set (fst ?x) \<inter> P = {}"
    by (rule extendable_distinct)
  with fresh_moves_spec [OF f] f show ?thesis
    by (cases "snd (generate_all (mw_non_extendable W) d)"; cases ?x)
       (auto simp: wrapper_generate_def)
qed

text \<open>A generator that ends normally has offered every move of the code's generators.\<close>

lemma extendable_complete:
  "snd (extendable_moves W d n P X q gs err) = None \<Longrightarrow>
     get_jsonpatch ` set gs \<subseteq> P \<union> get_jsonpatch ` set (fst (extendable_moves W d n P X q gs err))"
proof (induction W d n P X q gs err rule: extendable_moves.induct)
  case (2 W d n P X q g gs err)
  show ?case
  proof (cases "extension W d X g")
    case (Inr es)
    with 2 show ?thesis
      by (cases "get_jsonpatch g \<in> P";
          cases "extendable_moves W d n (insert (get_jsonpatch g) P) (insert (get_jsonpatch g) X)
                   (q @ es) gs err")
         (auto simp: insert_absorb)
  next
    case (Inl e)
    with 2(2) show ?thesis by (simp add: gen_app_def)
  qed
qed simp

lemma wrapper_generate_complete:
  assumes "snd (wrapper_generate W n d) = None"
    and "g \<in> set (fst (generate_all (mw_non_extendable W) d)) \<union> set (fst (generate_all (mw_generators W) d))"
  shows "get_jsonpatch g \<in> get_jsonpatch ` set (fst (wrapper_generate W n d))"
proof -
  obtain ms P where f: "fresh_moves {} (fst (generate_all (mw_non_extendable W) d)) = (ms, P)" by force
  let ?e = "generate_all (mw_generators W) d"
  let ?x = "extendable_moves W d n P {} [] (fst ?e) (snd ?e)"
  have ne: "snd (generate_all (mw_non_extendable W) d) = None" "snd ?x = None"
    using assms(1) f by (auto simp: wrapper_generate_def Let_def snd_gen_app split: option.splits)
  have "get_jsonpatch ` set (fst ?e) \<subseteq> P \<union> get_jsonpatch ` set (fst ?x)"
    using ne(2) by (rule extendable_complete)
  moreover have "fst (wrapper_generate W n d) = ms @ fst ?x"
    using ne f by (simp add: wrapper_generate_def Let_def fst_gen_app)
  moreover have "P = get_jsonpatch ` set ms" using fresh_moves_spec [OF f] by simp
  ultimately show ?thesis using assms(2) fresh_moves_spec [OF f] by (simp add: image_Un) blast
qed

text \<open>
  The queue runs empty: when the groups that can be reached by extension have finitely many operation
  lists and no group has more than \<open>b\<close> extensions, \<open>length queue + b * card K\<close> rounds are enough.
\<close>

definition extension_bound :: "move_wrapper \<Rightarrow> diff \<Rightarrow> move_group set \<Rightarrow> operation list set \<Rightarrow> nat \<Rightarrow> bool" where
  "extension_bound W d U K b \<longleftrightarrow>
     finite K \<and> get_jsonpatch ` U \<subseteq> K \<and>
     (\<forall>g \<in> U. set (fst (extend_moves W g d)) \<subseteq> U \<and> length (fst (extend_moves W g d)) \<le> b \<and>
              snd (extend_moves W g d) \<noteq> Some OutOfFuel)"

lemma extension_bounded:
  assumes "extension_bound W d U K b" and "g \<in> U"
  shows "extension W d X g \<noteq> Inl OutOfFuel"
    and "extension W d X g = Inr es \<Longrightarrow> set es \<subseteq> U \<and>
      length es + b * card (K - insert (get_jsonpatch g) X) \<le> b * card (K - X)"
proof -
  show "extension W d X g \<noteq> Inl OutOfFuel"
    using assms by (auto simp: extension_def gen_list_def extension_bound_def split: option.splits)
  assume e: "extension W d X g = Inr es"
  show "set es \<subseteq> U \<and> length es + b * card (K - insert (get_jsonpatch g) X) \<le> b * card (K - X)"
  proof (cases "get_jsonpatch g \<in> X")
    case True
    with e show ?thesis by (simp add: extension_def insert_absorb)
  next
    case False
    have k: "finite K" "get_jsonpatch g \<in> K - X" using assms False by (auto simp: extension_bound_def)
    have "card (K - X) = Suc (card (K - insert (get_jsonpatch g) X))"
      using k by (metis Diff_insert card_Suc_Diff1 finite_Diff)
    moreover have "set es \<subseteq> U" "length es \<le> b"
      using e assms False by (auto simp: extension_def gen_list_def extension_bound_def split: option.splits)
    ultimately show ?thesis by simp
  qed
qed

lemma drain_enough_fuel:
  "extension_bound W d U K b \<Longrightarrow> set q \<subseteq> U \<Longrightarrow> length q + b * card (K - X) \<le> n \<Longrightarrow>
     snd (drain_moves W d n P X q) \<noteq> Some OutOfFuel"
proof (induction W d n P X q rule: drain_moves.induct)
  case (3 W d n P X g q)
  show ?case
  proof (cases "extension W d X g")
    case (Inl e)
    have "extension W d X g \<noteq> Inl OutOfFuel"
      using 3(3) by (intro extension_bounded(1) [OF 3(2)]) auto
    with Inl show ?thesis by (auto simp: snd_gen_app)
  next
    case (Inr es)
    have "set es \<subseteq> U \<and> length es + b * card (K - insert (get_jsonpatch g) X) \<le> b * card (K - X)"
      using 3(3) Inr by (intro extension_bounded(2) [OF 3(2)]) auto
    with 3 Inr show ?thesis by (simp add: snd_gen_app)
  qed
qed auto

lemma extendable_enough_fuel:
  "extension_bound W d U K b \<Longrightarrow> set (q @ gs) \<subseteq> U \<Longrightarrow> length q + b * card (K - X) \<le> n \<Longrightarrow>
     err \<noteq> Some OutOfFuel \<Longrightarrow> snd (extendable_moves W d n P X q gs err) \<noteq> Some OutOfFuel"
proof (induction W d n P X q gs err rule: extendable_moves.induct)
  case (1 W d n P X q err)
  then show ?case using drain_enough_fuel by (cases err) auto
next
  case (2 W d n P X q g gs err)
  show ?case
  proof (cases "extension W d X g")
    case (Inl e)
    have "extension W d X g \<noteq> Inl OutOfFuel"
      using 2(3) by (intro extension_bounded(1) [OF 2(2)]) auto
    with Inl show ?thesis by (auto simp: snd_gen_app)
  next
    case (Inr es)
    have "set es \<subseteq> U \<and> length es + b * card (K - insert (get_jsonpatch g) X) \<le> b * card (K - X)"
      using 2(3) Inr by (intro extension_bounded(2) [OF 2(2)]) auto
    with 2 Inr show ?thesis by (simp add: snd_gen_app)
  qed
qed

lemma wrapper_generate_enough_fuel:
  assumes "extension_bound W d U K b" and "set (fst (generate_all (mw_generators W) d)) \<subseteq> U"
    and "snd (generate_all (mw_generators W) d) \<noteq> Some OutOfFuel"
    and "snd (generate_all (mw_non_extendable W) d) \<noteq> Some OutOfFuel"
    and "b * card K \<le> n"
  shows "snd (wrapper_generate W n d) \<noteq> Some OutOfFuel"
proof -
  have "snd (extendable_moves W d n P {} [] (fst (generate_all (mw_generators W) d))
          (snd (generate_all (mw_generators W) d))) \<noteq> Some OutOfFuel" for P
    using assms by (intro extendable_enough_fuel [OF assms(1)]) auto
  with assms(4) show ?thesis
    by (auto simp: wrapper_generate_def Let_def snd_gen_app split: prod.splits option.splits)
qed

text \<open>The validators of a wrapper accept a group when each of them does.\<close>

lemma run_validators_iff:
  "(\<exists>msg. run_validators vs g d sim = Inr (True, msg)) \<longleftrightarrow>
     (\<forall>(name, v) \<in> set vs. \<exists>msg. v g d sim = Inr (True, msg))"
  by (induction vs) (auto simp: res_simps split: if_splits)

lemma run_validators_reject:
  "run_validators vs g d sim = Inr (False, msg) \<Longrightarrow>
     \<exists>pre name v post m. vs = pre @ (name, v) # post \<and> v g d sim = Inr (False, m) \<and>
       (\<forall>(name', v') \<in> set pre. \<exists>m'. v' g d sim = Inr (True, m')) \<and>
       msg = Some (name @ '' failed'' @ (case m of None \<Rightarrow> [] | Some e \<Rightarrow> '': '' @ e))"
proof (induction vs)
  case (Cons nv vs)
  obtain name v where nv: "nv = (name, v)" by force
  from Cons.prems nv obtain ok m where r: "v g d sim = Inr (ok, m)" by (auto simp: res_simps)
  show ?case
  proof (cases ok)
    case True
    with Cons r nv obtain pre name' v' post m' where
      "vs = pre @ (name', v') # post \<and> v' g d sim = Inr (False, m') \<and>
       (\<forall>(name', v') \<in> set pre. \<exists>m'. v' g d sim = Inr (True, m')) \<and>
       msg = Some (name' @ '' failed'' @ (case m' of None \<Rightarrow> [] | Some e \<Rightarrow> '': '' @ e))"
      by auto
    with nv r True show ?thesis by (intro exI [of _ "nv # pre"]) auto
  next
    case False
    with Cons.prems r nv have "nv # vs = [] @ (name, v) # vs \<and> v g d sim = Inr (False, m) \<and>
        (\<forall>(name', v') \<in> set []. \<exists>m'. v' g d sim = Inr (True, m')) \<and>
        msg = Some (name @ '' failed'' @ (case m of None \<Rightarrow> [] | Some e \<Rightarrow> '': '' @ e))"
      by auto
    then show ?thesis by blast
  qed
qed simp

end
