(* ===== verification/MoveFacts.thy ===== *)
theory MoveFacts
  imports Moves "HOL-Library.Sublist"
begin

text \<open>
  What moves do to a configuration: composing two edits at one path, undoing a move, the effect of
  the three operation types on the path they name and on every other path, and the agreement of a
  group applied move by move with its patch applied at once.
\<close>

section \<open>The documented packages\<close>

text \<open>The packages as their documentation describes them, from the functions of the theory \<open>Json\<close>.\<close>

fun rfc_patch :: "operation list \<Rightarrow> json \<Rightarrow> json res" where
  "rfc_patch [] j = Inr j"
| "rfc_patch (x # xs) j = rbind (rfc_op (op x) (ptr_split (op_path x)) (op_value x) j) (rfc_patch xs)"

definition rfc_ext :: ext where
  "rfc_ext =
     \<lparr>path_split = ptr_split, path_join = ptr_join,
      pointer_get = (\<lambda>p j. ptr_get (ptr_split p) j),
      patch_apply = rfc_patch,
      make_patch = (\<lambda>a b. if json_eq a b then [] else [\<lparr>op = ''replace'', op_path = [], op_value = Some b\<rparr>])\<rparr>"

interpretation rfc: json_ext rfc_ext
proof unfold_locales
  fix ts :: "token list" assume "map tok_str ts \<noteq> [[]]"
  then show "path_split rfc_ext (path_join rfc_ext ts) = map tok_str ts"
    by (simp add: rfc_ext_def ptr_split_join)
qed (simp_all add: rfc_ext_def)

section \<open>Edits\<close>

lemma dset_dset [simp, dict_simps]: "dset k v (dset k w d) = dset k v d"
  by (induction d) auto

lemma dset_same: "dget d k = Some v \<Longrightarrow> dset k v d = d"
  by (induction d) auto

lemma ddel_dset_new: "dget d k = None \<Longrightarrow> ddel k (dset k v d) = d"
  by (induction d) (auto simp: ddel_def filter_id_conv split: if_splits)

lemma edit_compose:
  "ks \<noteq> [] \<Longrightarrow> edit f ks j = Inr r \<Longrightarrow> edit g ks r = edit (\<lambda>k c. rbind (f k c) (g k)) ks j"
proof (induction f ks j arbitrary: r rule: edit.induct)
  case (3 f k k' ks d)
  then obtain v w where "dget d k = Some v" "edit f (k' # ks) v = Inr w" "r = JObj (dset k w d)"
    by (auto simp: res_simps split: option.splits)
  with 3 show ?case by simp
next
  case (4 f k k' ks xs)
  then obtain i w where "array_index k = Some i" "i < length xs"
    "edit f (k' # ks) (xs ! i) = Inr w" "r = JList (xs[i := w])"
    by (auto simp: res_simps split: option.splits if_splits)
  with 4 show ?case by simp
qed auto

text \<open>A congruence: a relation that replacing one member keeps relates the results of an edit.\<close>

lemma edit_close:
  assumes refl: "\<And>j. wf_json j \<Longrightarrow> R j j"
    and obj: "\<And>d k v w. wf_json (JObj d) \<Longrightarrow> dget d k = Some v \<Longrightarrow> R w v \<Longrightarrow> R (JObj (dset k w d)) (JObj d)"
    and lst: "\<And>xs i w. wf_json (JList xs) \<Longrightarrow> i < length xs \<Longrightarrow> R w (xs ! i) \<Longrightarrow> R (JList (xs[i := w])) (JList xs)"
    and h: "\<And>k c c'. wf_json c \<Longrightarrow> h k c = Inr c' \<Longrightarrow> R c' c"
  shows "wf_json j \<Longrightarrow> edit h ks j = Inr r \<Longrightarrow> R r j"
  using h
proof (induction h ks j arbitrary: r rule: edit.induct)
  case (3 f k k' ks d)
  then obtain v w where e: "dget d k = Some v" "edit f (k' # ks) v = Inr w" "r = JObj (dset k w d)"
    by (auto simp: res_simps split: option.splits)
  with 3 have "R w v" using wf_json_dget by blast
  with e 3(2) show ?case by (auto intro: obj)
next
  case (4 f k k' ks xs)
  then obtain i w where e: "array_index k = Some i" "i < length xs"
    "edit f (k' # ks) (xs ! i) = Inr w" "r = JList (xs[i := w])"
    by (auto simp: res_simps split: option.splits if_splits)
  with 4 have "R w (xs ! i)" by (auto simp: list_all_length)
  with e 4(2) show ?case by (auto intro: lst)
qed auto

lemma edit_id:
  assumes "\<And>k c c'. h k c = Inr c' \<Longrightarrow> c' = c" and "edit h ks j = Inr r"
  shows "r = j"
  using assms(2,1)
proof (induction h ks j arbitrary: r rule: edit.induct)
  case (3 f k k' ks d)
  then obtain v w where e: "dget d k = Some v" "edit f (k' # ks) v = Inr w" "r = JObj (dset k w d)"
    by (auto simp: res_simps split: option.splits)
  with 3 have "w = v" by blast
  with e show ?case by (simp add: dset_same)
next
  case (4 f k k' ks xs)
  then obtain i w where e: "array_index k = Some i" "i < length xs"
    "edit f (k' # ks) (xs ! i) = Inr w" "r = JList (xs[i := w])"
    by (auto simp: res_simps split: option.splits if_splits)
  with 4 have "w = xs ! i" by blast
  with e show ?case by simp
qed auto

text \<open>An edit succeeds when the step at the container does.\<close>

lemma edit_total:
  "edit f ks j = Inr r \<Longrightarrow> \<forall>k c c'. f k c = Inr c' \<longrightarrow> (\<exists>c''. h k c = Inr c'') \<Longrightarrow>
     \<exists>r'. edit h ks j = Inr r'"
proof (induction f ks j arbitrary: r rule: edit.induct)
  case (3 f k k' ks d)
  then obtain v w where "dget d k = Some v" "edit f (k' # ks) v = Inr w"
    by (auto simp: res_simps split: option.splits)
  moreover from this 3 obtain w' where "edit h (k' # ks) v = Inr w'" by blast
  ultimately show ?case by simp
next
  case (4 f k k' ks xs)
  then obtain i w where "array_index k = Some i" "i < length xs" "edit f (k' # ks) (xs ! i) = Inr w"
    by (auto simp: res_simps split: option.splits if_splits)
  moreover from this 4 obtain w' where "edit h (k' # ks) (xs ! i) = Inr w'" by blast
  ultimately show ?case by simp
qed auto

section \<open>The value a move is about to overwrite\<close>

lemma array_index_py_int: "array_index k = Some i \<Longrightarrow> py_int k = Inr (int i)"
  by (auto simp: array_index_def isdigit_def py_int_digits split: if_splits)

lemma get_value_list:
  "array_index k = Some i \<Longrightarrow> i < length xs \<Longrightarrow>
     get_value (JList xs) (TStr k # ts) = get_value (xs ! i) ts"
  by (simp add: to_index_def array_index_py_int py_index_def)

text \<open>The member of a container that \<open>remove\<close> and \<open>replace\<close> act on.\<close>

definition member_of :: "string \<Rightarrow> json \<Rightarrow> json \<Rightarrow> bool" where
  "member_of k c v \<longleftrightarrow>
     (\<exists>d. c = JObj d \<and> dget d k = Some v) \<or>
     (\<exists>xs i. c = JList xs \<and> array_index k = Some i \<and> i < length xs \<and> xs ! i = v)"

lemma get_value_member: "member_of k c v \<Longrightarrow> get_value c [TStr k] = Inr v"
proof -
  assume "member_of k c v"
  then consider d where "c = JObj d" "dget d k = Some v"
    | xs i where "c = JList xs" "array_index k = Some i" "i < length xs" "v = xs ! i"
    by (auto simp: member_of_def)
  then show ?thesis
  proof cases
    case 2
    then show ?thesis using get_value_list [of k i xs "[]"] by (simp del: get_value.simps(2))
  qed simp
qed

lemma edit_at_value:
  "edit f ks j = Inr r \<Longrightarrow> \<forall>k c c'. f k c = Inr c' \<longrightarrow> (\<exists>v. member_of k c v) \<Longrightarrow>
     \<exists>v. get_value j (map TStr ks) = Inr v \<and>
       (\<forall>h. edit h ks j = edit (\<lambda>k c. if member_of k c v then h k c else Inl patch_conflict) ks j)"
proof (induction f ks j arbitrary: r rule: edit.induct)
  case (2 f k j)
  from 2(1) have "f k j = Inr r" by simp
  then obtain v where "member_of k j v" using 2(2) by blast
  then show ?case
    by (intro exI [of _ v]) (simp add: get_value_member del: get_value.simps)
next
  case (3 f k k' ks d)
  then obtain u w where e: "dget d k = Some u" "edit f (k' # ks) u = Inr w"
    by (auto simp: res_simps split: option.splits)
  from 3(1) [OF e(1) e(2) 3(3)] obtain v where
    v: "get_value u (map TStr (k' # ks)) = Inr v"
       "\<And>h. edit h (k' # ks) u = edit (\<lambda>k c. if member_of k c v then h k c else Inl patch_conflict) (k' # ks) u"
    by blast
  have "get_value (JObj d) (map TStr (k # k' # ks)) = Inr v" using v(1) e(1) by simp
  moreover have "edit h (k # k' # ks) (JObj d) =
      edit (\<lambda>k c. if member_of k c v then h k c else Inl patch_conflict) (k # k' # ks) (JObj d)" for h
    using v(2) [of h] e(1) by simp
  ultimately show ?case by blast
next
  case (4 f k k' ks xs)
  then obtain i w where e: "array_index k = Some i" "i < length xs" "edit f (k' # ks) (xs ! i) = Inr w"
    by (auto simp: res_simps split: option.splits if_splits)
  from 4(1) [OF e(1) e(2) e(3) 4(3)] obtain v where
    v: "get_value (xs ! i) (map TStr (k' # ks)) = Inr v"
       "\<And>h. edit h (k' # ks) (xs ! i) = edit (\<lambda>k c. if member_of k c v then h k c else Inl patch_conflict) (k' # ks) (xs ! i)"
    by blast
  have "get_value (JList xs) (map TStr (k # k' # ks)) = Inr v"
    using v(1) by (simp add: get_value_list [OF e(1,2)] del: get_value.simps)
  moreover have "edit h (k # k' # ks) (JList xs) =
      edit (\<lambda>k c. if member_of k c v then h k c else Inl patch_conflict) (k # k' # ks) (JList xs)" for h
    using v(2) [of h] e(1,2) by simp
  ultimately show ?case by blast
qed auto


section \<open>Undoing an edit\<close>

lemma remove_member: "remove_at k c = Inr c' \<Longrightarrow> \<exists>v. member_of k c v"
  by (cases c) (auto simp: member_of_def dhas_dget split: if_splits option.splits)

lemma replace_member: "replace_at v k c = Inr c' \<Longrightarrow> \<exists>v. member_of k c v"
  by (cases c) (auto simp: member_of_def dhas_dget split: if_splits option.splits)

lemma replace_back:
  "member_of k c v \<Longrightarrow> rbind (replace_at w k c) (replace_at v k) = Inr c"
  by (auto simp: member_of_def dhas_def dset_same)

lemma json_eq_dset:
  assumes "wf_json (JObj d)" and "dget d k = Some v" and "json_eq w v"
  shows "json_eq (JObj (dset k w d)) (JObj d)"
proof -
  have "length (dset k w d) = length d"
    using assms(2) by (induction d) (auto split: if_splits)
  moreover have "list_all (\<lambda>p. case dget d (fst p) of None \<Rightarrow> False | Some u \<Rightarrow> json_eq (snd p) u) (dset k w d)"
    unfolding list_all_iff
  proof
    fix p assume p: "p \<in> set (dset k w d)"
    have dist: "distinct (dkeys (dset k w d))" using assms(1) by simp
    with p have "dget (dset k w d) (fst p) = Some (snd p)"
      by (intro dget_Some_iff [THEN iffD2]) auto
    then have "(fst p = k \<and> snd p = w) \<or> (fst p \<noteq> k \<and> dget d (fst p) = Some (snd p))"
      by (auto split: if_splits)
    then show "case dget d (fst p) of None \<Rightarrow> False | Some u \<Rightarrow> json_eq (snd p) u"
      using assms(2,3) json_eq_refl [OF wf_json_dget [OF assms(1)]] by auto
  qed
  ultimately show ?thesis by simp
qed

lemma json_eq_list_update:
  assumes "wf_json (JList xs)" and "i < length xs" and "json_eq w (xs ! i)"
  shows "json_eq (JList (xs[i := w])) (JList xs)"
  using assms by (auto simp: list_all_length nth_list_update intro: json_eq_refl)

lemma json_eq_readd:
  assumes "wf_json (JObj d)" and "dget d k = Some v"
  shows "json_eq (JObj (dset k v (ddel k d))) (JObj d)"
proof -
  let ?e = "dset k v (ddel k d)"
  have get: "dget ?e k' = dget d k'" for k' using assms(2) by simp
  have dist: "distinct (dkeys d)" "distinct (dkeys ?e)" using assms(1) by auto
  have "set (dkeys ?e) = set (dkeys d)"
    by (metis (no_types) get dget_None_iff subsetI subset_antisym)
  then have "length ?e = length d"
    using dist by (metis distinct_card dkeys_def length_map)
  moreover have "list_all (\<lambda>p. case dget d (fst p) of None \<Rightarrow> False | Some u \<Rightarrow> json_eq (snd p) u) ?e"
    unfolding list_all_iff
  proof
    fix p assume "p \<in> set ?e"
    then have "dget d (fst p) = Some (snd p)" using dist get by (metis dget_Some_iff prod.collapse)
    moreover from this assms(1) have "json_eq (snd p) (snd p)"
      by (blast dest: wf_json_dget json_eq_refl)
    ultimately show "case dget d (fst p) of None \<Rightarrow> False | Some u \<Rightarrow> json_eq (snd p) u" by simp
  qed
  ultimately show ?thesis by simp
qed

lemma remove_back:
  assumes "member_of k c v" and "wf_json c"
  shows "\<exists>c'. rbind (remove_at k c) (add_at v k) = Inr c' \<and> json_eq c' c"
  using assms(1) unfolding member_of_def
proof (elim disjE exE conjE)
  fix d assume "c = JObj d" "dget d k = Some v"
  with assms(2) json_eq_readd show ?thesis by (auto simp: dhas_def simp del: json_eq.simps)
next
  fix xs i assume c: "c = JList xs" "array_index k = Some i" "i < length xs" "xs ! i = v"
  then have "k \<noteq> ''-''" by (auto simp: array_index_def isdigit_def is_digit_def)
  moreover have "take i (take i xs @ drop (Suc i) xs) @ v # drop i (take i xs @ drop (Suc i) xs) = xs"
    using c(3,4) id_take_nth_drop [OF c(3)] by simp
  ultimately show ?thesis using c assms(2) json_eq_refl [of c] by (auto simp del: json_eq.simps)
qed

lemma remove_back_total: "member_of k c v \<Longrightarrow> \<exists>c'. rbind (remove_at k c) (add_at v k) = Inr c'"
  by (auto simp: member_of_def dhas_def)

lemma edit_replace_back:
  assumes "edit (replace_at w) ks j = Inr r" and "ks \<noteq> []"
  shows "\<exists>v. get_value j (map TStr ks) = Inr v \<and> edit (replace_at v) ks r = Inr j"
proof -
  obtain v where v: "get_value j (map TStr ks) = Inr v"
    "\<And>h. edit h ks j = edit (\<lambda>k c. if member_of k c v then h k c else Inl patch_conflict) ks j"
    using edit_at_value [OF assms(1)] replace_member by blast
  let ?h = "\<lambda>k c. rbind (replace_at w k c) (replace_at v k)"
  let ?g = "\<lambda>k c. if member_of k c v then ?h k c else Inl patch_conflict"
  have e: "edit (replace_at v) ks r = edit ?g ks j"
    using edit_compose [OF assms(2,1), of "replace_at v"] v(2) [of ?h] by simp
  have "edit (\<lambda>k c. if member_of k c v then replace_at w k c else Inl patch_conflict) ks j = Inr r"
    using v(2) [of "replace_at w"] assms(1) by simp
  moreover have "\<forall>k c c'. (if member_of k c v then replace_at w k c else Inl patch_conflict) = Inr c' \<longrightarrow>
      (\<exists>c''. ?g k c = Inr c'')"
    using replace_back by (auto split: if_splits)
  ultimately obtain r' where r': "edit ?g ks j = Inr r'"
    using edit_total [where h = ?g] by blast
  then have "r' = j" by (rule edit_id [rotated]) (auto simp: replace_back split: if_splits)
  with v(1) e r' show ?thesis by simp
qed

lemma edit_remove_back:
  assumes "edit remove_at ks j = Inr r" and "ks \<noteq> []" and "wf_json j"
  shows "\<exists>v j'. get_value j (map TStr ks) = Inr v \<and> edit (add_at v) ks r = Inr j' \<and> json_eq j' j"
proof -
  obtain v where v: "get_value j (map TStr ks) = Inr v"
    "\<And>h. edit h ks j = edit (\<lambda>k c. if member_of k c v then h k c else Inl patch_conflict) ks j"
    using edit_at_value [OF assms(1)] remove_member by blast
  let ?h = "\<lambda>k c. rbind (remove_at k c) (add_at v k)"
  let ?g = "\<lambda>k c. if member_of k c v then ?h k c else Inl patch_conflict"
  have e: "edit (add_at v) ks r = edit ?g ks j"
    using edit_compose [OF assms(2,1), of "add_at v"] v(2) [of ?h] by simp
  have "edit (\<lambda>k c. if member_of k c v then remove_at k c else Inl patch_conflict) ks j = Inr r"
    using v(2) [of remove_at] assms(1) by simp
  moreover have "\<forall>k c c'. (if member_of k c v then remove_at k c else Inl patch_conflict) = Inr c' \<longrightarrow>
      (\<exists>c''. ?g k c = Inr c'')"
    using remove_back_total by (auto split: if_splits)
  ultimately obtain r' where r': "edit ?g ks j = Inr r'"
    using edit_total [where h = ?g] by blast
  have "json_eq r' j"
    by (rule edit_close [OF json_eq_refl json_eq_dset json_eq_list_update _ assms(3) r'])
       (use remove_back in \<open>force split: if_splits\<close>)+
  with v(1) e r' show ?thesis by auto
qed

section \<open>What a move does on dictionaries\<close>

text \<open>
  The contract of the three operation types, as functions of a path and a configuration: \<open>obj_put\<close>
  sets the path, creating what is missing on the way, and \<open>obj_del\<close> deletes it.  \<open>dict_path j ks\<close>:
  as far as the path \<open>ks\<close> exists in \<open>j\<close>, it goes through dictionaries.
\<close>

fun dict_path :: "json \<Rightarrow> string list \<Rightarrow> bool" where
  "dict_path j [] = True"
| "dict_path (JObj d) (k # ks) = (case dget d k of None \<Rightarrow> True | Some v \<Rightarrow> dict_path v ks)"
| "dict_path _ (k # ks) = False"

fun obj_put :: "string list \<Rightarrow> json \<Rightarrow> json \<Rightarrow> json" where
  "obj_put [] v j = v"
| "obj_put (k # ks) v (JObj d) =
     JObj (dset k (case dget d k of None \<Rightarrow> nest ks v | Some w \<Rightarrow> obj_put ks v w) d)"
| "obj_put (k # ks) v j = nest (k # ks) v"

fun obj_del :: "string list \<Rightarrow> json \<Rightarrow> json" where
  "obj_del (k # ks) (JObj d) =
     (if ks = [] then JObj (ddel k d)
      else case dget d k of None \<Rightarrow> JObj d | Some w \<Rightarrow> JObj (dset k (obj_del ks w) d))"
| "obj_del ks j = j"

lemma py_path_obj_cases:
  "py_path j (map TStr (k # ks)) = Inr v \<Longrightarrow>
     \<exists>d w. j = JObj d \<and> dget d k = Some w \<and> py_path w (map TStr ks) = Inr v"
  by (cases j) (auto simp: res_simps split: option.splits)

lemma py_path_dict_path: "py_path j (map TStr ks) = Inr v \<Longrightarrow> dict_path j ks"
proof (induction ks arbitrary: j)
  case (Cons k ks)
  then show ?case using py_path_obj_cases [OF Cons.prems] by auto
qed simp

lemma py_path_nest [simp]: "py_path (nest ks v) (map TStr ks) = Inr v"
  by (induction ks) auto

lemma py_path_obj_put: "dict_path j ks \<Longrightarrow> py_path (obj_put ks v j) (map TStr ks) = Inr v"
  by (induction ks v j rule: obj_put.induct) (auto split: option.splits)

lemma parallel_same [simp]: "parallel (k # ks) (k # qs) \<longleftrightarrow> parallel ks qs"
  by (simp add: parallel_def)

lemma nest_parallel: "parallel ks qs \<Longrightarrow> py_path (nest ks v) (map TStr qs) \<noteq> Inr w"
proof (induction ks arbitrary: qs)
  case (Cons k ks)
  then obtain q qs' where q: "qs = q # qs'" by (cases qs) auto
  with Cons show ?case by (cases "q = k") auto
qed auto

lemma obj_put_frame:
  "dict_path j ks \<Longrightarrow> parallel ks qs \<Longrightarrow>
     (py_path (obj_put ks v j) (map TStr qs) = Inr w \<longleftrightarrow> py_path j (map TStr qs) = Inr w)"
proof (induction ks v j arbitrary: qs rule: obj_put.induct)
  case (2 k ks v d)
  then obtain q qs' where q: "qs = q # qs'" by (cases qs) auto
  show ?case
  proof (cases "q = k")
    case True
    with 2(3) q have par: "parallel ks qs'" by simp
    show ?thesis
    proof (cases "dget d k")
      case None
      with True q nest_parallel [OF par] show ?thesis by simp
    next
      case (Some u)
      with 2(1) [OF Some, of qs'] 2(2) par True q show ?thesis by simp
    qed
  qed (simp add: q)
qed auto

lemma obj_del_gone:
  "ks \<noteq> [] \<Longrightarrow> py_path (obj_del ks j) (map TStr ks) \<noteq> Inr v"
proof (induction ks j rule: obj_del.induct)
  case (1 k ks d)
  then show ?case by (cases "dget d k") (auto simp: res_simps)
qed (auto simp: neq_Nil_conv)

lemma obj_del_frame:
  "parallel ks qs \<Longrightarrow> py_path (obj_del ks j) (map TStr qs) = py_path j (map TStr qs)"
proof (induction ks j arbitrary: qs rule: obj_del.induct)
  case (1 k ks d)
  then obtain q qs' where q: "qs = q # qs'" by (cases qs) auto
  with 1 show ?case
    by (cases "q = k"; cases "dget d k") (auto simp: dkeys_def)
qed auto

text \<open>The two loops of \<open>_to_jsonpatch_add_operation\<close> on a path through dictionaries.\<close>

lemma filtered_config_nest:
  "py_path j (map TStr ks) = Inr v \<Longrightarrow> ks \<noteq> [] \<Longrightarrow>
     filtered_config (JObj []) (map TStr ks) j = Inr (nest ks v)"
proof (induction ks arbitrary: j)
  case (Cons k ks)
  obtain d w where w: "j = JObj d" "dget d k = Some w" "py_path w (map TStr ks) = Inr v"
    using py_path_obj_cases [OF Cons.prems(1)] by blast
  show ?case
  proof (cases "ks = []")
    case False
    then obtain d' where "w = JObj d'" using w(3) by (cases w; cases ks) auto
    with Cons.IH [OF w(3) False] w False show ?thesis by simp
  qed (use w in auto)
qed simp

lemma add_walk_put:
  "dict_path c ks \<Longrightarrow> ks \<noteq> [] \<Longrightarrow>
     \<exists>n > 0. n \<le> length ks \<and>
       add_walk (map TStr ks) (nest ks v) c acc = Inr (acc @ map TStr (take n ks), nest (drop n ks) v) \<and>
       edit (add_at (nest (drop n ks) v)) (take n ks) c = Inr (obj_put ks v c)"
proof (induction ks arbitrary: c acc)
  case (Cons k ks)
  then obtain d where d: "c = JObj d" by (cases c) auto
  show ?case
  proof (cases "dget d k")
    case None
    with d show ?thesis by (intro exI [of _ 1]) (simp add: dhas_def)
  next
    case (Some w)
    show ?thesis
    proof (cases "ks = []")
      case True
      with d Some show ?thesis by (intro exI [of _ 1]) (simp add: dhas_def)
    next
      case False
      with Cons.prems d Some Cons.IH [of w "acc @ [TStr k]"] obtain n where n: "n > 0" "n \<le> length ks"
        "add_walk (map TStr ks) (nest ks v) w (acc @ [TStr k]) =
           Inr (acc @ [TStr k] @ map TStr (take n ks), nest (drop n ks) v)"
        "edit (add_at (nest (drop n ks) v)) (take n ks) w = Inr (obj_put ks v w)"
        by auto
      obtain k' ks' where t: "take n ks = k' # ks'" using n(1) False by (cases ks; cases n) auto
      with d Some n show ?thesis
        by (intro exI [of _ "Suc n"]) (simp add: dhas_def)
    qed
  qed
qed simp

lemma edit_replace_put:
  "py_path c (map TStr ks) = Inr w \<Longrightarrow> ks \<noteq> [] \<Longrightarrow> edit (replace_at v) ks c = Inr (obj_put ks v c)"
proof (induction ks arbitrary: c)
  case (Cons k ks)
  obtain d u where "c = JObj d" "dget d k = Some u" "py_path u (map TStr ks) = Inr w"
    using py_path_obj_cases [OF Cons.prems(1)] by blast
  with Cons.IH [of u] show ?case by (cases ks) (auto simp: dhas_def)
qed simp

lemma edit_remove_del:
  "py_path c (map TStr ks) = Inr w \<Longrightarrow> ks \<noteq> [] \<Longrightarrow> edit remove_at ks c = Inr (obj_del ks c)"
proof (induction ks arbitrary: c)
  case (Cons k ks)
  obtain d u where "c = JObj d" "dget d k = Some u" "py_path u (map TStr ks) = Inr w"
    using py_path_obj_cases [OF Cons.prems(1)] by blast
  with Cons.IH [of u] show ?case by (cases ks) (auto simp: dhas_def)
qed simp

lemma get_value_py_path: "py_path j (map TStr ks) = Inr v \<Longrightarrow> get_value j (map TStr ks) = Inr v"
proof (induction ks arbitrary: j)
  case (Cons k ks)
  then show ?case using py_path_obj_cases [OF Cons.prems] by auto
qed simp

section \<open>Moves and groups over the documented packages\<close>

lemma json_move_fields:
  "json_move E d t cur tgt = Inr m \<Longrightarrow>
     mv_type m = t \<and> (\<exists>v. mv_patch m = op_create t (mv_path m) v \<and> (t \<noteq> REMOVE \<longrightarrow> mv_value m = v)) \<and>
     mv_current m = cur \<and> mv_target m = tgt"
  by (cases t)
     (auto simp: json_move_def to_operation_def to_add_operation_def op_create_def res_simps
       split: option.splits if_splits)

context json_ext
begin

lemma patch_apply_add:
  "patch_apply E [op_create ADD p v] j =
     (if path_split E p = [] then Inr v else edit (add_at v) (path_split E p) j)"
  by (simp add: apply_one op_create_def rfc_op_def)

lemma patch_apply_replace:
  "patch_apply E [op_create REPLACE p v] j =
     (if path_split E p = [] then Inr v else edit (replace_at v) (path_split E p) j)"
  by (simp add: apply_one op_create_def rfc_op_def)

lemma patch_apply_remove:
  "patch_apply E [op_create REMOVE p v] j = edit remove_at (path_split E p) j"
  by (simp add: apply_one op_create_def rfc_op_def)

lemma add_move_put:
  assumes "py_path (target_config d) (map TStr ks) = Inr v" and "dict_path (current_config d) ks"
    and "ks \<noteq> []" and "hd ks \<noteq> []"
  shows "\<exists>m. json_move E d ADD (map TStr ks) (Some (map TStr ks)) = Inr m \<and>
           patch_apply E [mv_patch m] (current_config d) = Inr (obj_put ks v (current_config d))"
proof -
  obtain n where n: "n > 0" "n \<le> length ks"
    "add_walk (map TStr ks) (nest ks v) (current_config d) [] =
       Inr (map TStr (take n ks), nest (drop n ks) v)"
    "edit (add_at (nest (drop n ks) v)) (take n ks) (current_config d) =
       Inr (obj_put ks v (current_config d))"
    using add_walk_put [OF assms(2,3), of v "[]"] by auto
  have ne: "take n ks \<noteq> []" "take n ks \<noteq> [[]]" using n(1) assms(3,4) by (cases ks; cases n; auto)+
  have op: "to_operation E d ADD (map TStr ks) (Some (map TStr ks)) =
      Inr (op_create ADD (create_path E (map TStr (take n ks))) (nest (drop n ks) v))"
    using assms(1,3) n(3) by (simp add: to_operation_def to_add_operation_def filtered_config_nest)
  have "patch_apply E [op_create ADD (create_path E (map TStr (take n ks))) (nest (drop n ks) v)]
      (current_config d) = Inr (obj_put ks v (current_config d))"
    using ne n(4) by (simp add: patch_apply_add create_path_def split_join_keys)
  with op show ?thesis by (simp add: json_move_def)
qed

lemma replace_move_put:
  assumes "py_path (target_config d) (map TStr ks) = Inr v"
    and "py_path (current_config d) (map TStr ks) = Inr w" and "ks \<noteq> [[]]"
  shows "\<exists>m. json_move E d REPLACE (map TStr ks) (Some (map TStr ks)) = Inr m \<and>
           patch_apply E [mv_patch m] (current_config d) = Inr (obj_put ks v (current_config d))"
  using assms
  by (auto simp: json_move_def to_operation_def get_value_py_path patch_apply_replace create_path_def
      split_join_keys edit_replace_put)

lemma remove_move_del:
  assumes "py_path (current_config d) (map TStr ks) = Inr w" and "ks \<noteq> []" and "ks \<noteq> [[]]"
  shows "\<exists>m. json_move E d REMOVE (map TStr ks) None = Inr m \<and>
           patch_apply E [mv_patch m] (current_config d) = Inr (obj_del ks (current_config d))"
  using assms
  by (auto simp: json_move_def to_operation_def patch_apply_remove create_path_def
      split_join_keys edit_remove_del)

text \<open>Undoing a removal or a replacement right after it.\<close>

lemma undo_apply:
  assumes m: "json_move E d t cur tgt = Inr m" and t: "t \<noteq> ADD"
    and a: "move_apply E m c = Inr (r, m')" and wf: "wf_json c"
  shows "\<exists>c'. move_undo E m' r = Inr c' \<and> json_eq c' c"
proof -
  let ?ks = "path_split E (mv_path m)"
  obtain v where f: "mv_type m = t" "mv_patch m = op_create t (mv_path m) v"
    using json_move_fields [OF m] by blast
  obtain w where w: "get_value c (map TStr ?ks) = Inr w" "m' = m\<lparr>mv_orig := w\<rparr>"
    "patch_apply E [mv_patch m] c = Inr r"
  proof -
    have "mv_type m = REMOVE \<or> mv_type m = REPLACE" using f(1) t by (cases t) auto
    then have "rbind (rbind (get_value c (map TStr ?ks)) (\<lambda>v. Inr (m\<lparr>mv_orig := v\<rparr>)))
        (\<lambda>m'. rbind (patch_apply E [mv_patch m] c) (\<lambda>c. Inr (c, m'))) = Inr (r, m')"
      using a unfolding move_apply_def by (simp only: if_True)
    then show ?thesis
      using that by (cases "get_value c (map TStr ?ks)"; cases "patch_apply E [mv_patch m] c") auto
  qed
  show ?thesis
  proof (cases t)
    case REMOVE
    with w f have e: "edit remove_at ?ks c = Inr r" by (simp add: patch_apply_remove)
    then have ne: "?ks \<noteq> []" by (cases "?ks") auto
    obtain c' where "edit (add_at w) ?ks r = Inr c'" "json_eq c' c"
      using edit_remove_back [OF e ne wf] w(1) by auto
    with w(2) f REMOVE ne show ?thesis
      by (simp add: move_undo_def op_create_def apply_one rfc_op_def Let_def)
  next
    case REPLACE
    show ?thesis
    proof (cases "?ks = []")
      case True
      with w f REPLACE wf show ?thesis
        by (auto simp: move_undo_def op_create_def apply_one rfc_op_def Let_def intro: json_eq_refl)
    next
      case False
      with w f REPLACE have "edit (replace_at v) ?ks c = Inr r" by (simp add: patch_apply_replace)
      from edit_replace_back [OF this False] w(1) have "edit (replace_at w) ?ks r = Inr c" by auto
      with w(2) f REPLACE False wf show ?thesis
        by (auto simp: move_undo_def op_create_def apply_one rfc_op_def Let_def intro: json_eq_refl)
    qed
  qed (use t in simp)
qed

text \<open>Applying a group move by move or its patch at once.\<close>

lemma apply_moves_patch:
  "apply_moves E ms c = Inr (r, ms') \<Longrightarrow> r \<noteq> JNull \<Longrightarrow> patch_apply E (map mv_patch ms) c = Inr r"
proof (induction ms arbitrary: c ms')
  case (Cons m ms)
  from Cons.prems obtain c1 m1 ms1 where
    "move_apply E m c = Inr (c1, m1)" "apply_moves E ms c1 = Inr (r, ms1)"
    by (auto simp: res_simps split: if_splits)
  moreover from this(1) have "patch_apply E [mv_patch m] c = Inr c1"
    by (auto simp: move_apply_def res_simps)
  ultimately show ?case
    using Cons.IH Cons.prems(2) apply_append [of "[mv_patch m]" "map mv_patch ms" c] by simp
qed (simp add: apply_nil)

lemma group_result_patch:
  "group_result E g c = Inr r \<Longrightarrow> r \<noteq> JNull \<Longrightarrow> patch_apply E (get_jsonpatch g) c = Inr r"
  by (auto simp: group_result_def group_apply_def get_jsonpatch_def res_simps dest: apply_moves_patch)

end

end
