(* ===== verification/ConfigWrap.thy ===== *)
theory ConfigWrap
  imports Validators
begin

text \<open>
  \<open>ConfigWrapper\<close>, \<open>PatchWrapper\<close> and \<open>PathAddressing.find_ref_paths\<close> of gu_common.py.

  The wrapper object caches validation results and remembers which document the YANG library has
  loaded; both are fields of \<open>wrapper_state\<close>, threaded through the operations.  The library is a
  parameter, the record \<open>yang_lib\<close>: \<open>load_effect old c\<close> is the document that is loaded after
  \<open>loadData(c)\<close>, which matters when loading fails.  The keys of the cache, the md5 sums of the
  printed documents, are the documents with sorted keys.
\<close>

section \<open>The YANG library and the wrapper object\<close>

record yang_lib =
  load_data :: "json \<Rightarrow> unit res"
  load_effect :: "json option \<Rightarrow> json \<Rightarrow> json option"
  data_dependencies :: "json option \<Rightarrow> string \<Rightarrow> string list res"
  path_to_xpath :: "string \<Rightarrow> json \<Rightarrow> string res"
  xpath_to_path :: "string \<Rightarrow> json \<Rightarrow> string res"
  crop_tables :: "json \<Rightarrow> json"

record wrapper_state =
  validate_cache :: "(json \<times> (bool \<times> string option)) list"
  loaded_hash :: "json option"
  loaded_data :: "json option"

text \<open>\<open>json.dumps(config, sort_keys=True)\<close>.\<close>

fun insert_entry :: "string \<times> json \<Rightarrow> (string \<times> json) list \<Rightarrow> (string \<times> json) list" where
  "insert_entry e [] = [e]"
| "insert_entry e (f # fs) = (if fst e \<le> fst f then e # f # fs else f # insert_entry e fs)"

fun canon :: "json \<Rightarrow> json" where
  "canon (JList xs) = JList (map canon xs)"
| "canon (JObj d) = JObj (foldr insert_entry (map (\<lambda>(k, v). (k, canon v)) d) [])"
| "canon j = j"

section \<open>Supplemental validators\<close>

text \<open>The printed set of the two offenders of a duplicate.\<close>

definition set_text :: "string list \<Rightarrow> string" where
  "set_text xs = ''{'' @ join_with '', '' (map (\<lambda>x. CHR 0x27 # x @ [CHR 0x27]) (dedup xs)) @ ''}''"

definition py_get_default :: "json \<Rightarrow> string \<Rightarrow> json \<Rightarrow> json res" where
  "py_get_default j k dflt =
     (case j of JObj d \<Rightarrow> Inr (case dget d k of None \<Rightarrow> dflt | Some v \<Rightarrow> v) | _ \<Rightarrow> Inl AttributeError)"

text \<open>The lanes of one port: \<open>Inr (Inl msg)\<close> is the early return with an error.\<close>

fun check_lanes :: "string \<Rightarrow> string list \<Rightarrow> string option" where
  "check_lanes port [] = None"
| "check_lanes port (lane # lanes) =
     (if lane = [] then Some (''PORT '' @ CHR 0x27 # port @ CHR 0x27 # '' has an empty lane'')
      else if \<not> isdigit lane
      then Some (''PORT '' @ CHR 0x27 # port @ CHR 0x27 # '' has an invalid lane '' @ CHR 0x27 # lane @ [CHR 0x27])
      else check_lanes port lanes)"

fun port_lanes :: "json \<Rightarrow> string list \<Rightarrow> (string \<times> string list) list \<Rightarrow> (string + (string \<times> string list) list) res" where
  "port_lanes ports [] acc = Inr (Inr acc)"
| "port_lanes ports (port # rest) acc =
     rbind (py_getitem ports (TStr port))
       (\<lambda>attrs. rbind (py_in (TStr ''lanes'') attrs)
       (\<lambda>b. if \<not> b then port_lanes ports rest acc
        else rbind (py_getitem attrs (TStr ''lanes''))
       (\<lambda>v. case v of
              JStr s \<Rightarrow>
                (let lanes = map strip (split_on (CHR '','') s) in
                 case check_lanes port lanes of
                   Some msg \<Rightarrow> Inr (Inl msg)
                 | None \<Rightarrow> port_lanes ports rest (acc @ [(port, lanes)]))
            | _ \<Rightarrow> Inl AttributeError)))"

fun duplicate_lane :: "(string \<times> string) list \<Rightarrow> (string \<times> string) list \<Rightarrow> string option" where
  "duplicate_lane existing [] = None"
| "duplicate_lane existing ((port, lane) # rest) =
     (case map_of existing lane of
        Some other \<Rightarrow> Some (CHR 0x27 # lane @ CHR 0x27 # '' lane is used multiple times in PORT: '' @ set_text [port, other])
      | None \<Rightarrow> duplicate_lane ((lane, port) # existing) rest)"

definition dup_lanes_platforms :: "string list" where
  "dup_lanes_platforms =
     [''x86_64-arista_7050cx3_32c'', ''x86_64-arista_7050cx3_32s'', ''x86_64-dellemc_s5232f_c3538-r0'']"

definition lane_pairs :: "(string \<times> string list) list \<Rightarrow> (string \<times> string) list" where
  "lane_pairs lanes = concat (map (\<lambda>(port, ls). map (Pair port) ls) lanes)"

definition validate_lanes :: "json \<Rightarrow> verdict" where
  "validate_lanes config =
     rbind (py_in (TStr ''PORT'') config)
       (\<lambda>b. if \<not> b then accept else
        rbind (py_getitem config (TStr ''PORT''))
       (\<lambda>ports. rbind (py_keys ports)
       (\<lambda>names. rbind (port_lanes ports names [])
       (\<lambda>r. case r of
              Inl msg \<Rightarrow> Inr (False, Some msg)
            | Inr lanes \<Rightarrow>
                rbind (py_get_default config ''DEVICE_METADATA'' (JObj []))
                  (\<lambda>metadata. rbind (py_get_default metadata ''localhost'' (JObj []))
                  (\<lambda>localhost. rbind (py_get localhost ''platform'')
                  (\<lambda>platform.
                     if platform \<in> set (map JStr dup_lanes_platforms) then accept
                     else case duplicate_lane [] (lane_pairs lanes) of
                            Some msg \<Rightarrow> Inr (False, Some msg)
                          | None \<Rightarrow> accept)))))))"

definition vrf_of :: "string \<Rightarrow> string" where
  "vrf_of peer_group_name =
     (case split_on (CHR ''|'') peer_group_name of
        vrf # _ # _ \<Rightarrow> vrf
      | _ \<Rightarrow> ''default'')"

fun json_text :: "json \<Rightarrow> string" where
  "json_text (JStr s) = s"
| "json_text (JInt i) = str_int i"
| "json_text (JBool b) = (if b then ''True'' else ''False'')"
| "json_text _ = ''None''"

text \<open>The inner loop over the addresses of one peer group; \<open>Inl\<close> is the early return.\<close>

fun visit_ips ::
  "string \<Rightarrow> string \<Rightarrow> json list \<Rightarrow> ((json \<times> string) \<times> string) list
     \<Rightarrow> (string + ((json \<times> string) \<times> string) list) res" where
  "visit_ips grp vrf [] visited = Inr (Inr visited)"
| "visit_ips grp vrf (ip # ips) visited =
     (if \<not> hashable ip then Inl TypeError
      else case find (\<lambda>((ip', vrf'), _). json_eq ip ip' \<and> vrf = vrf') visited of
             Some (_, other) \<Rightarrow>
               Inr (Inl (json_text ip @ '' with vrf '' @ vrf @ '' is duplicated in BGP_PEER_RANGE: ''
                         @ set_text [grp, other]))
           | None \<Rightarrow> visit_ips grp vrf ips (visited @ [((ip, vrf), grp)]))"

fun visit_groups ::
  "json \<Rightarrow> string list \<Rightarrow> ((json \<times> string) \<times> string) list \<Rightarrow> verdict" where
  "visit_groups table [] visited = accept"
| "visit_groups table (grp # groups) visited =
     rbind (py_getitem table (TStr grp))
       (\<lambda>peer_group. rbind (py_in (TStr ''ip_range'') peer_group)
       (\<lambda>b. if \<not> b then visit_groups table groups visited
        else rbind (py_getitem peer_group (TStr ''ip_range''))
       (\<lambda>ip_range. rbind (py_iter ip_range)
       (\<lambda>ips. rbind (visit_ips grp (vrf_of grp) ips visited)
       (\<lambda>r. case r of
              Inl msg \<Rightarrow> Inr (False, Some msg)
            | Inr visited' \<Rightarrow> visit_groups table groups visited')))))"

definition validate_bgp_peer_group :: "json \<Rightarrow> verdict" where
  "validate_bgp_peer_group config =
     rbind (py_in (TStr ''BGP_PEER_RANGE'') config)
       (\<lambda>b. if \<not> b then accept
        else rbind (py_getitem config (TStr ''BGP_PEER_RANGE''))
               (\<lambda>table. rbind (py_keys table) (\<lambda>groups. visit_groups table groups [])))"

section \<open>\<open>validate_config_db_config\<close> and \<open>find_ref_paths\<close>\<close>

definition run_supplemental :: "json \<Rightarrow> verdict" where
  "run_supplemental config =
     rbind (validate_bgp_peer_group config)
       (\<lambda>(ok, msg). if \<not> ok then Inr (False, msg)
          else rbind (validate_lanes config)
                 (\<lambda>(ok', msg'). if \<not> ok' then Inr (False, msg') else Inr (True, None)))"

definition cache_result :: "json \<Rightarrow> bool \<times> string option \<Rightarrow> wrapper_state \<Rightarrow> wrapper_state" where
  "cache_result key r s = s\<lparr>validate_cache := (key, r) # validate_cache s\<rparr>"

definition load :: "yang_lib \<Rightarrow> json \<Rightarrow> wrapper_state \<Rightarrow> wrapper_state" where
  "load Y config s = s\<lparr>loaded_data := load_effect Y (loaded_data s) config\<rparr>"

definition validate_config_db_config ::
  "yang_lib \<Rightarrow> json \<Rightarrow> wrapper_state \<Rightarrow> verdict \<times> wrapper_state" where
  "validate_config_db_config Y config s =
     (let key = canon config in
      case map_of (validate_cache s) key of
        Some r \<Rightarrow> (Inr r, s)
      | None \<Rightarrow>
          (let s1 = load Y config s in
           case load_data Y config of
             Inl (SonicYangException msg) \<Rightarrow>
               (Inr (False, Some msg), cache_result key (False, Some msg) (s1\<lparr>loaded_hash := None\<rparr>))
           | Inl e \<Rightarrow> (Inl e, s1)
           | Inr _ \<Rightarrow>
               (let s2 = s1\<lparr>loaded_hash := Some key\<rparr> in
                case run_supplemental config of
                  Inl (SonicYangException msg) \<Rightarrow>
                    (Inr (False, Some msg), cache_result key (False, Some msg) (s2\<lparr>loaded_hash := None\<rparr>))
                | Inl e \<Rightarrow> (Inl e, s2)
                | Inr r \<Rightarrow> (Inr r, cache_result key r s2))))"

definition ref_paths_of :: "yang_lib \<Rightarrow> json option \<Rightarrow> string list \<Rightarrow> json \<Rightarrow> string list res" where
  "ref_paths_of Y data paths config =
     rbind (map_res (\<lambda>path. rbind (path_to_xpath Y path config) (data_dependencies Y data)) paths)
       (\<lambda>xpaths. rbind (map_res (\<lambda>xpath. xpath_to_path Y xpath config) (concat xpaths))
          (\<lambda>refs. Inr (sort (dedup refs))))"

definition find_ref_paths ::
  "yang_lib \<Rightarrow> string list \<Rightarrow> json \<Rightarrow> bool \<Rightarrow> wrapper_state \<Rightarrow> string list res \<times> wrapper_state" where
  "find_ref_paths Y paths config reload s =
     (let key = canon config in
      if reload \<and> loaded_hash s \<noteq> Some key then
        (let s1 = load Y config s in
         case load_data Y config of
           Inl e \<Rightarrow> (Inl e, s1)
         | Inr _ \<Rightarrow>
             (let s2 = s1\<lparr>loaded_hash := Some key\<rparr>
              in (ref_paths_of Y (loaded_data s2) paths config, s2)))
      else (ref_paths_of Y (loaded_data s) paths config, s))"

section \<open>Tables\<close>

definition get_empty_tables :: "json \<Rightarrow> string list res" where
  "get_empty_tables config =
     (case config of
        JObj d \<Rightarrow> Inr (map fst (filter (\<lambda>p. \<not> truthy (snd p)) d))
      | _ \<Rightarrow> Inl AttributeError)"

definition remove_empty_tables :: "json \<Rightarrow> json res" where
  "remove_empty_tables config =
     (case config of
        JObj d \<Rightarrow> Inr (JObj (filter (\<lambda>p. truthy (snd p)) d))
      | _ \<Rightarrow> Inl TypeError)"

text \<open>\<open>remove_empty_leaf_lists\<close>: fields of the third level that hold an empty list are dropped.\<close>

definition map_values :: "(json \<Rightarrow> json) \<Rightarrow> json \<Rightarrow> json" where
  "map_values f j = (case j of JObj d \<Rightarrow> JObj (map (\<lambda>p. (fst p, f (snd p))) d) | _ \<Rightarrow> j)"

definition drop_empty_fields :: "json \<Rightarrow> json" where
  "drop_empty_fields j = (case j of JObj d \<Rightarrow> JObj (filter (\<lambda>p. snd p \<noteq> JList []) d) | _ \<Rightarrow> j)"

definition remove_empty_leaf_lists :: "json \<Rightarrow> json res" where
  "remove_empty_leaf_lists config =
     (if is_obj config then Inr (map_values (map_values drop_empty_fields) config)
      else Inl AttributeError)"

section \<open>\<open>validate_field_operation\<close>\<close>

text \<open>The tables of a configuration that have a type other than \<open>CTRLPLANE\<close>.\<close>

definition data_acl_tables :: "json \<Rightarrow> string list res" where
  "data_acl_tables acl_table =
     (case acl_table of
        JObj d \<Rightarrow>
          fold_res (\<lambda>(table, fields) acc. rbind (py_get fields ''type'')
            (\<lambda>t. Inr (if truthy t \<and> \<not> json_eq t (JStr ''CTRLPLANE'') then acc @ [table] else acc))) d []
      | _ \<Rightarrow> Inl AttributeError)"

definition acl_type :: "json \<Rightarrow> string \<Rightarrow> json res" where
  "acl_type acl_table table =
     rbind (py_getitem acl_table (TStr table)) (\<lambda>fields. py_getitem fields (TStr ''type''))"

definition rules_of :: "json \<Rightarrow> string list \<Rightarrow> string list res" where
  "rules_of acl_rule tables =
     rbind (py_iter acl_rule)
       (\<lambda>ks. fold_res (\<lambda>k acc. case k of
            JStr rule \<Rightarrow> Inr (if hd (split_on (CHR ''|'') rule) \<in> set tables then acc @ [rule] else acc)
          | _ \<Rightarrow> Inl AttributeError) ks [])"

text \<open>
  \<open>illegal_dataacl_check\<close>; the two sets it iterates over are lists here, in the order of the
  dictionaries.
\<close>

definition illegal_dataacl_check :: "json \<Rightarrow> json \<Rightarrow> unit res" where
  "illegal_dataacl_check old upd =
     rbind (py_get_default old ''ACL_TABLE'' (JObj [])) (\<lambda>old_table.
     rbind (py_get_default upd ''ACL_TABLE'' (JObj [])) (\<lambda>upd_table.
     rbind (data_acl_tables old_table) (\<lambda>old_dacl.
     rbind (data_acl_tables upd_table) (\<lambda>upd_dacl.
     rbind (fold_res (\<lambda>table acc. rbind (acl_type old_table table) (\<lambda>a. rbind (acl_type upd_table table)
              (\<lambda>b. Inr (if json_eq a b then acc else acc @ [table]))))
              (filter (\<lambda>t. t \<in> set upd_dacl) (dedup old_dacl)) []) (\<lambda>modified.
     rbind (py_get_default old ''ACL_RULE'' (JObj [])) (\<lambda>old_rule.
     rbind (py_get_default upd ''ACL_RULE'' (JObj [])) (\<lambda>upd_rule.
     rbind (rules_of old_rule modified) (\<lambda>old_rules.
     rbind (rules_of upd_rule modified) (\<lambda>upd_rules.
     fold_res (\<lambda>key _. rbind (py_get_default old_rule key (JObj []))
         (\<lambda>a. rbind (py_get_default upd_rule key (JObj []))
         (\<lambda>b. if json_eq a b then Inr ()
              else Inl (IllegalPatchOperationError
                (''Modification of dataacl rule '' @ key @ '' is illegal: acl table type changed'')))))
       (dedup (old_rules @ upd_rules)) ())))))))))"

definition illegal_remove_fields :: "string list" where
  "illegal_remove_fields =
     [''/PFC_WD/GLOBAL/POLL_INTERVAL'', ''/PFC_WD/GLOBAL'', ''/LOOPBACK_INTERFACE/Loopback0'']"

definition check_illegal_operations :: "operation list \<Rightarrow> unit res" where
  "check_illegal_operations patch =
     fold_res (\<lambda>field _. if list_ex (\<lambda>x. op x = ''remove'' \<and> op_path x = field) patch
        then Inl (IllegalPatchOperationError
               (''Given patch operation is invalid. Operation: remove is illegal on field: '' @ field))
        else Inr ()) illegal_remove_fields ()"

text \<open>The first non-empty piece after a slash, as the regular expression finds it.\<close>

definition table_of_path :: "string \<Rightarrow> string option" where
  "table_of_path path = find (\<lambda>p. p \<noteq> []) (tl (split_on (CHR ''/'') path))"

text \<open>The validators configured for a table: \<open>tables.get(table, {}).get("field_operation_validators", [])\<close>.\<close>

definition validators_of :: "json \<Rightarrow> string \<Rightarrow> string list res" where
  "validators_of conf table =
     rbind (py_getitem conf (TStr ''tables'')) (\<lambda>tables.
     rbind (py_get_default tables table (JObj [])) (\<lambda>entry.
     rbind (py_get_default entry ''field_operation_validators'' (JList [])) (\<lambda>vs.
     rbind (py_iter vs) (map_res (\<lambda>v. case v of JStr s \<Rightarrow> Inr s | _ \<Rightarrow> Inl AttributeError)))))"

definition validator_allowed :: "string \<Rightarrow> bool" where
  "validator_allowed cmd =
     (let pieces = split_on (CHR ''.'') cmd in
      join_with ''.'' (butlast pieces) = ''generic_config_updater.field_operation_validators'' \<and>
      is_infix ''validator'' (last pieces))"

text \<open>
  \<open>validate_field_operation\<close>.  \<open>conf\<close> is the parsed configuration file, \<open>None\<close> when it does not
  exist, and \<open>run\<close> the functions of \<open>field_operation_validators\<close> by name.
\<close>

definition validate_field_operation ::
  "'x ext_scheme \<Rightarrow> json option \<Rightarrow> (string \<Rightarrow> operation \<Rightarrow> bool res) \<Rightarrow> json \<Rightarrow> json \<Rightarrow> unit res" where
  "validate_field_operation E conf run old target =
     (let patch = make_patch E old target in
      rbind (check_illegal_operations patch) (\<lambda>_.
      rbind (illegal_dataacl_check old target) (\<lambda>_.
      case conf of
        None \<Rightarrow> Inl (GenericConfigUpdaterError ''GCU field operation validators config file not found'')
      | Some c \<Rightarrow>
          fold_res (\<lambda>x _. case table_of_path (op_path x) of
              None \<Rightarrow> Inl (GenericConfigUpdaterError (''Invalid jsonpatch path: '' @ op_path x))
            | Some table \<Rightarrow>
                rbind (validators_of c table) (\<lambda>vs.
                fold_res (\<lambda>v _.
                  if \<not> validator_allowed v
                  then Inl (GenericConfigUpdaterError (''Attempting to call invalid method '' @ v))
                  else rbind (run v x) (\<lambda>ok. if ok then Inr ()
                    else Inl (IllegalPatchOperationError
                      (''Modification of '' @ table @ '' table is illegal- validating function '' @ v
                       @ '' returned False'')))) (dedup vs) ())) patch ())))"

section \<open>\<open>PatchWrapper\<close>\<close>

definition yang_model_tables :: "'x ext_scheme \<Rightarrow> operation list \<Rightarrow> json dict res" where
  "yang_model_tables E patch =
     fold_res (\<lambda>x acc. case get_path_tokens E (op_path x) of
         [] \<Rightarrow> (case op_value x of
                 None \<Rightarrow> Inl (KeyError ''value'')
               | Some v \<Rightarrow> rbind (py_iter v) (\<lambda>ks. fold_res (\<lambda>k acc. case k of
                     JStr t \<Rightarrow> Inr (dset t (JObj []) acc)
                   | _ \<Rightarrow> Inl TypeError) ks acc))
       | t # _ \<Rightarrow> if t = [] then Inl (ValueError ''Table name in patch cannot be empty'')
                  else Inr (dset t (JObj []) acc)) patch []"

definition validate_config_db_patch_has_yang_models ::
  "'x ext_scheme \<Rightarrow> yang_lib \<Rightarrow> operation list \<Rightarrow> bool res" where
  "validate_config_db_patch_has_yang_models E Y patch =
     rbind (yang_model_tables E patch)
       (\<lambda>config. rbind (py_len (crop_tables Y (JObj config))) (\<lambda>n. Inr (n = int (length config))))"

definition verify_same_json :: "'x ext_scheme \<Rightarrow> json \<Rightarrow> json \<Rightarrow> bool" where
  "verify_same_json E expected actual = (make_patch E expected actual = [])"

definition generate_patch :: "'x ext_scheme \<Rightarrow> json \<Rightarrow> json \<Rightarrow> operation list" where
  "generate_patch E current target = make_patch E current target"

definition simulate_patch :: "'x ext_scheme \<Rightarrow> operation list \<Rightarrow> json \<Rightarrow> json res" where
  "simulate_patch E patch config = patch_apply E patch config"

definition simulate_config_db_patch :: "'x ext_scheme \<Rightarrow> operation list \<Rightarrow> json \<Rightarrow> json res" where
  "simulate_config_db_patch E patch config =
     rbind (simulate_patch E patch config) remove_empty_leaf_lists"

end
