(* ===== verification/ConfigFacts.thy ===== *)
theory ConfigFacts
  imports ConfigWrap
begin

text \<open>
  What the operations of the theory \<open>ConfigWrap\<close> guarantee: the loaded document and its recorded
  hash stay together, cached verdicts are verdicts, the two supplemental validators reject exactly
  the duplicates they look for, and the clean-ups of empty tables and lists are projections.
\<close>

section \<open>The loaded document and its hash\<close>

text \<open>
  The documented behaviour of \<open>loadData\<close>: when it succeeds the document is loaded.  About a failing
  load nothing is said.
\<close>

definition load_lawful :: "yang_lib \<Rightarrow> bool" where
  "load_lawful Y \<longleftrightarrow> (\<forall>old c. load_data Y c = Inr () \<longrightarrow> load_effect Y old c = Some c)"

definition synced :: "wrapper_state \<Rightarrow> bool" where
  "synced s \<longleftrightarrow> (\<forall>key. loaded_hash s = Some key \<longrightarrow> (\<exists>c. loaded_data s = Some c \<and> canon c = key))"

definition fresh_state :: wrapper_state where
  "fresh_state = \<lparr>validate_cache = [], loaded_hash = None, loaded_data = None\<rparr>"

definition fresh_verdict :: "yang_lib \<Rightarrow> json \<Rightarrow> verdict" where
  "fresh_verdict Y c = fst (validate_config_db_config Y c fresh_state)"

text \<open>Every cached verdict was computed for a document with that key.\<close>

definition cache_ok :: "yang_lib \<Rightarrow> wrapper_state \<Rightarrow> bool" where
  "cache_ok Y s \<longleftrightarrow>
     (\<forall>(key, r) \<in> set (validate_cache s). \<exists>c. canon c = key \<and> fresh_verdict Y c = Inr r)"

lemma fresh_state_ok [simp]: "synced fresh_state" "cache_ok Y fresh_state"
  by (simp_all add: synced_def cache_ok_def fresh_state_def)

definition run_yang :: "yang_lib \<Rightarrow> json \<Rightarrow> verdict" where
  "run_yang Y c =
     (case load_data Y c of
        Inl (SonicYangException msg) \<Rightarrow> Inr (False, Some msg)
      | Inl e \<Rightarrow> Inl e
      | Inr _ \<Rightarrow> (case run_supplemental c of
                     Inl (SonicYangException msg) \<Rightarrow> Inr (False, Some msg)
                   | r \<Rightarrow> r))"

lemma validate_cases:
  obtains (hit) r where "map_of (validate_cache s) (canon c) = Some r"
      "validate_config_db_config Y c s = (Inr r, s)"
  | (computed) r s' where "map_of (validate_cache s) (canon c) = None"
      "validate_config_db_config Y c s = (run_yang Y c, s')" "run_yang Y c = Inr r"
      "validate_cache s' = (canon c, r) # validate_cache s"
      "loaded_hash s' = None \<or> (loaded_hash s' = Some (canon c) \<and> load_data Y c = Inr () \<and>
         loaded_data s' = load_effect Y (loaded_data s) c)"
  | (raised) e s' where "map_of (validate_cache s) (canon c) = None"
      "validate_config_db_config Y c s = (run_yang Y c, s')" "run_yang Y c = Inl e"
      "validate_cache s' = validate_cache s"
      "load_data Y c = Inl e \<or> (loaded_hash s' = Some (canon c) \<and> load_data Y c = Inr () \<and>
         loaded_data s' = load_effect Y (loaded_data s) c)"
proof (cases "map_of (validate_cache s) (canon c)")
  case (Some r)
  then show ?thesis using hit by (simp add: validate_config_db_config_def)
next
  case None
  note d = validate_config_db_config_def run_yang_def load_def cache_result_def None Let_def
  show ?thesis
  proof (cases "load_data Y c")
    case (Inl e)
    show ?thesis
    proof (cases "\<exists>msg. e = SonicYangException msg")
      case True
      then obtain msg where "e = SonicYangException msg" by blast
      with Inl None show ?thesis
        by (intro computed [where r = "(False, Some msg)" and s' = "cache_result (canon c) (False, Some msg)
              ((load Y c s)\<lparr>loaded_hash := None\<rparr>)"]) (simp_all add: d)
    next
      case False
      with Inl have "run_yang Y c = Inl e" by (cases e) (auto simp: run_yang_def)
      moreover have "validate_config_db_config Y c s = (Inl e, load Y c s)"
        using False Inl None by (cases e) (auto simp: d)
      ultimately show ?thesis using raised None Inl by (auto simp: load_def)
    qed
  next
    case (Inr u)
    show ?thesis
    proof (cases "run_supplemental c")
      case (Inr r)
      with \<open>load_data Y c = Inr u\<close> None show ?thesis
        by (intro computed [where r = r and s' = "cache_result (canon c) r ((load Y c s)\<lparr>loaded_hash := Some (canon c)\<rparr>)"])
           (simp_all add: d)
    next
      case (Inl e)
      show ?thesis
      proof (cases "\<exists>msg. e = SonicYangException msg")
        case True
        then obtain msg where "e = SonicYangException msg" by blast
        with Inl \<open>load_data Y c = Inr u\<close> None show ?thesis
          by (intro computed [where r = "(False, Some msg)" and s' = "cache_result (canon c) (False, Some msg)
                ((load Y c s)\<lparr>loaded_hash := None\<rparr>)"]) (simp_all add: d)
      next
        case False
        with Inl Inr have "run_yang Y c = Inl e" by (cases e) (auto simp: run_yang_def)
        moreover have "validate_config_db_config Y c s =
            (Inl e, (load Y c s)\<lparr>loaded_hash := Some (canon c)\<rparr>)"
          using False Inl Inr None by (cases e) (auto simp: d)
        ultimately show ?thesis using None Inr
          by (intro raised [where e = e and s' = "(load Y c s)\<lparr>loaded_hash := Some (canon c)\<rparr>"])
             (simp_all add: load_def)
      qed
    qed
  qed
qed

lemma fresh_verdict_run: "fresh_verdict Y c = run_yang Y c"
  unfolding fresh_verdict_def
  by (cases rule: validate_cases [where Y = Y and c = c and s = fresh_state]) (auto simp: fresh_state_def)

text \<open>
  The verdict of a state with a sound cache is the verdict of a fresh validation of a document with
  the same content, and the cache stays sound.
\<close>

lemma validate_pure:
  assumes "cache_ok Y s" and "validate_config_db_config Y c s = (v, s')"
  shows "(\<exists>c'. canon c' = canon c \<and> fresh_verdict Y c' = v) \<and> cache_ok Y s'"
proof (cases rule: validate_cases [where Y = Y and c = c and s = s])
  case (hit r)
  then have "(canon c, r) \<in> set (validate_cache s)" by (simp add: map_of_SomeD)
  with hit assms show ?thesis by (auto simp: cache_ok_def)
next
  case (computed r s1)
  with assms show ?thesis
    by (auto simp: cache_ok_def fresh_verdict_run)
next
  case (raised e s1)
  with assms show ?thesis by (auto simp: cache_ok_def fresh_verdict_run)
qed

lemma validate_synced:
  assumes "load_lawful Y" and "synced s" and "validate_config_db_config Y c s = (Inr r, s')"
  shows "synced s'"
  by (cases rule: validate_cases [where Y = Y and c = c and s = s])
     (use assms in \<open>auto simp: synced_def load_lawful_def\<close>)

text \<open>
  With \<open>reload_config\<close> the references are read from a loaded document with the content of the given
  configuration.
\<close>

lemma find_ref_paths_reload:
  assumes "load_lawful Y" and "synced s" and "find_ref_paths Y paths c True s = (r, s')"
    and "loaded_hash s = Some (canon c) \<or> load_data Y c = Inr ()"
  shows "synced s' \<and> (\<exists>c'. canon c' = canon c \<and> r = ref_paths_of Y (Some c') paths c)"
proof (cases "loaded_hash s = Some (canon c)")
  case True
  with assms show ?thesis by (auto simp: find_ref_paths_def synced_def)
next
  case False
  with assms have "load_data Y c = Inr ()" "load_effect Y (loaded_data s) c = Some c"
    by (auto simp: load_lawful_def)
  with False assms(3) show ?thesis by (auto simp: find_ref_paths_def load_def synced_def Let_def)
qed

lemma find_ref_paths_no_reload:
  "find_ref_paths Y paths c False s = (ref_paths_of Y (loaded_data s) paths c, s)"
  by (simp add: find_ref_paths_def Let_def)

text \<open>
  A failing load in \<open>find_ref_paths\<close> keeps the recorded hash, so the hash may outlive its document.
\<close>

lemma find_ref_paths_stale:
  assumes "load_data Y c = Inl e" and "load_effect Y (loaded_data s) c = None"
    and "loaded_hash s = Some key" and "key \<noteq> canon c"
  shows "\<not> synced (snd (find_ref_paths Y paths c True s))"
  using assms by (simp add: find_ref_paths_def load_def synced_def Let_def)

section \<open>Empty tables and lists\<close>

lemma remove_empty_tables_clean:
  "remove_empty_tables c = Inr c' \<Longrightarrow> get_empty_tables c' = Inr []"
  by (cases c) (auto simp: remove_empty_tables_def get_empty_tables_def filter_empty_conv)

lemma remove_empty_tables_id:
  "get_empty_tables c = Inr [] \<Longrightarrow> remove_empty_tables c = Inr c"
  by (cases c) (auto simp: remove_empty_tables_def get_empty_tables_def filter_empty_conv filter_id_conv)

lemma remove_empty_tables_keeps:
  "remove_empty_tables (JObj d) = Inr (JObj d') \<Longrightarrow> distinct (dkeys d) \<Longrightarrow>
     dget d' k = (case dget d k of None \<Rightarrow> None | Some v \<Rightarrow> if truthy v then Some v else None)"
proof (induction d arbitrary: d')
  case (Cons p d)
  obtain k0 v0 where p: "p = (k0, v0)" by force
  have r: "remove_empty_tables (JObj d) = Inr (JObj (filter (\<lambda>p. truthy (snd p)) d))"
    by (simp add: remove_empty_tables_def)
  have "dget d k0 = None" using Cons.prems(2) p by (simp add: dget_None_iff)
  with Cons.IH [OF r] Cons.prems p show ?case
    by (auto simp: remove_empty_tables_def split: option.splits)
qed (simp add: remove_empty_tables_def)

definition no_empty_leaf_list :: "json \<Rightarrow> bool" where
  "no_empty_leaf_list config \<longleftrightarrow>
     (\<forall>t k f v w. py_path config [TStr t, TStr k] = Inr v \<longrightarrow> is_obj v \<longrightarrow>
        py_getitem v (TStr f) = Inr w \<longrightarrow> w \<noteq> JList [])"

lemma dget_map_values: "dget (map (\<lambda>p. (fst p, f (snd p))) d) k = map_option f (dget d k)"
  by (induction d) auto

lemma map_values_obj [simp]: "is_obj (map_values f j) = is_obj j"
  by (cases j) (auto simp: map_values_def)

lemma getitem_map_values:
  "py_getitem (map_values f (JObj d)) (TStr k) = rbind (py_getitem (JObj d) (TStr k)) (\<lambda>v. Inr (f v))"
  by (simp add: map_values_def dget_map_values split: option.splits)

lemma drop_empty_fields_idem: "drop_empty_fields (drop_empty_fields j) = drop_empty_fields j"
  by (cases j) (simp_all add: drop_empty_fields_def)

lemma map_values_comp: "map_values f (map_values g j) = map_values (\<lambda>x. f (g x)) j"
  by (cases j) (simp_all add: map_values_def)

lemma remove_empty_leaf_lists_idem:
  "remove_empty_leaf_lists c = Inr c' \<Longrightarrow> remove_empty_leaf_lists c' = Inr c'"
  by (auto simp: remove_empty_leaf_lists_def map_values_comp drop_empty_fields_idem split: if_splits)

lemma drop_empty_fields_get:
  "py_getitem (drop_empty_fields (JObj d)) (TStr k) = Inr w \<Longrightarrow> w \<noteq> JList []"
  by (auto simp: drop_empty_fields_def split: option.splits dest!: dget_SomeD)

lemma remove_empty_leaf_lists_clean:
  assumes "remove_empty_leaf_lists c = Inr c'"
  shows "no_empty_leaf_list c'"
proof -
  obtain d where c: "c = JObj d" using assms by (cases c) (auto simp: remove_empty_leaf_lists_def)
  with assms have c': "c' = map_values (map_values drop_empty_fields) (JObj d)"
    by (simp add: remove_empty_leaf_lists_def)
  have "w \<noteq> JList []" if p: "py_path c' [TStr t, TStr k] = Inr v" "is_obj v"
    "py_getitem v (TStr f) = Inr w" for t k f v w
  proof -
    obtain u where u: "py_getitem (map_values drop_empty_fields u) (TStr k) = Inr v"
      using p(1) unfolding c' by (auto simp: getitem_map_values res_simps)
    then obtain e where e: "u = JObj e" by (cases u) (auto simp: map_values_def)
    with u obtain x where x: "v = drop_empty_fields x" by (auto simp: getitem_map_values res_simps)
    with p(2) obtain y where "x = JObj y" by (cases x) (auto simp: drop_empty_fields_def)
    with p(3) x show ?thesis using drop_empty_fields_get by blast
  qed
  then show ?thesis unfolding no_empty_leaf_list_def by blast
qed

section \<open>Lanes\<close>

lemma check_lanes_None: "check_lanes port ls = None \<longleftrightarrow> (\<forall>l \<in> set ls. isdigit l)"
  by (induction port ls rule: check_lanes.induct) (auto simp: isdigit_def)

lemma duplicate_lane_None:
  "duplicate_lane ex ps = None \<longleftrightarrow>
     distinct (map snd ps) \<and> set (map snd ps) \<inter> set (map fst ex) = {}"
proof (induction ex ps rule: duplicate_lane.induct)
  case (2 ex port lane rest)
  show ?case
  proof (cases "map_of ex lane")
    case None
    then have "lane \<notin> set (map fst ex)" by (simp add: map_of_eq_None_iff)
    with 2 [OF None] None show ?thesis by auto
  next
    case (Some other)
    then have "lane \<in> set (map fst ex)" by (auto dest: map_of_SomeD intro: rev_image_eqI)
    with Some show ?thesis by auto
  qed
qed simp

text \<open>The lanes a port declares.\<close>

definition lanes_of :: "json \<Rightarrow> string list" where
  "lanes_of attrs =
     (case py_getitem attrs (TStr ''lanes'') of
        Inr (JStr s) \<Rightarrow> map strip (split_on (CHR '','') s)
      | _ \<Rightarrow> [])"

lemma lane_pairs_append:
  "lane_pairs (xs @ [(n, ls)]) = lane_pairs xs @ map (Pair n) ls"
  by (simp add: lane_pairs_def)

lemma port_lanes_ok:
  "port_lanes (JObj ports) names acc = Inr (Inr lanes) \<Longrightarrow> \<forall>n \<in> set names. dhas ports n \<Longrightarrow>
     lane_pairs lanes = lane_pairs acc @
       concat (map (\<lambda>n. map (Pair n) (lanes_of (the (dget ports n)))) names) \<and>
     (\<forall>n \<in> set names. \<forall>l \<in> set (lanes_of (the (dget ports n))). isdigit l)"
proof (induction names arbitrary: acc)
  case (Cons n names)
  then obtain attrs where a: "dget ports n = Some attrs" by (auto simp: dhas_dget)
  from Cons.prems(1) a obtain b where b: "py_in (TStr ''lanes'') attrs = Inr b"
    by (auto simp: res_simps)
  show ?case
  proof (cases b)
    case False
    with Cons.prems a b have "port_lanes (JObj ports) names acc = Inr (Inr lanes)" by simp
    moreover have "lanes_of attrs = []"
      using b False by (cases attrs) (auto simp: lanes_of_def dhas_def split: option.splits)
    ultimately show ?thesis using Cons a by simp
  next
    case True
    with Cons.prems(1) a b obtain v where v: "py_getitem attrs (TStr ''lanes'') = Inr v"
      by (auto simp: res_simps)
    with True Cons.prems(1) a b obtain s where s: "py_getitem attrs (TStr ''lanes'') = Inr (JStr s)"
      "check_lanes n (map strip (split_on (CHR '','') s)) = None"
      "port_lanes (JObj ports) names (acc @ [(n, map strip (split_on (CHR '','') s))]) = Inr (Inr lanes)"
      by (cases v) (auto simp: Let_def split: option.splits)
    have l: "lanes_of attrs = map strip (split_on (CHR '','') s)" by (simp add: lanes_of_def s(1))
    with s(2) have "\<forall>l \<in> set (lanes_of attrs). isdigit l" by (simp only: check_lanes_None)
    with Cons.IH [OF s(3)] Cons.prems(2) a show ?thesis
      by (simp add: lane_pairs_append l [symmetric])
  qed
qed simp

text \<open>What an accepted \<open>PORT\<close> table satisfies; \<open>all_lanes\<close> pairs every port with each of its lanes.\<close>

definition all_lanes :: "json dict \<Rightarrow> (string \<times> string) list" where
  "all_lanes ports = concat (map (\<lambda>(n, attrs). map (Pair n) (lanes_of attrs)) ports)"

definition lane_platform :: "json \<Rightarrow> json" where
  "lane_platform config =
     (case py_path config [TStr ''DEVICE_METADATA'', TStr ''localhost'', TStr ''platform''] of
        Inr v \<Rightarrow> v | Inl _ \<Rightarrow> JNull)"

lemma validate_lanes_sound:
  assumes ok: "validate_lanes (JObj d) = Inr (True, msg)" and p: "dget d ''PORT'' = Some (JObj ports)"
    and dist: "distinct (dkeys ports)"
    and plat: "lane_platform (JObj d) \<notin> set (map JStr dup_lanes_platforms)"
  shows "(\<forall>(n, l) \<in> set (all_lanes ports). isdigit l) \<and> distinct (map snd (all_lanes ports))"
proof -
  have same: "concat (map (\<lambda>n. map (Pair n) (lanes_of (the (dget ports n)))) (dkeys ports)) = all_lanes ports"
  proof -
    have "map (\<lambda>n. map (Pair n) (lanes_of (the (dget ports n)))) (dkeys ports) =
        map (\<lambda>(n, attrs). map (Pair n) (lanes_of attrs)) ports"
      using dist by (auto simp: dkeys_def dget_def)
    then show ?thesis by (simp add: all_lanes_def)
  qed
  from ok p obtain lanes md lh pl where l: "port_lanes (JObj ports) (dkeys ports) [] = Inr (Inr lanes)"
    "py_get_default (JObj d) ''DEVICE_METADATA'' (JObj []) = Inr md"
    "py_get_default md ''localhost'' (JObj []) = Inr lh" "py_get lh ''platform'' = Inr pl"
    "pl \<notin> set (map JStr dup_lanes_platforms) \<Longrightarrow> duplicate_lane [] (lane_pairs lanes) = None"
  proof -
    let ?rest = "\<lambda>r. case r of
              Inl msg \<Rightarrow> Inr (False, Some msg)
            | Inr lanes \<Rightarrow>
                rbind (py_get_default (JObj d) ''DEVICE_METADATA'' (JObj []))
                  (\<lambda>metadata. rbind (py_get_default metadata ''localhost'' (JObj []))
                  (\<lambda>localhost. rbind (py_get localhost ''platform'')
                  (\<lambda>platform.
                     if platform \<in> set (map JStr dup_lanes_platforms) then accept
                     else case duplicate_lane [] (lane_pairs lanes) of
                            Some msg \<Rightarrow> Inr (False, Some msg)
                          | None \<Rightarrow> accept)))"
    have "rbind (port_lanes (JObj ports) (dkeys ports) []) ?rest = Inr (True, msg)"
      using ok p by (simp add: validate_lanes_def dhas_def del: set_map)
    then obtain r where r: "port_lanes (JObj ports) (dkeys ports) [] = Inr r" "?rest r = Inr (True, msg)"
      by (auto simp: rbind_Inr_iff)
    from r(2) obtain lanes where lanes: "r = Inr lanes" by (cases r) auto
    with r(2) obtain md lh pl where x: "py_get_default (JObj d) ''DEVICE_METADATA'' (JObj []) = Inr md"
      "py_get_default md ''localhost'' (JObj []) = Inr lh" "py_get lh ''platform'' = Inr pl"
      "(if pl \<in> set (map JStr dup_lanes_platforms) then accept
        else case duplicate_lane [] (lane_pairs lanes) of
               Some msg \<Rightarrow> Inr (False, Some msg) | None \<Rightarrow> accept) = Inr (True, msg)"
      by (auto simp only: rbind_Inr_iff sum.case)
    have "duplicate_lane [] (lane_pairs lanes) = None" if "pl \<notin> set (map JStr dup_lanes_platforms)"
      using x(4) that by (auto split: option.splits)
    with that r(1) lanes x(1-3) show ?thesis by blast
  qed
  have "pl \<notin> set (map JStr dup_lanes_platforms)"
  proof
    assume pin: "pl \<in> set (map JStr dup_lanes_platforms)"
    then have "pl \<noteq> JNull" by auto
    then have "lane_platform (JObj d) = pl"
      using l(2-4)
      by (cases md; cases lh) (auto simp: lane_platform_def py_get_default_def split: option.splits if_splits)
    with pin plat show False by simp
  qed
  with l(5) have "distinct (map snd (lane_pairs lanes))" by (simp add: duplicate_lane_None)
  moreover have "lane_pairs lanes = all_lanes ports"
    "\<forall>n \<in> set (dkeys ports). \<forall>l \<in> set (lanes_of (the (dget ports n))). isdigit l"
    using port_lanes_ok [OF l(1)] same by (auto simp: dhas_iff lane_pairs_def)
  moreover have "isdigit l" if "(n, l) \<in> set (all_lanes ports)" for n l
  proof -
    from that obtain attrs where "(n, attrs) \<in> set ports" "l \<in> set (lanes_of attrs)"
      by (auto simp: all_lanes_def)
    moreover from this dist have "dget ports n = Some attrs" by (simp add: dget_Some_iff)
    ultimately show ?thesis
      using \<open>\<forall>n \<in> set (dkeys ports). _\<close> by (metis dhas_def dhas_iff option.discI option.sel)
  qed
  ultimately show ?thesis by auto
qed

end
