(* ===== verification/PatchSort.thy ===== *)
theory PatchSort
  imports MoveWrapper MoveFacts ConfigFacts
begin

text \<open>
  The top of patch_sorter.py: \<open>PatchSorter\<close>, \<open>StrictPatchSorter\<close> and \<open>NonStrictPatchSorter\<close>, with
  the splitters that separate the configuration YANG models cover from the rest and the wrapper that
  adjusts the changes of one part to the whole.

  A \<open>JsonChange\<close> is its list of operations.  The running configuration is an argument; \<open>E\<close> holds the
  packages, \<open>Y\<close> the YANG library, \<open>h\<close> the hash of a diff and \<open>n\<close> the fuel of the search and of the
  generator's queue.  Writing the trace to \<open>trace_io\<close> is left out.
\<close>

type_synonym change = "operation list"

section \<open>\<open>PatchSorter\<close> and \<open>StrictPatchSorter\<close>\<close>

definition patch_sort ::
  "'x schema_ext_scheme \<Rightarrow> (diff \<Rightarrow> int) \<Rightarrow> nat \<Rightarrow> json \<Rightarrow> operation list \<Rightarrow> algorithm \<Rightarrow> json option
     \<Rightarrow> change list res"
where
  "patch_sort E h n running patch alg preloaded =
     (let current = (case preloaded of Some c \<Rightarrow> if truthy c then c else running | None \<Rightarrow> running) in
      rbind (simulate_config_db_patch E patch current)
        (\<lambda>target. rbind (create_sorter alg (factory_env E h n) n
                      \<lparr>current_config = current, target_config = target\<rparr>)
          (\<lambda>moves. case moves of
               None \<Rightarrow> Inl (GenericConfigUpdaterError ''There is no possible sorting'')
             | Some ms \<Rightarrow> Inr (map get_jsonpatch ms))))"

definition invalid_target :: "string option \<Rightarrow> py_error" where
  "invalid_target msg =
     ValueError (''Given patch will produce invalid config. Error: '' @
                 (case msg of None \<Rightarrow> ''None'' | Some m \<Rightarrow> m))"

definition strict_sort ::
  "'x schema_ext_scheme \<Rightarrow> yang_lib \<Rightarrow> (diff \<Rightarrow> int) \<Rightarrow> nat \<Rightarrow> json \<Rightarrow> operation list \<Rightarrow> algorithm
     \<Rightarrow> change list res"
where
  "strict_sort E Y h n running patch alg =
     rbind (validate_config_db_patch_has_yang_models E Y patch)
       (\<lambda>has_models. if \<not> has_models
          then Inl (ValueError ''Given patch is not valid because it has changes to tables without YANG models'')
          else rbind (simulate_config_db_patch E patch running)
            (\<lambda>target. rbind (validate_config E target)
              (\<lambda>(ok, msg). if \<not> ok then Inl (invalid_target msg)
                 else patch_sort E h n running patch alg None)))"

section \<open>Splitting and merging configurations\<close>

text \<open>A splitter returns the part with YANG models and the part without.\<close>

type_synonym splitter = "json \<Rightarrow> (json \<times> json) res"

definition tables_without_yang_split :: "yang_lib \<Rightarrow> splitter" where
  "tables_without_yang_split Y config =
     (let cropped = crop_tables Y config in
      rbind (iter_strs config)
        (\<lambda>ks. rbind (fold_res (\<lambda>k acc. rbind (py_in (TStr k) cropped)
            (\<lambda>b. if b then Inr acc
                 else rbind (py_getitem config (TStr k)) (\<lambda>v. Inr (dset k v acc)))) ks [])
          (\<lambda>rest. Inr (cropped, JObj rest))))"

definition splitter_name :: string where
  "splitter_name = ''IgnorePathsFromYangConfigSplitter''"

text \<open>One ignored path is moved from the first configuration to the second.\<close>

definition move_path :: "'x ext_scheme \<Rightarrow> string \<Rightarrow> json \<Rightarrow> json \<Rightarrow> (json \<times> json) res" where
  "move_path E path with_yang without_yang =
     (let tokens = map TStr (get_path_tokens E path) in
      rbind (json_move E \<lparr>current_config = without_yang, target_config = with_yang\<rparr> ADD tokens (Some tokens))
        (\<lambda>a. rbind (group_result E (move_group splitter_name (Some a)) without_yang)
        (\<lambda>without'. rbind (json_move E \<lparr>current_config = with_yang, target_config = JObj []\<rparr> REMOVE tokens None)
        (\<lambda>r. rbind (group_result E (move_group splitter_name (Some r)) with_yang)
        (\<lambda>with'. Inr (with', without'))))))"

fun ignore_paths_loop ::
  "'x ext_scheme \<Rightarrow> string list \<Rightarrow> json \<Rightarrow> json \<Rightarrow> json \<Rightarrow> (json \<times> json) res" where
  "ignore_paths_loop E [] config with_yang without_yang =
     rbind (remove_empty_tables with_yang)
       (\<lambda>a. rbind (remove_empty_tables without_yang) (\<lambda>b. Inr (a, b)))"
| "ignore_paths_loop E (path # paths) config with_yang without_yang =
     (if \<not> has_path E with_yang path then ignore_paths_loop E paths config with_yang without_yang
      else if path = [] then Inr (JObj [], config)
      else rbind (move_path E path with_yang without_yang)
             (\<lambda>(a, b). ignore_paths_loop E paths config a b))"

definition ignore_paths_split :: "'x ext_scheme \<Rightarrow> string list \<Rightarrow> splitter" where
  "ignore_paths_split E paths config = ignore_paths_loop E paths config config (JObj [])"

text \<open>
  \<open>__recursive_append\<close>: the keys of \<open>additional\<close> are added to \<open>target\<close>; where both have a key, both
  must hold dictionaries.
\<close>

fun recursive_append :: "json \<Rightarrow> json \<Rightarrow> string \<Rightarrow> json res"
  and append_entries :: "json dict \<Rightarrow> (string \<times> json) list \<Rightarrow> string \<Rightarrow> json dict res"
where
  "recursive_append tgt additional path =
     (case tgt of
        JObj d \<Rightarrow>
          (case additional of
             JObj es \<Rightarrow> rbind (append_entries d es path) (\<lambda>d'. Inr (JObj d'))
           | _ \<Rightarrow> if additional = JStr [] \<or> additional = JList [] then Inr tgt else Inl TypeError)
      | _ \<Rightarrow> Inl (ValueError (''Found a field that exist in both config1 and config2. Path: '' @ path)))"
| "append_entries d [] path = Inr d"
| "append_entries d ((k, v) # es) path =
     (case dget d k of
        None \<Rightarrow> append_entries (dset k v d) es path
      | Some w \<Rightarrow> rbind (recursive_append w v (path @ ''/'' @ k))
                    (\<lambda>w'. append_entries (dset k w' d) es path))"

definition merge_configs :: "json \<Rightarrow> json \<Rightarrow> json res" where
  "merge_configs config1 config2 = recursive_append config1 config2 []"

definition empty_tables_error :: "string list \<Rightarrow> py_error" where
  "empty_tables_error tables =
     ValueError (''Given config has empty tables. Table'' @ (if length tables \<noteq> 1 then ''s'' else [])
                 @ '': '' @ join_with '', '' tables)"

definition config_split :: "splitter list \<Rightarrow> splitter" where
  "config_split splitters config =
     rbind (get_empty_tables config)
       (\<lambda>empty_tables. if empty_tables \<noteq> [] then Inl (empty_tables_error empty_tables)
          else fold_res (\<lambda>split (with_yang, without_yang).
                 rbind (split with_yang)
                   (\<lambda>(with', extra). rbind (merge_configs without_yang extra)
                      (\<lambda>without'. Inr (with', without')))) splitters (config, JObj []))"

section \<open>\<open>ChangeWrapper\<close> and \<open>NonStrictPatchSorter\<close>\<close>

fun adjust_changes :: "'x ext_scheme \<Rightarrow> change list \<Rightarrow> json \<Rightarrow> json \<Rightarrow> change list res" where
  "adjust_changes E [] cur remaining = Inr []"
| "adjust_changes E (c # cs) cur remaining =
     rbind (patch_apply E c cur)
       (\<lambda>tgt. rbind (merge_configs cur remaining)
       (\<lambda>full_curr. rbind (merge_configs tgt remaining)
       (\<lambda>full_tgt. rbind (adjust_changes E cs tgt remaining)
       (\<lambda>rest. Inr (generate_patch E full_curr full_tgt # rest)))))"

definition non_strict_sort ::
  "'x schema_ext_scheme \<Rightarrow> yang_lib \<Rightarrow> (diff \<Rightarrow> int) \<Rightarrow> nat \<Rightarrow> splitter list \<Rightarrow> json \<Rightarrow> operation list
     \<Rightarrow> algorithm \<Rightarrow> change list res"
where
  "non_strict_sort E Y h n splitters running patch alg =
     rbind (simulate_config_db_patch E patch running) (\<lambda>target.
     rbind (config_split splitters running) (\<lambda>(current_yang, current_non_yang).
     rbind (config_split splitters target) (\<lambda>(target_yang, target_non_yang).
     rbind (validate_config E target_yang) (\<lambda>(ok, msg).
       if \<not> ok then Inl (invalid_target msg)
       else let non_yang_patch = generate_patch E current_non_yang target_non_yang;
                non_yang_changes = (if non_yang_patch = [] then [] else [non_yang_patch]);
                yang_patch = generate_patch E current_yang target_yang
       in rbind (validate_config_db_patch_has_yang_models E Y yang_patch) (\<lambda>has_models.
          if \<not> has_models
          then Inl (ValueError ''Given YANG covered config patch is not valid because it has changes to tables without YANG models'')
          else rbind (patch_sort E h n running yang_patch alg (Some current_yang)) (\<lambda>yang_changes.
               rbind (adjust_changes E non_yang_changes current_non_yang current_yang) (\<lambda>a.
               rbind (adjust_changes E yang_changes current_yang target_non_yang) (\<lambda>b.
               Inr (a @ b)))))))))"

section \<open>Applying the changes one after the other\<close>

text \<open>The configurations the changes lead through.\<close>

fun apply_changes :: "'x ext_scheme \<Rightarrow> change list \<Rightarrow> json \<Rightarrow> json list res" where
  "apply_changes E [] c = Inr []"
| "apply_changes E (p # ps) c =
     rbind (patch_apply E p c) (\<lambda>c'. rbind (apply_changes E ps c') (\<lambda>cs. Inr (c' # cs)))"

definition rejects_null :: "'x yang_ext_scheme \<Rightarrow> bool" where
  "rejects_null E \<longleftrightarrow> (\<forall>msg. validate_config E JNull \<noteq> Inr (True, msg))"

lemma passes_factory:
  assumes "passes (factory_env E h n) U d g d'"
  shows "target_config d' = target_config d"
    and "group_result E g (current_config d) = Inr (current_config d')"
    and "\<forall>(name, v) \<in> set (mw_validators (factory_wrapper E)).
           \<exists>msg. v g d (current_config d') = Inr (True, msg)"
proof -
  from assms obtain msg where v: "wrapper_validate E (factory_wrapper E) g d = Inr (True, msg)"
    and s: "simulate E g d = Inr d'"
    by (auto simp: passes_def factory_env_def wrapper_env_def)
  from s show r: "group_result E g (current_config d) = Inr (current_config d')"
    and "target_config d' = target_config d"
    by (auto simp: simulate_def apply_move_def res_simps)
  from v r have "\<exists>msg. run_validators (mw_validators (factory_wrapper E)) g d (current_config d') = Inr (True, msg)"
    by (auto simp: wrapper_validate_def)
  then show "\<forall>(name, v) \<in> set (mw_validators (factory_wrapper E)).
      \<exists>msg. v g d (current_config d') = Inr (True, msg)"
    by (simp only: run_validators_iff)
qed

lemma passes_valid:
  assumes "passes (factory_env E h n) U d g d'"
  shows "\<exists>msg. validate_config E (current_config d') = Inr (True, msg)"
  using passes_factory(3) [OF assms] by (simp add: factory_wrapper_def full_config_validate_def)

lemma replay_chain:
  assumes "replay (factory_env E h n) U d ms d'" and "json_ext E" and "rejects_null E"
  shows "\<exists>cs. apply_changes E (map get_jsonpatch ms) (current_config d) = Inr cs \<and>
           last (current_config d # cs) = current_config d' \<and> target_config d' = target_config d \<and>
           (\<forall>c \<in> set cs. \<exists>msg. validate_config E c = Inr (True, msg))"
  using assms(1)
proof (induction rule: replay.induct)
  case (replay_cons d g d1 ms d2)
  from passes_valid [OF replay_cons(1)] assms(3) have "current_config d1 \<noteq> JNull"
    by (auto simp: rejects_null_def)
  with passes_factory(2) [OF replay_cons(1)]
  have "patch_apply E (get_jsonpatch g) (current_config d) = Inr (current_config d1)"
    by (rule json_ext.group_result_patch [OF assms(2)])
  with replay_cons passes_valid passes_factory(1) show ?case by fastforce
qed simp

end
