(* ===== verification/ChangeApply.thy ===== *)
theory ChangeApply
  imports PatchSort
begin

text \<open>
  \<open>ChangeApplier\<close> of change_applier.py: a change is applied to the known configuration, the entries
  that differ are written to ConfigDB, and the services of the changed tables are validated.

  ConfigDB is reached through swsscommon's \<open>ConfigDBConnector\<close>, a package outside the repository.  It
  is the record \<open>config_store\<close>: \<open>cs_read\<close> is the printed content of the store and \<open>cs_set\<close> its
  \<open>set_entry\<close>, where \<open>None\<close> deletes.  The locale \<open>store_laws\<close> states the documented behaviour.
\<close>

record 'c config_store =
  cs_read :: "'c \<Rightarrow> json"
  cs_set :: "string \<Rightarrow> string \<Rightarrow> json option \<Rightarrow> 'c \<Rightarrow> 'c"

section \<open>\<open>prune_empty_table\<close> and the update of one table\<close>

definition prune_empty_table :: "json \<Rightarrow> json res" where
  "prune_empty_table data =
     (case data of
        JObj d \<Rightarrow> Inr (JObj (filter (\<lambda>p. truthy (snd p)) d))
      | _ \<Rightarrow> Inl AttributeError)"

text \<open>\<open>run_data != upd_data\<close>, where a missing entry is \<open>None\<close>.\<close>

definition opt_json :: "json option \<Rightarrow> json" where
  "opt_json x = (case x of None \<Rightarrow> JNull | Some v \<Rightarrow> v)"

definition entry_changed :: "json option \<Rightarrow> json option \<Rightarrow> bool" where
  "entry_changed run upd = (\<not> json_eq (opt_json run) (opt_json upd))"

text \<open>The keys of two tables, each once.\<close>

definition union_keys :: "json dict \<Rightarrow> json dict \<Rightarrow> string list" where
  "union_keys a b = dedup (dkeys a @ dkeys b)"

text \<open>The changed keys by table, in the order they are written.\<close>

type_synonym upd_keys = "(string \<times> string) list"

definition upd_entry ::
  "'c config_store \<Rightarrow> string \<Rightarrow> json dict \<Rightarrow> json dict \<Rightarrow> string \<Rightarrow> upd_keys \<times> 'c \<Rightarrow> upd_keys \<times> 'c"
where
  "upd_entry S tbl run_tbl upd_tbl key s =
     (let run = dget run_tbl key; upd = dget upd_tbl key in
      if entry_changed run upd
      then (fst s @ [(tbl, key)],
            cs_set S tbl key (if opt_json upd = JNull then None else upd) (snd s))
      else s)"

definition upd_data ::
  "'c config_store \<Rightarrow> string \<Rightarrow> json dict \<Rightarrow> json dict \<Rightarrow> upd_keys \<times> 'c \<Rightarrow> upd_keys \<times> 'c" where
  "upd_data S tbl run_tbl upd_tbl s = fold (upd_entry S tbl run_tbl upd_tbl) (union_keys run_tbl upd_tbl) s"

section \<open>Service validation\<close>

definition conf_lists :: "json \<Rightarrow> string \<Rightarrow> string \<Rightarrow> string list res" where
  "conf_lists conf name field =
     rbind (py_get_default conf name (JObj []))
       (\<lambda>entry. rbind (py_get_default entry field (JList []))
          (\<lambda>xs. rbind (py_iter xs)
             (map_res (\<lambda>x. case x of JStr s \<Rightarrow> Inr s | _ \<Rightarrow> Inl AttributeError))))"

fun run_commands :: "(string \<Rightarrow> json res) \<Rightarrow> string list \<Rightarrow> json res" where
  "run_commands invoke [] = Inr (JInt 0)"
| "run_commands invoke (cmd # cmds) =
     rbind (invoke cmd) (\<lambda>ret. if truthy ret then run_commands invoke cmds else Inr ret)"

text \<open>
  \<open>_services_validate\<close>.  \<open>conf\<close> is the parsed configuration of the updater; \<open>invoke\<close> runs a validate
  command, which is given the old and the new configuration and the changed keys.
\<close>

definition services_validate ::
  "json option \<Rightarrow> (string \<Rightarrow> json \<Rightarrow> json \<Rightarrow> upd_keys \<Rightarrow> json res) \<Rightarrow> json \<Rightarrow> json \<Rightarrow> upd_keys \<Rightarrow> json res"
where
  "services_validate conf invoke old upd keys =
     (let tables = (if keys = [] then [[]] else dedup (map fst keys)) in
      case conf of
        None \<Rightarrow> Inl TypeError
      | Some c \<Rightarrow>
          rbind (py_getitem c (TStr ''tables'')) (\<lambda>tbls.
          rbind (map_res (\<lambda>t. conf_lists tbls t ''services_to_validate'') tables) (\<lambda>svcs.
          rbind (py_getitem c (TStr ''services'')) (\<lambda>services.
          rbind (map_res (\<lambda>s. conf_lists services s ''validate_commands'') (dedup (concat svcs))) (\<lambda>cmds.
          run_commands (\<lambda>cmd. invoke cmd old upd keys) (dedup (concat cmds)))))))"

text \<open>\<open>if ret != 0\<close>: whether the failure of a service is reported.\<close>

definition failure_logged :: "json \<Rightarrow> bool" where
  "failure_logged ret = (\<not> json_eq ret (JInt 0))"

section \<open>\<open>ChangeApplier.apply\<close>\<close>

definition dict_of :: "json \<Rightarrow> json dict res" where
  "dict_of j = (case j of JObj d \<Rightarrow> Inr d | _ \<Rightarrow> Inl AttributeError)"

definition table_dict :: "json dict \<Rightarrow> string \<Rightarrow> json dict res" where
  "table_dict d tbl = dict_of (case dget d tbl of None \<Rightarrow> JObj [] | Some t \<Rightarrow> t)"

text \<open>The loop over the tables; the writes that happened before an exception stay.\<close>

fun upd_tables ::
  "'c config_store \<Rightarrow> json dict \<Rightarrow> json dict \<Rightarrow> string list \<Rightarrow> upd_keys \<times> 'c \<Rightarrow> unit res \<times> upd_keys \<times> 'c" where
  "upd_tables S run upd [] s = (Inr (), s)"
| "upd_tables S run upd (tbl # tbls) s =
     (case rbind (table_dict run tbl) (\<lambda>r. rbind (table_dict upd tbl) (\<lambda>u. Inr (r, u))) of
        Inl e \<Rightarrow> (Inl e, s)
      | Inr (r, u) \<Rightarrow> upd_tables S run upd tbls (upd_data S tbl r u s))"

text \<open>The result is the updated configuration, which the caller takes for the running one.\<close>

definition change_apply ::
  "'x ext_scheme \<Rightarrow> 'c config_store \<Rightarrow> json option \<Rightarrow> (string \<Rightarrow> json \<Rightarrow> json \<Rightarrow> upd_keys \<Rightarrow> json res)
     \<Rightarrow> json \<Rightarrow> change \<Rightarrow> 'c \<Rightarrow> json res \<times> 'c"
where
  "change_apply E S conf invoke current change c =
     (case rbind (rbind (patch_apply E change current) prune_empty_table) (\<lambda>upd.
           rbind (dict_of current) (\<lambda>run_d. rbind (dict_of upd) (\<lambda>upd_d. Inr (upd, run_d, upd_d)))) of
        Inl e \<Rightarrow> (Inl e, c)
      | Inr (upd, run_d, upd_d) \<Rightarrow>
          (case upd_tables S run_d upd_d (sort (union_keys run_d upd_d)) ([], c) of
             (Inl e, keys, c') \<Rightarrow> (Inl e, c')
           | (Inr _, keys, c') \<Rightarrow>
               (rbind (services_validate conf invoke current upd keys) (\<lambda>_. Inr upd), c')))"

definition backend_tables :: "string list" where
  "backend_tables = [''BUFFER_PG'', ''BUFFER_PROFILE'', ''FLEX_COUNTER_TABLE'']"

definition remove_backend_tables_from_config :: "json \<Rightarrow> json res" where
  "remove_backend_tables_from_config data =
     rbind (dict_of data) (\<lambda>d. Inr (JObj (foldr ddel backend_tables d)))"

section \<open>What applying a change does to the store\<close>

text \<open>The entry of a table, and the shape of what ConfigDB can hold.\<close>

definition entry :: "json \<Rightarrow> string \<Rightarrow> string \<Rightarrow> json option" where
  "entry j t k =
     (case j of
        JObj d \<Rightarrow> (case dget d t of Some (JObj e) \<Rightarrow> dget e k | _ \<Rightarrow> None)
      | _ \<Rightarrow> None)"

definition table_shaped :: "json \<Rightarrow> bool" where
  "table_shaped t \<longleftrightarrow> (\<exists>e. t = JObj e \<and> e \<noteq> [] \<and> (\<forall>k. dget e k \<noteq> Some JNull))"

definition config_shaped :: "json \<Rightarrow> bool" where
  "config_shaped j \<longleftrightarrow>
     wf_json j \<and> (\<exists>d. j = JObj d \<and> (\<forall>t v. dget d t = Some v \<longrightarrow> table_shaped v))"

lemma wf_entry: "wf_json j \<Longrightarrow> entry j t k = Some v \<Longrightarrow> wf_json v"
  by (auto simp: entry_def simp del: wf_json.simps split: json.splits option.splits dest!: wf_json_dget)

text \<open>
  The documented behaviour of the store: \<open>set_entry\<close> changes the one entry it names, and a table without
  entries does not show up.  What is read back of an entry \<open>v\<close> is \<open>stored v\<close>, which need not be \<open>v\<close>:
  \<open>remove_empty_leaf_lists\<close> documents that an empty list comes back as a list with one empty string.
  Entries equal for Python are stored alike.
\<close>

locale store_forms =
  fixes S :: "'c config_store" and takes :: "json \<Rightarrow> bool" and stored :: "json \<Rightarrow> json"
  assumes read_set: "(\<And>v. x = Some v \<Longrightarrow> takes v) \<Longrightarrow>
      entry (cs_read S (cs_set S t k x c)) t' k' =
        (if t' = t \<and> k' = k then map_option stored x else entry (cs_read S c) t' k')"
    and set_shaped: "(\<And>v. x = Some v \<Longrightarrow> takes v) \<Longrightarrow> config_shaped (cs_read S c) \<Longrightarrow>
      config_shaped (cs_read S (cs_set S t k x c))"
    and stored_null: "stored JNull = JNull"
    and stored_eq: "json_eq a b \<Longrightarrow> json_eq (stored a) (stored b)"
    and stored_wf: "takes v \<Longrightarrow> wf_json (stored v)"
begin

text \<open>
  \<open>_upd_data\<close> brings the entries of one table from the running to the updated values: entries equal
  for Python's \<open>!=\<close> are left as they are.
\<close>

lemma fold_writes:
  assumes "\<And>k v. dget upd_tbl k = Some v \<Longrightarrow> takes v \<and> v \<noteq> JNull" and "distinct ks"
  shows "entry (cs_read S (snd (fold (upd_entry S tbl run_tbl upd_tbl) ks s))) t k =
     (if t = tbl \<and> k \<in> set ks \<and> entry_changed (dget run_tbl k) (dget upd_tbl k)
      then map_option stored (dget upd_tbl k) else entry (cs_read S (snd s)) t k)"
  using assms(2)
proof (induction ks arbitrary: s)
  case (Cons k0 ks)
  let ?x = "if opt_json (dget upd_tbl k0) = JNull then None else dget upd_tbl k0"
  have x: "?x = dget upd_tbl k0" using assms(1) [of k0] by (auto simp: opt_json_def split: option.splits)
  have set: "entry (cs_read S (cs_set S tbl k0 (dget upd_tbl k0) c)) t k =
      (if t = tbl \<and> k = k0 then map_option stored (dget upd_tbl k0) else entry (cs_read S c) t k)" for c
    using assms(1) by (intro read_set) auto
  have "entry (cs_read S (snd (upd_entry S tbl run_tbl upd_tbl k0 s))) t k =
      (if t = tbl \<and> k = k0 \<and> entry_changed (dget run_tbl k0) (dget upd_tbl k0)
       then map_option stored (dget upd_tbl k0) else entry (cs_read S (snd s)) t k)"
    using set [of "snd s"] by (cases "t = tbl \<and> k = k0") (auto simp: upd_entry_def Let_def x)
  with Cons show ?case by auto
qed simp

lemma union_keys_changed:
  "entry_changed (dget a k) (dget b k) \<Longrightarrow> k \<in> set (union_keys a b)"
  using dget_None_iff [of a k] dget_None_iff [of b k]
  by (cases "dget a k"; cases "dget b k") (auto simp: entry_changed_def opt_json_def union_keys_def)

lemma upd_data_entry:
  assumes "\<And>k v. dget upd_tbl k = Some v \<Longrightarrow> takes v \<and> v \<noteq> JNull"
  shows "entry (cs_read S (snd (upd_data S tbl run_tbl upd_tbl s))) t k =
     (if t = tbl \<and> entry_changed (dget run_tbl k) (dget upd_tbl k)
      then map_option stored (dget upd_tbl k) else entry (cs_read S (snd s)) t k)"
proof -
  have "distinct (union_keys run_tbl upd_tbl)" by (simp add: union_keys_def)
  with union_keys_changed [of run_tbl k upd_tbl] show ?thesis
    unfolding upd_data_def by (auto simp: fold_writes [OF assms])
qed

text \<open>
  The tables one after the other: an entry that changed between the two configurations has its new
  value, every other entry the value it had.
\<close>

definition table_entry :: "json dict \<Rightarrow> string \<Rightarrow> string \<Rightarrow> json option" where
  "table_entry d t k = entry (JObj d) t k"

lemma table_dict_entry: "table_dict d t = Inr e \<Longrightarrow> dget e k = table_entry d t k"
  by (auto simp: table_dict_def dict_of_def table_entry_def entry_def split: option.splits json.splits)

lemma upd_tables_entry:
  assumes "\<And>t k v. table_entry upd t k = Some v \<Longrightarrow> takes v \<and> v \<noteq> JNull"
  shows "upd_tables S run upd tbls s = (Inr (), s') \<Longrightarrow> distinct tbls \<Longrightarrow>
     entry (cs_read S (snd s')) t k =
       (if t \<in> set tbls \<and> entry_changed (table_entry run t k) (table_entry upd t k)
        then map_option stored (table_entry upd t k) else entry (cs_read S (snd s)) t k)"
proof (induction tbls arbitrary: s)
  case (Cons tbl tbls)
  from Cons.prems(1) obtain r u where ru: "table_dict run tbl = Inr r" "table_dict upd tbl = Inr u"
    "upd_tables S run upd tbls (upd_data S tbl r u s) = (Inr (), s')"
    by (auto simp: res_simps split: sum.splits)
  have st: "takes v \<and> v \<noteq> JNull" if "dget u k = Some v" for k v
    using that assms table_dict_entry [OF ru(2)] by metis
  have "entry (cs_read S (snd (upd_data S tbl r u s))) t k =
     (if t = tbl \<and> entry_changed (dget r k) (dget u k)
      then map_option stored (dget u k) else entry (cs_read S (snd s)) t k)"
    by (rule upd_data_entry) (rule st)
  then have "entry (cs_read S (snd (upd_data S tbl r u s))) t k =
     (if t = tbl \<and> entry_changed (table_entry run tbl k) (table_entry upd tbl k)
      then map_option stored (table_entry upd tbl k) else entry (cs_read S (snd s)) t k)"
    using table_dict_entry [OF ru(1)] table_dict_entry [OF ru(2)] by simp
  with Cons.IH [OF ru(3)] Cons.prems(2) show ?case by auto
qed simp

text \<open>
  \<open>tracks cur c\<close>: the store holds, entry by entry, the stored form of what the configuration \<open>cur\<close>
  says.  Applying a change keeps it.
\<close>

definition tracks :: "json \<Rightarrow> 'c \<Rightarrow> bool" where
  "tracks cur c \<longleftrightarrow>
     (\<forall>t k. json_eq (opt_json (entry (cs_read S c) t k)) (stored (opt_json (entry cur t k))))"

lemma opt_stored: "opt_json (map_option stored x) = stored (opt_json x)"
  by (cases x) (simp_all add: opt_json_def stored_null)

definition writable :: "json \<Rightarrow> bool" where
  "writable j \<longleftrightarrow> wf_json j \<and> (\<forall>t k v. entry j t k = Some v \<longrightarrow> takes v \<and> v \<noteq> JNull)"

lemma upd_data_shaped:
  assumes "\<And>k v. dget upd_tbl k = Some v \<Longrightarrow> takes v \<and> v \<noteq> JNull"
    and "config_shaped (cs_read S (snd s))"
  shows "config_shaped (cs_read S (snd (upd_data S tbl run_tbl upd_tbl s)))"
proof -
  have "config_shaped (cs_read S (snd (fold (upd_entry S tbl run_tbl upd_tbl) ks s)))" for ks
    using assms(2)
  proof (induction ks arbitrary: s)
    case (Cons k ks)
    have "config_shaped (cs_read S (snd (upd_entry S tbl run_tbl upd_tbl k s)))"
      using Cons.prems assms(1) [of k] by (auto simp: upd_entry_def Let_def intro!: set_shaped)
    then show ?case by (simp add: Cons.IH)
  qed simp
  then show ?thesis by (simp add: upd_data_def)
qed

lemma upd_tables_shaped:
  assumes "\<And>t k v. table_entry upd t k = Some v \<Longrightarrow> takes v \<and> v \<noteq> JNull"
  shows "config_shaped (cs_read S (snd s)) \<Longrightarrow>
     config_shaped (cs_read S (snd (snd (upd_tables S run upd tbls s))))"
proof (induction tbls arbitrary: s)
  case (Cons tbl tbls)
  have "config_shaped (cs_read S (snd (upd_data S tbl r u s)))" if u: "table_dict upd tbl = Inr u" for r u
    using assms table_dict_entry [OF u] Cons.prems by (intro upd_data_shaped) auto
  with Cons show ?case by (auto simp: res_simps split: sum.splits)
qed simp

lemma change_apply_shaped:
  assumes "change_apply E S conf invoke cur change c = (Inr upd, c')"
    and "writable upd" and "config_shaped (cs_read S c)"
  shows "config_shaped (cs_read S c')"
proof -
  obtain run_d upd_d keys where d: "upd = JObj upd_d"
    "upd_tables S run_d upd_d (sort (union_keys run_d upd_d)) ([], c) = (Inr (), keys, c')"
    using assms(1)
    by (auto simp: change_apply_def dict_of_def res_simps split: sum.splits prod.splits json.splits)
  have w: "takes v \<and> v \<noteq> JNull" if "table_entry upd_d t k = Some v" for t k v
    using that assms(2) d(1) by (auto simp: writable_def table_entry_def)
  have "config_shaped (cs_read S (snd (snd (upd_tables S run_d upd_d (sort (union_keys run_d upd_d)) ([], c)))))"
    by (rule upd_tables_shaped) (use w assms(3) in simp_all)
  with d(2) show ?thesis by simp
qed

lemma change_apply_tracks:
  assumes "change_apply E S conf invoke cur change c = (Inr upd, c')" and "tracks cur c"
    and "writable upd"
  shows "tracks upd c'"
proof -
  obtain run_d upd_d keys where d: "cur = JObj run_d" "upd = JObj upd_d"
    "upd_tables S run_d upd_d (sort (union_keys run_d upd_d)) ([], c) = (Inr (), keys, c')"
    using assms(1)
    by (auto simp: change_apply_def dict_of_def res_simps split: sum.splits prod.splits json.splits)
  have w: "takes v \<and> v \<noteq> JNull" if "table_entry upd_d t k = Some v" for t k v
    using that assms(3) d(2) by (auto simp: writable_def table_entry_def)
  have "distinct (sort (union_keys run_d upd_d))" by (simp add: union_keys_def)
  from upd_tables_entry [OF w d(3) this]
  have e: "entry (cs_read S c') t k =
      (if t \<in> set (union_keys run_d upd_d) \<and> entry_changed (table_entry run_d t k) (table_entry upd_d t k)
       then map_option stored (table_entry upd_d t k) else entry (cs_read S c) t k)" for t k
    by simp
  have none: "table_entry run_d t k = None \<and> table_entry upd_d t k = None"
    if "t \<notin> set (union_keys run_d upd_d)" for t k
    using that dget_None_iff [of run_d t] dget_None_iff [of upd_d t]
    by (auto simp: union_keys_def table_entry_def entry_def)
  have "json_eq (opt_json (entry (cs_read S c') t k)) (stored (opt_json (entry upd t k)))" for t k
  proof (cases "entry_changed (table_entry run_d t k) (table_entry upd_d t k)")
    case True
    then have "t \<in> set (union_keys run_d upd_d)"
      using none by (fastforce simp: entry_changed_def opt_json_def)
    with True e d(2) have x: "entry (cs_read S c') t k = map_option stored (entry upd t k)"
      by (simp add: table_entry_def)
    have "wf_json (stored (opt_json (entry upd t k)))"
      using w [of t k] d(2) stored_wf
      by (cases "entry upd t k") (auto simp: opt_json_def stored_null table_entry_def)
    with x show ?thesis by (simp add: opt_stored json_eq_refl)
  next
    case False
    with e have "entry (cs_read S c') t k = entry (cs_read S c) t k" by simp
    moreover have "json_eq (stored (opt_json (entry cur t k))) (stored (opt_json (entry upd t k)))"
      using False d(1,2) by (intro stored_eq) (simp add: entry_changed_def table_entry_def)
    ultimately show ?thesis using assms(2) by (auto simp: tracks_def intro: json_eq_trans)
  qed
  then show ?thesis by (simp add: tracks_def)
qed

end

text \<open>A store that gives back every entry it can store as it was set.\<close>

locale store_laws =
  fixes S :: "'c config_store" and storable :: "json \<Rightarrow> bool"
  assumes read_set: "(\<And>v. x = Some v \<Longrightarrow> storable v) \<Longrightarrow>
      entry (cs_read S (cs_set S t k x c)) t' k' =
        (if t' = t \<and> k' = k then x else entry (cs_read S c) t' k')"
    and set_shaped: "(\<And>v. x = Some v \<Longrightarrow> storable v) \<Longrightarrow> config_shaped (cs_read S c) \<Longrightarrow>
      config_shaped (cs_read S (cs_set S t k x c))"

lemma store_laws_forms:
  assumes "store_laws S storable"
  shows "store_forms S (\<lambda>v. storable v \<and> wf_json v) (\<lambda>v. v)"
  using store_laws.read_set [OF assms] store_laws.set_shaped [OF assms]
  by unfold_locales (simp_all add: option.map_ident)

text \<open>A store that keeps the document itself.\<close>

definition doc_set :: "string \<Rightarrow> string \<Rightarrow> json option \<Rightarrow> json \<Rightarrow> json" where
  "doc_set t k x c =
     (case c of
        JObj d \<Rightarrow>
          (let e = (case dget d t of Some (JObj e) \<Rightarrow> e | _ \<Rightarrow> []);
               e' = (case x of None \<Rightarrow> ddel k e | Some v \<Rightarrow> dset k v e)
           in JObj (if e' = [] then ddel t d else dset t (JObj e') d))
      | _ \<Rightarrow> c)"

definition doc_store :: "json dict config_store" where
  "doc_store = \<lparr>cs_read = JObj,
     cs_set = (\<lambda>t k x d. case doc_set t k x (JObj d) of JObj d' \<Rightarrow> d' | _ \<Rightarrow> d)\<rparr>"

lemma entry_doc_set:
  "entry (doc_set t k x (JObj d)) t' k' = (if t' = t \<and> k' = k then x else entry (JObj d) t' k')"
proof -
  define e where "e = (case dget d t of Some (JObj e) \<Rightarrow> e | _ \<Rightarrow> [])"
  define e' where "e' = (case x of None \<Rightarrow> ddel k e | Some v \<Rightarrow> dset k v e)"
  have get: "dget e' k' = (if k' = k then x else dget e k')"
    by (auto simp: e'_def split: option.splits)
  have e: "entry (JObj d) t k' = dget e k'"
    by (auto simp: entry_def e_def split: option.splits json.splits)
  have "doc_set t k x (JObj d) = JObj (if e' = [] then ddel t d else dset t (JObj e') d)"
    by (simp add: doc_set_def e_def [symmetric] e'_def [symmetric] Let_def)
  then show ?thesis
    using get e by (cases "e' = []") (auto simp: entry_def)
qed

lemma is_obj_doc_set: "\<exists>d'. doc_set t k x (JObj d) = JObj d'"
  by (simp add: doc_set_def Let_def)

lemma doc_set_shaped:
  assumes "config_shaped (JObj d)" and "\<And>v. x = Some v \<Longrightarrow> wf_json v \<and> v \<noteq> JNull"
  shows "config_shaped (doc_set t k x (JObj d))"
proof -
  define e where "e = (case dget d t of Some (JObj e) \<Rightarrow> e | _ \<Rightarrow> [])"
  define e' where "e' = (case x of None \<Rightarrow> ddel k e | Some v \<Rightarrow> dset k v e)"
  have wf: "wf_json (JObj d)" and sh: "\<And>t v. dget d t = Some v \<Longrightarrow> table_shaped v"
    using assms(1) by (auto simp: config_shaped_def simp del: wf_json.simps)
  have e: "wf_json (JObj e)" "\<forall>k. dget e k \<noteq> Some JNull"
    using wf_json_dget [OF wf, of t] sh [of t]
    by (auto simp: e_def table_shaped_def split: option.splits json.splits)
  have e': "wf_json (JObj e')" "\<forall>k. dget e' k \<noteq> Some JNull"
    using wf_json_ddel [OF e(1)] wf_json_dset [OF e(1)] e(2) assms(2)
    by (auto simp: e'_def simp del: wf_json.simps split: option.splits)
  have eq: "doc_set t k x (JObj d) = JObj (if e' = [] then ddel t d else dset t (JObj e') d)"
    by (simp add: doc_set_def e_def [symmetric] e'_def [symmetric] Let_def)
  show ?thesis
  proof (cases "e' = []")
    case True
    with eq wf_json_ddel [OF wf] sh show ?thesis
      by (auto simp: config_shaped_def simp del: wf_json.simps)
  next
    case False
    have "table_shaped (JObj e')" using False e'(2) by (auto simp: table_shaped_def)
    with False eq wf_json_dset [OF wf e'(1)] sh show ?thesis
      by (auto simp: config_shaped_def simp del: wf_json.simps split: if_splits)
  qed
qed

interpretation doc: store_laws doc_store "\<lambda>v. wf_json v \<and> v \<noteq> JNull"
proof unfold_locales
  fix x t k c t' k'
  obtain d' where d': "doc_set t k x (JObj c) = JObj d'" using is_obj_doc_set by blast
  with entry_doc_set [of t k x c t' k'] show "entry (cs_read doc_store (cs_set doc_store t k x c)) t' k' =
      (if t' = t \<and> k' = k then x else entry (cs_read doc_store c) t' k')"
    by (simp add: doc_store_def)
next
  fix x t k c
  assume x: "\<And>v. x = Some v \<Longrightarrow> wf_json v \<and> v \<noteq> JNull" and c: "config_shaped (cs_read doc_store c)"
  obtain d' where d': "doc_set t k x (JObj c) = JObj d'" using is_obj_doc_set by blast
  have "config_shaped (doc_set t k x (JObj c))"
    using x c by (intro doc_set_shaped) (auto simp: doc_store_def)
  with d' show "config_shaped (cs_read doc_store (cs_set doc_store t k x c))"
    by (simp add: doc_store_def)
qed

text \<open>
  The store the docstring of \<open>remove_empty_leaf_lists\<close> describes: \<open>set_entry\<close> takes any dictionary of
  fields and writes an empty list as the empty string, which is read back as a list with that string.
\<close>

definition config_entry :: "json \<Rightarrow> bool" where
  "config_entry v = (wf_json v \<and> is_obj v)"

definition blank_list :: "json \<Rightarrow> json" where
  "blank_list v = (if v = JList [] then JList [JStr []] else v)"

definition blank_lists :: "json \<Rightarrow> json" where
  "blank_lists v = map_values blank_list v"

definition leaf_store :: "json dict config_store" where
  "leaf_store = \<lparr>cs_read = JObj, cs_set = (\<lambda>t k x. cs_set doc_store t k (map_option blank_lists x))\<rparr>"

lemma blank_lists_eq: "json_eq a b \<Longrightarrow> json_eq (blank_lists a) (blank_lists b)"
proof (cases a)
  case (JObj xs)
  assume eq: "json_eq a b"
  with JObj obtain ys where b: "b = JObj ys" by (cases b) auto
  have "json_eq (blank_list v) (blank_list w)" if "json_eq v w" for v w
    using that by (cases v; cases w) (auto simp: blank_list_def)
  with eq JObj b show ?thesis
    by (auto simp: blank_lists_def map_values_def list_all_iff dget_map_values split: option.splits)
qed (cases b; auto simp: blank_lists_def map_values_def)+

lemma blank_lists_wf: "config_entry v \<Longrightarrow> config_entry (blank_lists v)"
proof (cases v)
  case (JObj d)
  assume v: "config_entry v"
  have "dkeys (map (\<lambda>p. (fst p, blank_list (snd p))) d) = dkeys d" by (simp add: dkeys_def comp_def)
  moreover have "wf_json w \<Longrightarrow> wf_json (blank_list w)" for w by (simp add: blank_list_def)
  ultimately show ?thesis
    using v JObj by (auto simp: config_entry_def blank_lists_def map_values_def list_all_iff)
qed (auto simp: config_entry_def)

interpretation leaf: store_forms leaf_store config_entry blank_lists
proof unfold_locales
  show "blank_lists JNull = JNull" by (simp add: blank_lists_def map_values_def)
  show "json_eq (blank_lists a) (blank_lists b)" if "json_eq a b" for a b
    using that by (rule blank_lists_eq)
  show "wf_json (blank_lists v)" if "config_entry v" for v
    using blank_lists_wf [OF that] by (simp add: config_entry_def)
next
  fix x t k c t' k'
  assume x: "\<And>v. x = Some v \<Longrightarrow> config_entry v"
  have ok: "v \<noteq> JNull \<and> wf_json v" if v: "map_option blank_lists x = Some v" for v
  proof -
    obtain u where "x = Some u" "v = blank_lists u" using v by auto
    with x blank_lists_wf have "config_entry v" by blast
    then show ?thesis by (auto simp: config_entry_def)
  qed
  show "entry (cs_read leaf_store (cs_set leaf_store t k x c)) t' k' =
      (if t' = t \<and> k' = k then map_option blank_lists x else entry (cs_read leaf_store c) t' k')"
    using doc.read_set [of "map_option blank_lists x" t k c t' k'] ok
    by (simp add: leaf_store_def doc_store_def)
  show "config_shaped (cs_read leaf_store (cs_set leaf_store t k x c))"
    if "config_shaped (cs_read leaf_store c)"
    using doc.set_shaped [of "map_option blank_lists x" c t k] ok that
    by (simp add: leaf_store_def doc_store_def)
qed

end
