(* ===== verification/PatchSortFacts.thy ===== *)
theory PatchSortFacts
  imports PatchSort
begin

text \<open>
  What the patch sorters guarantee: every sorted patch is a chain of valid configurations from the
  current one to the target, merging keeps both of its arguments, and splitting a configuration
  loses nothing.
\<close>

section \<open>Sorted patches\<close>

text \<open>
  The memoizing sorter needs that moves found for a diff can be replayed on diffs with the same hash; the
  other two need nothing of the hash.
\<close>

definition sorter_ok :: "algorithm \<Rightarrow> ('d, 'm) sort_env \<Rightarrow> 'd \<Rightarrow> bool" where
  "sorter_ok a S d \<longleftrightarrow> (a = MEMOIZATION \<longrightarrow> replayable_hashes S d)"

lemma create_sorter_sound:
  assumes "sorter_ok a S d" and "create_sorter a S n d = Inr (Some ms)"
  shows "\<exists>d'. replay S {x. reachable S d x} d ms d' \<and> se_done S d'"
  using assms dfs.sound [where S = S and d = d] bfs.sound [where S = S and d = d]
    memoized.sound [where S = S and d = d]
  by (cases a) (auto simp: sorter_ok_def create_sorter_def)

definition sort_current :: "json option \<Rightarrow> json \<Rightarrow> json" where
  "sort_current preloaded running =
     (case preloaded of Some c \<Rightarrow> if truthy c then c else running | None \<Rightarrow> running)"

lemma patch_sort_chain:
  assumes "patch_sort E h n running patch alg preloaded = Inr changes"
    and "json_ext E" and "rejects_null E"
    and "simulate_config_db_patch E patch (sort_current preloaded running) = Inr target"
    and "sorter_ok alg (factory_env E h n)
           \<lparr>current_config = sort_current preloaded running, target_config = target\<rparr>"
  shows "\<exists>cs. apply_changes E changes (sort_current preloaded running) = Inr cs \<and>
           json_eq (last (sort_current preloaded running # cs)) target \<and>
           (\<forall>c \<in> set cs. \<exists>msg. validate_config E c = Inr (True, msg))"
proof -
  let ?d = "\<lparr>current_config = sort_current preloaded running, target_config = target\<rparr>"
  from assms(1,4) obtain ms where ms: "create_sorter alg (factory_env E h n) n ?d = Inr (Some ms)"
    "changes = map get_jsonpatch ms"
    by (auto simp: patch_sort_def sort_current_def [symmetric] Let_def res_simps split: option.splits)
  obtain d' where d': "replay (factory_env E h n) {x. reachable (factory_env E h n) ?d x} ?d ms d'" "se_done (factory_env E h n) d'"
    using create_sorter_sound [OF assms(5) ms(1)] by blast
  then have "json_eq (current_config d') (target_config d')"
    by (simp add: factory_env_def wrapper_env_def has_no_diff_def)
  with replay_chain [OF d'(1) assms(2,3)] ms(2) show ?thesis by auto
qed

lemma strict_sort_patch_sort:
  "strict_sort E Y h n running patch alg = Inr changes \<Longrightarrow>
     patch_sort E h n running patch alg None = Inr changes \<and>
     validate_config_db_patch_has_yang_models E Y patch = Inr True \<and>
     (\<exists>target msg. simulate_config_db_patch E patch running = Inr target \<and>
        validate_config E target = Inr (True, msg))"
  by (auto simp: strict_sort_def res_simps split: if_splits)

section \<open>Merging\<close>

declare recursive_append.simps(1) [simp del]

lemma append_entries_other:
  "append_entries d es path = Inr d' \<Longrightarrow> k \<notin> set (dkeys es) \<Longrightarrow> dget d' k = dget d k"
proof (induction es arbitrary: d)
  case (Cons p es)
  obtain k0 v0 where p: "p = (k0, v0)" by force
  with Cons show ?case by (auto simp: res_simps split: option.splits)
qed simp

text \<open>
  The merge of two configurations looks up as the first one where only it has a value, as the second
  where only it has one, and merges where both hold dictionaries.
\<close>

lemma append_entries_get:
  "append_entries d es path = Inr d' \<Longrightarrow> distinct (dkeys es) \<Longrightarrow> dget es k = Some v \<Longrightarrow>
     (case dget d k of
        None \<Rightarrow> dget d' k = Some v
      | Some w \<Rightarrow> (\<exists>w' q. recursive_append w v q = Inr w' \<and> dget d' k = Some w'))"
proof (induction es arbitrary: d)
  case (Cons p es)
  obtain k0 v0 where p: "p = (k0, v0)" by force
  show ?case
  proof (cases "k = k0")
    case True
    have k: "k \<notin> set (dkeys es)" using Cons.prems(2) p True by simp
    show ?thesis
    proof (cases "dget d k")
      case None
      with Cons.prems(1,3) p True have "append_entries (dset k v d) es path = Inr d'" by simp
      with append_entries_other [OF _ k] None show ?thesis by auto
    next
      case (Some w)
      with Cons.prems(1,3) p True obtain w' where
        "recursive_append w v (path @ ''/'' @ k) = Inr w'" "append_entries (dset k w' d) es path = Inr d'"
        by (auto simp: res_simps)
      with append_entries_other [OF _ k] Some show ?thesis by auto
    qed
  next
    case False
    from Cons.prems(1) p obtain d1 where d1: "append_entries d1 es path = Inr d'" "dget d1 k = dget d k"
      using False by (auto simp: res_simps split: option.splits)
    have "distinct (dkeys es)" "dget es k = Some v" using Cons.prems(2,3) p False by auto
    from Cons.IH [OF d1(1) this] d1(2) show ?thesis by simp
  qed
qed simp

lemma recursive_append_obj:
  "recursive_append w v q = Inr r \<Longrightarrow> \<exists>d. w = JObj d \<and>
     (r = w \<and> (v = JStr [] \<or> v = JList []) \<or>
      (\<exists>es d'. v = JObj es \<and> append_entries d es q = Inr d' \<and> r = JObj d'))"
  by (cases w; cases v) (auto simp: recursive_append.simps(1) res_simps split: if_splits)

text \<open>A value of the first configuration that is not a dictionary survives the merge.\<close>

lemma merge_keeps_left:
  "recursive_append a b q = Inr r \<Longrightarrow> wf_json b \<Longrightarrow> ks \<noteq> [] \<Longrightarrow>
     py_path a (map TStr ks) = Inr v \<Longrightarrow> \<not> is_obj v \<Longrightarrow> py_path r (map TStr ks) = Inr v"
proof (induction ks arbitrary: a b q r)
  case (Cons k ks)
  obtain d where d: "a = JObj d" using recursive_append_obj [OF Cons.prems(1)] by auto
  from Cons.prems(4) d obtain u where u: "dget d k = Some u" "py_path u (map TStr ks) = Inr v"
    using py_path_obj_cases [OF Cons.prems(4)] by auto
  from recursive_append_obj [OF Cons.prems(1)] d consider "r = a"
    | es d' where "b = JObj es" "append_entries d es q = Inr d'" "r = JObj d'"
    by auto
  then show ?case
  proof cases
    case 2
    have dist: "distinct (dkeys es)" using Cons.prems(2) 2(1) by simp
    show ?thesis
    proof (cases "dget es k")
      case None
      then have "dget d' k = Some u" using append_entries_other [OF 2(2)] u(1) by (simp add: dget_None_iff)
      with u(2) 2(3) show ?thesis by simp
    next
      case (Some w)
      obtain w' q' where w': "recursive_append u w q' = Inr w'" "dget d' k = Some w'"
        using append_entries_get [OF 2(2) dist Some] u(1) by auto
      have "wf_json w" using Cons.prems(2) 2(1) Some wf_json_dget by blast
      moreover have "ks \<noteq> []" using recursive_append_obj [OF w'(1)] u(2) Cons.prems(5) by auto
      ultimately have "py_path w' (map TStr ks) = Inr v" using Cons.IH w'(1) u(2) Cons.prems(5) by blast
      with w'(2) 2(3) show ?thesis by simp
    qed
  qed (use Cons.prems in simp)
qed simp

text \<open>A value of the second configuration that is not a dictionary is found in the merge.\<close>

lemma merge_has_right:
  "recursive_append a b q = Inr r \<Longrightarrow> wf_json b \<Longrightarrow> ks \<noteq> [] \<Longrightarrow>
     py_path b (map TStr ks) = Inr v \<Longrightarrow> truthy v \<Longrightarrow> \<not> is_obj v \<Longrightarrow> py_path r (map TStr ks) = Inr v"
proof (induction ks arbitrary: a b q r)
  case (Cons k ks)
  obtain es where es: "b = JObj es" using py_path_obj_cases [OF Cons.prems(4)] by auto
  obtain u where u: "dget es k = Some u" "py_path u (map TStr ks) = Inr v"
    using py_path_obj_cases [OF Cons.prems(4)] es by auto
  obtain d d' where d: "a = JObj d" "append_entries d es q = Inr d'" "r = JObj d'"
    using recursive_append_obj [OF Cons.prems(1)] es by auto
  have dist: "distinct (dkeys es)" using Cons.prems(2) es by simp
  show ?case
  proof (cases "dget d k")
    case None
    then have "dget d' k = Some u" using append_entries_get [OF d(2) dist u(1)] by simp
    with u(2) d(3) show ?thesis by simp
  next
    case (Some w)
    obtain w' q' where w': "recursive_append w u q' = Inr w'" "dget d' k = Some w'"
      using append_entries_get [OF d(2) dist u(1)] Some by auto
    have "wf_json u" using Cons.prems(2) es u(1) wf_json_dget by blast
    moreover have "ks \<noteq> []"
      using recursive_append_obj [OF w'(1)] u(2) Cons.prems(5,6) by auto
    ultimately have "py_path w' (map TStr ks) = Inr v" using Cons.IH w'(1) u(2) Cons.prems(5,6) by blast
    with w'(2) d(3) show ?thesis by simp
  qed
qed simp

section \<open>Splitting by tables\<close>

text \<open>What \<open>_cropConfigDB\<close> documents: the tables without a model are dropped, the others kept.\<close>

definition crops_by :: "yang_lib \<Rightarrow> (string \<Rightarrow> bool) \<Rightarrow> bool" where
  "crops_by Y has_model \<longleftrightarrow> (\<forall>d. crop_tables Y (JObj d) = JObj (filter (\<lambda>p. has_model (fst p)) d))"

lemma dget_filter_fst: "dget (filter (\<lambda>p. P (fst p)) d) k = (if P k then dget d k else None)"
  by (induction d) auto

lemma split_rest:
  assumes "distinct (dkeys d)" and "set (dkeys e) \<inter> set (dkeys acc) = {}" and "distinct (dkeys e)"
    and "\<forall>k v. (k, v) \<in> set e \<longrightarrow> dget d k = Some v"
  shows "fold_res (\<lambda>k acc. rbind (py_in (TStr k) (JObj (filter (\<lambda>p. P (fst p)) d)))
            (\<lambda>b. if b then Inr acc
                 else rbind (py_getitem (JObj d) (TStr k)) (\<lambda>v. Inr (dset k v acc)))) (dkeys e) acc =
         Inr (acc @ filter (\<lambda>p. \<not> P (fst p)) e)"
  using assms(2-)
proof (induction e arbitrary: acc)
  case (Cons p e)
  obtain k v where p: "p = (k, v)" by force
  have g: "dget d k = Some v" using Cons.prems(3) p by auto
  have snoc: "k \<notin> set (dkeys acc) \<Longrightarrow> dset k v acc = acc @ [(k, v)]" for acc :: "json dict"
    by (induction acc) auto
  from Cons.prems p have k: "k \<notin> set (dkeys acc)" "k \<notin> set (dkeys e)" by auto
  show ?case
  proof (cases "P k")
    case True
    with Cons g p show ?thesis by (simp add: dhas_def dget_filter_fst)
  next
    case False
    have "set (dkeys e) \<inter> set (dkeys (acc @ [(k, v)])) = {}"
      using Cons.prems(1) p k(2) by (auto simp: dkeys_def)
    with Cons.IH [of "acc @ [(k, v)]"] Cons.prems False g p snoc [OF k(1)]
    show ?thesis by (simp add: dhas_def dget_filter_fst)
  qed
qed simp

lemma tables_split:
  assumes "crops_by Y P" and "distinct (dkeys d)"
  shows "tables_without_yang_split Y (JObj d) =
           Inr (JObj (filter (\<lambda>p. P (fst p)) d), JObj (filter (\<lambda>p. \<not> P (fst p)) d))"
  using split_rest [OF assms(2), of d "[]" P] assms
  by (simp add: tables_without_yang_split_def crops_by_def dget_Some_iff Let_def)

lemma append_entries_disjoint:
  "distinct (dkeys es) \<Longrightarrow> set (dkeys d) \<inter> set (dkeys es) = {} \<Longrightarrow>
     append_entries d es path = Inr (d @ es)"
proof (induction es arbitrary: d)
  case (Cons p es)
  obtain k v where p: "p = (k, v)" by force
  have snoc: "k \<notin> set (dkeys d) \<Longrightarrow> dset k v d = d @ [(k, v)]" for d :: "json dict"
    by (induction d) auto
  have k: "k \<notin> set (dkeys d)" using Cons.prems p by auto
  then have "dget d k = None" by (simp add: dget_None_iff)
  moreover have "set (dkeys (d @ [(k, v)])) \<inter> set (dkeys es) = {}"
    using Cons.prems p by (auto simp: dkeys_def)
  ultimately show ?case using Cons p snoc [OF k] by simp
qed simp

lemma json_eq_partition:
  assumes "wf_json (JObj d)"
  shows "json_eq (JObj (filter (\<lambda>p. P (fst p)) d @ filter (\<lambda>p. \<not> P (fst p)) d)) (JObj d)"
proof -
  have len: "length (filter (\<lambda>p. P (fst p)) d) + length (filter (\<lambda>p. \<not> P (fst p)) d) = length d"
    by (rule sum_length_filter_compl)
  have "case dget d (fst p) of None \<Rightarrow> False | Some w \<Rightarrow> json_eq (snd p) w" if "p \<in> set d" for p
  proof -
    have "dget d (fst p) = Some (snd p)" using that assms by (simp add: dget_Some_iff)
    moreover from this assms have "json_eq (snd p) (snd p)" by (blast dest: wf_json_dget json_eq_refl)
    ultimately show ?thesis by simp
  qed
  with len show ?thesis by (auto simp: list_all_iff)
qed

lemma split_merge:
  assumes "crops_by Y P" and "wf_json (JObj d)"
    and "tables_without_yang_split Y (JObj d) = Inr (a, b)"
  shows "\<exists>m. merge_configs a b = Inr m \<and> json_eq m (JObj d)"
proof -
  let ?a = "filter (\<lambda>p. P (fst p)) d" and ?b = "filter (\<lambda>p. \<not> P (fst p)) d"
  have dist: "distinct (dkeys d)" using assms(2) by simp
  have "a = JObj ?a" "b = JObj ?b" using tables_split [OF assms(1) dist] assms(3) by auto
  moreover have "append_entries ?a ?b [] = Inr (?a @ ?b)"
    using dist by (intro append_entries_disjoint) (auto simp: dkeys_def distinct_map_filter)
  ultimately show ?thesis
    using json_eq_partition [OF assms(2), of P] by (simp add: merge_configs_def recursive_append.simps(1) del: json_eq.simps)
qed

end
