(* ===== verification/Updater.thy ===== *)
theory Updater
  imports ChangeApply PatchSortFacts
begin

text \<open>
  generic_updater.py: the scope of a path, \<open>PatchApplier\<close>, \<open>ConfigReplacer\<close>, the checkpoints of
  \<open>FileSystemConfigRollbacker\<close>, their multi-ASIC versions, the lock decorator and the choice of a
  sorter by \<open>GenericUpdateFactory\<close>.

  The object that reads and changes the configuration is a \<open>change_applier\<close>: \<open>real_applier\<close> writes to
  the store of the theory \<open>ChangeApply\<close>, \<open>dry_applier\<close> is the pair \<open>DryRunConfigWrapper\<close> and
  \<open>DryRunChangeApplier\<close>, whose state is the imitated configuration.  Every operation returns its
  result together with the state, which keeps what was written before an exception.
\<close>

section \<open>\<open>extract_scope\<close>\<close>

definition host_namespace :: string where
  "host_namespace = ''localhost''"

text \<open>The escapes \<open>JsonPointer(path)\<close> refuses: a tilde that neither \<open>0\<close> nor \<open>1\<close> follows.\<close>

fun invalid_escape :: "string \<Rightarrow> bool" where
  "invalid_escape [] = False"
| "invalid_escape (c # s) =
     ((c = CHR ''~'' \<and> (case s of [] \<Rightarrow> True | d # _ \<Rightarrow> d \<noteq> CHR ''0'' \<and> d \<noteq> CHR ''1'')) \<or> invalid_escape s)"

text \<open>
  \<open>multi\<close> is \<open>multi_asic.is_multi_asic()\<close>; the parts of the pointer are unescaped and escaped again.
\<close>

definition extract_scope :: "bool \<Rightarrow> string \<Rightarrow> (string \<times> string) res" where
  "extract_scope multi path =
     (if path = [] then Inl (GenericConfigUpdaterError ''Wrong patch with empty path.'')
      else if invalid_escape path then Inl (JsonPointerException ''Found invalid escape'')
      else if hd path \<noteq> CHR ''/'' then Inl (JsonPointerException ''Location must start with /'')
      else let parts = map (\<lambda>p. escape (unescape p)) (tl (split_on (CHR ''/'') path));
               remainder = CHR ''/'' # join_with ''/'' (tl parts)
      in if startswith (hd parts) ''asic'' then
           (if \<not> isdigit (drop 4 (hd parts))
            then Inl (GenericConfigUpdaterError
                   (''Error resolving path: '' @ path @ '' due to incorrect ASIC number.''))
            else Inr (hd parts, remainder))
         else if hd parts = host_namespace then Inr (host_namespace, remainder)
         else if multi then
           Inl (GenericConfigUpdaterError
             (''Multi ASIC must have namespace prefix in path: '' @ path @ ''.''))
         else Inr ([], path))"

section \<open>Appliers\<close>

record 'c change_applier =
  ca_read :: "'c \<Rightarrow> json res"
  ca_apply :: "json \<Rightarrow> change \<Rightarrow> 'c \<Rightarrow> json res \<times> 'c"
  ca_remove_backend :: "json \<Rightarrow> json res"

text \<open>\<open>get_config_db_as_json\<close>: the printed configuration without the table \<open>bgpraw\<close>.\<close>

definition running_config :: "'c config_store \<Rightarrow> 'c \<Rightarrow> json res" where
  "running_config S c = rbind (dict_of (cs_read S c)) (\<lambda>d. Inr (JObj (ddel ''bgpraw'' d)))"

definition real_applier ::
  "'x ext_scheme \<Rightarrow> 'c config_store \<Rightarrow> json option \<Rightarrow> (string \<Rightarrow> json \<Rightarrow> json \<Rightarrow> upd_keys \<Rightarrow> json res)
     \<Rightarrow> 'c change_applier"
where
  "real_applier E S conf invoke =
     \<lparr>ca_read = running_config S, ca_apply = change_apply E S conf invoke,
      ca_remove_backend = remove_backend_tables_from_config\<rparr>"

definition dry_applier :: "'x ext_scheme \<Rightarrow> json res \<Rightarrow> json option change_applier" where
  "dry_applier E running =
     \<lparr>ca_read = (\<lambda>imitated. case imitated of None \<Rightarrow> running | Some j \<Rightarrow> Inr j),
      ca_apply = (\<lambda>current change imitated.
        case patch_apply E change current of
          Inl e \<Rightarrow> (Inl e, imitated)
        | Inr j \<Rightarrow> (Inr j, Some j)),
      ca_remove_backend = Inr\<rparr>"

section \<open>\<open>PatchApplier\<close>\<close>

text \<open>
  A patch sorter takes the running configuration and the patch; \<open>permitted\<close> is
  \<open>validate_field_operation\<close>, given the old and the target configuration.
\<close>

fun apply_in_order :: "'c change_applier \<Rightarrow> change list \<Rightarrow> json \<Rightarrow> 'c \<Rightarrow> json res \<times> 'c" where
  "apply_in_order A [] current c = (Inr current, c)"
| "apply_in_order A (change # changes) current c =
     (case ca_apply A current change c of
        (Inl e, c') \<Rightarrow> (Inl e, c')
      | (Inr current', c') \<Rightarrow> apply_in_order A changes current' c')"

definition empty_tables_message :: "string list \<Rightarrow> string" where
  "empty_tables_message tables =
     ''given patch is not valid because it will result in empty tables which is not allowed in ConfigDb. Table''
     @ (if length tables \<noteq> 1 then ''s'' else []) @ '': '' @ join_with '', '' tables"

text \<open>What happens before the first write: the target, and the changes in order.\<close>

definition plan_changes ::
  "'x ext_scheme \<Rightarrow> (json \<Rightarrow> json \<Rightarrow> unit res) \<Rightarrow> (json \<Rightarrow> operation list \<Rightarrow> change list res)
     \<Rightarrow> operation list \<Rightarrow> bool \<Rightarrow> json \<Rightarrow> (json \<times> change list) res"
where
  "plan_changes E permitted srt patch do_sort old =
     rbind (simulate_config_db_patch E patch old) (\<lambda>target.
     rbind (permitted old target) (\<lambda>_.
     rbind (get_empty_tables target) (\<lambda>empty_tables.
       if empty_tables \<noteq> [] then Inl (EmptyTableError (empty_tables_message empty_tables))
       else rbind (if do_sort then srt old patch else Inr (map (\<lambda>x. [x]) patch)) (\<lambda>changes.
            Inr (target, changes)))))"

definition verify_update ::
  "'x ext_scheme \<Rightarrow> 'c change_applier \<Rightarrow> json \<Rightarrow> string \<Rightarrow> 'c \<Rightarrow> unit res" where
  "verify_update E A target msg c =
     rbind (ca_read A c) (\<lambda>new.
     rbind (ca_remove_backend A target) (\<lambda>target'.
     rbind (ca_remove_backend A new) (\<lambda>new'.
       if verify_same_json E target' new' then Inr () else Inl (GenericConfigUpdaterError msg))))"

definition patch_applier_apply ::
  "'x ext_scheme \<Rightarrow> 'c change_applier \<Rightarrow> (json \<Rightarrow> json \<Rightarrow> unit res)
     \<Rightarrow> (json \<Rightarrow> operation list \<Rightarrow> change list res) \<Rightarrow> operation list \<Rightarrow> bool \<Rightarrow> 'c \<Rightarrow> unit res \<times> 'c"
where
  "patch_applier_apply E A permitted srt patch do_sort c =
     (case rbind (ca_read A c) (\<lambda>old. rbind (plan_changes E permitted srt patch do_sort old)
             (\<lambda>p. Inr (old, p))) of
        Inl e \<Rightarrow> (Inl e, c)
      | Inr (old, target, changes) \<Rightarrow>
          (case apply_in_order A changes old c of
             (Inl e, c') \<Rightarrow> (Inl e, c')
           | (Inr _, c') \<Rightarrow>
               (verify_update E A target
                  ''after applying patch to config, there are still some parts not updated'' c', c')))"

section \<open>\<open>ConfigReplacer\<close>\<close>

definition config_replace ::
  "'x ext_scheme \<Rightarrow> 'c change_applier \<Rightarrow> (json \<Rightarrow> json \<Rightarrow> unit res)
     \<Rightarrow> (json \<Rightarrow> operation list \<Rightarrow> change list res) \<Rightarrow> json \<Rightarrow> 'c \<Rightarrow> unit res \<times> 'c"
where
  "config_replace E A permitted srt target c =
     (case ca_read A c of
        Inl e \<Rightarrow> (Inl e, c)
      | Inr old \<Rightarrow>
          (case patch_applier_apply E A permitted srt (generate_patch E old target) True c of
             (Inl e, c') \<Rightarrow> (Inl e, c')
           | (Inr _, c') \<Rightarrow>
               (verify_update E A target
                  ''After replacing config, there is still some parts not updated'' c', c')))"

text \<open>
  \<open>MultiASICConfigReplacer.replace\<close>: the stores of the scopes are a function of the scope, and
  \<open>replace scope config\<close> is the replacer of one of them.  The scopes before a failing one keep their
  new configuration.
\<close>

definition lower :: "string \<Rightarrow> string" where
  "lower s = map (\<lambda>c. if 65 \<le> (of_char c :: nat) \<and> (of_char c :: nat) \<le> 90
                     then char_of (of_char c + 32 :: nat) else c) s"

definition scope_key :: "string \<Rightarrow> string" where
  "scope_key scope = (if lower scope = host_namespace then [] else scope)"

fun replace_scopes ::
  "(string \<Rightarrow> json \<Rightarrow> 'c \<Rightarrow> unit res \<times> 'c) \<Rightarrow> string list \<Rightarrow> json dict \<Rightarrow> (string \<Rightarrow> 'c) \<Rightarrow> unit res \<times> (string \<Rightarrow> 'c)"
where
  "replace_scopes replace [] target cs = (Inr (), cs)"
| "replace_scopes replace (scope # scopes) target cs =
     (case dget target scope of
        None \<Rightarrow> (Inl (KeyError scope), cs)
      | Some config \<Rightarrow>
          (case replace (scope_key scope) config (cs (scope_key scope)) of
             (Inl e, c) \<Rightarrow> (Inl e, cs(scope_key scope := c))
           | (Inr _, c) \<Rightarrow>
               replace_scopes replace scopes (ddel scope target) (cs(scope_key scope := c))))"

definition multi_asic_replace ::
  "(string \<Rightarrow> json \<Rightarrow> 'c \<Rightarrow> unit res \<times> 'c) \<Rightarrow> string list \<Rightarrow> json dict \<Rightarrow> (string \<Rightarrow> 'c) \<Rightarrow> unit res \<times> (string \<Rightarrow> 'c)"
where
  "multi_asic_replace replace scopelist target cs =
     (let missing = filter (\<lambda>s. \<not> dhas target s) scopelist in
      if missing \<noteq> []
      then (Inl (GenericConfigUpdaterError
              (''To be replace config is missing scope: '' @ set_text missing)), cs)
      else replace_scopes replace scopelist target cs)"

section \<open>Checkpoints\<close>

text \<open>The checkpoints directory: whether it exists, and its files by name.\<close>

record checkpoint_dir =
  cd_exists :: bool
  cd_files :: "json dict"

definition checkpoint_ext :: string where
  "checkpoint_ext = ''.cp.json''"

definition checkpoint_file :: "string \<Rightarrow> string" where
  "checkpoint_file name = name @ checkpoint_ext"

definition check_checkpoint_exists :: "checkpoint_dir \<Rightarrow> string \<Rightarrow> bool" where
  "check_checkpoint_exists D name = (cd_exists D \<and> dhas (cd_files D) (checkpoint_file name))"

text \<open>\<open>checkpoint\<close>: \<open>config\<close> is what \<open>get_config_json\<close> prints, or its exception.\<close>

definition checkpoint :: "json res \<Rightarrow> string \<Rightarrow> checkpoint_dir \<Rightarrow> unit res \<times> checkpoint_dir" where
  "checkpoint config name D =
     (case config of
        Inl e \<Rightarrow> (Inl e, D)
      | Inr j \<Rightarrow>
          (Inr (), D\<lparr>cd_exists := True, cd_files := dset (checkpoint_file name) j (cd_files D)\<rparr>))"

definition get_checkpoint_content :: "checkpoint_dir \<Rightarrow> string \<Rightarrow> json res" where
  "get_checkpoint_content D name =
     (case dget (cd_files D) (checkpoint_file name) of
        None \<Rightarrow> Inl (KeyError name) | Some j \<Rightarrow> Inr j)"

definition no_checkpoint :: "string \<Rightarrow> py_error" where
  "no_checkpoint name = ValueError (''Checkpoint '' @ CHR 0x27 # name @ CHR 0x27 # '' does not exist'')"

definition rollback ::
  "(json \<Rightarrow> 'c \<Rightarrow> unit res \<times> 'c) \<Rightarrow> checkpoint_dir \<Rightarrow> string \<Rightarrow> 'c \<Rightarrow> unit res \<times> 'c" where
  "rollback replace D name c =
     (if \<not> check_checkpoint_exists D name then (Inl (no_checkpoint name), c)
      else case get_checkpoint_content D name of
             Inl e \<Rightarrow> (Inl e, c)
           | Inr target \<Rightarrow> replace target c)"

text \<open>\<open>MultiASICConfigRollbacker.rollback\<close>, which does not look for missing scopes first.\<close>

definition multi_asic_rollback ::
  "(string \<Rightarrow> json \<Rightarrow> 'c \<Rightarrow> unit res \<times> 'c) \<Rightarrow> string list \<Rightarrow> checkpoint_dir \<Rightarrow> string \<Rightarrow> (string \<Rightarrow> 'c)
     \<Rightarrow> unit res \<times> (string \<Rightarrow> 'c)"
where
  "multi_asic_rollback replace scopelist D name cs =
     (if \<not> check_checkpoint_exists D name then (Inl (no_checkpoint name), cs)
      else case rbind (get_checkpoint_content D name) dict_of of
             Inl e \<Rightarrow> (Inl e, cs)
           | Inr target \<Rightarrow> replace_scopes replace scopelist target cs)"

definition get_checkpoint_names :: "checkpoint_dir \<Rightarrow> string list" where
  "get_checkpoint_names D =
     map (\<lambda>f. take (length f - length checkpoint_ext) f)
       (filter (\<lambda>f. endswith f checkpoint_ext) (dkeys (cd_files D)))"

text \<open>
  \<open>list_checkpoints\<close> without times, and with the times \<open>mtime\<close> of the files, latest first (the
  printed times order as strings).
\<close>

definition list_checkpoints :: "checkpoint_dir \<Rightarrow> string list" where
  "list_checkpoints D = (if \<not> cd_exists D then [] else get_checkpoint_names D)"

definition newer :: "string \<times> string \<Rightarrow> string \<times> string \<Rightarrow> int" where
  "newer a b = (if snd b < snd a then - 1 else if snd a < snd b then 1 else 0)"

definition list_checkpoints_times :: "(string \<Rightarrow> string) \<Rightarrow> checkpoint_dir \<Rightarrow> (string \<times> string) list" where
  "list_checkpoints_times mtime D =
     (if \<not> cd_exists D then []
      else sorted_cmp newer (map (\<lambda>n. (n, mtime (checkpoint_file n))) (get_checkpoint_names D)))"

definition delete_checkpoint :: "string \<Rightarrow> checkpoint_dir \<Rightarrow> unit res \<times> checkpoint_dir" where
  "delete_checkpoint name D =
     (if \<not> check_checkpoint_exists D name then (Inl (no_checkpoint name), D)
      else (Inr (), D\<lparr>cd_files := ddel (checkpoint_file name) (cd_files D)\<rparr>))"

section \<open>\<open>ConfigLockDecorator\<close> and \<open>GenericUpdateFactory\<close>\<close>

text \<open>
  \<open>execute_write_action\<close>: the lock is released only when the action returns.  The state pairs the
  lock with what the action works on.
\<close>

definition execute_write_action :: "('c \<Rightarrow> unit res \<times> 'c) \<Rightarrow> bool \<times> 'c \<Rightarrow> unit res \<times> bool \<times> 'c" where
  "execute_write_action action s =
     (case action (snd s) of
        (Inl e, c) \<Rightarrow> (Inl e, True, c)
      | (Inr u, c) \<Rightarrow> (Inr u, False, c))"

definition get_patch_sorter ::
  "'x schema_ext_scheme \<Rightarrow> yang_lib \<Rightarrow> (diff \<Rightarrow> int) \<Rightarrow> nat \<Rightarrow> bool \<Rightarrow> string list
     \<Rightarrow> json \<Rightarrow> operation list \<Rightarrow> change list res"
where
  "get_patch_sorter E Y h n ignore_non_yang_tables ignore_paths =
     (\<lambda>running patch.
        if \<not> ignore_non_yang_tables \<and> ignore_paths = [] then strict_sort E Y h n running patch DFS
        else non_strict_sort E Y h n
               ((if ignore_non_yang_tables then [tables_without_yang_split Y] else [])
                @ (if ignore_paths \<noteq> [] then [ignore_paths_split E ignore_paths] else []))
               running patch DFS)"

definition apply_patch ::
  "'x schema_ext_scheme \<Rightarrow> yang_lib \<Rightarrow> (diff \<Rightarrow> int) \<Rightarrow> nat \<Rightarrow> 'c change_applier \<Rightarrow> (json \<Rightarrow> json \<Rightarrow> unit res)
     \<Rightarrow> bool \<Rightarrow> string list \<Rightarrow> operation list \<Rightarrow> bool \<Rightarrow> 'c \<Rightarrow> unit res \<times> 'c"
where
  "apply_patch E Y h n A permitted ignore_non_yang_tables ignore_paths patch do_sort c =
     patch_applier_apply E A permitted (get_patch_sorter E Y h n ignore_non_yang_tables ignore_paths)
       patch do_sort c"

end
