(* ===== verification/GeneratorFacts.thy ===== *)
theory GeneratorFacts
  imports MoveWrapper MoveFacts
begin

text \<open>
  Facts about the generators and extenders: every move they offer is built by the constructor of
  \<open>JsonMove\<close>, the sorted keys are a permutation of the keys, and the table and key level generators
  offer exactly the tables and keys that one of the two configurations lacks.
\<close>

section \<open>Properties of what a generator yields\<close>

definition yields :: "('a \<Rightarrow> bool) \<Rightarrow> 'a gen \<Rightarrow> bool" where
  "yields P g \<longleftrightarrow> (\<forall>x \<in> set (fst g). P x)"

named_theorems yields_intros \<open>introduction rules of yields, one per generator combinator\<close>

lemma yields_basic [yields_intros, simp]: "yields P ([], e)" "P x \<Longrightarrow> yields P (gen_one x)" "yields P gen_nil"
  by (simp_all add: yields_def)

lemma yields_list [simp]: "yields P (xs, e) \<longleftrightarrow> (\<forall>x \<in> set xs. P x)"
  by (simp add: yields_def)

lemma yields_app [yields_intros]: "yields P g \<Longrightarrow> yields P h \<Longrightarrow> yields P (gen_app g h)"
  by (auto simp: yields_def dest: gen_app_mem)

lemma yields_for [yields_intros]: "(\<And>y. y \<in> set ys \<Longrightarrow> yields P (f y)) \<Longrightarrow> yields P (gen_for ys f)"
  by (auto simp: yields_def dest: gen_for_mem)

lemma yields_bind [yields_intros]: "(\<And>y. y \<in> set (fst g) \<Longrightarrow> yields P (f y)) \<Longrightarrow> yields P (gen_bind g f)"
  by (auto simp: yields_def dest: gen_bind_mem)

lemma yields_res [yields_intros]: "(\<And>b. r = Inr b \<Longrightarrow> yields P (f b)) \<Longrightarrow> yields P (gen_res r f)"
  by (cases r) (auto simp: yields_def)

lemma yields_if [yields_intros]: "(b \<Longrightarrow> yields P g) \<Longrightarrow> (\<not> b \<Longrightarrow> yields P h) \<Longrightarrow> yields P (if b then g else h)"
  by simp

section \<open>Every offered move is built by the constructor\<close>

definition built :: "'x ext_scheme \<Rightarrow> json_move \<Rightarrow> bool" where
  "built E m \<longleftrightarrow> (\<exists>d t cur tgt. json_move E d t cur tgt = Inr m)"

definition built_group :: "'x ext_scheme \<Rightarrow> move_group \<Rightarrow> bool" where
  "built_group E g \<longleftrightarrow> (\<forall>m \<in> set (mg_moves g). built E m)"

lemma built_path: "built E m \<Longrightarrow> op_path (mv_patch m) = mv_path m"
  by (auto simp: built_def op_create_def dest!: json_move_fields)

lemma built_move: "json_move E d t cur tgt = Inr m \<Longrightarrow> built E m"
  by (auto simp: built_def)

lemma built_groups [simp]:
  "built_group E (move_group name None)"
  "built_group E (move_group name (Some m)) \<longleftrightarrow> built E m"
  "built_group E (mg_append m g) \<longleftrightarrow> built_group E g \<and> built E m"
  "built_group E (mg_merge g h) \<longleftrightarrow> built_group E g \<and> built_group E h"
  by (auto simp: built_group_def move_group_def mg_append_def mg_merge_def)

lemma yield_move_built [yields_intros]: "yields (built_group E) (yield_move E name d t cur tgt)"
  by (auto simp: yield_move_def intro!: yields_intros built_move)

lemma table_level_built: "yields (built_group E) (table_level_generate E d)"
  unfolding table_level_generate_def by (intro yields_intros)

lemma key_level_built: "yields (built_group E) (key_level_generate E d)"
  unfolding key_level_generate_def by (auto intro!: yields_intros)

lemma leaf_list_built:
  "yields (built_group E) (leaf_list_traverse E d cur tgt tokens)"
  "yields (built_group E) (leaf_list_entries E d es dict tokens)"
  by (induction E d cur tgt tokens and E d es dict tokens rule: leaf_list_traverse_leaf_list_entries.induct)
     (auto intro!: yields_intros split: option.splits json.splits)

lemma close_removals_built:
  "close_removals E d g a b = Inr g' \<Longrightarrow> built_group E g \<Longrightarrow> built_group E g'"
  by (auto simp: close_removals_def res_simps intro: built_move split: if_splits)

lemma bulk_remove_built:
  "pred_option (built_group E) grp \<Longrightarrow> yields (built_group E) (bulk_remove_loop E d toks err grp pt pn)"
proof (induction toks arbitrary: grp pt pn)
  case Nil
  have "yields (built_group E) (gen_res (close_removals E d g pt pt) gen_one)" if "built_group E g" for g
    by (intro yields_res yields_basic) (rule close_removals_built [OF _ that])
  with Nil show ?case by (cases err; cases grp) simp_all
next
  case (Cons tok toks)
  obtain table key where tok: "tok = (table, key)" by force
  let ?n = "count_char (CHR ''|'') key"
  let ?go = "\<lambda>g. gen_res (json_move E d REMOVE [TStr table, TStr key] None)
             (\<lambda>m. bulk_remove_loop E d toks err (Some (mg_append m g)) table ?n)"
  have go: "yields (built_group E) (?go g)" if "built_group E g" for g
    by (intro yields_res Cons.IH) (simp add: that built_move)
  show ?case
  proof (cases grp)
    case None
    with go tok show ?thesis by (simp add: Let_def)
  next
    case (Some g)
    then have g: "built_group E g" using Cons.prems by simp
    have "yields (built_group E) (gen_app (gen_one g') (?go (move_group bulk_name None)))"
      if "close_removals E d g (if pt = [] then table else pt) table = Inr g'" for g'
      by (rule yields_app [OF yields_basic(2) go]) (auto intro: close_removals_built [OF that g])
    then have "yields (built_group E) (gen_res (close_removals E d g (if pt = [] then table else pt) table)
        (\<lambda>g'. gen_app (gen_one g') (?go (move_group bulk_name None))))"
      by (rule yields_res)
    with go [OF g] tok Some show ?thesis by (auto simp: Let_def)
  qed
qed

lemma bulk_add_built:
  "pred_option (built_group E) grp \<Longrightarrow> yields (built_group E) (bulk_add_loop E d toks err grp pt pn)"
proof (induction toks arbitrary: grp pt pn)
  case Nil
  then show ?case by (cases err; cases grp) simp_all
next
  case (Cons tok toks)
  obtain table key where tok: "tok = (table, key)" by force
  let ?n = "count_char (CHR ''|'') key"
  let ?go = "\<lambda>g. gen_res (json_move E d ADD [TStr table, TStr key] (Some [TStr table, TStr key]))
             (\<lambda>m. bulk_add_loop E d toks err (Some (mg_append m g)) table ?n)"
  have go: "yields (built_group E) (?go g)" if "built_group E g" for g
    by (intro yields_res Cons.IH) (simp add: that built_move)
  have "yields (built_group E) (case grp of None \<Rightarrow> ?go (move_group bulk_name None)
      | Some g \<Rightarrow> if pn \<noteq> ?n \<or> table \<noteq> pt
                  then gen_app (gen_one g) (?go (move_group bulk_name None)) else ?go g)"
  proof (cases grp)
    case (Some g)
    then have "yields (built_group E) (?go g)" using Cons.prems by (intro go) simp
    moreover have "yields (built_group E) (gen_app (gen_one g) (?go (move_group bulk_name None)))"
      using Some Cons.prems by (intro yields_app yields_basic go) auto
    ultimately show ?thesis using Some by auto
  qed (use go in simp)
  moreover have "yields (built_group E) (bulk_add_loop E d toks err grp pt pn)"
    using Cons by blast
  ultimately show ?case
    by (auto simp: tok Let_def intro!: yields_res)
qed

lemma output_bulk_built:
  "yields (built_group E) (output_bulk_move E d t cur tgt tokens n r)"
proof -
  have "built_group E g'"
    if "fold_res (\<lambda>key g. rbind (bulk_wanted t cur tgt key)
          (\<lambda>wanted. if wanted \<and> \<not> restricted_key tokens key r
             then let ts = map TStr (tokens @ [key]) in
               rbind (json_move E d t ts (if t = REMOVE then None else Some ts))
                 (\<lambda>m. Inr (mg_append m g))
             else Inr g)) keys (move_group bulk_low_name None) = Inr g'" for keys g'
    using that
    by (rule fold_res_invariant [where I = "built_group E"])
       (auto simp: res_simps Let_def intro: built_move split: if_splits)
  then show ?thesis
    unfolding output_bulk_move_def by (auto simp: res_simps intro!: yields_intros)
qed

lemma bulk_low_built:
  "yields (built_group E) (bulk_low_traverse E d t cur tgt tokens n r)"
  by (induction E d t cur tgt tokens n r rule: bulk_low_traverse.induct)
     (auto intro!: yields_intros output_bulk_built split: option.splits simp del: gen_basic_simps)

lemma merge_groups_built:
  "pred_option (built_group E) grp \<Longrightarrow> \<forall>g \<in> set gs. built_group E g \<Longrightarrow>
     yields (built_group E) (merge_groups E grp gs err)"
  by (induction E grp gs err rule: merge_groups.induct)
     (auto intro!: yields_intros split: option.splits)

lemma generate_groups_built: "yields (built_group E) (generate_groups E d t r)"
proof -
  have "\<forall>g \<in> set (fst (bulk_low_op E d t 1 r)). built_group E g"
    using bulk_low_built unfolding bulk_low_op_def yields_def by blast
  then show ?thesis by (simp add: generate_groups_def merge_groups_built Let_def)
qed

lemma remove_nonempty_built: "yields (built_group E) (remove_nonempty E d tokens)"
  unfolding remove_nonempty_def by (intro yields_intros)

lemma remove_dependents_built:
  "yields (built_group E) (remove_dependents E d n tokens reload parent)"
  by (induction E d n tokens reload parent rule: remove_dependents.induct)
     (auto intro!: yields_intros remove_nonempty_built simp: Let_def)

lemma rcod_built: "yields (built_group E) (rcod_loop E d paths err reload)"
  by (induction E d paths err reload rule: rcod_loop.induct)
     (auto intro!: yields_intros remove_nonempty_built remove_dependents_built simp: Let_def split: prod.splits)

lemma traverse_current_built:
  "yields (built_group E) (traverse_current E d ptr ct)"
  "yields (built_group E) (traverse_current_entries E d es ct)"
  by (induction E d ptr ct and E d es ct rule: traverse_current_traverse_current_entries.induct)
     (auto intro!: yields_intros simp: traverse_current_list_def traverse_current_value_def
       simp del: gen_basic_simps split: json.splits)

lemma traverse_target_built:
  "yields (built_group E) (traverse_target E d ptr ct tt)"
  "yields (built_group E) (traverse_target_entries E d es ct tt)"
  by (induction E d ptr ct tt and E d es ct tt rule: traverse_target_traverse_target_entries.induct)
     (auto intro!: yields_intros simp: traverse_target_list_def traverse_target_value_def
       simp del: gen_basic_simps split: json.splits)

lemma traverse_list_built: "yields (built_group E) (traverse_list E d cur tgt ct tt)"
  unfolding traverse_list_def traverse_value_def traverse_current_value_def traverse_target_value_def Let_def
  by (auto intro!: yields_intros)

lemma traverse_added_built: "yields (built_group E) (traverse_added E d cur tgt ct tt)"
  unfolding traverse_added_def by (auto intro!: yields_intros traverse_target_built)

lemma traverse_built:
  "yields (built_group E) (traverse E d cur tgt ct tt)"
  "yields (built_group E) (traverse_entries E d es tgt ct tt)"
  by (induction E d cur tgt ct tt and E d es tgt ct tt rule: traverse_traverse_entries.induct)
     (auto intro!: yields_intros traverse_list_built traverse_added_built traverse_current_built
       simp: traverse_value_def simp del: gen_basic_simps split: json.splits)

subsection \<open>Extenders\<close>

lemma from_operation_built: "from_operation E x = Inr m \<Longrightarrow> built E m"
  by (auto simp: from_operation_def Let_def res_simps intro: built_move)

lemma required_moves_built: "yields (built E) (required_moves E cur rs processed)"
  by (induction E cur rs processed rule: required_moves.induct)
     (auto intro!: yields_intros from_operation_built simp: required_replacement_def simp del: gen_basic_simps)

lemma flip_built: "flip E m ts = Inr m' \<Longrightarrow> built E m'"
  by (auto simp: flip_def res_simps intro: from_operation_built)

lemma required_value_built: "yields (built E) (required_value_extend E m d)"
  unfolding required_value_extend_def Let_def
  by (auto intro!: yields_intros required_moves_built intro: flip_built simp del: gen_basic_simps)

lemma upper_level_built: "yields (built E) (upper_level_extend E m d)"
  unfolding upper_level_extend_def Let_def
  by (auto intro!: yields_intros simp: res_simps intro: built_move simp del: gen_basic_simps)

lemma delete_instead_built: "yields (built E) (delete_instead_extend E m d)"
  unfolding delete_instead_extend_def
  by (auto intro!: yields_intros intro: built_move simp del: gen_basic_simps)

lemma delete_refs_built: "yields (built E) (delete_refs_extend E m d)"
  unfolding delete_refs_extend_def
  by (auto intro!: yields_intros intro: built_move simp del: gen_basic_simps)

lemma wrapper_yields_built:
  assumes "offered (factory_wrapper E) d g"
  shows "built_group E g"
  using assms
proof (induction rule: offered.induct)
  case (offered_first g)
  have "yields (built_group E) (generate_all (mw_non_extendable (factory_wrapper E)) d)"
    unfolding generate_all_def factory_wrapper_def
    by (intro yields_for)
       (auto simp: remove_create_only_dependency_generate_def bulk_leaf_list_generate_def
          bulk_key_level_generate_def bulk_key_group_generate_def bulk_low_level_generate_def
          bulk_low_op_def Let_def
        intro!: yields_app yields_for rcod_built leaf_list_built bulk_remove_built bulk_add_built
          key_level_built generate_groups_built bulk_low_built)
  with offered_first show ?case by (simp add: yields_def)
next
  case (offered_low g)
  have "yields (built_group E) (generate_all (mw_generators (factory_wrapper E)) d)"
    unfolding generate_all_def factory_wrapper_def low_level_generate_def
    by (intro yields_for) (simp add: traverse_built del: traverse.simps)
  with offered_low show ?case by (simp add: yields_def)
next
  case (offered_ext g g')
  have ext: "yields (built E) (extend m d)" if "(name, extend) \<in> set (mw_extenders (factory_wrapper E))"
    for name extend m
    using that
    by (auto simp: factory_wrapper_def required_value_built upper_level_built delete_instead_built
        delete_refs_built)
  have bind: "yields (built_group E) (gen_bind (extend m d) (\<lambda>m'. gen_one (move_group nm (Some m'))))"
    if "(name, extend) \<in> set (mw_extenders (factory_wrapper E))" for name extend m nm
    using ext [OF that] by (intro yields_bind yields_basic) (simp add: yields_def)
  have "yields (built_group E) (extend_moves (factory_wrapper E) g d)"
    unfolding extend_moves_def
    by (intro yields_for) (auto simp del: gen_basic_simps intro: bind)
  with offered_ext show ?case by (simp add: yields_def)
qed

section \<open>Sorted keys\<close>

text \<open>The keys a generator walks are the keys of the level, reordered by the comparison.\<close>

lemma sorted_keys_perm:
  assumes "sorted_keys E path config rev_order relative = Inr ks"
    and "(if relative then Inr config else py_path config (map TStr (get_path_tokens E path))) = Inr (JObj d)"
  shows "mset ks = mset (dkeys d)"
proof -
  have id: "map ki_key (map (key_info E ts) xs) = xs" for ts xs
    by (induction xs) (auto simp: key_info_def split: option.splits)
  have "mset (map ki_key (sorted_cmp cmp (map (key_info E ts) xs))) = mset xs" for cmp ts xs
  proof -
    have "mset (map ki_key (sorted_cmp cmp (map (key_info E ts) xs))) =
        image_mset ki_key (mset (map (key_info E ts) xs))" by (simp only: mset_map mset_sorted_cmp)
    also have "\<dots> = mset (map ki_key (map (key_info E ts) xs))" by (simp only: mset_map)
    finally show ?thesis by (simp only: id)
  qed
  with assms show ?thesis by (auto simp: sorted_keys_def Let_def)
qed

lemma configdb_sort_cmp_total:
  "configdb_sort_cmp a b \<le> 0 \<or> configdb_sort_cmp b a \<le> 0"
  "configdb_sort_cmp a b \<le> 0 \<Longrightarrow> configdb_sort_cmp b c \<le> 0 \<Longrightarrow> configdb_sort_cmp a c \<le> 0"
  by (auto simp: configdb_sort_cmp_def split: if_splits)

section \<open>Missing keys\<close>

text \<open>Table names as ConfigDB has them, so that a slash and the name is the pointer to the table.\<close>

definition plain_name :: "string \<Rightarrow> bool" where
  "plain_name t \<longleftrightarrow> t \<noteq> [] \<and> CHR ''/'' \<notin> set t \<and> CHR ''~'' \<notin> set t"

lemma unescape_plain: "CHR ''~'' \<notin> set s \<Longrightarrow> unescape s = s"
  by (induction s rule: unescape.induct) auto

lemma ptr_split_plain: "plain_name t \<Longrightarrow> ptr_split (CHR ''/'' # t) = [t]"
  by (simp add: ptr_split_def plain_name_def split_on_none unescape_plain)

text \<open>A configuration of tables of entries.\<close>

definition tables_of :: "json \<Rightarrow> json dict option" where
  "tables_of j = (case j of JObj d \<Rightarrow> if list_all (\<lambda>p. is_obj (snd p)) d then Some d else None | _ \<Rightarrow> None)"

definition has_key :: "json dict \<Rightarrow> string \<Rightarrow> string \<Rightarrow> bool" where
  "has_key d t k \<longleftrightarrow> (\<exists>e. dget d t = Some (JObj e) \<and> dhas e k)"

lemma tables_of_obj:
  assumes "tables_of j = Some d"
  shows "j = JObj d" and "dget d t = Some v \<Longrightarrow> \<exists>e. v = JObj e"
proof -
  show "j = JObj d" using assms by (auto simp: tables_of_def split: json.splits if_splits)
  assume "dget d t = Some v"
  then have "(t, v) \<in> set d" by (rule dget_SomeD)
  then have "is_obj v" using assms by (auto simp: tables_of_def list_all_iff split: json.splits if_splits)
  then show "\<exists>e. v = JObj e" by (cases v) auto
qed

lemma sorted_keys_obj:
  assumes "(if relative then Inr config else py_path config (map TStr (get_path_tokens E path))) = Inr (JObj d)"
  shows "\<exists>ks. sorted_keys E path config rev_order relative = Inr ks \<and> set ks = set (dkeys d)"
proof -
  obtain ks where "sorted_keys E path config rev_order relative = Inr ks"
    using assms by (auto simp: sorted_keys_def Let_def)
  moreover from sorted_keys_perm [OF this assms] have "set ks = set (dkeys d)"
    by (metis set_mset_mset)
  ultimately show ?thesis by blast
qed

lemma gen_for_iff:
  "(\<And>y. y \<in> set ys \<Longrightarrow> snd (f y) = None) \<Longrightarrow>
     snd (gen_for ys f) = None \<and> (x \<in> set (fst (gen_for ys f)) \<longleftrightarrow> (\<exists>y \<in> set ys. x \<in> set (fst (f y))))"
  by (induction ys) (auto simp: snd_gen_app fst_gen_app)

lemma non_existing_keys_exact:
  assumes c1: "tables_of c1 = Some d1" and c2: "tables_of c2 = Some d2"
    and plain: "\<forall>t \<in> set (dkeys d1). plain_name t" and split: "path_split E = ptr_split"
  shows "snd (non_existing_keys E c1 c2 r) = None \<and>
     ((t, k) \<in> set (fst (non_existing_keys E c1 c2 r)) \<longleftrightarrow> has_key d1 t k \<and> \<not> has_key d2 t k)"
proof -
  define check where "check t k = gen_res (rbind (py_in (TStr t) c2)
      (\<lambda>b. if \<not> b then Inr False else rbind (py_getitem c2 (TStr t)) (py_in (TStr k))))
      (\<lambda>here. if here then gen_nil else gen_one (t, k))" for t k
  define level where "level t = gen_res (sorted_keys E (''/'' @ t) c1 r False)
      (\<lambda>ks. gen_for ks (check t))" for t
  have chk: "check t k = (if has_key d2 t k then [] else [(t, k)], None)" for t k
    using tables_of_obj [OF c2]
    by (cases "dget d2 t") (fastforce simp: check_def has_key_def dhas_def split: option.splits)+
  obtain ts where ts: "sorted_keys E ''/'' c1 r False = Inr ts" "set ts = set (dkeys d1)"
    using sorted_keys_obj [where E = E and path = "''/''" and config = c1 and d = d1 and relative = False]
      split tables_of_obj(1) [OF c1]
    by (auto simp: get_path_tokens_def ptr_split_def)
  have lev: "snd (level t) = None \<and> ((t', k) \<in> set (fst (level t)) \<longleftrightarrow>
      t' = t \<and> has_key d1 t k \<and> \<not> has_key d2 t k)" if t: "t \<in> set (dkeys d1)" for t t' k
  proof -
    obtain v where "dget d1 t = Some v" using t by (auto simp: dhas_iff [symmetric] dhas_dget)
    with tables_of_obj(2) [OF c1] obtain e where e: "dget d1 t = Some (JObj e)" by blast
    have "get_path_tokens E (''/'' @ t) = [t]"
      using plain t split ptr_split_plain by (simp add: get_path_tokens_def)
    then obtain ks where ks: "sorted_keys E (''/'' @ t) c1 r False = Inr ks" "set ks = set (dkeys e)"
      using sorted_keys_obj [where E = E and path = "''/'' @ t" and config = c1 and d = e and relative = False]
        e tables_of_obj(1) [OF c1] by auto
    have "has_key d1 t k \<longleftrightarrow> k \<in> set ks" using e ks(2) by (simp add: has_key_def dhas_iff)
    with gen_for_iff [of ks "check t" "(t', k)"] ks(1) show ?thesis
      by (auto simp: level_def chk split: if_splits)
  qed
  have "non_existing_keys E c1 c2 r = gen_for ts level"
    using ts(1) by (simp add: non_existing_keys_def level_def [abs_def] check_def [abs_def])
  moreover have "has_key d1 t k \<Longrightarrow> t \<in> set (dkeys d1)"
    by (auto simp: has_key_def dhas_iff [symmetric] dhas_def)
  ultimately show ?thesis
    using gen_for_iff [of ts level "(t, k)"] lev ts(2) by auto
qed

end
