(* ===== verification/ValidatorFacts.thy ===== *)
theory ValidatorFacts
  imports Validators MoveFacts
begin

text \<open>
  What an accepted step guarantees, validator by validator: the create-only fields keep their value
  while their entry stays, a required field has its value whenever a requiring path changes, no
  touched table is left empty, and an added or removed path is not referred to.
\<close>

section \<open>Generators that end normally\<close>

lemma gen_for_complete:
  "snd (gen_for ys f) = None \<Longrightarrow> y \<in> set ys \<Longrightarrow>
     snd (f y) = None \<and> set (fst (f y)) \<subseteq> set (fst (gen_for ys f))"
  by (induction ys) (auto simp: snd_gen_app fst_gen_app split: option.splits)

lemma gen_bind_complete:
  "snd (gen_bind g f) = None \<Longrightarrow> y \<in> set (fst g) \<Longrightarrow>
     snd g = None \<and> snd (f y) = None \<and> set (fst (f y)) \<subseteq> set (fst (gen_bind g f))"
  using gen_for_complete [of "fst g" f y]
  by (auto simp: gen_bind_def snd_gen_app fst_gen_app split: option.splits)

lemma gen_list_Inr: "gen_list g = Inr xs \<longleftrightarrow> snd g = None \<and> fst g = xs"
  by (auto simp: gen_list_def split: option.splits)

lemma get_paths_rec_found:
  "snd (get_paths_rec E config ps matching ck) = None \<Longrightarrow> pattern_path ps ck config ks w \<Longrightarrow>
     str_path E (matching @ ks) \<in> set (fst (get_paths_rec E config ps matching ck))"
proof (induction ps arbitrary: config matching ks)
  case Nil
  then show ?case by (auto elim: pattern_path_NilE)
next
  case (Cons p ps)
  from Cons.prems(2) obtain d k v ks' where
    c: "config = JObj d" "ks = k # ks'" "dget d k = Some v" "key_matches (instantiate_token ck p) k"
       "pattern_path ps ck v ks' w" by (auto elim: pattern_path_ConsE)
  obtain ms where ms: "matching_keys (instantiate_token ck p) config = Inr ms"
    using c(1) by (simp add: matching_keys_obj)
  have k: "k \<in> set ms" using matching_keys_iff c ms by (auto simp: dhas_dget)
  let ?f = "\<lambda>k. gen_res (py_getitem config (TStr k))
      (\<lambda>v. get_paths_rec E v ps (matching @ [k]) ck)"
  have fk: "?f k = get_paths_rec E v ps (matching @ [k]) ck" using c by simp
  from Cons.prems(1) ms have "snd (gen_for ms ?f) = None" by simp
  from gen_for_complete [OF this k] fk
  have "snd (get_paths_rec E v ps (matching @ [k]) ck) = None"
    "set (fst (get_paths_rec E v ps (matching @ [k]) ck)) \<subseteq> set (fst (gen_for ms ?f))" by auto
  with Cons.IH [OF _ c(5), of "matching @ [k]"] ms c(2) show ?case by auto
qed

lemma get_paths_found:
  "snd (get_paths E pats config ck) = None \<Longrightarrow> ps \<in> set pats \<Longrightarrow> pattern_path ps ck config ks w \<Longrightarrow>
     str_path E ks \<in> set (fst (get_paths E pats config ck))"
  using gen_for_complete [of pats "\<lambda>p. get_paths_rec E config p [] ck" ps]
    get_paths_rec_found [of E config ps "[]" ck ks w]
  by (auto simp: get_paths_def)

section \<open>Lookups on paths through dictionaries\<close>

lemma ptr_get_py_path: "py_path j (map TStr ks) = Inr v \<Longrightarrow> ptr_get ks j = v"
proof (induction ks arbitrary: j)
  case (Cons k ks)
  then show ?case using py_path_obj_cases [OF Cons.prems] by auto
qed simp

lemma ptr_get_snoc:
  "py_path j (map TStr ks) = Inr (JObj d) \<Longrightarrow>
     ptr_get (ks @ [k]) j = (case dget d k of None \<Rightarrow> JNull | Some v \<Rightarrow> v)"
proof (induction ks arbitrary: j)
  case (Cons a ks)
  then show ?case using py_path_obj_cases [OF Cons.prems] by auto
qed (auto split: option.splits)

context json_ext
begin

lemma get_from_path_keys:
  "ks \<noteq> [[]] \<Longrightarrow> get_from_path E j (create_path E (map TStr ks)) = ptr_get ks j"
  by (simp add: get_from_path_def pointer create_path_def split_join_keys)

lemma has_path_keys: "ks \<noteq> [[]] \<Longrightarrow> has_path E j (create_path E (map TStr ks)) \<longleftrightarrow> ptr_get ks j \<noteq> JNull"
  by (simp add: has_path_def get_from_path_keys)

lemma tokens_keys: "ks \<noteq> [[]] \<Longrightarrow> get_path_tokens E (create_path E (map TStr ks)) = ks"
  by (simp add: get_path_tokens_def create_path_def split_join_keys)

end

section \<open>\<open>CreateOnlyMoveValidator\<close>\<close>

lemma value_exist_same:
  "value_exist_but_different ks cur sim = Inr False \<Longrightarrow> py_path cur (map TStr ks) = Inr v \<Longrightarrow>
     py_path sim (map TStr ks) = Inr w \<Longrightarrow> json_eq v w"
proof (induction ks cur sim rule: value_exist_but_different.induct)
  case (2 t ts cur sim)
  obtain c where c: "cur = JObj c" "\<exists>u. dget c t = Some u \<and> py_path u (map TStr ts) = Inr v"
    using py_path_obj_cases [OF 2(3)] by auto
  obtain s where s: "sim = JObj s" "\<exists>u. dget s t = Some u \<and> py_path u (map TStr ts) = Inr w"
    using py_path_obj_cases [OF 2(4)] by auto
  obtain u u' where "dget c t = Some u" "py_path u (map TStr ts) = Inr v"
    "dget s t = Some u'" "py_path u' (map TStr ts) = Inr w" using c s by auto
  with 2(1) [of "TStr t" True True u u'] 2(2) c(1) s(1) show ?case by (simp add: dhas_def)
qed simp

text \<open>The keys of a create-only path: a match of one of the patterns.\<close>

definition create_only_at :: "json \<Rightarrow> string list \<Rightarrow> json \<Rightarrow> bool" where
  "create_only_at config ks v \<longleftrightarrow> (\<exists>ps \<in> set create_only_patterns. pattern_path ps None config ks v)"

lemma create_only_length: "create_only_at config ks v \<Longrightarrow> length ks = 3"
  by (auto simp: create_only_at_def create_only_patterns_def dest!: pattern_path_length)

lemma create_only_checked:
  assumes "create_only_validate E g d sim = Inr (True, msg)"
    and "config \<in> {current_config d, sim, target_config d}" and "create_only_at config ks v"
  shows "create_only_path_ok E d sim (str_path E ks) = Inr True"
proof -
  from assms(1) obtain ps qs rs where l: "gen_list (get_create_only_paths E (current_config d)) = Inr ps"
    "gen_list (get_create_only_paths E sim) = Inr qs"
    "gen_list (get_create_only_paths E (target_config d)) = Inr rs"
    "all_res (create_only_path_ok E d sim) (dedup (ps @ qs @ rs)) = Inr True"
    by (auto simp: create_only_validate_def res_simps)
  obtain pat where pat: "pat \<in> set create_only_patterns" "pattern_path pat None config ks v"
    using assms(3) by (auto simp: create_only_at_def)
  have "str_path E ks \<in> set (ps @ qs @ rs)"
    using l(1-3) assms(2) get_paths_found [OF _ pat, of E]
    by (auto simp: gen_list_Inr get_create_only_paths_def)
  with l(4) show ?thesis by (auto simp: all_res_True_iff)
qed

lemma create_only_kept:
  assumes v: "create_only_validate E g d sim = Inr (True, msg)" and E: "json_ext E"
    and at: "create_only_at (current_config d) ks v" "v \<noteq> JNull"
    and parent: "py_path sim (map TStr (butlast ks)) = Inr (JObj entry)"
  shows "\<exists>w. py_path sim (map TStr ks) = Inr w \<and> json_eq v w"
proof -
  have len: "length ks = 3" using at(1) by (rule create_only_length)
  then have ne: "ks \<noteq> [[]]" "butlast ks \<noteq> [[]]" "ks \<noteq> []" by (auto dest: arg_cong [where f = length])
  have ok: "create_only_path_ok E d sim (str_path E ks) = Inr True"
    using create_only_checked [OF v _ at(1)] by simp
  then have r: "value_exist_but_different ks (current_config d) sim = Inr False"
    "\<not> value_removed_but_parent_remain E ks (current_config d) sim"
    by (auto simp: create_only_path_ok_def json_ext.tokens_keys [OF E ne(1)] Let_def res_simps)
  have cur: "py_path (current_config d) (map TStr ks) = Inr v"
    using at(1) by (auto simp: create_only_at_def dest: pattern_path_lookup)
  have "ptr_get (butlast ks) sim \<noteq> JNull" using ptr_get_py_path [OF parent] by simp
  with r(2) ptr_get_py_path [OF cur] at(2) have "ptr_get ks sim \<noteq> JNull"
    by (auto simp: value_removed_but_parent_remain_def exist_only_in_first_def Let_def
        json_ext.has_path_keys [OF E] ne split: if_splits)
  moreover have ks: "ks = butlast ks @ [last ks]" using ne(3) by simp
  ultimately obtain w where w: "dget entry (last ks) = Some w"
    using ptr_get_snoc [OF parent, of "last ks"] by (auto split: option.splits)
  have "py_path sim (map TStr (butlast ks @ [last ks])) = Inr w"
    using parent w by (simp add: py_path_append)
  with ks have "py_path sim (map TStr ks) = Inr w" by simp
  with value_exist_same [OF r(1) cur] show ?thesis by blast
qed

section \<open>\<open>RequiredValueMoveValidator\<close>\<close>

lemma group_pairs_mem:
  "(path, r) \<in> set ps \<Longrightarrow> \<exists>rs. (path, rs) \<in> set (group_pairs ps) \<and> r \<in> set rs"
  by (force simp: group_pairs_def)

lemma required_pairs_found:
  assumes "gen_list (gen_for settings (\<lambda>s. gen_for configs (required_pairs E s))) = Inr ps"
    and E: "json_ext E" and "config \<in> set configs"
    and "py_path config [TStr ''PORT'', TStr port] = Inr w"
    and "pat \<in> set (requiring_patterns (hd settings))" and "pattern_path pat (Some port) config ks v"
  shows "(str_path E ks, (str_path E [''PORT'', port, ''admin_status''], ''down'')) \<in> set ps"
proof -
  let ?s = "hd settings"
  have s: "?s \<in> set settings" "required_parent_filter ?s = [[''PORT'', ''*'']]" "common_key_index ?s = 1"
    "required_field_name ?s = ''admin_status''" "required_value ?s = ''down''"
    by (simp_all add: settings_def required_parent_filter_def common_key_index_def
        required_field_name_def replace_char_def)
  have fin: "snd (gen_for settings (\<lambda>s. gen_for configs (required_pairs E s))) = None"
    and ps: "fst (gen_for settings (\<lambda>s. gen_for configs (required_pairs E s))) = ps"
    using assms(1) by (auto simp: gen_list_Inr)
  note a = gen_for_complete [OF fin s(1)]
  note b = gen_for_complete [OF conjunct1 [OF a] assms(3)]
  have rp: "snd (required_pairs E ?s config) = None" "set (fst (required_pairs E ?s config)) \<subseteq> set ps"
    using a b ps by auto
  let ?tok = "[''PORT'', port]" and ?parent = "str_path E [''PORT'', port]"
  have tok: "get_path_tokens E ?parent = ?tok" using json_ext.tokens_keys [OF E, of ?tok] by simp
  have "pattern_path [''PORT'', ''*''] None config ?tok w"
    using py_path_obj_cases [of config "''PORT''" "[port]" w] py_path_obj_cases [of _ port "[]" w] assms(4)
    by (fastforce intro!: pattern_path.intros simp: key_matches_def instantiate_token_def startswith_def endswith_def)
  moreover have "snd (get_paths E (required_parent_filter ?s) config None) = None"
    using rp(1) by (auto simp: required_pairs_def gen_bind_def snd_gen_app split: option.splits)
  ultimately have "?parent \<in> set (fst (get_paths E (required_parent_filter ?s) config None))"
    using s(2) by (intro get_paths_found) auto
  note body = gen_bind_complete [OF rp(1) [unfolded required_pairs_def] this]
  let ?inner = "gen_bind (get_paths E (requiring_patterns ?s) config (Some port))
        (\<lambda>path. gen_one (path, (str_path E [''PORT'', port, ''admin_status''], ''down'')))"
  have "(let parent_tokens = get_path_tokens E ?parent in
          if length parent_tokens \<le> common_key_index ?s then ([], Some IndexError)
          else gen_bind (get_paths E (requiring_patterns ?s) config (Some (parent_tokens ! common_key_index ?s)))
                 (\<lambda>path. gen_one (path, (str_path E (parent_tokens @ [required_field_name ?s]), required_value ?s)))) =
        ?inner"
    unfolding tok s(3-5) by simp
  with body have c: "snd ?inner = None" "set (fst ?inner) \<subseteq> set (fst (required_pairs E ?s config))"
    unfolding required_pairs_def by metis+
  have "snd (get_paths E (requiring_patterns ?s) config (Some port)) = None"
    using c(1) by (auto simp: gen_bind_def snd_gen_app split: option.splits)
  then have "str_path E ks \<in> set (fst (get_paths E (requiring_patterns ?s) config (Some port)))"
    using assms(5,6) by (rule get_paths_found)
  from gen_bind_complete [OF c(1) this] c(2) rp(2) show ?thesis by auto
qed

text \<open>
  A requiring path of a port changes only while the port is down or has no status of its own.
\<close>

lemma required_value_down:
  assumes v: "required_value_validate E g d sim = Inr (True, msg)" and E: "json_ext E"
    and c: "config \<in> {current_config d, sim, target_config d}"
    and port: "py_path config [TStr ''PORT'', TStr port] = Inr w"
    and pat: "pat \<in> set (requiring_patterns (hd settings))" "pattern_path pat (Some port) config ks x"
    and diff: "is_config_different E (str_path E ks) (current_config d) sim"
    and status: "py_path (current_config d) [TStr ''PORT'', TStr port, TStr ''admin_status''] = Inr (JStr s)"
  shows "s = ''down''"
proof -
  let ?cfgs = "[current_config d, sim, target_config d]"
  obtain data where data: "get_required_value_data E ?cfgs = Inr data"
    "all_res (\<lambda>(path, rs). if is_config_different E path (current_config d) sim
       then all_res (required_now_ok E (current_config d)) rs else Inr True) data = Inr True"
    using v by (auto simp: required_value_validate_def res_simps Let_def split: if_splits)
  then obtain ps where ps: "gen_list (gen_for settings (\<lambda>s. gen_for ?cfgs (required_pairs E s))) = Inr ps"
    "data = group_pairs ps"
    by (auto simp: get_required_value_data_def res_simps)
  have "config \<in> set ?cfgs" using c by auto
  from required_pairs_found [OF ps(1) E this port pat] group_pairs_mem obtain rs where
    rs: "(str_path E ks, rs) \<in> set data" "(str_path E [''PORT'', port, ''admin_status''], ''down'') \<in> set rs"
    unfolding ps(2) by blast
  from data(2) rs diff
  have "required_now_ok E (current_config d) (str_path E [''PORT'', port, ''admin_status''], ''down'') = Inr True"
    by (force simp: all_res_True_iff)
  moreover have "get_from_path E (current_config d) (str_path E [''PORT'', port, ''admin_status'']) = JStr s"
    using ptr_get_py_path [of "current_config d" "[''PORT'', port, ''admin_status'']" "JStr s"] status
      json_ext.get_from_path_keys [OF E, of "[''PORT'', port, ''admin_status'']" "current_config d"]
    by simp
  ultimately show ?thesis
    by (auto simp: required_now_ok_def get_value_or_default_def Let_def)
qed

section \<open>\<open>NoEmptyTableMoveValidator\<close>, \<open>DeleteWholeConfigMoveValidator\<close>\<close>

lemma no_empty_table_kept:
  assumes "no_empty_table_validate E g d sim = Inr (True, msg)" and "m \<in> set (mg_moves g)"
    and "mv_path m = [] \<or> hd (get_path_tokens E (mv_path m)) = t"
    and "py_getitem sim (TStr t) = Inr v"
  shows "truthy v"
proof -
  from assms(1,2) have m: "no_empty_table_move E sim m = Inr True"
    by (auto simp: no_empty_table_validate_def all_res_True_iff res_simps)
  obtain s where s: "sim = JObj s" using assms(4) by (cases sim) auto
  have "validate_table sim t = Inr True"
  proof (cases "mv_path m = []")
    case True
    with m s have "\<forall>k \<in> set (dkeys s). validate_table sim k = Inr True"
      by (auto simp: no_empty_table_move_def all_res_True_iff)
    moreover have "t \<in> set (dkeys s)"
      using assms(4) s by (auto simp: dhas_iff [symmetric] dhas_def split: option.splits)
    ultimately show ?thesis by blast
  next
    case False
    with m assms(3) show ?thesis
      by (auto simp: no_empty_table_move_def res_simps split: list.splits if_splits)
  qed
  with assms(4) s show ?thesis
    by (auto simp: validate_table_def dhas_def res_simps split: option.splits if_splits)
qed

lemma delete_whole_rejected:
  "delete_whole_config_validate g d sim = Inr (True, msg) \<Longrightarrow>
     mg_moves g \<noteq> [] \<and> \<not> (mv_type (hd (mg_moves g)) = REMOVE \<and> mv_path (hd (mg_moves g)) = [])"
  by (auto simp: delete_whole_config_validate_def first_move_def res_simps split: list.splits if_splits)

section \<open>\<open>NoDependencyMoveValidator\<close>\<close>

lemma no_dependency_loop_mem:
  "no_dependency_loop E ms d sim reload = Inr (True, msg) \<Longrightarrow> m \<in> set ms \<Longrightarrow>
     \<exists>r. no_dependency_move E m d sim r = Inr True"
  by (induction E ms d sim reload rule: no_dependency_loop.induct) (auto simp: res_simps split: if_splits)

text \<open>No path that refers to the added or removed path lies below it.\<close>

lemma no_dependency_refs:
  assumes "no_dependency_validate E g d sim = Inr (True, msg)" and "m \<in> set (mg_moves g)"
    and "mv_type m \<noteq> REPLACE"
  shows "\<exists>reload refs. find_refs E [mv_path m] (if mv_type m = ADD then sim else current_config d) reload = Inr refs \<and>
           (\<forall>ref \<in> set refs. \<not> startswith ref (mv_path m))"
proof -
  obtain r where r: "no_dependency_move E m d sim r = Inr True"
    using no_dependency_loop_mem [OF assms(1) [unfolded no_dependency_validate_def] assms(2)] by blast
  have refs: "\<exists>refs. find_refs E [p] c b = Inr refs \<and> (\<forall>ref \<in> set refs. \<not> startswith ref p)"
    if vp: "validate_paths_config E [p] c b x = Inr True" for p c b x
    using vp by (auto simp: validate_paths_config_def list_ex_iff split: sum.splits if_splits)
  from r assms(3) show ?thesis
    by (cases "mv_type m") (auto simp: no_dependency_move_def dest!: refs)
qed

end
