(* ===== verification/UpdaterFacts.thy ===== *)
theory UpdaterFacts
  imports Updater GeneratorFacts ValidatorFacts
begin

text \<open>
  The updater end to end: a strictly sorted patch that was planned is applied completely, every
  intermediate configuration is valid, and the store ends up with the target; and what the smaller
  operations of the theory \<open>Updater\<close> do.
\<close>

section \<open>No step of a sorted patch leaves an empty table\<close>

lemma edit_top:
  assumes "edit f (t # ts) (JObj d) = Inr r"
    and "ts = [] \<Longrightarrow> \<exists>d'. r = JObj d' \<and> (\<forall>t'. t' \<noteq> t \<longrightarrow> dget d' t' = dget d t')"
  shows "\<exists>d'. r = JObj d' \<and> (\<forall>t'. t' \<noteq> t \<longrightarrow> dget d' t' = dget d t')"
  using assms by (cases ts) (auto simp: res_simps split: option.splits)

lemma rfc_op_top:
  assumes "rfc_op name (t # ts) v (JObj d) = Inr r"
  shows "\<exists>d'. r = JObj d' \<and> (\<forall>t'. t' \<noteq> t \<longrightarrow> dget d' t' = dget d t')"
  using assms
proof -
  obtain f where f: "edit f (t # ts) (JObj d) = Inr r" and "f = remove_at \<or> (\<exists>v. f = add_at v \<or> f = replace_at v)"
    using assms by (auto simp: rfc_op_def split: if_splits option.splits)
  then have "\<exists>d'. r = JObj d' \<and> (\<forall>t'. t' \<noteq> t \<longrightarrow> dget d' t' = dget d t')" if "ts = []"
    using that by (auto split: if_splits)
  with f show ?thesis by (rule edit_top)
qed

lemma moves_top:
  assumes "json_ext E"
  shows "apply_moves E ms (JObj d) = Inr (r, ms') \<Longrightarrow> r \<noteq> JNull \<Longrightarrow>
     (\<forall>m \<in> set ms. path_split E (op_path (mv_patch m)) \<noteq> []) \<Longrightarrow>
     \<exists>d'. r = JObj d' \<and>
       (\<forall>t. t \<notin> (\<lambda>m. hd (path_split E (op_path (mv_patch m)))) ` set ms \<longrightarrow> dget d' t = dget d t)"
proof (induction ms arbitrary: d ms')
  case (Cons m ms)
  from Cons.prems(1,2) obtain c1 m1 ms1 where
    a: "move_apply E m (JObj d) = Inr (c1, m1)" "apply_moves E ms c1 = Inr (r, ms1)"
    by (auto simp: res_simps split: if_splits)
  from a(1) have "patch_apply E [mv_patch m] (JObj d) = Inr c1"
    by (auto simp: move_apply_def res_simps)
  then have rfc: "rfc_op (op (mv_patch m)) (path_split E (op_path (mv_patch m))) (op_value (mv_patch m)) (JObj d) = Inr c1"
    by (simp add: json_ext.apply_one [OF assms])
  obtain t ts where t: "path_split E (op_path (mv_patch m)) = t # ts"
    using Cons.prems(3) by (cases "path_split E (op_path (mv_patch m))") auto
  obtain d1 where d1: "c1 = JObj d1"
    "\<forall>t'. t' \<noteq> hd (path_split E (op_path (mv_patch m))) \<longrightarrow> dget d1 t' = dget d t'"
    using rfc_op_top [OF rfc [unfolded t]] t by auto
  from Cons.IH [of d1] a(2) d1(1) Cons.prems(2,3) obtain d' where "r = JObj d'"
    "\<forall>t. t \<notin> (\<lambda>m. hd (path_split E (op_path (mv_patch m)))) ` set ms \<longrightarrow> dget d' t = dget d1 t"
    by auto
  with d1(2) show ?case by auto
next
  case Nil
  then have "r = JObj d" by simp
  then show ?case by blast
qed

definition no_empty_tables :: "json \<Rightarrow> bool" where
  "no_empty_tables j \<longleftrightarrow> (\<exists>d. j = JObj d \<and> (\<forall>p \<in> set d. truthy (snd p)))"

lemma no_empty_tables_get: "no_empty_tables j \<longleftrightarrow> get_empty_tables j = Inr []"
  by (cases j) (auto simp: no_empty_tables_def get_empty_tables_def filter_empty_conv)

lemma no_empty_tables_lookup:
  "distinct (dkeys d) \<Longrightarrow> no_empty_tables (JObj d) \<longleftrightarrow> (\<forall>t v. dget d t = Some v \<longrightarrow> truthy v)"
  by (auto simp: no_empty_tables_def dget_Some_iff)

lemma step_no_empty:
  assumes E: "json_ext E" and g: "built_group E g"
    and v: "no_empty_table_validate E g d r = Inr (True, msg)"
    and a: "group_result E g (JObj c) = Inr r" and nn: "r \<noteq> JNull"
    and c: "no_empty_tables (JObj c)" "wf_json r"
  shows "no_empty_tables r"
proof -
  obtain ms where am: "apply_moves E (mg_moves g) (JObj c) = Inr (r, ms)"
    using a by (auto simp: group_result_def group_apply_def res_simps)
  have path: "op_path (mv_patch m) = mv_path m" if "m \<in> set (mg_moves g)" for m
    using g that built_path by (auto simp: built_group_def)
  have ok: "no_empty_table_move E r m = Inr True" if "m \<in> set (mg_moves g)" for m
    using v that by (auto simp: no_empty_table_validate_def all_res_True_iff res_simps)
  show ?thesis
  proof (cases "\<exists>m \<in> set (mg_moves g). mv_path m = []")
    case True
    then obtain m where m: "m \<in> set (mg_moves g)" "mv_path m = []" by blast
    obtain d' where d': "r = JObj d'"
      using ok [OF m(1)] m(2) by (cases r) (auto simp: no_empty_table_move_def)
    have "truthy u" if "dget d' t = Some u" for t u
      using no_empty_table_kept [OF v m(1), of t u] m(2) that d' by simp
    with c(2) d' show ?thesis by (simp add: no_empty_tables_lookup)
  next
    case False
    have ne: "path_split E (op_path (mv_patch m)) \<noteq> []" if "m \<in> set (mg_moves g)" for m
      using ok [OF that] False that path [OF that]
      by (auto simp: no_empty_table_move_def get_path_tokens_def split: list.splits)
    obtain d' where d': "r = JObj d'"
      "\<forall>t. t \<notin> (\<lambda>m. hd (path_split E (op_path (mv_patch m)))) ` set (mg_moves g) \<longrightarrow> dget d' t = dget c t"
      using moves_top [OF E am nn] ne by blast
    have "truthy u" if u: "dget d' t = Some u" for t u
    proof (cases "t \<in> (\<lambda>m. hd (path_split E (op_path (mv_patch m)))) ` set (mg_moves g)")
      case True
      then obtain m where m: "m \<in> set (mg_moves g)" "t = hd (path_split E (op_path (mv_patch m)))" by blast
      with no_empty_table_kept [OF v m(1), of t u] path [OF m(1)] u d'(1) show ?thesis
        by (simp add: get_path_tokens_def)
    next
      case False
      with d'(2) u have "dget c t = Some u" by simp
      with c(1) show ?thesis by (force simp: no_empty_tables_def dest: dget_SomeD)
    qed
    with c(2) d' show ?thesis by (simp add: no_empty_tables_lookup)
  qed
qed

text \<open>
  A configuration of dictionaries of tables, of entries and of fields.  The YANG validation sees to it for the
  tables that have a model; \<open>loadData\<close> skips the others, of which nothing is known.  Whether the store can give
  an entry back is no part of it.
\<close>

definition table_at :: "json \<Rightarrow> string \<Rightarrow> json option" where
  "table_at j t = (case j of JObj d \<Rightarrow> dget d t | _ \<Rightarrow> None)"

definition dict_table :: "json \<Rightarrow> bool" where
  "dict_table u \<longleftrightarrow> (\<exists>e. u = JObj e \<and> (\<forall>k v. dget e k = Some v \<longrightarrow> is_obj v))"

definition dict_config :: "json \<Rightarrow> bool" where
  "dict_config c \<longleftrightarrow> wf_json c \<and> is_obj c \<and> (\<forall>t u. table_at c t = Some u \<longrightarrow> dict_table u)"

definition schema_sound :: "'x yang_ext_scheme \<Rightarrow> (string \<Rightarrow> bool) \<Rightarrow> bool" where
  "schema_sound E has_model \<longleftrightarrow>
     (\<forall>c msg. validate_config E c = Inr (True, msg) \<longrightarrow>
        wf_json c \<and> is_obj c \<and> (\<forall>t u. has_model t \<and> table_at c t = Some u \<longrightarrow> dict_table u))"

text \<open>The planned changes leave the tables without a model as they are.\<close>

definition leaves_alone :: "'x ext_scheme \<Rightarrow> (string \<Rightarrow> bool) \<Rightarrow> change list \<Rightarrow> json \<Rightarrow> bool" where
  "leaves_alone E has_model changes c0 \<longleftrightarrow>
     (\<forall>cs. apply_changes E changes c0 = Inr cs \<longrightarrow>
        (\<forall>c \<in> set cs. \<forall>t. \<not> has_model t \<longrightarrow> table_at c t = table_at c0 t))"

lemma schema_soundD:
  assumes "schema_sound E M" and "validate_config E c = Inr (True, msg)"
  shows "wf_json c" and "is_obj c" and "M t \<Longrightarrow> table_at c t = Some u \<Longrightarrow> dict_table u"
  using assms unfolding schema_sound_def by blast+

lemma schema_sound_rejects: "schema_sound E M \<Longrightarrow> rejects_null E"
  by (fastforce simp: schema_sound_def rejects_null_def)

lemma valid_dict_config:
  assumes "schema_sound E M" and "validate_config E c = Inr (True, msg)"
    and "\<And>t. \<not> M t \<Longrightarrow> table_at c t = table_at c0 t" and "dict_config c0"
  shows "dict_config c"
  using schema_soundD [OF assms(1,2)] assms(3,4) unfolding dict_config_def by metis

lemma dict_configD:
  assumes "dict_config c"
  shows "wf_json c" and "\<exists>d. tables_of c = Some d" and "entry c t k = Some v \<Longrightarrow> config_entry v \<and> v \<noteq> JNull"
proof -
  obtain d where d: "c = JObj d" and w: "wf_json (JObj d)"
    and t: "\<And>t u. dget d t = Some u \<Longrightarrow> dict_table u"
    using assms by (cases c) (auto simp: dict_config_def table_at_def simp del: wf_json.simps)
  show "wf_json c" using d w by simp
  have "dict_table (snd p)" if "p \<in> set d" for p
    using t [of "fst p" "snd p"] that w by (simp add: dget_Some_iff)
  then have "list_all (\<lambda>p. is_obj (snd p)) d" by (fastforce simp: list_all_iff dict_table_def)
  then show "\<exists>d. tables_of c = Some d" using d by (simp add: tables_of_def)
  assume e: "entry c t k = Some v"
  then have "is_obj v" using t d by (fastforce simp: entry_def dict_table_def split: option.splits json.splits)
  moreover have "wf_json v" using wf_entry [of c] w d e by (metis (full_types))
  ultimately show "config_entry v \<and> v \<noteq> JNull" by (auto simp: config_entry_def)
qed

text \<open>
  The entries ConfigDB has a representation for: the fields hold strings or lists of strings without commas,
  which separate the items of a stored list; \<open>NULL\<close> stands for an entry without fields and \<open>@\<close> ends the
  stored name of a list.  Only of an empty list \<open>remove_empty_leaf_lists\<close> says that it is not read back.
\<close>

fun leaf_value :: "json \<Rightarrow> bool" where
  "leaf_value (JStr s) = True"
| "leaf_value (JList xs) =
     list_all (\<lambda>x. case x of JStr s \<Rightarrow> s \<noteq> [] \<and> CHR '','' \<notin> set s | _ \<Rightarrow> False) xs"
| "leaf_value _ = False"

definition leaf_entry :: "json \<Rightarrow> bool" where
  "leaf_entry v =
     (case v of
        JObj e \<Rightarrow> list_all (\<lambda>(f, w). f \<noteq> ''NULL'' \<and> \<not> endswith f ''@'' \<and> leaf_value w) e
      | _ \<Rightarrow> False)"

definition keeps_leaves :: "(json \<Rightarrow> json) \<Rightarrow> bool" where
  "keeps_leaves stored \<longleftrightarrow>
     (\<forall>v. wf_json v \<and> leaf_entry v \<and> (\<forall>f. py_getitem v (TStr f) \<noteq> Inr (JList [])) \<longrightarrow> json_eq (stored v) v)"

text \<open>The simulated target has no empty list, so the store keeps its entries.\<close>

lemma target_kept:
  assumes "simulate_config_db_patch E patch c = Inr target" and "keeps_leaves stored"
    and "entry target t k = Some v" and "leaf_entry v" and "wf_json target"
  shows "json_eq (stored v) v"
proof -
  have "no_empty_leaf_list target"
    using assms(1) remove_empty_leaf_lists_clean
    by (auto simp: simulate_config_db_patch_def res_simps)
  moreover have "py_path target [TStr t, TStr k] = Inr v"
    using assms(3) by (auto simp: entry_def split: json.splits option.splits)
  moreover have "is_obj v" using assms(4) by (auto simp: leaf_entry_def split: json.splits)
  ultimately have "py_getitem v (TStr f) \<noteq> Inr (JList [])" for f
    unfolding no_empty_leaf_list_def by blast
  moreover have "wf_json v" using assms(3,5) by (auto intro: wf_entry)
  ultimately show ?thesis using assms(2,4) unfolding keeps_leaves_def by blast
qed

lemma replay_no_empty:
  assumes "replay (factory_env E h n) U d ms d'" and "json_ext E" and "schema_sound E M"
    and "no_empty_tables (current_config d)"
  shows "\<exists>cs. apply_changes E (map get_jsonpatch ms) (current_config d) = Inr cs \<and>
           last (current_config d # cs) = current_config d' \<and> target_config d' = target_config d \<and>
           (\<forall>c \<in> set cs. no_empty_tables c \<and> (\<exists>msg. validate_config E c = Inr (True, msg)))"
  using assms(1,4)
proof (induction rule: replay.induct)
  case (replay_cons d g d1 ms d2)
  obtain msg where val: "validate_config E (current_config d1) = Inr (True, msg)"
    using passes_valid [OF replay_cons(1)] by blast
  then have nn: "current_config d1 \<noteq> JNull" and wf: "wf_json (current_config d1)"
    using schema_sound_rejects [OF assms(3)] schema_soundD(1) [OF assms(3)] by (auto simp: rejects_null_def)
  note r = passes_factory(2) [OF replay_cons(1)]
  have p: "patch_apply E (get_jsonpatch g) (current_config d) = Inr (current_config d1)"
    using json_ext.group_result_patch [OF assms(2) r nn] .
  obtain x where "g \<in> set (fst (wrapper_generate (factory_wrapper E) n x))"
    using replay_cons(1) by (auto simp: passes_def factory_env_def wrapper_env_def)
  then have "built_group E g" by (intro wrapper_yields_built wrapper_generate_offered)
  moreover obtain msg' where "no_empty_table_validate E g d (current_config d1) = Inr (True, msg')"
    using passes_factory(3) [OF replay_cons(1)] by (auto simp: factory_wrapper_def)
  moreover obtain c where "current_config d = JObj c"
    using replay_cons(4) by (auto simp: no_empty_tables_def)
  ultimately have "no_empty_tables (current_config d1)"
    using step_no_empty [OF assms(2)] r nn wf replay_cons(4) by metis
  with replay_cons(3) obtain cs where
    "apply_changes E (map get_jsonpatch ms) (current_config d1) = Inr cs"
    "last (current_config d1 # cs) = current_config d2" "target_config d2 = target_config d1"
    "\<forall>c \<in> set cs. no_empty_tables c \<and> (\<exists>msg. validate_config E c = Inr (True, msg))" by blast
  with p val \<open>no_empty_tables (current_config d1)\<close> passes_factory(1) [OF replay_cons(1)]
  show ?case by auto
qed simp

section \<open>Applying the sorted changes to the store\<close>

text \<open>No service command raises; a command that fails is only logged.\<close>

definition services_quiet ::
  "json option \<Rightarrow> (string \<Rightarrow> json \<Rightarrow> json \<Rightarrow> upd_keys \<Rightarrow> json res) \<Rightarrow> bool" where
  "services_quiet conf invoke \<longleftrightarrow> (\<forall>old upd keys. \<exists>r. services_validate conf invoke old upd keys = Inr r)"

lemma prune_id: "no_empty_tables j \<Longrightarrow> prune_empty_table j = Inr j"
  by (auto simp: no_empty_tables_def prune_empty_table_def filter_id_conv)

lemma table_dict_tables: "tables_of (JObj d) = Some d' \<Longrightarrow> \<exists>e. table_dict d t = Inr e"
  using tables_of_obj(2) [of "JObj d" d' t] tables_of_obj(1) [of "JObj d" d']
  by (cases "dget d t") (auto simp: table_dict_def dict_of_def)

lemma upd_tables_total:
  "tables_of (JObj run) = Some r \<Longrightarrow> tables_of (JObj upd) = Some u \<Longrightarrow>
     \<exists>s'. upd_tables S run upd tbls s = (Inr (), s')"
proof (induction tbls arbitrary: s)
  case (Cons tbl tbls)
  obtain a b where "table_dict run tbl = Inr a" "table_dict upd tbl = Inr b"
    using table_dict_tables [OF Cons.prems(1)] table_dict_tables [OF Cons.prems(2)] by metis
  with Cons show ?case by simp
qed simp

lemma change_apply_total:
  assumes "patch_apply E change cur = Inr upd" and "no_empty_tables upd"
    and "tables_of cur = Some r" and "tables_of upd = Some u" and "services_quiet conf invoke"
  shows "\<exists>c'. change_apply E S conf invoke cur change c = (Inr upd, c')"
proof -
  have o: "cur = JObj r" "upd = JObj u" using assms(3,4) tables_of_obj(1) by blast+
  obtain keys c' where k: "upd_tables S r u (sort (union_keys r u)) ([], c) = (Inr (), keys, c')"
    using upd_tables_total [where S = S and tbls = "sort (union_keys r u)" and s = "([], c)"] assms(3,4) o
    by (metis prod.collapse)
  obtain x where "services_validate conf invoke cur upd keys = Inr x"
    using assms(5) unfolding services_quiet_def by metis
  with k assms(1) prune_id [OF assms(2)] o show ?thesis
    by (auto simp: change_apply_def dict_of_def)
qed

lemma shaped_of_valid:
  assumes "wf_json j" and "tables_of j = Some d" and "no_empty_tables j"
    and "\<forall>t k v. entry j t k = Some v \<longrightarrow> v \<noteq> JNull"
  shows "config_shaped j"
proof -
  have j: "j = JObj d" using assms(2) by (rule tables_of_obj)
  have "table_shaped v" if v: "dget d t = Some v" for t v
  proof -
    obtain e where e: "v = JObj e" using tables_of_obj(2) [OF assms(2) v] by blast
    have "truthy v" using v assms(3) j by (force simp: no_empty_tables_def dest: dget_SomeD)
    moreover have "dget e k \<noteq> Some JNull" for k
    proof
      assume "dget e k = Some JNull"
      then have "entry j t k = Some JNull" using v e j by (simp add: entry_def)
      with assms(4) show False by blast
    qed
    ultimately show ?thesis using e by (auto simp: table_shaped_def)
  qed
  with assms(1) j show ?thesis by (simp add: config_shaped_def)
qed

lemma shaped_tables:
  assumes "config_shaped j"
  shows "\<exists>d. tables_of j = Some d" and "no_empty_tables j"
proof -
  obtain d where d: "j = JObj d" "wf_json (JObj d)" "\<And>t v. dget d t = Some v \<Longrightarrow> table_shaped v"
    using assms by (auto simp: config_shaped_def simp del: wf_json.simps)
  have "table_shaped (snd p)" if "p \<in> set d" for p
  proof -
    have "dget d (fst p) = Some (snd p)" using that d(2) by (simp add: dget_Some_iff)
    then show ?thesis by (rule d(3))
  qed
  then show "\<exists>d. tables_of j = Some d" and "no_empty_tables j"
    using d(1) by (fastforce simp: tables_of_def no_empty_tables_def list_all_iff table_shaped_def)+
qed

lemma apply_in_order_chain:
  assumes laws: "store_forms S config_entry stored" and quiet: "services_quiet conf invoke"
  shows "apply_changes E changes cur = Inr cs \<Longrightarrow> config_shaped cur \<Longrightarrow>
    \<forall>c \<in> set cs. no_empty_tables c \<and> dict_config c \<Longrightarrow>
    store_forms.tracks S stored cur c \<Longrightarrow> config_shaped (cs_read S c) \<Longrightarrow>
    \<exists>c'. apply_in_order (real_applier E S conf invoke) changes cur c = (Inr (last (cur # cs)), c') \<and>
         store_forms.tracks S stored (last (cur # cs)) c' \<and> config_shaped (last (cur # cs)) \<and>
         config_shaped (cs_read S c')"
proof (induction changes arbitrary: cur cs c)
  case (Cons ch chs)
  from Cons.prems(1) obtain c1 cs1 where c1: "patch_apply E ch cur = Inr c1"
    "apply_changes E chs c1 = Inr cs1" "cs = c1 # cs1" by (auto simp: res_simps)
  from Cons.prems(3) c1(3) have ok: "no_empty_tables c1" "dict_config c1" by auto
  note valid = dict_configD [OF ok(2)]
  obtain d1 where d1: "tables_of c1 = Some d1" using valid(2) by blast
  have w: "store_forms.writable config_entry c1"
    using valid(1,3) by (simp add: store_forms.writable_def [OF laws])
  obtain d where "tables_of cur = Some d" using shaped_tables(1) [OF Cons.prems(2)] by blast
  then obtain c' where c': "change_apply E S conf invoke cur ch c = (Inr c1, c')"
    using change_apply_total [OF c1(1) ok(1) _ d1 quiet, where S = S and c = c] by blast
  have "store_forms.tracks S stored c1 c'"
    using store_forms.change_apply_tracks [OF laws c' Cons.prems(4) w] .
  moreover have "config_shaped (cs_read S c')"
    using store_forms.change_apply_shaped [OF laws c' w Cons.prems(5)] .
  moreover have "config_shaped c1" using valid d1 ok(1) by (intro shaped_of_valid) auto
  ultimately obtain c'' where
    "apply_in_order (real_applier E S conf invoke) chs c1 c' = (Inr (last (c1 # cs1)), c'')"
    "store_forms.tracks S stored (last (c1 # cs1)) c''" "config_shaped (last (c1 # cs1))"
    "config_shaped (cs_read S c'')"
    using Cons.IH [OF c1(2)] Cons.prems(3) c1(3) by auto
  with c1(3) c' show ?case by (auto simp: real_applier_def)
qed (auto simp: real_applier_def)

section \<open>The final comparison\<close>

lemma json_eq_objI:
  assumes "wf_json (JObj xs)" and "wf_json (JObj ys)"
    and "\<And>k. rel_option json_eq (dget xs k) (dget ys k)"
  shows "json_eq (JObj xs) (JObj ys)"
proof -
  have "dget xs k = None \<longleftrightarrow> dget ys k = None" for k
    using assms(3) [of k] by (cases "dget xs k"; cases "dget ys k") auto
  then have "set (dkeys xs) = set (dkeys ys)" by (auto simp: dget_None_iff)
  with assms(1,2) have "length xs = length ys"
    by (metis distinct_card dkeys_def length_map wf_json.simps(2))
  moreover have "case dget ys (fst p) of None \<Rightarrow> False | Some w \<Rightarrow> json_eq (snd p) w" if "p \<in> set xs" for p
  proof -
    have "dget xs (fst p) = Some (snd p)" using that assms(1) by (simp add: dget_Some_iff)
    with assms(3) [of "fst p"] show ?thesis by (cases "dget ys (fst p)") auto
  qed
  ultimately show ?thesis by (simp add: list_all_iff)
qed

lemma json_eq_JNull: "json_eq x JNull \<Longrightarrow> x = JNull" "json_eq JNull x \<Longrightarrow> x = JNull"
  by (cases x; simp)+

lemma unchanged_rel:
  assumes "\<not> entry_changed a b" and "a \<noteq> Some JNull" and "b \<noteq> Some JNull"
  shows "rel_option json_eq a b"
  using assms json_eq_JNull by (cases a; cases b) (fastforce simp: entry_changed_def opt_json_def)+

lemma shaped_entries_eq:
  assumes a: "config_shaped a" and b: "config_shaped b"
    and same: "\<And>t k. \<not> entry_changed (entry a t k) (entry b t k)"
  shows "json_eq a b"
proof -
  obtain d where d: "a = JObj d" "wf_json (JObj d)" "\<And>t v. dget d t = Some v \<Longrightarrow> table_shaped v"
    using a by (auto simp: config_shaped_def simp del: wf_json.simps)
  obtain f where f: "b = JObj f" "wf_json (JObj f)" "\<And>t v. dget f t = Some v \<Longrightarrow> table_shaped v"
    using b by (auto simp: config_shaped_def simp del: wf_json.simps)
  have nn: "entry a t k \<noteq> Some JNull" "entry b t k \<noteq> Some JNull" for t k
    using d(3) [of t] f(3) [of t] d(1) f(1)
    by (auto simp: entry_def table_shaped_def split: option.splits json.splits)
  have rel: "rel_option json_eq (entry a t k) (entry b t k)" for t k
    using same nn by (rule unchanged_rel)
  have some: "\<exists>k v. entry (JObj x) t k = Some v" if x: "dget x t = Some u" and u: "table_shaped u" and w: "wf_json (JObj x)" for x t u
  proof -
    obtain e where e: "u = JObj e" "e \<noteq> []" using u by (auto simp: table_shaped_def)
    then obtain k v e' where "e = (k, v) # e'" by (cases e) auto
    with x e(1) have "entry (JObj x) t k = Some v" by (simp add: entry_def)
    then show ?thesis by blast
  qed
  have none: "dget d t = None \<longleftrightarrow> dget f t = None" for t
  proof -
    have "dget f t \<noteq> None" if "dget d t = Some u" for u
    proof
      assume n: "dget f t = None"
      have "\<exists>k v. entry a t k = Some v" using some [OF that d(3) [OF that] d(2)] d(1) by simp
      then obtain k v where "entry a t k = Some v" by blast
      moreover have "entry b t k = None" using n f(1) by (simp add: entry_def)
      ultimately show False using rel [of t k] by simp
    qed
    moreover have "dget d t \<noteq> None" if "dget f t = Some u" for u
    proof
      assume n: "dget d t = None"
      have "\<exists>k v. entry b t k = Some v" using some [OF that f(3) [OF that] f(2)] f(1) by simp
      then obtain k v where "entry b t k = Some v" by blast
      moreover have "entry a t k = None" using n d(1) by (simp add: entry_def)
      ultimately show False using rel [of t k] by simp
    qed
    ultimately show ?thesis by (cases "dget d t"; cases "dget f t") auto
  qed
  have "rel_option json_eq (dget d t) (dget f t)" for t
  proof (cases "dget d t")
    case None
    with none show ?thesis by simp
  next
    case (Some u)
    then obtain w where w: "dget f t = Some w" using none [of t] by (cases "dget f t") auto
    obtain e e' where e: "u = JObj e" "w = JObj e'"
      using d(3) [OF Some] f(3) [OF w] by (auto simp: table_shaped_def)
    have "rel_option json_eq (dget e k) (dget e' k)" for k
      using rel [of t k] Some w e d(1) f(1) by (simp add: entry_def)
    with wf_json_dget [OF d(2) Some] wf_json_dget [OF f(2) w] e have "json_eq u w"
      using json_eq_objI by blast
    with Some w show ?thesis by simp
  qed
  with json_eq_objI [OF d(2) f(2)] d(1) f(1) show ?thesis by simp
qed

lemma json_eq_ddel:
  assumes "json_eq (JObj a) (JObj b)" and "wf_json (JObj a)" and "wf_json (JObj b)"
  shows "json_eq (JObj (ddel k a)) (JObj (ddel k b))"
  using json_eq_obj_get [OF assms] wf_json_ddel [OF assms(2)] wf_json_ddel [OF assms(3)]
  by (intro json_eq_objI) auto

lemma json_eq_backend:
  assumes "json_eq (JObj a) (JObj b)" and "wf_json (JObj a)" and "wf_json (JObj b)"
  shows "\<exists>x y. remove_backend_tables_from_config (JObj a) = Inr x \<and>
           remove_backend_tables_from_config (JObj b) = Inr y \<and> json_eq x y"
proof -
  have "json_eq (JObj (foldr ddel ks a)) (JObj (foldr ddel ks b)) \<and>
      wf_json (JObj (foldr ddel ks a)) \<and> wf_json (JObj (foldr ddel ks b))" for ks
    using assms
    by (induction ks) (auto simp del: json_eq.simps wf_json.simps intro: json_eq_ddel wf_json_ddel)
  then show ?thesis by (simp add: remove_backend_tables_from_config_def dict_of_def del: json_eq.simps)
qed

text \<open>What \<open>make_patch\<close> documents about equal documents.\<close>

definition diff_lawful :: "'x ext_scheme \<Rightarrow> bool" where
  "diff_lawful E \<longleftrightarrow> (\<forall>a b. make_patch E a b = [] \<longleftrightarrow> json_eq a b)"

lemma ddel_absent: "dget d k = None \<Longrightarrow> ddel k d = d"
  by (induction d) (auto simp: ddel_def split: if_splits)

lemma tracks_self:
  assumes "store_forms S takes stored"
    and "\<And>t k v. entry (cs_read S c) t k = Some v \<Longrightarrow> json_eq v (stored v)"
  shows "store_forms.tracks S stored (cs_read S c) c"
proof -
  have "json_eq (opt_json (entry (cs_read S c) t k)) (stored (opt_json (entry (cs_read S c) t k)))" for t k
    using store_forms.stored_null [OF assms(1)] assms(2) [of t k]
    by (cases "entry (cs_read S c) t k") (simp_all add: opt_json_def)
  then show ?thesis by (simp add: store_forms.tracks_def [OF assms(1)])
qed

text \<open>Equal configurations have equal entries.\<close>

lemma json_eq_entry:
  assumes "json_eq (JObj a) (JObj b)" and "wf_json (JObj a)" and "wf_json (JObj b)"
  shows "rel_option json_eq (entry (JObj a) t k) (entry (JObj b) t k)"
proof (cases "dget a t")
  case None
  then show ?thesis using json_eq_obj_get [OF assms, of t] by (cases "dget b t") (auto simp: entry_def)
next
  case (Some u)
  then obtain w where w: "dget b t = Some w" "json_eq u w"
    using json_eq_obj_get [OF assms, of t] by (cases "dget b t") auto
  note wf = wf_json_dget [OF assms(2) Some] wf_json_dget [OF assms(3) w(1)]
  show ?thesis
  proof (cases "is_obj u")
    case True
    then obtain e f where "u = JObj e" "w = JObj f" using w(2) by (cases u; cases w) auto
    with Some w wf json_eq_obj_get show ?thesis by (simp add: entry_def del: json_eq.simps wf_json.simps)
  next
    case False
    with w(2) have "\<not> is_obj w" by (cases u; cases w) auto
    with False Some w(1) show ?thesis by (auto simp: entry_def split: json.splits)
  qed
qed

text \<open>
  A store that tracks a configuration equal to a target whose entries it keeps holds that configuration.
\<close>

lemma tracked_target:
  assumes laws: "store_forms S takes stored" and tr: "store_forms.tracks S stored cur c"
    and eq: "json_eq cur target" and sh: "config_shaped cur" "config_shaped (cs_read S c)"
    and t: "target = JObj td" "wf_json target"
    and keep: "\<And>t k v. entry target t k = Some v \<Longrightarrow> json_eq (stored v) v"
  shows "json_eq (cs_read S c) cur"
proof (rule shaped_entries_eq [OF sh(2,1)])
  fix t k
  obtain x where x: "cur = JObj x" "wf_json (JObj x)"
    using sh(1) by (auto simp: config_shaped_def simp del: wf_json.simps)
  have rel: "rel_option json_eq (entry cur t k) (entry target t k)"
    using json_eq_entry [of x td] eq x t by simp
  have "json_eq (stored (opt_json (entry cur t k))) (opt_json (entry cur t k))"
  proof (cases "entry cur t k")
    case None
    then show ?thesis using store_forms.stored_null [OF laws] by (simp add: opt_json_def)
  next
    case (Some v)
    with rel obtain w where w: "entry target t k = Some w" "json_eq v w"
      by (cases "entry target t k") auto
    have "wf_json v" "wf_json w" using Some w(1) x t(2) wf_entry by blast+
    then have "json_eq w v" using w(2) json_eq_sym by blast
    moreover have "json_eq (stored v) (stored w)" using store_forms.stored_eq [OF laws w(2)] .
    ultimately show ?thesis
      using keep [OF w(1)] Some by (auto simp: opt_json_def intro: json_eq_trans)
  qed
  with tr show "\<not> entry_changed (entry (cs_read S c) t k) (entry cur t k)"
    by (auto simp: store_forms.tracks_def [OF laws] entry_changed_def intro: json_eq_trans)
qed

lemma strict_apply_succeeds:
  assumes laws: "store_forms S config_entry stored" "keeps_leaves stored" and E: "json_ext E" "diff_lawful E"
    and sound: "schema_sound E M" and quiet: "services_quiet conf invoke"
    and store: "config_shaped (cs_read S c)" "cs_read S c = JObj d" "dget d ''bgpraw'' = None"
    and dicts: "dict_config (JObj d)" and alone: "leaves_alone E M changes (JObj d)"
    and kept: "\<forall>t k v. entry (JObj d) t k = Some v \<longrightarrow> json_eq v (stored v)"
    and plan: "plan_changes E permitted (\<lambda>running p. strict_sort E Y h n running p alg) patch True (JObj d)
                 = Inr (target, changes)"
    and no_raw: "py_in (TStr ''bgpraw'') target = Inr False"
    and leaves: "\<forall>t k v. entry target t k = Some v \<longrightarrow> leaf_entry v"
    and hash: "sorter_ok alg (factory_env E h n) \<lparr>current_config = JObj d, target_config = target\<rparr>"
  shows "\<exists>c'. patch_applier_apply E (real_applier E S conf invoke) permitted
                (\<lambda>running p. strict_sort E Y h n running p alg) patch True c = (Inr (), c') \<and>
              json_eq (cs_read S c') target"
proof -
  let ?A = "real_applier E S conf invoke"
  let ?d = "\<lparr>current_config = JObj d, target_config = target\<rparr>"
  from plan have sim: "simulate_config_db_patch E patch (JObj d) = Inr target"
    and sort: "strict_sort E Y h n (JObj d) patch alg = Inr changes"
    by (auto simp: plan_changes_def res_simps split: if_splits)
  from strict_sort_patch_sort [OF sort] sim obtain msg where
    ps: "patch_sort E h n (JObj d) patch alg None = Inr changes"
    and tv: "validate_config E target = Inr (True, msg)" by auto
  note tw = schema_soundD(1,2) [OF sound tv]
  then obtain td where td: "target = JObj td" "wf_json (JObj td)"
    by (cases target) (auto simp del: wf_json.simps)
  from ps sim obtain ms where ms: "create_sorter alg (factory_env E h n) n ?d = Inr (Some ms)"
    "changes = map get_jsonpatch ms"
    by (auto simp: patch_sort_def Let_def res_simps split: option.splits)
  obtain d' where d': "replay (factory_env E h n) {x. reachable (factory_env E h n) ?d x} ?d ms d'"
      "se_done (factory_env E h n) d'"
    using create_sorter_sound [OF hash ms(1)] by blast
  have ne: "no_empty_tables (current_config ?d)" using shaped_tables(2) [OF store(1)] store(2) by simp
  obtain cs where cs: "apply_changes E changes (JObj d) = Inr cs"
    "last (JObj d # cs) = current_config d'" "target_config d' = target"
    "\<forall>c \<in> set cs. no_empty_tables c \<and> (\<exists>msg. validate_config E c = Inr (True, msg))"
    using replay_no_empty [OF d'(1) E(1) sound ne] ms(2) by auto
  have eq: "json_eq (last (JObj d # cs)) target"
    using d'(2) cs(2,3) by (simp add: factory_env_def wrapper_env_def has_no_diff_def)
  have sh: "config_shaped (JObj d)" using store(1,2) by simp
  have "store_forms.tracks S stored (JObj d) c"
    using tracks_self [OF laws(1), of c] kept store(2) by simp
  moreover have "\<forall>c \<in> set cs. no_empty_tables c \<and> dict_config c"
    using cs(1,4) valid_dict_config [OF sound _ _ dicts] alone unfolding leaves_alone_def by blast
  ultimately
  obtain c' where c': "apply_in_order ?A changes (JObj d) c = (Inr (last (JObj d # cs)), c')"
    "store_forms.tracks S stored (last (JObj d # cs)) c'" "config_shaped (last (JObj d # cs))"
    "config_shaped (cs_read S c')"
    using apply_in_order_chain [OF laws(1) quiet cs(1) sh _ _ store(1)] by blast
  have "json_eq (cs_read S c') (last (JObj d # cs))"
    using tracked_target [OF laws(1) c'(2) eq c'(3,4) td(1)] target_kept [OF sim laws(2)] leaves tw(1)
    by blast
  then have fin: "json_eq (cs_read S c') target" using eq json_eq_trans by blast
  obtain r where r: "cs_read S c' = JObj r" "wf_json (JObj r)"
    using c'(4) by (auto simp: config_shaped_def simp del: wf_json.simps)
  have rev: "json_eq (JObj td) (JObj r)"
    using json_eq_sym fin r td by (metis r(1) td(1))
  have "dget td ''bgpraw'' = None" using no_raw td(1) by (simp add: dhas_def)
  then have "dget r ''bgpraw'' = None"
    using json_eq_obj_get [OF rev td(2) r(2), of "''bgpraw''"] by (cases "dget r ''bgpraw''") auto
  then have read': "ca_read ?A c' = Inr (JObj r)"
    by (simp add: real_applier_def running_config_def dict_of_def r(1) ddel_absent)
  obtain x y where xy: "remove_backend_tables_from_config (JObj td) = Inr x"
    "remove_backend_tables_from_config (JObj r) = Inr y" "json_eq x y"
    using json_eq_backend [OF rev td(2) r(2)] by blast
  have "verify_update E ?A target msg' c' = Inr ()" for msg'
    using read' xy E(2) td(1)
    by (simp add: verify_update_def real_applier_def verify_same_json_def diff_lawful_def)
  moreover have "ca_read ?A c = Inr (JObj d)"
    using store(2,3) by (simp add: real_applier_def running_config_def dict_of_def ddel_absent)
  ultimately have "patch_applier_apply E ?A permitted (\<lambda>running p. strict_sort E Y h n running p alg) patch True c
      = (Inr (), c')"
    using plan c'(1) by (simp add: patch_applier_apply_def)
  with fin show ?thesis by blast
qed

end
