(* ===== verification/Samples.thy ===== *)
theory Samples
  imports UpdaterFacts
begin

text \<open>
  Concrete instances of the packages the program is parameterised by, at which the properties are
  applied: paths and patches as RFC 6901 and RFC 6902 define them, a schema that has a model
  for every table but those named \<open>FREE\<close> and accepts every dictionary of dictionaries in it, without
  references, and the services of a device without validators.
\<close>

definition sample_table :: "json \<Rightarrow> bool" where
  "sample_table t = (case t of JObj e \<Rightarrow> list_all (\<lambda>q. is_obj (snd q)) e | _ \<Rightarrow> False)"

definition sample_valid :: "json \<Rightarrow> bool" where
  "sample_valid c =
     (wf_json c \<and>
      (case c of
         JObj d \<Rightarrow> list_all (\<lambda>p. fst p = ''FREE'' \<or> sample_table (snd p)) d
       | _ \<Rightarrow> False))"

definition sample_ext :: schema_ext where
  "sample_ext =
     \<lparr>path_split = ptr_split, path_join = ptr_join,
      pointer_get = (\<lambda>p j. ptr_get (ptr_split p) j),
      patch_apply = rfc_patch,
      make_patch = (\<lambda>a b. if json_eq a b then [] else [\<lparr>op = ''replace'', op_path = [], op_value = Some b\<rparr>]),
      find_refs = (\<lambda>_ _ _. Inr []),
      validate_config = (\<lambda>c. Inr (sample_valid c, None)),
      with_wrapper = False, schema_xpath = (\<lambda>_. None), schema_dependencies = (\<lambda>_. []),
      schema_must_count = (\<lambda>_. 0)\<rparr>"

lemma sample_json_ext: "json_ext sample_ext"
proof unfold_locales
  fix ts :: "token list" assume "map tok_str ts \<noteq> [[]]"
  then show "path_split sample_ext (path_join sample_ext ts) = map tok_str ts"
    by (simp add: sample_ext_def ptr_split_join)
qed (simp_all add: sample_ext_def)

interpretation sample: json_ext sample_ext
  by (rule sample_json_ext)

lemma sample_diff_lawful: "diff_lawful sample_ext"
  by (simp add: diff_lawful_def sample_ext_def)

lemma sample_rejects_null: "rejects_null sample_ext"
  by (simp add: rejects_null_def sample_ext_def sample_valid_def)

definition sample_yang :: yang_lib where
  "sample_yang =
     \<lparr>load_data = (\<lambda>_. Inr ()), load_effect = (\<lambda>_ c. Some c), data_dependencies = (\<lambda>_ _. Inr []),
      path_to_xpath = (\<lambda>p _. Inr p), xpath_to_path = (\<lambda>p _. Inr p),
      crop_tables = (\<lambda>c. case c of JObj d \<Rightarrow> JObj (filter (\<lambda>p. fst p \<noteq> ''FREE'') d) | _ \<Rightarrow> c)\<rparr>"

definition sample_start :: json where
  "sample_start = JObj [(''VLAN'', JObj [(''V1'', JObj [(''mtu'', JStr ''1'')])])]"

definition sample_target :: json where
  "sample_target = JObj [(''VLAN'', JObj [(''V1'', JObj [(''mtu'', JStr ''2'')])])]"

definition sample_patch :: "operation list" where
  "sample_patch = [\<lparr>op = ''replace'', op_path = ''/VLAN/V1/mtu'', op_value = Some (JStr ''2'')\<rparr>]"

section \<open>One evaluated run of the sorter\<close>

definition sample_diff :: diff where
  "sample_diff = \<lparr>current_config = sample_start, target_config = sample_target\<rparr>"

definition sample_move :: json_move where
  "sample_move =
     \<lparr>mv_patch = hd sample_patch, mv_type = REPLACE, mv_path = ''/VLAN/V1/mtu'', mv_value = JStr ''2'',
      mv_current = [TStr ''VLAN'', TStr ''V1'', TStr ''mtu''],
      mv_target = Some [TStr ''VLAN'', TStr ''V1'', TStr ''mtu''], mv_orig = JNull\<rparr>"

definition sample_group :: move_group where
  "sample_group = move_group low_name (Some sample_move)"

lemma sample_non_extendable:
  "generate_all (mw_non_extendable (factory_wrapper sample_ext)) sample_diff = ([], None)"
  by code_simp

lemma sample_generators:
  "generate_all (mw_generators (factory_wrapper sample_ext)) sample_diff = ([sample_group], None)"
  by code_simp

lemma sample_generate:
  "\<exists>rest. fst (wrapper_generate (factory_wrapper sample_ext) n sample_diff) = sample_group # rest"
  using sample_non_extendable sample_generators
  by (simp add: wrapper_generate_def Let_def fresh_def fst_gen_app)

lemma sample_result: "group_result sample_ext sample_group sample_start = Inr sample_target"
  by code_simp

lemma sample_simulate:
  "simulate sample_ext sample_group sample_diff
     = Inr \<lparr>current_config = sample_target, target_config = sample_target\<rparr>"
  using sample_result by (simp add: simulate_def apply_move_def sample_diff_def)

lemma sample_accepts:
  "delete_whole_config_validate sample_group sample_diff sample_target = Inr (True, None)"
  "full_config_validate sample_ext sample_group sample_diff sample_target = Inr (True, None)"
  "no_dependency_validate sample_ext sample_group sample_diff sample_target = Inr (True, None)"
  "create_only_validate sample_ext sample_group sample_diff sample_target = Inr (True, None)"
  "required_value_validate sample_ext sample_group sample_diff sample_target = Inr (True, None)"
  "remove_create_only_dependency_validate sample_ext sample_group sample_diff sample_target
     = Inr (True, None)"
  "no_empty_table_validate sample_ext sample_group sample_diff sample_target = Inr (True, None)"
  by code_simp+

lemma sample_validate:
  "wrapper_validate sample_ext (factory_wrapper sample_ext) sample_group sample_diff = Inr (True, None)"
  using sample_result sample_accepts
  by (simp add: wrapper_validate_def factory_wrapper_def sample_diff_def accept_def)

lemma one_step_dfs:
  assumes "\<not> se_done S d" and "fst (se_generate S d) = m # rest" and "se_validate S m d = Inr (True, msg)"
    and "se_simulate S m d = Inr d'" and "se_done S d'"
  shows "dfs S (Suc (Suc n)) d = Inr (Some [m])"
  using assms by (simp add: dfs_def)

lemma sample_not_done: "\<not> has_no_diff sample_diff"
  by code_simp

lemma sample_dfs:
  "dfs (factory_env sample_ext h (Suc (Suc n))) (Suc (Suc n)) sample_diff = Inr (Some [sample_group])"
proof -
  obtain rest where "fst (wrapper_generate (factory_wrapper sample_ext) (Suc (Suc n)) sample_diff)
      = sample_group # rest"
    using sample_generate by blast
  moreover have "json_eq sample_target sample_target" by code_simp
  ultimately show ?thesis using sample_not_done sample_validate sample_simulate
    by (intro one_step_dfs) (auto simp: factory_env_def wrapper_env_def has_no_diff_def)
qed

lemma sample_simulated: "simulate_config_db_patch sample_ext sample_patch sample_start = Inr sample_target"
  by code_simp

lemma sample_patch_sort:
  "patch_sort sample_ext h (Suc (Suc n)) sample_start sample_patch DFS None = Inr [sample_patch]"
proof -
  have "get_jsonpatch sample_group = sample_patch" by code_simp
  with sample_simulated sample_dfs show ?thesis
    by (simp add: patch_sort_def create_sorter_def sample_diff_def Let_def)
qed

lemma sample_strict_sort:
  "strict_sort sample_ext sample_yang h (Suc (Suc n)) sample_start sample_patch DFS = Inr [sample_patch]"
proof -
  have "validate_config_db_patch_has_yang_models sample_ext sample_yang sample_patch = Inr True"
    "validate_config sample_ext sample_target = Inr (True, None)"
    by code_simp+
  with sample_simulated sample_patch_sort show ?thesis by (simp add: strict_sort_def)
qed

end
