(* ===== verification/SortProps.thy ===== *)
theory SortProps
  imports Samples
begin

text \<open>
  The properties of the search for an order of moves: the three sorters against the relation
  \<open>sorting\<close>, and the generator loop of \<open>MoveWrapper\<close> against the relation \<open>offered\<close>.

  The witnesses run the sorters with the generator of low-level moves and all validators on a patch that adds
  two fields in either order, under a hash that, as \<open>Diff.__hash__\<close>, is blind to the order of keys.  The
  finite search space is a table, and what the properties assume of it is checked by evaluation.
\<close>

section \<open>A search space as a table\<close>

definition accepted_step :: "('d, 'm) sort_env \<Rightarrow> 'm \<Rightarrow> 'd \<Rightarrow> 'd option" where
  "accepted_step S m d =
     (case se_validate S m d of
        Inr (ok, _) \<Rightarrow> if ok then (case se_simulate S m d of Inr d' \<Rightarrow> Some d' | Inl _ \<Rightarrow> None) else None
      | Inl _ \<Rightarrow> None)"

lemma accepted_step_iff:
  "accepted_step S m d = Some d' \<longleftrightarrow> (\<exists>msg. se_validate S m d = Inr (True, msg)) \<and> se_simulate S m d = Inr d'"
  by (auto simp: accepted_step_def split: sum.splits)

text \<open>A diff and what the wrapper generates for it.\<close>

type_synonym ('d, 'm) search_table = "('d \<times> 'm list) list"

definition table_moves :: "('d, 'm) search_table \<Rightarrow> 'm list" where
  "table_moves T = concat (map snd T)"

definition table_closed :: "('d, 'm) sort_env \<Rightarrow> ('d, 'm) search_table \<Rightarrow> bool" where
  "table_closed S T =
     list_all (\<lambda>(x, ms). se_generate S x = (ms, None) \<and>
       list_all (\<lambda>m. se_validate S m x \<noteq> Inl OutOfFuel \<and> se_simulate S m x \<noteq> Inl OutOfFuel \<and>
         (case accepted_step S m x of None \<Rightarrow> True | Some x' \<Rightarrow> x' \<in> set (map fst T))) (table_moves T)) T"

definition table_alike :: "('d, 'm) sort_env \<Rightarrow> ('d, 'm) search_table \<Rightarrow> bool" where
  "table_alike S T =
     list_all (\<lambda>(x, ms). list_all (\<lambda>(y, ns). se_hash S x = se_hash S y \<longrightarrow>
       (se_done S x \<longrightarrow> se_done S y) \<and>
       list_all (\<lambda>m. accepted_step S m x = None \<or>
         list_ex (\<lambda>n. map_option (se_hash S) (accepted_step S n y) = map_option (se_hash S) (accepted_step S m x)) ns) ms \<and>
       list_all (\<lambda>m. map_option (se_hash S) (accepted_step S m y) = map_option (se_hash S) (accepted_step S m x))
         (table_moves T)) T) T"

lemma table_row:
  assumes "table_closed S T" and "x \<in> fst ` set T"
  shows "\<exists>ms. (x, ms) \<in> set T \<and> se_generate S x = (ms, None)"
    and "m \<in> set (table_moves T) \<Longrightarrow> accepted_step S m x = Some x' \<Longrightarrow> x' \<in> fst ` set T"
    and "m \<in> set (table_moves T) \<Longrightarrow> se_validate S m x \<noteq> Inl OutOfFuel \<and> se_simulate S m x \<noteq> Inl OutOfFuel"
  using assms by (fastforce simp: table_closed_def list_all_iff)+

lemma row_moves: "(x, ms) \<in> set T \<Longrightarrow> m \<in> set ms \<Longrightarrow> m \<in> set (table_moves T)"
  by (force simp: table_moves_def)

lemma table_legal:
  assumes "table_closed S T" and "x \<in> fst ` set T" and "legal S x m x'"
  shows "m \<in> set (table_moves T)" and "accepted_step S m x = Some x'" and "x' \<in> fst ` set T"
proof -
  obtain ms where ms: "(x, ms) \<in> set T" "se_generate S x = (ms, None)" using table_row(1) [OF assms(1,2)] by blast
  then show m: "m \<in> set (table_moves T)" using assms(3) row_moves by (fastforce simp: legal_def)
  show a: "accepted_step S m x = Some x'" using assms(3) by (auto simp: accepted_step_iff legal_def)
  show "x' \<in> fst ` set T" using table_row(2) [OF assms(1,2) m a] .
qed

lemma table_closed_under: "table_closed S T \<Longrightarrow> closed_under_moves S (fst ` set T)"
  unfolding closed_under_moves_def using table_legal(3) by fast

lemma table_reaches:
  assumes "table_closed S T" and "d \<in> fst ` set T"
  shows "{x. reachable S d x} \<subseteq> fst ` set T"
proof -
  have "sorting S d ms x \<Longrightarrow> d \<in> fst ` set T \<Longrightarrow> x \<in> fst ` set T" for ms d x
  proof (induction rule: sorting.induct)
    case (sorting_cons d m d' ms d'')
    then show ?case using table_legal(3) [OF assms(1)] by blast
  qed
  then show ?thesis using assms(2) unfolding reachable_def by blast
qed

lemma table_fuel_free:
  assumes "table_closed S T" and "U \<subseteq> fst ` set T"
  shows "fuel_free S U"
  unfolding fuel_free_def
proof
  fix d assume "d \<in> U"
  then have d: "d \<in> fst ` set T" using assms(2) by blast
  then obtain ms where "(d, ms) \<in> set T" "se_generate S d = (ms, None)" using table_row(1) [OF assms(1)] by blast
  then show "snd (se_generate S d) \<noteq> Some OutOfFuel \<and> (\<forall>m \<in> set (fst (se_generate S d)).
      se_validate S m d \<noteq> Inl OutOfFuel \<and> se_simulate S m d \<noteq> Inl OutOfFuel)"
    using table_row(3) [OF assms(1) d] row_moves by fastforce
qed

lemma table_finite:
  assumes "U \<subseteq> fst ` set T"
  shows "finite (se_hash S ` U)" and "card (se_hash S ` U) \<le> length T"
proof -
  have "se_hash S ` U \<subseteq> se_hash S ` fst ` set T" using assms by blast
  moreover have fin: "finite (se_hash S ` fst ` set T)" by simp
  ultimately show "finite (se_hash S ` U)" by (rule finite_subset)
  have "card (se_hash S ` U) \<le> card (se_hash S ` fst ` set T)" by (rule card_mono) fact+
  also have "\<dots> \<le> length T" using card_length [of "map (se_hash S \<circ> fst) T"] by (simp add: image_comp)
  finally show "card (se_hash S ` U) \<le> length T" .
qed

lemma table_respectful:
  assumes T: "table_closed S T" "table_alike S T" and d: "d \<in> fst ` set T"
  shows "respectful_hashes S d"
  unfolding respectful_hashes_def hashes_respect_def
proof (intro ballI impI conjI allI)
  fix x y assume xy: "x \<in> {x. reachable S d x}" "y \<in> {x. reachable S d x}" "se_hash S x = se_hash S y"
  have x: "x \<in> fst ` set T" and y: "y \<in> fst ` set T" using table_reaches [OF T(1) d] xy by blast+
  obtain ms where ms: "(x, ms) \<in> set T" "se_generate S x = (ms, None)" using table_row(1) [OF T(1) x] by blast
  obtain ns where ns: "(y, ns) \<in> set T" "se_generate S y = (ns, None)" using table_row(1) [OF T(1) y] by blast
  note alike = T(2) [unfolded table_alike_def list_all_iff, rule_format, OF ms(1), simplified,
      rule_format, OF ns(1), simplified, rule_format, OF xy(3)]
  show "se_done S y" if "se_done S x" using alike that by blast
  fix m x' assume m: "legal S x m x'"
  have "m \<in> set ms" using m ms(2) by (simp add: legal_def)
  with alike table_legal(2) [OF T(1) x m] obtain n where
    n: "n \<in> set ns" "map_option (se_hash S) (accepted_step S n y) = Some (se_hash S x')"
    by (auto simp: list_ex_iff)
  then obtain y' where y': "accepted_step S n y = Some y'" "se_hash S y' = se_hash S x'" by auto
  with n(1) ns(2) have "legal S y n y'" by (simp add: legal_def accepted_step_iff)
  with y'(2) show "\<exists>n y'. legal S y n y' \<and> se_hash S y' = se_hash S x'" by blast
qed

lemma table_replayable:
  assumes T: "table_closed S T" "table_alike S T" and d: "d \<in> fst ` set T"
  shows "replayable_hashes S d"
proof -
  let ?U = "{x. reachable S d x}"
  let ?R = "\<lambda>x y. x \<in> fst ` set T \<and> y \<in> fst ` set T \<and> se_hash S x = se_hash S y"
  have "(se_done S x \<longrightarrow> se_done S y) \<and> (\<forall>m x'. passes S ?U x m x' \<longrightarrow> (\<exists>y'. passes S ?U y m y' \<and> ?R x' y'))"
    if R: "?R x y" for x y
  proof (intro conjI allI impI)
    obtain ms where ms: "(x, ms) \<in> set T" using table_row(1) [OF T(1)] R by blast
    obtain ns where ns: "(y, ns) \<in> set T" using table_row(1) [OF T(1)] R by blast
    note alike = T(2) [unfolded table_alike_def list_all_iff, rule_format, OF ms(1), simplified,
        rule_format, OF ns(1), simplified, rule_format, OF conjunct2 [OF conjunct2 [OF R]]]
    show "se_done S y" if "se_done S x" using alike that by blast
    fix m x' assume p: "passes S ?U x m x'"
    then obtain z where z: "z \<in> ?U" "m \<in> set (fst (se_generate S z))" by (auto simp: passes_def)
    then have "z \<in> fst ` set T" using table_reaches [OF T(1) d] by blast
    then have m: "m \<in> set (table_moves T)" using z(2) table_row(1) [OF T(1)] row_moves by (metis fst_conv)
    have x': "accepted_step S m x = Some x'" using p by (simp add: passes_def accepted_step_iff)
    moreover have "map_option (se_hash S) (accepted_step S m y) = map_option (se_hash S) (accepted_step S m x)"
      using alike m by blast
    ultimately obtain y' where y': "accepted_step S m y = Some y'" "se_hash S y' = se_hash S x'" by auto
    have "passes S ?U y m y'" using z y'(1) by (auto simp: passes_def accepted_step_iff)
    moreover have "x' \<in> fst ` set T" "y' \<in> fst ` set T" using table_row(2) [OF T(1) _ m] R x' y'(1) by blast+
    ultimately show "\<exists>y'. passes S ?U y m y' \<and> ?R x' y'" using y'(2) by metis
  qed
  then have "replays_along S ?U ?R" unfolding replays_along_def by blast
  then show ?thesis
    unfolding replayable_hashes_def hashes_replay_def using table_reaches [OF T(1) d] by blast
qed

section \<open>Two fields added in either order\<close>

fun text_code :: "string \<Rightarrow> int" where
  "text_code [] = 7"
| "text_code (c # s) = of_char c + 257 * text_code s"

fun blind_hash :: "json \<Rightarrow> int" where
  "blind_hash (JObj d) = sum_list (map (\<lambda>p. text_code (fst p) * (2 * blind_hash (snd p) + 1)) d)"
| "blind_hash (JList xs) = foldr (\<lambda>x h. blind_hash x + 31 * h) xs 11"
| "blind_hash (JStr s) = 3 * text_code s"
| "blind_hash _ = 1"

definition pair_env :: "(diff, move_group) sort_env" where
  "pair_env =
     wrapper_env sample_ext ((factory_wrapper sample_ext)\<lparr>mw_non_extendable := [], mw_extenders := []\<rparr>)
       (\<lambda>d. blind_hash (JList [current_config d, target_config d])) 9"

definition vlan_fields :: "string list \<Rightarrow> json" where
  "vlan_fields fs = JObj [(''VLAN'', JObj [(''V1'', JObj (map (\<lambda>f. (f, JStr ''on'')) fs))])]"

definition pair_diff :: "string list \<Rightarrow> diff" where
  "pair_diff fs = \<lparr>current_config = vlan_fields fs, target_config = vlan_fields [''a'', ''b'']\<rparr>"

definition pair_add :: "string \<Rightarrow> move_group" where
  "pair_add f =
     (let path = [TStr ''VLAN'', TStr ''V1'', TStr f] in
      move_group low_name (Some
        \<lparr>mv_patch = \<lparr>op = ''add'', op_path = ''/VLAN/V1/'' @ f, op_value = Some (JStr ''on'')\<rparr>,
         mv_type = ADD, mv_path = ''/VLAN/V1/'' @ f, mv_value = JStr ''on'', mv_current = path,
         mv_target = Some path, mv_orig = JNull\<rparr>))"

definition pair_table :: "(diff, move_group) search_table" where
  "pair_table =
     [(pair_diff [], [pair_add ''a'', pair_add ''b'']), (pair_diff [''a''], [pair_add ''b'']),
      (pair_diff [''b''], [pair_add ''a'']), (pair_diff [''a'', ''b''], []), (pair_diff [''b'', ''a''], [])]"

lemma pair_generates: "map (se_generate pair_env \<circ> fst) pair_table = map (\<lambda>r. (snd r, None)) pair_table"
  by code_simp

lemma pair_validates:
  "list_all (\<lambda>r. list_all (\<lambda>m. se_validate pair_env m (fst r) = Inr (True, None)) [pair_add ''a'', pair_add ''b'']) pair_table"
  by code_simp

lemma pair_simulates:
  "map (\<lambda>r. map (\<lambda>m. se_simulate pair_env m (fst r)) [pair_add ''a'', pair_add ''b'']) pair_table =
     map (map (\<lambda>fs. Inr (pair_diff fs)))
       [[[''a''], [''b'']], [[''a''], [''a'', ''b'']], [[''b'', ''a''], [''b'']],
        [[''a'', ''b''], [''a'', ''b'']], [[''b'', ''a''], [''b'', ''a'']]]"
  by code_simp

lemma pair_hashes:
  "map (\<lambda>r. (se_hash pair_env (fst r), se_done pair_env (fst r))) pair_table =
     [(20961838652308425162248855051, False), (21299843687755215969868154891, False),
      (21300021960453236429154873931, False), (21638026995900027236774173771, True),
      (21638026995900027236774173771, True)]"
  by code_simp

lemmas pair_rows [simp] =
  pair_generates [unfolded pair_table_def, simplified] pair_validates [unfolded pair_table_def, simplified]
  pair_simulates [unfolded pair_table_def, simplified] pair_hashes [unfolded pair_table_def, simplified]

lemma pair_closed: "table_closed pair_env pair_table"
  by (simp add: table_closed_def table_moves_def pair_table_def accepted_step_def)

lemma pair_alike: "table_alike pair_env pair_table"
  by (simp add: table_alike_def table_moves_def pair_table_def accepted_step_def)

text \<open>The two orders of the fields are different diffs with the same hash.\<close>

lemma pair_collision:
  "se_hash pair_env (pair_diff [''a'', ''b'']) = se_hash pair_env (pair_diff [''b'', ''a'']) \<and>
   pair_diff [''a'', ''b''] \<noteq> pair_diff [''b'', ''a'']"
  by code_simp

lemma pair_start: "pair_diff [] \<in> fst ` set pair_table"
  by (simp add: pair_table_def)

lemmas pair_reaches = table_reaches [OF pair_closed pair_start]
lemmas pair_fuel_free = table_fuel_free [OF pair_closed pair_reaches]
lemmas pair_respectful = table_respectful [OF pair_closed pair_alike pair_start]
lemmas pair_replayable = table_replayable [OF pair_closed pair_alike pair_start]

lemma pair_finite:
  "finite (se_hash pair_env ` {x. reachable pair_env (pair_diff []) x})"
  "card (se_hash pair_env ` {x. reachable pair_env (pair_diff []) x}) < 6"
  using table_finite [OF pair_reaches, of pair_env] by (simp_all add: pair_table_def)

section \<open>The sorters\<close>

text \<open>
  C3. \<open>DfsSorter.sort\<close> decides whether a patch can be sorted.  Assumed is that the diffs in reach have finitely
  many hashes and that diffs with the same hash are both done or both not and have legal moves to the same
  hashes (\<open>respectful_hashes\<close>): the hash need not tell them apart, \<open>Diff.__hash__\<close> ignores the order of keys.
  Then a recursion depth above the number of hashes is enough: the call returns, and a returned list is a
  chain of generated, validated and simulated moves that leaves no difference, \<open>None\<close> means that no such
  chain exists, and an exception is one the wrapper raised.
\<close>

theorem dfs_decides:
  assumes "finite (se_hash S ` {x. reachable S d x})" and "respectful_hashes S d"
    and "fuel_free S {x. reachable S d x}" and "card (se_hash S ` {x. reachable S d x}) < n"
  shows "case dfs S n d of
           Inr (Some ms) \<Rightarrow> \<exists>d'. sorting S d ms d' \<and> se_done S d'
         | Inr None \<Rightarrow> \<forall>d'. reachable S d d' \<longrightarrow> \<not> se_done S d'
         | Inl e \<Rightarrow> e \<noteq> OutOfFuel"
proof -
  have "dfs S n d \<noteq> Inl OutOfFuel" unfolding dfs_def using assms by (intro dfs_enough_fuel)
  moreover have "\<not> se_done S d'" if "dfs S n d = Inr None" "reachable S d d'" for d'
    using that assms(2) dfs_complete unfolding dfs_def respectful_hashes_def by (metis prod.collapse)
  ultimately show ?thesis using dfs_sorting by (fastforce split: sum.splits option.splits)
qed

theorem dfs_decides_witness:
  "dfs pair_env 6 (pair_diff []) = Inr (Some [pair_add ''a'', pair_add ''b'']) \<and>
   (\<exists>d'. sorting pair_env (pair_diff []) [pair_add ''a'', pair_add ''b''] d' \<and> se_done pair_env d')"
proof -
  have r: "dfs pair_env 6 (pair_diff []) = Inr (Some [pair_add ''a'', pair_add ''b''])"
    by (simp add: dfs_def eval_nat_numeral)
  from dfs_decides [OF pair_finite(1) pair_respectful pair_fuel_free pair_finite(2)] r show ?thesis by simp
qed

text \<open>
  C4. \<open>BfsSorter.sort\<close> returns a shortest sorting.  Assumed is, as for C3, that diffs in reach with the same hash
  are both done or both not and have legal moves to the same hashes.  Then no chain of legal moves to a diff
  without differences is shorter than the returned one, and \<open>None\<close> is returned only when there is none.
\<close>

theorem bfs_decides_shortest:
  assumes "respectful_hashes S d"
  shows "case bfs S n d of
           Inr (Some ms) \<Rightarrow> (\<exists>d'. sorting S d ms d' \<and> se_done S d') \<and>
             (\<forall>ns d''. sorting S d ns d'' \<and> se_done S d'' \<longrightarrow> length ms \<le> length ns)
         | Inr None \<Rightarrow> \<forall>d'. reachable S d d' \<longrightarrow> \<not> se_done S d'
         | Inl e \<Rightarrow> True"
proof -
  have b: "bfs_sort S n {} d = (bfs S n d, snd (bfs_sort S n {} d))" by (simp add: bfs_def)
  show ?thesis
    using bfs_sound_shortest [of S n d] bfs_complete [of S n d] b assms
    unfolding respectful_hashes_def by (fastforce split: sum.splits option.splits)
qed

theorem bfs_decides_shortest_witness:
  "bfs pair_env 9 (pair_diff []) = Inr (Some [pair_add ''a'', pair_add ''b'']) \<and>
   (\<nexists>ns d. sorting pair_env (pair_diff []) ns d \<and> se_done pair_env d \<and> length ns < 2)"
proof -
  have r: "bfs pair_env 9 (pair_diff []) = Inr (Some [pair_add ''a'', pair_add ''b''])"
    by (simp add: bfs_def bfs_sort_def eval_nat_numeral)
  with bfs_decides_shortest [OF pair_respectful, of 9] show ?thesis by fastforce
qed

text \<open>
  C11. \<open>BfsSorter.sort\<close> terminates.  In a set of diffs closed under legal moves with finitely many
  hashes, where no diff has more than \<open>B\<close> candidate moves, one round per queue entry is enough: the
  start and at most \<open>B\<close> entries for each hash.
\<close>

theorem bfs_terminates:
  assumes "closed_under_moves S U" and "d \<in> U" and "finite (se_hash S ` U)" and "fuel_free S U"
    and "\<forall>x \<in> U. length (fst (se_generate S x)) \<le> B" and "1 + card (se_hash S ` U) * B < n"
  shows "bfs S n d \<noteq> Inl OutOfFuel"
  unfolding bfs_def bfs_sort_def
  using assms by (intro bfs_enough_fuel_aux [of "se_hash S ` U" S U B]) auto

theorem bfs_terminates_witness: "bfs pair_env 12 (pair_diff []) \<noteq> Inl OutOfFuel"
proof (rule bfs_terminates [where U = "fst ` set pair_table" and B = 2])
  show "fuel_free pair_env (fst ` set pair_table)" by (rule table_fuel_free [OF pair_closed order_refl])
  show "\<forall>x \<in> fst ` set pair_table. length (fst (se_generate pair_env x)) \<le> 2"
    using pair_closed by (auto simp: table_closed_def pair_table_def)
  show "1 + card (se_hash pair_env ` fst ` set pair_table) * 2 < (12::nat)"
    using table_finite(2) [OF order_refl, of pair_env pair_table] by (simp add: pair_table_def)
qed (rule table_closed_under [OF pair_closed] pair_start table_finite(1) [OF order_refl])+

text \<open>
  C10. \<open>MemoizationSorter.sort\<close> terminates once the recursion depth exceeds the number of hashes in reach, and
  what it returns is a chain of moves that the wrapper offered somewhere in reach, that pass every validator
  where they are applied and that leave no difference.  A result found for one diff is reused for every diff
  with the same hash, so it is assumed that moves can be replayed: diffs with the same hash are related by a
  simulation of the passing moves (\<open>replayable_hashes\<close>), equality up to the order of keys for \<open>Diff.__hash__\<close>.
\<close>

theorem memoized_correct:
  assumes "finite (se_hash S ` {x. reachable S d x})" and "replayable_hashes S d"
    and "fuel_free S {x. reachable S d x}" and "card (se_hash S ` {x. reachable S d x}) < n"
  shows "memoized S n d \<noteq> Inl OutOfFuel \<and>
     (\<forall>ms. memoized S n d = Inr (Some ms) \<longrightarrow>
        (\<exists>d'. replay S {x. reachable S d x} d ms d' \<and> se_done S d'))"
proof -
  obtain r v mem where m: "memo_sort S n {} Map.empty d = (r, v, mem)" by (metis prod_cases3)
  have "r \<noteq> Inl OutOfFuel"
    using assms by (intro memo_enough_fuel_aux(1) [OF assms(1) closed_under_reachable order_refl assms(3) m]) auto
  then have "memoized S n d \<noteq> Inl OutOfFuel" using m by (simp add: memoized_def)
  then show ?thesis using memoized.sound [OF assms(2)] by blast
qed

theorem memoized_correct_witness:
  "memoized pair_env 6 (pair_diff []) = Inr (Some [pair_add ''a'', pair_add ''b'']) \<and>
   (\<exists>d'. replay pair_env {x. reachable pair_env (pair_diff []) x} (pair_diff [])
           [pair_add ''a'', pair_add ''b''] d' \<and> se_done pair_env d')"
proof -
  have r: "memoized pair_env 6 (pair_diff []) = Inr (Some [pair_add ''a'', pair_add ''b''])"
    by (simp add: memoized_def better_def Let_def eval_nat_numeral)
  from memoized_correct [OF pair_finite(1) pair_replayable pair_fuel_free pair_finite(2)] r show ?thesis by simp
qed

text \<open>
  The debugging tree of the depth-first sorter is faithful: reading the last child of every level
  as long as it is marked \<open>VALID\<close> gives exactly the returned moves.
\<close>

theorem dfs_trace_faithful:
  assumes "dfs_sort S n v d = (Inr (Some ms), v', items)"
  shows "valid_chain items = ms"
  using assms by (rule dfs_trace)

theorem dfs_trace_faithful_witness:
  "fst (dfs_sort pair_env 6 {} (pair_diff [])) = Inr (Some [pair_add ''a'', pair_add ''b'']) \<and>
   valid_chain (snd (snd (dfs_sort pair_env 6 {} (pair_diff [])))) = [pair_add ''a'', pair_add ''b'']"
proof -
  have r: "fst (dfs_sort pair_env 6 {} (pair_diff [])) = Inr (Some [pair_add ''a'', pair_add ''b''])"
    by (simp add: eval_nat_numeral)
  then show ?thesis by (metis dfs_trace_faithful prod.collapse)
qed

section \<open>The moves of the wrapper\<close>

text \<open>
  \<open>MoveWrapper.generate\<close> yields no two groups with the same operations, and only groups that a
  generator yields or an extender derives from an offered group; unless an exception ends it, every
  group of every generator is among them, up to equality of the operations.
\<close>

theorem wrapper_generate_exact:
  fixes W n d
  defines "G \<equiv> wrapper_generate W n d"
  shows "distinct (map get_jsonpatch (fst G)) \<and> (\<forall>g \<in> set (fst G). offered W d g) \<and>
     (snd G = None \<longrightarrow>
        (\<forall>g \<in> set (fst (generate_all (mw_non_extendable W) d)) \<union> set (fst (generate_all (mw_generators W) d)).
           get_jsonpatch g \<in> get_jsonpatch ` set (fst G)))"
  unfolding G_def
  using wrapper_generate_distinct wrapper_generate_offered wrapper_generate_complete by blast

text \<open>The sample patch, offered first as a replacement and then as the removal that extends it.\<close>

definition sample_wrapper :: move_wrapper where
  "sample_wrapper =
     \<lparr>mw_generators = [low_level_generate sample_ext], mw_non_extendable = [],
      mw_extenders = [(''DeleteInsteadOfReplaceMoveExtender'', delete_instead_extend sample_ext)],
      mw_validators = []\<rparr>"

definition sample_removal :: move_group where
  "sample_removal =
     move_group (''DeleteInsteadOfReplaceMoveExtender'' @ '' extends '' @ low_name)
       (Some (sample_move\<lparr>mv_patch := \<lparr>op = ''remove'', op_path = ''/VLAN/V1/mtu'', op_value = None\<rparr>,
                          mv_type := REMOVE, mv_value := JNull, mv_target := None\<rparr>))"

lemma sample_extensions:
  "extend_moves sample_wrapper sample_group sample_diff = ([sample_removal], None)"
  "extend_moves sample_wrapper sample_removal sample_diff = ([], None)"
  by code_simp+

lemma sample_wrapper_yields:
  "generate_all (mw_generators sample_wrapper) sample_diff = ([sample_group], None)"
  "generate_all (mw_non_extendable sample_wrapper) sample_diff = ([], None)"
  by code_simp+

theorem wrapper_generate_exact_witness:
  "get_jsonpatch sample_group \<in>
     get_jsonpatch ` set (fst (wrapper_generate sample_wrapper 9 sample_diff))"
proof -
  have "snd (wrapper_generate sample_wrapper 9 sample_diff) = None" by code_simp
  with wrapper_generate_exact [of sample_wrapper 9 sample_diff] sample_wrapper_yields show ?thesis by simp
qed

text \<open>
  \<open>MoveWrapper.generate\<close> terminates: when the groups the extenders can derive have finitely many
  operation lists \<open>K\<close> and no group has more than \<open>b\<close> extensions, \<open>b * card K\<close> rounds empty the queue.
\<close>

theorem wrapper_generate_terminates:
  assumes "extension_bound W d U K b" and "set (fst (generate_all (mw_generators W) d)) \<subseteq> U"
    and "snd (generate_all (mw_generators W) d) \<noteq> Some OutOfFuel"
    and "snd (generate_all (mw_non_extendable W) d) \<noteq> Some OutOfFuel" and "b * card K \<le> n"
  shows "snd (wrapper_generate W n d) \<noteq> Some OutOfFuel"
  using assms by (rule wrapper_generate_enough_fuel)

theorem wrapper_generate_terminates_witness:
  "snd (wrapper_generate sample_wrapper 2 sample_diff) \<noteq> Some OutOfFuel"
proof -
  let ?K = "{get_jsonpatch sample_group, get_jsonpatch sample_removal}"
  have "extension_bound sample_wrapper sample_diff {sample_group, sample_removal} ?K 1"
    using sample_extensions by (simp add: extension_bound_def)
  moreover have "card ?K \<le> 2" by (simp add: card_insert_if)
  ultimately show ?thesis
    using sample_wrapper_yields
    by (intro wrapper_generate_terminates [where U = "{sample_group, sample_removal}" and K = ?K and b = 1])
       auto
qed

section \<open>The sorted patch\<close>

text \<open>
  C2. The changes \<open>PatchSorter.sort\<close> returns, applied one after the other, lead from the current
  configuration to the target of the patch, and every configuration on the way passes the YANG
  validation.  The memoizing sorter needs that moves
  found for a diff can be replayed on every diff with the same hash; the other two need nothing.
\<close>

theorem sorted_changes_stay_valid:
  assumes "patch_sort E h n running patch alg preloaded = Inr changes"
    and "json_ext E" and "rejects_null E"
    and "simulate_config_db_patch E patch (sort_current preloaded running) = Inr target"
    and "sorter_ok alg (factory_env E h n)
           \<lparr>current_config = sort_current preloaded running, target_config = target\<rparr>"
  shows "\<exists>cs. apply_changes E changes (sort_current preloaded running) = Inr cs \<and>
           json_eq (last (sort_current preloaded running # cs)) target \<and>
           (\<forall>c \<in> set cs. \<exists>msg. validate_config E c = Inr (True, msg))"
  using assms by (rule patch_sort_chain)

theorem sorted_changes_stay_valid_witness:
  "apply_changes sample_ext [sample_patch] sample_start = Inr [sample_target] \<and>
   (\<exists>msg. validate_config sample_ext sample_target = Inr (True, msg))"
proof -
  have r: "apply_changes sample_ext [sample_patch] sample_start = Inr [sample_target]" by code_simp
  from sorted_changes_stay_valid [OF sample_patch_sort [of "\<lambda>_. 0" 0] sample_json_ext sample_rejects_null]
    sample_simulated r
  show ?thesis by (simp add: sort_current_def sorter_ok_def)
qed

end
