(* ===== verification/MoveProps.thy ===== *)
theory MoveProps
  imports Samples
begin

text \<open>
  The properties of paths, moves and filters: what the operation a \<open>JsonMove\<close> builds does to a
  configuration, that it can be undone, that groups of moves and the patch they print agree, and
  that the path filters and the key generators find exactly what they are meant to find.
\<close>

section \<open>Paths\<close>

text \<open>
  Splitting a joined path gives its tokens back, whatever characters they contain; the one
  exception is the list of a single empty token, whose path is that of the whole document.
\<close>

theorem path_round_trip:
  assumes "map tok_str ts \<noteq> [[]]"
  shows "ptr_split (ptr_join ts) = map tok_str ts"
  using assms by (rule ptr_split_join)

theorem path_round_trip_witness:
  "ptr_split (ptr_join [TStr ''a/b~c'', TIdx 12, TStr '''']) = [''a/b~c'', ''12'', '''']"
proof -
  have "map tok_str [TStr ''a/b~c'', TIdx 12, TStr ''''] = [''a/b~c'', ''12'', '''']" by code_simp
  with path_round_trip [of "[TStr ''a/b~c'', TIdx 12, TStr '''']"] show ?thesis by simp
qed

section \<open>Moves\<close>

text \<open>
  An \<open>ADD\<close> move is well formed even when the middle of its path does not exist yet: its patch
  applies, afterwards the path holds the value it has in the target, and every path parallel to it
  reads as before.
\<close>

theorem add_move_correct:
  assumes "json_ext E" and "py_path (target_config d) (map TStr ks) = Inr v"
    and "dict_path (current_config d) ks" and "ks \<noteq> []" and "hd ks \<noteq> []"
  shows "\<exists>m r. json_move E d ADD (map TStr ks) (Some (map TStr ks)) = Inr m \<and>
           patch_apply E [mv_patch m] (current_config d) = Inr r \<and> py_path r (map TStr ks) = Inr v \<and>
           (\<forall>qs w. parallel ks qs \<longrightarrow>
              (py_path r (map TStr qs) = Inr w \<longleftrightarrow> py_path (current_config d) (map TStr qs) = Inr w))"
  using json_ext.add_move_put [OF assms] py_path_obj_put obj_put_frame assms(3) by blast

theorem add_move_correct_witness:
  "\<exists>m r. json_move sample_ext \<lparr>current_config = JObj [], target_config = sample_target\<rparr> ADD
           (map TStr [''VLAN'', ''V1'', ''mtu'']) (Some (map TStr [''VLAN'', ''V1'', ''mtu''])) = Inr m \<and>
         patch_apply sample_ext [mv_patch m] (JObj []) = Inr r \<and>
         py_path r (map TStr [''VLAN'', ''V1'', ''mtu'']) = Inr (JStr ''2'')"
proof -
  have "py_path sample_target (map TStr [''VLAN'', ''V1'', ''mtu'']) = Inr (JStr ''2'')" by code_simp
  with add_move_correct [OF sample_json_ext, where d = "\<lparr>current_config = JObj [], target_config = sample_target\<rparr>"
      and ks = "[''VLAN'', ''V1'', ''mtu'']"]
  show ?thesis by auto
qed

text \<open>
  A \<open>REPLACE\<close> move at a path both configurations have puts the target's value there and leaves
  every parallel path as it is.
\<close>

theorem replace_move_correct:
  assumes "json_ext E" and "py_path (target_config d) (map TStr ks) = Inr v"
    and "py_path (current_config d) (map TStr ks) = Inr w" and "ks \<noteq> [[]]"
    and "dict_path (current_config d) ks"
  shows "\<exists>m r. json_move E d REPLACE (map TStr ks) (Some (map TStr ks)) = Inr m \<and>
           patch_apply E [mv_patch m] (current_config d) = Inr r \<and> py_path r (map TStr ks) = Inr v \<and>
           (\<forall>qs w. parallel ks qs \<longrightarrow>
              (py_path r (map TStr qs) = Inr w \<longleftrightarrow> py_path (current_config d) (map TStr qs) = Inr w))"
  using json_ext.replace_move_put [OF assms(1-4)] py_path_obj_put obj_put_frame assms(5) by blast

theorem replace_move_correct_witness:
  "\<exists>m r. json_move sample_ext sample_diff REPLACE
           (map TStr [''VLAN'', ''V1'', ''mtu'']) (Some (map TStr [''VLAN'', ''V1'', ''mtu''])) = Inr m \<and>
         patch_apply sample_ext [mv_patch m] sample_start = Inr r \<and>
         py_path r (map TStr [''VLAN'', ''V1'', ''mtu'']) = Inr (JStr ''2'')"
proof -
  have "py_path (target_config sample_diff) (map TStr [''VLAN'', ''V1'', ''mtu'']) = Inr (JStr ''2'')"
    "py_path (current_config sample_diff) (map TStr [''VLAN'', ''V1'', ''mtu'']) = Inr (JStr ''1'')"
    "dict_path (current_config sample_diff) [''VLAN'', ''V1'', ''mtu'']"
    by code_simp+
  from replace_move_correct [OF sample_json_ext this(1,2) _ this(3)] show ?thesis
    by (simp add: sample_diff_def) blast
qed

text \<open>
  A \<open>REMOVE\<close> move at an existing path below the root takes it away and leaves every parallel
  path as it is.
\<close>

theorem remove_move_correct:
  assumes "json_ext E" and "py_path (current_config d) (map TStr ks) = Inr w" and "ks \<noteq> []" and "ks \<noteq> [[]]"
  shows "\<exists>m r. json_move E d REMOVE (map TStr ks) None = Inr m \<and>
           patch_apply E [mv_patch m] (current_config d) = Inr r \<and>
           (\<forall>v. py_path r (map TStr ks) \<noteq> Inr v) \<and>
           (\<forall>qs. parallel ks qs \<longrightarrow> py_path r (map TStr qs) = py_path (current_config d) (map TStr qs))"
  using json_ext.remove_move_del [OF assms] obj_del_gone [OF assms(3)] obj_del_frame by blast

theorem remove_move_correct_witness:
  "\<exists>m r. json_move sample_ext sample_diff REMOVE (map TStr [''VLAN'', ''V1'', ''mtu'']) None = Inr m \<and>
         patch_apply sample_ext [mv_patch m] sample_start = Inr r \<and>
         (\<forall>v. py_path r (map TStr [''VLAN'', ''V1'', ''mtu'']) \<noteq> Inr v)"
proof -
  have "py_path (current_config sample_diff) (map TStr [''VLAN'', ''V1'', ''mtu'']) = Inr (JStr ''1'')"
    by code_simp
  from remove_move_correct [OF sample_json_ext this] show ?thesis
    by (simp add: sample_diff_def) blast
qed

text \<open>
  \<open>undo\<close> after \<open>apply\<close> of a \<open>REPLACE\<close> or \<open>REMOVE\<close> move gives the configuration back, up to the
  order of dictionary keys.
\<close>

theorem undo_restores:
  assumes "json_ext E" and "json_move E d t cur tgt = Inr m" and "t \<noteq> ADD"
    and "move_apply E m c = Inr (r, m')" and "wf_json c"
  shows "\<exists>c'. move_undo E m' r = Inr c' \<and> json_eq c' c"
  using assms by (rule json_ext.undo_apply)

theorem undo_restores_witness:
  "\<exists>r m'. move_apply sample_ext sample_move sample_start = Inr (r, m') \<and>
     (\<exists>c'. move_undo sample_ext m' r = Inr c' \<and> json_eq c' sample_start)"
proof -
  have m: "json_move sample_ext sample_diff REPLACE (mv_current sample_move) (mv_target sample_move)
      = Inr sample_move" "wf_json sample_start"
    by code_simp+
  have "\<not> isl (move_apply sample_ext sample_move sample_start)" by code_simp
  then obtain r m' where a: "move_apply sample_ext sample_move sample_start = Inr (r, m')"
    by (cases "move_apply sample_ext sample_move sample_start") auto
  from undo_restores [OF sample_json_ext m(1) _ a m(2)] a show ?thesis by simp
qed

text \<open>
  A group and the patch it prints agree: whatever configuration applying the moves one by one
  gives, applying \<open>get_jsonpatch\<close> at once gives too.
\<close>

theorem group_agrees_with_patch:
  assumes "json_ext E" and "group_result E g c = Inr r" and "r \<noteq> JNull"
  shows "patch_apply E (get_jsonpatch g) c = Inr r"
  using assms by (rule json_ext.group_result_patch)

theorem group_agrees_with_patch_witness:
  "patch_apply sample_ext (get_jsonpatch sample_group) sample_start = Inr sample_target"
  by (rule group_agrees_with_patch [OF sample_json_ext sample_result]) (simp add: sample_target_def)

end
