(* ===== verification/FilterProps.thy ===== *)
theory FilterProps
  imports Samples
begin

text \<open>
  The properties of the path filters and of the key comparisons the generators are built on: they
  find exactly what they are meant to find, in the documented order.
\<close>

section \<open>Filters and keys\<close>

text \<open>
  C13. \<open>JsonPointerFilter.get_paths\<close> finds exactly the paths its patterns describe: on a configuration
  of dictionaries as deep as the patterns it raises nothing and yields the path of every chain of
  keys that a pattern matches, and no other.
\<close>

theorem filter_paths_exact:
  assumes "\<forall>ps \<in> set patterns. obj_depth (length ps) config"
  shows "snd (get_paths E patterns config ck) = None \<and>
     set (fst (get_paths E patterns config ck)) =
       {str_path E ks | ps ks w. ps \<in> set patterns \<and> pattern_path ps ck config ks w}"
proof -
  have none: "\<And>ps. ps \<in> set patterns \<Longrightarrow> snd (get_paths_rec E config ps [] ck) = None"
    using assms get_paths_rec_no_error by blast
  have mem: "x \<in> set (fst (get_paths E patterns config ck)) \<longleftrightarrow>
      (\<exists>ps \<in> set patterns. x \<in> set (fst (get_paths_rec E config ps [] ck)))" for x
    using gen_for_iff [of patterns "\<lambda>p. get_paths_rec E config p [] ck" x] none by (simp add: get_paths_def)
  have "snd (get_paths E patterns config ck) = None"
    using gen_for_iff [of patterns "\<lambda>p. get_paths_rec E config p [] ck"] none by (simp add: get_paths_def)
  moreover have "x \<in> set (fst (get_paths E patterns config ck)) \<longleftrightarrow>
      (\<exists>ps ks w. x = str_path E ks \<and> ps \<in> set patterns \<and> pattern_path ps ck config ks w)" for x
    unfolding mem using assms get_paths_rec_sound [where matching = "[]" and E = E]
      get_paths_rec_complete [where matching = "[]" and E = E] by (metis append_Nil)
  ultimately show ?thesis by blast
qed

theorem filter_paths_exact_witness:
  "''/PORT/E0/lanes'' \<in> set (fst (get_paths sample_ext create_only_patterns
      (JObj [(''PORT'', JObj [(''E0'', JObj [(''lanes'', JStr ''1'')])])]) None))"
proof -
  let ?c = "JObj [(''PORT'', JObj [(''E0'', JObj [(''lanes'', JStr ''1'')])])]"
  let ?p = "[''PORT'', ''*'', ''lanes'']"
  have "\<forall>ps \<in> set [?p]. obj_depth (length ps) ?c" by code_simp
  moreover have "pattern_path ?p None ?c [''PORT'', ''E0'', ''lanes''] (JStr ''1'')"
    by (auto intro!: pattern_path.intros simp: dget_def instantiate_token_def key_matches_def startswith_def)
  moreover have "str_path sample_ext [''PORT'', ''E0'', ''lanes''] = ''/PORT/E0/lanes''" by code_simp
  ultimately have "''/PORT/E0/lanes'' \<in> set (fst (get_paths sample_ext [?p] ?c None))"
    using filter_paths_exact [of "[?p]" ?c sample_ext None] by fastforce
  then show ?thesis by code_simp
qed

text \<open>
  The key generators compare two configurations of tables exactly: without an exception,
  \<open>_get_non_existing_keys_tokens\<close> yields a table and a key if and only if the first configuration
  has the key in that table and the second does not.
\<close>

theorem missing_keys_exact:
  assumes "tables_of c1 = Some d1" and "tables_of c2 = Some d2"
    and "\<forall>t \<in> set (dkeys d1). plain_name t" and "path_split E = ptr_split"
  shows "snd (non_existing_keys E c1 c2 r) = None \<and>
     ((t, k) \<in> set (fst (non_existing_keys E c1 c2 r)) \<longleftrightarrow> has_key d1 t k \<and> \<not> has_key d2 t k)"
  using assms by (rule non_existing_keys_exact)

theorem missing_keys_exact_witness:
  "(''VLAN'', ''V1'') \<in> set (fst (non_existing_keys sample_ext sample_start (JObj []) True))"
proof -
  have t: "tables_of sample_start = Some [(''VLAN'', JObj [(''V1'', JObj [(''mtu'', JStr ''1'')])])]"
      "tables_of (JObj []) = Some []"
    by (simp_all add: tables_of_def sample_start_def)
  have p: "\<forall>t \<in> set (dkeys [(''VLAN'', JObj [(''V1'', JObj [(''mtu'', JStr ''1'')])])]). plain_name t"
      "path_split sample_ext = ptr_split"
    by (simp_all add: plain_name_def dkeys_def sample_ext_def)
  from missing_keys_exact [OF t p, of True "''VLAN''" "''V1''"] show ?thesis
    by (simp add: has_key_def dget_def dhas_def)
qed

text \<open>
  \<open>configdb_sorted_keys_by_backlinks\<close> returns every key of the dictionary at the path once, and,
  when a configuration wrapper is at hand, in the order of the comparison of backlinks, \<open>must\<close>
  counts and separators, reversed on request.
\<close>

theorem sorted_keys_correct:
  assumes "sorted_keys E path config rev_order relative = Inr ks"
    and "(if relative then Inr config else py_path config (map TStr (get_path_tokens E path))) = Inr (JObj d)"
  shows "mset ks = mset (dkeys d) \<and>
     (with_wrapper E \<longrightarrow>
        sorted_wrt (\<lambda>a b. configdb_sort_cmp (key_info E (get_path_tokens E path) (if rev_order then b else a))
                            (key_info E (get_path_tokens E path) (if rev_order then a else b)) \<le> 0) ks)"
proof -
  let ?i = "key_info E (get_path_tokens E path)"
  let ?c = "if rev_order then (\<lambda>a b. configdb_sort_cmp b a) else configdb_sort_cmp"
  have key: "ki_key (?i k) = k" for k by (simp add: key_info_def split: option.splits)
  have ordered: "sorted_wrt (\<lambda>a b. configdb_sort_cmp (?i (if rev_order then b else a)) (?i (if rev_order then a else b)) \<le> 0) ks"
    if "with_wrapper E"
  proof -
    have ks: "ks = map ki_key (sorted_cmp ?c (map ?i (dkeys d)))"
      using assms that by (simp add: sorted_keys_def Let_def split: if_splits)
    then have "map ?i ks = sorted_cmp ?c (map ?i (dkeys d))"
      using key by (auto intro!: map_idI simp: comp_def)
    moreover have "sorted_wrt (\<lambda>a b. ?c a b \<le> 0) (sorted_cmp ?c (map ?i (dkeys d)))"
      using configdb_sort_cmp_total by (intro sorted_sorted_cmp) (auto split: if_splits)
    ultimately have "sorted_wrt (\<lambda>a b. ?c (?i a) (?i b) \<le> 0) ks" by (simp add: sorted_wrt_map flip: \<open>map ?i ks = _\<close>)
    then show ?thesis by (cases rev_order) auto
  qed
  with sorted_keys_perm [OF assms] show ?thesis by blast
qed

definition sample_schema :: schema_ext where
  "sample_schema = sample_ext\<lparr>with_wrapper := True, schema_xpath := Some,
     schema_must_count := (\<lambda>x. if x = ''/VLAN/V2'' then 2 else 0)\<rparr>"

theorem sorted_keys_correct_witness:
  "sorted_keys sample_schema ''/VLAN'' (JObj [(''VLAN'', JObj [(''V1'', JNull), (''V2'', JNull)])]) False False
     = Inr [''V2'', ''V1''] \<and>
   mset [''V2'', ''V1''] = mset (dkeys [(''V1'', JNull), (''V2'', JNull)])"
proof -
  let ?c = "JObj [(''VLAN'', JObj [(''V1'', JNull), (''V2'', JNull)])]"
  have a: "sorted_keys sample_schema ''/VLAN'' ?c False False = Inr [''V2'', ''V1'']" by code_simp
  have "(if False then Inr ?c else py_path ?c (map TStr (get_path_tokens sample_schema ''/VLAN'')))
       = Inr (JObj [(''V1'', JNull), (''V2'', JNull)])"
    by code_simp
  from sorted_keys_correct [OF a this] a show ?thesis by blast
qed

end
