(* ===== verification/ConfigProps.thy ===== *)
theory ConfigProps
  imports Samples
begin

text \<open>
  The properties of what a move and a configuration must satisfy: the guarantees of the move
  validators, the cached validation of \<open>ConfigWrapper\<close>, the reference lookup, the lane check, the
  removal of empty tables and the split of a configuration into its parts with and without models.
\<close>

section \<open>Move validators\<close>

text \<open>
  C8. A step \<open>CreateOnlyMoveValidator\<close> accepts never changes or drops a create-only field whose
  entry stays: if the entry of the field is still an object after the step, the field is still
  there with an equal value.
\<close>

theorem create_only_fields_kept:
  assumes "create_only_validate E g d sim = Inr (True, msg)" and "json_ext E"
    and "create_only_at (current_config d) ks v" and "v \<noteq> JNull"
    and "py_path sim (map TStr (butlast ks)) = Inr (JObj e)"
  shows "\<exists>w. py_path sim (map TStr ks) = Inr w \<and> json_eq v w"
  using assms by (rule create_only_kept)

definition sample_port :: "string \<Rightarrow> json" where
  "sample_port mtu = JObj [(''PORT'', JObj [(''E0'', JObj [(''lanes'', JStr ''1''), (''mtu'', JStr mtu)])])]"

theorem create_only_fields_kept_witness:
  "\<exists>w. py_path (sample_port ''2'') (map TStr [''PORT'', ''E0'', ''lanes'']) = Inr w \<and> json_eq (JStr ''1'') w"
proof -
  let ?d = "\<lparr>current_config = sample_port ''1'', target_config = sample_port ''2''\<rparr>"
  have v: "create_only_validate sample_ext sample_group ?d (sample_port ''2'') = Inr (True, None)"
    by code_simp
  have "pattern_path [''PORT'', ''*'', ''lanes''] None (sample_port ''1'') [''PORT'', ''E0'', ''lanes''] (JStr ''1'')"
    unfolding sample_port_def
    by (auto intro!: pattern_path.intros simp: dget_def instantiate_token_def key_matches_def startswith_def)
  then have at: "create_only_at (current_config ?d) [''PORT'', ''E0'', ''lanes''] (JStr ''1'')"
    unfolding create_only_at_def
    by (intro bexI [of _ "[''PORT'', ''*'', ''lanes'']"]) (simp_all add: create_only_patterns_def)
  have "py_path (sample_port ''2'') (map TStr (butlast [''PORT'', ''E0'', ''lanes'']))
      = Inr (JObj [(''lanes'', JStr ''1''), (''mtu'', JStr ''2'')])"
    by code_simp
  from create_only_fields_kept [OF v sample_json_ext at _ this] show ?thesis by simp
qed

text \<open>
  C9. \<open>RequiredValueMoveValidator\<close> guards critical port changes: a step it accepts changes a buffer
  or queue entry of a port that is described in any of the three configurations only while that
  port is administratively down.
\<close>

theorem critical_changes_need_port_down:
  assumes "required_value_validate E g d sim = Inr (True, msg)" and "json_ext E"
    and "config \<in> {current_config d, sim, target_config d}"
    and "py_path config [TStr ''PORT'', TStr port] = Inr w"
    and "pat \<in> set (requiring_patterns (hd settings))" and "pattern_path pat (Some port) config ks x"
    and "is_config_different E (str_path E ks) (current_config d) sim"
    and "py_path (current_config d) [TStr ''PORT'', TStr port, TStr ''admin_status''] = Inr (JStr s)"
  shows "s = ''down''"
  using assms by (rule required_value_down)

definition sample_queue :: "json dict \<Rightarrow> json" where
  "sample_queue q = JObj ((''PORT'', JObj [(''E0'', JObj [(''admin_status'', JStr ''down'')])]) # q)"

theorem critical_changes_need_port_down_witness:
  "\<exists>s. py_path (sample_queue []) [TStr ''PORT'', TStr ''E0'', TStr ''admin_status''] = Inr (JStr s) \<and> s = ''down''"
proof -
  let ?q = "[(''QUEUE'', JObj [(''E0|3'', JObj [(''scheduler'', JStr ''s'')])])]"
  let ?d = "\<lparr>current_config = sample_queue [], target_config = sample_queue ?q\<rparr>"
  let ?w = "JObj [(''admin_status'', JStr ''down'')]"
  let ?x = "JObj [(''scheduler'', JStr ''s'')]"
  have v: "required_value_validate sample_ext sample_group ?d (sample_queue ?q) = Inr (True, None)"
    by code_simp
  have m: "sample_queue ?q \<in> {current_config ?d, sample_queue ?q, target_config ?d}" by simp
  have p: "py_path (sample_queue ?q) [TStr ''PORT'', TStr ''E0''] = Inr ?w" by code_simp
  have pat: "[''QUEUE'', ''@|*''] \<in> set (requiring_patterns (hd settings))" by (simp add: settings_def)
  have i: "instantiate_token (Some ''E0'') ''QUEUE'' = ''QUEUE''"
    "instantiate_token (Some ''E0'') ''@|*'' = ''E0|*''"
    "key_matches ''QUEUE'' ''QUEUE''" "key_matches ''E0|*'' ''E0|3''"
    "dget [(''E0|3'', ?x)] ''E0|3'' = Some ?x"
    by code_simp+
  have g: "dget ((''PORT'', JObj [(''E0'', ?w)]) # ?q) ''QUEUE'' = Some (JObj [(''E0|3'', ?x)])" by code_simp
  have "pattern_path [''QUEUE'', ''@|*''] (Some ''E0'') (sample_queue ?q) [''QUEUE'', ''E0|3''] ?x"
    unfolding sample_queue_def
    by (rule pattern_path_key [OF g]) (use i in \<open>auto intro!: pattern_path.intros\<close>)
  note pp = this
  have diff: "is_config_different sample_ext (str_path sample_ext [''QUEUE'', ''E0|3''])
      (current_config ?d) (sample_queue ?q)"
    by code_simp
  have s: "py_path (current_config ?d) [TStr ''PORT'', TStr ''E0'', TStr ''admin_status''] = Inr (JStr ''down'')"
    by code_simp
  from critical_changes_need_port_down [OF v sample_json_ext m p pat pp diff s] s show ?thesis by auto
qed

text \<open>
  A step \<open>NoEmptyTableMoveValidator\<close> accepts leaves no empty table behind where it wrote: the
  table a move of the group names, or any table when the move is at the root, is not empty.
\<close>

theorem no_empty_table_left:
  assumes "no_empty_table_validate E g d sim = Inr (True, msg)" and "m \<in> set (mg_moves g)"
    and "mv_path m = [] \<or> hd (get_path_tokens E (mv_path m)) = t" and "py_getitem sim (TStr t) = Inr v"
  shows "truthy v"
  using assms by (rule no_empty_table_kept)

theorem no_empty_table_left_witness:
  "\<exists>v. py_getitem sample_target (TStr ''VLAN'') = Inr v \<and> truthy v"
proof -
  have g: "py_getitem sample_target (TStr ''VLAN'') = Inr (JObj [(''V1'', JObj [(''mtu'', JStr ''2'')])])"
    by code_simp
  have "hd (get_path_tokens sample_ext (mv_path sample_move)) = ''VLAN''" by code_simp
  then have "mv_path sample_move = [] \<or> hd (get_path_tokens sample_ext (mv_path sample_move)) = ''VLAN''" ..
  from no_empty_table_left [OF sample_accepts(7) _ this g] g show ?thesis
    by (simp add: sample_group_def move_group_def)
qed

text \<open>
  \<open>NoDependencyMoveValidator\<close>: an accepted \<open>ADD\<close> or \<open>REMOVE\<close> has no reference to a place below
  its own path, in the configuration where that path exists.
\<close>

theorem no_internal_references:
  assumes "no_dependency_validate E g d sim = Inr (True, msg)" and "m \<in> set (mg_moves g)"
    and "mv_type m \<noteq> REPLACE"
  shows "\<exists>reload refs. find_refs E [mv_path m] (if mv_type m = ADD then sim else current_config d) reload = Inr refs \<and>
           (\<forall>ref \<in> set refs. \<not> startswith ref (mv_path m))"
  using assms by (rule no_dependency_refs)

definition sample_refs :: schema_ext where
  "sample_refs = sample_ext\<lparr>find_refs := (\<lambda>_ _ _. Inr [''/VLAN_MEMBER/V1|E0''])\<rparr>"

definition sample_drop :: json_move where
  "sample_drop =
     \<lparr>mv_patch = \<lparr>op = ''remove'', op_path = ''/VLAN/V1/mtu'', op_value = None\<rparr>, mv_type = REMOVE,
      mv_path = ''/VLAN/V1/mtu'', mv_value = JNull, mv_current = [TStr ''VLAN'', TStr ''V1'', TStr ''mtu''],
      mv_target = None, mv_orig = JNull\<rparr>"

theorem no_internal_references_witness:
  "find_refs sample_refs [mv_path sample_drop] sample_start True = Inr [''/VLAN_MEMBER/V1|E0''] \<and>
   \<not> startswith ''/VLAN_MEMBER/V1|E0'' (mv_path sample_drop)"
proof -
  have v: "no_dependency_validate sample_refs (move_group [] (Some sample_drop)) sample_diff sample_target
      = Inr (True, None)"
    by code_simp
  have t: "mv_type sample_drop = REMOVE" by (simp add: sample_drop_def)
  have f: "find_refs sample_refs ps c reload = Inr [''/VLAN_MEMBER/V1|E0'']" for ps c reload
    by (simp add: sample_refs_def)
  from no_internal_references [OF v, of sample_drop] t show ?thesis
    by (simp add: move_group_def f)
qed

section \<open>Validation with a cache\<close>

text \<open>
  The cache of \<open>validate_config_db_config\<close> is transparent: in every state the calls can reach,
  a verdict is the one a fresh wrapper gives for a configuration that prints the same with sorted
  keys, and the state stays of that kind.
\<close>

theorem validation_cache_transparent:
  assumes "cache_ok Y s" and "validate_config_db_config Y c s = (v, s')"
  shows "(\<exists>c'. canon c' = canon c \<and> fresh_verdict Y c' = v) \<and> cache_ok Y s'"
  using assms by (rule validate_pure)

theorem validation_cache_transparent_witness:
  "let s1 = snd (validate_config_db_config sample_yang sample_start fresh_state);
       (v, s2) = validate_config_db_config sample_yang sample_start s1
   in (\<exists>c'. canon c' = canon sample_start \<and> fresh_verdict sample_yang c' = v) \<and> cache_ok sample_yang s2"
proof -
  obtain v1 s1 where 1: "validate_config_db_config sample_yang sample_start fresh_state = (v1, s1)" by force
  obtain v s2 where 2: "validate_config_db_config sample_yang sample_start s1 = (v, s2)" by force
  have "cache_ok sample_yang s1"
    using validation_cache_transparent [OF _ 1] by simp
  from validation_cache_transparent [OF this 2] 1 2 show ?thesis by simp
qed

text \<open>
  Reference lookups use the right data: with \<open>reload_config\<close> and a configuration that loads,
  \<open>find_ref_paths\<close> resolves the paths against data loaded for a configuration that prints the same,
  and leaves the recorded hash and the loaded data in step.
\<close>

theorem references_use_loaded_config:
  assumes "load_lawful Y" and "synced s" and "find_ref_paths Y paths c True s = (r, s')"
    and "loaded_hash s = Some (canon c) \<or> load_data Y c = Inr ()"
  shows "synced s' \<and> (\<exists>c'. canon c' = canon c \<and> r = ref_paths_of Y (Some c') paths c)"
  using assms by (rule find_ref_paths_reload)

theorem references_use_loaded_config_witness:
  "\<exists>c'. canon c' = canon sample_start \<and>
     fst (find_ref_paths sample_yang [''/VLAN''] sample_start True fresh_state)
       = ref_paths_of sample_yang (Some c') [''/VLAN''] sample_start"
proof -
  obtain r s where r: "find_ref_paths sample_yang [''/VLAN''] sample_start True fresh_state = (r, s)" by force
  have "load_lawful sample_yang" "load_data sample_yang sample_start = Inr ()"
    by (simp_all add: load_lawful_def sample_yang_def)
  from references_use_loaded_config [OF this(1) _ r] this(2) r show ?thesis by simp
qed

text \<open>
  \<open>validate_lanes\<close> accepts only ports whose lanes are numbers, and, except on the platforms that
  share lanes, no lane number twice among all lanes of all ports.
\<close>

theorem accepted_lanes_distinct:
  assumes "validate_lanes (JObj d) = Inr (True, msg)" and "dget d ''PORT'' = Some (JObj ports)"
    and "distinct (dkeys ports)" and "lane_platform (JObj d) \<notin> set (map JStr dup_lanes_platforms)"
  shows "(\<forall>(n, l) \<in> set (all_lanes ports). isdigit l) \<and> distinct (map snd (all_lanes ports))"
  using assms by (rule validate_lanes_sound)

theorem accepted_lanes_distinct_witness:
  "distinct (map snd (all_lanes [(''E0'', JObj [(''lanes'', JStr ''1, 2'')]), (''E1'', JObj [(''lanes'', JStr ''3'')])]))"
proof -
  let ?p = "[(''E0'', JObj [(''lanes'', JStr ''1, 2'')]), (''E1'', JObj [(''lanes'', JStr ''3'')])]"
  let ?d = "[(''PORT'', JObj ?p)]"
  have "validate_lanes (JObj ?d) = Inr (True, None)" by code_simp
  moreover have "dget ?d ''PORT'' = Some (JObj ?p)" "distinct (dkeys ?p)"
    "lane_platform (JObj ?d) \<notin> set (map JStr dup_lanes_platforms)"
    by code_simp+
  ultimately show ?thesis using accepted_lanes_distinct by blast
qed

section \<open>Tables\<close>

text \<open>
  \<open>remove_empty_tables\<close> keeps every non-empty table as it is and nothing else, so the result has
  no empty table and a second call changes nothing.
\<close>

theorem remove_empty_tables_exact:
  assumes "remove_empty_tables (JObj d) = Inr (JObj d')" and "distinct (dkeys d)"
  shows "(\<forall>t. dget d' t = (case dget d t of None \<Rightarrow> None | Some v \<Rightarrow> if truthy v then Some v else None)) \<and>
     get_empty_tables (JObj d') = Inr [] \<and> remove_empty_tables (JObj d') = Inr (JObj d')"
  using remove_empty_tables_keeps [OF assms] remove_empty_tables_clean [OF assms(1)] remove_empty_tables_id
  by blast

theorem remove_empty_tables_exact_witness:
  "get_empty_tables (JObj [(''A'', JObj [(''k'', JNull)])]) = Inr []"
proof -
  have "remove_empty_tables (JObj [(''A'', JObj [(''k'', JNull)]), (''B'', JObj [])])
      = Inr (JObj [(''A'', JObj [(''k'', JNull)])])"
    by code_simp
  from remove_empty_tables_exact [OF this] show ?thesis by (simp add: dkeys_def)
qed

text \<open>
  Splitting a configuration into the tables with and without a YANG model and merging the parts
  gives the configuration back, up to the order of keys.
\<close>

theorem split_merge_round_trip:
  assumes "crops_by Y has_model" and "wf_json (JObj d)"
    and "tables_without_yang_split Y (JObj d) = Inr (a, b)"
  shows "\<exists>m. merge_configs a b = Inr m \<and> json_eq m (JObj d)"
  using assms by (rule split_merge)

theorem split_merge_round_trip_witness:
  "\<exists>m. merge_configs (JObj [(''VLAN'', JObj [(''V1'', JNull)])]) (JObj [(''FREE'', JObj [(''k'', JNull)])]) = Inr m \<and>
       json_eq m (JObj [(''FREE'', JObj [(''k'', JNull)]), (''VLAN'', JObj [(''V1'', JNull)])])"
proof (rule split_merge_round_trip)
  show "crops_by sample_yang (\<lambda>t. t \<noteq> ''FREE'')"
    by (simp add: crops_by_def sample_yang_def)
  show "tables_without_yang_split sample_yang (JObj [(''FREE'', JObj [(''k'', JNull)]), (''VLAN'', JObj [(''V1'', JNull)])])
      = Inr (JObj [(''VLAN'', JObj [(''V1'', JNull)])], JObj [(''FREE'', JObj [(''k'', JNull)])])"
    by code_simp
qed code_simp

end
