(* ===== verification/UpdateProps.thy ===== *)
theory UpdateProps
  imports Samples
begin

text \<open>
  The properties of applying a patch to a device: what is checked before the first write, that the
  store follows the configuration in memory, that a finished update is a verified one, and the
  contracts of checkpoints, scopes and the replacement on several ASICs.
\<close>

section \<open>\<open>extract_scope\<close>\<close>

lemma startswith_Cons [simp]: "startswith (c # s) (d # p) \<longleftrightarrow> c = d \<and> startswith s p"
  and startswith_nil [simp]: "startswith s []" "startswith [] (d # p) \<longleftrightarrow> False"
  by (auto simp: startswith_def)

lemma escape_digits: "isdigit (escape s) \<longleftrightarrow> isdigit s" "isdigit s \<Longrightarrow> escape s = s"
proof -
  have a: "list_all is_digit (escape s) \<longleftrightarrow> list_all is_digit s" "list_all is_digit s \<Longrightarrow> escape s = s"
    by (induction s) (auto simp: is_digit_def)
  moreover have "escape s = [] \<longleftrightarrow> s = []" by (cases s) auto
  ultimately show "isdigit (escape s) \<longleftrightarrow> isdigit s" "isdigit s \<Longrightarrow> escape s = s"
    by (auto simp: isdigit_def)
qed

lemma escape_asic:
  "startswith (escape k) ''asic'' \<longleftrightarrow> startswith k ''asic''"
  "startswith k ''asic'' \<Longrightarrow> escape k = ''asic'' @ escape (drop 4 k)"
  by (cases k; cases "tl k"; cases "tl (tl k)"; cases "tl (tl (tl k))"; auto)+

lemma escape_host: "escape k = ''localhost'' \<longleftrightarrow> k = ''localhost''"
proof
  assume "escape k = ''localhost''"
  then have "unescape (escape k) = unescape ''localhost''" by simp
  then show "k = ''localhost''" by simp
qed simp

lemma valid_escape: "\<not> invalid_escape (escape s @ t) \<longleftrightarrow> \<not> invalid_escape t"
  by (induction s) auto

lemma valid_join: "\<not> invalid_escape (ptr_join ts)"
  by (induction ts) (auto simp: ptr_join_def valid_escape)

lemma join_parts: "CHR ''/'' # join_with ''/'' (map escape ks) = (if ks = [] then ''/'' else ptr_join (map TStr ks))"
proof (induction ks)
  case (Cons k ks)
  then show ?case by (cases ks) (auto simp: ptr_join_def)
qed simp

text \<open>
  \<open>extract_scope\<close> takes the namespace off the paths of a multi-ASIC device: a first token that is
  \<open>localhost\<close> or \<open>asic\<close> with a number is returned with the path of the remaining tokens.  Without
  such a token the path is refused on a multi-ASIC device and unchanged on a single one, where only
  a malformed \<open>asic\<close> token is refused.
\<close>

theorem extract_scope_spec:
  fixes k ks multi
  defines "path \<equiv> ptr_join (map TStr (k # ks))"
  shows "if k = host_namespace \<or> (startswith k ''asic'' \<and> isdigit (drop 4 k))
         then extract_scope multi path = Inr (k, if ks = [] then ''/'' else ptr_join (map TStr ks))
         else if multi \<or> startswith k ''asic'' then \<exists>msg. extract_scope multi path = Inl (GenericConfigUpdaterError msg)
         else extract_scope multi path = Inr ([], path)"
proof -
  have p: "path \<noteq> []" "hd path = CHR ''/''" by (simp_all add: path_def ptr_join_def)
  have parts: "map (\<lambda>p. escape (unescape p)) (tl (split_on (CHR ''/'') path)) = escape k # map escape ks"
    by (simp add: path_def split_ptr_join)
  have host: "\<not> startswith ''localhost'' ''asic''" "escape ''localhost'' = ''localhost''" by simp_all
  note defs = extract_scope_def p valid_join path_def [symmetric] parts join_parts Let_def host_namespace_def
  have valid: "\<not> invalid_escape path" unfolding path_def by (rule valid_join)
  show ?thesis
  proof (cases "startswith k ''asic''")
    case True
    then have "take 4 k = ''asic''" by (simp add: startswith_def eval_nat_numeral)
    then have k: "''asic'' @ drop 4 k = k" by (metis append_take_drop_id)
    have e: "escape k = ''asic'' @ escape (drop 4 k)" using True by (rule escape_asic(2))
    have start: "startswith (escape k) ''asic''" using True by (simp only: escape_asic(1))
    have d: "drop 4 (escape k) = escape (drop 4 k)" unfolding e by simp
    have n: "k \<noteq> ''localhost''" using True host by blast
    show ?thesis
    proof (cases "isdigit (drop 4 k)")
      case dig: True
      then have "escape k = k" using e k escape_digits(2) by metis
      with valid start d dig True escape_digits show ?thesis by (simp add: defs)
    next
      case False
      with valid start d True n escape_digits show ?thesis by (simp add: defs)
    qed
  next
    case False
    with valid host escape_asic(1) [of k] escape_host [of k] show ?thesis by (auto simp: defs)
  qed
qed

section \<open>Applying a patch\<close>

text \<open>
  C6. Nothing is written before every check has passed: if \<open>PatchApplier.apply\<close> leaves the device in
  another state, then the patch applied to the configuration it read, the changed fields were
  permitted, the target has no empty table and, when sorting was asked for, the sorter accepted.
\<close>

theorem no_write_before_checks:
  assumes "patch_applier_apply E A permitted srt patch do_sort c = (r, c')" and "c' \<noteq> c"
  shows "\<exists>old target changes. ca_read A c = Inr old \<and> simulate_config_db_patch E patch old = Inr target \<and>
           permitted old target = Inr () \<and> get_empty_tables target = Inr [] \<and>
           (if do_sort then srt old patch else Inr (map (\<lambda>x. [x]) patch)) = Inr changes \<and>
           c' = snd (apply_in_order A changes old c)"
proof -
  from assms obtain old target changes where
    p: "ca_read A c = Inr old" "plan_changes E permitted srt patch do_sort old = Inr (target, changes)"
    by (auto simp: patch_applier_apply_def res_simps split: sum.splits)
  moreover have "c' = snd (apply_in_order A changes old c)"
    using assms(1) p by (auto simp: patch_applier_apply_def split: prod.splits sum.splits)
  ultimately show ?thesis by (auto simp: plan_changes_def res_simps split: if_splits)
qed

definition sample_conf :: "json option" where
  "sample_conf = Some (JObj [(''tables'', JObj []), (''services'', JObj [])])"

definition sample_applier :: "json dict change_applier" where
  "sample_applier = real_applier sample_ext doc_store sample_conf (\<lambda>_ _ _ _. Inr (JBool True))"

definition permit_all :: "json \<Rightarrow> json \<Rightarrow> unit res" where
  "permit_all old target = Inr ()"

definition sample_tables :: "json dict" where
  "sample_tables = [(''VLAN'', JObj [(''V1'', JObj [(''mtu'', JStr ''1'')])])]"

lemma sample_unsorted:
  "patch_applier_apply sample_ext sample_applier permit_all (\<lambda>_ _. Inl TypeError) sample_patch False sample_tables
     = (Inr (), [(''VLAN'', JObj [(''V1'', JObj [(''mtu'', JStr ''2'')])])])"
  by code_simp

theorem no_write_before_checks_witness:
  "\<exists>old target changes. ca_read sample_applier sample_tables = Inr old \<and>
     simulate_config_db_patch sample_ext sample_patch old = Inr target \<and> get_empty_tables target = Inr [] \<and>
     snd (apply_in_order sample_applier changes old sample_tables) \<noteq> sample_tables"
proof -
  have "[(''VLAN'', JObj [(''V1'', JObj [(''mtu'', JStr ''2'')])])] \<noteq> sample_tables"
    by (simp add: sample_tables_def)
  from no_write_before_checks [OF sample_unsorted this] this show ?thesis by metis
qed

text \<open>
  C5. \<open>PatchApplier.apply\<close> returns without an exception only when the update is complete: what the
  device then holds equals the simulated target, both without the backend tables.  This needs only
  what \<open>make_patch\<close> documents, and neither the sorter nor the services.
\<close>

theorem returned_update_is_complete:
  assumes "patch_applier_apply E A permitted srt patch do_sort c = (Inr (), c')" and "diff_lawful E"
  shows "\<exists>old target new t n. ca_read A c = Inr old \<and> simulate_config_db_patch E patch old = Inr target \<and>
           ca_read A c' = Inr new \<and> ca_remove_backend A target = Inr t \<and> ca_remove_backend A new = Inr n \<and>
           json_eq t n"
proof -
  from assms(1) obtain old target changes where
    p: "ca_read A c = Inr old" "plan_changes E permitted srt patch do_sort old = Inr (target, changes)"
    by (auto simp: patch_applier_apply_def res_simps split: sum.splits)
  then have "simulate_config_db_patch E patch old = Inr target"
    by (auto simp: plan_changes_def res_simps split: if_splits)
  moreover have "\<exists>msg. verify_update E A target msg c' = Inr ()"
    using assms(1) p by (auto simp: patch_applier_apply_def split: prod.splits sum.splits)
  ultimately show ?thesis
    using p assms(2) by (auto simp: verify_update_def verify_same_json_def diff_lawful_def res_simps split: if_splits)
qed

theorem returned_update_is_complete_witness:
  "\<exists>new. ca_read sample_applier [(''VLAN'', JObj [(''V1'', JObj [(''mtu'', JStr ''2'')])])] = Inr new \<and>
     json_eq sample_target new"
proof -
  have r: "ca_read sample_applier sample_tables = Inr sample_start" by code_simp
  have b: "ca_remove_backend sample_applier sample_target = Inr sample_target" by code_simp
  have n: "ca_read sample_applier [(''VLAN'', JObj [(''V1'', JObj [(''mtu'', JStr ''2'')])])] = Inr sample_target"
    by code_simp
  from returned_update_is_complete [OF sample_unsorted sample_diff_lawful] r b n sample_simulated
  show ?thesis by auto
qed

text \<open>
  C7. The store refines the configuration in memory: whenever an entry of the store is the entry of
  the current configuration or both are absent, so it is after \<open>ChangeApplier.apply\<close> returned, for
  the configuration it returned, in any store that reads back what it was told to set.
\<close>

theorem store_follows_configuration:
  assumes "store_laws S storable" and "change_apply E S conf invoke cur change c = (Inr upd, c')"
    and "\<forall>t k. \<not> entry_changed (entry (cs_read S c) t k) (entry cur t k)"
    and "wf_json upd" and "\<forall>t k v. entry upd t k = Some v \<longrightarrow> storable v \<and> v \<noteq> JNull"
  shows "\<not> entry_changed (entry (cs_read S c') t k) (entry upd t k)"
proof -
  note laws = store_laws_forms [OF assms(1)]
  have "wf_json v" if "entry upd t k = Some v" for t k v using assms(4) that by (rule wf_entry)
  then have "store_forms.writable (\<lambda>v. storable v \<and> wf_json v) upd"
    using assms(4,5) by (simp add: store_forms.writable_def [OF laws])
  with store_forms.change_apply_tracks [OF laws assms(2)] assms(3) show ?thesis
    by (simp add: store_forms.tracks_def [OF laws] entry_changed_def)
qed

lemma sample_change:
  "change_apply sample_ext doc_store sample_conf (\<lambda>_ _ _ _. Inr (JBool True)) sample_start sample_patch sample_tables
     = (Inr sample_target, [(''VLAN'', JObj [(''V1'', JObj [(''mtu'', JStr ''2'')])])])"
  by code_simp

theorem store_follows_configuration_witness:
  "\<not> entry_changed (entry (JObj [(''VLAN'', JObj [(''V1'', JObj [(''mtu'', JStr ''2'')])])]) ''VLAN'' ''V1'')
       (entry sample_target ''VLAN'' ''V1'')"
proof -
  have read: "cs_read doc_store d = JObj d" for d by (simp add: doc_store_def)
  have wf: "wf_json sample_start" "wf_json sample_target" by code_simp+
  have "\<forall>t k. \<not> entry_changed (entry (cs_read doc_store sample_tables) t k) (entry sample_start t k)"
    using wf_entry [OF wf(1)]
    by (auto simp: read sample_tables_def sample_start_def entry_changed_def opt_json_def json_eq_refl
        simp del: json_eq.simps split: option.splits)
  moreover have "\<forall>t k v. entry sample_target t k = Some v \<longrightarrow> (wf_json v \<and> v \<noteq> JNull) \<and> v \<noteq> JNull"
    using wf_entry [OF wf(2)] by (auto simp: entry_def sample_target_def dget_def split: if_splits)
  ultimately show ?thesis
    using store_follows_configuration [OF doc.store_laws_axioms sample_change _ wf(2)] by (simp add: read)
qed

section \<open>The whole update\<close>

text \<open>
  C1. An update that was planned is carried out: a patch the strict sorter accepts is applied without an
  exception and leaves the store equal to the target, although the store need not give back what it was told
  to set, an empty list in particular.  Assumed of what surrounds the updater: \<open>set_entry\<close> changes the one
  entry it names (\<open>store_forms\<close>) and what is read back of an entry is the entry itself when its fields hold
  strings or lists of strings and no list is empty (\<open>keeps_leaves\<close>); the YANG validation accepts, in tables
  with a model, only dictionaries of entries and of fields (\<open>schema_sound\<close>), whether or not the store can
  give them back; the service validators answer.  Assumed of the run: the configuration read at the start has
  dictionaries only, no empty table and no \<open>bgpraw\<close>, its entries are in the form the store gives back, the
  planned changes leave the tables without a model alone, and the fields of the target hold strings or lists of
  strings.  That the target has no empty list is what \<open>simulate_config_db_patch\<close> sees to.  With the memoizing
  sorter, moves must be replayable on diffs with the same hash.
\<close>

theorem planned_update_succeeds:
  assumes "store_forms S config_entry stored" "keeps_leaves stored" and "json_ext E" "diff_lawful E"
    and "schema_sound E has_model" and "services_quiet conf invoke"
    and "config_shaped (cs_read S c)" "cs_read S c = JObj d" "dget d ''bgpraw'' = None"
    and "dict_config (JObj d)" and "leaves_alone E has_model changes (JObj d)"
    and "\<forall>t k v. entry (JObj d) t k = Some v \<longrightarrow> json_eq v (stored v)"
    and "plan_changes E permitted (\<lambda>running p. strict_sort E Y h n running p alg) patch True (JObj d)
                 = Inr (target, changes)"
    and "py_in (TStr ''bgpraw'') target = Inr False"
    and "\<forall>t k v. entry target t k = Some v \<longrightarrow> leaf_entry v"
    and "sorter_ok alg (factory_env E h n) \<lparr>current_config = JObj d, target_config = target\<rparr>"
  shows "\<exists>c'. patch_applier_apply E (real_applier E S conf invoke) permitted
                (\<lambda>running p. strict_sort E Y h n running p alg) patch True c = (Inr (), c') \<and>
              json_eq (cs_read S c') target"
  using assms by (rule strict_apply_succeeds)

lemma sample_quiet: "services_quiet sample_conf (\<lambda>_ _ _ _. Inr (JBool True))"
proof -
  have t: "rbind (map_res (\<lambda>t. conf_lists (JObj []) t k) ts) f = f (replicate (length ts) [])" for k ts
      and f :: "string list list \<Rightarrow> json res"
  proof -
    have "map_res (\<lambda>t. conf_lists (JObj []) t k) ts = Inr (replicate (length ts) [])"
      by (induction ts) (simp_all add: conf_lists_def py_get_default_def dget_def)
    then show ?thesis by simp
  qed
  show ?thesis
    by (simp add: services_quiet_def services_validate_def sample_conf_def Let_def t dget_def dedup_def)
qed

lemma sample_schema_sound: "schema_sound sample_ext (\<lambda>t. t \<noteq> ''FREE'')"
proof -
  have "wf_json c \<and> is_obj c \<and> (\<forall>t u. t \<noteq> ''FREE'' \<and> table_at c t = Some u \<longrightarrow> dict_table u)"
    if v: "sample_valid c" for c
  proof -
    obtain d where c: "c = JObj d" "wf_json c"
      and d: "list_all (\<lambda>p. fst p = ''FREE'' \<or> sample_table (snd p)) d"
      using v by (auto simp: sample_valid_def simp del: wf_json.simps split: json.splits)
    have "dict_table u" if "sample_table u" for u
      using that
      by (cases u) (auto simp: sample_table_def dict_table_def list_all_iff dest!: dget_SomeD)
    then show ?thesis using c d
      by (auto simp: table_at_def list_all_iff simp del: wf_json.simps dest!: dget_SomeD)
  qed
  then show ?thesis by (simp add: schema_sound_def sample_ext_def)
qed

text \<open>
  The store gives an empty list back as the docstring says, and the schema accepts empty lists and whatever the
  table \<open>FREE\<close> without a model holds: a valid configuration may be one the store cannot hold.  The patch
  asks for an empty list.
\<close>

lemma leaf_store_keeps: "keeps_leaves blank_lists"
proof -
  have "blank_lists v = v" if v: "leaf_entry v" "\<forall>f. py_getitem v (TStr f) \<noteq> Inr (JList [])" "wf_json v" for v
  proof -
    obtain e where e: "v = JObj e" using v(1) by (cases v) (auto simp: leaf_entry_def)
    have "w \<noteq> JList []" if "(f, w) \<in> set e" for f w
      using that v(2,3) e by (auto simp: dget_Some_iff [symmetric] split: option.splits)
    then have "map (\<lambda>p. (fst p, blank_list (snd p))) e = e"
      by (intro map_idI) (auto simp: blank_list_def)
    with e show ?thesis by (simp add: blank_lists_def map_values_def)
  qed
  then show ?thesis by (simp add: keeps_leaves_def json_eq_refl)
qed

definition sample_request :: "operation list" where
  "sample_request =
     sample_patch @ [\<lparr>op = ''add'', op_path = ''/VLAN/V1/dhcp_servers'', op_value = Some (JList [])\<rparr>]"

lemma sample_request_facts:
  "sample_valid (JObj [(''VLAN'', JObj [(''V1'', JObj [(''mtu'', JStr ''2''), (''dhcp_servers'', JList [])])])])"
  "simulate_config_db_patch sample_ext sample_request sample_start = Inr sample_target"
  "validate_config_db_patch_has_yang_models sample_ext sample_yang sample_request = Inr True"
  "validate_config sample_ext sample_target = Inr (True, None)"
  "get_empty_tables sample_target = Inr []"
  "py_in (TStr ''bgpraw'') sample_target = Inr False"
  by code_simp+

lemma sample_request_sort:
  "strict_sort sample_ext sample_yang h (Suc (Suc n)) sample_start sample_request DFS = Inr [sample_patch]"
  using sample_request_facts sample_simulated sample_patch_sort [of h n]
  by (simp add: strict_sort_def patch_sort_def)

definition leaf_applier :: "json dict change_applier" where
  "leaf_applier = real_applier sample_ext leaf_store sample_conf (\<lambda>_ _ _ _. Inr (JBool True))"

theorem planned_update_succeeds_witness:
  "\<exists>c'. patch_applier_apply sample_ext leaf_applier permit_all
          (\<lambda>running p. strict_sort sample_ext sample_yang (\<lambda>_. 0) 2 running p DFS) sample_request True sample_tables
            = (Inr (), c') \<and> json_eq (cs_read leaf_store c') sample_target"
proof -
  have read: "cs_read leaf_store sample_tables = JObj sample_tables" by (simp add: leaf_store_def)
  have eq: "JObj sample_tables = sample_start" by (simp add: sample_tables_def sample_start_def)
  have shaped: "config_shaped (cs_read leaf_store sample_tables)"
    unfolding read by (auto simp: sample_tables_def config_shaped_def table_shaped_def dget_def split: if_splits)
  have raw: "dget sample_tables ''bgpraw'' = None" by code_simp
  have dicts: "dict_config (JObj sample_tables)"
    by (auto simp: sample_tables_def dict_config_def table_at_def dict_table_def split: if_splits)
  have "apply_changes sample_ext [sample_patch] sample_start = Inr [sample_target]" by code_simp
  then have alone: "leaves_alone sample_ext (\<lambda>t. t \<noteq> ''FREE'') [sample_patch] (JObj sample_tables)"
    by (simp add: leaves_alone_def eq) (simp add: table_at_def sample_target_def sample_start_def)
  have kept: "\<forall>t k v. entry (JObj sample_tables) t k = Some v \<longrightarrow> json_eq v (blank_lists v)"
    by (auto simp: sample_tables_def entry_def blank_lists_def map_values_def blank_list_def split: if_splits)
  have leaves: "\<forall>t k v. entry sample_target t k = Some v \<longrightarrow> leaf_entry v"
    by (auto simp: sample_target_def entry_def leaf_entry_def endswith_def split: if_splits)
  from sample_request_facts sample_request_sort [of "\<lambda>_. 0" 0]
  have plan: "plan_changes sample_ext permit_all
      (\<lambda>running p. strict_sort sample_ext sample_yang (\<lambda>_. 0) 2 running p DFS) sample_request True
      (JObj sample_tables) = Inr (sample_target, [sample_patch])"
    by (simp add: plan_changes_def permit_all_def eq eval_nat_numeral)
  have quiet: "services_quiet sample_conf (\<lambda>_ _ _ _. Inr (JBool True))"
    by (rule sample_quiet)
  have ok: "sorter_ok DFS (factory_env sample_ext (\<lambda>_. 0) 2)
      \<lparr>current_config = JObj sample_tables, target_config = sample_target\<rparr>"
    by (simp add: sorter_ok_def)
  show ?thesis
    unfolding leaf_applier_def
    by (rule planned_update_succeeds [OF leaf.store_forms_axioms leaf_store_keeps sample_json_ext
          sample_diff_lawful sample_schema_sound quiet shaped read raw dicts alone kept plan sample_request_facts(6) leaves ok])
qed

section \<open>Checkpoints\<close>

lemma checkpoint_file_inj: "checkpoint_file a = checkpoint_file b \<longleftrightarrow> a = b"
  by (simp add: checkpoint_file_def)

lemma name_of_checkpoint_file:
  "endswith f checkpoint_ext \<longleftrightarrow> (\<exists>n. f = checkpoint_file n)"
  "take (length (checkpoint_file n) - length checkpoint_ext) (checkpoint_file n) = n"
proof
  assume "endswith f checkpoint_ext"
  then have "f = checkpoint_file (take (length f - length checkpoint_ext) f)"
    unfolding endswith_def checkpoint_file_def by (metis append_take_drop_id)
  then show "\<exists>n. f = checkpoint_file n" ..
qed (auto simp: endswith_def checkpoint_file_def)

lemma checkpoint_names_iff: "n \<in> set (get_checkpoint_names D) \<longleftrightarrow> dhas (cd_files D) (checkpoint_file n)"
  using name_of_checkpoint_file
  by (fastforce simp: get_checkpoint_names_def dhas_iff image_iff)

text \<open>
  Rolling back to a checkpoint just taken replaces the configuration by exactly the one that was
  saved, whatever was saved under that name before; the checkpoint is listed from then on, and every
  other checkpoint keeps its content.
\<close>

theorem rollback_to_checkpoint:
  fixes D name j
  defines "D' \<equiv> snd (checkpoint (Inr j) name D)"
  shows "rollback replace D' name c = replace j c \<and> name \<in> set (list_checkpoints D') \<and>
     (other = name \<or> get_checkpoint_content D' other = get_checkpoint_content D other)"
  by (simp add: D'_def checkpoint_def rollback_def check_checkpoint_exists_def get_checkpoint_content_def
      list_checkpoints_def checkpoint_names_iff checkpoint_file_inj dhas_iff)

text \<open>
  Deleting a checkpoint that is listed takes exactly that name off the list and keeps the content
  of every other; deleting or rolling back to a name that is not listed is refused and changes
  nothing.
\<close>

theorem delete_checkpoint_spec:
  fixes D name
  defines "R \<equiv> delete_checkpoint name D"
  shows "if name \<in> set (list_checkpoints D)
         then fst R = Inr () \<and> set (list_checkpoints (snd R)) = set (list_checkpoints D) - {name} \<and>
              (other = name \<or> get_checkpoint_content (snd R) other = get_checkpoint_content D other)
         else R = (Inl (no_checkpoint name), D) \<and> rollback replace D name c = (Inl (no_checkpoint name), c)"
  by (auto simp: R_def delete_checkpoint_def rollback_def check_checkpoint_exists_def get_checkpoint_content_def
      list_checkpoints_def checkpoint_names_iff checkpoint_file_inj dhas_def split: if_splits option.splits)

section \<open>Several ASICs\<close>

lemma replace_scopes_done:
  "replace_scopes replace scopes target cs = (Inr (), cs') \<Longrightarrow> distinct (map scope_key scopes) \<Longrightarrow>
     (\<forall>scope \<in> set scopes. \<exists>config. dget target scope = Some config \<and>
        replace (scope_key scope) config (cs (scope_key scope)) = (Inr (), cs' (scope_key scope))) \<and>
     (\<forall>key. key \<notin> set (map scope_key scopes) \<longrightarrow> cs' key = cs key)"
proof (induction scopes arbitrary: target cs)
  case (Cons s scopes)
  obtain config c where c: "dget target s = Some config" "replace (scope_key s) config (cs (scope_key s)) = (Inr (), c)"
    and r: "replace_scopes replace scopes (ddel s target) (cs(scope_key s := c)) = (Inr (), cs')"
    using Cons.prems(1) by (auto split: option.splits prod.splits sum.splits)
  have d: "distinct (map scope_key scopes)" "scope_key s \<notin> set (map scope_key scopes)"
    using Cons.prems(2) by auto
  note ih = Cons.IH [OF r d(1)]
  have "cs' (scope_key s) = c" using ih d(2) by simp
  moreover have "\<exists>config. dget target x = Some config \<and>
      replace (scope_key x) config (cs (scope_key x)) = (Inr (), cs' (scope_key x))" if "x \<in> set scopes" for x
  proof -
    have "scope_key x \<in> set (map scope_key scopes)" using that by simp
    with d(2) have "scope_key x \<noteq> scope_key s" by metis
    then have "scope_key x \<noteq> scope_key s" "x \<noteq> s" by auto
    with ih that show ?thesis by (fastforce split: if_splits)
  qed
  ultimately show ?case using c ih by auto
qed simp

text \<open>
  \<open>MultiASICConfigReplacer.replace\<close>: when the target lacks a scope nothing is replaced; when the
  call returns, every scope was replaced by its own part of the target, successfully, and stores of
  other namespaces are untouched.
\<close>

theorem multi_asic_replace_spec:
  assumes "distinct (map scope_key scopes)" and "multi_asic_replace replace scopes target cs = (r, cs')"
  shows "(\<exists>scope \<in> set scopes. \<not> dhas target scope) \<and> cs' = cs \<and> isl r \<or>
     (\<forall>scope \<in> set scopes. dhas target scope) \<and>
     (r = Inr () \<longrightarrow>
       (\<forall>scope \<in> set scopes. \<exists>config. dget target scope = Some config \<and>
          replace (scope_key scope) config (cs (scope_key scope)) = (Inr (), cs' (scope_key scope))) \<and>
       (\<forall>key. key \<notin> set (map scope_key scopes) \<longrightarrow> cs' key = cs key))"
proof (cases "filter (\<lambda>s. \<not> dhas target s) scopes = []")
  case True
  with assms(2) have "replace_scopes replace scopes target cs = (r, cs')" by (simp add: multi_asic_replace_def)
  then show ?thesis
    using True replace_scopes_done [OF _ assms(1), of replace target cs cs']
    by (simp add: filter_empty_conv)
next
  case False
  then obtain s where "s \<in> set scopes" "\<not> dhas target s" by (auto simp: filter_empty_conv)
  with assms(2) False show ?thesis by (auto simp: multi_asic_replace_def Let_def)
qed

theorem multi_asic_replace_spec_witness:
  "let cs' = snd (multi_asic_replace (\<lambda>scope j c. (Inr (), j)) [''localhost'', ''asic0'']
                    [(''asic0'', JInt 2), (''localhost'', JInt 1)] (\<lambda>_. JNull))
   in cs' [] = JInt 1 \<and> cs' ''asic0'' = JInt 2 \<and> cs' ''asic1'' = JNull"
proof -
  let ?t = "[(''asic0'', JInt 2), (''localhost'', JInt 1)]"
  let ?R = "multi_asic_replace (\<lambda>scope j c. (Inr () :: unit res, j)) [''localhost'', ''asic0''] ?t (\<lambda>_. JNull)"
  have k: "scope_key ''localhost'' = []" "scope_key ''asic0'' = ''asic0''" by code_simp+
  have r: "fst ?R = Inr ()" by code_simp
  have h: "dget ?t ''localhost'' = Some (JInt 1)" "dget ?t ''asic0'' = Some (JInt 2)" by code_simp+
  from multi_asic_replace_spec [OF _ prod.collapse [of ?R, symmetric]] r k h show ?thesis
    by (simp add: Let_def dhas_iff)
qed

end
