(* ===== verification/ConfigDb.thy ===== *)
theory ConfigDb
  imports Prelude
begin

text \<open>
  ConfigDB as the configuration commands use it: the connector of the package \<open>swsscommon\<close> is a
  parameter, a record of its operations with the laws it documents, and a command is a function of
  the database to a result and the database.  What a failing command has already written stays
  written.

  A key with a bar is handed out by \<open>get_table\<close> as a tuple; here a key is its text, \<open>key_parts\<close> the
  tuple, and indexing a key that is no tuple takes a character, as in the code.
\<close>

section \<open>The connector\<close>

text \<open>Field values as the code passes them; the database keeps and returns \<open>str(value)\<close>.\<close>

datatype fval = FStr string | FInt int | FNone

type_synonym fvs = "(string \<times> fval) list"

fun field_text :: "fval \<Rightarrow> string" where
  "field_text (FStr s) = s"
| "field_text (FInt i) = str_int i"
| "field_text FNone = ''None''"

text \<open>\<open>entry.get(field)\<close> handed on as a value, and \<open>int(value)\<close>.\<close>

fun opt_val :: "string option \<Rightarrow> fval" where
  "opt_val None = FNone"
| "opt_val (Some s) = FStr s"

fun val_int :: "fval \<Rightarrow> int res" where
  "val_int (FStr s) = py_int s"
| "val_int (FInt i) = Inr i"
| "val_int FNone = Inl TypeError"

record 'c db_env =
  db_get_entry :: "string \<Rightarrow> string \<Rightarrow> 'c \<Rightarrow> string dict"
  db_get_table :: "string \<Rightarrow> 'c \<Rightarrow> string dict dict"
  db_set_entry :: "string \<Rightarrow> string \<Rightarrow> fvs option \<Rightarrow> 'c \<Rightarrow> 'c"
  db_mod_entry :: "string \<Rightarrow> string \<Rightarrow> fvs \<Rightarrow> 'c \<Rightarrow> 'c"
  db_delete_table :: "string \<Rightarrow> 'c \<Rightarrow> 'c"
  natsorted :: "string list \<Rightarrow> string list"
  alias_mode :: bool

definition field_of :: "'c db_env \<Rightarrow> string \<Rightarrow> string \<Rightarrow> string \<Rightarrow> 'c \<Rightarrow> string option" where
  "field_of D t k f c = dget (db_get_entry D t k c) f"

text \<open>
  The documented laws: \<open>set_entry\<close> replaces an entry, with \<open>None\<close> it removes it, \<open>mod_entry\<close> updates
  the given fields of an entry, \<open>delete_table\<close> removes every entry of a table; nothing else changes,
  \<open>get_table\<close> lists every entry there is, each once, and \<open>natsorted\<close> permutes.
\<close>

locale config_db =
  fixes D :: "'c db_env"
  assumes set_field: "field_of D t k f (db_set_entry D t' k' (Some fv) c) =
      (if t = t' \<and> k = k' then map_option field_text (dget fv f) else field_of D t k f c)"
    and unset_field: "field_of D t k f (db_set_entry D t' k' None c) =
      (if t = t' \<and> k = k' then None else field_of D t k f c)"
    and mod_field: "field_of D t k f (db_mod_entry D t' k' fv c) =
      (if t = t' \<and> k = k' then (case dget fv f of Some v \<Rightarrow> Some (field_text v) | None \<Rightarrow> field_of D t k f c)
       else field_of D t k f c)"
    and delete_field: "field_of D t k f (db_delete_table D t' c) = (if t = t' then None else field_of D t k f c)"
    and table_entry: "dget (db_get_table D t c) k = Some e \<Longrightarrow> e = db_get_entry D t k c"
    and table_key: "field_of D t k f c = Some v \<Longrightarrow> dhas (db_get_table D t c) k"
    and table_distinct: "distinct (dkeys (db_get_table D t c))"
    and natsorted_mset: "mset (natsorted D ks) = mset ks"
begin

lemmas db_laws = set_field unset_field mod_field delete_field

lemma natsorted_set [simp]: "set (natsorted D ks) = set ks"
  using natsorted_mset by (metis set_mset_mset)

lemma entry_empty_iff: "db_get_entry D t k c = [] \<longleftrightarrow> (\<forall>f. field_of D t k f c = None)"
proof
  assume "\<forall>f. field_of D t k f c = None"
  then have "dkeys (db_get_entry D t k c) = []" by (metis dget_None_iff field_of_def list.set_intros(1) neq_Nil_conv)
  then show "db_get_entry D t k c = []" by (simp add: dkeys_def)
qed (simp add: field_of_def dget_def)

end

section \<open>Keys\<close>

definition key_parts :: "string \<Rightarrow> string list" where
  "key_parts k = split_on (CHR ''|'') k"

text \<open>\<open>key[i]\<close>, for a tuple or a plain string.\<close>

definition key_at :: "string \<Rightarrow> nat \<Rightarrow> string res" where
  "key_at k i =
     (let ps = key_parts k in
      if length ps > 1 then (if i < length ps then Inr (ps ! i) else Inl IndexError)
      else if i < length k then Inr [k ! i] else Inl IndexError)"

text \<open>\<open>a, b = key\<close>.\<close>

definition key_pair :: "string \<Rightarrow> (string \<times> string) res" where
  "key_pair k =
     (case key_parts k of
        [a, b] \<Rightarrow> Inr (a, b)
      | [s] \<Rightarrow> if length s = 2 then Inr ([s ! 0], [s ! 1]) else Inl (ValueError ''unpack'')
      | _ \<Rightarrow> Inl (ValueError ''unpack''))"

section \<open>Commands\<close>

type_synonym 'c cmd = "'c \<Rightarrow> unit res \<times> 'c"

definition finish :: "'c cmd" where
  "finish c = (Inr (), c)"

definition raise :: "py_error \<Rightarrow> 'c cmd" where
  "raise e c = (Inl e, c)"

text \<open>\<open>ctx.fail(message)\<close>.\<close>

definition fail :: "string \<Rightarrow> 'c cmd" where
  "fail msg = raise (CtxFail msg)"

definition put :: "('c \<Rightarrow> 'c) \<Rightarrow> 'c cmd" where
  "put f c = (Inr (), f c)"

fun seq :: "'c cmd list \<Rightarrow> 'c cmd" where
  "seq [] c = (Inr (), c)"
| "seq (m # ms) c = (case m c of (Inl e, c') \<Rightarrow> (Inl e, c') | (Inr _, c') \<Rightarrow> seq ms c')"

text \<open>A command that first reads from the database; the read may raise.\<close>

definition ask :: "('c \<Rightarrow> 'a) \<Rightarrow> ('a \<Rightarrow> 'c cmd) \<Rightarrow> 'c cmd" where
  "ask f g c = g (f c) c"

definition attempt :: "('c \<Rightarrow> 'a res) \<Rightarrow> ('a \<Rightarrow> 'c cmd) \<Rightarrow> 'c cmd" where
  "attempt f g c = (case f c of Inl e \<Rightarrow> (Inl e, c) | Inr x \<Rightarrow> g x c)"

definition each :: "'a list \<Rightarrow> ('a \<Rightarrow> 'c cmd) \<Rightarrow> 'c cmd" where
  "each xs f = seq (map f xs)"

definition fail_if :: "bool \<Rightarrow> string \<Rightarrow> 'c cmd" where
  "fail_if b msg = (if b then fail msg else finish)"

section \<open>What every run of a command keeps\<close>

text \<open>\<open>keeps I m\<close>: from a state with \<open>I\<close>, the command ends in one, whether it returns or raises.\<close>

definition keeps :: "('c \<Rightarrow> bool) \<Rightarrow> 'c cmd \<Rightarrow> bool" where
  "keeps I m \<longleftrightarrow> (\<forall>c. I c \<longrightarrow> I (snd (m c)))"

named_theorems keeps_intros

lemma keepsD: "keeps I m \<Longrightarrow> I c \<Longrightarrow> I (snd (m c))"
  by (simp add: keeps_def)

lemma keeps_basic [keeps_intros]: "keeps I finish" "keeps I (raise e)" "keeps I (fail msg)" "keeps I (fail_if b msg)"
  by (simp_all add: keeps_def finish_def raise_def fail_def fail_if_def)

lemma keeps_put: "(\<And>c. I c \<Longrightarrow> I (f c)) \<Longrightarrow> keeps I (put f)"
  by (simp add: keeps_def put_def)

lemma keeps_seq [keeps_intros]:
  "keeps I (seq [])" "keeps I m \<Longrightarrow> keeps I (seq ms) \<Longrightarrow> keeps I (seq (m # ms))"
  by (auto simp: keeps_def split: prod.splits sum.splits)

lemma keeps_ask [keeps_intros]: "(\<And>x. keeps I (g x)) \<Longrightarrow> keeps I (ask f g)"
  by (simp add: keeps_def ask_def)

lemma keeps_attempt [keeps_intros]: "(\<And>x. keeps I (g x)) \<Longrightarrow> keeps I (attempt f g)"
  by (simp add: keeps_def attempt_def split: sum.splits)

lemma keeps_if [keeps_intros]: "keeps I m \<Longrightarrow> keeps I m' \<Longrightarrow> keeps I (if b then m else m')"
  by simp

lemma keeps_each [keeps_intros]: "(\<And>x. keeps I (f x)) \<Longrightarrow> keeps I (each xs f)"
  unfolding each_def by (induction xs) (auto intro: keeps_intros)

lemma keeps_each_in: "(\<And>x. x \<in> set xs \<Longrightarrow> keeps I (f x)) \<Longrightarrow> keeps I (each xs f)"
  unfolding each_def by (induction xs) (auto intro: keeps_intros)

section \<open>Weakest preconditions\<close>

text \<open>\<open>wp m Q E c\<close>: run from \<open>c\<close>, the command returns in a state with \<open>Q\<close> or raises in one with \<open>E\<close>.\<close>

definition wp :: "'c cmd \<Rightarrow> ('c \<Rightarrow> bool) \<Rightarrow> ('c \<Rightarrow> bool) \<Rightarrow> 'c \<Rightarrow> bool" where
  "wp m Q E c \<longleftrightarrow> (case m c of (Inr _, c') \<Rightarrow> Q c' | (Inl _, c') \<Rightarrow> E c')"

named_theorems wp_rules

lemma wp_basic [wp_rules]:
  "wp finish Q E c \<longleftrightarrow> Q c" "wp (raise e) Q E c \<longleftrightarrow> E c" "wp (fail msg) Q E c \<longleftrightarrow> E c" "wp (put f) Q E c \<longleftrightarrow> Q (f c)"
  "wp (fail_if b msg) Q E c \<longleftrightarrow> (if b then E c else Q c)"
  by (simp_all add: wp_def finish_def raise_def fail_def put_def fail_if_def)

lemma wp_seq [wp_rules]:
  "wp (seq []) Q E c \<longleftrightarrow> Q c" "wp (seq (m # ms)) Q E c \<longleftrightarrow> wp m (wp (seq ms) Q E) E c"
  by (auto simp: wp_def split: prod.splits sum.splits)

lemma wp_reads [wp_rules]:
  "wp (ask f g) Q E c \<longleftrightarrow> wp (g (f c)) Q E c"
  "wp (attempt r h) Q E c \<longleftrightarrow> (case r c of Inl e \<Rightarrow> E c | Inr x \<Rightarrow> wp (h x) Q E c)"
  by (simp_all add: wp_def ask_def attempt_def split: sum.splits)

lemma wp_if [wp_rules]: "wp (if b then m else m') Q E c \<longleftrightarrow> (if b then wp m Q E c else wp m' Q E c)"
  by simp

lemma wp_mono: "wp m Q E c \<Longrightarrow> (\<And>c. Q c \<Longrightarrow> Q' c) \<Longrightarrow> (\<And>c. E c \<Longrightarrow> E' c) \<Longrightarrow> wp m Q' E' c"
  by (auto simp: wp_def split: prod.splits sum.splits)

lemma wp_each:
  assumes "I c" and "\<And>x c. x \<in> set xs \<Longrightarrow> I c \<Longrightarrow> wp (f x) I E c" and "\<And>c. I c \<Longrightarrow> Q c"
  shows "wp (each xs f) Q E c"
proof -
  have "wp (seq (map f xs)) I E c" using assms(1,2)
    by (induction xs arbitrary: c) (auto simp: wp_rules intro: wp_mono)
  then show ?thesis using assms(3) by (auto simp: each_def intro: wp_mono)
qed

lemma keeps_wp: "keeps I m \<longleftrightarrow> (\<forall>c. I c \<longrightarrow> wp m I I c)"
  by (auto simp: keeps_def wp_def split: prod.splits sum.splits) (metis snd_conv obj_sumE old.unit.exhaust surj_pair)+

lemma wp_keeps: "keeps I m \<Longrightarrow> I c \<Longrightarrow> wp m I I c"
  by (simp add: keeps_wp)

lemma wp_resultD: "wp m Q E c \<Longrightarrow> fst (m c) = Inr () \<Longrightarrow> Q (snd (m c))"
  by (cases "m c") (simp add: wp_def)

lemma wp_seq_nil [wp_rules]: "wp (seq []) Q E = Q"
  by (intro ext) (simp add: wp_rules)

lemma wp_snd: "wp m I I c \<Longrightarrow> I (snd (m c))"
  by (cases "m c") (auto simp: wp_def split: sum.splits)

section \<open>Frames\<close>

text \<open>The contents of a table.\<close>

definition same :: "'c db_env \<Rightarrow> string \<Rightarrow> (string \<Rightarrow> string \<Rightarrow> string option) \<Rightarrow> 'c \<Rightarrow> bool" where
  "same D t F c \<longleftrightarrow> (\<forall>k f. field_of D t k f c = F k f)"

definition leaves :: "'c db_env \<Rightarrow> string \<Rightarrow> 'c cmd \<Rightarrow> bool" where
  "leaves D t m \<longleftrightarrow> (\<forall>F. keeps (same D t F) m)"

lemma leavesD: "leaves D t m \<Longrightarrow> field_of D t k f (snd (m c)) = field_of D t k f c"
  unfolding leaves_def keeps_def same_def
  by (drule spec [of _ "\<lambda>k f. field_of D t k f c"]) auto

named_theorems leaves_intros

lemma leaves_combinators [leaves_intros]:
  "leaves D t finish" "leaves D t (raise e)" "leaves D t (fail msg)" "leaves D t (fail_if b msg)"
  "leaves D t (seq [])" "leaves D t m \<Longrightarrow> leaves D t (seq ms) \<Longrightarrow> leaves D t (seq (m # ms))"
  "(\<And>x. leaves D t (g x)) \<Longrightarrow> leaves D t (ask f g)" "(\<And>x. leaves D t (g' x)) \<Longrightarrow> leaves D t (attempt f' g')"
  "leaves D t m \<Longrightarrow> leaves D t m' \<Longrightarrow> leaves D t (if b then m else m')"
  "(\<And>x. leaves D t (h x)) \<Longrightarrow> leaves D t (each xs h)"
  "(\<And>a b. leaves D t (p a b)) \<Longrightarrow> leaves D t (case q of (a, b) \<Rightarrow> p a b)"
  "leaves D t m \<Longrightarrow> (\<And>a. leaves D t (s a)) \<Longrightarrow> leaves D t (case o' of None \<Rightarrow> m | Some a \<Rightarrow> s a)"
  unfolding leaves_def by (auto intro: keeps_intros split: prod.split option.split)

context config_db
begin

lemma leaves_put [leaves_intros]:
  "t \<noteq> t' \<Longrightarrow> leaves D t (put (db_set_entry D t' k x))"
  "t \<noteq> t' \<Longrightarrow> leaves D t (put (db_mod_entry D t' k fv))"
  "t \<noteq> t' \<Longrightarrow> leaves D t (put (db_delete_table D t'))"
  unfolding leaves_def by (cases x) (auto intro!: keeps_put simp: same_def db_laws)

end

section \<open>A database of nested dictionaries\<close>

definition stored :: "fvs \<Rightarrow> string dict" where
  "stored fv = map (\<lambda>(f, v). (f, field_text v)) fv"

definition nested_table :: "string \<Rightarrow> string dict dict dict \<Rightarrow> string dict dict" where
  "nested_table t c = (case dget c t of None \<Rightarrow> [] | Some tbl \<Rightarrow> tbl)"

definition nested_entry :: "string \<Rightarrow> string \<Rightarrow> string dict dict dict \<Rightarrow> string dict" where
  "nested_entry t k c = (case dget (nested_table t c) k of None \<Rightarrow> [] | Some e \<Rightarrow> e)"

text \<open>The tables keep their keys distinct by never adding one twice.\<close>

definition nested_env :: "string dict dict dict db_env" where
  "nested_env =
     \<lparr>db_get_entry = nested_entry,
      db_get_table = (\<lambda>t c. map (\<lambda>k. (k, nested_entry t k c)) (dedup (dkeys (nested_table t c)))),
      db_set_entry = (\<lambda>t k x c. dset t (case x of None \<Rightarrow> ddel k (nested_table t c)
                                        | Some fv \<Rightarrow> dset k (stored fv) (nested_table t c)) c),
      db_mod_entry = (\<lambda>t k fv c. dset t (dset k (dupdate (nested_entry t k c) (rev (stored fv))) (nested_table t c)) c),
      db_delete_table = (\<lambda>t c. dset t [] c),
      natsorted = (\<lambda>ks. ks), alias_mode = False\<rparr>"


lemma nested_table_dset [simp]:
  "nested_table t (dset t' tbl c) = (if t = t' then tbl else nested_table t c)"
  by (simp add: nested_table_def)

lemma dget_stored: "dget (stored fv) f = map_option field_text (dget fv f)"
  by (induction fv) (auto simp: stored_def)

lemma dget_nested_table: "dget (map (\<lambda>k. (k, g k)) ks) k = (if k \<in> set ks then Some (g k) else None)"
  by (induction ks) auto

lemma dkeys_map_pair: "dkeys (map (\<lambda>k. (k, g k)) ks) = ks"
  by (simp add: dkeys_def comp_def)

interpretation nested: config_db nested_env
proof unfold_locales
  fix t k f t' k' fv c
  show "field_of nested_env t k f (db_set_entry nested_env t' k' (Some fv) c) =
      (if t = t' \<and> k = k' then map_option field_text (dget fv f) else field_of nested_env t k f c)"
    by (simp add: field_of_def nested_env_def nested_entry_def dget_stored)
  show "field_of nested_env t k f (db_set_entry nested_env t' k' None c) =
      (if t = t' \<and> k = k' then None else field_of nested_env t k f c)"
    by (simp add: field_of_def nested_env_def nested_entry_def)
  show "field_of nested_env t k f (db_mod_entry nested_env t' k' fv c) =
      (if t = t' \<and> k = k' then (case dget fv f of Some v \<Rightarrow> Some (field_text v) | None \<Rightarrow> field_of nested_env t k f c)
       else field_of nested_env t k f c)"
    by (auto simp: field_of_def nested_env_def nested_entry_def dget_dupdate dget_stored split: option.splits)
  show "field_of nested_env t k f (db_delete_table nested_env t' c) = (if t = t' then None else field_of nested_env t k f c)"
    by (simp add: field_of_def nested_env_def nested_entry_def)
next
  fix t c k e
  assume "dget (db_get_table nested_env t c) k = Some e"
  then show "e = db_get_entry nested_env t k c"
    by (simp add: nested_env_def dget_nested_table split: if_splits)
next
  fix t k f c v
  assume "field_of nested_env t k f c = Some v"
  then have "dget (nested_table t c) k \<noteq> None"
    by (auto simp: field_of_def nested_env_def nested_entry_def split: option.splits)
  then show "dhas (db_get_table nested_env t c) k"
    by (auto simp: nested_env_def dhas_iff dkeys_map_pair dget_None_iff)
qed (simp_all add: nested_env_def dkeys_map_pair)

section \<open>Databases side by side\<close>

definition left_env :: "'a db_env \<Rightarrow> ('a \<times> 'b) db_env" where
  "left_env D =
     \<lparr>db_get_entry = (\<lambda>t k c. db_get_entry D t k (fst c)), db_get_table = (\<lambda>t c. db_get_table D t (fst c)),
      db_set_entry = (\<lambda>t k x c. (db_set_entry D t k x (fst c), snd c)), db_mod_entry = (\<lambda>t k fv c. (db_mod_entry D t k fv (fst c), snd c)),
      db_delete_table = (\<lambda>t c. (db_delete_table D t (fst c), snd c)), natsorted = natsorted D, alias_mode = alias_mode D\<rparr>"

definition right_env :: "'b db_env \<Rightarrow> ('a \<times> 'b) db_env" where
  "right_env D =
     \<lparr>db_get_entry = (\<lambda>t k c. db_get_entry D t k (snd c)), db_get_table = (\<lambda>t c. db_get_table D t (snd c)),
      db_set_entry = (\<lambda>t k x c. (fst c, db_set_entry D t k x (snd c))), db_mod_entry = (\<lambda>t k fv c. (fst c, db_mod_entry D t k fv (snd c))),
      db_delete_table = (\<lambda>t c. (fst c, db_delete_table D t (snd c))), natsorted = natsorted D, alias_mode = alias_mode D\<rparr>"

lemma left_simps:
  "db_get_entry (left_env D) t k c = db_get_entry D t k (fst c)" "db_get_table (left_env D) t c = db_get_table D t (fst c)"
  "db_set_entry (left_env D) t k x c = (db_set_entry D t k x (fst c), snd c)"
  "db_mod_entry (left_env D) t k fv c = (db_mod_entry D t k fv (fst c), snd c)"
  "db_delete_table (left_env D) t c = (db_delete_table D t (fst c), snd c)" "natsorted (left_env D) = natsorted D"
  by (simp_all add: left_env_def)

lemma left_field: "field_of (left_env D) t k f c = field_of D t k f (fst c)"
  by (simp add: field_of_def left_env_def)

lemma right_simps:
  "db_get_entry (right_env D) t k c = db_get_entry D t k (snd c)" "db_get_table (right_env D) t c = db_get_table D t (snd c)"
  "db_set_entry (right_env D) t k x c = (fst c, db_set_entry D t k x (snd c))"
  "db_mod_entry (right_env D) t k fv c = (fst c, db_mod_entry D t k fv (snd c))"
  "db_delete_table (right_env D) t c = (fst c, db_delete_table D t (snd c))" "natsorted (right_env D) = natsorted D"
  by (simp_all add: right_env_def)

lemma right_field: "field_of (right_env D) t k f c = field_of D t k f (snd c)"
  by (simp add: field_of_def right_env_def)

context config_db
begin

lemma left_config_db: "config_db (left_env D)"
  by unfold_locales
    (simp_all add: left_field left_simps db_laws table_distinct natsorted_mset table_entry table_key cong: option.case_cong)

lemma right_config_db: "config_db (right_env D)"
  by unfold_locales
    (simp_all add: right_field right_simps db_laws table_distinct natsorted_mset table_entry table_key cong: option.case_cong)

end

end
