(* ===== verification/Breakout.thy ===== *)
theory Breakout
  imports Json ConfigDb
begin

text \<open>
  Dynamic port breakout, config/config_mgmt.py: the class \<open>ConfigMgmt\<close>, which holds a configuration
  loaded into the YANG library and the modules of that library, and \<open>ConfigMgmtDPB\<close>, which replaces
  ports by others: what is deleted and added is computed and validated on the data tree, turned into
  the configuration to write from the difference of two configurations, and written in steps.

  The YANG library, jsondiff, the connectors of the databases and what the device does while the
  code waits are parameters.  Messages and logging are left out, the temporary file of
  \<open>remove_module\<close> too, which stays behind.
\<close>

section \<open>Differences of configurations\<close>

text \<open>
  The result of \<open>jsondiff.diff(a, b, syntax='symmetric')\<close>: the list \<open>[a, b]\<close> of two values that have
  nothing in common, or a dictionary from the members that changed to their differences, with what was
  inserted and deleted under symbols: a dictionary of members, or a list of pairs of a position and a value.
\<close>

datatype jdiff =
    Replaced json json
  | Steps "jstep list"
and jstep =
    AtKey string jdiff
  | AtIndex nat jdiff
  | Inserted json
  | Deleted json

section \<open>The parameters and the state\<close>

text \<open>
  A data tree \<open>'y\<close> of the YANG library, and the databases \<open>'b\<close>.  \<open>y_new\<close> makes a library and loads the
  modules, which are in files.  \<open>b_config\<close> is \<open>get_config\<close> and \<open>b_mod\<close> is \<open>mod_config\<close>, with the
  conversions of sonic-cfggen around them; \<open>b_sleep\<close> is what happens in a second.
\<close>

record ('y, 'b) dpb_env =
  y_new :: "string dict \<Rightarrow> unit res \<times> 'y"
  y_load :: "json \<Rightarrow> 'y cmd"
  y_data :: "'y \<Rightarrow> json res"
  y_validate :: "'y \<Rightarrow> unit res"
  y_no_models :: "'y \<Rightarrow> string list"
  y_port_leaf :: "string \<Rightarrow> 'y \<Rightarrow> string res"
  y_port :: "string \<Rightarrow> 'y \<Rightarrow> string res"
  y_dependencies :: "string \<Rightarrow> 'y \<Rightarrow> string list res"
  y_delete :: "string \<Rightarrow> 'y cmd"
  y_module_name :: "string \<Rightarrow> string res"
  json_diff :: "json \<Rightarrow> json \<Rightarrow> jdiff"
  read_json :: "string \<Rightarrow> json res"
  b_config :: "'b \<Rightarrow> json res"
  b_mod :: "json \<Rightarrow> 'b cmd"
  b_oid_map :: "'b \<Rightarrow> string dict res"
  b_connect :: "'b \<Rightarrow> unit res"
  b_exists :: "string \<Rightarrow> 'b \<Rightarrow> bool res"
  b_sleep :: "'b \<Rightarrow> 'b"

text \<open>\<open>None\<close> where the configurations are not read yet.\<close>

record ('y, 'b) dpb =
  dp_source :: string
  dp_allow :: bool
  dp_in :: "json option"
  dp_out :: "json option"
  dp_tree :: 'y
  dp_modules :: "string dict"
  dp_db :: 'b

section \<open>Loading and validating\<close>

definition on_tree :: "'y cmd \<Rightarrow> ('y, 'b) dpb cmd" where
  "on_tree m s = (case m (dp_tree s) of (r, y) \<Rightarrow> (r, s\<lparr>dp_tree := y\<rparr>))"

definition on_db :: "'b cmd \<Rightarrow> ('y, 'b) dpb cmd" where
  "on_db m s = (case m (dp_db s) of (r, b) \<Rightarrow> (r, s\<lparr>dp_db := b\<rparr>))"

definition readConfigDBJson :: "('y, 'b) dpb_env \<Rightarrow> string \<Rightarrow> ('y, 'b) dpb cmd" where
  "readConfigDBJson E source =
     attempt (\<lambda>_. read_json E source) (\<lambda>j. seq
       [put (\<lambda>s. s\<lparr>dp_in := Some j\<rparr>),
        if truthy j then finish else raise (Raised ''Exception'' [])])"

definition readConfigDB :: "('y, 'b) dpb_env \<Rightarrow> ('y, 'b) dpb cmd" where
  "readConfigDB E = attempt (\<lambda>s. b_config E (dp_db s)) (\<lambda>j. put (\<lambda>s. s\<lparr>dp_in := Some j\<rparr>))"

definition writeConfigDB :: "('y, 'b) dpb_env \<Rightarrow> json \<Rightarrow> ('y, 'b) dpb cmd" where
  "writeConfigDB E j = on_db (b_mod E j)"

definition check_models :: "('y, 'b) dpb_env \<Rightarrow> ('y, 'b) dpb cmd" where
  "check_models E =
     ask (\<lambda>s. \<not> dp_allow s \<and> y_no_models E (dp_tree s) \<noteq> []) (\<lambda>bad.
       if bad then raise (Raised ''Exception'' []) else finish)"

definition loadData :: "('y, 'b) dpb_env \<Rightarrow> json \<Rightarrow> ('y, 'b) dpb cmd" where
  "loadData E j = seq [on_tree (y_load E j), check_models E]"

definition config_read :: "('y, 'b) dpb \<Rightarrow> json" where
  "config_read s = (case dp_in s of None \<Rightarrow> JNull | Some j \<Rightarrow> j)"

definition init_sonic_yang :: "('y, 'b) dpb_env \<Rightarrow> ('y, 'b) dpb cmd" where
  "init_sonic_yang E = seq
     [ask dp_modules (\<lambda>ms. on_tree (\<lambda>_. y_new E ms)),
      ask dp_source (\<lambda>src. if ascii_lower src = ''configdb'' then readConfigDB E else readConfigDBJson E src),
      ask config_read (\<lambda>j. on_tree (y_load E j)),
      check_models E]"

text \<open>The constructors; an object exists only when nothing was raised.\<close>

definition config_mgmt_new :: "('y, 'b) dpb_env \<Rightarrow> string \<Rightarrow> bool \<Rightarrow> string dict \<Rightarrow> 'y \<Rightarrow> 'b \<Rightarrow> ('y, 'b) dpb res" where
  "config_mgmt_new E source allow modules y b =
     (case init_sonic_yang E
        \<lparr>dp_source = source, dp_allow = allow, dp_in = None, dp_out = None, dp_tree = y, dp_modules = modules, dp_db = b\<rparr> of
        (Inl _, _) \<Rightarrow> Inl (Raised ''Exception'' [])
      | (Inr _, s) \<Rightarrow> Inr s)"

definition validateConfigData :: "('y, 'b) dpb_env \<Rightarrow> 'y \<Rightarrow> bool" where
  "validateConfigData E y = (case y_validate E y of Inl _ \<Rightarrow> False | Inr _ \<Rightarrow> True)"

section \<open>Modules\<close>

text \<open>A module is a file of YANG_DIR named after it.  The tree that failed to load stays in the object.\<close>

definition add_module :: "('y, 'b) dpb_env \<Rightarrow> string \<Rightarrow> ('y, 'b) dpb cmd" where
  "add_module E text =
     attempt (\<lambda>_. y_module_name E text) (\<lambda>n s.
       if dhas (dp_modules s) n then (Inl (Raised ''Exception'' [n]), s)
       else case init_sonic_yang E (s\<lparr>dp_modules := dset n text (dp_modules s)\<rparr>) of
         (Inr _, s') \<Rightarrow> (Inr (), s')
       | (Inl e, s') \<Rightarrow> (Inl e, s'\<lparr>dp_modules := ddel n (dp_modules s')\<rparr>))"

definition remove_module :: "('y, 'b) dpb_env \<Rightarrow> string \<Rightarrow> ('y, 'b) dpb cmd" where
  "remove_module E n s =
     (case dget (dp_modules s) n of
        None \<Rightarrow> (Inr (), s)
      | Some text \<Rightarrow>
          (case init_sonic_yang E (s\<lparr>dp_modules := ddel n (dp_modules s)\<rparr>) of
             (Inr _, s') \<Rightarrow> (Inr (), s')
           | (Inl e, s') \<Rightarrow> (Inl e, s'\<lparr>dp_modules := dset n text (dp_modules s')\<rparr>)))"

section \<open>The configuration to write\<close>

text \<open>\<open>type(value)()\<close>.\<close>

fun empty_like :: "json \<Rightarrow> json" where
  "empty_like JNull = JNull"
| "empty_like (JBool _) = JBool False"
| "empty_like (JInt _) = JInt 0"
| "empty_like (JStr _) = JStr []"
| "empty_like (JList _) = JList []"
| "empty_like (JObj _) = JObj []"

definition invalid_step :: "'a res" where
  "invalid_step = Inl (Raised ''Exception'' [])"

text \<open>The keys a loop over the dictionary under a symbol visits; a pair of a position is never a key.\<close>

fun step_keys :: "json \<Rightarrow> string list res" where
  "step_keys (JObj d) = Inr (dkeys d)"
| "step_keys (JList []) = Inr []"
| "step_keys (JList _) = invalid_step"
| "step_keys _ = Inl TypeError"

fun set_member :: "string \<Rightarrow> json \<Rightarrow> json \<Rightarrow> json res" where
  "set_member k v (JObj d) = Inr (JObj (dset k v d))"
| "set_member _ _ _ = Inl TypeError"

text \<open>\<open>config.extend(value)\<close>.\<close>

fun extend_list :: "json \<Rightarrow> json \<Rightarrow> json res" where
  "extend_list (JList c) (JList xs) = Inr (JList (c @ xs))"
| "extend_list (JList c) (JObj d) = Inr (JList (c @ map JStr (dkeys d)))"
| "extend_list (JList c) (JStr s) = Inr (JList (c @ map (\<lambda>x. JStr [x]) s))"
| "extend_list (JList c) _ = Inl TypeError"
| "extend_list _ _ = Inl AttributeError"

definition deleteHandler :: "json \<Rightarrow> json \<Rightarrow> json \<Rightarrow> json \<Rightarrow> json res" where
  "deleteHandler d inp outp config =
     (case inp of
        JObj old \<Rightarrow>
          rbind (step_keys d) (\<lambda>ks. fold_res (\<lambda>k c.
            rbind (if dhas old k then py_in (TStr k) outp else Inr True) (\<lambda>bad.
              if bad then invalid_step
              else set_member k (if is_list (the (dget old k)) then JList [] else JNull) c)) ks config)
      | JList _ \<Rightarrow> extend_list config outp
      | _ \<Rightarrow> Inr config)"

text \<open>\<open>list.remove('')\<close>.\<close>

fun remove_blank :: "json list \<Rightarrow> json list res" where
  "remove_blank [] = Inl (ValueError ''list.remove'')"
| "remove_blank (x # xs) = (if json_eq x (JStr []) then Inr xs else rbind (remove_blank xs) (\<lambda>ys. Inr (x # ys)))"

definition insertHandler :: "json \<Rightarrow> json \<Rightarrow> json \<Rightarrow> json \<Rightarrow> json res" where
  "insertHandler d inp outp config =
     (case outp of
        JObj new \<Rightarrow>
          rbind (step_keys d) (\<lambda>ks. fold_res (\<lambda>k c.
            rbind (py_in (TStr k) inp) (\<lambda>there.
              if there \<or> \<not> dhas new k then invalid_step else set_member k (the (dget new k)) c)) ks config)
      | JList _ \<Rightarrow>
          rbind (extend_list config outp) (\<lambda>c.
            case c of
              JList xs \<Rightarrow> if json_eq inp (JList [JStr []]) then rbind (remove_blank xs) (\<lambda>ys. Inr (JList ys)) else Inr c
            | _ \<Rightarrow> Inr c)
      | _ \<Rightarrow> Inr config)"

text \<open>
  The loop over the two values of a list that was replaced.  The code appends each value to the list it
  makes and walks over it, and over its members, as if they were differences, taking the members of input and
  output at the same positions along; as no member is a symbol, it deletes again all it appended, so that
  what remains is whether a position is missing.  Members of lists are texts.
\<close>

definition at_position :: "nat \<Rightarrow> json \<Rightarrow> json \<Rightarrow> (json \<times> json) res" where
  "at_position i inp outp =
     rbind (py_getitem inp (TIdx (int i))) (\<lambda>a. rbind (py_getitem outp (TIdx (int i))) (\<lambda>b. Inr (a, b)))"

text \<open>\<open>inp.lower() == outp.lower()\<close>, when the output is a text.\<close>

definition same_letters :: "json \<Rightarrow> json \<Rightarrow> bool res" where
  "same_letters inp outp =
     (case outp of
        JStr t \<Rightarrow> (case inp of JStr s \<Rightarrow> Inr (ascii_lower s = ascii_lower t) | _ \<Rightarrow> Inl AttributeError)
      | _ \<Rightarrow> Inr False)"

definition is_symbol :: "json \<Rightarrow> bool" where
  "is_symbol j \<longleftrightarrow> j = JStr ''$delete'' \<or> j = JStr ''$insert''"

fun walk_value :: "json \<Rightarrow> json \<Rightarrow> json \<Rightarrow> unit res" where
  "walk_value (JStr _) inp outp = Inr ()"
| "walk_value (JList ws) inp outp =
     (if is_obj outp then Inr ()
      else rbind (same_letters inp outp) (\<lambda>same.
        if same then Inr ()
        else fold_res (\<lambda>(i, w) _. if is_symbol w then Inl TypeError else rbind (at_position i inp outp) (\<lambda>_. Inr ()))
               (List.enumerate 0 ws) ()))"
| "walk_value _ inp outp = Inl TypeError"

definition walk_replaced :: "json list \<Rightarrow> json \<Rightarrow> json \<Rightarrow> unit res" where
  "walk_replaced vs inp outp =
     fold_res (\<lambda>(i, v) _. rbind (at_position i inp outp) (\<lambda>(a, b). walk_value v a b)) (List.enumerate 0 vs) ()"

text \<open>
  \<open>_recurCreateConfig\<close>; the result is whether something changed, and the configuration it was given with
  what it put there.
\<close>

definition replaced_config :: "json \<Rightarrow> json \<Rightarrow> json \<Rightarrow> json \<Rightarrow> json \<Rightarrow> (bool \<times> json) res" where
  "replaced_config old new inp outp config =
     (if is_obj outp then Inr (False, config)
      else rbind (same_letters inp outp) (\<lambda>same.
        if same then Inr (False, config)
        else if is_symbol old then Inl TypeError
        else if \<not> is_list config then Inl AttributeError
        else rbind (walk_replaced [old, new] inp outp) (\<lambda>_. Inr (False, config))))"

fun recur_config :: "jdiff \<Rightarrow> json \<Rightarrow> json \<Rightarrow> json \<Rightarrow> (bool \<times> json) res"
  and recur_steps :: "jstep list \<Rightarrow> json \<Rightarrow> json \<Rightarrow> bool \<Rightarrow> json \<Rightarrow> (bool \<times> json) res"
  and recur_step :: "jstep \<Rightarrow> json \<Rightarrow> json \<Rightarrow> bool \<Rightarrow> json \<Rightarrow> (bool \<times> json) res" where
  "recur_config (Replaced old new) inp outp config = replaced_config old new inp outp config"
| "recur_config (Steps ss) inp outp config = recur_steps ss inp outp False config"
| "recur_steps [] inp outp changed config = Inr (changed, config)"
| "recur_steps (s # ss) inp outp changed config =
     rbind (recur_step s inp outp changed config) (\<lambda>(ch, c). recur_steps ss inp outp ch c)"
| "recur_step (Deleted d) inp outp changed config = rbind (deleteHandler d inp outp config) (\<lambda>c. Inr (True, c))"
| "recur_step (Inserted d) inp outp changed config = rbind (insertHandler d inp outp config) (\<lambda>c. Inr (True, c))"
| "recur_step (AtKey k d) inp outp changed config =
     rbind (py_getitem outp (TStr k)) (\<lambda>new.
     rbind (set_member k (empty_like new) config) (\<lambda>c.
     rbind (py_getitem inp (TStr k)) (\<lambda>old.
     rbind (recur_config d old new (empty_like new)) (\<lambda>(ch, sub).
       case c of
         JObj m \<Rightarrow> Inr (if ch then (True, JObj (dset k sub m)) else (changed, JObj (ddel k m)))
       | _ \<Rightarrow> Inl TypeError))))"
| "recur_step (AtIndex i d) inp outp changed config =
     rbind (py_getitem outp (TIdx (int i))) (\<lambda>new.
       case config of
         JList cs \<Rightarrow>
           if i < length cs then
             rbind (py_getitem inp (TIdx (int i))) (\<lambda>old.
             rbind (recur_config d old new (empty_like new)) (\<lambda>(ch, sub).
               Inr (if ch then (True, JList (cs[i := sub])) else (changed, JList (take i cs @ drop (Suc i) cs)))))
           else Inl IndexError
       | _ \<Rightarrow> Inl TypeError)"

definition createConfigToLoad :: "jdiff \<Rightarrow> json \<Rightarrow> json \<Rightarrow> json res" where
  "createConfigToLoad d inp outp = rbind (recur_config d inp outp (JObj [])) (\<lambda>(_, c). Inr c)"

definition config_or_none :: "json option \<Rightarrow> json" where
  "config_or_none x = (case x of None \<Rightarrow> JNull | Some j \<Rightarrow> j)"

definition updateDiffConfigDB :: "('y, 'b) dpb_env \<Rightarrow> ('y, 'b) dpb \<Rightarrow> json res" where
  "updateDiffConfigDB E s =
     (let inp = config_or_none (dp_in s); outp = config_or_none (dp_out s) in createConfigToLoad (json_diff E inp outp) inp outp)"

section \<open>Default configuration of ports\<close>

text \<open>The pattern is \<open>^s\||s$|^s$\<close>; names of ports hold no characters that are special in it.\<close>

definition key_match :: "string \<Rightarrow> string \<Rightarrow> bool" where
  "key_match key s \<longleftrightarrow> startswith key (s @ ''|'') \<or> endswith key s \<or> endswith key (s @ [CHR 0x0A])"

text \<open>Whether something was found, and what is put into the output, which is empty before.\<close>

fun searchKeysInConfig :: "string list \<Rightarrow> json \<Rightarrow> bool \<times> json" where
  "searchKeysInConfig ks (JObj d) =
     (let rs = map (\<lambda>(k, v).
            if list_ex (key_match k) ks then (k, True, if v = JNull then None else Some v)
            else case searchKeysInConfig ks v of (found, out) \<Rightarrow> (k, found, if found then Some out else None)) d in
      (list_ex (\<lambda>(k, found, out). found) rs,
       JObj (concat (map (\<lambda>(k, found, out). case out of None \<Rightarrow> [] | Some v \<Rightarrow> [(k, v)]) rs))))"
| "searchKeysInConfig ks (JList xs) =
     (let hits = filter (\<lambda>s. list_ex (json_eq (JStr s)) xs) ks in (hits \<noteq> [], JList (map JStr hits)))"
| "searchKeysInConfig ks j = (False, empty_like j)"

text \<open>The output of the caller is a dictionary whatever the input is.\<close>

definition search_into_dict :: "string list \<Rightarrow> json \<Rightarrow> json res" where
  "search_into_dict ks j =
     (case searchKeysInConfig ks j of
        (found, JObj out) \<Rightarrow> Inr (JObj out)
      | (found, JList _) \<Rightarrow> if found then Inl AttributeError else Inr (JObj [])
      | _ \<Rightarrow> Inr (JObj []))"

definition configWithKeys :: "json \<Rightarrow> string list \<Rightarrow> json res" where
  "configWithKeys j ks =
     rbind (py_len j) (\<lambda>n. if n \<noteq> 0 \<and> ks \<noteq> [] then search_into_dict ks j else Inr (JObj []))"

definition default_config_file :: string where
  "default_config_file = ''/etc/sonic/port_breakout_config_db.json''"

definition getDefaultConfig :: "('y, 'b) dpb_env \<Rightarrow> string list \<Rightarrow> json res" where
  "getDefaultConfig E ports = rbind (read_json E default_config_file) (search_into_dict ports)"

section \<open>Merging\<close>

text \<open>
  \<open>_mergeConfigs\<close>, which changes both dictionaries; the handler of its exceptions names a class that
  does not exist, so that every exception becomes a \<open>NameError\<close>.
\<close>

definition merge_failed :: py_error where
  "merge_failed = NameError ''Exce''"

function (sequential) merge_items :: "json \<Rightarrow> json \<Rightarrow> unit res \<times> json \<times> json"
  and merge_members :: "json dict \<Rightarrow> json dict \<Rightarrow> unit res \<times> json dict \<times> json dict" where
  "merge_items (JList a) (JList b) = (Inr (), JList (a @ b), JList b)"
| "merge_items (JObj a) (JObj b) =
     (case merge_members a b of
        (Inl e, a', b') \<Rightarrow> (Inl e, JObj a', JObj b')
      | (Inr _, a', b') \<Rightarrow> (Inr (), JObj (dupdate a' b'), JObj b'))"
| "merge_items a b = (if is_list a \<or> is_list b \<or> is_obj a \<or> is_obj b then (Inl merge_failed, a, b) else (Inr (), a, b))"
| "merge_members [] b = (Inr (), [], b)"
| "merge_members ((k, v) # a) b =
     (case dget b k of
        None \<Rightarrow> (case merge_members a b of (r, a', b') \<Rightarrow> (r, (k, v) # a', b'))
      | Some w \<Rightarrow>
          if truthy w then
            (case merge_items v w of
               (Inl e, v', w') \<Rightarrow> (Inl e, (k, v') # a, dset k w' b)
             | (Inr _, v', _) \<Rightarrow> (case merge_members a (ddel k b) of (r, a', b') \<Rightarrow> (r, (k, v') # a', b')))
          else (case merge_members a b of (r, a', b') \<Rightarrow> (r, (k, v) # a', b')))"
  by pat_completeness auto
termination by (relation "measure (\<lambda>x. case x of Inl (a, _) \<Rightarrow> size a | Inr (a, _) \<Rightarrow> size_list (size_prod (\<lambda>_. 0) size) a)") auto

definition mergeConfigs :: "json dict \<Rightarrow> json dict \<Rightarrow> bool \<Rightarrow> unit res \<times> json dict \<times> json dict" where
  "mergeConfigs a b uniqueKeys =
     (case merge_members a b of
        (Inl e, a', b') \<Rightarrow> (Inl e, a', b')
      | (Inr _, a', b') \<Rightarrow> (Inr (), if uniqueKeys then dupdate a' b' else a', b'))"

section \<open>Deleting and adding ports\<close>

text \<open>The dependencies found, and whether looking for them raised.\<close>

fun port_deps :: "('y, 'b) dpb_env \<Rightarrow> 'y \<Rightarrow> string list \<Rightarrow> string list \<Rightarrow> string list \<times> bool" where
  "port_deps E y deps [] = (deps, False)"
| "port_deps E y deps (p # ps) =
     (case rbind (y_port_leaf E p y) (\<lambda>x. y_dependencies E x y) of
        Inl _ \<Rightarrow> (deps, True)
      | Inr ds \<Rightarrow> port_deps E y (deps @ ds) ps)"

text \<open>The result is the configuration to load, the dependencies and whether it succeeded.\<close>

definition deletePorts ::
  "('y, 'b) dpb_env \<Rightarrow> string list \<Rightarrow> bool \<Rightarrow> ('y, 'b) dpb \<Rightarrow> (json option \<times> string list option \<times> bool) \<times> ('y, 'b) dpb" where
  "deletePorts E ports force s =
     (case port_deps E (dp_tree s) [] ports of (deps, raised) \<Rightarrow>
        if raised \<or> \<not> force \<and> deps \<noteq> [] then ((None, Some deps, False), s)
        else case on_tree (each deps (y_delete E)) s of
          (Inl _, s1) \<Rightarrow> ((None, Some deps, False), s1)
        | (Inr _, s1) \<Rightarrow>
            (case on_tree (each ports (\<lambda>p. attempt (y_port E p) (y_delete E))) s1 of
               (Inl _, s2) \<Rightarrow> ((None, None, False), s2)
             | (Inr _, s2) \<Rightarrow>
                 if \<not> validateConfigData E (dp_tree s2) then ((None, None, False), s2)
                 else case y_data E (dp_tree s2) of
                   Inl _ \<Rightarrow> ((None, None, False), s2)
                 | Inr j \<Rightarrow>
                     (let s3 = s2\<lparr>dp_out := Some j\<rparr> in
                      case updateDiffConfigDB E s3 of
                        Inl _ \<Rightarrow> ((None, None, False), s3)
                      | Inr c \<Rightarrow> ((Some c, None, True), s3))))"

definition members :: "json \<Rightarrow> json dict res" where
  "members j = (case j of JObj d \<Rightarrow> Inr d | _ \<Rightarrow> Inl TypeError)"

text \<open>\<open>configdbJsonOut['PORT'].update(portJson['PORT'])\<close>.\<close>

definition put_ports :: "json dict \<Rightarrow> json \<Rightarrow> json dict res" where
  "put_ports new out =
     rbind (members out) (\<lambda>d. rbind (py_getitem out (TStr ''PORT'')) (\<lambda>ports. rbind (members ports) (\<lambda>old.
       Inr (dset ''PORT'' (JObj (dupdate old new)) d))))"

definition addPorts ::
  "('y, 'b) dpb_env \<Rightarrow> json \<Rightarrow> bool \<Rightarrow> ('y, 'b) dpb \<Rightarrow> (json option \<times> bool) res \<times> ('y, 'b) dpb" where
  "addPorts E portJson loadDef s =
     (case rbind (py_getitem portJson (TStr ''PORT'')) members of
        Inl e \<Rightarrow> (Inl e, s)
      | Inr new \<Rightarrow>
          (case rbind (if loadDef then getDefaultConfig E (dkeys new) else Inr (JObj [])) members of
             Inl _ \<Rightarrow> (Inr (None, False), s)
           | Inr def \<Rightarrow>
               (case y_data E (dp_tree s) of
                  Inl _ \<Rightarrow> (Inr (None, False), s)
                | Inr now \<Rightarrow>
                    (let out = (case dp_out s of None \<Rightarrow> now | Some j \<Rightarrow> j); s1 = s\<lparr>dp_in := Some now, dp_out := Some out\<rparr> in
                     case put_ports new out of
                       Inl _ \<Rightarrow> (Inr (None, False), s1)
                     | Inr d \<Rightarrow>
                         (case (if loadDef then mergeConfigs d def True else (Inr (), d, def)) of (merge, d', _) \<Rightarrow>
                            let s2 = s1\<lparr>dp_out := Some (JObj d')\<rparr> in
                            if merge \<noteq> Inr () then (Inr (None, False), s2)
                            else case on_tree (y_load E (JObj d')) s2 of
                              (Inl _, s3) \<Rightarrow> (Inr (None, False), s3)
                            | (Inr _, s3) \<Rightarrow>
                                if \<not> validateConfigData E (dp_tree s3) then (Inr (None, False), s3)
                                else case updateDiffConfigDB E s3 of
                                  Inl _ \<Rightarrow> (Inr (None, False), s3)
                                | Inr c \<Rightarrow> (Inr (Some c, True), s3))))))"

section \<open>Breaking out a port\<close>

definition oid_key :: string where
  "oid_key = ''ASIC_STATE:SAI_OBJECT_TYPE_PORT:oid:0x''"

text \<open>An exception counts as ports that are still there.\<close>

definition checkNoPortsInAsicDb :: "('y, 'b) dpb_env \<Rightarrow> string list \<Rightarrow> string dict \<Rightarrow> 'b \<Rightarrow> bool" where
  "checkNoPortsInAsicDb E ports oids b \<longleftrightarrow>
     b_connect E b = Inr () \<and>
     list_all (\<lambda>p. case dget oids p of None \<Rightarrow> False | Some oid \<Rightarrow> b_exists E (oid_key @ oid) b = Inr False) ports"

text \<open>The number of the round the loop ended in, when \<open>n\<close> rounds are left from round \<open>i\<close> on.\<close>

fun asic_rounds :: "('y, 'b) dpb_env \<Rightarrow> string list \<Rightarrow> string dict \<Rightarrow> nat \<Rightarrow> nat \<Rightarrow> 'b \<Rightarrow> nat \<times> 'b" where
  "asic_rounds E ports oids i n b =
     (if checkNoPortsInAsicDb E ports oids b then (i, b)
      else case n of
        0 \<Rightarrow> (i, b_sleep E b)
      | Suc m \<Rightarrow> asic_rounds E ports oids (Suc i) m (b_sleep E b))"

definition verifyAsicDB :: "('y, 'b) dpb_env \<Rightarrow> string list \<Rightarrow> string dict \<Rightarrow> nat \<Rightarrow> 'b cmd" where
  "verifyAsicDB E ports oids timeout b =
     (case timeout of
        0 \<Rightarrow> (Inl (NameError ''waitTime''), b)
      | Suc n \<Rightarrow>
          (case asic_rounds E ports oids 0 n b of (i, b') \<Rightarrow>
             (if i + 1 = timeout then Inl (Raised ''Exception'' []) else Inr (), b')))"

definition shutdownIntf :: "('y, 'b) dpb_env \<Rightarrow> string list \<Rightarrow> ('y, 'b) dpb cmd" where
  "shutdownIntf E ports =
     (if ports = [] then finish
      else writeConfigDB E (JObj [(''PORT'', JObj (map (\<lambda>p. (p, JObj [(''admin_status'', JStr ''down'')])) (dedup ports)))]))"

definition max_wait :: nat where
  "max_wait = 60"

definition breakOutPort ::
  "('y, 'b) dpb_env \<Rightarrow> string list \<Rightarrow> json \<Rightarrow> bool \<Rightarrow> bool \<Rightarrow> ('y, 'b) dpb \<Rightarrow> (string list option \<times> bool) \<times> ('y, 'b) dpb" where
  "breakOutPort E delPorts portJson force loadDef s =
     (case deletePorts E delPorts force s of ((del, deps, ok), s1) \<Rightarrow>
        if \<not> ok then ((deps, False), s1)
        else case addPorts E portJson loadDef s1 of
          (Inl _, s2) \<Rightarrow> ((None, False), s2)
        | (Inr (add, ok'), s2) \<Rightarrow>
            if \<not> ok' then ((None, False), s2)
            else case attempt (\<lambda>s. b_oid_map E (dp_db s)) (\<lambda>oids. seq
                [shutdownIntf E delPorts,
                 writeConfigDB E (config_or_none del),
                 on_db (verifyAsicDB E delPorts oids max_wait),
                 writeConfigDB E (config_or_none add)]) s2 of
              (Inl _, s3) \<Rightarrow> ((None, False), s3)
            | (Inr _, s3) \<Rightarrow> ((None, True), s3))"

end
