(* ===== verification/BreakoutFacts.thy ===== *)
theory BreakoutFacts
  imports Breakout
begin

text \<open>
  What a configuration to write does to a database, what jsondiff promises of a difference, and that
  the one written for a difference leads from one configuration to the other.
\<close>

section \<open>Configurations by path\<close>

text \<open>Tables of entries of fields, which are texts or lists of texts.\<close>

fun plain_value :: "json \<Rightarrow> bool" where
  "plain_value (JStr _) = True"
| "plain_value (JList xs) = list_all (\<lambda>x. \<exists>s. x = JStr s) xs"
| "plain_value (JObj d) = (distinct (dkeys d) \<and> list_all (\<lambda>p. plain_value (snd p)) d)"
| "plain_value _ = False"

text \<open>
  What is at a path: a text, a list, where blanks do not count and no list is the same as the empty list, or
  the fact that there is a table or an entry.
\<close>

fun leaf :: "json \<Rightarrow> string list \<Rightarrow> json option" where
  "leaf (JObj d) (k # p) = (case dget d k of None \<Rightarrow> None | Some v \<Rightarrow> leaf v p)"
| "leaf (JObj d) [] = Some (JObj [])"
| "leaf (JStr s) [] = Some (JStr s)"
| "leaf (JList xs) [] = (let ys = filter (\<lambda>x. x \<noteq> JStr []) xs in if ys = [] then None else Some (JList ys))"
| "leaf _ _ = None"

definition member_or_empty :: "json \<Rightarrow> string \<Rightarrow> json" where
  "member_or_empty j k = (case j of JObj d \<Rightarrow> (case dget d k of None \<Rightarrow> JObj [] | Some v \<Rightarrow> v) | _ \<Rightarrow> JObj [])"

text \<open>
  What \<open>mod_config\<close> leaves at a path: a table or entry that is \<open>None\<close> is deleted, the fields of an entry
  are written, everything else stays.
\<close>

fun loaded :: "json \<Rightarrow> json \<Rightarrow> string list \<Rightarrow> json option" where
  "loaded inp (JObj c) (k # p) =
     (case dget c k of None \<Rightarrow> leaf inp (k # p) | Some v \<Rightarrow> loaded (member_or_empty inp k) v p)"
| "loaded inp c p = leaf c p"

section \<open>What a difference says\<close>

fun step_names :: "jstep \<Rightarrow> string list" where
  "step_names (AtKey k _) = [k]"
| "step_names (Inserted (JObj d)) = dkeys d"
| "step_names (Deleted (JObj d)) = dkeys d"
| "step_names _ = []"

definition names_of :: "jstep list \<Rightarrow> string list" where
  "names_of ss = concat (map step_names ss)"

text \<open>
  jsondiff: a key is deleted, inserted, or changed, or its values are equal; a list gains or loses members;
  \<open>[a, b]\<close> stands for any two values.
\<close>

fun describes :: "jdiff \<Rightarrow> json \<Rightarrow> json \<Rightarrow> bool"
  and steps_describe :: "jstep list \<Rightarrow> json dict \<Rightarrow> json dict \<Rightarrow> bool"
  and step_describes :: "jstep \<Rightarrow> json dict \<Rightarrow> json dict \<Rightarrow> bool" where
  "describes (Replaced x y) a b = (x = a \<and> y = b)"
| "describes (Steps ss) (JObj old) (JObj new) =
     (steps_describe ss old new \<and> distinct (names_of ss) \<and>
      list_all (\<lambda>p. fst p \<in> set (names_of ss) \<or> (case dget new (fst p) of None \<Rightarrow> False | Some w \<Rightarrow> json_eq (snd p) w)) old \<and>
      list_all (\<lambda>p. fst p \<in> set (names_of ss) \<or> dhas old (fst p)) new)"
| "describes (Steps ss) (JList old) (JList new) =
     (case ss of
        [Inserted (JList _)] \<Rightarrow> set old \<subseteq> set new
      | [Deleted (JList _)] \<Rightarrow> True
      | [Inserted (JList _), Deleted (JList _)] \<Rightarrow> True
      | _ \<Rightarrow> False)"
| "describes (Steps _) _ _ = False"
| "steps_describe [] old new = True"
| "steps_describe (s # ss) old new = (step_describes s old new \<and> steps_describe ss old new)"
| "step_describes (AtKey k d) old new =
     (case (dget old k, dget new k) of (Some a, Some b) \<Rightarrow> describes d a b | _ \<Rightarrow> False)"
| "step_describes (Inserted j) old new = (case j of JObj d \<Rightarrow> list_all (\<lambda>k. dhas new k \<and> \<not> dhas old k) (dkeys d) | _ \<Rightarrow> False)"
| "step_describes (Deleted j) old new = (case j of JObj d \<Rightarrow> list_all (\<lambda>k. dhas old k \<and> \<not> dhas new k) (dkeys d) | _ \<Rightarrow> False)"
| "step_describes (AtIndex _ _) old new = False"

text \<open>No list both gains and loses members.\<close>

fun one_sided :: "jdiff \<Rightarrow> bool"
  and step_one_sided :: "jstep \<Rightarrow> bool" where
  "one_sided (Replaced _ _) = True"
| "one_sided (Steps ss) = (list_all step_one_sided ss \<and> (case ss of [Inserted (JList _), Deleted _] \<Rightarrow> False | _ \<Rightarrow> True))"
| "step_one_sided (AtKey _ d) = one_sided d"
| "step_one_sided (AtIndex _ d) = one_sided d"
| "step_one_sided _ = True"

text \<open>The paths below a value that is reported as replaced by another.\<close>

fun replaced :: "jdiff \<Rightarrow> string list \<Rightarrow> bool"
  and step_replaced :: "jstep \<Rightarrow> string \<Rightarrow> string list \<Rightarrow> bool" where
  "replaced (Replaced _ _) p = True"
| "replaced (Steps ss) p = (case p of [] \<Rightarrow> False | k # q \<Rightarrow> list_ex (\<lambda>s. step_replaced s k q) ss)"
| "step_replaced (AtKey k' d) k q = (k' = k \<and> replaced d q)"
| "step_replaced _ k q = False"

section \<open>Reading configurations\<close>

lemma leaf_empty [simp]: "leaf (JObj []) (k # p) = None"
  by simp

lemma leaf_no_list [simp]: "leaf (JList []) p = None" "leaf JNull p = None"
  by (cases p; simp)+

lemma loaded_into_empty [simp]: "loaded (JObj []) v p = leaf v p"
proof (induction v arbitrary: p)
  case (JObj d)
  show ?case
  proof (cases p)
    case (Cons k q)
    show ?thesis
    proof (cases "dget d k")
      case (Some v)
      with JObj.IH [of "(k, v)" v q] dget_SomeD [OF Some] Cons show ?thesis
        by (simp add: member_or_empty_def)
    qed (simp add: Cons)
  qed simp
qed simp_all

lemma plain_get: "plain_value (JObj d) \<Longrightarrow> dget d k = Some v \<Longrightarrow> plain_value v"
  by (force simp: list_all_iff dest: dget_SomeD)

lemma texts_eq: "list_all (\<lambda>x. \<exists>s. x = JStr s) xs \<Longrightarrow> list_all (\<lambda>x. \<exists>s. x = JStr s) ys \<Longrightarrow>
    length xs = length ys \<Longrightarrow> list_all (\<lambda>p. json_eq (fst p) (snd p)) (zip xs ys) \<Longrightarrow> xs = ys"
  by (induction xs ys rule: list_induct2') auto

lemma leaf_eq: "json_eq a b \<Longrightarrow> plain_value a \<Longrightarrow> plain_value b \<Longrightarrow> leaf a p = leaf b p"
proof (induction a arbitrary: b p)
  case (JStr s)
  then show ?case by (cases b) auto
next
  case (JList xs)
  then obtain ys where "b = JList ys" by (cases b) auto
  with JList.prems texts_eq have "b = JList xs" by auto
  then show ?case by simp
next
  case (JObj d)
  then obtain e where b: "b = JObj e" by (cases b) auto
  have keys: "length d = length e" "list_all (\<lambda>p. case dget e (fst p) of None \<Rightarrow> False | Some w \<Rightarrow> json_eq (snd p) w) d"
    using JObj.prems b by simp_all
  show ?case
  proof (cases p)
    case (Cons k q)
    have sub: "set (dkeys d) \<subseteq> set (dkeys e)"
      using keys(2) by (force simp: list_all_iff dkeys_def dget_None_iff split: option.splits dest: dget_SomeD)
    have "card (set (dkeys d)) = card (set (dkeys e))"
      using JObj.prems b keys(1) distinct_card [of "dkeys d"] distinct_card [of "dkeys e"] by (simp add: dkeys_def)
    with sub have same: "set (dkeys d) = set (dkeys e)" by (simp add: card_subset_eq)
    show ?thesis
    proof (cases "dget d k")
      case None
      with same have "dget e k = None" by (simp add: dget_None_iff)
      with None show ?thesis by (simp add: b Cons)
    next
      case (Some v)
      from keys(2) dget_SomeD [OF Some] obtain w where w: "dget e k = Some w" "json_eq v w"
        by (force simp: list_all_iff split: option.splits)
      have "leaf v q = leaf w q"
        using JObj.IH [of "(k, v)" v w q] dget_SomeD [OF Some] w plain_get [OF JObj.prems(2) Some] plain_get [of e k w] JObj.prems(3) b
        by simp
      with Some w show ?thesis by (simp add: b Cons)
    qed
  qed (simp add: b)
qed auto

section \<open>Correctness\<close>

text \<open>What remains to be said of a member after its step.\<close>

definition member_done :: "json dict \<Rightarrow> json dict \<Rightarrow> jstep list \<Rightarrow> string \<Rightarrow> json dict \<Rightarrow> bool" where
  "member_done old new ss k m \<longleftrightarrow> (\<forall>p. loaded (JObj old) (JObj m) (k # p) =
     (if replaced (Steps ss) (k # p) then leaf (JObj old) (k # p) else leaf (JObj new) (k # p)))"

definition diff_done :: "jdiff \<Rightarrow> json \<Rightarrow> json \<Rightarrow> bool \<Rightarrow> json \<Rightarrow> bool" where
  "diff_done d inp outp ch c \<longleftrightarrow>
     (ch \<longrightarrow> (\<forall>p. loaded inp c p = (if replaced d p then leaf inp p else leaf outp p))) \<and>
     (\<not> ch \<longrightarrow> (\<forall>p. replaced d p \<or> leaf inp p = leaf outp p))"

lemma member_done_cong: "dget m' k = dget m k \<Longrightarrow> member_done old new ss k m' = member_done old new ss k m"
  by (simp add: member_done_def)

lemma step_replaced_name: "step_replaced s k q \<Longrightarrow> k \<in> set (step_names s)"
  by (cases s) auto

lemma replaced_names: "list_ex (\<lambda>s. step_replaced s k q) ss \<Longrightarrow> k \<in> set (names_of ss)"
  by (auto simp: list_ex_iff names_of_def dest: step_replaced_name)

lemma names_of_simps [simp]: "names_of [] = []" "names_of (s # ss) = step_names s @ names_of ss"
  by (simp_all add: names_of_def)

lemma set_members:
  "fold_res (\<lambda>k c. rbind (g k) (\<lambda>b. if h b k then invalid_step else set_member k (v k) c)) ks (JObj m) = Inr c \<Longrightarrow>
     \<exists>m'. c = JObj m' \<and> (\<forall>k. dget m' k = (if k \<in> set ks then Some (v k) else dget m k))"
proof (induction ks arbitrary: m)
  case (Cons k ks)
  then obtain b where "g k = Inr b" "\<not> h b k"
    and "fold_res (\<lambda>k c. rbind (g k) (\<lambda>b. if h b k then invalid_step else set_member k (v k) c)) ks (JObj (dset k (v k) m)) = Inr c"
    by (auto simp: rbind_Inr_iff invalid_step_def split: if_splits)
  from Cons.IH [OF this(3)] show ?case by auto
qed auto

definition sound :: "jdiff \<Rightarrow> bool" where
  "sound d \<longleftrightarrow> (\<forall>a b ch c. describes d a b \<longrightarrow> one_sided d \<longrightarrow> plain_value a \<longrightarrow> plain_value b \<longrightarrow>
     recur_config d a b (empty_like b) = Inr (ch, c) \<longrightarrow> diff_done d a b ch c)"

definition step_sound :: "jstep \<Rightarrow> bool" where
  "step_sound s = (case s of AtKey k d \<Rightarrow> sound d | _ \<Rightarrow> True)"

definition step_effect :: "json dict \<Rightarrow> json dict \<Rightarrow> jstep list \<Rightarrow> bool \<Rightarrow> json dict \<Rightarrow> bool \<Rightarrow> json \<Rightarrow> bool" where
  "step_effect old new ss ch m ch' c \<longleftrightarrow> (\<exists>m'. c = JObj m' \<and> (\<forall>k. k \<notin> set (names_of ss) \<longrightarrow> dget m' k = dget m k) \<and>
     (\<forall>k \<in> set (names_of ss). member_done old new ss k m') \<and>
     (\<not> ch' \<longrightarrow> \<not> ch \<and> (\<forall>k \<in> set (names_of ss). dget m' k = None)))"

lemma deleted_effect:
  assumes "step_describes (Deleted j) old new" and "recur_step (Deleted j) (JObj old) (JObj new) ch (JObj m) = Inr (ch', c)"
  shows "step_effect old new [Deleted j] ch m ch' c"
proof -
  obtain d where j: "j = JObj d" and ks: "\<And>k. k \<in> set (dkeys d) \<Longrightarrow> dhas old k \<and> \<not> dhas new k"
    using assms(1) by (auto simp: list_all_iff split: json.splits)
  let ?v = "\<lambda>k. if is_list (the (dget old k)) then JList [] else JNull"
  from assms(2) j have "fold_res (\<lambda>k c. rbind (if dhas old k then py_in (TStr k) (JObj new) else Inr True)
      (\<lambda>b. if b then invalid_step else set_member k (?v k) c)) (dkeys d) (JObj m) = Inr c" and ch: "ch'"
    by (auto simp: rbind_Inr_iff deleteHandler_def)
  from set_members [OF this(1)] obtain m' where c: "c = JObj m'"
    and m': "\<And>k. dget m' k = (if k \<in> set (dkeys d) then Some (?v k) else dget m k)" by blast
  have "member_done old new [Deleted j] k m'" if "k \<in> set (dkeys d)" for k
    using ks [OF that] m' [of k] that by (auto simp: member_done_def dhas_def split: list.splits)
  with c m' ch j show ?thesis by (auto simp: step_effect_def)
qed

lemma inserted_effect:
  assumes "step_describes (Inserted j) old new" and "recur_step (Inserted j) (JObj old) (JObj new) ch (JObj m) = Inr (ch', c)"
  shows "step_effect old new [Inserted j] ch m ch' c"
proof -
  obtain d where j: "j = JObj d" and ks: "\<And>k. k \<in> set (dkeys d) \<Longrightarrow> dhas new k \<and> \<not> dhas old k"
    using assms(1) by (auto simp: list_all_iff split: json.splits)
  from assms(2) j have "fold_res (\<lambda>k c. rbind (py_in (TStr k) (JObj old))
      (\<lambda>b. if b \<or> \<not> dhas new k then invalid_step else set_member k (the (dget new k)) c)) (dkeys d) (JObj m) = Inr c" and ch: "ch'"
    by (auto simp: rbind_Inr_iff insertHandler_def)
  from set_members [OF this(1)] obtain m' where c: "c = JObj m'"
    and m': "\<And>k. dget m' k = (if k \<in> set (dkeys d) then Some (the (dget new k)) else dget m k)" by blast
  have "member_done old new [Inserted j] k m'" if "k \<in> set (dkeys d)" for k
    using ks [OF that] m' [of k] that by (auto simp: member_done_def dhas_def member_or_empty_def)
  with c m' ch j show ?thesis by (auto simp: step_effect_def)
qed

lemma at_key_effect:
  assumes "sound d" and "step_describes (AtKey k d) old new" and "one_sided d" and "plain_value (JObj old)" and "plain_value (JObj new)"
    and "recur_step (AtKey k d) (JObj old) (JObj new) ch (JObj m) = Inr (ch', c)"
  shows "step_effect old new [AtKey k d] ch m ch' c"
proof -
  obtain a b where ab: "dget old k = Some a" "dget new k = Some b" and d: "describes d a b"
    using assms(2) by (auto split: option.splits)
  with assms(6) obtain changed sub where run: "recur_config d a b (empty_like b) = Inr (changed, sub)"
    and c: "(ch', c) = (if changed then (True, JObj (dset k sub (dset k (empty_like b) m))) else (ch, JObj (ddel k (dset k (empty_like b) m))))"
    by (auto simp: rbind_Inr_iff)
  have finished: "diff_done d a b changed sub"
    using assms(1,3) d run plain_get [OF assms(4) ab(1)] plain_get [OF assms(5) ab(2)] by (auto simp: sound_def)
  show ?thesis
  proof (cases changed)
    case True
    let ?m = "dset k sub (dset k (empty_like b) m)"
    have "member_done old new [AtKey k d] k ?m"
      using finished True ab by (simp add: diff_done_def member_done_def member_or_empty_def)
    with True c show ?thesis by (auto simp: step_effect_def)
  next
    case False
    let ?m = "ddel k (dset k (empty_like b) m)"
    have "member_done old new [AtKey k d] k ?m"
      using finished False ab by (auto simp: diff_done_def member_done_def)
    with False c show ?thesis by (auto simp: step_effect_def)
  qed
qed

lemma step_effect_one:
  assumes "step_sound s" and "step_describes s old new" and "step_one_sided s" and "plain_value (JObj old)" and "plain_value (JObj new)"
    and "recur_step s (JObj old) (JObj new) ch (JObj m) = Inr (ch', c)"
  shows "step_effect old new [s] ch m ch' c"
proof (cases s)
  case (AtKey k d)
  show ?thesis unfolding AtKey by (rule at_key_effect) (use assms AtKey in \<open>simp_all add: step_sound_def\<close>)
next
  case (Inserted j)
  with assms inserted_effect show ?thesis by metis
next
  case (Deleted j)
  with assms deleted_effect show ?thesis by metis
qed (use assms(2) in simp)

lemma member_done_more:
  assumes "k \<notin> set (names_of ss)"
  shows "member_done old new (s # ss) k m = member_done old new [s] k m"
  using assms replaced_names [of k _ ss] by (auto simp: member_done_def)

lemma member_done_later:
  assumes "k \<notin> set (step_names s)"
  shows "member_done old new (s # ss) k m = member_done old new ss k m"
  using assms step_replaced_name [of s k] by (auto simp: member_done_def)

lemma steps_effect:
  assumes "\<forall>s \<in> set ss. step_sound s" and "steps_describe ss old new" and "list_all step_one_sided ss" and "distinct (names_of ss)"
    and "plain_value (JObj old)" and "plain_value (JObj new)"
    and "recur_steps ss (JObj old) (JObj new) ch (JObj m) = Inr (ch', c)"
  shows "step_effect old new ss ch m ch' c"
  using assms
proof (induction ss arbitrary: ch m)
  case (Cons s ss)
  from Cons.prems(7) obtain ch1 c1 where one: "recur_step s (JObj old) (JObj new) ch (JObj m) = Inr (ch1, c1)"
    and rest: "recur_steps ss (JObj old) (JObj new) ch1 c1 = Inr (ch', c)" by (auto simp: rbind_Inr_iff)
  have "step_effect old new [s] ch m ch1 c1" using Cons.prems one by (intro step_effect_one) auto
  then obtain m1 where c1: "c1 = JObj m1" and 1: "\<And>k. k \<notin> set (step_names s) \<Longrightarrow> dget m1 k = dget m k"
    "\<And>k. k \<in> set (step_names s) \<Longrightarrow> member_done old new [s] k m1"
    "\<not> ch1 \<Longrightarrow> \<not> ch \<and> (\<forall>k \<in> set (step_names s). dget m1 k = None)"
    by (auto simp: step_effect_def)
  have "step_effect old new ss ch1 m1 ch' c" using Cons.prems rest c1 by (intro Cons.IH) auto
  then obtain m' where c: "c = JObj m'" and 2: "\<And>k. k \<notin> set (names_of ss) \<Longrightarrow> dget m' k = dget m1 k"
    "\<And>k. k \<in> set (names_of ss) \<Longrightarrow> member_done old new ss k m'"
    "\<not> ch' \<Longrightarrow> \<not> ch1 \<and> (\<forall>k \<in> set (names_of ss). dget m' k = None)"
    by (auto simp: step_effect_def)
  have apart: "k \<notin> set (names_of ss)" if "k \<in> set (step_names s)" for k using Cons.prems(4) that by auto
  have "member_done old new (s # ss) k m'" if k: "k \<in> set (step_names s) \<union> set (names_of ss)" for k
  proof (cases "k \<in> set (step_names s)")
    case True
    with apart have "dget m' k = dget m1 k" using 2(1) by simp
    then have "member_done old new [s] k m'" using 1(2) [OF True] member_done_cong by blast
    with member_done_more [OF apart [OF True]] show ?thesis by simp
  next
    case False
    with k 2(2) show ?thesis by (simp add: member_done_later)
  qed
  moreover have "\<not> ch \<and> (\<forall>k \<in> set (step_names s) \<union> set (names_of ss). dget m' k = None)" if "\<not> ch'"
    using that 1(3) 2(1,3) apart by fastforce
  ultimately show ?case using c 1(1) 2(1) by (auto simp: step_effect_def)
qed (auto simp: step_effect_def)

lemma list_leaf: "c = JList xs \<Longrightarrow> loaded inp c p = leaf c p"
  by simp

lemma remove_blank_filter:
  "remove_blank xs = Inr ys \<Longrightarrow> plain_value (JList xs) \<Longrightarrow> filter (\<lambda>x. x \<noteq> JStr []) ys = filter (\<lambda>x. x \<noteq> JStr []) xs"
proof (induction xs arbitrary: ys)
  case (Cons x xs)
  then obtain s where x: "x = JStr s" by auto
  with Cons show ?case by (auto simp: rbind_Inr_iff split: if_splits)
qed simp

lemma remove_blank_leaf: "remove_blank xs = Inr ys \<Longrightarrow> plain_value (JList xs) \<Longrightarrow> leaf (JList ys) p = leaf (JList xs) p"
  by (cases p) (simp_all add: remove_blank_filter)

lemma list_sound:
  assumes "describes (Steps ss) (JList old) (JList new)" and "one_sided (Steps ss)" and "plain_value (JList new)"
    and "recur_config (Steps ss) (JList old) (JList new) (JList []) = Inr (ch, c)"
  shows "diff_done (Steps ss) (JList old) (JList new) ch c"
proof -
  have "(\<exists>i. ss = [Inserted (JList i)]) \<or> (\<exists>i. ss = [Deleted (JList i)])"
    using assms(1,2) by (auto split: list.splits jstep.splits json.splits)
  then have "ch \<and> (\<exists>xs. c = JList xs \<and> (\<forall>p. leaf (JList xs) p = leaf (JList new) p)) \<and> (\<forall>p. \<not> replaced (Steps ss) p)"
    using assms(3,4) remove_blank_leaf
    by (auto simp: insertHandler_def deleteHandler_def rbind_Inr_iff split: if_splits list.splits)
  then show ?thesis by (auto simp: diff_done_def)
qed

lemma covered_leaf:
  assumes "describes (Steps ss) (JObj old) (JObj new)" and "plain_value (JObj old)" and "plain_value (JObj new)"
    and "k \<notin> set (names_of ss)"
  shows "leaf (JObj old) (k # p) = leaf (JObj new) (k # p)"
proof (cases "dget old k")
  case None
  have "dget new k = None"
  proof (rule ccontr)
    assume "dget new k \<noteq> None"
    then obtain w where "(k, w) \<in> set new" by (auto dest: dget_SomeD)
    with assms(1,4) None show False by (fastforce simp: list_all_iff dhas_def)
  qed
  with None show ?thesis by simp
next
  case (Some v)
  with assms(1,4) obtain w where w: "dget new k = Some w" "json_eq v w"
    by (fastforce simp: list_all_iff dest: dget_SomeD split: option.splits)
  with Some leaf_eq [OF w(2) plain_get [OF assms(2) Some] plain_get [OF assms(3) w(1)]] show ?thesis by simp
qed

text \<open>For dictionaries the configuration is right whether or not something changed.\<close>

lemma object_loaded:
  assumes "\<forall>s \<in> set ss. step_sound s" and "describes (Steps ss) (JObj old) (JObj new)" and "one_sided (Steps ss)"
    and "plain_value (JObj old)" and "plain_value (JObj new)"
    and "recur_config (Steps ss) (JObj old) (JObj new) (JObj []) = Inr (ch, c)"
  shows "loaded (JObj old) c p = (if replaced (Steps ss) p then leaf (JObj old) p else leaf (JObj new) p)"
    and "\<not> ch \<Longrightarrow> replaced (Steps ss) p \<or> leaf (JObj old) p = leaf (JObj new) p"
proof -
  have "step_effect old new ss False [] ch c" using assms by (intro steps_effect) auto
  then obtain m where c: "c = JObj m" and 1: "\<And>k. k \<notin> set (names_of ss) \<Longrightarrow> dget m k = None"
    "\<And>k. k \<in> set (names_of ss) \<Longrightarrow> member_done old new ss k m"
    "\<not> ch \<Longrightarrow> (\<forall>k \<in> set (names_of ss). dget m k = None)"
    by (auto simp: step_effect_def)
  have all: "member_done old new ss k m" for k
  proof (cases "k \<in> set (names_of ss)")
    case False
    with 1(1) have "dget m k = None" by simp
    with covered_leaf [OF assms(2,4,5) False] show ?thesis by (simp add: member_done_def)
  qed (rule 1(2))
  show "loaded (JObj old) c p = (if replaced (Steps ss) p then leaf (JObj old) p else leaf (JObj new) p)"
    using all c by (cases p) (simp_all add: member_done_def)
  show "replaced (Steps ss) p \<or> leaf (JObj old) p = leaf (JObj new) p" if "\<not> ch"
  proof (cases p)
    case (Cons k q)
    have "dget m k = None" using 1(1) 1(3) [OF that] by blast
    then have "loaded (JObj old) (JObj m) (k # q) = leaf (JObj old) (k # q)" by simp
    moreover have "loaded (JObj old) (JObj m) (k # q) =
        (if replaced (Steps ss) (k # q) then leaf (JObj old) (k # q) else leaf (JObj new) (k # q))"
      using all [of k] unfolding member_done_def by blast
    ultimately show ?thesis unfolding Cons by presburger
  qed simp
qed

lemma object_sound:
  assumes "\<forall>s \<in> set ss. step_sound s" and "describes (Steps ss) (JObj old) (JObj new)" and "one_sided (Steps ss)"
    and "plain_value (JObj old)" and "plain_value (JObj new)"
    and "recur_config (Steps ss) (JObj old) (JObj new) (JObj []) = Inr (ch, c)"
  shows "diff_done (Steps ss) (JObj old) (JObj new) ch c"
  using object_loaded [OF assms] by (simp add: diff_done_def del: replaced.simps leaf.simps)

lemma all_sound: "sound d" and step_all_sound: "step_sound s"
proof (induction d and s)
  case (Replaced x y)
  have "recur_config (Replaced x y) a b e = Inr (ch, c) \<Longrightarrow> \<not> ch" for a b e ch c
    by (auto simp: replaced_config_def rbind_Inr_iff split: if_splits)
  then show ?case unfolding sound_def diff_done_def by (metis replaced.simps(1))
next
  case (Steps ss)
  show ?case unfolding sound_def
  proof (intro allI impI)
    fix a b ch c
    assume d: "describes (Steps ss) a b" "one_sided (Steps ss)" "plain_value a" "plain_value b"
      "recur_config (Steps ss) a b (empty_like b) = Inr (ch, c)"
    from d(1) consider (obj) old new where "a = JObj old" "b = JObj new" | (lst) old new where "a = JList old" "b = JList new"
      by (cases a; cases b) auto
    then show "diff_done (Steps ss) a b ch c"
    proof cases
      case obj
      with d Steps show ?thesis by (auto intro!: object_sound simp del: recur_config.simps describes.simps one_sided.simps plain_value.simps)
    next
      case lst
      with d show ?thesis by (auto intro!: list_sound simp del: recur_config.simps describes.simps one_sided.simps plain_value.simps)
    qed
  qed
qed (simp_all add: step_sound_def)

section \<open>Success\<close>

text \<open>A difference without replaced values is turned into a configuration.\<close>

definition total :: "jdiff \<Rightarrow> bool" where
  "total d \<longleftrightarrow> (\<forall>a b. describes d a b \<longrightarrow> one_sided d \<longrightarrow> plain_value a \<longrightarrow> plain_value b \<longrightarrow> (\<forall>p. \<not> replaced d p) \<longrightarrow>
     (\<exists>ch c. recur_config d a b (empty_like b) = Inr (ch, c)))"

definition step_total :: "jstep \<Rightarrow> bool" where
  "step_total s = (case s of AtKey k d \<Rightarrow> total d | _ \<Rightarrow> True)"

lemma set_members_total:
  "\<forall>k \<in> set ks. \<exists>b. g k = Inr b \<and> \<not> h b k \<Longrightarrow>
     \<exists>m'. fold_res (\<lambda>k c. rbind (g k) (\<lambda>b. if h b k then invalid_step else set_member k (v k) c)) ks (JObj m) = Inr (JObj m')"
proof (induction ks arbitrary: m)
  case (Cons k ks)
  then obtain b where "g k = Inr b" "\<not> h b k" by auto
  with Cons show ?case by simp
qed simp

lemma step_succeeds:
  assumes "step_total s" and "step_describes s old new" and "step_one_sided s" and "plain_value (JObj old)" and "plain_value (JObj new)"
    and "\<And>k q. \<not> step_replaced s k q"
  shows "\<exists>ch' m'. recur_step s (JObj old) (JObj new) ch (JObj m) = Inr (ch', JObj m')"
proof (cases s)
  case (AtKey k d)
  obtain a b where ab: "dget old k = Some a" "dget new k = Some b" and d: "describes d a b"
    using assms(2) AtKey by (auto split: option.splits)
  have "\<forall>p. \<not> replaced d p" using assms(6) AtKey by auto
  then obtain ch1 sub where "recur_config d a b (empty_like b) = Inr (ch1, sub)"
    using assms(1,3) AtKey d plain_get [OF assms(4) ab(1)] plain_get [OF assms(5) ab(2)]
    unfolding step_total_def total_def by fastforce
  with AtKey ab show ?thesis by (cases ch1) auto
next
  case (Inserted j)
  then obtain d where j: "j = JObj d" and "\<forall>k \<in> set (dkeys d). dhas new k \<and> \<not> dhas old k"
    using assms(2) by (auto simp: list_all_iff split: json.splits)
  then have "\<forall>k \<in> set (dkeys d). \<exists>b. py_in (TStr k) (JObj old) = Inr b \<and> \<not> (b \<or> \<not> dhas new k)" by auto
  from set_members_total [OF this, of "\<lambda>k. the (dget new k)" m] obtain m' where
    "fold_res (\<lambda>k c. rbind (py_in (TStr k) (JObj old))
       (\<lambda>b. if b \<or> \<not> dhas new k then invalid_step else set_member k (the (dget new k)) c)) (dkeys d) (JObj m) = Inr (JObj m')" ..
  with Inserted j have "recur_step s (JObj old) (JObj new) ch (JObj m) = Inr (True, JObj m')"
    by (simp add: insertHandler_def del: py_in.simps)
  then show ?thesis by blast
next
  case (Deleted j)
  then obtain d where j: "j = JObj d" and "\<forall>k \<in> set (dkeys d). dhas old k \<and> \<not> dhas new k"
    using assms(2) by (auto simp: list_all_iff split: json.splits)
  then have "\<forall>k \<in> set (dkeys d). \<exists>b. (if dhas old k then py_in (TStr k) (JObj new) else Inr True) = Inr b \<and> \<not> b" by auto
  from set_members_total [OF this, of "\<lambda>k. if is_list (the (dget old k)) then JList [] else JNull" m] obtain m' where
    "fold_res (\<lambda>k c. rbind (if dhas old k then py_in (TStr k) (JObj new) else Inr True)
       (\<lambda>b. if b then invalid_step else set_member k (if is_list (the (dget old k)) then JList [] else JNull) c))
       (dkeys d) (JObj m) = Inr (JObj m')" ..
  with Deleted j have "recur_step s (JObj old) (JObj new) ch (JObj m) = Inr (True, JObj m')"
    by (simp add: deleteHandler_def del: py_in.simps)
  then show ?thesis by blast
qed (use assms(2) in simp)

lemma steps_succeed:
  assumes "\<forall>s \<in> set ss. step_total s" and "steps_describe ss old new" and "list_all step_one_sided ss"
    and "plain_value (JObj old)" and "plain_value (JObj new)" and "\<And>k q s. s \<in> set ss \<Longrightarrow> \<not> step_replaced s k q"
  shows "\<exists>ch' c. recur_steps ss (JObj old) (JObj new) ch (JObj m) = Inr (ch', c)"
  using assms
proof (induction ss arbitrary: ch m)
  case (Cons s ss)
  obtain ch1 m1 where "recur_step s (JObj old) (JObj new) ch (JObj m) = Inr (ch1, JObj m1)"
    using step_succeeds [of s old new ch m] Cons.prems by auto
  with Cons show ?case by auto
qed simp

lemma remove_blank_total: "JStr [] \<in> set xs \<Longrightarrow> plain_value (JList xs) \<Longrightarrow> \<exists>ys. remove_blank xs = Inr ys"
  by (induction xs) auto

lemma list_succeeds:
  assumes "describes (Steps ss) (JList old) (JList new)" and "one_sided (Steps ss)"
    and "plain_value (JList old)" and "plain_value (JList new)"
  shows "\<exists>ch c. recur_config (Steps ss) (JList old) (JList new) (JList []) = Inr (ch, c)"
proof -
  have "(\<exists>i. ss = [Inserted (JList i)] \<and> set old \<subseteq> set new) \<or> (\<exists>i. ss = [Deleted (JList i)])"
    using assms(1,2) by (auto split: list.splits jstep.splits json.splits)
  moreover have "\<exists>ys. remove_blank new = Inr ys" if "set old \<subseteq> set new" "json_eq (JList old) (JList [JStr []])"
  proof -
    have "old = [JStr []]" using that(2) assms(3) by (cases old) auto
    with that(1) remove_blank_total [OF _ assms(4)] show ?thesis by simp
  qed
  ultimately show ?thesis by (force simp: insertHandler_def deleteHandler_def)
qed

lemma all_total: "total d" and step_all_total: "step_total s"
proof (induction d and s)
  case (Replaced x y)
  then show ?case by (simp add: total_def)
next
  case (Steps ss)
  show ?case unfolding total_def
  proof (intro allI impI)
    fix a b
    assume d: "describes (Steps ss) a b" "one_sided (Steps ss)" "plain_value a" "plain_value b" "\<forall>p. \<not> replaced (Steps ss) p"
    from d(1) consider (obj) old new where "a = JObj old" "b = JObj new" | (lst) old new where "a = JList old" "b = JList new"
      by (cases a; cases b) auto
    then show "\<exists>ch c. recur_config (Steps ss) a b (empty_like b) = Inr (ch, c)"
    proof cases
      case obj
      have "\<not> step_replaced s k q" if "s \<in> set ss" for s k q
        using d(5) [rule_format, of "k # q"] that by (auto simp: list_ex_iff)
      then show ?thesis using steps_succeed [of ss old new False "[]"] d(1-4) obj Steps by simp
    next
      case lst
      with list_succeeds d(1-4) show ?thesis by (metis empty_like.simps(5))
    qed
  qed
qed (simp_all add: step_total_def)

section \<open>What is \<open>None\<close>\<close>

fun null_at :: "json \<Rightarrow> string list \<Rightarrow> bool" where
  "null_at JNull [] = True"
| "null_at (JObj d) (k # p) = (case dget d k of None \<Rightarrow> False | Some v \<Rightarrow> null_at v p)"
| "null_at _ _ = False"

text \<open>The paths of members that disappear and are no lists.\<close>

fun gone :: "jdiff \<Rightarrow> json \<Rightarrow> string list \<Rightarrow> bool"
  and step_gone :: "jstep \<Rightarrow> json \<Rightarrow> string \<Rightarrow> string list \<Rightarrow> bool" where
  "gone (Replaced _ _) a p = False"
| "gone (Steps ss) a p = (case p of [] \<Rightarrow> False | k # q \<Rightarrow> list_ex (\<lambda>s. step_gone s a k q) ss)"
| "step_gone (AtKey k' d) a k q =
     (k' = k \<and> (case a of JObj old \<Rightarrow> (case dget old k of None \<Rightarrow> False | Some v \<Rightarrow> gone d v q) | _ \<Rightarrow> False))"
| "step_gone (Deleted j) a k q =
     (q = [] \<and> (case j of JObj d \<Rightarrow> dhas d k | _ \<Rightarrow> False) \<and>
      (case a of JObj old \<Rightarrow> (case dget old k of None \<Rightarrow> True | Some v \<Rightarrow> \<not> is_list v) | _ \<Rightarrow> False))"
| "step_gone _ a k q = False"

lemma plain_not_null: "plain_value v \<Longrightarrow> \<not> null_at v p"
proof (induction v arbitrary: p)
  case (JObj d)
  show ?case
  proof (cases p)
    case (Cons k q)
    show ?thesis
    proof (cases "dget d k")
      case (Some v)
      with JObj.IH [of "(k, v)" v q] dget_SomeD [OF Some] plain_get [OF JObj.prems Some] Cons show ?thesis by simp
    qed (simp add: Cons)
  qed simp
qed auto

definition nulls_gone :: "jdiff \<Rightarrow> bool" where
  "nulls_gone d \<longleftrightarrow> (\<forall>a b ch c p. describes d a b \<longrightarrow> plain_value a \<longrightarrow> plain_value b \<longrightarrow>
     recur_config d a b (empty_like b) = Inr (ch, c) \<longrightarrow> null_at c p \<longrightarrow> gone d a p)"

definition step_nulls_gone :: "jstep \<Rightarrow> bool" where
  "step_nulls_gone s = (case s of AtKey k d \<Rightarrow> nulls_gone d | _ \<Rightarrow> True)"

lemma null_member: "null_at (JObj m) p \<longleftrightarrow> (\<exists>k q v. p = k # q \<and> dget m k = Some v \<and> null_at v q)"
  by (cases p) (auto split: option.splits)

lemma step_nulls:
  assumes "step_nulls_gone s" and "step_describes s old new" and "plain_value (JObj old)" and "plain_value (JObj new)"
    and "recur_step s (JObj old) (JObj new) ch (JObj m) = Inr (ch', c)"
  shows "\<exists>m'. c = JObj m' \<and> (\<forall>k q. null_at c (k # q) \<longrightarrow> null_at (JObj m) (k # q) \<or> step_gone s (JObj old) k q)"
proof (cases s)
  case (AtKey k d)
  obtain a b where ab: "dget old k = Some a" "dget new k = Some b" and d: "describes d a b"
    using assms(2) AtKey by (auto split: option.splits)
  with assms(5) AtKey obtain changed sub where run: "recur_config d a b (empty_like b) = Inr (changed, sub)"
    and c: "(ch', c) = (if changed then (True, JObj (dset k sub (dset k (empty_like b) m))) else (ch, JObj (ddel k (dset k (empty_like b) m))))"
    by (auto simp: rbind_Inr_iff)
  have "null_at sub q \<Longrightarrow> gone d a q" for q
    using assms(1) AtKey d run plain_get [OF assms(3) ab(1)] plain_get [OF assms(4) ab(2)]
    by (auto simp: step_nulls_gone_def nulls_gone_def)
  with c ab show ?thesis by (auto simp: AtKey split: if_splits option.splits)
next
  case (Inserted j)
  then obtain d where j: "j = JObj d" using assms(2) by (auto split: json.splits)
  with assms(2) Inserted have ks: "\<And>k. k \<in> set (dkeys d) \<Longrightarrow> dhas new k" by (auto simp: list_all_iff)
  from assms(5) j Inserted have "fold_res (\<lambda>k c. rbind (py_in (TStr k) (JObj old))
      (\<lambda>b. if b \<or> \<not> dhas new k then invalid_step else set_member k (the (dget new k)) c)) (dkeys d) (JObj m) = Inr c"
    by (auto simp: rbind_Inr_iff insertHandler_def)
  from set_members [OF this] obtain m' where c: "c = JObj m'"
    and m': "\<And>k. dget m' k = (if k \<in> set (dkeys d) then Some (the (dget new k)) else dget m k)" by blast
  have "\<not> null_at (the (dget new k)) q" if "k \<in> set (dkeys d)" for k q
    using ks [OF that] plain_get [OF assms(4)] plain_not_null by (auto simp: dhas_dget)
  with c m' show ?thesis by auto
next
  case (Deleted j)
  then obtain d where j: "j = JObj d" using assms(2) by (auto split: json.splits)
  let ?v = "\<lambda>k. if is_list (the (dget old k)) then JList [] else JNull"
  from assms(2) j Deleted have ks: "\<And>k. k \<in> set (dkeys d) \<Longrightarrow> dhas old k" by (auto simp: list_all_iff)
  from assms(5) j Deleted have "fold_res (\<lambda>k c. rbind (if dhas old k then py_in (TStr k) (JObj new) else Inr True)
      (\<lambda>b. if b then invalid_step else set_member k (?v k) c)) (dkeys d) (JObj m) = Inr c"
    by (auto simp: rbind_Inr_iff deleteHandler_def)
  from set_members [OF this] obtain m' where c: "c = JObj m'"
    and m': "\<And>k. dget m' k = (if k \<in> set (dkeys d) then Some (?v k) else dget m k)" by blast
  have "step_gone s (JObj old) k q" if "k \<in> set (dkeys d)" "null_at (?v k) q" for k q
    using ks [OF that(1)] that Deleted j by (cases q) (auto simp: dhas_iff dhas_dget split: if_splits option.splits)
  with c m' show ?thesis by auto
qed (use assms(2) in simp)

lemma steps_nulls:
  assumes "\<forall>s \<in> set ss. step_nulls_gone s" and "steps_describe ss old new" and "plain_value (JObj old)" and "plain_value (JObj new)"
    and "recur_steps ss (JObj old) (JObj new) ch (JObj m) = Inr (ch', c)"
  shows "is_obj c" and "null_at c (k # q) \<Longrightarrow> null_at (JObj m) (k # q) \<or> list_ex (\<lambda>s. step_gone s (JObj old) k q) ss"
proof -
  have "is_obj c \<and> (null_at c (k # q) \<longrightarrow> null_at (JObj m) (k # q) \<or> list_ex (\<lambda>s. step_gone s (JObj old) k q) ss)"
    using assms
  proof (induction ss arbitrary: ch m)
    case (Cons s ss)
    from Cons.prems(5) obtain ch1 c1 where one: "recur_step s (JObj old) (JObj new) ch (JObj m) = Inr (ch1, c1)"
      and rest: "recur_steps ss (JObj old) (JObj new) ch1 c1 = Inr (ch', c)" by (auto simp: rbind_Inr_iff)
    obtain m1 where c1: "c1 = JObj m1"
      and n: "null_at c1 (k # q) \<Longrightarrow> null_at (JObj m) (k # q) \<or> step_gone s (JObj old) k q"
      using step_nulls [OF _ _ Cons.prems(3,4) one] Cons.prems(1,2) by auto
    have "is_obj c \<and> (null_at c (k # q) \<longrightarrow> null_at c1 (k # q) \<or> list_ex (\<lambda>s. step_gone s (JObj old) k q) ss)"
      unfolding c1 by (rule Cons.IH) (use Cons.prems rest c1 in auto)
    with n show ?case by (auto simp del: null_at.simps)
  qed auto
  then show "is_obj c" and "null_at c (k # q) \<Longrightarrow> null_at (JObj m) (k # q) \<or> list_ex (\<lambda>s. step_gone s (JObj old) k q) ss"
    by blast+
qed

lemma all_nulls: "nulls_gone d" and step_all_nulls: "step_nulls_gone s"
proof (induction d and s)
  case (Replaced x y)
  have "recur_config (Replaced x y) a b e = Inr (ch, c) \<Longrightarrow> c = e" for a b e ch c
    by (auto simp: replaced_config_def rbind_Inr_iff split: if_splits)
  moreover have "plain_value b \<Longrightarrow> \<not> null_at (empty_like b) p" for b p
    by (rule plain_not_null) (cases b; simp)
  ultimately show ?case unfolding nulls_gone_def by metis
next
  case (Steps ss)
  show ?case unfolding nulls_gone_def
  proof (intro allI impI)
    fix a b ch c p
    assume d: "describes (Steps ss) a b" "plain_value a" "plain_value b"
      "recur_config (Steps ss) a b (empty_like b) = Inr (ch, c)" "null_at c p"
    from d(1) consider (obj) old new where "a = JObj old" "b = JObj new" | (lst) old new where "a = JList old" "b = JList new"
      by (cases a; cases b) auto
    then show "gone (Steps ss) a p"
    proof cases
      case obj
      with d(4) have run: "recur_steps ss (JObj old) (JObj new) False (JObj []) = Inr (ch, c)" by simp
      have o: "steps_describe ss old new" "plain_value (JObj old)" "plain_value (JObj new)" using d(1-3) obj by simp_all
      have "is_obj c" using steps_nulls(1) [OF _ o run] Steps by simp
      show ?thesis
      proof (cases p)
        case (Cons k q)
        with steps_nulls(2) [OF _ o run, of k q] Steps d(5) obj show ?thesis by simp
      next
        case Nil
        with d(5) \<open>is_obj c\<close> show ?thesis by (cases c) auto
      qed
    next
      case lst
      then have "(\<exists>i. Inserted (JList i) \<in> set ss) \<or> (\<exists>i. Deleted (JList i) \<in> set ss)" and "\<exists>xs. c = JList xs"
        using d(1,4)
        by (auto simp: insertHandler_def deleteHandler_def rbind_Inr_iff split: list.splits jstep.splits json.splits if_splits)
      with d(5) show ?thesis by (cases c) auto
    qed
  qed
qed (simp_all add: step_nulls_gone_def)

end
