(* ===== verification/BreakoutProps.thy ===== *)
theory BreakoutProps
  imports BreakoutFacts
begin

text \<open>
  The properties of dynamic port breakout: that the configuration written for a difference leads to the
  configuration that was validated, and that nothing is written before both phases are validated.
\<close>

section \<open>The configuration that is written\<close>








text \<open>
  A list that gains one member and loses another is written twice; a text that changes ends the whole
  computation; a field that disappears is written as \<open>None\<close>.
\<close>

lemma two_sided_list_doubled:
  "createConfigToLoad
     (Steps [AtKey ''T'' (Steps [AtKey ''k'' (Steps [AtKey ''l''
        (Steps [Inserted (JList [JList [JInt 1, JStr ''c'']]), Deleted (JList [JList [JInt 1, JStr ''b'']])])])])])
     (JObj [(''T'', JObj [(''k'', JObj [(''l'', JList [JStr ''a'', JStr ''b''])])])])
     (JObj [(''T'', JObj [(''k'', JObj [(''l'', JList [JStr ''a'', JStr ''c''])])])]) =
   Inr (JObj [(''T'', JObj [(''k'', JObj [(''l'', JList [JStr ''a'', JStr ''c'', JStr ''a'', JStr ''c''])])])])"
  by code_simp

lemma changed_text_raises:
  "createConfigToLoad
     (Steps [AtKey ''T'' (Steps [AtKey ''k'' (Steps [AtKey ''f'' (Replaced (JStr ''1'') (JStr ''2''))])])])
     (JObj [(''T'', JObj [(''k'', JObj [(''f'', JStr ''1'')])])]) (JObj [(''T'', JObj [(''k'', JObj [(''f'', JStr ''2'')])])])
   = Inl AttributeError"
  by code_simp

lemma removed_field_is_None:
  "createConfigToLoad
     (Steps [AtKey ''T'' (Steps [AtKey ''k'' (Steps [Deleted (JObj [(''f'', JStr ''1'')])])])])
     (JObj [(''T'', JObj [(''k'', JObj [(''f'', JStr ''1''), (''g'', JStr ''2'')])])])
     (JObj [(''T'', JObj [(''k'', JObj [(''g'', JStr ''2'')])])])
   = Inr (JObj [(''T'', JObj [(''k'', JObj [(''f'', JNull)])])])"
  by code_simp

section \<open>Merging and adding\<close>

text \<open>The docstring promises the first dictionary priority; an empty value of the second one overwrites it.\<close>

lemma empty_value_overrides:
  "mergeConfigs [(''f'', JStr ''1'')] [(''f'', JStr [])] True = (Inr (), [(''f'', JStr [])], [(''f'', JStr [])])"
  by code_simp

lemma mixed_merge_is_name_error:
  "fst (mergeConfigs [(''f'', JStr ''1'')] [(''f'', JList [JStr ''2''])] True) = Inl (NameError ''Exce'')"
  by code_simp

section \<open>The whole breakout\<close>

text \<open>Ports that are gone in the last round of the wait are reported as still there.\<close>

lemma gone_too_late:
  assumes "\<not> checkNoPortsInAsicDb E ports oids b" and "checkNoPortsInAsicDb E ports oids (b_sleep E b)"
  shows "verifyAsicDB E ports oids 2 b = (Inl (Raised ''Exception'' []), b_sleep E b)"
  using assms by (simp add: verifyAsicDB_def numeral_2_eq_2)

lemma deletePorts_db: "dp_db (snd (deletePorts E ports force s)) = dp_db s"
  by (auto simp: deletePorts_def on_tree_def Let_def split: prod.splits sum.splits)

lemma addPorts_db: "dp_db (snd (addPorts E portJson loadDef s)) = dp_db s"
  by (auto simp: addPorts_def on_tree_def Let_def split: prod.splits sum.splits if_splits)

text \<open>
  A breakout that leaves the databases in another state computed and validated both configurations before,
  and it reports success exactly when, after the port map was read, the shutdown, the deletion, the wait for
  the ports to go and the addition all went through, in this order.
\<close>

theorem breakout_writes_after_validation:
  assumes "breakOutPort E delPorts portJson force loadDef s = ((deps, ok), s')" and "dp_db s' \<noteq> dp_db s \<or> ok"
  shows "\<exists>del s1 add s2 oids r. deletePorts E delPorts force s = ((Some del, None, True), s1) \<and>
      addPorts E portJson loadDef s1 = (Inr (Some add, True), s2) \<and> b_oid_map E (dp_db s) = Inr oids \<and>
      seq [shutdownIntf E delPorts, writeConfigDB E del, on_db (verifyAsicDB E delPorts oids max_wait), writeConfigDB E add] s2
        = (r, s') \<and> (ok \<longleftrightarrow> r = Inr ())"
proof -
  obtain del ds k s1 where d: "deletePorts E delPorts force s = ((del, ds, k), s1)" by (metis prod_cases3 prod.collapse)
  have s1: "dp_db s1 = dp_db s" using deletePorts_db [of E delPorts force s] d by simp
  have k: "k" using assms d s1 by (cases k) (auto simp: breakOutPort_def)
  then have del: "\<exists>c. del = Some c" "ds = None"
    using d by (auto simp: deletePorts_def on_tree_def Let_def split: prod.splits sum.splits if_splits)
  obtain x s2 where a: "addPorts E portJson loadDef s1 = (x, s2)" by force
  have s2: "dp_db s2 = dp_db s" using addPorts_db [of E portJson loadDef s1] a s1 by simp
  obtain add where x: "x = Inr (Some add, True)"
  proof -
    have "\<exists>y. x = Inr (y, True)" using assms d a k s2 by (auto simp: breakOutPort_def split: sum.splits prod.splits if_splits)
    then show thesis using that a
      by (auto simp: addPorts_def on_tree_def Let_def split: prod.splits sum.splits if_splits)
  qed
  obtain oids where o: "b_oid_map E (dp_db s) = Inr oids"
    using assms d a k x s2 by (cases "b_oid_map E (dp_db s)") (auto simp: breakOutPort_def attempt_def)
  show ?thesis
    using assms(1) d a k x s2 o del
    by (auto simp: breakOutPort_def attempt_def config_or_none_def split: sum.splits prod.splits simp del: seq.simps)
qed

end
