(* ===== verification/FieldOps.thy ===== *)
theory FieldOps
  imports Updater
begin

text \<open>
  field_operation_validators.py: whether a single operation of a patch may be made on this platform.
  The configuration file, the device information, the state database and the output of the hwsku
  command are the record \<open>device\<close>.
\<close>

record device =
  dv_conf :: "json option"          \<comment> \<open>\<open>gcu_field_operation_validators.conf.json\<close>, if it exists\<close>
  dv_asic_type :: string            \<comment> \<open>\<open>get_sonic_version_info()['asic_type']\<close>\<close>
  dv_build :: "string option"       \<comment> \<open>\<open>get_sonic_version_info().get('build_version')\<close>\<close>
  dv_hwsku :: string                \<comment> \<open>output of \<open>sonic-cfggen\<close>\<close>
  dv_chassis :: bool
  dv_hget :: "string \<Rightarrow> string option \<Rightarrow> string \<Rightarrow> string res"  \<comment> \<open>state database: table, key, field\<close>

section \<open>Strings\<close>

definition lower :: "string \<Rightarrow> string" where
  "lower s = map (\<lambda>c. if 65 \<le> (of_char c :: nat) \<and> (of_char c :: nat) \<le> 90
                     then char_of (of_char c + 32 :: nat) else c) s"

definition strip_newlines :: "string \<Rightarrow> string" where
  "strip_newlines s = rev (dropWhile (\<lambda>c. c = CHR 0x0A) (rev s))"

text \<open>\<open>JsonPointer(path).parts\<close> (RFC 6901).\<close>

definition pointer_parts :: "string \<Rightarrow> string list res" where
  "pointer_parts path =
     (if invalid_escape path then Inl (JsonPointerException ''Found invalid escape'')
      else case split_on (CHR ''/'') path of
             [] # ps \<Rightarrow> Inr (map unescape ps)
           | _ \<Rightarrow> Inl (JsonPointerException ''Location must start with /''))"

text \<open>\<open>json.dumps\<close>, which writes ASCII only.\<close>

definition hex_digit :: "nat \<Rightarrow> char" where
  "hex_digit n = (if n < 10 then digit_char n else char_of (87 + n))"

definition dump_char :: "char \<Rightarrow> string" where
  "dump_char c =
     (let n = of_char c :: nat in
      if c = CHR 0x22 then [CHR 0x5C, CHR 0x22]
      else if c = CHR 0x5C then [CHR 0x5C, CHR 0x5C]
      else if n = 10 then [CHR 0x5C, CHR ''n'']
      else if n = 13 then [CHR 0x5C, CHR ''r'']
      else if n = 9 then [CHR 0x5C, CHR ''t'']
      else if n = 8 then [CHR 0x5C, CHR ''b'']
      else if n = 12 then [CHR 0x5C, CHR ''f'']
      else if n < 32 \<or> n > 126 then [CHR 0x5C, CHR ''u'', CHR ''0'', CHR ''0'', hex_digit (n div 16), hex_digit (n mod 16)]
      else [c])"

definition dump_str :: "string \<Rightarrow> string" where
  "dump_str s = CHR 0x22 # concat (map dump_char s) @ [CHR 0x22]"

fun json_dumps :: "json \<Rightarrow> string" where
  "json_dumps JNull = ''null''"
| "json_dumps (JBool b) = (if b then ''true'' else ''false'')"
| "json_dumps (JInt i) = str_int i"
| "json_dumps (JStr s) = dump_str s"
| "json_dumps (JList xs) = ''['' @ join_with '', '' (map json_dumps xs) @ '']''"
| "json_dumps (JObj d) = ''{'' @ join_with '', '' (map (\<lambda>p. dump_str (fst p) @ '': '' @ json_dumps (snd p)) d) @ ''}''"

definition operation_doc :: "operation \<Rightarrow> json" where
  "operation_doc x =
     JObj ([(''op'', JStr (op x)), (''path'', JStr (op_path x))] @
           (case op_value x of None \<Rightarrow> [] | Some v \<Rightarrow> [(''value'', v)]))"

section \<open>Loops that stop\<close>

text \<open>The first element with the property; the elements behind it are not looked at.\<close>

fun find_res :: "('a \<Rightarrow> bool res) \<Rightarrow> 'a list \<Rightarrow> 'a option res" where
  "find_res p [] = Inr None"
| "find_res p (x # xs) = rbind (p x) (\<lambda>b. if b then Inr (Some x) else find_res p xs)"

section \<open>\<open>get_asic_name\<close>\<close>

definition lower_json :: "json \<Rightarrow> string res" where
  "lower_json j = (case j of JStr s \<Rightarrow> Inr (lower s) | _ \<Rightarrow> Inl AttributeError)"

definition spc_names :: "string list" where
  "spc_names = [''spc1'', ''spc2'', ''spc3'', ''spc4'', ''spc5'', ''spc6'']"

text \<open>\<open>hwsku.lower() in [s.lower() for s in hwskus]\<close>: the whole list is built first.\<close>

definition listed :: "string \<Rightarrow> json \<Rightarrow> bool res" where
  "listed hwsku hwskus =
     rbind (py_iter hwskus) (\<lambda>xs. rbind (map_res lower_json xs) (\<lambda>ls. Inr (lower hwsku \<in> set ls)))"

definition spc_asic :: "json \<Rightarrow> string \<Rightarrow> string option res" where
  "spc_asic mapping hwsku =
     rbind (map_res (\<lambda>n. rbind (py_getitem mapping (TStr ''mellanox_asics'')) (\<lambda>m.
              rbind (py_getitem m (TStr n)) (\<lambda>l. Inr (n, l)))) spc_names) (\<lambda>ls.
     rbind (find_res (\<lambda>(n, l). listed hwsku l) ls) (\<lambda>r. Inr (map_option fst r)))"

text \<open>The shorthand of the first list with a name that occurs in the hwsku.\<close>

definition broadcom_asic :: "json \<Rightarrow> string \<Rightarrow> string res" where
  "broadcom_asic mapping hwsku =
     rbind (py_getitem mapping (TStr ''broadcom_asics'')) (\<lambda>b.
     case b of
       JObj d \<Rightarrow> fold_res (\<lambda>(shorthand, hwskus) asic.
           if asic \<noteq> ''unknown'' then Inr asic
           else rbind (py_iter hwskus) (\<lambda>xs.
                rbind (find_res (\<lambda>x. rbind (lower_json x) (\<lambda>l. Inr (is_infix l (lower hwsku)))) xs)
                  (\<lambda>r. Inr (if r = None then asic else shorthand)))) d ''unknown''
     | _ \<Rightarrow> Inl AttributeError)"

definition conf_missing :: "'a res" where
  "conf_missing = Inl (GenericConfigUpdaterError ''GCU table modification validators config file not found'')"

definition get_asic_name :: "device \<Rightarrow> string res" where
  "get_asic_name v =
     (case dv_conf v of
        None \<Rightarrow> conf_missing
      | Some conf \<Rightarrow>
          rbind (py_path conf [TStr ''helper_data'', TStr ''rdma_config_update_validator'']) (\<lambda>mapping.
          let asic_type = dv_asic_type v;
              asic = (if asic_type \<in> {''cisco-8000'', ''cisco''} then asic_type else ''unknown'');
              hwsku = strip_newlines (dv_hwsku v)
          in if asic_type = ''marvell-teralynx'' then Inr ''marvell-teralynx''
             else if asic_type \<in> {''mellanox'', ''vs'', ''broadcom''}
             then rbind (if asic_type \<in> {''mellanox'', ''vs''} then spc_asic mapping hwsku else Inr None) (\<lambda>spc.
                  case spc of
                    Some n \<Rightarrow> Inr n
                  | None \<Rightarrow> if asic_type \<in> {''broadcom'', ''vs''} then broadcom_asic mapping hwsku else Inr asic)
             else Inr asic))"

section \<open>The RDMA validator\<close>

definition fields_match_exact :: "string \<Rightarrow> json \<Rightarrow> bool" where
  "fields_match_exact cleaned gcu_field = json_eq (JStr cleaned) gcu_field"

definition fields_match_endswith :: "string \<Rightarrow> json \<Rightarrow> bool" where
  "fields_match_endswith cleaned gcu_field = json_eq (JStr (last (split_on (CHR ''/'') cleaned))) gcu_field"

text \<open>The last part of the build version that is a date.\<close>

definition branch_version :: "string \<Rightarrow> string option" where
  "branch_version build =
     (case filter (\<lambda>s. isdigit s \<and> length s = 8) (split_on (CHR ''.'') build) of
        [] \<Rightarrow> None | ss \<Rightarrow> Some (last ss))"

definition get_fields_in_patch :: "bool \<Rightarrow> string list \<Rightarrow> operation \<Rightarrow> string list" where
  "get_fields_in_patch remove_port parts x =
     (let elements = (if remove_port then filter (\<lambda>e. \<not> list_ex is_digit e) (tl parts) else tl parts);
          cleaned = lower (join_with ''/'' elements)
      in case op_value x of
           Some (JObj d) \<Rightarrow> map (\<lambda>k. if cleaned \<noteq> [] then cleaned @ ''/'' @ k else k) (dkeys d)
         | _ \<Rightarrow> [cleaned])"

text \<open>The first scenario with a matching field.\<close>

definition scenario_of :: "(string \<Rightarrow> json \<Rightarrow> bool) \<Rightarrow> json \<Rightarrow> string \<Rightarrow> json option res" where
  "scenario_of matches scenarios field =
     rbind (py_keys scenarios) (\<lambda>ks.
     rbind (find_res (\<lambda>k. rbind (py_path scenarios [TStr k, TStr ''fields'']) (\<lambda>fs.
              rbind (py_iter fs) (\<lambda>xs. Inr (list_ex (matches field) xs)))) ks) (\<lambda>r.
     case r of None \<Rightarrow> Inr None | Some k \<Rightarrow> rbind (py_getitem scenarios (TStr k)) (\<lambda>s. Inr (Some s))))"

definition scenario_allows :: "string \<Rightarrow> string option \<Rightarrow> string \<Rightarrow> json \<Rightarrow> bool res" where
  "scenario_allows asic version operation scenario =
     rbind (py_getitem scenario (TStr ''platforms'')) (\<lambda>platforms.
     rbind (py_get platforms asic) (\<lambda>minimum.
     if \<not> truthy minimum then Inr False
     else rbind (py_getitem scenario (TStr ''operations'')) (\<lambda>operations.
          rbind (py_in (TStr operation) operations) (\<lambda>b.
          if \<not> b then Inr False
          else case version of
                 None \<Rightarrow> Inr True
               | Some v \<Rightarrow> (case minimum of JStr m \<Rightarrow> Inr (\<not> v < m) | _ \<Rightarrow> Inl TypeError)))))"

definition rdma_config_update_validator_common :: "device \<Rightarrow> bool \<Rightarrow> bool \<Rightarrow> operation \<Rightarrow> bool res" where
  "rdma_config_update_validator_common v exact_field_match remove_port x =
     rbind (get_asic_name v) (\<lambda>asic.
     if asic = ''unknown'' then Inr False
     else case dv_build v of
       None \<Rightarrow> Inl AttributeError
     | Some build \<Rightarrow>
         rbind (pointer_parts (op_path x)) (\<lambda>parts.
         if parts = [] then Inl IndexError
         else case dv_conf v of
           None \<Rightarrow> conf_missing
         | Some conf \<Rightarrow>
             rbind (py_path conf [TStr ''tables'', TStr (hd parts), TStr ''validator_data'',
                      TStr ''rdma_config_update_validator'']) (\<lambda>scenarios.
             all_res (\<lambda>field.
               rbind (scenario_of (if exact_field_match then fields_match_exact else fields_match_endswith) scenarios field)
                 (\<lambda>s. case s of
                   None \<Rightarrow> Inr False
                 | Some scenario \<Rightarrow> scenario_allows asic (branch_version build) (op x) scenario))
               (get_fields_in_patch remove_port parts x))))"

definition rdma_config_update_validator :: "device \<Rightarrow> operation \<Rightarrow> bool res" where
  "rdma_config_update_validator v x = rdma_config_update_validator_common v True True x"

definition buffer_profile_config_update_validator :: "device \<Rightarrow> operation \<Rightarrow> bool res" where
  "buffer_profile_config_update_validator v x =
     rbind (pointer_parts (op_path x)) (\<lambda>parts.
     if length parts = 2 then Inr (op x \<in> {''add'', ''remove'', ''replace''})
     else rdma_config_update_validator_common v False False x)"

section \<open>The port validator\<close>

definition default_supported_fecs :: "string list" where
  "default_supported_fecs = [''rs'', ''fc'', ''none'', ''auto'']"

definition read_statedb_entry :: "device \<Rightarrow> string \<Rightarrow> string option \<Rightarrow> string \<Rightarrow> string res" where
  "read_statedb_entry v table key field = dv_hget v table key field"

definition supported_fecs :: "string \<Rightarrow> string list" where
  "supported_fecs s =
     (if s = [] then default_supported_fecs
      else if s = ''N/A'' then [] else map strip (split_on (CHR '','') s))"

text \<open>\<open>int(value)\<close> of a JSON value.\<close>

fun json_int :: "json \<Rightarrow> int res" where
  "json_int (JStr s) = py_int s"
| "json_int (JInt i) = Inr i"
| "json_int (JBool b) = Inr (if b then 1 else 0)"
| "json_int _ = Inl TypeError"

definition supported_speeds :: "string \<Rightarrow> int list res" where
  "supported_speeds s = map_res py_int (filter (\<lambda>x. x \<noteq> []) (split_on (CHR '','') s))"

text \<open>\<open>except ValueError: return False\<close>.\<close>

definition value_error_false :: "bool res \<Rightarrow> bool res" where
  "value_error_false r = (case r of Inl (ValueError _) \<Rightarrow> Inr False | _ \<Rightarrow> r)"

definition validate_port_field :: "device \<Rightarrow> string \<Rightarrow> string option \<Rightarrow> json \<Rightarrow> bool res" where
  "validate_port_field v field port value =
     (if field = ''fec'' then
        if dv_chassis v then Inr True
        else rbind (read_statedb_entry v ''PORT_TABLE'' port ''supported_fecs'') (\<lambda>s.
             case value of JStr t \<Rightarrow> Inr (strip t \<in> set (supported_fecs s)) | _ \<Rightarrow> Inl AttributeError)
      else if field = ''speed'' then
        if dv_chassis v then Inr True
        else rbind (read_statedb_entry v ''PORT_TABLE'' port ''supported_speeds'') (\<lambda>s.
             value_error_false (rbind (supported_speeds s) (\<lambda>speeds.
               if speeds = [] then Inr True
               else rbind (json_int value) (\<lambda>i. Inr (i \<in> set speeds)))))
      else Inr False)"

text \<open>\<open>re.search(r"Ethernet\d+", path)\<close>.\<close>

fun parse_port_from_path :: "string \<Rightarrow> string option" where
  "parse_port_from_path [] = None"
| "parse_port_from_path (c # s) =
     (let digits = takeWhile is_digit (drop 8 (c # s)) in
      if startswith (c # s) ''Ethernet'' \<and> digits \<noteq> [] then Some (''Ethernet'' @ digits)
      else parse_port_from_path s)"

text \<open>
  One round of the loop over \<open>fec\<close> and \<open>speed\<close>.  The variable \<open>value\<close> is assigned inside the loop and
  keeps what it got for the next round; the answer \<open>None\<close> is \<open>return False\<close>.
\<close>

definition check_member :: "device \<Rightarrow> string \<Rightarrow> string option \<Rightarrow> json \<Rightarrow> json option res" where
  "check_member v field port w = rbind (validate_port_field v field port w) (\<lambda>b. Inr (if b then Some w else None))"

definition check_ports :: "device \<Rightarrow> string \<Rightarrow> json dict \<Rightarrow> json option \<Rightarrow> json option res" where
  "check_ports v field ports value =
     fold_res (\<lambda>(port_name, port_info) acc. case acc of
         None \<Rightarrow> Inr None
       | Some _ \<Rightarrow> (case port_info of
           JObj info \<Rightarrow> (case dget info field of
               None \<Rightarrow> Inr acc
             | Some w \<Rightarrow> check_member v field (Some port_name) w)
         | _ \<Rightarrow> Inr acc)) ports value"

definition check_port_field :: "device \<Rightarrow> operation \<Rightarrow> string \<Rightarrow> json \<Rightarrow> json option res" where
  "check_port_field v x field value =
     (if \<not> is_infix field (json_dumps (operation_doc x)) then Inr (Some value)
      else if endswith (op_path x) field
      then check_member v field (parse_port_from_path (op_path x)) value
      else case value of
        JObj d \<Rightarrow>
          (case dget d field of
             Some w \<Rightarrow> check_member v field (parse_port_from_path (op_path x)) w
           | None \<Rightarrow> check_ports v field d (Some value))
      | _ \<Rightarrow> Inr (Some value))"

definition port_config_update_validator :: "device \<Rightarrow> operation \<Rightarrow> bool res" where
  "port_config_update_validator v x =
     (if op x = ''remove'' then Inr True
      else rbind (fold_res (\<lambda>field acc. case acc of
               None \<Rightarrow> Inr None | Some value \<Rightarrow> check_port_field v x field value)
             [''fec'', ''speed''] (Some (case op_value x of None \<Rightarrow> JNull | Some w \<Rightarrow> w)))
           (\<lambda>r. Inr (r \<noteq> None)))"

section \<open>The functions by name\<close>

text \<open>\<open>getattr(module, method_name)\<close>, for the functions that can be called with a scope and an element.\<close>

definition run_field_validator :: "device \<Rightarrow> string \<Rightarrow> operation \<Rightarrow> bool res" where
  "run_field_validator v cmd x =
     (let name = last (split_on (CHR ''.'') cmd) in
      if name = ''rdma_config_update_validator'' then rdma_config_update_validator v x
      else if name = ''rdma_config_update_validator_common'' then rdma_config_update_validator_common v False False x
      else if name = ''buffer_profile_config_update_validator'' then buffer_profile_config_update_validator v x
      else if name = ''port_config_update_validator'' then port_config_update_validator v x
      else Inl AttributeError)"

end
