(* ===== verification/FieldProps.thy ===== *)
theory FieldProps
  imports FieldOps Samples
begin

text \<open>
  The properties of the field operation validators: what an accepted operation is known to satisfy.
\<close>

section \<open>Text of an operation\<close>














section \<open>The port validator\<close>



lemma value_error_false_True [simp]: "value_error_false r = Inr True \<longleftrightarrow> r = Inr True"
  by (auto simp: value_error_false_def split: sum.splits py_error.splits)



lemma check_member_Some [simp]:
  "check_member v field port w = Inr (Some w') \<longleftrightarrow> validate_port_field v field port w = Inr True \<and> w' = w"
  by (auto simp: check_member_def res_simps split: if_splits)


lemma port_validator_rounds:
  assumes "op x \<noteq> ''remove''"
  shows "port_config_update_validator v x = Inr True \<longleftrightarrow>
    (\<exists>w w'. check_port_field v x ''fec'' (case op_value x of None \<Rightarrow> JNull | Some w \<Rightarrow> w) = Inr (Some w) \<and>
            check_port_field v x ''speed'' w = Inr (Some w'))"
  using assms by (auto simp: port_config_update_validator_def rbind_Inr_iff split: option.splits)










text \<open>A member of the entry of a port: the speed is not looked at when the entry has a \<open>fec\<close>.\<close>

lemma port_validator_entry:
  assumes "op_value x = Some (JObj d)" and "op x \<noteq> ''remove''" and "\<not> dv_chassis v"
    and "\<not> endswith (op_path x) ''fec''" "\<not> endswith (op_path x) ''speed''"
    and "dget d ''fec'' = Some (JStr t)" and "is_infix ''fec'' (json_dumps (operation_doc x))"
    and "dv_hget v ''PORT_TABLE'' (parse_port_from_path (op_path x)) ''supported_fecs'' = Inr s"
    and "strip t \<in> set (supported_fecs s)"
  shows "port_config_update_validator v x = Inr True"
proof -
  have "validate_port_field v ''fec'' (parse_port_from_path (op_path x)) (JStr t) = Inr True"
    using assms(3,8,9) by (simp add: validate_port_field_def read_statedb_entry_def)
  then have "check_port_field v x ''fec'' (JObj d) = Inr (Some (JStr t))"
    using assms(4,6,7) by (simp add: check_port_field_def)
  moreover have "check_port_field v x ''speed'' (JStr t) = Inr (Some (JStr t))"
    using assms(5) by (simp add: check_port_field_def)
  ultimately show ?thesis using assms(1,2) by (simp add: port_validator_rounds)
qed

section \<open>The RDMA validator\<close>

lemma rdma_sound:
  assumes "rdma_config_update_validator_common v exact ports x = Inr True"
  obtains asic build parts conf scenarios
  where "get_asic_name v = Inr asic" "asic \<noteq> ''unknown''" "dv_build v = Some build" "dv_conf v = Some conf"
    "pointer_parts (op_path x) = Inr parts" "parts \<noteq> []"
    "py_path conf [TStr ''tables'', TStr (hd parts), TStr ''validator_data'', TStr ''rdma_config_update_validator''] = Inr scenarios"
    "\<And>field. field \<in> set (get_fields_in_patch ports parts x) \<Longrightarrow>
       \<exists>scenario. scenario_of (if exact then fields_match_exact else fields_match_endswith) scenarios field = Inr (Some scenario) \<and>
         scenario_allows asic (branch_version build) (op x) scenario = Inr True"
proof -
  obtain asic where a: "get_asic_name v = Inr asic" "asic \<noteq> ''unknown''"
    using assms unfolding rdma_config_update_validator_common_def rbind_Inr_iff by (auto split: if_splits)
  obtain build where b: "dv_build v = Some build"
    using assms a unfolding rdma_config_update_validator_common_def by (cases "dv_build v") auto
  obtain parts where p: "pointer_parts (op_path x) = Inr parts" "parts \<noteq> []"
    using assms a b unfolding rdma_config_update_validator_common_def by (auto simp: rbind_Inr_iff split: if_splits)
  obtain conf where c: "dv_conf v = Some conf"
    using assms a b p unfolding rdma_config_update_validator_common_def by (cases "dv_conf v") (auto simp: conf_missing_def)
  let ?ok = "\<lambda>scenarios field. rbind (scenario_of (if exact then fields_match_exact else fields_match_endswith) scenarios field)
    (\<lambda>s. case s of None \<Rightarrow> Inr False | Some scenario \<Rightarrow> scenario_allows asic (branch_version build) (op x) scenario)"
  obtain scenarios where s: "py_path conf [TStr ''tables'', TStr (hd parts), TStr ''validator_data'', TStr ''rdma_config_update_validator''] = Inr scenarios"
    "all_res (?ok scenarios) (get_fields_in_patch ports parts x) = Inr True"
  proof -
    have "rbind (py_path conf [TStr ''tables'', TStr (hd parts), TStr ''validator_data'', TStr ''rdma_config_update_validator''])
        (\<lambda>scenarios. all_res (?ok scenarios) (get_fields_in_patch ports parts x)) = Inr True"
      using assms a b p c by (simp add: rdma_config_update_validator_common_def del: py_path.simps)
    then show thesis using that unfolding rbind_Inr_iff by blast
  qed
  have "\<exists>scenario. scenario_of (if exact then fields_match_exact else fields_match_endswith) scenarios field = Inr (Some scenario) \<and>
         scenario_allows asic (branch_version build) (op x) scenario = Inr True"
    if "field \<in> set (get_fields_in_patch ports parts x)" for field
  proof -
    have "?ok scenarios field = Inr True" using s(2) that by (simp add: all_res_True_iff)
    then show ?thesis by (cases "scenario_of (if exact then fields_match_exact else fields_match_endswith) scenarios field")
        (auto split: option.splits)
  qed
  then show thesis by (rule that [OF a b c p s(1)])
qed

lemma scenario_allows_True:
  assumes "scenario_allows asic version operation scenario = Inr True"
  shows "\<exists>platforms minimum operations. py_getitem scenario (TStr ''platforms'') = Inr platforms \<and>
    py_get platforms asic = Inr minimum \<and> truthy minimum \<and>
    py_getitem scenario (TStr ''operations'') = Inr operations \<and> py_in (TStr operation) operations = Inr True \<and>
    (\<forall>d. version = Some d \<longrightarrow> (\<exists>m. minimum = JStr m \<and> m \<le> d))"
  using assms
  by (auto simp: scenario_allows_def rbind_Inr_iff not_less split: if_splits option.splits json.splits)

section \<open>The properties\<close>



definition port_cmd :: string where
  "port_cmd = ''generic_config_updater.field_operation_validators.port_config_update_validator''"


definition sample_device :: device where
  "sample_device =
     \<lparr>dv_conf = Some (JObj
        [(''helper_data'', JObj [(''rdma_config_update_validator'', JObj [])]),
         (''tables'', JObj
           [(''PORT'', JObj [(''field_operation_validators'', JList [JStr port_cmd])]),
            (''PFC_WD'', JObj [(''validator_data'', JObj [(''rdma_config_update_validator'', JObj
               [(''timers'', JObj [(''fields'', JList [JStr ''restoration_time'', JStr ''detection_time'']),
                                   (''operations'', JList [JStr ''replace'']),
                                   (''platforms'', JObj [(''cisco-8000'', JStr ''20201200'')])])])])])])]),
      dv_asic_type = ''cisco-8000'', dv_build = Some ''master.20230531.7'', dv_hwsku = [], dv_chassis = False,
      dv_hget = (\<lambda>t k f. Inr (if k = Some ''Ethernet0'' \<and> f = ''supported_speeds'' then ''40000,100000'' else []))\<rparr>"



text \<open>
  The RDMA validator accepts an operation only when the ASIC is known and, for every field the
  operation touches, the first scenario of the table that lists the field names the ASIC as a
  platform, lists the operation, and asks for no later release than the one running.
\<close>

theorem rdma_limits_enforced:
  assumes "rdma_config_update_validator v x = Inr True" and "pointer_parts (op_path x) = Inr parts"
    and "field \<in> set (get_fields_in_patch True parts x)"
  shows "\<exists>asic scenarios scenario platforms minimum operations.
    get_asic_name v = Inr asic \<and> asic \<noteq> ''unknown'' \<and>
    py_path (the (dv_conf v)) [TStr ''tables'', TStr (hd parts), TStr ''validator_data'',
      TStr ''rdma_config_update_validator''] = Inr scenarios \<and>
    scenario_of fields_match_exact scenarios field = Inr (Some scenario) \<and>
    py_getitem scenario (TStr ''platforms'') = Inr platforms \<and> py_get platforms asic = Inr minimum \<and> truthy minimum \<and>
    py_getitem scenario (TStr ''operations'') = Inr operations \<and> py_in (TStr (op x)) operations = Inr True \<and>
    (case branch_version (the (dv_build v)) of None \<Rightarrow> True | Some d \<Rightarrow> (\<exists>m. minimum = JStr m \<and> m \<le> d))"
proof -
  have "rdma_config_update_validator_common v True True x = Inr True"
    using assms(1) by (simp add: rdma_config_update_validator_def)
  then obtain asic build parts' conf scenarios
    where r: "get_asic_name v = Inr asic" "asic \<noteq> ''unknown''" "dv_build v = Some build" "dv_conf v = Some conf"
      "pointer_parts (op_path x) = Inr parts'"
      "py_path conf [TStr ''tables'', TStr (hd parts'), TStr ''validator_data'', TStr ''rdma_config_update_validator''] = Inr scenarios"
      "\<And>field. field \<in> set (get_fields_in_patch True parts' x) \<Longrightarrow>
         \<exists>scenario. scenario_of fields_match_exact scenarios field = Inr (Some scenario) \<and>
           scenario_allows asic (branch_version build) (op x) scenario = Inr True"
    by (rule rdma_sound) simp
  with assms(2,3) obtain scenario where s: "scenario_of fields_match_exact scenarios field = Inr (Some scenario)"
    "scenario_allows asic (branch_version build) (op x) scenario = Inr True" by auto
  from scenario_allows_True [OF s(2)] r s(1) assms(2) show ?thesis
    by (fastforce split: option.splits)
qed

theorem rdma_limits_enforced_witness:
  "\<exists>asic. get_asic_name sample_device = Inr asic \<and> asic \<noteq> ''unknown''"
proof -
  let ?x = "\<lparr>op = ''replace'', op_path = ''/PFC_WD/Ethernet0/detection_time'', op_value = Some (JStr ''400'')\<rparr>"
  have "rdma_config_update_validator sample_device ?x = Inr True"
    "pointer_parts (op_path ?x) = Inr [''PFC_WD'', ''Ethernet0'', ''detection_time'']"
    "''detection_time'' \<in> set (get_fields_in_patch True [''PFC_WD'', ''Ethernet0'', ''detection_time''] ?x)"
    by code_simp+
  from rdma_limits_enforced [OF this] show ?thesis by blast
qed

text \<open>An entry with an advertised \<open>fec\<close> and a speed that is not advertised is accepted.\<close>

lemma unsupported_speed_accepted:
  "port_config_update_validator sample_device
     \<lparr>op = ''add'', op_path = ''/PORT/Ethernet0'', op_value = Some (JObj [(''fec'', JStr ''rs''), (''speed'', JStr ''10'')])\<rparr> = Inr True"
  "port_config_update_validator sample_device
     \<lparr>op = ''add'', op_path = ''/PORT/Ethernet0'', op_value = Some (JObj [(''speed'', JStr ''10'')])\<rparr> = Inr False"
  by code_simp+

end
