(* ===== verification/NetAddr.thy ===== *)
theory NetAddr
  imports Prelude
begin

text \<open>
  Texts of IP addresses as Python's module \<open>ipaddress\<close> reads them.  An address is its number; what
  the module rejects with a \<open>ValueError\<close> is \<open>None\<close>.
\<close>

section \<open>Version 4\<close>

definition octet :: "string \<Rightarrow> int option" where
  "octet s =
     (if isdigit s \<and> length s \<le> 3 \<and> (s = ''0'' \<or> hd s \<noteq> CHR ''0'') \<and> int (nat_digits s) \<le> 255
      then Some (int (nat_digits s)) else None)"

definition ip4_of :: "string \<Rightarrow> int option" where
  "ip4_of s =
     (case map octet (split_on (CHR ''.'') s) of
        [Some a, Some b, Some c, Some d] \<Rightarrow> Some (((a * 256 + b) * 256 + c) * 256 + d)
      | _ \<Rightarrow> None)"

definition ip4_text :: "int \<Rightarrow> string" where
  "ip4_text n =
     join_with ''.'' [str_int (n div 16777216), str_int (n div 65536 mod 256), str_int (n div 256 mod 256), str_int (n mod 256)]"

text \<open>A prefix length, or a mask or inverted mask in dotted form.\<close>

definition prefix_of :: "int \<Rightarrow> string \<Rightarrow> int option" where
  "prefix_of width s =
     (if isdigit s \<and> int (nat_digits s) \<le> width then Some (int (nat_digits s)) else None)"

definition mask_of :: "nat \<Rightarrow> int" where
  "mask_of p = 2 ^ 32 - 2 ^ (32 - p)"

definition dotted_prefix :: "string \<Rightarrow> int option" where
  "dotted_prefix s =
     (case ip4_of s of
        None \<Rightarrow> None
      | Some n \<Rightarrow> map_option int
          (case find (\<lambda>p. mask_of p = n) [0..<33] of
             Some p \<Rightarrow> Some p
           | None \<Rightarrow> find (\<lambda>p. mask_of p = 2 ^ 32 - 1 - n) [0..<33]))"

text \<open>For evaluation: the dotted form is tried only if the mask is no number.\<close>

fun mask_or_dotted :: "int option \<Rightarrow> int \<Rightarrow> string \<Rightarrow> (int \<times> int) option" where
  "mask_or_dotted (Some p) n m = Some (n, p)"
| "mask_or_dotted None n m = map_option (\<lambda>p. (n, p)) (dotted_prefix m)"

definition ip4_interface :: "string \<Rightarrow> (int \<times> int) option" where
  "ip4_interface s =
     (case split_on (CHR ''/'') s of
        [a] \<Rightarrow> map_option (\<lambda>n. (n, 32)) (ip4_of a)
      | [a, m] \<Rightarrow> (case ip4_of a of
            None \<Rightarrow> None
          | Some n \<Rightarrow> (case prefix_of 32 m of
                Some p \<Rightarrow> Some (n, p)
              | None \<Rightarrow> map_option (\<lambda>p. (n, p)) (dotted_prefix m)))
      | _ \<Rightarrow> None)"

fun ip4_with_mask :: "int option \<Rightarrow> string \<Rightarrow> (int \<times> int) option" where
  "ip4_with_mask None m = None"
| "ip4_with_mask (Some n) m = mask_or_dotted (prefix_of 32 m) n m"

lemma ip4_interface_code [code]:
  "ip4_interface s =
     (case split_on (CHR ''/'') s of
        [a] \<Rightarrow> map_option (\<lambda>n. (n, 32)) (ip4_of a)
      | [a, m] \<Rightarrow> ip4_with_mask (ip4_of a) m
      | _ \<Rightarrow> None)"
proof -
  have e: "ip4_with_mask x m = (case x of None \<Rightarrow> None | Some n \<Rightarrow> (case prefix_of 32 m of
             Some p \<Rightarrow> Some (n, p) | None \<Rightarrow> map_option (\<lambda>p. (n, p)) (dotted_prefix m)))" for x m
    by (cases x; cases "prefix_of 32 m") auto
  show ?thesis unfolding ip4_interface_def e ..
qed

lemma octet_code [code]:
  "octet s =
     (if isdigit s \<and> length s \<le> 3 \<and> (s = ''0'' \<or> hd s \<noteq> CHR ''0'')
      then (let n = foldl (\<lambda>a c. 10 * a + int (digit_val c)) 0 s in if n \<le> 255 then Some n else None) else None)"
  by (simp add: octet_def int_nat_digits Let_def)

section \<open>Version 6\<close>

definition hex_val :: "char \<Rightarrow> int option" where
  "hex_val c =
     (let n = int (of_char c) in
      if 48 \<le> n \<and> n \<le> 57 then Some (n - 48)
      else if 97 \<le> n \<and> n \<le> 102 then Some (n - 87)
      else if 65 \<le> n \<and> n \<le> 70 then Some (n - 55) else None)"

definition hextet :: "string \<Rightarrow> int option" where
  "hextet s =
     (if s \<noteq> [] \<and> length s \<le> 4 \<and> list_all (\<lambda>c. hex_val c \<noteq> None) s
      then Some (foldl (\<lambda>a c. 16 * a + the (hex_val c)) 0 s) else None)"

text \<open>The parts between colons, where a last part with dots stands for two numbers.\<close>

definition hextets :: "string list \<Rightarrow> int list option" where
  "hextets ps = (if None \<in> set (map hextet ps) then None else Some (map (the \<circ> hextet) ps))"

definition low_parts :: "string list \<Rightarrow> int list option" where
  "low_parts ps =
     (if ps \<noteq> [] \<and> CHR ''.'' \<in> set (last ps)
      then (case (hextets (butlast ps), ip4_of (last ps)) of
              (Some hs, Some n) \<Rightarrow> Some (hs @ [n div 65536, n mod 65536])
            | _ \<Rightarrow> None)
      else hextets ps)"

definition number_of :: "int list \<Rightarrow> int" where
  "number_of hs = foldl (\<lambda>a h. 65536 * a + h) 0 hs"

text \<open>
  The numbers of an address: eight of them, or fewer around one \<open>::\<close>, which stands for at least one
  zero.  The empty parts at the two ends of the text belong to a \<open>::\<close> there and are no numbers.
\<close>

fun empty_inside :: "string list \<Rightarrow> nat \<Rightarrow> nat list" where
  "empty_inside [] i = []"
| "empty_inside (p # ps) i = (if p = [] \<and> ps \<noteq> [] \<and> i > 0 then i # empty_inside ps (Suc i) else empty_inside ps (Suc i))"

definition high_half :: "string list \<Rightarrow> string list option" where
  "high_half ps = (case ps of [[]] \<Rightarrow> Some [] | [] # _ \<Rightarrow> None | _ \<Rightarrow> Some ps)"

definition low_half :: "string list \<Rightarrow> string list option" where
  "low_half ps = (if ps = [[]] then Some [] else if ps \<noteq> [] \<and> last ps = [] then None else Some ps)"

definition ip6_parts :: "string list \<Rightarrow> int option" where
  "ip6_parts ps =
     (case empty_inside ps 0 of
        [] \<Rightarrow> (case low_parts ps of
                 Some hs \<Rightarrow> if length hs = 8 then Some (number_of hs) else None
               | None \<Rightarrow> None)
      | [i] \<Rightarrow>
          (case (high_half (take i ps), low_half (drop (Suc i) ps)) of
             (Some hi, Some lo) \<Rightarrow>
               (case (hextets hi, low_parts lo) of
                  (Some h, Some l) \<Rightarrow>
                    if length h + length l < 8
                    then Some (number_of (h @ replicate (8 - (length h + length l)) 0 @ l)) else None
                | _ \<Rightarrow> None)
           | _ \<Rightarrow> None)
      | _ \<Rightarrow> None)"

definition scope_ok :: "string \<Rightarrow> bool" where
  "scope_ok s \<longleftrightarrow> (case split_on (CHR ''%'') s of [a] \<Rightarrow> True | [a, z] \<Rightarrow> z \<noteq> [] | _ \<Rightarrow> False)"

definition ip6_of :: "string \<Rightarrow> int option" where
  "ip6_of s =
     (let ps = split_on (CHR '':'') (hd (split_on (CHR ''%'') s)) in
      if scope_ok s \<and> length ps \<ge> 3 then ip6_parts ps else None)"

definition ip6_interface :: "string \<Rightarrow> (int \<times> int) option" where
  "ip6_interface s =
     (case split_on (CHR ''/'') s of
        [a] \<Rightarrow> map_option (\<lambda>n. (n, 128)) (ip6_of a)
      | [a, m] \<Rightarrow> (case (ip6_of a, prefix_of 128 m) of (Some n, Some p) \<Rightarrow> Some (n, p) | _ \<Rightarrow> None)
      | _ \<Rightarrow> None)"

section \<open>Either version\<close>

datatype ip = IP4 int | IP6 int

text \<open>\<open>ip_address\<close> and \<open>ip_interface\<close>.\<close>

definition ip_address :: "string \<Rightarrow> ip option" where
  "ip_address s = (case ip4_of s of Some n \<Rightarrow> Some (IP4 n) | None \<Rightarrow> map_option IP6 (ip6_of s))"

definition ip_interface :: "string \<Rightarrow> (ip \<times> int) option" where
  "ip_interface s =
     (case ip4_interface s of
        Some (n, p) \<Rightarrow> Some (IP4 n, p)
      | None \<Rightarrow> map_option (\<lambda>(n, p). (IP6 n, p)) (ip6_interface s))"

fun ip4_or_ip6 :: "int option \<Rightarrow> string \<Rightarrow> ip option" where
  "ip4_or_ip6 (Some n) s = Some (IP4 n)"
| "ip4_or_ip6 None s = map_option IP6 (ip6_of s)"

lemma ip_address_code [code]: "ip_address s = ip4_or_ip6 (ip4_of s) s"
  by (cases "ip4_of s") (simp_all add: ip_address_def)

fun interface_either :: "(int \<times> int) option \<Rightarrow> string \<Rightarrow> (ip \<times> int) option" where
  "interface_either (Some np) s = Some (IP4 (fst np), snd np)"
| "interface_either None s = map_option (\<lambda>(n, p). (IP6 n, p)) (ip6_interface s)"

lemma ip_interface_code [code]: "ip_interface s = interface_either (ip4_interface s) s"
  by (cases "ip4_interface s") (auto simp: ip_interface_def)

text \<open>The text of an address is read back.\<close>

lemma str_nat_hd: "0 < n \<Longrightarrow> hd (str_nat n) \<noteq> CHR ''0''"
proof (induction n rule: str_nat.induct)
  case (1 n)
  show ?case
  proof (cases "n < 10")
    case True
    then have "digit_val (hd (str_nat n)) = n" by (simp add: str_nat.simps digit_char_val)
    then show ?thesis using 1 by (auto simp: digit_val_def)
  next
    case False
    then have "hd (str_nat n) = hd (str_nat (n div 10))" using str_nat_digits [of "n div 10"] by (subst str_nat.simps) auto
    then show ?thesis using 1 False by auto
  qed
qed

lemma str_nat_length: "n < 1000 \<Longrightarrow> length (str_nat n) \<le> 3"
  by (simp add: str_nat.simps [of n] str_nat.simps [of "n div 10"] str_nat.simps [of "n div 10 div 10"])

lemma octet_text:
  assumes "0 \<le> k" and "k < 256"
  shows "octet (str_int k) = Some k" and "CHR ''.'' \<notin> set (str_int k)"
proof -
  have s: "str_int k = str_nat (nat k)" using assms(1) by (simp add: str_int_def)
  have "str_nat (nat k) = ''0'' \<or> hd (str_nat (nat k)) \<noteq> CHR ''0''"
    using str_nat_hd [of "nat k"] by (cases "nat k = 0") (auto simp: str_nat.simps digit_char_def)
  then show "octet (str_int k) = Some k"
    using assms str_nat_length [of "nat k"] str_nat_digits [of "nat k"] by (auto simp: octet_def s isdigit_def)
  have "\<not> is_digit CHR ''.''" by code_simp
  then show "CHR ''.'' \<notin> set (str_int k)"
    using str_nat_digits [of "nat k"] by (auto simp: s list_all_iff)
qed

lemma ip4_of_text:
  assumes "0 \<le> n" and "n < 2 ^ 32"
  shows "ip4_of (ip4_text n) = Some n"
proof -
  let ?a = "n div 16777216" and ?b = "n div 65536 mod 256" and ?c = "n div 256 mod 256" and ?d = "n mod 256"
  have a: "0 \<le> ?a" "?a < 256" using assms by auto
  have s: "split_on (CHR ''.'') (ip4_text n) = map str_int [?a, ?b, ?c, ?d]"
    unfolding ip4_text_def
    using octet_text(2) [OF a] octet_text(2) [of ?b] octet_text(2) [of ?c] octet_text(2) [of ?d]
    by (subst split_on_join) auto
  have "?a = n div 65536 div 256" "n div 65536 = n div 256 div 256" by (simp_all add: zdiv_zmult2_eq [symmetric])
  then have "((?a * 256 + ?b) * 256 + ?c) * 256 + ?d = n" by (metis div_mult_mod_eq)
  then show ?thesis using octet_text(1) [OF a] by (simp add: ip4_of_def s octet_text(1))
qed

lemma ip_samples:
  "ip4_of ''10.0.0.1'' = Some 167772161" "ip4_of ''10.0.0.01'' = None" "ip4_of ''10.0.0.256'' = None" "ip4_of ''10.0.0'' = None"
  "ip6_of ''fe80::1'' = Some 338288524927261089654018896841347694593" "ip6_of ''::'' = Some 0" "ip6_of ''::1'' = Some 1"
  "ip6_of ''1::'' = Some 5192296858534827628530496329220096" "ip6_of ''1::2::3'' = None" "ip6_of '':1'' = None" "ip6_of ''1:2:3:4:5:6:7:'' = None"
  "ip6_of ''::ffff:1.2.3.4'' = Some 281470698652420" "ip6_of '':::'' = None" "ip6_of ''1:2:3:4:5:6:7::8'' = None"
  "ip_interface ''10.0.0.1/24'' = Some (IP4 167772161, 24)" "ip_interface ''10.0.0.1/255.255.255.0'' = Some (IP4 167772161, 24)"
  "ip_interface ''10.0.0.1/33'' = None" "ip_interface ''10.0.0.1/255.255.255.255'' = Some (IP4 167772161, 32)" "ip_interface ''fc00::1/64'' = Some (IP6 334965454937798799971759379190646833153, 64)"
  by code_simp+

section \<open>Texts of networks\<close>

text \<open>A number in hexadecimal without leading zeros, for numbers of at most four digits.\<close>

definition hex_text :: "int \<Rightarrow> string" where
  "hex_text n =
     (let d = (\<lambda>i. let k = nat (n div 16 ^ i mod 16) in if k < 10 then digit_char k else char_of (87 + k)) in
      if n < 16 then [d 0] else if n < 256 then [d 1, d 0] else if n < 4096 then [d 2, d 1, d 0] else [d 3, d 2, d 1, d 0])"

definition ip6_hextets :: "int \<Rightarrow> int list" where
  "ip6_hextets n = map (\<lambda>i. n div 65536 ^ (7 - i) mod 65536) [0..<8]"

text \<open>The longest run of zeros, if it is longer than one, is written \<open>::\<close>; the first one of several.\<close>

definition zero_run :: "int list \<Rightarrow> nat \<Rightarrow> nat" where
  "zero_run hs i = length (takeWhile (\<lambda>h. h = 0) (drop i hs))"

definition ip6_text :: "int \<Rightarrow> string" where
  "ip6_text n =
     (let hs = ip6_hextets n;
          m = foldr max (map (zero_run hs) [0..<8]) 0;
          text = (\<lambda>xs. join_with '':'' (map hex_text xs))
      in if m \<le> 1 then text hs
         else case find (\<lambda>i. zero_run hs i = m) [0..<8] of
                None \<Rightarrow> text hs
              | Some i \<Rightarrow> text (take i hs) @ ''::'' @ text (drop (i + m) hs))"

text \<open>\<open>str(ip_network(s))\<close>: bits behind the prefix are refused; a zone stays in the text.\<close>

definition ip_network :: "string \<Rightarrow> string option" where
  "ip_network s =
     (case ip4_interface s of
        Some (n, p) \<Rightarrow> if n mod 2 ^ nat (32 - p) = 0 then Some (ip4_text n @ ''/'' @ str_int p) else None
      | None \<Rightarrow>
          (case ip6_interface s of
             Some (n, p) \<Rightarrow>
               if n mod 2 ^ nat (128 - p) = 0
               then Some (ip6_text n @ dropWhile (\<lambda>c. c \<noteq> CHR ''%'') (hd (split_on (CHR ''/'') s)) @ ''/'' @ str_int p)
               else None
           | None \<Rightarrow> None))"

fun ip6_network :: "(int \<times> int) option \<Rightarrow> string \<Rightarrow> string option" where
  "ip6_network None s = None"
| "ip6_network (Some np) s =
     (if fst np mod 2 ^ nat (128 - snd np) = 0
      then Some (ip6_text (fst np) @ dropWhile (\<lambda>c. c \<noteq> CHR ''%'') (hd (split_on (CHR ''/'') s)) @ ''/'' @ str_int (snd np))
      else None)"

fun network_either :: "(int \<times> int) option \<Rightarrow> string \<Rightarrow> string option" where
  "network_either (Some np) s =
     (if fst np mod 2 ^ nat (32 - snd np) = 0 then Some (ip4_text (fst np) @ ''/'' @ str_int (snd np)) else None)"
| "network_either None s = ip6_network (ip6_interface s) s"

lemma ip_network_code [code]: "ip_network s = network_either (ip4_interface s) s"
  by (cases "ip4_interface s"; cases "ip6_interface s") (auto simp: ip_network_def)

definition is_link_local :: "ip \<Rightarrow> bool" where
  "is_link_local a = (case a of IP4 n \<Rightarrow> n div 65536 = 43518 | IP6 n \<Rightarrow> n div 2 ^ 118 = 1018)"

definition is_unspecified :: "ip \<Rightarrow> bool" where
  "is_unspecified a = (case a of IP4 n \<Rightarrow> n = 0 | IP6 n \<Rightarrow> n = 0)"

lemma network_samples:
  "ip_network ''10.0.0.0/8'' = Some ''10.0.0.0/8''" "ip_network ''10.0.0.1/8'' = None" "ip_network ''10.0.0.1'' = Some ''10.0.0.1/32''"
  "ip_network ''2001:DB8:0:0::/64'' = Some ''2001:db8::/64''" "ip_network ''::/0'' = Some ''::/0''" "ip_network ''::1'' = Some ''::1/128''"
  "ip_network ''2001:0:0:1:0:0:0:1/128'' = Some ''2001:0:0:1::1/128''" "ip_network ''1:0:2:0:3:0:4:5'' = Some ''1:0:2:0:3:0:4:5/128''"
  "ip_network ''fe80::%eth0/10'' = Some ''fe80::%eth0/10''"
  "is_link_local (the (ip_address ''169.254.3.4''))" "\<not> is_link_local (the (ip_address ''169.253.3.4''))"
  "is_link_local (the (ip_address ''febf::1''))" "\<not> is_link_local (the (ip_address ''fec0::1''))"
  by code_simp+

end
