(* ===== verification/Services.thy ===== *)
theory Services
  imports ChangeApply NetAddr
begin

text \<open>
  services_validator.py: the functions that restart or refresh a service after a change.  A system
  command is run by the parameter \<open>sh\<close>, which is given the argument list and the state of the system
  and answers with an exception, or with the exit code and the text on standard error.  Two Python
  sets the code loops over are lists here, in the order of the dictionaries; waiting is left out.
\<close>

type_synonym 'w shell = "string list \<Rightarrow> 'w \<Rightarrow> (int \<times> string) res \<times> 'w"
type_synonym 'w validator = "'w \<Rightarrow> bool res \<times> 'w"

section \<open>Commands\<close>

definition nsenter :: "string list" where
  "nsenter = [''nsenter'', ''--target'', ''1'', ''--pid'', ''--mount'', ''--uts'', ''--ipc'', ''--net'']"

text \<open>The exit code, or 1 when running the command raises.  No caller passes an empty command.\<close>

definition command_wrapper :: "'w shell \<Rightarrow> string list \<Rightarrow> 'w \<Rightarrow> int \<times> 'w" where
  "command_wrapper sh command w =
     (let command = (if hd command = ''systemctl'' then nsenter @ command else command) in
      case sh command w of (Inl _, w') \<Rightarrow> (1, w') | (Inr (rc, _), w') \<Rightarrow> (rc, w'))"

definition service_restart :: "'w shell \<Rightarrow> string \<Rightarrow> 'w \<Rightarrow> bool \<times> 'w" where
  "service_restart sh svc w =
     (let restart = command_wrapper sh [''systemctl'', ''restart'', svc];
          (rc, w) = restart w
      in if rc \<noteq> 0
         then let (_, w) = command_wrapper sh [''systemctl'', ''reset-failed'', svc] w;
                  (rc, w) = restart w
              in if rc \<noteq> 0 then (let (rc, w) = restart w in (rc = 0, w)) else (True, w)
         else (True, w))"

section \<open>Reading configurations\<close>

text \<open>\<open>config.get(table, {})\<close> of the old and the new configuration.\<close>

definition both_tables :: "string \<Rightarrow> json \<Rightarrow> json \<Rightarrow> (json \<times> json) res" where
  "both_tables table old upd =
     rbind (py_get_default old table (JObj [])) (\<lambda>a. rbind (py_get_default upd table (JObj [])) (\<lambda>b. Inr (a, b)))"

definition member_field :: "json \<Rightarrow> string \<Rightarrow> string \<Rightarrow> json \<Rightarrow> json res" where
  "member_field tbl key field dflt =
     rbind (py_get_default tbl key (JObj [])) (\<lambda>e. py_get_default e field dflt)"

definition both_keys :: "json \<Rightarrow> json \<Rightarrow> string list res" where
  "both_keys a b = rbind (py_keys a) (\<lambda>ka. rbind (py_keys b) (\<lambda>kb. Inr (dedup (ka @ kb))))"

text \<open>A validator that answers by restarting a service, unless what it looks at stayed the same.\<close>

definition restart_if :: "'w shell \<Rightarrow> bool res \<Rightarrow> string \<Rightarrow> 'w validator" where
  "restart_if sh changed svc w =
     (case changed of
        Inl e \<Rightarrow> (Inl e, w)
      | Inr False \<Rightarrow> (Inr True, w)
      | Inr True \<Rightarrow> (let (ok, w') = service_restart sh svc w in (Inr ok, w')))"

text \<open>Whether a key satisfies the condition; the loop stops at the first that does.\<close>

fun any_res :: "('a \<Rightarrow> bool res) \<Rightarrow> 'a list \<Rightarrow> bool res" where
  "any_res p [] = Inr False"
| "any_res p (x # xs) = rbind (p x) (\<lambda>b. if b then Inr True else any_res p xs)"

section \<open>The validators\<close>

definition rsyslog_validator :: "'w shell \<Rightarrow> json \<Rightarrow> json \<Rightarrow> 'w validator" where
  "rsyslog_validator sh old upd w =
     (case both_tables ''SYSLOG_SERVER'' old upd of
        Inl e \<Rightarrow> (Inl e, w)
      | Inr (a, b) \<Rightarrow>
          if json_eq a b then (Inr True, w)
          else let (_, w1) = command_wrapper sh [''systemctl'', ''reset-failed'', ''rsyslog-config'', ''rsyslog''] w;
                   (rc, w2) = command_wrapper sh [''systemctl'', ''restart'', ''rsyslog-config''] w1
               in (Inr (rc = 0), w2))"

definition port_speed_change_validator :: "'w shell \<Rightarrow> json \<Rightarrow> json \<Rightarrow> 'w validator" where
  "port_speed_change_validator sh old upd =
     restart_if sh
       (rbind (both_tables ''PORT'' old upd) (\<lambda>(a, b). rbind (both_keys a b) (any_res (\<lambda>key.
          rbind (member_field a key ''speed'' (JStr [])) (\<lambda>old_speed.
          rbind (member_field b key ''speed'' (JStr [])) (\<lambda>upd_speed.
          Inr (\<not> json_eq old_speed (JStr []) \<and> \<not> json_eq upd_speed (JStr []) \<and> \<not> json_eq old_speed upd_speed)))))))
       ''telemetry''"

definition dhcp_validator :: "'w shell \<Rightarrow> json \<Rightarrow> json \<Rightarrow> 'w validator" where
  "dhcp_validator sh old upd = restart_if sh (Inr True) ''dhcp_relay''"

definition vlan_validator :: "'w shell \<Rightarrow> json \<Rightarrow> json \<Rightarrow> 'w validator" where
  "vlan_validator sh old upd =
     restart_if sh
       (rbind (both_tables ''VLAN'' old upd) (\<lambda>(a, b). rbind (both_keys a b) (any_res (\<lambda>key.
          rbind (member_field a key ''dhcp_servers'' (JList [])) (\<lambda>x.
          rbind (member_field b key ''dhcp_servers'' (JList [])) (\<lambda>y. Inr (\<not> json_eq x y)))))))
       ''dhcp_relay''"

definition ctrlplane_tables :: "json \<Rightarrow> string list res" where
  "ctrlplane_tables acltable =
     (case acltable of
        JObj d \<Rightarrow> fold_res (\<lambda>(table, fields) acc. rbind (py_get_default fields ''type'' (JStr []))
            (\<lambda>t. Inr (if json_eq t (JStr ''CTRLPLANE'') then acc @ [table] else acc))) d []
      | _ \<Rightarrow> Inl AttributeError)"

text \<open>It never restarts anything and answers \<open>True\<close>, after a second of waiting when a rule changed.\<close>

definition caclmgrd_validator :: "'w shell \<Rightarrow> json \<Rightarrow> json \<Rightarrow> 'w validator" where
  "caclmgrd_validator sh old upd w =
     (rbind (both_tables ''ACL_TABLE'' old upd) (\<lambda>(a, b).
      rbind (ctrlplane_tables a) (\<lambda>old_tables.
      rbind (ctrlplane_tables b) (\<lambda>upd_tables.
      rbind (both_tables ''ACL_RULE'' old upd) (\<lambda>(r, s).
      rbind (rules_of r old_tables) (\<lambda>old_rules.
      rbind (rules_of s upd_tables) (\<lambda>upd_rules.
      rbind (any_res (\<lambda>key. rbind (py_get_default r key (JObj [])) (\<lambda>x.
               rbind (py_get_default s key (JObj [])) (\<lambda>y. Inr (\<not> json_eq x y)))) (dedup (old_rules @ upd_rules)))
        (\<lambda>_. Inr True))))))), w)"

definition ntp_validator :: "'w shell \<Rightarrow> json \<Rightarrow> json \<Rightarrow> 'w validator" where
  "ntp_validator sh old upd = restart_if sh (Inr True) ''chrony''"

text \<open>The field \<open>vrf\<close> of the entry \<open>gnmi\<close>.\<close>

definition vrf_changed :: "string \<Rightarrow> json \<Rightarrow> json \<Rightarrow> bool res" where
  "vrf_changed table old upd =
     rbind (both_tables table old upd) (\<lambda>(a, b).
     rbind (member_field a ''gnmi'' ''vrf'' (JStr [])) (\<lambda>x.
     rbind (member_field b ''gnmi'' ''vrf'' (JStr [])) (\<lambda>y. Inr (\<not> json_eq x y))))"

definition gnmi_validator :: "'w shell \<Rightarrow> json \<Rightarrow> json \<Rightarrow> 'w validator" where
  "gnmi_validator sh old upd = restart_if sh (vrf_changed ''GNMI'' old upd) ''gnmi''"

definition telemetry_validator :: "'w shell \<Rightarrow> json \<Rightarrow> json \<Rightarrow> 'w validator" where
  "telemetry_validator sh old upd = restart_if sh (vrf_changed ''TELEMETRY'' old upd) ''telemetry''"

section \<open>Flushing neighbours\<close>

text \<open>\<open>re.fullmatch("[A-Za-z0-9_.-]{1,15}", name)\<close>.\<close>

definition ifname_char :: "char \<Rightarrow> bool" where
  "ifname_char c =
     (let n = of_char c :: nat in
      (65 \<le> n \<and> n \<le> 90) \<or> (97 \<le> n \<and> n \<le> 122) \<or> is_digit c \<or> c \<in> {CHR ''_'', CHR ''.'', CHR ''-''})"

definition ifname_ok :: "string \<Rightarrow> bool" where
  "ifname_ok s \<longleftrightarrow> s \<noteq> [] \<and> length s \<le> 15 \<and> list_all ifname_char s"

text \<open>
  \<open>shlex.split\<close>: the words of a command line, with quotes and backslashes.  The first argument is
  the quote that is open, if any, the second the word read so far, \<open>None\<close> between words.
\<close>

definition shell_space :: "char \<Rightarrow> bool" where
  "shell_space c = (c \<in> {CHR '' '', CHR 0x09, CHR 0x0D, CHR 0x0A})"

definition word_so_far :: "string option \<Rightarrow> string" where
  "word_so_far w = (case w of None \<Rightarrow> [] | Some s \<Rightarrow> s)"

fun shlex :: "char option \<Rightarrow> string option \<Rightarrow> string \<Rightarrow> string list res" where
  "shlex None w [] = Inr (case w of None \<Rightarrow> [] | Some s \<Rightarrow> [s])"
| "shlex (Some q) w [] = Inl (ValueError ''No closing quotation'')"
| "shlex None w (c # s) =
     (if shell_space c then (case w of None \<Rightarrow> shlex None None s | Some t \<Rightarrow> rbind (shlex None None s) (\<lambda>ws. Inr (t # ws)))
      else if c = CHR 0x5C then
        (case s of [] \<Rightarrow> Inl (ValueError ''No escaped character'') | d # s' \<Rightarrow> shlex None (Some (word_so_far w @ [d])) s')
      else if c = CHR 0x22 \<or> c = CHR 0x27 then shlex (Some c) (Some (word_so_far w)) s
      else shlex None (Some (word_so_far w @ [c])) s)"
| "shlex (Some q) w (c # s) =
     (if c = q then shlex None (Some (word_so_far w)) s
      else if c = CHR 0x5C \<and> q = CHR 0x22 then
        (case s of
           [] \<Rightarrow> Inl (ValueError ''No escaped character'')
         | d # s' \<Rightarrow> shlex (Some q) (Some (word_so_far w @ (if d = CHR 0x5C \<or> d = q then [d] else [CHR 0x5C, d]))) s')
      else shlex (Some q) (Some (word_so_far w @ [c])) s)"

definition shlex_split :: "string \<Rightarrow> string list res" where
  "shlex_split s = shlex None None s"

definition interface_keys :: "json \<Rightarrow> (string \<times> string) list res" where
  "interface_keys vlan_intf =
     rbind (py_iter vlan_intf) (\<lambda>ks. fold_res (\<lambda>k acc. case k of
         JStr s \<Rightarrow> Inr (acc @ (case split_on (CHR ''|'') s of [i, a] \<Rightarrow> [(i, a)] | _ \<Rightarrow> []))
       | _ \<Rightarrow> Inl AttributeError) ks [])"

definition no_such_neighbour :: string where
  "no_such_neighbour = ''RTNETLINK answers: No such file or directory''"

definition flush_line :: "string \<Rightarrow> string \<Rightarrow> string" where
  "flush_line iface ip = ''ip neigh flush dev '' @ iface @ '' '' @ ip"

fun flush_all :: "'w shell \<Rightarrow> (string \<times> string) list \<Rightarrow> 'w validator" where
  "flush_all sh [] w = (Inr True, w)"
| "flush_all sh ((iface, ip) # keys) w =
     (if \<not> ifname_ok iface \<or> ip_interface ip = None then flush_all sh keys w
      else case shlex_split (flush_line iface ip) of
        Inl e \<Rightarrow> (Inl e, w)
      | Inr command \<Rightarrow>
          (case sh command w of
             (Inl e, w') \<Rightarrow> (Inl e, w')
           | (Inr (rc, stderr), w') \<Rightarrow>
               if rc \<noteq> 0 \<and> \<not> is_infix no_such_neighbour stderr then (Inr False, w') else flush_all sh keys w'))"

definition deleted_keys :: "(string \<times> string) list \<Rightarrow> (string \<times> string) list \<Rightarrow> (string \<times> string) list" where
  "deleted_keys old upd = filter (\<lambda>k. k \<notin> set upd) (dedup old)"

definition vlanintf_validator :: "'w shell \<Rightarrow> json \<Rightarrow> json \<Rightarrow> 'w validator" where
  "vlanintf_validator sh old upd w =
     (case rbind (both_tables ''VLAN_INTERFACE'' old upd) (\<lambda>(a, b).
           rbind (interface_keys a) (\<lambda>ka. rbind (interface_keys b) (\<lambda>kb. Inr (deleted_keys ka kb)))) of
        Inl e \<Rightarrow> (Inl e, w)
      | Inr keys \<Rightarrow> flush_all sh keys w)"

end
