(* ===== verification/ServiceProps.thy ===== *)
theory ServiceProps
  imports Services
begin

text \<open>
  The properties of the service validators: how often a restart is tried and what its answer means,
  and which neighbours are flushed when addresses are removed from VLAN interfaces.
\<close>

section \<open>Restarting\<close>

text \<open>Commands run one after the other, with their exit codes.\<close>

fun run_all :: "'w shell \<Rightarrow> string list list \<Rightarrow> 'w \<Rightarrow> int list \<times> 'w" where
  "run_all sh [] w = ([], w)"
| "run_all sh (c # cs) w = (let (rc, w') = command_wrapper sh c w; (rcs, w'') = run_all sh cs w' in (rc # rcs, w''))"

definition restart_plans :: "string \<Rightarrow> string list list list" where
  "restart_plans svc =
     (let restart = [''systemctl'', ''restart'', svc]; reset = [''systemctl'', ''reset-failed'', svc] in
      [[restart], [restart, reset, restart], [restart, reset, restart, restart]])"

text \<open>
  C17. Restarting a service runs one of three plans, a restart, with a reset and a second restart after
  a failure, and a third restart after another one.  It reports success exactly when the last command
  of the plan succeeded, and only the last one may have, the reset apart.
\<close>

theorem restart_follows_plan:
  "\<exists>plan rcs. plan \<in> set (restart_plans svc) \<and>
     run_all sh plan w = (rcs, snd (service_restart sh svc w)) \<and>
     (fst (service_restart sh svc w) \<longleftrightarrow> last rcs = 0) \<and>
     (\<forall>i < length rcs - 1. rcs ! i = 0 \<longrightarrow> i = 1) \<and> (length plan < 4 \<longrightarrow> last rcs = 0)"
proof -
  let ?r = "command_wrapper sh [''systemctl'', ''restart'', svc]"
  obtain rc1 w1 where r1: "?r w = (rc1, w1)" by force
  obtain rc2 w2 where r2: "command_wrapper sh [''systemctl'', ''reset-failed'', svc] w1 = (rc2, w2)" by force
  obtain rc3 w3 where r3: "?r w2 = (rc3, w3)" by force
  obtain rc4 w4 where r4: "?r w3 = (rc4, w4)" by force
  consider "rc1 = 0" | "rc1 \<noteq> 0" "rc3 = 0" | "rc1 \<noteq> 0" "rc3 \<noteq> 0" by blast
  then show ?thesis
  proof cases
    case 1
    then show ?thesis using r1
      by (intro exI [of _ "restart_plans svc ! 0"] exI [of _ "[rc1]"])
         (simp add: service_restart_def restart_plans_def Let_def)
  next
    case 2
    then show ?thesis using r1 r2 r3
      by (intro exI [of _ "restart_plans svc ! 1"] exI [of _ "[rc1, rc2, rc3]"])
         (auto simp: service_restart_def restart_plans_def Let_def nth_Cons less_Suc_eq split: nat.splits)
  next
    case 3
    then show ?thesis using r1 r2 r3 r4
      by (intro exI [of _ "restart_plans svc ! 2"] exI [of _ "[rc1, rc2, rc3, rc4]"])
         (auto simp: service_restart_def restart_plans_def Let_def nth_Cons less_Suc_eq split: nat.splits)
  qed
qed

theorem restart_follows_plan_witness:
  "\<exists>plan \<in> set (restart_plans ''gnmi''). fst (run_all (\<lambda>c n. (Inr (if n < (2 :: nat) then 1 else 0, []), Suc n)) plan 0) = [1, 1, 0]"
proof -
  let ?sh = "\<lambda>c n. (Inr (if n < (2 :: nat) then 1 else 0, []), Suc n)"
  from restart_follows_plan [of "''gnmi''" ?sh 0] show ?thesis
    by (force simp: restart_plans_def Let_def command_wrapper_def)
qed

section \<open>Flushing\<close>

definition plain_word :: "string \<Rightarrow> bool" where
  "plain_word s \<longleftrightarrow> s \<noteq> [] \<and> list_all (\<lambda>c. \<not> shell_space c \<and> c \<notin> {CHR 0x5C, CHR 0x22, CHR 0x27}) s"

lemma shlex_word:
  "list_all (\<lambda>c. \<not> shell_space c \<and> c \<notin> {CHR 0x5C, CHR 0x22, CHR 0x27}) s \<Longrightarrow>
     shlex None (Some t) (s @ r) = shlex None (Some (t @ s)) r"
  by (induction s arbitrary: t) (auto simp: word_so_far_def)

lemma shlex_plain:
  assumes "plain_word s"
  shows "shlex None None (s @ r) = shlex None (Some s) r"
  using assms shlex_word [of "tl s" "[hd s]" r] by (cases s) (auto simp: plain_word_def word_so_far_def)

lemma shlex_blank: "plain_word w \<Longrightarrow> shlex None None (w @ CHR '' '' # r) = rbind (shlex None None r) (\<lambda>ws. Inr (w # ws))"
  by (simp add: shlex_plain shell_space_def)

lemma ifname_plain:
  assumes "ifname_ok s"
  shows "plain_word s"
proof -
  have "ifname_char c \<Longrightarrow> \<not> shell_space c \<and> c \<notin> {CHR 0x5C, CHR 0x22, CHR 0x27}" for c
    by (auto simp: ifname_char_def shell_space_def is_digit_def Let_def)
  then show ?thesis using assms by (auto simp: ifname_ok_def plain_word_def list_all_iff)
qed

lemma flush_words:
  assumes "plain_word iface" and "plain_word ip"
  shows "shlex_split (flush_line iface ip) = Inr [''ip'', ''neigh'', ''flush'', ''dev'', iface, ip]"
proof -
  have l: "flush_line iface ip = ''ip'' @ CHR '' '' # ''neigh'' @ CHR '' '' # ''flush'' @ CHR '' '' # ''dev'' @ CHR '' '' # iface @ CHR '' '' # ip @ []"
    by (simp add: flush_line_def)
  have p: "plain_word ''ip''" "plain_word ''neigh''" "plain_word ''flush''" "plain_word ''dev''" by code_simp+
  show ?thesis
    unfolding shlex_split_def l shlex_blank [OF p(1)] shlex_blank [OF p(2)] shlex_blank [OF p(3)] shlex_blank [OF p(4)]
      shlex_blank [OF assms(1)] shlex_plain [OF assms(2)]
    by simp
qed

text \<open>An address without a zone is a plain word: digits, hexadecimal letters, dots, colons and a slash.\<close>

definition plain_char :: "char \<Rightarrow> bool" where
  "plain_char c \<longleftrightarrow> \<not> shell_space c \<and> c \<notin> {CHR 0x5C, CHR 0x22, CHR 0x27}"

abbreviation plain_chars :: "string \<Rightarrow> bool" where
  "plain_chars s \<equiv> \<forall>c \<in> set s. plain_char c"

lemma split_chars:
  "x \<in> set s \<longleftrightarrow> (\<exists>p \<in> set (split_on c s). x \<in> set p) \<or> x = c \<and> c \<in> set s"
proof (induction s)
  case (Cons y s)
  obtain p ps where "split_on c s = p # ps" by (cases "split_on c s") auto
  with Cons show ?case by auto
qed simp

lemma plain_split:
  assumes "\<forall>p \<in> set (split_on c s). plain_chars p" and "plain_char c"
  shows "plain_chars s"
proof
  fix x assume "x \<in> set s"
  then show "plain_char x" using split_chars [of x s c] assms by blast
qed

lemma digits_plain: "isdigit s \<Longrightarrow> plain_chars s"
  by (auto simp: isdigit_def list_all_iff is_digit_def plain_char_def shell_space_def Let_def)

lemma plain_octet: "octet s = Some n \<Longrightarrow> plain_chars s"
  by (auto simp: octet_def digits_plain split: if_splits)

lemma plain_ip4: "ip4_of s = Some n \<Longrightarrow> plain_chars s"
proof (rule plain_split)
  assume "ip4_of s = Some n"
  then show "\<forall>p \<in> set (split_on (CHR ''.'') s). plain_chars p"
    by (auto simp: ip4_of_def split: list.splits option.splits dest!: plain_octet)
qed (simp add: plain_char_def shell_space_def)

lemma plain_hextet: "hextet s \<noteq> None \<Longrightarrow> plain_chars s"
proof -
  have "plain_char c" if "hex_val c \<noteq> None" for c
  proof -
    have "48 \<le> (of_char c :: nat) \<and> (of_char c :: nat) \<le> 57 \<or> 97 \<le> (of_char c :: nat) \<and> (of_char c :: nat) \<le> 102 \<or>
        65 \<le> (of_char c :: nat) \<and> (of_char c :: nat) \<le> 70"
      using that by (auto simp: hex_val_def Let_def split: if_splits)
    then show ?thesis by (auto simp: plain_char_def shell_space_def)
  qed
  then show "hextet s \<noteq> None \<Longrightarrow> plain_chars s" by (auto simp: hextet_def list_all_iff split: if_splits)
qed

lemma plain_hextets: "hextets ps = Some hs \<Longrightarrow> p \<in> set ps \<Longrightarrow> plain_chars p"
proof (rule plain_hextet)
  assume "hextets ps = Some hs" "p \<in> set ps"
  then have "None \<notin> hextet ` set ps" by (auto simp: hextets_def split: if_splits)
  with \<open>p \<in> set ps\<close> show "hextet p \<noteq> None" by (metis imageI)
qed

lemma plain_low_parts:
  assumes "low_parts ps = Some hs" and "p \<in> set ps"
  shows "plain_chars p"
proof (cases "ps \<noteq> [] \<and> CHR ''.'' \<in> set (last ps)")
  case True
  then obtain hs' n where h: "hextets (butlast ps) = Some hs'" "ip4_of (last ps) = Some n"
    using assms(1) by (auto simp: low_parts_def split: option.splits)
  have "ps = butlast ps @ [last ps]" using True by simp
  then have "p \<in> set (butlast ps) \<or> p = last ps" using assms(2) by (metis UnE empty_iff empty_set set_ConsD set_append)
  then show ?thesis using plain_hextets [OF h(1)] plain_ip4 [OF h(2)] by blast
next
  case False
  then have "hextets ps = Some hs" using assms(1) unfolding low_parts_def by (metis (full_types))
  then show ?thesis using plain_hextets assms(2) by blast
qed

lemma empty_inside_nth: "i \<in> set (empty_inside ps k) \<Longrightarrow> k \<le> i \<and> i - k < length ps \<and> ps ! (i - k) = []"
proof (induction ps arbitrary: k)
  case (Cons p ps)
  show ?case
  proof (cases "i = k \<and> p = []")
    case False
    then have "i \<in> set (empty_inside ps (Suc k))" using Cons.prems by (auto split: if_splits)
    from Cons.IH [OF this] have ih: "Suc k \<le> i" "i - Suc k < length ps" "ps ! (i - Suc k) = []" by auto
    then have "i - k = Suc (i - Suc k)" by simp
    with ih show ?thesis by simp
  next
    case True
    then show ?thesis by simp
  qed
qed simp

lemma plain_ip6_parts:
  assumes "ip6_parts ps = Some n" and "p \<in> set ps"
  shows "plain_chars p"
proof (cases "empty_inside ps 0")
  case Nil
  then obtain hs where "low_parts ps = Some hs" using assms(1) by (auto simp: ip6_parts_def split: option.splits)
  then show ?thesis using plain_low_parts assms(2) by blast
next
  case (Cons i rest)
  then have "rest = []" using assms(1) by (cases rest) (auto simp: ip6_parts_def)
  then obtain hi lo h l where parts: "high_half (take i ps) = Some hi" "low_half (drop (Suc i) ps) = Some lo"
    "hextets hi = Some h" "low_parts lo = Some l"
    using assms(1) Cons by (auto simp: ip6_parts_def split: option.splits)
  have i: "i < length ps" "ps ! i = []" using empty_inside_nth [of i ps 0] Cons by auto
  have "ps = take i ps @ ps ! i # drop (Suc i) ps" using i(1) by (rule id_take_nth_drop)
  then have "p \<in> set (take i ps) \<or> p = [] \<or> p \<in> set (drop (Suc i) ps)" using assms(2) i(2)
    by (metis Un_iff set_ConsD set_append)
  moreover have "hi = [] \<and> take i ps = [[]] \<or> hi = take i ps"
    using parts(1) by (auto simp: high_half_def split: list.splits)
  then have "p \<in> set (take i ps) \<Longrightarrow> p = [] \<or> p \<in> set hi" by auto
  moreover have "p \<in> set (drop (Suc i) ps) \<Longrightarrow> p = [] \<or> p \<in> set lo"
    using parts(2) by (auto simp: low_half_def split: if_splits)
  ultimately show ?thesis using plain_hextets [OF parts(3)] plain_low_parts [OF parts(4)] by auto
qed

lemma plain_ip6:
  assumes "ip6_of s = Some n" and "CHR ''%'' \<notin> set s"
  shows "plain_chars s"
proof -
  have s: "hd (split_on (CHR ''%'') s) = s" using assms(2) by (simp add: split_on_none)
  then have "ip6_parts (split_on (CHR '':'') s) = Some n"
    using assms(1) by (auto simp: ip6_of_def Let_def split: if_splits)
  then show ?thesis using plain_ip6_parts by (intro plain_split [of "CHR '':''"]) (auto simp: plain_char_def shell_space_def)
qed

lemma address_plain:
  assumes "ip_interface s \<noteq> None" and "CHR ''%'' \<notin> set s"
  shows "plain_word s"
proof -
  have sub: "set p \<subseteq> set s" if "p \<in> set (split_on (CHR ''/'') s)" for p
    using that split_chars by blast
  have "\<forall>p \<in> set (split_on (CHR ''/'') s). plain_chars p"
  proof (cases "ip4_interface s")
    case (Some np)
    then show ?thesis
      by (auto simp: ip4_interface_def prefix_of_def dotted_prefix_def split: list.splits option.splits if_splits
          dest!: plain_ip4 digits_plain)
  next
    case None
    then have "ip6_interface s \<noteq> None" using assms(1) by (auto simp: ip_interface_def)
    then show ?thesis using sub assms(2)
      by (auto simp: ip6_interface_def prefix_of_def split: list.splits option.splits if_splits
          dest!: plain_ip6 digits_plain)
  qed
  then have "plain_chars s" by (rule plain_split) (simp add: plain_char_def shell_space_def)
  moreover have "s \<noteq> []" using assms(1) by (auto simp: ip_interface_def ip4_interface_def ip6_interface_def ip4_of_def ip6_of_def octet_def isdigit_def Let_def)
  ultimately show ?thesis by (simp add: plain_word_def list_all_iff plain_char_def)
qed

text \<open>
  The commands the validator means to run, on a system that answers each with an exit code and an error text
  and keeps a log; a flush fails when it neither succeeds nor finds no neighbour.
\<close>

definition flush_commands :: "(string \<times> string) list \<Rightarrow> string list list" where
  "flush_commands keys =
     map (\<lambda>(i, a). [''ip'', ''neigh'', ''flush'', ''dev'', i, a])
       (filter (\<lambda>(i, a). ifname_ok i \<and> ip_interface a \<noteq> None) keys)"

definition log_shell :: "(string list \<Rightarrow> int \<times> string) \<Rightarrow> string list list shell" where
  "log_shell answer c l = (Inr (answer c), l @ [c])"

definition flush_fails :: "(string list \<Rightarrow> int \<times> string) \<Rightarrow> string list \<Rightarrow> bool" where
  "flush_fails answer c = (fst (answer c) \<noteq> 0 \<and> \<not> is_infix no_such_neighbour (snd (answer c)))"

fun up_to_first :: "('a \<Rightarrow> bool) \<Rightarrow> 'a list \<Rightarrow> 'a list" where
  "up_to_first P [] = []"
| "up_to_first P (x # xs) = x # (if P x then [] else up_to_first P xs)"

lemma flush_all_commands:
  assumes "\<forall>(i, a) \<in> set keys. CHR ''%'' \<notin> set a"
  shows "flush_all (log_shell answer) keys l =
     (Inr (\<not> list_ex (flush_fails answer) (flush_commands keys)),
      l @ up_to_first (flush_fails answer) (flush_commands keys))"
  using assms
proof (induction keys arbitrary: l)
  case (Cons k keys)
  obtain i a where k: "k = (i, a)" by force
  let ?c = "[''ip'', ''neigh'', ''flush'', ''dev'', i, a]"
  show ?case
  proof (cases "ifname_ok i \<and> ip_interface a \<noteq> None")
    case True
    then have words: "shlex_split (flush_line i a) = Inr ?c"
      using Cons.prems k flush_words ifname_plain address_plain by auto
    have f: "flush_commands (k # keys) = ?c # flush_commands keys" using True k by (simp add: flush_commands_def)
    obtain rc err where a: "answer ?c = (rc, err)" by force
    show ?thesis
    proof (cases "flush_fails answer ?c")
      case fails: True
      with True words k a show ?thesis unfolding f by (auto simp: flush_fails_def log_shell_def)
    next
      case False
      with True words k a Cons show ?thesis unfolding f by (auto simp: flush_fails_def log_shell_def)
    qed
  next
    case False
    with Cons k show ?thesis by (auto simp: flush_commands_def)
  qed
qed (simp add: flush_commands_def)

text \<open>
  C18. When addresses disappear from VLAN interfaces, the validator runs one flush for each of them, with
  the interface and the address as its last two arguments, and skips those that are no interface name or no
  address.  It stops at the first flush that neither succeeds nor finds no neighbour and then refuses; the
  addresses behind it are not flushed.  Assumed is that \<open>ip\<close> can be run and that no address has a zone, whose
  blanks would separate arguments (\<open>zone_adds_arguments\<close>).  The addresses are taken in the order of the
  configuration; in Python the order is that of a set.
\<close>

theorem removed_addresses_flushed:
  assumes "both_tables ''VLAN_INTERFACE'' old upd = Inr (a, b)" and "interface_keys a = Inr ka" and "interface_keys b = Inr kb"
    and "\<forall>(i, x) \<in> set ka. CHR ''%'' \<notin> set x"
  shows "vlanintf_validator (log_shell answer) old upd l =
    (Inr (\<not> list_ex (flush_fails answer) (flush_commands (deleted_keys ka kb))),
     l @ up_to_first (flush_fails answer) (flush_commands (deleted_keys ka kb)))"
proof -
  have "\<forall>(i, x) \<in> set (deleted_keys ka kb). CHR ''%'' \<notin> set x" using assms(4) by (auto simp: deleted_keys_def)
  from flush_all_commands [OF this] show ?thesis
    using assms(1-3) by (simp add: vlanintf_validator_def)
qed

definition vlan_intf_config :: "string list \<Rightarrow> json" where
  "vlan_intf_config ks = JObj [(''VLAN_INTERFACE'', JObj (map (\<lambda>k. (k, JObj [])) ks))]"

text \<open>The first flush finds no neighbour, the second fails, the third is not tried.\<close>

definition sample_answer :: "string list \<Rightarrow> int \<times> string" where
  "sample_answer c = (if last c = ''10.0.0.1/24'' then (2, no_such_neighbour) else (1, ''Cannot find device''))"

theorem removed_addresses_flushed_witness:
  "vlanintf_validator (log_shell sample_answer)
     (vlan_intf_config [''Vlan100'', ''Vlan100|10.0.0.1/24'', ''Vlan200|fc00::1/64'', ''Vlan300|10.0.2.1/24''])
     (vlan_intf_config [''Vlan100'']) [] =
   (Inr False, [[''ip'', ''neigh'', ''flush'', ''dev'', ''Vlan100'', ''10.0.0.1/24''],
                [''ip'', ''neigh'', ''flush'', ''dev'', ''Vlan200'', ''fc00::1/64'']])"
proof -
  let ?t = "\<lambda>ks. JObj (map (\<lambda>k. (k, JObj [])) ks)"
  let ?a = "[''Vlan100'', ''Vlan100|10.0.0.1/24'', ''Vlan200|fc00::1/64'', ''Vlan300|10.0.2.1/24'']" and ?b = "[''Vlan100'']"
  let ?ka = "[(''Vlan100'', ''10.0.0.1/24''), (''Vlan200'', ''fc00::1/64''), (''Vlan300'', ''10.0.2.1/24'')]"
  let ?c = "flush_commands (deleted_keys ?ka [])"
  have "both_tables ''VLAN_INTERFACE'' (vlan_intf_config ?a) (vlan_intf_config ?b) = Inr (?t ?a, ?t ?b)" by code_simp
  moreover have "interface_keys (?t ?a) = Inr ?ka" "interface_keys (?t ?b) = Inr []" by code_simp+
  moreover have "\<forall>(i, x) \<in> set ?ka. CHR ''%'' \<notin> set x" by code_simp
  moreover have "(\<not> list_ex (flush_fails sample_answer) ?c) = False \<and> up_to_first (flush_fails sample_answer) ?c =
      [[''ip'', ''neigh'', ''flush'', ''dev'', ''Vlan100'', ''10.0.0.1/24''],
       [''ip'', ''neigh'', ''flush'', ''dev'', ''Vlan200'', ''fc00::1/64'']]"
    by code_simp
  ultimately show ?thesis
    using removed_addresses_flushed [of "vlan_intf_config ?a" "vlan_intf_config ?b" "?t ?a" "?t ?b" ?ka "[]" sample_answer "[]"]
    by simp
qed

text \<open>The zone of an IPv6 address is not checked, and its blanks separate arguments of the command.\<close>

lemma zone_adds_arguments:
  "ip_interface ''fe80::1%x dev eth0'' \<noteq> None"
  "shlex_split (flush_line ''Vlan100'' ''fe80::1%x dev eth0'') =
     Inr [''ip'', ''neigh'', ''flush'', ''dev'', ''Vlan100'', ''fe80::1%x'', ''dev'', ''eth0'']"
  by code_simp+

end
