(* ===== verification/Stp.thy ===== *)
theory Stp
  imports ConfigDb
begin

text \<open>
  The commands of \<open>config spanning-tree\<close> (config/stp.py): PVST and MST are configured in the tables
  \<open>STP\<close>, \<open>STP_VLAN\<close>, \<open>STP_PORT\<close>, \<open>STP_VLAN_PORT\<close>, \<open>STP_MST\<close>, \<open>STP_MST_INST\<close> and \<open>STP_MST_PORT\<close> of
  ConfigDB.  One definition per function, under the name of the function; what a command prints is
  left out, and the values the command line parser has already converted are arguments.
\<close>

section \<open>Parameter checks\<close>

definition in_range :: "int \<Rightarrow> int \<Rightarrow> int \<Rightarrow> bool" where
  "in_range lo hi x \<longleftrightarrow> lo \<le> x \<and> x < hi + 1"

definition is_valid_root_guard_timeout :: "int \<Rightarrow> 'c cmd" where
  "is_valid_root_guard_timeout x = fail_if (\<not> in_range 5 600 x) ''STP root guard timeout must be in range 5-600''"

definition is_valid_forward_delay :: "int \<Rightarrow> 'c cmd" where
  "is_valid_forward_delay x = fail_if (\<not> in_range 4 30 x) ''STP forward delay value must be in range 4-30''"

definition is_valid_hello_interval :: "int \<Rightarrow> 'c cmd" where
  "is_valid_hello_interval x = fail_if (\<not> in_range 1 10 x) ''STP hello timer must be in range 1-10''"

definition is_valid_max_age :: "int \<Rightarrow> 'c cmd" where
  "is_valid_max_age x = fail_if (\<not> in_range 6 40 x) ''STP max age value must be in range 6-40''"

definition is_valid_bridge_priority :: "int \<Rightarrow> 'c cmd" where
  "is_valid_bridge_priority x =
     seq [fail_if (x mod 4096 \<noteq> 0) ''STP bridge priority must be multiple of 4096'',
          fail_if (\<not> in_range 0 61440 x) ''STP bridge priority must be in range 0-61440'']"

text \<open>The chained comparison does not look at the hello time when its first half fails.\<close>

definition validate_params :: "fval \<Rightarrow> fval \<Rightarrow> fval \<Rightarrow> bool res" where
  "validate_params forward_delay max_age hello_time =
     rbind (val_int forward_delay) (\<lambda>fd. rbind (val_int max_age) (\<lambda>ma.
       if 2 * (fd - 1) \<ge> ma then rbind (val_int hello_time) (\<lambda>ht. Inr (ma \<ge> 2 * (ht + 1)))
       else Inr False))"

text \<open>The values a new one of type \<open>param_type\<close> is compared with, shared by the two checks below.\<close>

definition params_ok :: "string \<Rightarrow> int \<Rightarrow> string option \<Rightarrow> string option \<Rightarrow> string option \<Rightarrow> bool res" where
  "params_ok param_type new_value fd ma ht =
     (if param_type = ''forward_delay'' then validate_params (FInt new_value) (opt_val ma) (opt_val ht)
      else if param_type = ''max_age'' then validate_params (opt_val fd) (FInt new_value) (opt_val ht)
      else if param_type = ''hello_time'' then validate_params (opt_val fd) (opt_val ma) (FInt new_value)
      else Inr False)"

definition entry_params_ok :: "'c db_env \<Rightarrow> string \<Rightarrow> string \<Rightarrow> string \<Rightarrow> int \<Rightarrow> 'c \<Rightarrow> bool res" where
  "entry_params_ok D tbl key param_type new_value c =
     (let e = db_get_entry D tbl key c
      in params_ok param_type new_value (dget e ''forward_delay'') (dget e ''max_age'') (dget e ''hello_time''))"

definition is_valid_stp_vlan_parameters :: "'c db_env \<Rightarrow> string \<Rightarrow> string \<Rightarrow> int \<Rightarrow> 'c cmd" where
  "is_valid_stp_vlan_parameters D vlan_name param_type new_value =
     attempt (entry_params_ok D ''STP_VLAN'' vlan_name param_type new_value)
       (\<lambda>ok. fail_if (\<not> ok) ''2*(forward_delay-1) >= max_age >= 2*(hello_time +1 ) not met for VLAN'')"

definition is_valid_stp_global_parameters :: "'c db_env \<Rightarrow> string \<Rightarrow> int \<Rightarrow> 'c cmd" where
  "is_valid_stp_global_parameters D param_type new_value =
     attempt (entry_params_ok D ''STP'' ''GLOBAL'' param_type new_value)
       (\<lambda>ok. fail_if (\<not> ok) ''2*(forward_delay-1) >= max_age >= 2*(hello_time +1 ) not met'')"

definition get_max_stp_instances :: nat where
  "get_max_stp_instances = 255"

text \<open>
  The value of the VLANs is compared with the global \<open>forward_delay\<close>, whatever the parameter is.
\<close>

definition update_stp_vlan_parameter :: "'c db_env \<Rightarrow> string \<Rightarrow> int \<Rightarrow> 'c cmd" where
  "update_stp_vlan_parameter D param_type new_value =
     ask (\<lambda>c. (dget (db_get_entry D ''STP'' ''GLOBAL'' c) ''forward_delay'', dkeys (db_get_table D ''STP_VLAN'' c)))
       (\<lambda>(current_global_value, vlans).
          seq [fail_if (param_type \<notin> {''priority'', ''max_age'', ''hello_time'', ''forward_delay''}) ''Invalid parameter'',
               each vlans (\<lambda>vlan.
                 ask (\<lambda>c. dget (db_get_entry D ''STP_VLAN'' vlan c) param_type)
                   (\<lambda>current_vlan_value.
                      if current_global_value = current_vlan_value
                      then put (db_mod_entry D ''STP_VLAN'' vlan [(param_type, FInt new_value)])
                      else finish))])"

definition vlan_name_of :: "int \<Rightarrow> string" where
  "vlan_name_of vid = ''Vlan'' @ str_int vid"

definition check_if_vlan_exist_in_db :: "'c db_env \<Rightarrow> int \<Rightarrow> 'c cmd" where
  "check_if_vlan_exist_in_db D vid =
     ask (db_get_entry D ''VLAN'' (vlan_name_of vid))
       (\<lambda>vlan. fail_if (vlan = []) (vlan_name_of vid @ '' doesn'' @ CHR 0x27 # ''t exist''))"

section \<open>The global entry\<close>

definition get_global_stp_mode :: "'c db_env \<Rightarrow> 'c \<Rightarrow> string option" where
  "get_global_stp_mode D c = dget (db_get_entry D ''STP'' ''GLOBAL'' c) ''mode''"

definition is_global_stp_enabled :: "'c db_env \<Rightarrow> 'c \<Rightarrow> bool" where
  "is_global_stp_enabled D c =
     (case dget (db_get_entry D ''STP'' ''GLOBAL'' c) ''mode'' of
        None \<Rightarrow> False | Some mode \<Rightarrow> mode \<noteq> [] \<and> mode \<noteq> ''none'')"

definition check_if_global_stp_enabled :: "'c db_env \<Rightarrow> 'c cmd" where
  "check_if_global_stp_enabled D =
     ask (is_global_stp_enabled D)
       (\<lambda>b. fail_if (\<not> b) ''Global STP is not enabled - first configure STP mode'')"

definition get_global_stp_forward_delay :: "'c db_env \<Rightarrow> 'c \<Rightarrow> string option" where
  "get_global_stp_forward_delay D c = dget (db_get_entry D ''STP'' ''GLOBAL'' c) ''forward_delay''"

definition get_global_stp_hello_time :: "'c db_env \<Rightarrow> 'c \<Rightarrow> string option" where
  "get_global_stp_hello_time D c = dget (db_get_entry D ''STP'' ''GLOBAL'' c) ''hello_time''"

definition get_global_stp_max_age :: "'c db_env \<Rightarrow> 'c \<Rightarrow> string option" where
  "get_global_stp_max_age D c = dget (db_get_entry D ''STP'' ''GLOBAL'' c) ''max_age''"

definition get_global_stp_priority :: "'c db_env \<Rightarrow> 'c \<Rightarrow> string option" where
  "get_global_stp_priority D c = dget (db_get_entry D ''STP'' ''GLOBAL'' c) ''priority''"

definition get_bridge_mac_address :: "'c db_env \<Rightarrow> 'c \<Rightarrow> string option" where
  "get_bridge_mac_address D c = dget (db_get_entry D ''DEVICE_METADATA'' ''localhost'' c) ''mac''"

text \<open>The field values of a VLAN that takes the global timers over.\<close>

definition vlan_fvs :: "'c db_env \<Rightarrow> 'c \<Rightarrow> fvs" where
  "vlan_fvs D c =
     [(''enabled'', FStr ''true''), (''forward_delay'', opt_val (get_global_stp_forward_delay D c)),
      (''hello_time'', opt_val (get_global_stp_hello_time D c)),
      (''max_age'', opt_val (get_global_stp_max_age D c)),
      (''priority'', opt_val (get_global_stp_priority D c))]"

section \<open>Tables of interfaces\<close>

definition get_intf_list_in_vlan_member_table :: "'c db_env \<Rightarrow> 'c \<Rightarrow> string list res" where
  "get_intf_list_in_vlan_member_table D c =
     rbind (map_res (\<lambda>k. key_at k 1) (dkeys (db_get_table D ''VLAN_MEMBER'' c))) (\<lambda>xs. Inr (dedup xs))"

definition get_vlan_list_for_interface :: "'c db_env \<Rightarrow> string \<Rightarrow> 'c \<Rightarrow> string list res" where
  "get_vlan_list_for_interface D interface_name c =
     fold_res (\<lambda>k acc. rbind (key_at k 1) (\<lambda>i. if interface_name = i
                         then rbind (key_at k 0) (\<lambda>v. Inr (acc @ [v])) else Inr acc))
       (dkeys (db_get_table D ''VLAN_MEMBER'' c)) []"

definition is_vlan_configured_interface :: "'c db_env \<Rightarrow> string \<Rightarrow> 'c \<Rightarrow> bool res" where
  "is_vlan_configured_interface D interface_name c =
     rbind (get_vlan_list_for_interface D interface_name c) (\<lambda>vs. Inr (vs \<noteq> []))"

definition is_interface_vlan_member :: "'c db_env \<Rightarrow> string \<Rightarrow> string \<Rightarrow> 'c cmd" where
  "is_interface_vlan_member D vlan_name interface_name =
     ask (db_get_entry D ''VLAN_MEMBER'' (vlan_name @ ''|'' @ interface_name))
       (\<lambda>entry. fail_if (entry = []) (interface_name @ '' is not member of '' @ vlan_name))"

definition get_pc_member_port_list :: "'c db_env \<Rightarrow> 'c \<Rightarrow> string list res" where
  "get_pc_member_port_list D c = map_res (\<lambda>k. key_at k 1) (dkeys (db_get_table D ''PORTCHANNEL_MEMBER'' c))"

definition is_portchannel_member_port :: "'c db_env \<Rightarrow> string \<Rightarrow> 'c \<Rightarrow> bool res" where
  "is_portchannel_member_port D interface_name c =
     rbind (get_pc_member_port_list D c) (\<lambda>ps. Inr (interface_name \<in> set ps))"

definition get_vlan_list_from_stp_vlan_intf_table :: "'c db_env \<Rightarrow> string \<Rightarrow> 'c \<Rightarrow> string list res" where
  "get_vlan_list_from_stp_vlan_intf_table D intf_name c =
     fold_res (\<lambda>k acc. rbind (key_at k 1) (\<lambda>i. if i = intf_name
                         then rbind (key_at k 0) (\<lambda>v. Inr (acc @ [v])) else Inr acc))
       (dkeys (db_get_table D ''STP_VLAN_PORT'' c)) []"

definition get_intf_list_from_stp_vlan_intf_table :: "'c db_env \<Rightarrow> string \<Rightarrow> 'c \<Rightarrow> string list res" where
  "get_intf_list_from_stp_vlan_intf_table D vlan_name c =
     fold_res (\<lambda>k acc. rbind (key_at k 0) (\<lambda>v. if v = vlan_name
                         then rbind (key_at k 1) (\<lambda>i. Inr (acc @ [i])) else Inr acc))
       (dkeys (db_get_table D ''STP_VLAN_PORT'' c)) []"

section \<open>Interface names (config/main.py)\<close>

text \<open>The alias of a port; a sub-interface keeps what follows its first dot.\<close>

definition interface_alias_to_name :: "'c db_env \<Rightarrow> string \<Rightarrow> 'c \<Rightarrow> string res" where
  "interface_alias_to_name D interface_alias c =
     (let alias = takeWhile (\<lambda>x. x \<noteq> CHR ''.'') interface_alias;
          suffix = dropWhile (\<lambda>x. x \<noteq> CHR ''.'') interface_alias;
          ports = db_get_table D ''PORT'' c
      in if ports = [] then Inl (RuntimeError ''Abort'')
         else rbind (fold_res (\<lambda>(name, e) found. case found of
                         Some n \<Rightarrow> Inr (Some n)
                       | None \<Rightarrow> (case dget e ''alias'' of
                                    None \<Rightarrow> Inl (KeyError ''alias'')
                                  | Some a \<Rightarrow> Inr (if alias = a then Some name else None))) ports None)
                (\<lambda>found. Inr ((case found of Some n \<Rightarrow> n | None \<Rightarrow> alias) @ suffix)))"

text \<open>A key is compared with the name only when it is no tuple.\<close>

definition names_in :: "'c db_env \<Rightarrow> string \<Rightarrow> 'c \<Rightarrow> string list" where
  "names_in D tbl c = filter (\<lambda>k. length (key_parts k) = 1) (dkeys (db_get_table D tbl c))"

definition interface_name_is_valid :: "'c db_env \<Rightarrow> string \<Rightarrow> 'c \<Rightarrow> bool res" where
  "interface_name_is_valid D interface_name c =
     rbind (if alias_mode D then interface_alias_to_name D interface_name c else Inr interface_name)
       (\<lambda>name. if db_get_table D ''PORT'' c = [] then Inl (RuntimeError ''Abort'')
          else Inr (name \<in> set (names_in D ''PORT'' c) \<or> name \<in> set (names_in D ''PORTCHANNEL'' c) \<or>
                    name \<in> set (names_in D ''VLAN_SUB_INTERFACE'' c) \<or>
                    name \<in> set (names_in D ''LOOPBACK_INTERFACE'' c)))"

section \<open>Enabling and disabling\<close>

definition port_fvs :: fvs where
  "port_fvs =
     [(''enabled'', FStr ''true''), (''root_guard'', FStr ''false''), (''bpdu_guard'', FStr ''false''),
      (''bpdu_guard_do_disable'', FStr ''false''), (''portfast'', FStr ''false''), (''uplink_fast'', FStr ''false'')]"

definition enable_stp_for_vlans :: "'c db_env \<Rightarrow> 'c cmd" where
  "enable_stp_for_vlans D =
     ask (\<lambda>c. (vlan_fvs D c, natsorted D (dkeys (db_get_table D ''VLAN'' c))))
       (\<lambda>(fv, vlans). each (take get_max_stp_instances vlans)
          (\<lambda>vlan_key. put (db_set_entry D ''STP_VLAN'' vlan_key (Some fv))))"

definition get_stp_enabled_vlan_count :: "'c db_env \<Rightarrow> 'c \<Rightarrow> nat" where
  "get_stp_enabled_vlan_count D c =
     length (filter (\<lambda>k. dget (db_get_entry D ''STP_VLAN'' k c) ''enabled'' = Some ''true'')
               (dkeys (db_get_table D ''STP_VLAN'' c)))"

definition vlan_enable_stp :: "'c db_env \<Rightarrow> string \<Rightarrow> 'c cmd" where
  "vlan_enable_stp D vlan_name =
     ask (vlan_fvs D) (\<lambda>fv. ask (is_global_stp_enabled D) (\<lambda>enabled.
       if enabled
       then ask (get_stp_enabled_vlan_count D)
              (\<lambda>n. if n < get_max_stp_instances then put (db_set_entry D ''STP_VLAN'' vlan_name (Some fv))
                   else finish)
       else finish))"

definition interface_enable_stp :: "'c db_env \<Rightarrow> string \<Rightarrow> 'c cmd" where
  "interface_enable_stp D interface_name =
     ask (is_global_stp_enabled D) (\<lambda>enabled.
       if enabled then put (db_set_entry D ''STP_PORT'' interface_name (Some port_fvs)) else finish)"

text \<open>The loop over the ports or channels that are members of a VLAN, natural order.\<close>

definition each_member :: "'c db_env \<Rightarrow> string \<Rightarrow> string list \<Rightarrow> (string \<Rightarrow> 'c cmd) \<Rightarrow> 'c cmd" where
  "each_member D tbl members f =
     ask (\<lambda>c. natsorted D (dkeys (db_get_table D tbl c)))
       (\<lambda>keys. each keys (\<lambda>k. if k \<in> set members then f k else finish))"

definition enable_stp_for_interfaces :: "'c db_env \<Rightarrow> 'c cmd" where
  "enable_stp_for_interfaces D =
     attempt (get_intf_list_in_vlan_member_table D)
       (\<lambda>members. seq (map (\<lambda>tbl. each_member D tbl members
          (\<lambda>k. put (db_set_entry D ''STP_PORT'' k (Some port_fvs)))) [''PORT'', ''PORTCHANNEL'']))"

definition enable_mst_instance0 :: "'c db_env \<Rightarrow> 'c cmd" where
  "enable_mst_instance0 D =
     put (db_set_entry D ''STP_MST_INST'' ''MST_INSTANCE:INSTANCE0'' (Some [(''bridge_priority'', FInt 32768)]))"

definition mst_port_fvs :: fvs where
  "mst_port_fvs =
     [(''edge_port'', FStr ''false''), (''link_type'', FStr ''auto''), (''enabled'', FStr ''true''),
      (''bpdu_guard'', FStr ''false''), (''bpdu_guard_do'', FStr ''false''), (''root_guard'', FStr ''false''),
      (''path_cost'', FInt 1), (''priority'', FInt 128)]"

definition enable_mst_for_interfaces :: "'c db_env \<Rightarrow> 'c cmd" where
  "enable_mst_for_interfaces D =
     attempt (get_intf_list_in_vlan_member_table D)
       (\<lambda>members. seq (map (\<lambda>tbl. each_member D tbl members
          (\<lambda>k. seq [put (db_set_entry D ''STP_MST_PORT'' (''MST_INSTANCE|0|'' @ k)
                           (Some [(''path_cost'', FInt 1), (''priority'', FInt 128)])),
                    put (db_set_entry D ''STP_PORT'' k (Some mst_port_fvs))])) [''PORT'', ''PORTCHANNEL'']))"

definition disable_global_pvst :: "'c db_env \<Rightarrow> 'c cmd" where
  "disable_global_pvst D =
     seq [put (db_set_entry D ''STP'' ''GLOBAL'' None), put (db_delete_table D ''STP_VLAN''),
          put (db_delete_table D ''STP_PORT''), put (db_delete_table D ''STP_VLAN_PORT'')]"

definition disable_global_mst :: "'c db_env \<Rightarrow> 'c cmd" where
  "disable_global_mst D =
     seq [put (db_set_entry D ''STP'' ''GLOBAL'' None), put (db_delete_table D ''STP_MST''),
          put (db_delete_table D ''STP_MST_INST''), put (db_delete_table D ''STP_MST_PORT''),
          put (db_delete_table D ''STP_PORT'')]"

definition pvst_global_fvs :: "string \<Rightarrow> fvs" where
  "pvst_global_fvs mode =
     [(''mode'', FStr mode), (''rootguard_timeout'', FInt 30), (''forward_delay'', FInt 15),
      (''hello_time'', FInt 2), (''max_age'', FInt 20), (''priority'', FInt 32768)]"

definition spanning_tree_enable :: "'c db_env \<Rightarrow> string \<Rightarrow> 'c cmd" where
  "spanning_tree_enable D mode =
     ask (get_global_stp_mode D) (\<lambda>current_mode.
       seq [if mode = ''pvst'' \<and> current_mode = Some ''pvst'' then fail ''PVST is already configured''
            else if mode = ''mst'' \<and> current_mode = Some ''mst'' then fail ''MST is already configured''
            else if mode = ''pvst'' \<and> current_mode = Some ''mst''
            then fail ''MSTP is already configured; please disable MST before enabling PVST''
            else if mode = ''mst'' \<and> current_mode = Some ''pvst''
            then fail ''PVST is already configured; please disable PVST before enabling MST''
            else finish,
            if mode = ''pvst''
            then seq [put (db_set_entry D ''STP'' ''GLOBAL'' (Some (pvst_global_fvs mode))),
                      enable_stp_for_interfaces D, enable_stp_for_vlans D]
            else if mode = ''mst''
            then seq [put (db_set_entry D ''STP'' ''GLOBAL'' (Some [(''mode'', FStr mode)])),
                      enable_mst_for_interfaces D, enable_mst_instance0 D]
            else finish])"

definition stp_disable :: "'c db_env \<Rightarrow> string \<Rightarrow> 'c cmd" where
  "stp_disable D mode =
     ask (get_global_stp_mode D) (\<lambda>current_mode.
       seq [if current_mode \<in> {None, Some [], Some ''none''} then fail ''STP is not configured''
            else if Some mode \<noteq> current_mode then fail (upper mode @ '' is not currently configured mode'')
            else finish,
            if mode = ''pvst'' \<and> current_mode = Some ''pvst'' then disable_global_pvst D
            else if mode = ''mst'' \<and> current_mode = Some ''mst'' then disable_global_mst D
            else finish])"

section \<open>Global parameters\<close>

definition stp_global_root_guard_timeout :: "'c db_env \<Rightarrow> int \<Rightarrow> 'c cmd" where
  "stp_global_root_guard_timeout D x =
     seq [check_if_global_stp_enabled D,
          ask (get_global_stp_mode D) (\<lambda>mode.
            if mode = Some ''mst'' then fail ''Root guard timeout not supported for MST''
            else if mode = Some ''pvst''
            then seq [is_valid_root_guard_timeout x,
                      put (db_mod_entry D ''STP'' ''GLOBAL'' [(''rootguard_timeout'', FInt x)])]
            else fail ''Invalid STP mode configuration, no mode is enabled'')]"

text \<open>The shape of the three timer commands.\<close>

definition global_timer :: "'c db_env \<Rightarrow> string \<Rightarrow> 'c cmd \<Rightarrow> int \<Rightarrow> 'c cmd" where
  "global_timer D name valid x =
     seq [check_if_global_stp_enabled D,
          ask (get_global_stp_mode D) (\<lambda>mode.
            if mode = Some ''pvst''
            then seq [valid, is_valid_stp_global_parameters D name x, update_stp_vlan_parameter D name x,
                      put (db_mod_entry D ''STP'' ''GLOBAL'' [(name, FInt x)])]
            else if mode = Some ''mst''
            then seq [valid, put (db_mod_entry D ''STP_MST'' ''GLOBAL'' [(name, FInt x)])]
            else fail ''Invalid STP mode configuration, no mode is enabled'')]"

definition stp_global_forward_delay :: "'c db_env \<Rightarrow> int \<Rightarrow> 'c cmd" where
  "stp_global_forward_delay D x = global_timer D ''forward_delay'' (is_valid_forward_delay x) x"

definition stp_global_hello_interval :: "'c db_env \<Rightarrow> int \<Rightarrow> 'c cmd" where
  "stp_global_hello_interval D x = global_timer D ''hello_time'' (is_valid_hello_interval x) x"

definition stp_global_max_age :: "'c db_env \<Rightarrow> int \<Rightarrow> 'c cmd" where
  "stp_global_max_age D x = global_timer D ''max_age'' (is_valid_max_age x) x"

definition stp_global_max_hops :: "'c db_env \<Rightarrow> int \<Rightarrow> 'c cmd" where
  "stp_global_max_hops D x =
     seq [check_if_global_stp_enabled D,
          ask (get_global_stp_mode D) (\<lambda>mode.
            if mode = Some ''pvst'' then fail ''Max hops not supported for PVST''
            else if mode = Some ''mst''
            then seq [fail_if (\<not> in_range 1 40 x) ''STP max hops must be in range 1-40'',
                      put (db_mod_entry D ''STP_MST'' ''GLOBAL'' [(''max_hops'', FInt x)])]
            else fail ''Invalid STP mode configured'')]"

definition stp_global_priority :: "'c db_env \<Rightarrow> int \<Rightarrow> 'c cmd" where
  "stp_global_priority D x =
     seq [check_if_global_stp_enabled D,
          ask (get_global_stp_mode D) (\<lambda>mode.
            if mode = Some ''pvst''
            then seq [is_valid_bridge_priority x, update_stp_vlan_parameter D ''priority'' x,
                      put (db_mod_entry D ''STP'' ''GLOBAL'' [(''priority'', FInt x)])]
            else if mode = Some ''mst''
            then fail ''Bridge priority cannot be set for MST with this command without Instance ID''
            else fail ''Invalid STP mode configured'')]"

definition stp_mst_region_name :: "'c db_env \<Rightarrow> string \<Rightarrow> 'c cmd" where
  "stp_mst_region_name D region_name =
     seq [check_if_global_stp_enabled D,
          ask (get_global_stp_mode D) (\<lambda>mode.
            if mode = Some ''pvst'' then fail ''Configuration not supported for PVST''
            else if mode = Some ''mst''
            then seq [fail_if (length region_name \<ge> 32) ''Region name must be less than 32 characters'',
                      put (db_mod_entry D ''STP_MST'' ''GLOBAL'' [(''name'', FStr region_name)])]
            else finish)]"

definition stp_global_revision :: "'c db_env \<Rightarrow> int \<Rightarrow> 'c cmd" where
  "stp_global_revision D x =
     seq [check_if_global_stp_enabled D,
          ask (get_global_stp_mode D) (\<lambda>mode.
            if mode = Some ''pvst'' then fail ''Configuration not supported for PVST''
            else if mode = Some ''mst''
            then seq [fail_if (\<not> in_range 0 65535 x) ''STP revision number must be in range 0-65535'',
                      put (db_mod_entry D ''STP_MST'' ''GLOBAL'' [(''revision'', FInt x)])]
            else finish)]"

section \<open>VLAN commands\<close>

definition is_stp_enabled_for_vlan :: "'c db_env \<Rightarrow> string \<Rightarrow> 'c \<Rightarrow> bool" where
  "is_stp_enabled_for_vlan D vlan_name c = (dget (db_get_entry D ''STP_VLAN'' vlan_name c) ''enabled'' = Some ''true'')"

definition check_if_stp_enabled_for_vlan :: "'c db_env \<Rightarrow> string \<Rightarrow> 'c cmd" where
  "check_if_stp_enabled_for_vlan D vlan_name =
     ask (is_stp_enabled_for_vlan D vlan_name) (\<lambda>b. fail_if (\<not> b) ''STP is not enabled for VLAN'')"

text \<open>The commands that are refused for MST and do nothing unless the mode is PVST.\<close>

definition pvst_only :: "'c db_env \<Rightarrow> 'c cmd \<Rightarrow> 'c cmd" where
  "pvst_only D body =
     ask (get_global_stp_mode D) (\<lambda>mode.
       if mode = Some ''mst'' then fail ''Configuration not supported for MST''
       else if mode = Some ''pvst'' then body else finish)"

definition stp_vlan_enable :: "'c db_env \<Rightarrow> int \<Rightarrow> 'c cmd" where
  "stp_vlan_enable D vid =
     pvst_only D
       (let vlan_name = vlan_name_of vid in
        seq [check_if_vlan_exist_in_db D vid,
             ask (is_stp_enabled_for_vlan D vlan_name)
               (\<lambda>b. fail_if b (''STP is already enabled for '' @ vlan_name)),
             ask (get_stp_enabled_vlan_count D)
               (\<lambda>n. fail_if (n \<ge> get_max_stp_instances) ''Exceeded maximum STP configurable VLAN instances''),
             check_if_global_stp_enabled D,
             ask (db_get_entry D ''STP_VLAN'' vlan_name) (\<lambda>entry.
               if entry = []
               then ask (vlan_fvs D) (\<lambda>fv. put (db_set_entry D ''STP_VLAN'' vlan_name (Some fv)))
               else put (db_mod_entry D ''STP_VLAN'' vlan_name [(''enabled'', FStr ''true'')])),
             ask (\<lambda>c. dkeys (db_get_table D ''STP_VLAN_PORT'' c)) (\<lambda>keys. each keys (\<lambda>k.
               attempt (\<lambda>c. key_pair k) (\<lambda>(vlan, intf).
                 if vlan = vlan_name
                 then ask (db_get_entry D ''STP_VLAN_PORT'' (vlan_name @ ''|'' @ intf)) (\<lambda>entry.
                        put (db_mod_entry D ''STP_VLAN_PORT'' (vlan_name @ ''|'' @ intf)
                               (map (\<lambda>(f, v). (f, FStr v)) entry)))
                 else finish)))])"

definition stp_vlan_disable :: "'c db_env \<Rightarrow> int \<Rightarrow> 'c cmd" where
  "stp_vlan_disable D vid =
     pvst_only D
       (seq [check_if_vlan_exist_in_db D vid,
             put (db_mod_entry D ''STP_VLAN'' (vlan_name_of vid) [(''enabled'', FStr ''false'')])])"

definition vlan_timer :: "'c db_env \<Rightarrow> int \<Rightarrow> string \<Rightarrow> 'c cmd \<Rightarrow> int \<Rightarrow> 'c cmd" where
  "vlan_timer D vid name valid x =
     pvst_only D
       (seq [check_if_vlan_exist_in_db D vid, check_if_stp_enabled_for_vlan D (vlan_name_of vid), valid,
             is_valid_stp_vlan_parameters D (vlan_name_of vid) name x,
             put (db_mod_entry D ''STP_VLAN'' (vlan_name_of vid) [(name, FInt x)])])"

definition stp_vlan_forward_delay :: "'c db_env \<Rightarrow> int \<Rightarrow> int \<Rightarrow> 'c cmd" where
  "stp_vlan_forward_delay D vid x = vlan_timer D vid ''forward_delay'' (is_valid_forward_delay x) x"

definition stp_vlan_hello_interval :: "'c db_env \<Rightarrow> int \<Rightarrow> int \<Rightarrow> 'c cmd" where
  "stp_vlan_hello_interval D vid x = vlan_timer D vid ''hello_time'' (is_valid_hello_interval x) x"

definition stp_vlan_max_age :: "'c db_env \<Rightarrow> int \<Rightarrow> int \<Rightarrow> 'c cmd" where
  "stp_vlan_max_age D vid x = vlan_timer D vid ''max_age'' (is_valid_max_age x) x"

definition stp_vlan_priority :: "'c db_env \<Rightarrow> int \<Rightarrow> int \<Rightarrow> 'c cmd" where
  "stp_vlan_priority D vid x =
     pvst_only D
       (seq [check_if_vlan_exist_in_db D vid, check_if_stp_enabled_for_vlan D (vlan_name_of vid),
             is_valid_bridge_priority x,
             put (db_mod_entry D ''STP_VLAN'' (vlan_name_of vid) [(''priority'', FInt x)])])"

section \<open>Interface commands\<close>

definition is_stp_enabled_for_interface :: "'c db_env \<Rightarrow> string \<Rightarrow> 'c \<Rightarrow> bool" where
  "is_stp_enabled_for_interface D intf_name c = (dget (db_get_entry D ''STP_PORT'' intf_name c) ''enabled'' = Some ''true'')"

definition check_if_stp_enabled_for_interface :: "'c db_env \<Rightarrow> string \<Rightarrow> 'c cmd" where
  "check_if_stp_enabled_for_interface D intf_name =
     ask (is_stp_enabled_for_interface D intf_name)
       (\<lambda>b. fail_if (\<not> b) (''STP is not enabled for interface '' @ intf_name))"

text \<open>The first address configured on the interface, if any: only keys that are tuples count.\<close>

definition first_address :: "'c db_env \<Rightarrow> string \<Rightarrow> 'c \<Rightarrow> string option" where
  "first_address D interface_name c =
     (case filter (\<lambda>k. length (key_parts k) > 1 \<and> hd (key_parts k) = interface_name)
             (dkeys (db_get_table D ''INTERFACE'' c)) of
        [] \<Rightarrow> None | k # _ \<Rightarrow> Some (key_parts k ! 1))"

definition check_if_interface_is_valid :: "'c db_env \<Rightarrow> string \<Rightarrow> 'c cmd" where
  "check_if_interface_is_valid D interface_name =
     seq [attempt (interface_name_is_valid D interface_name)
            (\<lambda>b. fail_if (\<not> b) ''Interface name is invalid. Please enter a valid interface name!!''),
          ask (first_address D interface_name) (\<lambda>a. case a of
              None \<Rightarrow> finish
            | Some ip \<Rightarrow> fail ('' '' @ interface_name @ '' has ip address '' @ ip @ '' configured - It'' @ CHR 0x27 # ''s not a L2 interface'')),
          attempt (is_portchannel_member_port D interface_name)
            (\<lambda>b. fail_if b ('' '' @ interface_name @ '' is a portchannel member port - STP can'' @ CHR 0x27 # ''t be configured'')),
          attempt (is_vlan_configured_interface D interface_name)
            (\<lambda>b. fail_if (\<not> b) ('' '' @ interface_name @ '' has no VLAN configured - It'' @ CHR 0x27 # ''s not a L2 interface''))]"

definition is_valid_interface_priority :: "int \<Rightarrow> 'c cmd" where
  "is_valid_interface_priority x = fail_if (\<not> in_range 0 240 x) ''STP interface priority must be in range 0-240''"

definition is_valid_interface_path_cost :: "int \<Rightarrow> 'c cmd" where
  "is_valid_interface_path_cost x =
     fail_if (x < 1 \<or> x > 200000000) ''STP interface path cost must be in range 1-200000000''"

definition stp_interface_path_cost :: "'c db_env \<Rightarrow> string \<Rightarrow> int \<Rightarrow> 'c cmd" where
  "stp_interface_path_cost D interface_name cost =
     seq [check_if_stp_enabled_for_interface D interface_name,
          check_if_interface_is_valid D interface_name,
          is_valid_interface_path_cost cost,
          ask (\<lambda>c. dget (db_get_entry D ''STP_PORT'' interface_name c) ''path_cost'') (\<lambda>curr_intf_cost.
            seq [put (db_mod_entry D ''STP_PORT'' interface_name [(''path_cost'', FInt cost)]),
                 ask (\<lambda>c. dkeys (db_get_table D ''STP_VLAN_PORT'' c)) (\<lambda>keys. each keys (\<lambda>k.
                   attempt (\<lambda>c. key_pair k) (\<lambda>(vlan, intf).
                     if intf = interface_name
                     then ask (db_get_entry D ''STP_VLAN_PORT'' (vlan @ ''|'' @ interface_name)) (\<lambda>entry.
                            if entry \<noteq> [] \<and> curr_intf_cost = dget entry ''path_cost''
                            then put (db_mod_entry D ''STP_VLAN_PORT'' (vlan @ ''|'' @ interface_name)
                                        [(''path_cost'', FInt cost)])
                            else finish)
                     else finish)))])]"

text \<open>The commands that set one field of an interface STP is enabled for.\<close>

definition set_port_field :: "'c db_env \<Rightarrow> string \<Rightarrow> string \<Rightarrow> string \<Rightarrow> 'c cmd" where
  "set_port_field D interface_name name value =
     seq [check_if_stp_enabled_for_interface D interface_name,
          check_if_interface_is_valid D interface_name,
          put (db_mod_entry D ''STP_PORT'' interface_name [(name, FStr value)])]"

definition refuse_mode :: "'c db_env \<Rightarrow> string \<Rightarrow> string \<Rightarrow> 'c cmd" where
  "refuse_mode D mode msg = ask (get_global_stp_mode D) (\<lambda>m. fail_if (m = Some mode) msg)"

definition stp_interface_portfast_enable :: "'c db_env \<Rightarrow> string \<Rightarrow> 'c cmd" where
  "stp_interface_portfast_enable D i =
     seq [refuse_mode D ''mst'' ''Portfast is supported only for PVST mode'', set_port_field D i ''portfast'' ''true'']"

definition stp_interface_portfast_disable :: "'c db_env \<Rightarrow> string \<Rightarrow> 'c cmd" where
  "stp_interface_portfast_disable D i =
     seq [refuse_mode D ''mst'' ''Portfast is supported only for PVST mode'', set_port_field D i ''portfast'' ''false'']"

definition stp_interface_edge_port_enable :: "'c db_env \<Rightarrow> string \<Rightarrow> 'c cmd" where
  "stp_interface_edge_port_enable D i =
     seq [check_if_global_stp_enabled D,
          refuse_mode D ''pvst'' ''edge_port configuration is not supported in PVST mode. This command is only allowed in MSTP mode.'',
          set_port_field D i ''edge_port'' ''true'']"

definition stp_interface_edge_port_disable :: "'c db_env \<Rightarrow> string \<Rightarrow> 'c cmd" where
  "stp_interface_edge_port_disable D i = set_port_field D i ''edge_port'' ''false''"

definition stp_interface_uplink_fast_enable :: "'c db_env \<Rightarrow> string \<Rightarrow> 'c cmd" where
  "stp_interface_uplink_fast_enable D i =
     seq [refuse_mode D ''mst'' ''Uplink fast is supported only for PVST mode'', set_port_field D i ''uplink_fast'' ''true'']"

definition stp_interface_uplink_fast_disable :: "'c db_env \<Rightarrow> string \<Rightarrow> 'c cmd" where
  "stp_interface_uplink_fast_disable D i =
     seq [refuse_mode D ''mst'' ''Uplink fast is supported only for PVST mode'', set_port_field D i ''uplink_fast'' ''false'']"

definition stp_interface_link_type_point_to_point :: "'c db_env \<Rightarrow> string \<Rightarrow> 'c cmd" where
  "stp_interface_link_type_point_to_point D i = set_port_field D i ''link_type'' ''point-to-point''"

definition stp_interface_link_type_shared :: "'c db_env \<Rightarrow> string \<Rightarrow> 'c cmd" where
  "stp_interface_link_type_shared D i = set_port_field D i ''link_type'' ''shared''"

definition stp_interface_link_type_auto :: "'c db_env \<Rightarrow> string \<Rightarrow> 'c cmd" where
  "stp_interface_link_type_auto D i =
     seq [refuse_mode D ''pvst'' ''Link type configuration is not supported in PVST mode'',
          set_port_field D i ''link_type'' ''auto'']"

definition is_valid_vlan_interface_priority :: "int \<Rightarrow> 'c cmd" where
  "is_valid_vlan_interface_priority x =
     fail_if (\<not> in_range 0 240 x) ''STP per vlan port priority must be in range 0-240''"

definition vlan_interface_field :: "'c db_env \<Rightarrow> int \<Rightarrow> string \<Rightarrow> string \<Rightarrow> 'c cmd \<Rightarrow> int \<Rightarrow> 'c cmd" where
  "vlan_interface_field D vid interface_name name valid x =
     (let vlan_name = vlan_name_of vid in
      seq [check_if_stp_enabled_for_vlan D vlan_name, check_if_stp_enabled_for_interface D interface_name,
           check_if_vlan_exist_in_db D vid, is_interface_vlan_member D vlan_name interface_name, valid,
           put (db_mod_entry D ''STP_VLAN_PORT'' (vlan_name @ ''|'' @ interface_name) [(name, FInt x)])])"

definition stp_vlan_interface_priority :: "'c db_env \<Rightarrow> int \<Rightarrow> string \<Rightarrow> int \<Rightarrow> 'c cmd" where
  "stp_vlan_interface_priority D vid i x =
     vlan_interface_field D vid i ''priority'' (is_valid_vlan_interface_priority x) x"

definition stp_vlan_interface_cost :: "'c db_env \<Rightarrow> int \<Rightarrow> string \<Rightarrow> int \<Rightarrow> 'c cmd" where
  "stp_vlan_interface_cost D vid i x =
     vlan_interface_field D vid i ''path_cost'' (is_valid_interface_path_cost x) x"

text \<open>
  These two commands read the mode from a table \<open>STP_GLOBAL\<close> that no command writes; the attributes
  the first one collects are replaced by \<open>enabled\<close> alone before they are stored.
\<close>

definition stp_global_table_mode :: "'c db_env \<Rightarrow> 'c \<Rightarrow> string" where
  "stp_global_table_mode D c =
     (case dget (db_get_entry D ''STP_GLOBAL'' ''GLOBAL'' c) ''mode'' of None \<Rightarrow> ''none'' | Some m \<Rightarrow> m)"

definition stp_interface_enable :: "'c db_env \<Rightarrow> string \<Rightarrow> 'c cmd" where
  "stp_interface_enable D i =
     ask (stp_global_table_mode D) (\<lambda>current_mode.
       seq [fail_if (current_mode = ''none'') ''Global STP is not enabled - first configure STP mode'',
            check_if_global_stp_enabled D,
            ask (is_stp_enabled_for_interface D i) (\<lambda>b. fail_if b (''STP is already enabled for '' @ i)),
            check_if_interface_is_valid D i,
            if current_mode = ''mstp'' \<or> current_mode = ''pvst''
            then put (db_set_entry D ''STP_PORT'' i (Some [(''enabled'', FStr ''true'')])) else finish])"

definition stp_interface_disable :: "'c db_env \<Rightarrow> string \<Rightarrow> 'c cmd" where
  "stp_interface_disable D i =
     ask (stp_global_table_mode D) (\<lambda>current_mode.
       seq [check_if_global_stp_enabled D, check_if_interface_is_valid D i,
            if current_mode = ''mstp'' \<or> current_mode = ''pvst''
            then put (db_set_entry D ''STP_PORT'' i (Some [(''enabled'', FStr ''false'')])) else finish])"

definition mstp_interface_edge_port :: "'c db_env \<Rightarrow> string \<Rightarrow> string \<Rightarrow> 'c cmd" where
  "mstp_interface_edge_port D state i =
     ask (get_global_stp_mode D) (\<lambda>mode.
       seq [fail_if (mode \<noteq> Some ''mst'') ''edge_port is supported for MSTP only'',
            set_port_field D i ''edge_port'' (if state = ''enable'' then ''true'' else ''false'')])"

text \<open>The fields a guard or priority command adds, by mode; the code compares with \<open>mstp\<close>.\<close>

definition mode_fields :: "string option \<Rightarrow> fvs" where
  "mode_fields mode =
     (if mode = Some ''pvst'' then [(''portfast'', FStr ''false''), (''uplink_fast'', FStr ''false'')]
      else if mode = Some ''mstp'' then [(''edge_port'', FStr ''false''), (''link_type'', FStr ''auto'')]
      else [])"

definition guard_command :: "'c db_env \<Rightarrow> string \<Rightarrow> fvs \<Rightarrow> 'c cmd" where
  "guard_command D i fv =
     seq [check_if_interface_is_valid D i,
          ask (get_global_stp_mode D) (\<lambda>mode. put (db_mod_entry D ''STP_PORT'' i (fv @ mode_fields mode)))]"

definition stp_interface_bpdu_guard_enable :: "'c db_env \<Rightarrow> string \<Rightarrow> bool \<Rightarrow> 'c cmd" where
  "stp_interface_bpdu_guard_enable D i shutdown =
     guard_command D i [(''bpdu_guard'', FStr ''true''),
       (''bpdu_guard_do_disable'', FStr (if shutdown then ''true'' else ''false''))]"

definition stp_interface_bpdu_guard_disable :: "'c db_env \<Rightarrow> string \<Rightarrow> 'c cmd" where
  "stp_interface_bpdu_guard_disable D i =
     guard_command D i [(''bpdu_guard'', FStr ''false''), (''bpdu_guard_do_disable'', FStr ''false'')]"

definition stp_interface_root_guard_enable :: "'c db_env \<Rightarrow> string \<Rightarrow> 'c cmd" where
  "stp_interface_root_guard_enable D i = guard_command D i [(''root_guard'', FStr ''true'')]"

definition stp_interface_root_guard_disable :: "'c db_env \<Rightarrow> string \<Rightarrow> 'c cmd" where
  "stp_interface_root_guard_disable D i = guard_command D i [(''root_guard'', FStr ''false'')]"

definition stp_interface_priority :: "'c db_env \<Rightarrow> string \<Rightarrow> int \<Rightarrow> 'c cmd" where
  "stp_interface_priority D i x =
     seq [check_if_global_stp_enabled D, check_if_stp_enabled_for_interface D i,
          check_if_interface_is_valid D i,
          fail_if (x < 0 \<or> x > 240) ''STP interface priority must be in range 0-240'',
          ask (get_global_stp_mode D)
            (\<lambda>mode. put (db_mod_entry D ''STP_PORT'' i ((''priority'', FStr (str_int x)) # mode_fields mode)))]"

definition is_valid_interface_cost :: "int \<Rightarrow> 'c cmd" where
  "is_valid_interface_cost x =
     fail_if (x < 1 \<or> x > 200000000) ''STP interface path cost must be in range 1-200000000''"

definition stp_interface_cost :: "'c db_env \<Rightarrow> string \<Rightarrow> int \<Rightarrow> 'c cmd" where
  "stp_interface_cost D i x =
     seq [check_if_global_stp_enabled D, check_if_interface_is_valid D i, is_valid_interface_cost x,
          ask (\<lambda>c. (db_get_entry D ''STP_PORT'' i c, get_global_stp_mode D c)) (\<lambda>(entry, mode).
            if entry = []
            then put (db_set_entry D ''STP_PORT'' i (Some ((''path_cost'', FInt x) #
                   (if mode = Some ''pvst'' then [(''portfast'', FStr ''false''), (''uplink_fast'', FStr ''false'')]
                    else if mode = Some ''mst'' then [(''edge_port'', FStr ''false''), (''link_type'', FStr ''auto'')]
                    else []))))
            else put (db_mod_entry D ''STP_PORT'' i [(''path_cost'', FInt x)]))]"

definition link_type_mapping :: "(string \<times> string) list" where
  "link_type_mapping = [(''P2P'', ''p2p''), (''Shared-Lan'', ''shared''), (''Auto'', ''auto'')]"

definition stp_interface_link_type_set :: "'c db_env \<Rightarrow> string \<Rightarrow> string \<Rightarrow> 'c cmd" where
  "stp_interface_link_type_set D link_type i =
     seq [check_if_stp_enabled_for_interface D i, check_if_interface_is_valid D i,
          ask (get_global_stp_mode D) (\<lambda>mode.
            case dget link_type_mapping link_type of
              None \<Rightarrow> raise (KeyError link_type)
            | Some v \<Rightarrow> put (db_mod_entry D ''STP_PORT'' i ((''link_type'', FStr v) #
                (if mode = Some ''pvst'' then [(''portfast'', FStr ''false''), (''uplink_fast'', FStr ''false'')]
                 else if mode = Some ''mst'' then [(''edge_port'', FStr ''false'')] else []))))]"

section \<open>MST instances\<close>

definition mst_max_instances :: int where
  "mst_max_instances = 63"

definition instance_range_error :: string where
  "instance_range_error = ''Instance ID must be in range 0-'' @ str_int (mst_max_instances - 1)"

definition mst_port_key :: "int \<Rightarrow> string \<Rightarrow> string" where
  "mst_port_key instance_id i = ''MST_INSTANCE|'' @ str_int instance_id @ ''|'' @ i"

definition mst_instance_interface_priority :: "'c db_env \<Rightarrow> int \<Rightarrow> string \<Rightarrow> int \<Rightarrow> 'c cmd" where
  "mst_instance_interface_priority D instance_id i priority =
     seq [fail_if (instance_id < 0 \<or> instance_id \<ge> mst_max_instances) instance_range_error,
          fail_if (priority < 0 \<or> priority > 240) ''Priority value must be in range 0-240'',
          check_if_interface_is_valid D i,
          put (db_mod_entry D ''STP_MST_PORT'' (mst_port_key instance_id i) [(''priority'', FStr (str_int priority))])]"

definition mst_instance_interface_cost :: "'c db_env \<Rightarrow> int \<Rightarrow> string \<Rightarrow> int \<Rightarrow> 'c cmd" where
  "mst_instance_interface_cost D instance_id i cost =
     seq [ask (get_global_stp_mode D) (\<lambda>mode. fail_if (mode \<noteq> Some ''mst'') ''Configuration not supported for PVST''),
          fail_if (\<not> (0 \<le> instance_id \<and> instance_id < mst_max_instances)) instance_range_error,
          fail_if (\<not> (1 \<le> cost \<and> cost \<le> 200000000)) ''Path cost must be in range 1-200000000'',
          check_if_interface_is_valid D i,
          put (db_mod_entry D ''STP_MST_PORT'' (mst_port_key instance_id i) [(''path_cost'', FStr (str_int cost))])]"

definition instance_key :: "int \<Rightarrow> string" where
  "instance_key instance_id = ''MST_INSTANCE|'' @ str_int instance_id"

definition check_instance :: "'c db_env \<Rightarrow> int \<Rightarrow> string \<Rightarrow> 'c cmd" where
  "check_instance D instance_id suffix =
     ask (db_get_entry D ''STP_MST_INST'' (instance_key instance_id))
       (\<lambda>e. fail_if (e = []) (''MST instance '' @ str_int instance_id @ '' does not exist.'' @ suffix))"

definition mst_instance_priority :: "'c db_env \<Rightarrow> int \<Rightarrow> int \<Rightarrow> 'c cmd" where
  "mst_instance_priority D instance_id priority_value =
     seq [fail_if (\<not> (0 \<le> instance_id \<and> instance_id < mst_max_instances)) instance_range_error,
          check_instance D instance_id '' Please create it first.'',
          fail_if (priority_value mod 4096 \<noteq> 0 \<or> \<not> (0 \<le> priority_value \<and> priority_value \<le> 61440))
            ''Priority must be a multiple of 4096 and between 0-61440.'',
          put (db_mod_entry D ''STP_MST_INST'' (instance_key instance_id)
                 [(''bridge_priority'', FStr (str_int priority_value))])]"

text \<open>The set of VLANs in the field \<open>vlan_list\<close>, and the field sorted by number again.\<close>

definition instance_vlans :: "string dict \<Rightarrow> string list" where
  "instance_vlans entry =
     (case dget entry ''vlan_list'' of
        None \<Rightarrow> [] | Some l \<Rightarrow> if l = [] then [] else dedup (split_on (CHR '','') l))"

definition joined_vlans :: "string list \<Rightarrow> string res" where
  "joined_vlans vlans =
     rbind (map_res (\<lambda>v. rbind (py_int v) (\<lambda>i. Inr (i, v))) vlans)
       (\<lambda>ps. Inr (join_with '','' (map snd (sort_key fst ps))))"

definition mst_instance_vlan_add :: "'c db_env \<Rightarrow> int \<Rightarrow> int \<Rightarrow> 'c cmd" where
  "mst_instance_vlan_add D instance_id vlan_id =
     seq [fail_if (\<not> (0 < instance_id \<and> instance_id < mst_max_instances)) instance_range_error,
          fail_if (instance_id = 0) ''VLAN configuration for MST instance 0 is not allowed.'',
          check_instance D instance_id '' Please create it first.'',
          fail_if (\<not> (1 \<le> vlan_id \<and> vlan_id \<le> 4094)) ''VLAN ID must be in range 1-4094.'',
          ask (db_get_entry D ''VLAN'' (vlan_name_of vlan_id))
            (\<lambda>e. fail_if (e = []) (''VLAN '' @ str_int vlan_id @ '' does not exist.'')),
          ask (\<lambda>c. instance_vlans (db_get_entry D ''STP_MST_INST'' (instance_key instance_id) c)) (\<lambda>vlans.
            seq [fail_if (str_int vlan_id \<in> set vlans)
                   (''VLAN '' @ str_int vlan_id @ '' is already mapped to MST instance '' @ str_int instance_id @ ''.''),
                 attempt (\<lambda>c. joined_vlans (vlans @ [str_int vlan_id])) (\<lambda>l.
                   put (db_mod_entry D ''STP_MST_INST'' (instance_key instance_id) [(''vlan_list'', FStr l)]))])]"

definition mst_instance_vlan_del :: "'c db_env \<Rightarrow> int \<Rightarrow> int \<Rightarrow> 'c cmd" where
  "mst_instance_vlan_del D instance_id vlan_id =
     seq [fail_if (\<not> (0 \<le> instance_id \<and> instance_id < mst_max_instances)) instance_range_error,
          fail_if (instance_id = 0) ''VLAN delete from MST instance 0 is not allowed.'',
          check_instance D instance_id [],
          ask (\<lambda>c. instance_vlans (db_get_entry D ''STP_MST_INST'' (instance_key instance_id) c)) (\<lambda>vlans.
            seq [fail_if (str_int vlan_id \<notin> set vlans)
                   (''VLAN '' @ str_int vlan_id @ '' is not mapped to MST instance '' @ str_int instance_id @ ''.''),
                 attempt (\<lambda>c. joined_vlans (remove1 (str_int vlan_id) vlans)) (\<lambda>l.
                   put (db_mod_entry D ''STP_MST_INST'' (instance_key instance_id) [(''vlan_list'', FStr l)]))])]"

section \<open>The commands as one type\<close>

datatype global_command =
    Enable string
  | Disable string
  | Root_Guard_Timeout int
  | Forward_Delay int
  | Hello int
  | Max_Age int
  | Max_Hops int
  | Priority int
  | Region_Name string
  | Revision int

primrec run_global :: "'c db_env \<Rightarrow> global_command \<Rightarrow> 'c cmd" where
  "run_global D (Enable m) = spanning_tree_enable D m"
| "run_global D (Disable m) = stp_disable D m"
| "run_global D (Root_Guard_Timeout x) = stp_global_root_guard_timeout D x"
| "run_global D (Forward_Delay x) = stp_global_forward_delay D x"
| "run_global D (Hello x) = stp_global_hello_interval D x"
| "run_global D (Max_Age x) = stp_global_max_age D x"
| "run_global D (Max_Hops x) = stp_global_max_hops D x"
| "run_global D (Priority x) = stp_global_priority D x"
| "run_global D (Region_Name n) = stp_mst_region_name D n"
| "run_global D (Revision x) = stp_global_revision D x"

datatype vlan_command =
    Vlan_Enable int
  | Vlan_Disable int
  | Vlan_Forward_Delay int int
  | Vlan_Hello int int
  | Vlan_Max_Age int int
  | Vlan_Priority int int
  | Vlan_Intf_Priority int string int
  | Vlan_Intf_Cost int string int

primrec run_vlan :: "'c db_env \<Rightarrow> vlan_command \<Rightarrow> 'c cmd" where
  "run_vlan D (Vlan_Enable v) = stp_vlan_enable D v"
| "run_vlan D (Vlan_Disable v) = stp_vlan_disable D v"
| "run_vlan D (Vlan_Forward_Delay v x) = stp_vlan_forward_delay D v x"
| "run_vlan D (Vlan_Hello v x) = stp_vlan_hello_interval D v x"
| "run_vlan D (Vlan_Max_Age v x) = stp_vlan_max_age D v x"
| "run_vlan D (Vlan_Priority v x) = stp_vlan_priority D v x"
| "run_vlan D (Vlan_Intf_Priority v i x) = stp_vlan_interface_priority D v i x"
| "run_vlan D (Vlan_Intf_Cost v i x) = stp_vlan_interface_cost D v i x"

datatype port_command =
    Portfast_Enable string
  | Portfast_Disable string
  | Edge_Port_Enable string
  | Edge_Port_Disable string
  | Uplink_Fast_Enable string
  | Uplink_Fast_Disable string
  | Link_Type_P2p string
  | Link_Type_Shared string
  | Link_Type_Auto string
  | Link_Type_Set string string

primrec run_port :: "'c db_env \<Rightarrow> port_command \<Rightarrow> 'c cmd" where
  "run_port D (Portfast_Enable i) = stp_interface_portfast_enable D i"
| "run_port D (Portfast_Disable i) = stp_interface_portfast_disable D i"
| "run_port D (Edge_Port_Enable i) = stp_interface_edge_port_enable D i"
| "run_port D (Edge_Port_Disable i) = stp_interface_edge_port_disable D i"
| "run_port D (Uplink_Fast_Enable i) = stp_interface_uplink_fast_enable D i"
| "run_port D (Uplink_Fast_Disable i) = stp_interface_uplink_fast_disable D i"
| "run_port D (Link_Type_P2p i) = stp_interface_link_type_point_to_point D i"
| "run_port D (Link_Type_Shared i) = stp_interface_link_type_shared D i"
| "run_port D (Link_Type_Auto i) = stp_interface_link_type_auto D i"
| "run_port D (Link_Type_Set t i) = stp_interface_link_type_set D t i"

datatype intf_command =
    Intf_Path_Cost string int
  | Intf_Enable string
  | Intf_Disable string
  | Edge_Port string string
  | Bpdu_Guard_Enable string bool
  | Bpdu_Guard_Disable string
  | Root_Guard_Enable string
  | Root_Guard_Disable string
  | Intf_Priority string int
  | Intf_Cost string int

primrec run_intf :: "'c db_env \<Rightarrow> intf_command \<Rightarrow> 'c cmd" where
  "run_intf D (Intf_Path_Cost i x) = stp_interface_path_cost D i x"
| "run_intf D (Intf_Enable i) = stp_interface_enable D i"
| "run_intf D (Intf_Disable i) = stp_interface_disable D i"
| "run_intf D (Edge_Port s i) = mstp_interface_edge_port D s i"
| "run_intf D (Bpdu_Guard_Enable i b) = stp_interface_bpdu_guard_enable D i b"
| "run_intf D (Bpdu_Guard_Disable i) = stp_interface_bpdu_guard_disable D i"
| "run_intf D (Root_Guard_Enable i) = stp_interface_root_guard_enable D i"
| "run_intf D (Root_Guard_Disable i) = stp_interface_root_guard_disable D i"
| "run_intf D (Intf_Priority i x) = stp_interface_priority D i x"
| "run_intf D (Intf_Cost i x) = stp_interface_cost D i x"

datatype mst_command =
    Mst_Intf_Priority int string int
  | Mst_Intf_Cost int string int
  | Mst_Priority int int
  | Mst_Vlan_Add int int
  | Mst_Vlan_Del int int

primrec run_mst :: "'c db_env \<Rightarrow> mst_command \<Rightarrow> 'c cmd" where
  "run_mst D (Mst_Intf_Priority n i x) = mst_instance_interface_priority D n i x"
| "run_mst D (Mst_Intf_Cost n i x) = mst_instance_interface_cost D n i x"
| "run_mst D (Mst_Priority n x) = mst_instance_priority D n x"
| "run_mst D (Mst_Vlan_Add n v) = mst_instance_vlan_add D n v"
| "run_mst D (Mst_Vlan_Del n v) = mst_instance_vlan_del D n v"

datatype stp_command = Global global_command | Vlan vlan_command | Port port_command | Intf intf_command | Mst mst_command

primrec run :: "'c db_env \<Rightarrow> stp_command \<Rightarrow> 'c cmd" where
  "run D (Global x) = run_global D x"
| "run D (Vlan x) = run_vlan D x"
| "run D (Port x) = run_port D x"
| "run D (Intf x) = run_intf D x"
| "run D (Mst x) = run_mst D x"

text \<open>
  A configuration session: spanning tree commands run one after the other, whether they succeed or fail.
  Other commands that write these tables are not steps of it, like the hook \<open>vlan_enable_stp\<close> of
  \<open>config vlan add\<close>.
\<close>

inductive session :: "'c db_env \<Rightarrow> 'c \<Rightarrow> 'c \<Rightarrow> bool" for D where
  session_start: "session D c c"
| session_step: "session D c c' \<Longrightarrow> session D c (snd (run D cmd c'))"

lemma session_invariant:
  assumes "session D c c'" and "I c" and "\<And>cmd. keeps I (run D cmd)"
  shows "I c'"
  using assms by (induction rule: session.induct) (auto intro: keepsD)

end
