(* ===== verification/StpFacts.thy ===== *)
theory StpFacts
  imports Stp
begin

text \<open>
  What every spanning tree command keeps.  Frame lemmas say which tables a command leaves alone;
  on top of them, the invariants of a configuration session.
\<close>

section \<open>Splitting commands\<close>

lemma keeps_case_prod [keeps_intros]: "(\<And>a b. x = (a, b) \<Longrightarrow> keeps I (f a b)) \<Longrightarrow> keeps I (case x of (a, b) \<Rightarrow> f a b)"
  by (cases x) simp

lemma keeps_case_option [keeps_intros]:
  "keeps I m \<Longrightarrow> (\<And>a. keeps I (f a)) \<Longrightarrow> keeps I (case x of None \<Rightarrow> m | Some a \<Rightarrow> f a)"
  by (cases x) simp_all

lemmas check_defs =
  is_valid_root_guard_timeout_def is_valid_forward_delay_def is_valid_hello_interval_def is_valid_max_age_def
  is_valid_bridge_priority_def is_valid_stp_vlan_parameters_def is_valid_stp_global_parameters_def
  check_if_vlan_exist_in_db_def check_if_global_stp_enabled_def check_if_stp_enabled_for_vlan_def
  check_if_stp_enabled_for_interface_def check_if_interface_is_valid_def is_interface_vlan_member_def
  is_valid_interface_path_cost_def is_valid_vlan_interface_priority_def is_valid_interface_cost_def
  refuse_mode_def check_instance_def

text \<open>A check reads and at most fails.\<close>

lemma keeps_checks [keeps_intros]:
  "keeps I (is_valid_root_guard_timeout x)" "keeps I (is_valid_forward_delay x)"
  "keeps I (is_valid_hello_interval x)" "keeps I (is_valid_max_age x)" "keeps I (is_valid_bridge_priority x)"
  "keeps I (is_valid_stp_vlan_parameters D v p x)" "keeps I (is_valid_stp_global_parameters D p x)"
  "keeps I (check_if_vlan_exist_in_db D vid)" "keeps I (check_if_global_stp_enabled D)"
  "keeps I (check_if_stp_enabled_for_vlan D v)" "keeps I (check_if_stp_enabled_for_interface D i)"
  "keeps I (check_if_interface_is_valid D i)" "keeps I (is_interface_vlan_member D v i)"
  "keeps I (is_valid_interface_path_cost x)" "keeps I (is_valid_vlan_interface_priority x)"
  "keeps I (is_valid_interface_cost x)" "keeps I (refuse_mode D m msg)" "keeps I (check_instance D n s)"
  unfolding check_defs by (intro keeps_intros)+

section \<open>Results\<close>

lemma fst_seq: "fst (seq (m # ms) c) = (case fst (m c) of Inl e \<Rightarrow> Inl e | Inr _ \<Rightarrow> fst (seq ms (snd (m c))))"
  and snd_seq: "snd (seq (m # ms) c) = (case fst (m c) of Inl e \<Rightarrow> snd (m c) | Inr _ \<Rightarrow> snd (seq ms (snd (m c))))"
  by (auto split: prod.splits sum.splits)

lemma command_results [simp]:
  "finish c = (Inr (), c)" "raise e c = (Inl e, c)" "fail msg c = (Inl (CtxFail msg), c)" "put f c = (Inr (), f c)"
  "fail_if b msg c = (if b then Inl (CtxFail msg) else Inr (), c)" "ask q g c = g (q c) c"
  by (simp_all add: finish_def raise_def fail_def put_def fail_if_def ask_def)

lemma seq_single [simp]: "seq [m] = m"
  by (rule ext) (auto split: prod.splits sum.splits)

lemma seq_returned: "fst (m c) = Inr () \<Longrightarrow> seq (m # ms) c = seq ms (snd (m c))"
  and seq_failed: "fst (m c) = Inl e \<Longrightarrow> seq (m # ms) c = (Inl e, snd (m c))"
  by (cases "m c"; simp)+

text \<open>Commands that always return.\<close>

definition returns :: "'c cmd \<Rightarrow> bool" where
  "returns m \<longleftrightarrow> (\<forall>c. fst (m c) = Inr ())"

lemma returnsD [simp]: "returns m \<Longrightarrow> fst (m c) = Inr ()"
  by (simp add: returns_def)

lemma returns_intros:
  "returns finish" "returns (put f)" "(\<And>x. returns (g x)) \<Longrightarrow> returns (ask f' g)"
  "returns m \<Longrightarrow> returns m' \<Longrightarrow> returns (if b then m else m')" "(\<And>x. returns (h x)) \<Longrightarrow> returns (each xs h)"
  "returns (seq [])" "returns m \<Longrightarrow> returns (seq ms) \<Longrightarrow> returns (seq (m # ms))" "returns (fail_if False msg)"
  "(\<And>a b. returns (p a b)) \<Longrightarrow> returns (case q of (a, b) \<Rightarrow> p a b)"
proof -
  show "returns (each xs h)" if "\<And>x. returns (h x)"
  proof -
    have "fst (seq (map h xs) c) = Inr ()" for c
      using that by (induction xs arbitrary: c) (simp_all add: fst_seq del: seq.simps(2))
    then show ?thesis by (simp add: returns_def each_def)
  qed
qed (auto simp: returns_def ask_def fst_seq simp del: seq.simps(2) split: prod.splits)

text \<open>A check leaves the database as it is.\<close>

lemma check_state [simp]:
  "snd (is_valid_forward_delay x c) = c" "snd (is_valid_hello_interval x c) = c" "snd (is_valid_max_age x c) = c"
  "snd (is_valid_root_guard_timeout x c) = c" "snd (is_valid_bridge_priority x c) = c"
  "snd (is_valid_stp_global_parameters D p x c) = c" "snd (is_valid_stp_vlan_parameters D v p x c) = c"
  "snd (check_if_vlan_exist_in_db D vid c) = c" "snd (check_if_global_stp_enabled D c) = c"
  "snd (check_if_stp_enabled_for_vlan D v c) = c" "snd (check_if_stp_enabled_for_interface D i c) = c"
  "snd (check_if_interface_is_valid D i c) = c" "snd (check_instance D n s c) = c"
  by (rule keepsD [where I = "\<lambda>c'. c' = c"], rule keeps_checks, rule refl)+

section \<open>Frames\<close>

lemma leaves_checks [leaves_intros]:
  "leaves D t (is_valid_root_guard_timeout x)" "leaves D t (is_valid_forward_delay x)"
  "leaves D t (is_valid_hello_interval x)" "leaves D t (is_valid_max_age x)" "leaves D t (is_valid_bridge_priority x)"
  "leaves D t (is_valid_stp_vlan_parameters D v p x)" "leaves D t (is_valid_stp_global_parameters D p x)"
  "leaves D t (check_if_vlan_exist_in_db D vid)" "leaves D t (check_if_global_stp_enabled D)"
  "leaves D t (check_if_stp_enabled_for_vlan D v)" "leaves D t (check_if_stp_enabled_for_interface D i)"
  "leaves D t (check_if_interface_is_valid D i)" "leaves D t (is_interface_vlan_member D v i)"
  "leaves D t (is_valid_interface_path_cost x)" "leaves D t (is_valid_vlan_interface_priority x)"
  "leaves D t (is_valid_interface_cost x)" "leaves D t (refuse_mode D m msg)" "leaves D t (check_instance D n s)"
  unfolding leaves_def by (auto intro: keeps_intros)

section \<open>The global timers\<close>

definition sane_timers :: "int \<Rightarrow> int \<Rightarrow> int \<Rightarrow> bool" where
  "sane_timers fd ma ht \<longleftrightarrow>
     4 \<le> fd \<and> fd \<le> 30 \<and> 6 \<le> ma \<and> ma \<le> 40 \<and> 1 \<le> ht \<and> ht \<le> 10 \<and> ma \<le> 2 * (fd - 1) \<and> 2 * (ht + 1) \<le> ma"

definition global_timers :: "'c db_env \<Rightarrow> 'c \<Rightarrow> int \<Rightarrow> int \<Rightarrow> int \<Rightarrow> bool" where
  "global_timers D c fd ma ht \<longleftrightarrow>
     field_of D ''STP'' ''GLOBAL'' ''forward_delay'' c = Some (str_int fd) \<and>
     field_of D ''STP'' ''GLOBAL'' ''max_age'' c = Some (str_int ma) \<and>
     field_of D ''STP'' ''GLOBAL'' ''hello_time'' c = Some (str_int ht)"

definition timers_ok :: "'c db_env \<Rightarrow> 'c \<Rightarrow> bool" where
  "timers_ok D c \<longleftrightarrow>
     (get_global_stp_mode D c = Some ''pvst'' \<longrightarrow> (\<exists>fd ma ht. global_timers D c fd ma ht \<and> sane_timers fd ma ht))"

context config_db
begin

lemmas stp_bodies =
  update_stp_vlan_parameter_def enable_stp_for_vlans_def enable_stp_for_interfaces_def each_member_def
  enable_mst_instance0_def enable_mst_for_interfaces_def disable_global_pvst_def disable_global_mst_def
  global_timer_def pvst_only_def vlan_timer_def set_port_field_def vlan_interface_field_def guard_command_def

lemmas global_defs =
  spanning_tree_enable_def stp_disable_def stp_global_root_guard_timeout_def stp_global_forward_delay_def
  stp_global_hello_interval_def stp_global_max_age_def stp_global_max_hops_def stp_global_priority_def
  stp_mst_region_name_def stp_global_revision_def

lemmas vlan_defs =
  stp_vlan_enable_def stp_vlan_disable_def stp_vlan_forward_delay_def stp_vlan_hello_interval_def
  stp_vlan_max_age_def stp_vlan_priority_def stp_vlan_interface_priority_def stp_vlan_interface_cost_def

lemmas port_defs =
  stp_interface_portfast_enable_def stp_interface_portfast_disable_def stp_interface_edge_port_enable_def
  stp_interface_edge_port_disable_def stp_interface_uplink_fast_enable_def stp_interface_uplink_fast_disable_def
  stp_interface_link_type_point_to_point_def stp_interface_link_type_shared_def stp_interface_link_type_auto_def
  stp_interface_link_type_set_def

lemmas intf_defs =
  stp_interface_path_cost_def stp_interface_enable_def stp_interface_disable_def mstp_interface_edge_port_def
  stp_interface_bpdu_guard_enable_def stp_interface_bpdu_guard_disable_def stp_interface_root_guard_enable_def
  stp_interface_root_guard_disable_def stp_interface_priority_def stp_interface_cost_def

lemmas mst_defs =
  mst_instance_interface_priority_def mst_instance_interface_cost_def mst_instance_priority_def
  mst_instance_vlan_add_def mst_instance_vlan_del_def

text \<open>Which tables the groups of commands write.\<close>

lemma global_frame:
  "t \<notin> {''STP'', ''STP_VLAN'', ''STP_PORT'', ''STP_VLAN_PORT'', ''STP_MST'', ''STP_MST_INST'', ''STP_MST_PORT''} \<Longrightarrow>
     leaves D t (run_global D g)"
  by (cases g) (auto simp: global_defs stp_bodies intro!: leaves_intros leaves_put)

lemma vlan_frame: "t \<notin> {''STP_VLAN'', ''STP_VLAN_PORT''} \<Longrightarrow> leaves D t (run_vlan D v)"
  by (cases v) (auto simp: vlan_defs stp_bodies Let_def intro!: leaves_intros leaves_put)

lemma port_frame: "t \<noteq> ''STP_PORT'' \<Longrightarrow> leaves D t (run_port D p)"
  by (cases p) (auto simp: port_defs stp_bodies intro!: leaves_intros leaves_put)

lemma intf_frame: "t \<notin> {''STP_PORT'', ''STP_VLAN_PORT''} \<Longrightarrow> leaves D t (run_intf D i)"
  by (cases i) (auto simp: intf_defs stp_bodies intro!: leaves_intros leaves_put)

lemma mst_frame: "t \<notin> {''STP_MST_INST'', ''STP_MST_PORT''} \<Longrightarrow> leaves D t (run_mst D m)"
  by (cases m) (auto simp: mst_defs stp_bodies intro!: leaves_intros leaves_put)

lemma run_frame:
  "t \<notin> {''STP'', ''STP_VLAN'', ''STP_PORT'', ''STP_VLAN_PORT'', ''STP_MST'', ''STP_MST_INST'', ''STP_MST_PORT''} \<Longrightarrow>
     leaves D t (run D cmd)"
  by (cases cmd) (auto intro!: global_frame vlan_frame port_frame intf_frame mst_frame)

section \<open>Timer commands\<close>

lemma mode_field: "get_global_stp_mode D c = field_of D ''STP'' ''GLOBAL'' ''mode'' c"
  by (simp add: get_global_stp_mode_def field_of_def)

lemma timers_ok_same:
  assumes "\<And>f. field_of D ''STP'' ''GLOBAL'' f c' = field_of D ''STP'' ''GLOBAL'' f c"
  shows "timers_ok D c' \<longleftrightarrow> timers_ok D c"
  using assms by (simp add: timers_ok_def global_timers_def mode_field)

lemma leaves_keeps_timers: "leaves D ''STP'' m \<Longrightarrow> keeps (timers_ok D) m"
  unfolding keeps_def using timers_ok_same leavesD by metis

lemma leaves_update: "leaves D ''STP'' (update_stp_vlan_parameter D p x)"
  by (auto simp: update_stp_vlan_parameter_def intro!: leaves_intros leaves_put)

lemma enabled_pvst: "get_global_stp_mode D c = Some ''pvst'' \<Longrightarrow> is_global_stp_enabled D c"
  by (simp add: get_global_stp_mode_def is_global_stp_enabled_def)

lemma global_timer_pvst:
  assumes "get_global_stp_mode D c = Some ''pvst''"
  shows "global_timer D name valid x c =
     seq [valid, is_valid_stp_global_parameters D name x, update_stp_vlan_parameter D name x,
          put (db_mod_entry D ''STP'' ''GLOBAL'' [(name, FInt x)])] c"
  using assms enabled_pvst [OF assms]
  by (simp add: global_timer_def check_if_global_stp_enabled_def seq_returned del: seq.simps(2))

lemma update_returns:
  assumes "name \<in> {''priority'', ''max_age'', ''hello_time'', ''forward_delay''}"
  shows "fst (update_stp_vlan_parameter D name x c) = Inr ()"
proof -
  have "(name \<notin> {''priority'', ''max_age'', ''hello_time'', ''forward_delay''}) = False" using assms by simp
  then show ?thesis
    unfolding update_stp_vlan_parameter_def by (intro returnsD) (simp only:, intro returns_intros)
qed

text \<open>What a timer command stores once its checks have passed.\<close>

lemma global_timer_cases:
  assumes "get_global_stp_mode D c = Some ''pvst''" and "name \<in> {''max_age'', ''hello_time'', ''forward_delay''}"
    and "snd (valid c) = c"
  shows "(\<exists>e. global_timer D name valid x c = (Inl e, c) \<and>
            (fst (valid c) = Inl e \<or> fst (is_valid_stp_global_parameters D name x c) = Inl e)) \<or>
     fst (global_timer D name valid x c) = Inr () \<and> fst (valid c) = Inr () \<and>
     fst (is_valid_stp_global_parameters D name x c) = Inr () \<and>
     (\<forall>f. field_of D ''STP'' ''GLOBAL'' f (snd (global_timer D name valid x c)) =
        (if f = name then Some (str_int x) else field_of D ''STP'' ''GLOBAL'' f c))"
proof -
  let ?u = "update_stp_vlan_parameter D name x"
  have u: "fst (?u c) = Inr ()" using assms(2) by (intro update_returns) auto
  have l: "field_of D ''STP'' ''GLOBAL'' f (snd (?u c)) = field_of D ''STP'' ''GLOBAL'' f c" for f
    using leavesD [OF leaves_update] .
  show ?thesis
    unfolding global_timer_pvst [OF assms(1)]
    using u l assms(3)
    by (cases "fst (valid c)"; cases "fst (is_valid_stp_global_parameters D name x c)")
       (auto simp: fst_seq snd_seq mod_field prod_eq_iff simp del: seq.simps(2))
qed

lemma global_params:
  assumes "global_timers D c fd ma ht"
  shows "fst (is_valid_stp_global_parameters D ''forward_delay'' x c) = Inr () \<longleftrightarrow> ma \<le> 2 * (x - 1) \<and> 2 * (ht + 1) \<le> ma"
    and "fst (is_valid_stp_global_parameters D ''max_age'' x c) = Inr () \<longleftrightarrow> x \<le> 2 * (fd - 1) \<and> 2 * (ht + 1) \<le> x"
    and "fst (is_valid_stp_global_parameters D ''hello_time'' x c) = Inr () \<longleftrightarrow> ma \<le> 2 * (fd - 1) \<and> 2 * (x + 1) \<le> ma"
  using assms
  by (auto simp: is_valid_stp_global_parameters_def attempt_def entry_params_ok_def params_ok_def validate_params_def
      global_timers_def field_of_def Let_def)

lemma timer_command_keeps:
  assumes "name \<in> {''max_age'', ''hello_time'', ''forward_delay''}"
    and "valid = fail_if (\<not> in_range lo hi x) msg"
    and "(name, lo, hi) \<in> {(''forward_delay'', 4, 30), (''max_age'', 6, 40), (''hello_time'', 1, 10)}"
  shows "keeps (timers_ok D) (global_timer D name valid x)"
  unfolding keeps_def
proof (intro allI impI)
  fix c assume ok: "timers_ok D c"
  show "timers_ok D (snd (global_timer D name valid x c))"
  proof (cases "get_global_stp_mode D c = Some ''pvst''")
    case True
    then obtain fd ma ht where t: "global_timers D c fd ma ht" "sane_timers fd ma ht"
      using ok by (auto simp: timers_ok_def)
    have v: "snd (valid c) = c" using assms(2) by simp
    from global_timer_cases [where valid = valid and name = name and c = c and x = x, OF True assms(1) v] show ?thesis
    proof (elim disjE exE conjE)
      fix e assume "global_timer D name valid x c = (Inl e, c)"
      with ok show ?thesis by simp
    next
      fix e assume "global_timer D name valid x c = (Inl e, c)"
      with ok show ?thesis by simp
    next
      let ?c' = "snd (global_timer D name valid x c)"
      assume r: "fst (valid c) = Inr ()" "fst (is_valid_stp_global_parameters D name x c) = Inr ()"
        and f: "\<forall>f. field_of D ''STP'' ''GLOBAL'' f ?c' =
          (if f = name then Some (str_int x) else field_of D ''STP'' ''GLOBAL'' f c)"
      have "in_range lo hi x" using r(1) assms(2) by (simp split: if_splits)
      then have "\<exists>fd ma ht. global_timers D ?c' fd ma ht \<and> sane_timers fd ma ht"
        using assms(3) r(2) f t global_params [OF t(1), of x]
        by (auto simp: global_timers_def sane_timers_def in_range_def)
      then show ?thesis by (simp add: timers_ok_def)
    qed
  next
    case False
    have "leaves D ''STP'' valid" using assms(2) by (auto intro: leaves_intros)
    then have l: "leaves D ''STP'' (seq [valid, put (db_mod_entry D ''STP_MST'' ''GLOBAL'' [(name, FInt x)])])"
      by (intro leaves_intros leaves_put) simp_all
    have "field_of D ''STP'' ''GLOBAL'' f (snd (global_timer D name valid x c)) = field_of D ''STP'' ''GLOBAL'' f c" for f
      using False leavesD [OF l]
      by (simp add: global_timer_def fst_seq snd_seq ask_def fail_def raise_def split: sum.splits del: seq.simps(2))
    then show ?thesis using ok timers_ok_same by blast
  qed
qed

end

end
