(* ===== verification/StpInv.thy ===== *)
theory StpInv
  imports StpFacts
begin

text \<open>
  Invariants of a configuration session: the relation between the global timers, and the number
  of VLANs that spanning tree is enabled for.
\<close>

definition enabled_vlans :: "'c db_env \<Rightarrow> 'c \<Rightarrow> string set" where
  "enabled_vlans D c = {k. field_of D ''STP_VLAN'' k ''enabled'' c = Some ''true''}"

definition vlans_ok :: "'c db_env \<Rightarrow> 'c \<Rightarrow> bool" where
  "vlans_ok D c \<longleftrightarrow> get_stp_enabled_vlan_count D c \<le> get_max_stp_instances \<and>
     (get_global_stp_mode D c \<noteq> Some ''pvst'' \<longrightarrow> get_stp_enabled_vlan_count D c = 0)"

context config_db
begin

section \<open>The timers\<close>

lemma timer_keeps:
  "keeps (timers_ok D) (stp_global_forward_delay D x)" "keeps (timers_ok D) (stp_global_hello_interval D x)"
  "keeps (timers_ok D) (stp_global_max_age D x)"
  unfolding stp_global_forward_delay_def stp_global_hello_interval_def stp_global_max_age_def
  by (rule timer_command_keeps; simp add: is_valid_forward_delay_def is_valid_hello_interval_def is_valid_max_age_def)+

lemma other_field_keeps:
  assumes "n \<notin> {''mode'', ''forward_delay'', ''max_age'', ''hello_time''}"
  shows "keeps (timers_ok D) (put (db_mod_entry D ''STP'' ''GLOBAL'' [(n, v)]))"
proof (rule keeps_put)
  have "''mode'' \<noteq> n" "''forward_delay'' \<noteq> n" "''max_age'' \<noteq> n" "''hello_time'' \<noteq> n" using assms by auto
  then show "timers_ok D c \<Longrightarrow> timers_ok D (db_mod_entry D ''STP'' ''GLOBAL'' [(n, v)] c)" for c
    by (simp add: timers_ok_def global_timers_def mode_field mod_field)
qed

lemma leaves_enable:
  "t \<noteq> ''STP_PORT'' \<Longrightarrow> leaves D t (enable_stp_for_interfaces D)" "t \<noteq> ''STP_VLAN'' \<Longrightarrow> leaves D t (enable_stp_for_vlans D)"
  "t \<notin> {''STP_PORT'', ''STP_MST_PORT''} \<Longrightarrow> leaves D t (enable_mst_for_interfaces D)"
  "t \<noteq> ''STP_MST_INST'' \<Longrightarrow> leaves D t (enable_mst_instance0 D)"
  by (auto simp: stp_bodies intro!: leaves_intros leaves_put)

lemma enable_keeps: "keeps (timers_ok D) (spanning_tree_enable D mode)"
proof -
  have pvst: "timers_ok D (db_set_entry D ''STP'' ''GLOBAL'' (Some (pvst_global_fvs ''pvst'')) c)" for c
    by (auto simp: timers_ok_def global_timers_def sane_timers_def mode_field set_field pvst_global_fvs_def
        intro!: exI [of _ 15] exI [of _ 20] exI [of _ 2])
  have mst: "timers_ok D (db_set_entry D ''STP'' ''GLOBAL'' (Some [(''mode'', FStr ''mst'')]) c)" for c
    by (simp add: timers_ok_def mode_field set_field)
  have "keeps (timers_ok D) (enable_stp_for_interfaces D)" "keeps (timers_ok D) (enable_stp_for_vlans D)"
    "keeps (timers_ok D) (enable_mst_for_interfaces D)" "keeps (timers_ok D) (enable_mst_instance0 D)"
    by (rule leaves_keeps_timers, rule leaves_enable, simp)+
  then show ?thesis
    unfolding spanning_tree_enable_def by (auto intro!: keeps_intros keeps_put simp: pvst mst)
qed

lemma disable_keeps: "keeps (timers_ok D) (stp_disable D mode)"
proof -
  have "keeps (timers_ok D) (put (db_set_entry D ''STP'' ''GLOBAL'' None))"
    by (intro keeps_put) (simp add: timers_ok_def mode_field unset_field)
  then show ?thesis
    unfolding stp_disable_def disable_global_pvst_def disable_global_mst_def
    by (auto intro!: keeps_intros leaves_keeps_timers [OF leaves_put(3)])
qed

lemma run_keeps_timers: "keeps (timers_ok D) (run D cmd)"
proof (cases cmd)
  case (Global g)
  have "keeps (timers_ok D) (run_global D g)"
    by (cases g)
       (auto intro!: timer_keeps enable_keeps disable_keeps keeps_intros other_field_keeps
         leaves_keeps_timers [OF leaves_put(2) [where t' = "''STP_MST''"]] leaves_keeps_timers [OF leaves_update]
         simp: stp_global_root_guard_timeout_def stp_global_max_hops_def stp_global_priority_def
           stp_mst_region_name_def stp_global_revision_def)
  with Global show ?thesis by simp
next
  case (Vlan v) then show ?thesis by (simp add: leaves_keeps_timers vlan_frame)
next
  case (Port p) then show ?thesis by (simp add: leaves_keeps_timers port_frame)
next
  case (Intf i) then show ?thesis by (simp add: leaves_keeps_timers intf_frame)
next
  case (Mst m) then show ?thesis by (simp add: leaves_keeps_timers mst_frame)
qed

section \<open>The VLANs\<close>

lemma enabled_count: "finite (enabled_vlans D c)" "get_stp_enabled_vlan_count D c = card (enabled_vlans D c)"
proof -
  let ?ks = "filter (\<lambda>k. dget (db_get_entry D ''STP_VLAN'' k c) ''enabled'' = Some ''true'') (dkeys (db_get_table D ''STP_VLAN'' c))"
  have s: "set ?ks = enabled_vlans D c"
    using table_key by (auto simp: enabled_vlans_def field_of_def dhas_iff)
  show "finite (enabled_vlans D c)" by (metis s List.finite_set)
  have "distinct ?ks" using table_distinct by simp
  then show "get_stp_enabled_vlan_count D c = card (enabled_vlans D c)"
    unfolding get_stp_enabled_vlan_count_def by (metis s distinct_card)
qed

lemma vlans_ok_iff:
  "vlans_ok D c \<longleftrightarrow> card (enabled_vlans D c) \<le> 255 \<and> (get_global_stp_mode D c \<noteq> Some ''pvst'' \<longrightarrow> enabled_vlans D c = {})"
  using enabled_count [of c] by (auto simp: vlans_ok_def get_max_stp_instances_def)

lemma leaves_vlans: "leaves D ''STP_VLAN'' m \<Longrightarrow> enabled_vlans D (snd (m c)) = enabled_vlans D c"
  by (simp add: enabled_vlans_def leavesD)

lemma leaves_mode: "leaves D ''STP'' m \<Longrightarrow> get_global_stp_mode D (snd (m c)) = get_global_stp_mode D c"
  by (simp add: mode_field leavesD)

lemma leaves_wp:
  assumes "leaves D ''STP_VLAN'' m" "leaves D ''STP'' m"
  shows "wp m (\<lambda>c'. enabled_vlans D c' = enabled_vlans D c \<and> get_global_stp_mode D c' = get_global_stp_mode D c)
           (\<lambda>c'. enabled_vlans D c' = enabled_vlans D c \<and> get_global_stp_mode D c' = get_global_stp_mode D c) c"
  using leaves_vlans [OF assms(1), of c] leaves_mode [OF assms(2), of c]
  by (cases "m c") (simp add: wp_def split: sum.splits)

lemma leaves_keeps_vlans: "leaves D ''STP_VLAN'' m \<Longrightarrow> leaves D ''STP'' m \<Longrightarrow> keeps (vlans_ok D) m"
  by (simp add: keeps_def vlans_ok_iff leaves_vlans leaves_mode)

lemma vlans_after [simp]:
  "t \<noteq> ''STP_VLAN'' \<Longrightarrow> enabled_vlans D (db_set_entry D t k x c) = enabled_vlans D c"
  "t \<noteq> ''STP_VLAN'' \<Longrightarrow> enabled_vlans D (db_mod_entry D t k fv c) = enabled_vlans D c"
  "enabled_vlans D (db_delete_table D t c) = (if t = ''STP_VLAN'' then {} else enabled_vlans D c)"
  "enabled_vlans D (db_set_entry D ''STP_VLAN'' v (Some (vlan_fvs D c')) c) = insert v (enabled_vlans D c)"
  "enabled_vlans D (db_mod_entry D ''STP_VLAN'' v [(''enabled'', FStr ''true'')] c) = insert v (enabled_vlans D c)"
  "enabled_vlans D (db_mod_entry D ''STP_VLAN'' v [(''enabled'', FStr ''false'')] c) = enabled_vlans D c - {v}"
  "n \<noteq> ''enabled'' \<Longrightarrow> enabled_vlans D (db_mod_entry D ''STP_VLAN'' v [(n, y)] c) = enabled_vlans D c"
  by (cases x; auto simp: enabled_vlans_def db_laws vlan_fvs_def split: if_splits)+

lemma mode_after [simp]:
  "t \<noteq> ''STP'' \<Longrightarrow> get_global_stp_mode D (db_set_entry D t k x c) = get_global_stp_mode D c"
  "t \<noteq> ''STP'' \<Longrightarrow> get_global_stp_mode D (db_mod_entry D t k fv c) = get_global_stp_mode D c"
  "t \<noteq> ''STP'' \<Longrightarrow> get_global_stp_mode D (db_delete_table D t c) = get_global_stp_mode D c"
  "get_global_stp_mode D (db_set_entry D ''STP'' ''GLOBAL'' None c) = None"
  "get_global_stp_mode D (db_set_entry D ''STP'' ''GLOBAL'' (Some (pvst_global_fvs m)) c) = Some m"
  "get_global_stp_mode D (db_set_entry D ''STP'' ''GLOBAL'' (Some [(''mode'', FStr m)]) c) = Some m"
  "n \<noteq> ''mode'' \<Longrightarrow> get_global_stp_mode D (db_mod_entry D ''STP'' ''GLOBAL'' [(n, y)] c) = get_global_stp_mode D c"
  by (cases x; auto simp: mode_field db_laws pvst_global_fvs_def split: if_splits)+

lemma update_vlans: "n \<noteq> ''enabled'' \<Longrightarrow> keeps (vlans_ok D) (update_stp_vlan_parameter D n x)"
  unfolding update_stp_vlan_parameter_def
  by (intro keeps_intros keeps_put) (simp add: vlans_ok_iff)

lemma enable_vlans_wp:
  assumes "get_global_stp_mode D c = Some ''pvst''" and "enabled_vlans D c = {}"
  shows "wp (enable_stp_for_vlans D) (vlans_ok D) (vlans_ok D) c"
proof -
  define ks where "ks = take get_max_stp_instances (natsorted D (dkeys (db_get_table D ''VLAN'' c)))"
  define I where "I = (\<lambda>c'. get_global_stp_mode D c' = Some ''pvst'' \<and> enabled_vlans D c' \<subseteq> set ks)"
  have "I c'' \<Longrightarrow> vlans_ok D c''" for c''
  proof -
    assume i: "I c''"
    then have "card (enabled_vlans D c'') \<le> card (set ks)" unfolding I_def by (intro card_mono) auto
    also have "\<dots> \<le> 255" using card_length [of ks] unfolding ks_def by (simp add: get_max_stp_instances_def)
    finally show "vlans_ok D c''" using i by (simp add: vlans_ok_iff I_def)
  qed
  then show ?thesis
    unfolding enable_stp_for_vlans_def
    by (auto simp: wp_rules ks_def [symmetric] I_def assms intro!: wp_each [where I = I])
qed

lemma enable_vlans: "keeps (vlans_ok D) (spanning_tree_enable D mode)"
  unfolding keeps_wp
proof (intro allI impI)
  fix c assume ok: "vlans_ok D c"
  let ?p = "db_set_entry D ''STP'' ''GLOBAL'' (Some (pvst_global_fvs ''pvst'')) c"
  let ?m = "db_set_entry D ''STP'' ''GLOBAL'' (Some [(''mode'', FStr ''mst'')]) c"
  have "wp (seq [enable_stp_for_interfaces D, enable_stp_for_vlans D]) (vlans_ok D) (vlans_ok D) ?p"
    if "enabled_vlans D c = {}"
  proof -
    have "wp (enable_stp_for_interfaces D) (\<lambda>c'. enabled_vlans D c' = {} \<and> get_global_stp_mode D c' = Some ''pvst'')
        (\<lambda>c'. enabled_vlans D c' = {} \<and> get_global_stp_mode D c' = Some ''pvst'') ?p"
      using leaves_wp [of "enable_stp_for_interfaces D" ?p] that leaves_enable by simp
    then show ?thesis unfolding wp_rules by (rule wp_mono) (simp_all add: enable_vlans_wp vlans_ok_iff)
  qed
  moreover have "keeps (vlans_ok D) (seq [enable_mst_for_interfaces D, enable_mst_instance0 D])"
    by (intro leaves_keeps_vlans leaves_intros leaves_enable) simp_all
  then have "wp (seq [enable_mst_for_interfaces D, enable_mst_instance0 D]) (vlans_ok D) (vlans_ok D) ?m"
    if "enabled_vlans D c = {}"
    by (rule wp_keeps) (simp add: vlans_ok_iff that)
  ultimately show "wp (spanning_tree_enable D mode) (vlans_ok D) (vlans_ok D) c"
    using ok by (auto simp: spanning_tree_enable_def wp_rules vlans_ok_iff)
qed

lemma disable_vlans: "keeps (vlans_ok D) (stp_disable D mode)"
  unfolding keeps_wp stp_disable_def disable_global_pvst_def disable_global_mst_def
  by (auto simp: wp_rules vlans_ok_iff)

lemma vlan_enable_vlans: "keeps (vlans_ok D) (stp_vlan_enable D vid)"
proof -
  let ?k = "vlan_name_of vid"
  define rest where "rest = ask (\<lambda>c. dkeys (db_get_table D ''STP_VLAN_PORT'' c)) (\<lambda>keys. each keys (\<lambda>k.
               attempt (\<lambda>c. key_pair k) (\<lambda>(vlan, intf).
                 if vlan = ?k
                 then ask (db_get_entry D ''STP_VLAN_PORT'' (?k @ ''|'' @ intf)) (\<lambda>entry.
                        put (db_mod_entry D ''STP_VLAN_PORT'' (?k @ ''|'' @ intf)
                               (map (\<lambda>(f, v). (f, FStr v)) entry)))
                 else finish)))"
  have "keeps (vlans_ok D) rest"
    unfolding rest_def by (intro leaves_keeps_vlans leaves_intros leaves_put) simp_all
  moreover have "card (insert ?k (enabled_vlans D c)) \<le> 255" if "card (enabled_vlans D c) < 255" for c
    using that card_insert_le_m1 [of 255 "enabled_vlans D c"] by (simp add: card_insert_if enabled_count)
  ultimately show ?thesis
    unfolding keeps_wp stp_vlan_enable_def Let_def rest_def [symmetric]
    by (auto simp: wp_rules pvst_only_def check_defs vlans_ok_iff enabled_count get_max_stp_instances_def)
qed

text \<open>What \<open>config vlan add\<close> does for a new VLAN keeps the number of enabled VLANs in the bound.\<close>

lemma vlan_hook_bound: "keeps (\<lambda>c. get_stp_enabled_vlan_count D c \<le> get_max_stp_instances) (vlan_enable_stp D v)"
proof -
  have "card (insert v (enabled_vlans D c)) \<le> 255" if "card (enabled_vlans D c) < 255" for c
    using that card_insert_le_m1 [of 255 "enabled_vlans D c"] by (simp add: card_insert_if enabled_count)
  then show ?thesis
    unfolding keeps_wp vlan_enable_stp_def
    by (auto simp: wp_rules enabled_count get_max_stp_instances_def)
qed

lemma vlan_disable_vlans: "keeps (vlans_ok D) (stp_vlan_disable D vid)"
  unfolding keeps_wp
  by (auto simp: stp_vlan_disable_def pvst_only_def wp_rules check_defs vlans_ok_iff
      intro: order.trans [OF card_Diff1_le])

lemma other_table_vlans: "t \<notin> {''STP'', ''STP_VLAN''} \<Longrightarrow> keeps (vlans_ok D) (put (db_mod_entry D t k fv))"
  by (intro leaves_keeps_vlans leaves_put) auto

lemma run_keeps_vlans: "keeps (vlans_ok D) (run D cmd)"
proof (cases cmd)
  case (Global g)
  have m: "keeps (vlans_ok D) (put (db_mod_entry D ''STP'' ''GLOBAL'' [(n, v)]))" if "n \<noteq> ''mode''" for n v
    using that by (intro keeps_put) (simp add: vlans_ok_iff)
  have "keeps (vlans_ok D) (run_global D g)"
    by (cases g)
       (auto intro!: enable_vlans disable_vlans keeps_intros update_vlans m
         other_table_vlans [where t = "''STP_MST''"]
         simp: stp_global_root_guard_timeout_def stp_global_max_hops_def stp_global_priority_def
           stp_mst_region_name_def stp_global_revision_def global_timer_def
           stp_global_forward_delay_def stp_global_hello_interval_def stp_global_max_age_def)
  with Global show ?thesis by simp
next
  case (Vlan v)
  have m: "keeps (vlans_ok D) (put (db_mod_entry D ''STP_VLAN'' k [(n, y)]))" if "n \<noteq> ''enabled''" for k n y
    using that by (intro keeps_put) (simp add: vlans_ok_iff)
  have "keeps (vlans_ok D) (run_vlan D v)"
    by (cases v)
       (auto intro!: vlan_enable_vlans vlan_disable_vlans keeps_intros m
         other_table_vlans [where t = "''STP_VLAN_PORT''"]
         simp: vlan_defs(3-) vlan_timer_def pvst_only_def vlan_interface_field_def Let_def)
  with Vlan show ?thesis by simp
next
  case (Port p) then show ?thesis by (simp add: leaves_keeps_vlans port_frame)
next
  case (Intf i) then show ?thesis by (simp add: leaves_keeps_vlans intf_frame)
next
  case (Mst m) then show ?thesis by (simp add: leaves_keeps_vlans mst_frame)
qed

end

end
