(* ===== verification/StpResults.thy ===== *)
theory StpResults
  imports StpInv
begin

text \<open>
  What the commands answer: the instance commands of a database without instances, enabling and
  disabling a mode, and the forward delay.
\<close>

definition no_instances :: "'c db_env \<Rightarrow> 'c \<Rightarrow> bool" where
  "no_instances D c \<longleftrightarrow>
     db_get_entry D ''STP_GLOBAL'' ''GLOBAL'' c = [] \<and> (\<forall>n. db_get_entry D ''STP_MST_INST'' (instance_key n) c = [])"

text \<open>The tables that belong to a mode.\<close>

definition mode_tables :: "string \<Rightarrow> string set" where
  "mode_tables mode =
     (if mode = ''pvst'' then {''STP_VLAN'', ''STP_PORT'', ''STP_VLAN_PORT''}
      else {''STP_MST'', ''STP_MST_INST'', ''STP_MST_PORT'', ''STP_PORT''})"

context config_db
begin

section \<open>Instances\<close>

lemma no_instances_iff:
  "no_instances D c \<longleftrightarrow> (\<forall>f. field_of D ''STP_GLOBAL'' ''GLOBAL'' f c = None) \<and>
     (\<forall>n f. field_of D ''STP_MST_INST'' (instance_key n) f c = None)"
  by (simp add: no_instances_def entry_empty_iff)

lemma leaves_instances:
  "leaves D ''STP_GLOBAL'' m \<Longrightarrow> leaves D ''STP_MST_INST'' m \<Longrightarrow> keeps (no_instances D) m"
  by (simp add: keeps_def no_instances_iff leavesD)

lemma enable_instances: "keeps (no_instances D) (spanning_tree_enable D mode)"
proof -
  have "instance_key n \<noteq> ''MST_INSTANCE:INSTANCE0''" for n by (simp add: instance_key_def)
  then have "keeps (no_instances D) (enable_mst_instance0 D)"
    unfolding enable_mst_instance0_def by (intro keeps_put) (simp add: no_instances_iff set_field)
  moreover have "keeps (no_instances D) (enable_stp_for_interfaces D)" "keeps (no_instances D) (enable_stp_for_vlans D)"
    "keeps (no_instances D) (enable_mst_for_interfaces D)"
    by (intro leaves_instances leaves_enable; simp)+
  moreover have "keeps (no_instances D) (put (db_set_entry D ''STP'' k x))" for k x
    by (intro leaves_instances leaves_put) simp_all
  ultimately show ?thesis
    unfolding spanning_tree_enable_def by (auto intro!: keeps_intros)
qed

lemma disable_instances: "keeps (no_instances D) (stp_disable D mode)"
proof -
  have "keeps (no_instances D) (put (db_set_entry D ''STP'' k x))" for k x
    by (intro leaves_instances leaves_put) simp_all
  moreover have "keeps (no_instances D) (put (db_delete_table D t))" for t
    by (intro keeps_put) (simp add: no_instances_iff delete_field)
  ultimately show ?thesis
    unfolding stp_disable_def disable_global_pvst_def disable_global_mst_def by (auto intro!: keeps_intros)
qed

lemma instance_fails:
  assumes "no_instances D c"
  shows "\<exists>msg. run_mst D (Mst_Priority n x) c = (Inl (CtxFail msg), c)"
    and "\<exists>msg. run_mst D (Mst_Vlan_Add n v) c = (Inl (CtxFail msg), c)"
    and "\<exists>msg. run_mst D (Mst_Vlan_Del n v) c = (Inl (CtxFail msg), c)"
  using assms
  by (auto simp: mst_defs check_instance_def ask_def fail_if_def fail_def raise_def finish_def no_instances_def)

lemma run_keeps_instances: "keeps (no_instances D) (run D cmd)"
proof (cases cmd)
  case (Global g)
  have o: "keeps (no_instances D) (put (db_mod_entry D t k fv))" if "t \<in> {''STP'', ''STP_MST'', ''STP_VLAN''}" for t k fv
    using that by (intro leaves_instances leaves_put) auto
  have u: "keeps (no_instances D) (update_stp_vlan_parameter D n x)" for n x
    unfolding update_stp_vlan_parameter_def by (intro keeps_intros o) simp
  have "keeps (no_instances D) (run_global D g)"
    by (cases g) (auto simp: global_defs(3-) global_timer_def intro!: enable_instances disable_instances keeps_intros o u)
  with Global show ?thesis by simp
next
  case (Vlan v) then show ?thesis by (auto intro!: leaves_instances vlan_frame)
next
  case (Port p) then show ?thesis by (auto intro!: leaves_instances port_frame)
next
  case (Intf i) then show ?thesis by (auto intro!: leaves_instances intf_frame)
next
  case (Mst m)
  have "no_instances D (snd (run_mst D m c))" if "no_instances D c" for c
  proof -
    have o: "keeps (no_instances D) (put (db_mod_entry D ''STP_MST_PORT'' k fv))" for k fv
      by (intro leaves_instances leaves_put) simp_all
    have "keeps (no_instances D) (run_mst D (Mst_Intf_Priority n i x))" "keeps (no_instances D) (run_mst D (Mst_Intf_Cost n i x))" for n i x
      by (auto simp: mst_defs intro!: keeps_intros o)
    then show ?thesis using that instance_fails [OF that] unfolding keeps_def by (cases m) (auto, (metis snd_conv)+)
  qed
  then show ?thesis using Mst by (simp add: keeps_def)
qed

section \<open>Enabling and disabling\<close>

lemma enable_frame:
  assumes "get_global_stp_mode D c = None" and "mode \<in> {''pvst'', ''mst''}"
  shows "get_global_stp_mode D (snd (spanning_tree_enable D mode c)) = Some mode"
    and "t \<notin> mode_tables mode \<Longrightarrow> (t, k) \<noteq> (''STP'', ''GLOBAL'') \<Longrightarrow>
      field_of D t k f (snd (spanning_tree_enable D mode c)) = field_of D t k f c"
proof -
  let ?rest = "if mode = ''pvst'' then seq [enable_stp_for_interfaces D, enable_stp_for_vlans D]
    else seq [enable_mst_for_interfaces D, enable_mst_instance0 D]"
  let ?p = "db_set_entry D ''STP'' ''GLOBAL'' (Some (if mode = ''pvst'' then pvst_global_fvs mode else [(''mode'', FStr mode)])) c"
  have e: "spanning_tree_enable D mode c = ?rest ?p"
    using assms by (auto simp: spanning_tree_enable_def seq_returned simp del: seq.simps(2))
  have l: "t \<notin> mode_tables mode \<Longrightarrow> leaves D t ?rest" for t
    by (auto simp: mode_tables_def intro!: leaves_intros leaves_enable)
  have p: "get_global_stp_mode D ?p = Some mode" by simp
  show "get_global_stp_mode D (snd (spanning_tree_enable D mode c)) = Some mode"
    unfolding e using leaves_mode [OF l [of "''STP''"]] p by (simp add: mode_tables_def)
  show "field_of D t k f (snd (spanning_tree_enable D mode c)) = field_of D t k f c"
    if "t \<notin> mode_tables mode" "(t, k) \<noteq> (''STP'', ''GLOBAL'')"
    unfolding e using leavesD [OF l [OF that(1)], of k f ?p] that(2) by (auto simp: set_field)
qed

lemma disable_result:
  assumes "get_global_stp_mode D c = Some mode" and "mode \<in> {''pvst'', ''mst''}"
  shows "fst (stp_disable D mode c) = Inr ()"
    and "field_of D t k f (snd (stp_disable D mode c)) =
      (if t \<in> mode_tables mode \<or> (t, k) = (''STP'', ''GLOBAL'') then None else field_of D t k f c)"
  using assms
  by (auto simp: stp_disable_def disable_global_pvst_def disable_global_mst_def mode_tables_def seq_returned db_laws
      simp del: seq.simps(2))

section \<open>The forward delay\<close>

lemma forward_delay_result:
  assumes "get_global_stp_mode D c = Some ''pvst''" and "global_timers D c fd ma ht"
  shows "fst (stp_global_forward_delay D x c) = Inr () \<longleftrightarrow> 4 \<le> x \<and> x \<le> 30 \<and> ma \<le> 2 * (x - 1) \<and> 2 * (ht + 1) \<le> ma"
    and "fst (stp_global_forward_delay D x c) = Inr () \<Longrightarrow> global_timers D (snd (stp_global_forward_delay D x c)) x ma ht"
    and "fst (stp_global_forward_delay D x c) \<noteq> Inr () \<Longrightarrow> snd (stp_global_forward_delay D x c) = c"
proof -
  let ?t = "stp_global_forward_delay D x c"
  have v: "fst (is_valid_forward_delay x c) = Inr () \<longleftrightarrow> 4 \<le> x \<and> x \<le> 30" "snd (is_valid_forward_delay x c) = c"
    by (auto simp: is_valid_forward_delay_def in_range_def)
  have n: "''forward_delay'' \<in> {''max_age'', ''hello_time'', ''forward_delay''}" by simp
  note g = global_timer_cases [where valid = "is_valid_forward_delay x" and c = c and x = x, OF assms(1) n v(2),
      folded stp_global_forward_delay_def]
  note p = global_params(1) [OF assms(2), of x]
  show "fst ?t = Inr () \<longleftrightarrow> 4 \<le> x \<and> x \<le> 30 \<and> ma \<le> 2 * (x - 1) \<and> 2 * (ht + 1) \<le> ma"
    using g
  proof (elim disjE exE conjE)
    fix e assume "?t = (Inl e, c)" "fst (is_valid_forward_delay x c) = Inl e"
    with v(1) show ?thesis by auto
  next
    fix e assume "?t = (Inl e, c)" "fst (is_valid_stp_global_parameters D ''forward_delay'' x c) = Inl e"
    with p show ?thesis by auto
  next
    assume "fst ?t = Inr ()" "fst (is_valid_forward_delay x c) = Inr ()"
      "fst (is_valid_stp_global_parameters D ''forward_delay'' x c) = Inr ()"
    with p v(1) show ?thesis by blast
  qed
  show "global_timers D (snd ?t) x ma ht" if "fst ?t = Inr ()"
  proof -
    have "\<forall>f. field_of D ''STP'' ''GLOBAL'' f (snd ?t) =
        (if f = ''forward_delay'' then Some (str_int x) else field_of D ''STP'' ''GLOBAL'' f c)"
      using g that by auto
    then show ?thesis using assms(2) by (simp add: global_timers_def)
  qed
  show "snd ?t = c" if "fst ?t \<noteq> Inr ()" using g that by auto
qed

end

end
