(* ===== verification/StpProps.thy ===== *)
theory StpProps
  imports StpResults
begin

text \<open>
  The properties of the spanning tree commands, each with an application to a small database of
  nested dictionaries.
\<close>

section \<open>A sample database\<close>

text \<open>Two VLANs, one with a member port; a session that enables PVST and moves the forward delay.\<close>

definition sample_db :: "string dict dict dict" where
  "sample_db =
     [(''VLAN'', [(''Vlan100'', [(''vlanid'', ''100'')]), (''Vlan200'', [(''vlanid'', ''200'')])]),
      (''VLAN_MEMBER'', [(''Vlan100|Ethernet0'', [(''tagging_mode'', ''untagged'')])]),
      (''PORT'', [(''Ethernet0'', [(''alias'', ''etp1'')]), (''Ethernet4'', [(''alias'', ''etp2'')])])]"

definition sample_pvst :: "string dict dict dict" where
  "sample_pvst = snd (run nested_env (Global (Enable ''pvst'')) sample_db)"

lemma sample_session: "session nested_env sample_db sample_pvst"
  unfolding sample_pvst_def by (intro session.intros)

lemma sample_modes:
  "get_global_stp_mode nested_env sample_db = None" "get_global_stp_mode nested_env sample_pvst = Some ''pvst''"
  by code_simp+

lemma sample_timers: "global_timers nested_env sample_pvst 15 20 2"
  by code_simp

section \<open>Invariants of a session\<close>

text \<open>
  C14. In every state of a configuration session, whatever commands ran and whether they failed, a
  database in mode PVST has integer timers within their ranges that meet the relation of 802.1D,
  \<open>2 * (forward_delay - 1) \<ge> max_age \<ge> 2 * (hello_time + 1)\<close>, if this holds when the session starts.
\<close>
theorem stp_timers_invariant:
  assumes "config_db D" and "session D c c'" and "timers_ok D c"
    and "get_global_stp_mode D c' = Some ''pvst''"
  shows "\<exists>fd ma ht. global_timers D c' fd ma ht \<and> sane_timers fd ma ht"
  using session_invariant [where I = "timers_ok D", OF assms(2,3) config_db.run_keeps_timers [OF assms(1)]] assms(4)
  by (simp add: timers_ok_def)

theorem stp_timers_invariant_witness:
  "\<exists>fd ma ht. global_timers nested_env sample_pvst fd ma ht \<and> sane_timers fd ma ht"
  by (rule stp_timers_invariant [OF nested.config_db_axioms sample_session])
     (simp_all add: timers_ok_def sample_modes)

text \<open>
  C15. In every state of a session of spanning tree commands at most 255 VLANs have spanning tree enabled,
  and none has unless the mode is PVST, if this holds when the session starts.  The hook that
  \<open>config vlan add\<close> runs is not a command of the session: it keeps the number (\<open>vlan_hook_bound\<close>), but
  not the mode (\<open>vlan_hook_under_mst\<close>).
\<close>
theorem stp_vlan_bound:
  assumes "config_db D" and "session D c c'" and "vlans_ok D c"
  shows "get_stp_enabled_vlan_count D c' \<le> 255 \<and>
    (get_stp_enabled_vlan_count D c' = 0 \<or> get_global_stp_mode D c' = Some ''pvst'')"
  using session_invariant [where I = "vlans_ok D", OF assms(2,3) config_db.run_keeps_vlans [OF assms(1)]]
  by (auto simp: vlans_ok_def get_max_stp_instances_def)

theorem stp_vlan_bound_witness:
  "get_stp_enabled_vlan_count nested_env sample_pvst \<le> 255 \<and>
   (get_stp_enabled_vlan_count nested_env sample_pvst = 0 \<or> get_global_stp_mode nested_env sample_pvst = Some ''pvst'')"
proof (rule stp_vlan_bound [OF nested.config_db_axioms sample_session])
  show "vlans_ok nested_env sample_db" by code_simp
qed

section \<open>Commands\<close>

text \<open>
  In mode PVST the command \<open>forward_delay\<close> succeeds exactly for the values from 4 to 30 that
  keep the relation with the stored maximum age and hello time; then it stores the value and keeps
  the other two timers, otherwise it leaves the database as it is.
\<close>
theorem stp_forward_delay_result:
  assumes "config_db D" and "get_global_stp_mode D c = Some ''pvst''" and "global_timers D c fd ma ht"
  shows "if 4 \<le> x \<and> x \<le> 30 \<and> ma \<le> 2 * (x - 1) \<and> 2 * (ht + 1) \<le> ma
    then fst (stp_global_forward_delay D x c) = Inr () \<and> global_timers D (snd (stp_global_forward_delay D x c)) x ma ht
    else fst (stp_global_forward_delay D x c) \<noteq> Inr () \<and> snd (stp_global_forward_delay D x c) = c"
  using config_db.forward_delay_result [OF assms, of x] by auto

theorem stp_forward_delay_result_witness:
  "fst (stp_global_forward_delay nested_env 11 sample_pvst) = Inr () \<and>
   global_timers nested_env (snd (stp_global_forward_delay nested_env 11 sample_pvst)) 11 20 2 \<and>
   snd (stp_global_forward_delay nested_env 10 sample_pvst) = sample_pvst"
  using stp_forward_delay_result [OF nested.config_db_axioms sample_modes(2) sample_timers, of 11]
    stp_forward_delay_result [OF nested.config_db_axioms sample_modes(2) sample_timers, of 10] by simp

text \<open>
  Enabling a mode on a database without one and disabling it again returns, even when enabling
  failed half way; it empties the global entry and the tables of the mode and leaves every other
  field as it was.
\<close>
theorem stp_enable_disable:
  assumes "config_db D" and "get_global_stp_mode D c = None" and "mode = ''pvst'' \<or> mode = ''mst''"
  shows "fst (stp_disable D mode (snd (spanning_tree_enable D mode c))) = Inr () \<and>
    field_of D t k f (snd (stp_disable D mode (snd (spanning_tree_enable D mode c)))) =
      (if t \<in> mode_tables mode \<or> (t, k) = (''STP'', ''GLOBAL'') then None else field_of D t k f c)"
proof -
  have m: "mode \<in> {''pvst'', ''mst''}" using assms(3) by simp
  note e = config_db.enable_frame [OF assms(1,2) m] and d = config_db.disable_result [OF assms(1) _ m]
  show ?thesis using d [OF e(1)] e(2) by auto
qed

theorem stp_enable_disable_witness:
  "fst (stp_disable nested_env ''mst'' (snd (spanning_tree_enable nested_env ''mst'' sample_db))) = Inr () \<and>
   field_of nested_env ''VLAN'' ''Vlan100'' ''vlanid'' (snd (stp_disable nested_env ''mst'' (snd (spanning_tree_enable nested_env ''mst'' sample_db)))) = Some ''100''"
proof -
  have "field_of nested_env ''VLAN'' ''Vlan100'' ''vlanid'' sample_db = Some ''100''" by code_simp
  then show ?thesis
    using stp_enable_disable [OF nested.config_db_axioms sample_modes(1), of "''mst''" "''VLAN''" "''Vlan100''" "''vlanid''"]
    by (simp add: mode_tables_def)
qed

text \<open>
  From a database without MST instances and without the table \<open>STP_GLOBAL\<close>, which no command
  writes, no session gets to a state where STP can be enabled on an interface, or where the priority
  or the VLANs of an MST instance can be changed: these commands always fail and change nothing.
\<close>
theorem stp_unreachable_commands:
  assumes "config_db D" and "session D c c'" and "no_instances D c"
    and "cmd \<in> {Intf (Intf_Enable i), Mst (Mst_Priority n x), Mst (Mst_Vlan_Add n x), Mst (Mst_Vlan_Del n x)}"
  shows "\<exists>msg. run D cmd c' = (Inl (CtxFail msg), c')"
proof -
  have no: "no_instances D c'"
    using session_invariant [where I = "no_instances D", OF assms(2,3) config_db.run_keeps_instances [OF assms(1)]] .
  have "\<exists>msg. stp_interface_enable D i c' = (Inl (CtxFail msg), c')"
    using no by (simp add: stp_interface_enable_def ask_def stp_global_table_mode_def no_instances_def
        fail_if_def fail_def raise_def dget_def)
  then show ?thesis using assms(4) config_db.instance_fails [OF assms(1) no] by auto
qed

theorem stp_unreachable_commands_witness:
  "\<exists>msg. run nested_env (Mst (Mst_Vlan_Add 1 100)) sample_pvst = (Inl (CtxFail msg), sample_pvst)"
proof (rule stp_unreachable_commands [OF nested.config_db_axioms sample_session])
  show "no_instances nested_env sample_db"
    by (simp add: no_instances_def nested_env_def nested_entry_def nested_table_def sample_db_def)
qed simp

text \<open>
  The relation of a VLAN's timers is not kept: the new maximum age below is right for the global
  timers and goes to every VLAN whose maximum age equals the global forward delay.
\<close>

definition vlan_timers_db :: "string dict dict dict" where
  "vlan_timers_db =
     snd (seq (map (run nested_env) [Vlan (Vlan_Max_Age 100 15), Vlan (Vlan_Forward_Delay 100 10), Global (Max_Age 20)]) sample_pvst)"

lemma vlan_relation_broken:
  "db_get_entry nested_env ''STP_VLAN'' ''Vlan100'' vlan_timers_db =
     [(''enabled'', ''true''), (''forward_delay'', ''10''), (''hello_time'', ''2''), (''max_age'', ''20''), (''priority'', ''32768'')]"
  by code_simp

text \<open>
  The comment where \<open>config vlan add\<close> calls it says that it enables a VLAN if PVST is enabled; it does so
  under MST as well.
\<close>

lemma vlan_hook_under_mst:
  "let c = snd (vlan_enable_stp nested_env ''Vlan7'' (snd (run nested_env (Global (Enable ''mst'')) sample_db))) in
   get_global_stp_mode nested_env c = Some ''mst'' \<and>
   dget (db_get_entry nested_env ''STP_VLAN'' ''Vlan7'' c) ''enabled'' = Some ''true''"
  by code_simp

end
