(* ===== verification/Routes.thy ===== *)
theory Routes
  imports Validators NetAddr
begin

text \<open>
  The script route_check.py: the routes of APPL_DB are compared with those of ASIC_DB, what is known to
  be in only one of them is left out, and the routes FRR does not report as offloaded are collected.
  What the databases and \<open>vtysh\<close> answer is the record \<open>route_db\<close>, one for each namespace; printing,
  logging, the timeout signal and waiting are left out.
\<close>

record route_db =
  rd_route :: "string dict dict"             \<comment> \<open>APPL_DB \<open>ROUTE_TABLE\<close>\<close>
  rd_intf :: "string list"                   \<comment> \<open>keys of \<open>INTF_TABLE\<close>\<close>
  rd_neigh :: "(string \<times> string) list"       \<comment> \<open>keys of \<open>NEIGH_TABLE\<close> with their field \<open>neigh\<close>\<close>
  rd_vnet :: "string list"                   \<comment> \<open>keys of the two VNET route tables\<close>
  rd_sid :: "string list"
  rd_asic :: "string list"                   \<comment> \<open>keys the subscription pops at first\<close>
  rd_asic_state :: "(string \<times> json) list"    \<comment> \<open>keys of ASIC_STATE: the part before the first colon, the other parsed\<close>
  rd_updates :: "(string \<times> string) list list" \<comment> \<open>keys and operations popped after each wait\<close>
  rd_frr :: "nat \<Rightarrow> bool \<Rightarrow> (string \<times> json) list"  \<comment> \<open>by poll and for IPv6: what \<open>vtysh\<close> printed\<close>
  rd_config :: "string \<Rightarrow> string dict dict"   \<comment> \<open>tables of ConfigDB; the fields read are texts\<close>
  rd_chassis :: "string list"                \<comment> \<open>\<open>chassis.get_chassis_local_interfaces()\<close>\<close>

section \<open>Addresses in keys\<close>

definition value_error :: "'a res" where
  "value_error = Inl (ValueError ''does not appear to be an IPv4 or IPv6 address'')"

definition network_text :: "string \<Rightarrow> string res" where
  "network_text s = (case ip_network s of None \<Rightarrow> value_error | Some t \<Rightarrow> Inr t)"

definition address_of :: "string \<Rightarrow> ip res" where
  "address_of s = (case ip_address s of None \<Rightarrow> value_error | Some a \<Rightarrow> Inr a)"

definition add_prefix :: "string \<Rightarrow> string res" where
  "add_prefix ip = network_text (ip @ ''/'' @ (if CHR '':'' \<in> set ip then ''128'' else ''32''))"

definition add_prefix_ifnot :: "string \<Rightarrow> string res" where
  "add_prefix_ifnot ip = (if CHR ''/'' \<in> set ip then network_text ip else add_prefix ip)"

definition is_local :: "string \<Rightarrow> bool res" where
  "is_local ip = rbind (address_of (hd (split_on (CHR ''/'') ip))) (\<lambda>t. Inr (is_link_local t))"

definition is_default_route :: "string \<Rightarrow> bool res" where
  "is_default_route ip =
     rbind (address_of (hd (split_on (CHR ''/'') ip))) (\<lambda>t.
     if is_unspecified t
     then (case split_on (CHR ''/'') ip of _ # p # _ \<Rightarrow> Inr (p = ''0'') | _ \<Rightarrow> Inl IndexError)
     else Inr False)"

section \<open>Comparing sorted lists\<close>

definition cmps :: "string \<Rightarrow> string \<Rightarrow> int" where
  "cmps s1 s2 = (if s1 = s2 then 0 else if s1 < s2 then - 1 else 1)"

fun diff_sorted_lists :: "string list \<Rightarrow> string list \<Rightarrow> string list \<times> string list" where
  "diff_sorted_lists (x # xs) (y # ys) =
     (let d = cmps x y in
      if d = 0 then diff_sorted_lists xs ys
      else if d < 0 then (let (a, b) = diff_sorted_lists xs (y # ys) in (x # a, b))
      else (let (a, b) = diff_sorted_lists (x # xs) ys in (a, y # b)))"
| "diff_sorted_lists xs ys = (xs, ys)"

section \<open>Reading the databases\<close>

definition asic_key_prefix :: string where
  "asic_key_prefix = ''SAI_OBJECT_TYPE_ROUTE_ENTRY:''"

text \<open>The address of a route entry, \<open>None\<close> for other keys and link-local routes.\<close>

definition checkout_rt_entry :: "string \<Rightarrow> string option res" where
  "checkout_rt_entry k =
     (if startswith k asic_key_prefix
      then let e = takeWhile (\<lambda>c. c \<noteq> CHR 0x22) (drop (length asic_key_prefix + 9) (ascii_lower k))
           in rbind (is_local e) (\<lambda>b. Inr (if b then None else Some e))
      else Inr None)"

text \<open>A loop that collects what is not left out.\<close>

fun collect :: "('a \<Rightarrow> 'b option res) \<Rightarrow> 'a list \<Rightarrow> 'b list res" where
  "collect f [] = Inr []"
| "collect f (x # xs) = rbind (f x) (\<lambda>r. rbind (collect f xs) (\<lambda>ys. Inr (case r of None \<Rightarrow> ys | Some y \<Rightarrow> y # ys)))"

text \<open>A loop that keeps the elements with a property.\<close>

definition keep_if :: "('a \<Rightarrow> bool res) \<Rightarrow> 'a list \<Rightarrow> 'a list res" where
  "keep_if p = collect (\<lambda>x. rbind (p x) (\<lambda>b. Inr (if b then Some x else None)))"

definition get_subscribe_updates :: "route_db \<Rightarrow> (string list \<times> string list) res" where
  "get_subscribe_updates D =
     rbind (collect (\<lambda>(k, operation). rbind (checkout_rt_entry k) (\<lambda>r. Inr (map_option (\<lambda>e. (e, operation)) r)))
              (concat (map (takeWhile (\<lambda>p. fst p \<noteq> [])) (rd_updates D)))) (\<lambda>es.
     Inr (sort (map fst (filter (\<lambda>p. snd p = ''SET'') es)), sort (map fst (filter (\<lambda>p. snd p = ''DEL'') es))))"

definition is_vrf :: "string \<Rightarrow> bool" where
  "is_vrf k = startswith k ''Vrf''"

definition after_colon :: "string \<Rightarrow> string res" where
  "after_colon k = (case split_once (CHR '':'') k of [a, b] \<Rightarrow> Inr b | _ \<Rightarrow> Inl IndexError)"

definition get_appdb_routes :: "route_db \<Rightarrow> string list res" where
  "get_appdb_routes D =
     rbind (collect (\<lambda>k. rbind (if is_vrf k then after_colon k else Inr k) (\<lambda>k.
              rbind (is_local k) (\<lambda>b. if b then Inr None
                else rbind (add_prefix_ifnot (ascii_lower k)) (\<lambda>r. Inr (Some r))))) (dkeys (rd_route D))) (\<lambda>rs.
     Inr (sort rs))"

definition get_asicdb_routes :: "route_db \<Rightarrow> string list res" where
  "get_asicdb_routes D = rbind (collect checkout_rt_entry (takeWhile (\<lambda>k. k \<noteq> []) (rd_asic D))) (\<lambda>rs. Inr (sort rs))"

definition get_appdb_sids :: "route_db \<Rightarrow> string list" where
  "get_appdb_sids D = sort (rd_sid D)"

definition sid_field :: "json \<Rightarrow> string \<Rightarrow> json \<Rightarrow> string res" where
  "sid_field info f dflt =
     (case info of
        JObj d \<Rightarrow> (case (case dget d f of None \<Rightarrow> dflt | Some v \<Rightarrow> v) of JStr s \<Rightarrow> Inr s | _ \<Rightarrow> Inl TypeError)
      | _ \<Rightarrow> Inl AttributeError)"

definition get_asicdb_sids :: "route_db \<Rightarrow> string list res" where
  "get_asicdb_sids D =
     rbind (map_res (\<lambda>(_, info).
              rbind (map_res (\<lambda>f. sid_field info f (JStr ''0''))
                       [''locator_block_len'', ''locator_node_len'', ''function_len'', ''args_len'']) (\<lambda>ls.
              rbind (sid_field info ''sid'' JNull) (\<lambda>s. Inr (join_with '':'' (ls @ [s])))))
              (filter (\<lambda>p. fst p = ''SAI_OBJECT_TYPE_MY_SID_ENTRY'') (rd_asic_state D))) (\<lambda>ss.
     Inr (sort ss))"

section \<open>Routes in FRR\<close>

type_synonym frr_routes = "(string \<times> json) list \<times> string list"

definition get_or :: "json dict \<Rightarrow> string \<Rightarrow> json \<Rightarrow> json" where
  "get_or d k dflt = (case dget d k of None \<Rightarrow> dflt | Some v \<Rightarrow> v)"

text \<open>The routes without the flag, with their protocol, and the failed ones; \<open>None\<close> is an exception.\<close>

definition process_route_entry :: "string \<Rightarrow> json \<Rightarrow> frr_routes option" where
  "process_route_entry prefix route_entry =
     (case route_entry of
        JObj d \<Rightarrow>
          if list_ex (\<lambda>p. json_eq (get_or d ''protocol'' JNull) (JStr p)) [''connected'', ''kernel'', ''static''] then Some ([], [])
          else if \<not> json_eq (get_or d ''vrfName'' JNull) (JStr ''default'') then Some ([], [])
          else if \<not> truthy (get_or d ''selected'' (JBool False)) then Some ([], [])
          else Some (if truthy (get_or d ''offloaded'' (JBool False)) then [] else [(prefix, get_or d ''protocol'' (JStr []))],
                     if truthy (get_or d ''failed'' (JBool False)) then [prefix] else [])
      | _ \<Rightarrow> None)"

text \<open>The entries in the order of the stream; the first exception ends the reading, and what was read counts.\<close>

fun read_entries :: "(string \<times> json) list \<Rightarrow> frr_routes" where
  "read_entries [] = ([], [])"
| "read_entries ((prefix, e) # es) =
     (case process_route_entry prefix e of
        None \<Rightarrow> ([], [])
      | Some (m, f) \<Rightarrow> (let (ms, fs) = read_entries es in (m @ ms, f @ fs)))"

definition fetch_routes :: "(string \<times> json) list \<Rightarrow> frr_routes" where
  "fetch_routes stream =
     read_entries (concat (map (\<lambda>(prefix, es). case es of JList xs \<Rightarrow> map (\<lambda>x. (prefix, x)) xs | _ \<Rightarrow> []) stream))"

definition get_frr_routes_parallel :: "route_db \<Rightarrow> nat \<Rightarrow> frr_routes" where
  "get_frr_routes_parallel D i =
     (let (m4, f4) = fetch_routes (rd_frr D i False); (m6, f6) = fetch_routes (rd_frr D i True) in (m4 @ m6, f4 @ f6))"

definition frr_check_retries :: nat where
  "frr_check_retries = 3"

text \<open>The rounds that are left, the number of this one and what was stuck in all rounds before.\<close>

fun frr_rounds :: "route_db \<Rightarrow> nat \<Rightarrow> nat \<Rightarrow> frr_routes \<Rightarrow> frr_routes" where
  "frr_rounds D 0 i acc = acc"
| "frr_rounds D (Suc n) i acc =
     (let (miss, failed) = get_frr_routes_parallel D i;
          acc = (if i = 0 then (miss, failed)
                 else (filter (\<lambda>e. fst e \<in> fst ` set miss) (fst acc), filter (\<lambda>p. p \<in> set failed) (snd acc)))
      in if fst acc = [] \<and> snd acc = [] then acc else frr_rounds D n (Suc i) acc)"

definition check_frr_pending_routes :: "route_db \<Rightarrow> frr_routes" where
  "check_frr_pending_routes D = frr_rounds D frr_check_retries 0 ([], [])"

section \<open>What may be in one database only\<close>

definition get_interfaces :: "route_db \<Rightarrow> string list res" where
  "get_interfaces D =
     rbind (collect (\<lambda>k. case split_once (CHR '':'') (ascii_lower k) of
              [a, b] \<Rightarrow> rbind (add_prefix (hd (split_on (CHR ''/'') b))) (\<lambda>ip.
                         rbind (is_local ip) (\<lambda>l. Inr (if l then None else Some ip)))
            | _ \<Rightarrow> Inr None) (rd_intf D)) (\<lambda>xs.
     Inr (sort xs))"

definition is_point_to_point_prefix :: "string \<Rightarrow> bool" where
  "is_point_to_point_prefix prefix =
     (case ip_interface prefix of
        Some (IP4 n, p) \<Rightarrow> p = 31
      | Some (IP6 n, p) \<Rightarrow> p = 126
      | None \<Rightarrow> False)"

definition get_local_p2p_ips :: "route_db \<Rightarrow> string list" where
  "get_local_p2p_ips D =
     sort (concat (map (\<lambda>k. case split_once (CHR '':'') (ascii_lower k) of
                               [a, b] \<Rightarrow> if is_point_to_point_prefix b then [b] else []
                             | _ \<Rightarrow> []) (rd_intf D)))"

definition filter_out_local_p2p_ips :: "route_db \<Rightarrow> string list \<Rightarrow> string list" where
  "filter_out_local_p2p_ips D ks = filter (\<lambda>k. k \<notin> set (get_local_p2p_ips D)) ks"

text \<open>\<open>re.match\<close> with a pattern that is a text, or a text followed by \<open>\d+\<close>.\<close>

definition then_digit :: "string \<Rightarrow> string \<Rightarrow> bool" where
  "then_digit p s \<longleftrightarrow> startswith s p \<and> (case drop (length p) s of [] \<Rightarrow> False | c # _ \<Rightarrow> is_digit c)"

definition route_entry :: "route_db \<Rightarrow> string \<Rightarrow> string dict" where
  "route_entry D k = (case dget (rd_route D) k of None \<Rightarrow> [] | Some e \<Rightarrow> e)"

definition local_interface :: "route_db \<Rightarrow> string \<Rightarrow> bool res" where
  "local_interface D k =
     (let e = route_entry D k;
          ifname = (case dget e ''ifname'' of None \<Rightarrow> [] | Some i \<Rightarrow> i) in
      if ifname \<in> set ([''eth0'', ''eth1'', ''docker0''] @ rd_chassis D) then Inr True
      else if startswith ifname ''tun0'' \<or> startswith ifname ''lo'' \<or> then_digit ''Loopback'' ifname
      then (case dget e ''nexthop'' of
              None \<Rightarrow> Inr True
            | Some nh \<Rightarrow> if nh = [] then Inr True else rbind (address_of nh) (\<lambda>a. Inr (is_unspecified a)))
      else Inr False)"

definition filter_out_local_interfaces :: "route_db \<Rightarrow> string list \<Rightarrow> string list res" where
  "filter_out_local_interfaces D = keep_if (\<lambda>k. rbind (local_interface D k) (\<lambda>b. Inr (\<not> b)))"

definition route_field :: "string dict \<Rightarrow> string \<Rightarrow> string res" where
  "route_field e f = (case dget e f of None \<Rightarrow> Inl (KeyError f) | Some v \<Rightarrow> Inr v)"

definition voq_neigh_route :: "route_db \<Rightarrow> string \<Rightarrow> bool res" where
  "voq_neigh_route D k =
     (let prefix = split_on (CHR ''/'') k;
          e = (if route_entry D k = [] then route_entry D (hd prefix) else route_entry D k) in
      if e = [] then Inr False
      else rbind (route_field e ''ifname'') (\<lambda>i.
           if then_digit ''Ethernet-IB'' i
           then (case prefix of
                   _ # len # _ \<Rightarrow>
                     if len = ''32'' then rbind (route_field e ''nexthop'') (\<lambda>nh. Inr (nh = ''0.0.0.0''))
                     else if len = ''128'' then rbind (route_field e ''nexthop'') (\<lambda>nh. Inr (nh = ''::''))
                     else Inr False
                 | _ \<Rightarrow> Inl IndexError)
           else Inr False))"

definition filter_out_voq_neigh_routes :: "route_db \<Rightarrow> string list \<Rightarrow> string list res" where
  "filter_out_voq_neigh_routes D = keep_if (\<lambda>k. rbind (voq_neigh_route D k) (\<lambda>b. Inr (\<not> b)))"

definition filter_out_default_routes :: "string list \<Rightarrow> string list res" where
  "filter_out_default_routes = keep_if (\<lambda>rt. rbind (is_default_route rt) (\<lambda>b. Inr (\<not> b)))"

definition vnet_routes :: "route_db \<Rightarrow> string list res" where
  "vnet_routes D = map_res (\<lambda>k. rbind (after_colon k) (\<lambda>r. add_prefix_ifnot (ascii_lower r))) (rd_vnet D)"

definition filter_out_vnet_routes :: "route_db \<Rightarrow> string list \<Rightarrow> string list res" where
  "filter_out_vnet_routes D routes =
     rbind (vnet_routes D) (\<lambda>vnet.
     Inr (filter (\<lambda>r. r \<notin> set vnet) routes))"

definition is_dualtor :: "route_db \<Rightarrow> bool res" where
  "is_dualtor D =
     (case dget (rd_config D ''DEVICE_METADATA'') ''localhost'' of
        None \<Rightarrow> Inl (KeyError ''localhost'')
      | Some e \<Rightarrow> Inr (ascii_lower (case dget e ''subtype'' of None \<Rightarrow> [] | Some s \<Rightarrow> s) = ''dualtor''))"

definition standalone_ips :: "route_db \<Rightarrow> string list" where
  "standalone_ips D =
     map (\<lambda>(k, mac). join_with '':'' (tl (split_on (CHR '':'') k)))
       (filter (\<lambda>(k, mac). mac = ''00:00:00:00:00:00'') (rd_neigh D))"

definition standalone_route :: "string list \<Rightarrow> string \<Rightarrow> bool res" where
  "standalone_route ips route =
     (case split_on (CHR ''/'') route of
        [ip, subnet] \<Rightarrow> rbind (address_of ip) (\<lambda>a.
          Inr (ip \<in> set ips \<and> (case a of IP6 n \<Rightarrow> subnet = ''128'' | IP4 n \<Rightarrow> subnet = ''32'')))
      | _ \<Rightarrow> Inl (ValueError ''values to unpack''))"

definition filter_out_standalone_tunnel_routes :: "route_db \<Rightarrow> string list \<Rightarrow> string list res" where
  "filter_out_standalone_tunnel_routes D routes =
     rbind (is_dualtor D) (\<lambda>dual.
     if \<not> dual \<or> standalone_ips D = [] then Inr routes
     else keep_if (\<lambda>r. rbind (standalone_route (standalone_ips D) r) (\<lambda>b. Inr (\<not> b))) routes)"

definition is_feature_bgp_enabled :: "route_db \<Rightarrow> bool res" where
  "is_feature_bgp_enabled D =
     (case dget (rd_config D ''FEATURE'') ''bgp'' of
        None \<Rightarrow> Inr False
      | Some e \<Rightarrow> rbind (route_field e ''state'') (\<lambda>s. Inr (s = ''enabled'')))"

definition is_suppress_fib_pending_enabled :: "route_db \<Rightarrow> bool" where
  "is_suppress_fib_pending_enabled D =
     (case dget (rd_config D ''DEVICE_METADATA'') ''localhost'' of
        None \<Rightarrow> False
      | Some e \<Rightarrow> dget e ''suppress-fib-pending'' = Some ''enabled'')"

definition soc_field :: "string dict \<Rightarrow> string \<Rightarrow> string list" where
  "soc_field e f = (case dget e f of Some v \<Rightarrow> if v = [] then [] else [v] | None \<Rightarrow> [])"

definition get_soc_ips :: "route_db \<Rightarrow> string list" where
  "get_soc_ips D =
     concat (map (\<lambda>(_, e). if dget e ''cable_type'' = Some ''active-active''
                          then soc_field e ''soc_ipv4'' @ soc_field e ''soc_ipv6'' else []) (rd_config D ''MUX_CABLE''))"

definition filter_out_soc_ip_routes :: "route_db \<Rightarrow> string list \<Rightarrow> string list res" where
  "filter_out_soc_ip_routes D routes =
     rbind (is_dualtor D) (\<lambda>dual.
     Inr (if \<not> dual \<or> get_soc_ips D = [] then routes else filter (\<lambda>r. r \<notin> set (get_soc_ips D)) routes))"

definition get_vlan_neighbors :: "route_db \<Rightarrow> string list res" where
  "get_vlan_neighbors D =
     collect (\<lambda>(k, mac). case split_once (CHR '':'') k of
                [device, prefix] \<Rightarrow>
                  if startswith device ''Vlan'' then rbind (add_prefix_ifnot (ascii_lower prefix)) (\<lambda>r. Inr (Some r))
                  else Inr None
              | _ \<Rightarrow> Inr None) (rd_neigh D)"

definition filter_out_vlan_neigh_route_miss :: "route_db \<Rightarrow> string list \<times> string list \<Rightarrow> (string list \<times> string list) res" where
  "filter_out_vlan_neigh_route_miss D miss =
     rbind (is_dualtor D) (\<lambda>dual.
     if dual then rbind (get_vlan_neighbors D) (\<lambda>ns.
       Inr (filter (\<lambda>r. r \<notin> set ns) (fst miss), filter (\<lambda>r. r \<notin> set ns) (snd miss)))
     else Inr miss)"

section \<open>The check of one namespace\<close>

text \<open>The notifications sent, and the exception for a protocol that is no text.\<close>

fun mitigate_installed_not_offloaded_frr_routes :: "(string \<times> json) list \<Rightarrow> string list \<Rightarrow> (string \<times> string) list \<times> py_error option" where
  "mitigate_installed_not_offloaded_frr_routes [] rt_appl = ([], None)"
| "mitigate_installed_not_offloaded_frr_routes ((prefix, protocol) # es) rt_appl =
     (if prefix \<in> set rt_appl
      then (case protocol of
              JStr p \<Rightarrow> (let (ns, e) = mitigate_installed_not_offloaded_frr_routes es rt_appl in ((prefix, p) # ns, e))
            | _ \<Rightarrow> ([], Some TypeError))
      else mitigate_installed_not_offloaded_frr_routes es rt_appl)"

type_synonym results = "json list dict"

text \<open>\<open>results[name] = xs\<close>, if there are any.\<close>

definition category :: "string \<Rightarrow> json list \<Rightarrow> results" where
  "category name xs = (if xs = [] then [] else [(name, xs)])"

definition frr_entry :: "string \<times> json \<Rightarrow> json" where
  "frr_entry e = JObj [(''prefix'', JStr (fst e)), (''protocol'', snd e)]"

definition unaccounted_asic :: "route_db \<Rightarrow> string list \<Rightarrow> string list res" where
  "unaccounted_asic D rt_asic_miss =
     rbind (filter_out_default_routes rt_asic_miss) (\<lambda>m.
     rbind (filter_out_vnet_routes D m) (\<lambda>m.
     rbind (filter_out_standalone_tunnel_routes D m) (\<lambda>m. filter_out_soc_ip_routes D m)))"

definition unless_nil :: "('a list \<Rightarrow> 'a list res) \<Rightarrow> 'a list \<Rightarrow> 'a list res" where
  "unless_nil f xs = (if xs = [] then Inr [] else f xs)"

text \<open>The routes missed in the two databases, and the updates seen while waiting.\<close>

definition route_misses :: "route_db \<Rightarrow> string list \<Rightarrow> string list \<Rightarrow> string list \<Rightarrow>
    ((string list \<times> string list) \<times> string list \<times> string list) res" where
  "route_misses D rt_asic rt_appl intf_appl =
     (let (rt_appl_miss, rt_asic_miss) = diff_sorted_lists rt_appl rt_asic in
      rbind (unaccounted_asic D (snd (diff_sorted_lists intf_appl rt_asic_miss))) (\<lambda>rt_asic_miss.
      rbind (unless_nil (filter_out_local_interfaces D) rt_appl_miss) (\<lambda>rt_appl_miss.
      rbind (unless_nil (filter_out_voq_neigh_routes D) rt_appl_miss) (\<lambda>rt_appl_miss.
      rbind (if rt_appl_miss \<noteq> [] \<or> rt_asic_miss \<noteq> []
             then filter_out_vlan_neigh_route_miss D (rt_appl_miss, rt_asic_miss)
             else Inr (rt_appl_miss, rt_asic_miss)) (\<lambda>(rt_appl_miss, rt_asic_miss).
      rbind (if rt_appl_miss \<noteq> [] \<or> rt_asic_miss \<noteq> [] then get_subscribe_updates D else Inr ([], [])) (\<lambda>(adds, deletes).
      Inr ((filter_out_local_p2p_ips D (fst (diff_sorted_lists rt_appl_miss adds)),
            fst (diff_sorted_lists rt_asic_miss deletes)), adds, deletes)))))))"

record ns_outcome =
  oc_results :: results
  oc_adds :: "string list"
  oc_deletes :: "string list"

definition check_routes_for_namespace :: "route_db \<Rightarrow> ns_outcome res \<times> (string \<times> string) list" where
  "check_routes_for_namespace D =
     (let (rt_frr_miss, rt_frr_failed) = check_frr_pending_routes D;
          r = rbind (get_asicdb_routes D) (\<lambda>rt_asic.
              rbind (get_appdb_routes D) (\<lambda>rt_appl.
              rbind (get_interfaces D) (\<lambda>intf_appl.
              rbind (route_misses D rt_asic rt_appl intf_appl) (\<lambda>m.
              Inr (rt_appl, fst (diff_sorted_lists intf_appl rt_asic), m)))))
      in case r of
           Inl e \<Rightarrow> (Inl e, [])
         | Inr (rt_appl, intf_appl_miss, (rt_appl_miss, rt_asic_miss), adds, deletes) \<Rightarrow>
             (let results = category ''missed_ROUTE_TABLE_routes'' (map JStr rt_appl_miss)
                          @ category ''missed_INTF_TABLE_entries'' (map JStr intf_appl_miss)
                          @ category ''Unaccounted_ROUTE_ENTRY_TABLE_entries'' (map JStr rt_asic_miss)
                          @ category ''missed_FRR_routes'' (map frr_entry rt_frr_miss)
                          @ category ''failed_FRR_routes'' (map JStr rt_frr_failed);
                  outcome = \<lparr> oc_results = results, oc_adds = adds, oc_deletes = deletes \<rparr>
              in if rt_frr_miss \<noteq> [] \<and> rt_appl_miss = [] \<and> rt_asic_miss = [] \<and> is_suppress_fib_pending_enabled D
                 then (case mitigate_installed_not_offloaded_frr_routes rt_frr_miss rt_appl of
                         (ns, None) \<Rightarrow> (Inr outcome, ns)
                       | (ns, Some e) \<Rightarrow> (Inl e, ns))
                 else (Inr outcome, [])))"

definition check_sids_for_namespace :: "route_db \<Rightarrow> results res" where
  "check_sids_for_namespace D =
     rbind (get_asicdb_sids D) (\<lambda>sids_asic.
     (let (sid_appl_miss, sid_asic_miss) = diff_sorted_lists (get_appdb_sids D) sids_asic in
      Inr (category ''missed_APPL_MY_SID_TABLE_entries'' (map JStr sid_appl_miss)
         @ category ''missed_ASIC_MY_SID_TABLE_entries'' (map JStr sid_asic_miss))))"

section \<open>All namespaces\<close>

definition summarize_results :: "results dict \<Rightarrow> int dict dict" where
  "summarize_results rs = map (\<lambda>(ns, es). (ns, map (\<lambda>(k, v). (k, int (length v))) es)) rs"

definition namespaces_for :: "string list \<Rightarrow> string \<Rightarrow> string list" where
  "namespaces_for all namespace = (if namespace \<noteq> [] \<and> namespace \<in> set all then [namespace] else all)"

text \<open>
  The results that are not empty, in the order in which the namespaces were completed; an exception
  ends the reading, and the results before it are returned with -1.
\<close>

fun gather :: "(string \<Rightarrow> results res) \<Rightarrow> string list \<Rightarrow> results dict \<Rightarrow> bool \<times> results dict" where
  "gather check [] acc = (True, acc)"
| "gather check (ns # nss) acc =
     (case check ns of
        Inl e \<Rightarrow> (False, acc)
      | Inr r \<Rightarrow> gather check nss (if r = [] then acc else dset ns r acc))"

definition gathered :: "bool \<times> results dict \<Rightarrow> int \<times> results dict option" where
  "gathered g = (if \<not> fst g \<or> snd g \<noteq> [] then (- 1, Some (snd g)) else (0, None))"

definition ns_report :: "(string \<Rightarrow> route_db) \<Rightarrow> string \<Rightarrow> results res" where
  "ns_report D ns = rbind (fst (check_routes_for_namespace (D ns))) (\<lambda>r. Inr (oc_results r))"

definition check_routes :: "(string \<Rightarrow> route_db) \<Rightarrow> string list \<Rightarrow> int \<times> results dict option" where
  "check_routes D nss = gathered (gather (ns_report D) nss [])"

definition check_sids :: "(string \<Rightarrow> route_db) \<Rightarrow> string list \<Rightarrow> int \<times> results dict option" where
  "check_sids D nss = gathered (gather (\<lambda>ns. check_sids_for_namespace (D ns)) nss [])"

definition scan_interval :: "int \<Rightarrow> int" where
  "scan_interval i = (if i = 0 then 0 else if i < 10 then 10 else if 3600 < i then 3600 else i)"

definition merge_scan :: "int \<times> results dict option \<Rightarrow> int \<times> results dict option \<Rightarrow> int \<times> results dict option" where
  "merge_scan r1 r2 =
     (if fst r1 < 0 \<or> fst r2 < 0 then - 1 else 0,
      if snd r1 \<noteq> None \<or> snd r2 \<noteq> None
      then Some (dupdate (dupdate [] (case snd r1 of None \<Rightarrow> [] | Some d \<Rightarrow> d)) (case snd r2 of None \<Rightarrow> [] | Some d \<Rightarrow> d))
      else None)"

text \<open>
  One scan for the option \<open>-n\<close>; \<open>order1\<close> and \<open>order2\<close> put the namespaces into the order in which their
  checks are completed.
\<close>

definition route_check :: "(string \<Rightarrow> route_db) \<Rightarrow> bool \<Rightarrow> string list \<Rightarrow> string \<Rightarrow>
    (string list \<Rightarrow> string list) \<Rightarrow> (string list \<Rightarrow> string list) \<Rightarrow> (int \<times> results dict option) res" where
  "route_check D multi_asic all namespace order1 order2 =
     (if namespace \<noteq> [] \<and> (\<not> multi_asic \<or> namespace \<notin> set all) then Inr (- 1, None)
      else rbind (is_feature_bgp_enabled (D namespace)) (\<lambda>bgp.
           if \<not> bgp then Inr (0, None)
           else Inr (merge_scan (check_routes D (order1 (namespaces_for all namespace)))
                                (check_sids D (order2 (namespaces_for all namespace))))))"

section \<open>Messages\<close>

definition truncation_suffix :: string where
  "truncation_suffix = '' ... (truncated)''"

fun take_args :: "string list \<Rightarrow> string \<Rightarrow> bool \<Rightarrow> string \<times> bool" where
  "take_args [] msg truncated = (msg, truncated)"
| "take_args (s # ss) msg truncated =
     (if 1000 \<le> length msg then (msg, True)
      else take_args ss (msg @ take (1000 - length msg) s) (truncated \<or> 1000 - length msg < length s))"

definition print_message :: "int \<Rightarrow> int \<Rightarrow> string list \<Rightarrow> string" where
  "print_message report_level lvl ss =
     (if lvl \<le> report_level
      then (case take_args ss [] False of
              (msg, True) \<Rightarrow> take (1000 - length truncation_suffix) msg @ truncation_suffix
            | (msg, False) \<Rightarrow> msg)
      else [])"

end
