(* ===== verification/RouteProps.thy ===== *)
theory RouteProps
  imports Routes
begin

text \<open>
  What route_check.py reports: the comparison of sorted lists, the loops over filters, and the
  outcome of a whole check.
\<close>

section \<open>Lists\<close>

lemma diff_sorted_lists_nil [simp]: "diff_sorted_lists [] ys = ([], ys)" "diff_sorted_lists xs [] = (xs, [])"
  by (cases xs; cases ys; simp)+

lemma diff_sorted_lists_set:
  "set (fst (diff_sorted_lists xs ys)) \<subseteq> set xs" "set (snd (diff_sorted_lists xs ys)) \<subseteq> set ys"
  by (induction xs ys rule: diff_sorted_lists.induct) (auto simp: Let_def split: prod.splits)

lemma sorted_less_notin: "sorted (y # ys) \<Longrightarrow> x < y \<Longrightarrow> x \<notin> set (y # ys)" for x :: string
  by auto

lemma add_mset_diff_notin: "x \<notin># B \<Longrightarrow> add_mset x A - B = add_mset x (A - B)"
  by (rule multiset_eqI) (auto simp: not_in_iff)

lemma diff_sorted_lists_correct:
  assumes "sorted xs" and "sorted ys"
  shows "mset (fst (diff_sorted_lists xs ys)) = mset xs - mset ys
       \<and> mset (snd (diff_sorted_lists xs ys)) = mset ys - mset xs
       \<and> sorted (fst (diff_sorted_lists xs ys)) \<and> sorted (snd (diff_sorted_lists xs ys))"
  using assms
proof (induction xs ys rule: diff_sorted_lists.induct)
  case (1 x xs y ys)
  consider "x = y" | "x < y" | "y < x" by fastforce
  then show ?case
  proof cases
    case 1
    then show ?thesis using "1.IH"(1) "1.prems" by (simp add: cmps_def Let_def)
  next
    case 2
    then have n: "x \<notin># mset (y # ys)" using sorted_less_notin [OF "1.prems"(2)] by simp
    obtain a b where ab: "diff_sorted_lists xs (y # ys) = (a, b)" by force
    have "cmps x y < 0" "cmps x y \<noteq> 0" using 2 by (auto simp: cmps_def)
    then have IH: "mset a = mset xs - mset (y # ys)" "mset b = mset (y # ys) - mset xs" "sorted a" "sorted b"
      using "1.IH"(2) [OF refl] "1.prems" ab by auto
    have "diff_sorted_lists (x # xs) (y # ys) = (x # a, b)" using 2 ab by (auto simp: cmps_def)
    moreover have "sorted (x # a)" using IH(3) diff_sorted_lists_set(1) [of xs "y # ys"] "1.prems"(1) ab by auto
    moreover have "mset (y # ys) - mset (x # xs) = mset (y # ys) - mset xs"
      using n by (simp add: minus_add_mset_if_not_in_lhs)
    ultimately show ?thesis using IH n by (simp add: add_mset_diff_notin)
  next
    case 3
    then have n: "y \<notin># mset (x # xs)" using sorted_less_notin [OF "1.prems"(1)] by simp
    obtain a b where ab: "diff_sorted_lists (x # xs) ys = (a, b)" by force
    have "\<not> cmps x y < 0" "cmps x y \<noteq> 0" using 3 by (auto simp: cmps_def)
    then have IH: "mset a = mset (x # xs) - mset ys" "mset b = mset ys - mset (x # xs)" "sorted a" "sorted b"
      using "1.IH"(3) [OF refl] "1.prems" ab by auto
    have "diff_sorted_lists (x # xs) (y # ys) = (a, y # b)" using 3 ab by (auto simp: cmps_def)
    moreover have "sorted (y # b)" using IH(4) diff_sorted_lists_set(2) [of "x # xs" ys] "1.prems"(2) ab by auto
    moreover have "mset (x # xs) - mset (y # ys) = mset (x # xs) - mset ys"
      using n by (simp add: minus_add_mset_if_not_in_lhs)
    ultimately show ?thesis using IH n by (simp add: add_mset_diff_notin)
  qed
qed auto

lemma count_diff_sorted:
  assumes "sorted xs" and "sorted ys"
  shows "count (mset (fst (diff_sorted_lists xs ys))) r = count (mset xs) r - count (mset ys) r"
    and "count (mset (snd (diff_sorted_lists xs ys))) r = count (mset ys) r - count (mset xs) r"
    and "sorted (fst (diff_sorted_lists xs ys))" and "sorted (snd (diff_sorted_lists xs ys))"
  using diff_sorted_lists_correct [OF assms] by auto

lemma keep_if_filter:
  "keep_if p xs = Inr ys \<Longrightarrow> (\<forall>x \<in> set xs. \<exists>b. p x = Inr b) \<and> ys = filter (\<lambda>x. p x = Inr True) xs"
  unfolding keep_if_def
proof (induction xs arbitrary: ys)
  case (Cons x xs)
  then show ?case by (cases "p x") (auto simp: res_simps split: if_splits)
qed simp

lemma keep_unless_filter:
  assumes "keep_if (\<lambda>x. rbind (p x) (\<lambda>b. Inr (\<not> b))) xs = Inr ys"
  shows "ys = filter (\<lambda>x. p x \<noteq> Inr True) xs"
proof -
  have "(rbind (p x) (\<lambda>b. Inr (\<not> b)) = Inr True) = (p x \<noteq> Inr True)" if "x \<in> set xs" for x
    using keep_if_filter [OF assms] that by (cases "p x") auto
  then show ?thesis using keep_if_filter [OF assms] by (auto cong: filter_cong)
qed

lemma count_filter_list: "count (mset (filter p xs)) r = (if p r then count (mset xs) r else 0)"
  by (simp add: count_filter_mset)

lemma in_set_count: "r \<in> set xs \<longleftrightarrow> 0 < count (mset xs) r"
  by simp

lemma unless_nil_Inr: "unless_nil f xs = Inr ys \<Longrightarrow> (xs = [] \<and> ys = []) \<or> f xs = Inr ys"
  by (auto simp: unless_nil_def split: if_splits)

lemma sorted_filter_list: "sorted xs \<Longrightarrow> sorted (filter p xs)" for xs :: "string list"
  by (simp add: sorted_filter [where f = id, simplified])

section \<open>One namespace\<close>

text \<open>What keeps a route of one database out of the report.\<close>

definition vlan_neighbor :: "route_db \<Rightarrow> string \<Rightarrow> bool" where
  "vlan_neighbor D r \<longleftrightarrow> is_dualtor D = Inr True \<and> (case get_vlan_neighbors D of Inr ns \<Rightarrow> r \<in> set ns | Inl e \<Rightarrow> False)"

definition appl_ignored :: "route_db \<Rightarrow> string \<Rightarrow> bool" where
  "appl_ignored D r \<longleftrightarrow>
     local_interface D r = Inr True \<or> voq_neigh_route D r = Inr True \<or> vlan_neighbor D r \<or> r \<in> set (get_local_p2p_ips D)"

definition asic_ignored :: "route_db \<Rightarrow> string \<Rightarrow> bool" where
  "asic_ignored D r \<longleftrightarrow>
     is_default_route r = Inr True \<or> (case vnet_routes D of Inr rs \<Rightarrow> r \<in> set rs | Inl e \<Rightarrow> False) \<or> vlan_neighbor D r
     \<or> (is_dualtor D = Inr True \<and> (standalone_route (standalone_ips D) r = Inr True \<or> r \<in> set (get_soc_ips D)))"

definition reported :: "ns_outcome \<Rightarrow> string \<Rightarrow> json list" where
  "reported oc name = (case dget (oc_results oc) name of None \<Rightarrow> [] | Some xs \<Rightarrow> xs)"

lemma filter_None_True: "standalone_route [] r \<noteq> Inr True"
  by (auto simp: standalone_route_def res_simps split: list.splits)

lemma unaccounted_asic_filter:
  assumes "unaccounted_asic D xs = Inr ys"
  shows "\<exists>q. ys = filter q xs \<and> (\<forall>r. \<not> q r \<longrightarrow> asic_ignored D r) \<and> (\<forall>r. q r \<and> asic_ignored D r \<longrightarrow> vlan_neighbor D r)"
proof -
  obtain m1 vs dual where
    1: "filter_out_default_routes xs = Inr m1" and vs: "vnet_routes D = Inr vs" and dual: "is_dualtor D = Inr dual"
    using assms by (auto simp: unaccounted_asic_def filter_out_vnet_routes_def filter_out_standalone_tunnel_routes_def res_simps)
  let ?m2 = "filter (\<lambda>r. r \<notin> set vs) m1"
  have m1: "m1 = filter (\<lambda>r. is_default_route r \<noteq> Inr True) xs"
    using keep_unless_filter 1 by (simp add: filter_out_default_routes_def)
  have m2: "filter_out_vnet_routes D m1 = Inr ?m2" by (simp add: filter_out_vnet_routes_def vs)
  obtain m3 where m3: "filter_out_standalone_tunnel_routes D ?m2 = Inr m3" and m4: "filter_out_soc_ip_routes D m3 = Inr ys"
    using assms 1 m2 by (auto simp: unaccounted_asic_def res_simps)
  have m3': "m3 = filter (\<lambda>r. \<not> (dual \<and> standalone_route (standalone_ips D) r = Inr True)) ?m2"
    using m3 keep_unless_filter [of _ ?m2 m3]
    by (auto simp: filter_out_standalone_tunnel_routes_def dual filter_None_True split: if_splits)
  have m4': "ys = filter (\<lambda>r. \<not> (dual \<and> r \<in> set (get_soc_ips D))) m3"
    using m4 by (auto simp: filter_out_soc_ip_routes_def dual split: if_splits)
  show ?thesis
    by (rule exI [of _ "\<lambda>r. ((is_default_route r \<noteq> Inr True \<and> r \<notin> set vs)
             \<and> \<not> (dual \<and> standalone_route (standalone_ips D) r = Inr True)) \<and> \<not> (dual \<and> r \<in> set (get_soc_ips D))"])
       (auto simp: m4' m3' m1 asic_ignored_def vs dual)
qed

lemma unaccounted_asic_filter_alt:
  assumes "unaccounted_asic D xs = Inr ys"
  obtains q where "ys = filter q xs" and "\<And>r. (q r \<and> \<not> vlan_neighbor D r) = (\<not> asic_ignored D r)"
  using unaccounted_asic_filter [OF assms] that by (auto simp: asic_ignored_def)

lemma vlan_miss_filter:
  assumes "filter_out_vlan_neigh_route_miss D miss = Inr miss'"
  shows "miss' = (filter (\<lambda>r. \<not> vlan_neighbor D r) (fst miss), filter (\<lambda>r. \<not> vlan_neighbor D r) (snd miss))"
  using assms
  by (cases "is_dualtor D"; cases "get_vlan_neighbors D"; cases miss)
     (auto simp: filter_out_vlan_neigh_route_miss_def vlan_neighbor_def res_simps split: if_splits)

lemma sorted_updates: "get_subscribe_updates D = Inr (adds, deletes) \<Longrightarrow> sorted adds \<and> sorted deletes"
  by (auto simp: get_subscribe_updates_def res_simps)

lemma route_misses_exact:
  assumes m: "route_misses D asic appl intf = Inr ((am, sm), adds, deletes)"
    and "sorted asic" and "sorted appl" and "sorted intf"
  shows "r \<in> set am \<longleftrightarrow> count (mset asic) r + count (mset adds) r < count (mset appl) r \<and> \<not> appl_ignored D r"
    and "r \<in> set sm \<longleftrightarrow>
       count (mset appl) r + count (mset intf) r + count (mset deletes) r < count (mset asic) r \<and> \<not> asic_ignored D r"
proof -
  obtain a0 s0 where d: "diff_sorted_lists appl asic = (a0, s0)" by force
  note cd = count_diff_sorted [OF assms(3,2), unfolded d fst_conv snd_conv]
  let ?s1 = "snd (diff_sorted_lists intf s0)"
  note cs = count_diff_sorted [OF assms(4) cd(4)]
  obtain s2 a2 a3 a4 s4 where
    s2: "unaccounted_asic D ?s1 = Inr s2" and
    a2: "unless_nil (filter_out_local_interfaces D) a0 = Inr a2" and
    a3: "unless_nil (filter_out_voq_neigh_routes D) a2 = Inr a3" and
    v: "(if a3 \<noteq> [] \<or> s2 \<noteq> [] then filter_out_vlan_neigh_route_miss D (a3, s2) else Inr (a3, s2)) = Inr (a4, s4)" and
    u: "(if a4 \<noteq> [] \<or> s4 \<noteq> [] then get_subscribe_updates D else Inr ([], [])) = Inr (adds, deletes)" and
    am: "am = filter_out_local_p2p_ips D (fst (diff_sorted_lists a4 adds))" and
    sm: "sm = fst (diff_sorted_lists s4 deletes)"
    using m unfolding route_misses_def d by (auto simp: rbind_Inr_iff simp del: not_Cons_self split: prod.splits)
  obtain q where q: "s2 = filter q ?s1" "\<And>r. (q r \<and> \<not> vlan_neighbor D r) = (\<not> asic_ignored D r)"
    using unaccounted_asic_filter_alt [OF s2] by blast
  have a2': "a2 = filter (\<lambda>r. local_interface D r \<noteq> Inr True) a0"
    using unless_nil_Inr [OF a2] keep_unless_filter by (auto simp: filter_out_local_interfaces_def)
  have a3': "a3 = filter (\<lambda>r. voq_neigh_route D r \<noteq> Inr True) a2"
    using unless_nil_Inr [OF a3] keep_unless_filter by (auto simp: filter_out_voq_neigh_routes_def)
  have v': "a4 = filter (\<lambda>r. \<not> vlan_neighbor D r) a3" "s4 = filter (\<lambda>r. \<not> vlan_neighbor D r) s2"
    using v vlan_miss_filter [of D "(a3, s2)" "(a4, s4)"] by (auto split: if_splits)
  have u': "sorted adds" "sorted deletes" using u sorted_updates [of D adds deletes] by (auto split: if_splits)
  have sd: "sorted a4" "sorted s4" unfolding v' a3' a2' q(1) using cd(3) cs(4) by (simp_all add: sorted_filter_list)
  have ca: "count (mset a4) r = (if local_interface D r \<noteq> Inr True \<and> voq_neigh_route D r \<noteq> Inr True \<and> \<not> vlan_neighbor D r
              then count (mset appl) r - count (mset asic) r else 0)"
    unfolding v' a3' a2' using cd(1) by (simp add: count_filter_list)
  have cz: "count (mset s4) r = (if \<not> asic_ignored D r then count (mset asic) r - count (mset appl) r - count (mset intf) r else 0)"
    unfolding v' q(1) using cd(2) cs(2) q(2) [of r] by (auto simp: count_filter_list)
  have "r \<in> set am \<longleftrightarrow> 0 < count (mset a4) r - count (mset adds) r \<and> r \<notin> set (get_local_p2p_ips D)"
    unfolding am filter_out_local_p2p_ips_def count_diff_sorted(1) [OF sd(1) u'(1), symmetric] in_set_count [symmetric]
    by auto
  then show "r \<in> set am \<longleftrightarrow> count (mset asic) r + count (mset adds) r < count (mset appl) r \<and> \<not> appl_ignored D r"
    by (auto simp: ca appl_ignored_def)
  have "r \<in> set sm \<longleftrightarrow> 0 < count (mset s4) r - count (mset deletes) r"
    unfolding sm count_diff_sorted(1) [OF sd(2) u'(2), symmetric] in_set_count [symmetric] by simp
  then show "r \<in> set sm \<longleftrightarrow>
       count (mset appl) r + count (mset intf) r + count (mset deletes) r < count (mset asic) r \<and> \<not> asic_ignored D r"
    by (auto simp: cz)
qed

lemma reported_category:
  "dget (category n xs @ rs) m = (if n = m \<and> xs \<noteq> [] then Some xs else dget rs m)"
  by (simp add: category_def dget_def)

lemma dget_category: "dget (category n xs) m = (if n = m \<and> xs \<noteq> [] then Some xs else None)"
  by (simp add: category_def)

lemma sorted_reads:
  "get_asicdb_routes D = Inr asic \<Longrightarrow> sorted asic"
  "get_appdb_routes D = Inr appl \<Longrightarrow> sorted appl"
  "get_interfaces D = Inr intf \<Longrightarrow> sorted intf"
  by (auto simp: get_asicdb_routes_def get_appdb_routes_def get_interfaces_def res_simps)

lemma check_ns_Inr:
  assumes "check_routes_for_namespace D = (Inr oc, sent)"
  obtains asic appl intf am sm where
    "get_asicdb_routes D = Inr asic" and "get_appdb_routes D = Inr appl" and "get_interfaces D = Inr intf"
    and "route_misses D asic appl intf = Inr ((am, sm), oc_adds oc, oc_deletes oc)"
    and "oc_results oc = category ''missed_ROUTE_TABLE_routes'' (map JStr am)
                          @ category ''missed_INTF_TABLE_entries'' (map JStr (fst (diff_sorted_lists intf asic)))
                          @ category ''Unaccounted_ROUTE_ENTRY_TABLE_entries'' (map JStr sm)
                          @ category ''missed_FRR_routes'' (map frr_entry (fst (check_frr_pending_routes D)))
                          @ category ''failed_FRR_routes'' (map JStr (snd (check_frr_pending_routes D)))"
    and "sent = (if fst (check_frr_pending_routes D) \<noteq> [] \<and> am = [] \<and> sm = [] \<and> is_suppress_fib_pending_enabled D
                 then fst (mitigate_installed_not_offloaded_frr_routes (fst (check_frr_pending_routes D)) appl) else [])"
proof -
  obtain fm ff where f: "check_frr_pending_routes D = (fm, ff)" by force
  obtain asic where 1: "get_asicdb_routes D = Inr asic"
    using assms by (cases "get_asicdb_routes D") (simp_all add: check_routes_for_namespace_def f)
  obtain appl where 2: "get_appdb_routes D = Inr appl"
    using assms by (cases "get_appdb_routes D") (simp_all add: check_routes_for_namespace_def f 1)
  obtain intf where 3: "get_interfaces D = Inr intf"
    using assms by (cases "get_interfaces D") (simp_all add: check_routes_for_namespace_def f 1 2)
  obtain am sm adds dels where 4: "route_misses D asic appl intf = Inr ((am, sm), adds, dels)"
    using assms by (cases "route_misses D asic appl intf") (auto simp: check_routes_for_namespace_def f 1 2 3)
  show thesis
    by (rule that [OF 1 2 3, of am sm]; use assms in
        \<open>simp add: check_routes_for_namespace_def f 1 2 3 4 Let_def split: if_splits prod.splits option.splits\<close>)
       auto
qed

text \<open>
  C19. What the check of a namespace reports as missed in the hardware, or as unaccounted there, is
  determined entry by entry: a route of APPL_DB is reported exactly if it occurs more often there than
  in ASIC_DB and in the updates seen while waiting together and no rule exempts it, and a route of ASIC_DB
  exactly if it occurs more often than in APPL_DB, among the interfaces and in the deletions seen.
\<close>

theorem reported_routes_exact:
  assumes "check_routes_for_namespace D = (Inr oc, sent)"
    and "get_appdb_routes D = Inr appl" and "get_asicdb_routes D = Inr asic" and "get_interfaces D = Inr intf"
  shows "(JStr r \<in> set (reported oc ''missed_ROUTE_TABLE_routes'') \<longleftrightarrow>
            count (mset asic) r + count (mset (oc_adds oc)) r < count (mset appl) r \<and> \<not> appl_ignored D r)
       \<and> (JStr r \<in> set (reported oc ''Unaccounted_ROUTE_ENTRY_TABLE_entries'') \<longleftrightarrow>
            count (mset appl) r + count (mset intf) r + count (mset (oc_deletes oc)) r < count (mset asic) r
            \<and> \<not> asic_ignored D r)"
proof (rule check_ns_Inr [OF assms(1)])
  fix asic' appl' intf' am sm
  assume "get_asicdb_routes D = Inr asic'" "get_appdb_routes D = Inr appl'" "get_interfaces D = Inr intf'"
    and m: "route_misses D asic' appl' intf' = Inr ((am, sm), oc_adds oc, oc_deletes oc)"
    and r: "oc_results oc = category ''missed_ROUTE_TABLE_routes'' (map JStr am)
                          @ category ''missed_INTF_TABLE_entries'' (map JStr (fst (diff_sorted_lists intf' asic')))
                          @ category ''Unaccounted_ROUTE_ENTRY_TABLE_entries'' (map JStr sm)
                          @ category ''missed_FRR_routes'' (map frr_entry (fst (check_frr_pending_routes D)))
                          @ category ''failed_FRR_routes'' (map JStr (snd (check_frr_pending_routes D)))"
  with assms have e: "asic' = asic" "appl' = appl" "intf' = intf" by auto
  have "JStr r \<in> set (reported oc ''missed_ROUTE_TABLE_routes'') \<longleftrightarrow> r \<in> set am"
       "JStr r \<in> set (reported oc ''Unaccounted_ROUTE_ENTRY_TABLE_entries'') \<longleftrightarrow> r \<in> set sm"
    by (auto simp: reported_def r reported_category dget_category)
  then show ?thesis
    using route_misses_exact [OF m [unfolded e], of r] sorted_reads assms(2-4) by blast
qed

text \<open>
  Routes FRR reports: the loop that stops early returns what is pending in every one of the polls.
\<close>

definition stuck :: "route_db \<Rightarrow> nat \<Rightarrow> nat \<Rightarrow> frr_routes \<Rightarrow> frr_routes" where
  "stuck D n i acc =
     (filter (\<lambda>e. \<forall>j \<in> {i..<i + n}. fst e \<in> fst ` set (fst (get_frr_routes_parallel D j))) (fst acc),
      filter (\<lambda>p. \<forall>j \<in> {i..<i + n}. p \<in> set (snd (get_frr_routes_parallel D j))) (snd acc))"

lemma stuck_Suc:
  "stuck D (Suc n) i acc =
     stuck D n (Suc i) (filter (\<lambda>e. fst e \<in> fst ` set (fst (get_frr_routes_parallel D i))) (fst acc),
                        filter (\<lambda>p. p \<in> set (snd (get_frr_routes_parallel D i))) (snd acc))"
proof -
  have "{i..<i + Suc n} = insert i {Suc i..<Suc i + n}" by auto
  then show ?thesis by (simp add: stuck_def)
qed

lemma frr_rounds_stuck: "0 < i \<Longrightarrow> frr_rounds D n i acc = stuck D n i acc"
proof (induction n arbitrary: i acc)
  case (Suc n)
  have "stuck D n (Suc i) ([], []) = ([], [])" by (simp add: stuck_def)
  with Suc show ?case
    by (cases acc) (auto simp: stuck_Suc Let_def case_prod_beta prod_eq_iff)
qed (simp add: stuck_def)

lemma frr_rounds_first: "frr_rounds D (Suc n) 0 acc = stuck D n 1 (get_frr_routes_parallel D 0)"
proof -
  obtain m f where g: "get_frr_routes_parallel D 0 = (m, f)" by force
  have "stuck D n 1 ([], []) = ([], [])" by (simp add: stuck_def)
  then show ?thesis by (cases "m = [] \<and> f = []") (auto simp: g frr_rounds_stuck Let_def)
qed

text \<open>
  The routes treated as pending in FRR are those of the first poll that are pending in all three
  polls; that the loop stops as soon as none is left makes no difference.
\<close>

theorem frr_pending_exact:
  "check_frr_pending_routes D = stuck D 3 0 (get_frr_routes_parallel D 0)"
proof -
  have "stuck D 3 0 (get_frr_routes_parallel D 0) = stuck D 2 1 (get_frr_routes_parallel D 0)"
    using stuck_Suc [of D 2 0 "get_frr_routes_parallel D 0"] by (simp cong: filter_cong)
  then show ?thesis
    by (simp add: check_frr_pending_routes_def frr_check_retries_def numeral_3_eq_3 frr_rounds_first numeral_2_eq_2 del: frr_rounds.simps)
qed

section \<open>A sample\<close>

text \<open>
  One route is missing in ASIC_DB, one was added while waiting, one belongs to the interface \<open>lo\<close>; a route
  of ASIC_DB is unaccounted for.  In FRR one route is pending in all polls and one only in the first.
\<close>

definition sample_frr :: "nat \<Rightarrow> bool \<Rightarrow> (string \<times> json) list" where
  "sample_frr i v6 =
     (let e = (\<lambda>p. (p, JList [JObj [(''protocol'', JStr ''bgp''), (''vrfName'', JStr ''default''), (''selected'', JBool True)]]))
      in if v6 then [] else if i = 0 then [e ''10.1.0.0/16'', e ''10.9.0.0/16''] else [e ''10.1.0.0/16''])"

definition sample_asic_key :: "string \<Rightarrow> string" where
  "sample_asic_key p = asic_key_prefix @ ''{\"dest\":\"'' @ p @ ''\"}''"

definition sample_routes :: route_db where
  "sample_routes =
     \<lparr> rd_route = [(''10.1.0.0/16'', [(''ifname'', ''Ethernet0'')]), (''10.2.0.0/16'', [(''ifname'', ''Ethernet0'')]),
                   (''10.3.0.0/16'', [(''ifname'', ''Ethernet4'')]), (''10.0.0.1/32'', [(''ifname'', ''lo'')])],
       rd_intf = [''Ethernet0'', ''Ethernet0:10.4.0.1/24''], rd_neigh = [], rd_vnet = [], rd_sid = [],
       rd_asic = map sample_asic_key [''10.1.0.0/16'', ''10.4.0.1/32'', ''10.5.0.0/16'', ''0.0.0.0/0''],
       rd_asic_state = [], rd_updates = [[(sample_asic_key ''10.3.0.0/16'', ''SET'')]],
       rd_frr = sample_frr,
       rd_config = (\<lambda>t. if t = ''DEVICE_METADATA'' then [(''localhost'', [(''suppress-fib-pending'', ''enabled'')])] else []),
       rd_chassis = [] \<rparr>"

definition sample_synced :: route_db where
  "sample_synced = sample_routes
     \<lparr> rd_route := [(''10.1.0.0/16'', [(''ifname'', ''Ethernet0'')])],
       rd_asic := map sample_asic_key [''10.1.0.0/16'', ''10.4.0.1/32''] \<rparr>"

definition sample_outcome :: ns_outcome where
  "sample_outcome =
     \<lparr> oc_results = [(''missed_ROUTE_TABLE_routes'', [JStr ''10.2.0.0/16'']),
                     (''Unaccounted_ROUTE_ENTRY_TABLE_entries'', [JStr ''10.5.0.0/16'']),
                     (''missed_FRR_routes'', [frr_entry (''10.1.0.0/16'', JStr ''bgp'')])],
       oc_adds = [''10.3.0.0/16''], oc_deletes = [] \<rparr>"

definition synced_outcome :: ns_outcome where
  "synced_outcome =
     \<lparr> oc_results = [(''missed_FRR_routes'', [frr_entry (''10.1.0.0/16'', JStr ''bgp'')])], oc_adds = [], oc_deletes = [] \<rparr>"

lemma sample_reads:
  "get_appdb_routes sample_routes = Inr [''10.0.0.1/32'', ''10.1.0.0/16'', ''10.2.0.0/16'', ''10.3.0.0/16'']"
  "get_asicdb_routes sample_routes = Inr [''0.0.0.0/0'', ''10.1.0.0/16'', ''10.4.0.1/32'', ''10.5.0.0/16'']"
  "get_interfaces sample_routes = Inr [''10.4.0.1/32'']"
  "check_frr_pending_routes sample_routes = ([(''10.1.0.0/16'', JStr ''bgp'')], [])"
  "get_appdb_routes sample_synced = Inr [''10.1.0.0/16'']"
  "get_asicdb_routes sample_synced = Inr [''10.1.0.0/16'', ''10.4.0.1/32'']"
  "get_interfaces sample_synced = Inr [''10.4.0.1/32'']"
  "check_frr_pending_routes sample_synced = ([(''10.1.0.0/16'', JStr ''bgp'')], [])"
  by code_simp+

lemma sample_diffs:
  "diff_sorted_lists [''10.0.0.1/32'', ''10.1.0.0/16'', ''10.2.0.0/16'', ''10.3.0.0/16'']
                     [''0.0.0.0/0'', ''10.1.0.0/16'', ''10.4.0.1/32'', ''10.5.0.0/16'']
   = ([''10.0.0.1/32'', ''10.2.0.0/16'', ''10.3.0.0/16''], [''0.0.0.0/0'', ''10.4.0.1/32'', ''10.5.0.0/16''])"
  "diff_sorted_lists [''10.4.0.1/32''] [''0.0.0.0/0'', ''10.4.0.1/32'', ''10.5.0.0/16''] = ([], [''0.0.0.0/0'', ''10.5.0.0/16''])"
  "diff_sorted_lists [''10.4.0.1/32''] [''0.0.0.0/0'', ''10.1.0.0/16'', ''10.4.0.1/32'', ''10.5.0.0/16''] =
     ([], [''0.0.0.0/0'', ''10.1.0.0/16'', ''10.5.0.0/16''])"
  "diff_sorted_lists [''10.1.0.0/16''] [''10.1.0.0/16'', ''10.4.0.1/32''] = ([], [''10.4.0.1/32''])"
  "diff_sorted_lists [''10.4.0.1/32''] [''10.4.0.1/32''] = ([], [])"
  "diff_sorted_lists [''10.4.0.1/32''] [''10.1.0.0/16'', ''10.4.0.1/32''] = ([], [''10.1.0.0/16''])"
  "diff_sorted_lists [''10.2.0.0/16'', ''10.3.0.0/16''] [''10.3.0.0/16''] = ([''10.2.0.0/16''], [])"
  by code_simp+

lemma sample_filters:
  "unaccounted_asic sample_routes [''0.0.0.0/0'', ''10.5.0.0/16''] = Inr [''10.5.0.0/16'']"
  "filter_out_local_interfaces sample_routes [''10.0.0.1/32'', ''10.2.0.0/16'', ''10.3.0.0/16''] = Inr [''10.2.0.0/16'', ''10.3.0.0/16'']"
  "filter_out_voq_neigh_routes sample_routes [''10.2.0.0/16'', ''10.3.0.0/16''] = Inr [''10.2.0.0/16'', ''10.3.0.0/16'']"
  "filter_out_vlan_neigh_route_miss sample_routes ([''10.2.0.0/16'', ''10.3.0.0/16''], [''10.5.0.0/16'']) =
     Inr ([''10.2.0.0/16'', ''10.3.0.0/16''], [''10.5.0.0/16''])"
  "get_subscribe_updates sample_routes = Inr ([''10.3.0.0/16''], [])"
  "filter_out_local_p2p_ips sample_routes [''10.2.0.0/16''] = [''10.2.0.0/16'']"
  "unaccounted_asic sample_synced [] = Inr []"
  "filter_out_local_p2p_ips sample_synced [] = []"
  "is_suppress_fib_pending_enabled sample_synced"
  by code_simp+

lemma sample_routes_run:
  "check_routes_for_namespace sample_routes = (Inr sample_outcome, [])"
  "check_routes_for_namespace sample_synced = (Inr synced_outcome, [(''10.1.0.0/16'', ''bgp'')])"
  by (simp_all add: check_routes_for_namespace_def route_misses_def unless_nil_def sample_reads sample_diffs sample_filters
        category_def sample_outcome_def synced_outcome_def del: diff_sorted_lists.simps(1))

theorem reported_routes_exact_witness:
  "JStr ''10.2.0.0/16'' \<in> set (reported sample_outcome ''missed_ROUTE_TABLE_routes'')
   \<and> JStr ''10.5.0.0/16'' \<in> set (reported sample_outcome ''Unaccounted_ROUTE_ENTRY_TABLE_entries'')
   \<and> \<not> JStr ''10.0.0.1/32'' \<in> set (reported sample_outcome ''missed_ROUTE_TABLE_routes'')
   \<and> appl_ignored sample_routes ''10.0.0.1/32''"
proof -
  have "\<not> appl_ignored sample_routes ''10.2.0.0/16''" "appl_ignored sample_routes ''10.0.0.1/32''"
       "\<not> asic_ignored sample_routes ''10.5.0.0/16''" by code_simp+
  then show ?thesis
    using reported_routes_exact [OF sample_routes_run(1) sample_reads(1-3), of "''10.2.0.0/16''"]
      reported_routes_exact [OF sample_routes_run(1) sample_reads(1-3), of "''10.0.0.1/32''"]
      reported_routes_exact [OF sample_routes_run(1) sample_reads(1-3), of "''10.5.0.0/16''"]
    by (simp add: sample_outcome_def)
qed

section \<open>Mitigation\<close>

lemma mitigate_prefixes:
  "(p, q) \<in> set (fst (mitigate_installed_not_offloaded_frr_routes es appl)) \<Longrightarrow> p \<in> set appl \<and> (p, JStr q) \<in> set es"
  by (induction es appl rule: mitigate_installed_not_offloaded_frr_routes.induct)
     (auto split: if_splits json.splits prod.splits)

text \<open>
  C20. A notification that a route is installed is sent only if the option is enabled, if the route is in
  APPL_DB and pending in FRR in every poll, and if no route of APPL_DB is reported missing in ASIC_DB nor
  one of ASIC_DB unaccounted.
\<close>

theorem mitigation_safe:
  assumes "check_routes_for_namespace D = (Inr oc, sent)" and "(p, q) \<in> set sent"
  shows "is_suppress_fib_pending_enabled D
       \<and> (\<exists>appl. get_appdb_routes D = Inr appl \<and> p \<in> set appl)
       \<and> (\<forall>j < 3. p \<in> fst ` set (fst (get_frr_routes_parallel D j)))
       \<and> reported oc ''missed_ROUTE_TABLE_routes'' = [] \<and> reported oc ''Unaccounted_ROUTE_ENTRY_TABLE_entries'' = []"
proof (rule check_ns_Inr [OF assms(1)])
  fix asic appl intf am sm
  let ?F = "fst (check_frr_pending_routes D)"
  assume a: "get_appdb_routes D = Inr appl"
    and r: "oc_results oc = category ''missed_ROUTE_TABLE_routes'' (map JStr am)
                          @ category ''missed_INTF_TABLE_entries'' (map JStr (fst (diff_sorted_lists intf asic)))
                          @ category ''Unaccounted_ROUTE_ENTRY_TABLE_entries'' (map JStr sm)
                          @ category ''missed_FRR_routes'' (map frr_entry ?F)
                          @ category ''failed_FRR_routes'' (map JStr (snd (check_frr_pending_routes D)))"
    and "sent = (if ?F \<noteq> [] \<and> am = [] \<and> sm = [] \<and> is_suppress_fib_pending_enabled D
                 then fst (mitigate_installed_not_offloaded_frr_routes ?F appl) else [])"
  with assms(2) have s: "am = []" "sm = []" "is_suppress_fib_pending_enabled D"
      and "(p, q) \<in> set (fst (mitigate_installed_not_offloaded_frr_routes ?F appl))"
    by (auto split: if_splits)
  then have p: "p \<in> set appl" "(p, JStr q) \<in> set ?F" using mitigate_prefixes by auto
  have "\<forall>j < 3. p \<in> fst ` set (fst (get_frr_routes_parallel D j))"
    using p(2) by (force simp: frr_pending_exact stuck_def)
  with a s p(1) show ?thesis by (simp add: reported_def r reported_category dget_category)
qed

theorem mitigation_safe_witness:
  "is_suppress_fib_pending_enabled sample_synced
   \<and> (\<exists>appl. get_appdb_routes sample_synced = Inr appl \<and> ''10.1.0.0/16'' \<in> set appl)"
  using mitigation_safe [OF sample_routes_run(2), of "''10.1.0.0/16''" "''bgp''"] by simp

section \<open>All namespaces\<close>

lemma gather_fst:
  "fst (gather check nss acc) \<longleftrightarrow> (\<forall>ns \<in> set nss. \<exists>r. check ns = Inr r)"
  by (induction check nss acc rule: gather.induct) (auto split: sum.splits)

lemma gather_nil:
  "fst (gather check nss acc) \<Longrightarrow> snd (gather check nss acc) = [] \<longleftrightarrow> acc = [] \<and> (\<forall>ns \<in> set nss. check ns = Inr [])"
  by (induction check nss acc rule: gather.induct) (auto split: sum.splits if_splits)

lemma gathered_success:
  "gathered (gather check nss []) = (0, None) \<longleftrightarrow> (\<forall>ns \<in> set nss. check ns = Inr [])"
  "fst (gathered (gather check nss [])) = (if \<forall>ns \<in> set nss. check ns = Inr [] then 0 else - 1)"
  using gather_nil [of check nss "[]"] gather_fst [of check nss "[]"] by (auto simp: gathered_def)

lemma gather_dget:
  assumes "\<forall>ns \<in> set nss. \<exists>r. check ns = Inr r"
  shows "dget (snd (gather check nss acc)) ns =
     (if ns \<in> set nss \<and> check ns \<noteq> Inr [] then (case check ns of Inr r \<Rightarrow> Some r | Inl e \<Rightarrow> None) else dget acc ns)"
  using assms
proof (induction check nss acc rule: gather.induct)
  case (2 check n nss acc)
  then obtain r where r: "check n = Inr r" by auto
  with 2 show ?case by (auto simp: r)
qed simp

text \<open>
  The exit status of the check of all namespaces does not depend on the order in which the parallel
  checks are completed: it is 0 exactly if every namespace is checked without an exception and without
  anything to report, and if none raised an exception the report of each namespace is its own.
\<close>

theorem check_routes_order_independent:
  "fst (check_routes D nss) = (if \<forall>ns \<in> set nss. ns_report D ns = Inr [] then 0 else - 1)
   \<and> ((\<forall>ns \<in> set nss. \<exists>r. ns_report D ns = Inr r) \<longrightarrow> ns \<in> set nss \<longrightarrow> ns_report D ns = Inr (x # xs) \<longrightarrow>
        (\<exists>R. snd (check_routes D nss) = Some R \<and> dget R ns = Some (x # xs)))"
proof -
  have c: "check_routes D nss = gathered (gather (ns_report D) nss [])" by (simp add: check_routes_def)
  have "\<exists>R. snd (check_routes D nss) = Some R \<and> dget R ns = Some (x # xs)"
    if a: "\<forall>ns \<in> set nss. \<exists>r. ns_report D ns = Inr r" and "ns \<in> set nss" "ns_report D ns = Inr (x # xs)"
    using that gather_dget [OF a, of "[]" ns] by (auto simp: c gathered_def)
  then show ?thesis using gathered_success(2) [of "ns_report D" nss] by (simp add: c)
qed

theorem check_routes_order_independent_witness:
  "fst (check_routes (\<lambda>ns. if ns = ''asic0'' then sample_routes else sample_synced) [''asic1'', ''asic0'']) = - 1
   \<and> (\<exists>R. snd (check_routes (\<lambda>ns. if ns = ''asic0'' then sample_routes else sample_synced) [''asic1'', ''asic0'']) = Some R
          \<and> dget R ''asic0'' = Some (oc_results sample_outcome))"
proof -
  let ?D = "\<lambda>ns. if ns = ''asic0'' then sample_routes else sample_synced"
  have r: "ns_report ?D ''asic0'' = Inr (oc_results sample_outcome)" "ns_report ?D ''asic1'' = Inr (oc_results synced_outcome)"
    by (simp_all add: ns_report_def sample_routes_run)
  obtain x xs where "oc_results sample_outcome = x # xs" by (simp add: sample_outcome_def)
  then show ?thesis
    using check_routes_order_independent [of ?D "[''asic1'', ''asic0'']" "''asic0''" x xs] r
    by simp
qed

section \<open>Messages\<close>

lemma take_args_length: "length msg \<le> 1000 \<Longrightarrow> length (fst (take_args ss msg t)) \<le> 1000"
  by (induction ss msg t rule: take_args.induct) auto

lemma print_message_length: "length (print_message report_level lvl ss) \<le> 1000"
  using take_args_length [of "[]" ss False]
  by (auto simp: print_message_def truncation_suffix_def split: prod.splits bool.splits)

text \<open>\<open>res.update\<close> in a scan keeps only the SID report of a namespace that has both.\<close>

lemma merge_scan_overwrites: "snd (merge_scan (- 1, Some [(n, r)]) (- 1, Some [(n, s)])) = Some [(n, s)]"
  by (simp add: merge_scan_def dupdate_def)

end
