(* ===== verification/NatCmd.thy ===== *)
theory NatCmd
  imports ConfigDb NetAddr
begin

text \<open>
  The commands of \<open>config nat\<close> (config/nat.py), over the tables \<open>STATIC_NAT\<close>, \<open>STATIC_NAPT\<close>, \<open>NAT_POOL\<close>,
  \<open>NAT_BINDINGS\<close>, \<open>NAT_GLOBAL\<close> and the interface tables.  Writes go through the connector of
  config/validated_config_db_connector.py, which may refuse them: \<open>v_set\<close> and \<open>v_mod\<close> return what the
  connector raises.  That class is not modelled; it is a parameter, of which the locale \<open>nat_db\<close> assumes that
  it writes the whole entry or nothing, whatever it answers.  One definition per function, under its name; what a command prints is left out.
\<close>

record 'c nat_env =
  n_db :: "'c db_env"
  v_set :: "string \<Rightarrow> string \<Rightarrow> fvs option \<Rightarrow> 'c cmd"
  v_mod :: "string \<Rightarrow> string \<Rightarrow> fvs \<Rightarrow> 'c cmd"
  n_counters :: "'c \<Rightarrow> string dict option"   \<comment> \<open>\<open>COUNTERS_GLOBAL_NAT:Values\<close>, if it exists\<close>

text \<open>\<open>except ... as e: ctx.fail("Invalid ConfigDB. Error: {}".format(e))\<close>, without the text of the exception.\<close>

definition or_fail :: "(py_error \<Rightarrow> bool) \<Rightarrow> 'c cmd \<Rightarrow> 'c cmd" where
  "or_fail caught m c =
     (case m c of (Inl e, c') \<Rightarrow> (Inl (if caught e then CtxFail ''Invalid ConfigDB. Error: '' else e), c') | r \<Rightarrow> r)"

text \<open>\<open>except ValueError\<close>, and \<open>except (JsonPatchConflict, JsonPointerException)\<close>.\<close>

fun is_value_error :: "py_error \<Rightarrow> bool" where
  "is_value_error (ValueError m) = True"
| "is_value_error (IllegalPatchOperationError m) = True"
| "is_value_error (EmptyTableError m) = True"
| "is_value_error e = False"

fun is_patch_error :: "py_error \<Rightarrow> bool" where
  "is_patch_error (JsonPatchError m) = (m = ''conflict'')"
| "is_patch_error (JsonPointerException m) = True"
| "is_patch_error e = False"

definition nat_put :: "'c nat_env \<Rightarrow> string \<Rightarrow> string \<Rightarrow> fvs \<Rightarrow> 'c cmd" where
  "nat_put N t k fv = or_fail is_value_error (v_set N t k (Some fv))"

definition nat_remove :: "'c nat_env \<Rightarrow> string \<Rightarrow> string \<Rightarrow> 'c cmd" where
  "nat_remove N t k = or_fail is_patch_error (v_set N t k None)"

definition nat_mod :: "'c nat_env \<Rightarrow> string \<Rightarrow> string \<Rightarrow> fvs \<Rightarrow> 'c cmd" where
  "nat_mod N t k fv = or_fail is_value_error (v_mod N t k fv)"

section \<open>Checks\<close>

definition ip_reserved :: "int \<Rightarrow> bool" where
  "ip_reserved n = (n div 2 ^ 28 = 15)"

definition ip_multicast :: "int \<Rightarrow> bool" where
  "ip_multicast n = (n div 2 ^ 28 = 14)"

definition ip_loopback :: "int \<Rightarrow> bool" where
  "ip_loopback n = (n div 2 ^ 24 = 127)"

definition is_valid_ipv4_address :: "string \<Rightarrow> bool" where
  "is_valid_ipv4_address address =
     (case ip4_of address of
        None \<Rightarrow> False
      | Some ip \<Rightarrow> \<not> (ip_reserved ip \<or> ip_multicast ip \<or> ip_loopback ip \<or> address \<in> {''0.0.0.0'', ''255.255.255.255''}))"

definition is_valid_port_address :: "string \<Rightarrow> bool" where
  "is_valid_port_address address =
     (case py_int address of Inl e \<Rightarrow> False | Inr port_address \<Rightarrow> 1 \<le> port_address \<and> port_address < 65535)"

definition nat_interface_name_is_valid :: "'c nat_env \<Rightarrow> string \<Rightarrow> 'c \<Rightarrow> bool" where
  "nat_interface_name_is_valid N interface_name c =
     (if startswith interface_name ''Ethernet'' then dhas (db_get_table (n_db N) ''PORT'' c) interface_name
      else if startswith interface_name ''PortChannel'' then dhas (db_get_table (n_db N) ''PORTCHANNEL'' c) interface_name
      else if startswith interface_name ''Vlan'' then dhas (db_get_table (n_db N) ''VLAN'' c) interface_name
      else startswith interface_name ''Loopback'')"

definition need :: "string dict \<Rightarrow> string \<Rightarrow> string res" where
  "need e f = (case dget e f of None \<Rightarrow> Inl (KeyError f) | Some v \<Rightarrow> Inr v)"

text \<open>\<open>int(ipaddress.IPv4Address(s))\<close>.\<close>

definition ip4_int :: "string \<Rightarrow> int res" where
  "ip4_int s = (case ip4_of s of None \<Rightarrow> Inl (ValueError ''AddressValueError'') | Some n \<Rightarrow> Inr n)"

text \<open>A loop that returns \<open>True\<close> at the first hit.\<close>

fun exists_res :: "('a \<Rightarrow> bool res) \<Rightarrow> 'a list \<Rightarrow> bool res" where
  "exists_res p [] = Inr False"
| "exists_res p (x # xs) = rbind (p x) (\<lambda>b. if b then Inr True else exists_res p xs)"

text \<open>The address an entry translates to or from outside; \<open>None\<close> where the loop goes on.\<close>

definition outside_ip :: "string \<Rightarrow> string dict \<Rightarrow> string res" where
  "outside_ip global_ip values =
     rbind (need values ''local_ip'') (\<lambda>local_ip.
     Inr (if dget values ''nat_type'' = Some ''snat'' then local_ip else global_ip))"

definition static_key_ip :: "string \<Rightarrow> string \<Rightarrow> string option" where
  "static_key_ip table k =
     (let ps = key_parts k in
      if table = ''STATIC_NAPT'' then (if length ps = 3 then Some (hd ps) else None)
      else if table = ''STATIC_NAT'' then (if length ps = 1 then Some k else None)
      else Some ''---'')"

definition isIpOverlappingWithAnyStaticEntry :: "'c nat_env \<Rightarrow> string \<Rightarrow> string \<Rightarrow> 'c \<Rightarrow> bool res" where
  "isIpOverlappingWithAnyStaticEntry N ipAddress table c =
     exists_res (\<lambda>(k, values). case static_key_ip table k of
         None \<Rightarrow> Inr False
       | Some global_ip \<Rightarrow> rbind (outside_ip global_ip values) (\<lambda>ip. Inr (ip = ipAddress)))
       (db_get_table (n_db N) table c)"

text \<open>The first and last address of a pool.\<close>

definition pool_range :: "string \<Rightarrow> (int \<times> int) res" where
  "pool_range global_ip =
     (case split_on (CHR ''-'') global_ip of
        [a] \<Rightarrow> rbind (ip4_int a) (\<lambda>s. Inr (s, s))
      | a # b # _ \<Rightarrow> rbind (ip4_int a) (\<lambda>s. rbind (ip4_int b) (\<lambda>e. Inr (s, e)))
      | [] \<Rightarrow> Inl IndexError)"

definition isOverlappingWithAnyDynamicEntry :: "'c nat_env \<Rightarrow> string \<Rightarrow> 'c \<Rightarrow> bool res" where
  "isOverlappingWithAnyDynamicEntry N ipAddress c =
     rbind (ip4_int ipAddress) (\<lambda>ip.
     exists_res (\<lambda>(k, values).
         rbind (need values ''nat_ip'') (\<lambda>global_ip.
         rbind (pool_range global_ip) (\<lambda>(startIp, endIp). Inr (startIp \<le> ip \<and> ip \<le> endIp))))
       (db_get_table (n_db N) ''NAT_POOL'' c))"

definition same_twice_id :: "fval \<Rightarrow> string \<Rightarrow> int \<Rightarrow> int res" where
  "same_twice_id twice_nat_id v cnt = rbind (py_int v) (\<lambda>i. Inr (if FInt i = twice_nat_id then cnt + 1 else cnt))"

definition getTwiceNatIdCountWithStaticEntries :: "'c nat_env \<Rightarrow> fval \<Rightarrow> string \<Rightarrow> int \<Rightarrow> 'c \<Rightarrow> int res" where
  "getTwiceNatIdCountWithStaticEntries N twice_nat_id table cnt c =
     fold_res (\<lambda>(k, values) n. case dget values ''twice_nat_id'' of None \<Rightarrow> Inr n | Some v \<Rightarrow> same_twice_id twice_nat_id v n)
       (db_get_table (n_db N) table c) cnt"

definition getTwiceNatIdCountWithDynamicBinding :: "'c nat_env \<Rightarrow> fval \<Rightarrow> int \<Rightarrow> string option \<Rightarrow> 'c \<Rightarrow> int res" where
  "getTwiceNatIdCountWithDynamicBinding N twice_nat_id cnt dynamic_key c =
     fold_res (\<lambda>(k, values) n.
         rbind (need values ''nat_pool'') (\<lambda>pool.
         if dynamic_key = Some k then Inr n
         else if db_get_entry (n_db N) ''NAT_POOL'' pool c = [] then Inr n
         else (case dget values ''twice_nat_id'' of
                 None \<Rightarrow> Inr n
               | Some v \<Rightarrow> if v = ''NULL'' then Inr n else same_twice_id twice_nat_id v n)))
       (db_get_table (n_db N) ''NAT_BINDINGS'' c) cnt"

section \<open>Static entries\<close>

definition check_ip :: "string \<Rightarrow> string \<Rightarrow> 'c cmd" where
  "check_ip what ip =
     fail_if (\<not> is_valid_ipv4_address ip)
       (''Given '' @ what @ '' ip address '' @ ip @ '' is invalid. Please enter a valid '' @ what @ '' ip address !!'')"

text \<open>Whether the hardware has no room: also if the counters are missing.\<close>

definition counter :: "string dict option \<Rightarrow> string \<Rightarrow> int res" where
  "counter ce f = (case ce of None \<Rightarrow> Inr 0 | Some e \<Rightarrow> (case dget e f of None \<Rightarrow> Inr 0 | Some v \<Rightarrow> py_int v))"

definition nat_entries_full :: "'c nat_env \<Rightarrow> 'c \<Rightarrow> bool res" where
  "nat_entries_full N c =
     rbind (counter (n_counters N c) ''SNAT_ENTRIES'') (\<lambda>s.
     rbind (counter (n_counters N c) ''MAX_NAT_ENTRIES'') (\<lambda>m. Inr (s \<ge> m)))"

definition twice_id_checked :: "'c nat_env \<Rightarrow> string \<Rightarrow> int option \<Rightarrow> 'c cmd" where
  "twice_id_checked N table twice_nat_id =
     (case twice_nat_id of
        None \<Rightarrow> finish
      | Some i \<Rightarrow>
          attempt (\<lambda>c. rbind (getTwiceNatIdCountWithStaticEntries N (FInt i) table 0 c)
                     (\<lambda>cnt. getTwiceNatIdCountWithDynamicBinding N (FInt i) cnt None c))
            (\<lambda>cnt. fail_if (cnt > 1) ''Same Twice nat id is not allowed for more than 2 entries!!''))"

definition optional_fields :: "string option \<Rightarrow> int option \<Rightarrow> fvs" where
  "optional_fields nat_type twice_nat_id =
     (case nat_type of None \<Rightarrow> [] | Some t \<Rightarrow> [(''nat_type'', FStr t)])
     @ (case twice_nat_id of None \<Rightarrow> [] | Some i \<Rightarrow> [(''twice_nat_id'', FInt i)])"

definition add_static :: "'c nat_env \<Rightarrow> string \<Rightarrow> string \<Rightarrow> bool \<Rightarrow> string option \<Rightarrow> int option \<Rightarrow> fvs \<Rightarrow> 'c cmd" where
  "add_static N table key entryFound nat_type twice_nat_id fv =
     attempt (\<lambda>c. if entryFound then Inr True else nat_entries_full N c) (\<lambda>entryFound.
       if entryFound then finish
       else seq [twice_id_checked N table twice_nat_id,
                 nat_put N table key (fv @ optional_fields nat_type twice_nat_id)])"

definition add_basic :: "'c nat_env \<Rightarrow> string \<Rightarrow> string \<Rightarrow> string option \<Rightarrow> int option \<Rightarrow> 'c cmd" where
  "add_basic N global_ip local_ip nat_type twice_nat_id =
     (let ipAddress = (if nat_type = Some ''snat'' then local_ip else global_ip) in
      seq [check_ip ''local'' local_ip, check_ip ''global'' global_ip,
           attempt (\<lambda>c. let data = db_get_entry (n_db N) ''STATIC_NAT'' global_ip c in
                        if data = [] then Inr False else rbind (need data ''local_ip'') (\<lambda>l. Inr (l = local_ip)))
             (\<lambda>entryFound.
               seq [attempt (isIpOverlappingWithAnyStaticEntry N ipAddress ''STATIC_NAPT'')
                      (\<lambda>b. fail_if b ''Given entry is overlapping with existing NAPT entry !!''),
                    attempt (isOverlappingWithAnyDynamicEntry N ipAddress)
                      (\<lambda>b. fail_if b ''Given entry is overlapping with existing Dynamic entry !!''),
                    add_static N ''STATIC_NAT'' global_ip entryFound nat_type twice_nat_id [(''local_ip'', FStr local_ip)]])])"

definition napt_key :: "string \<Rightarrow> string \<Rightarrow> int \<Rightarrow> string" where
  "napt_key proto global_ip global_port = global_ip @ ''|'' @ proto @ ''|'' @ str_int global_port"

text \<open>Whether the entry is there with this address and port.\<close>

definition napt_present :: "'c nat_env \<Rightarrow> string \<Rightarrow> string \<Rightarrow> int \<Rightarrow> 'c \<Rightarrow> bool res" where
  "napt_present N key local_ip local_port c =
     (let data = db_get_entry (n_db N) ''STATIC_NAPT'' key c in
      if data = [] then Inr False
      else rbind (need data ''local_ip'') (\<lambda>l.
           if l = local_ip then rbind (need data ''local_port'') (\<lambda>p. Inr (p = str_int local_port)) else Inr False))"

definition add_napt :: "string \<Rightarrow> 'c nat_env \<Rightarrow> string \<Rightarrow> int \<Rightarrow> string \<Rightarrow> int \<Rightarrow> string option \<Rightarrow> int option \<Rightarrow> 'c cmd" where
  "add_napt proto N global_ip global_port local_ip local_port nat_type twice_nat_id =
     (let key = napt_key proto global_ip global_port;
          ipAddress = (if nat_type = Some ''snat'' then local_ip else global_ip) in
      seq [check_ip ''local'' local_ip, check_ip ''global'' global_ip,
           attempt (napt_present N key local_ip local_port) (\<lambda>entryFound.
             seq [attempt (isIpOverlappingWithAnyStaticEntry N ipAddress ''STATIC_NAT'')
                    (\<lambda>b. fail_if b ''Given entry is overlapping with existing NAT entry !!''),
                  add_static N ''STATIC_NAPT'' key entryFound nat_type twice_nat_id
                    [(''local_ip'', FStr local_ip), (''local_port'', FInt local_port)]])])"

definition add_tcp :: "'c nat_env \<Rightarrow> string \<Rightarrow> int \<Rightarrow> string \<Rightarrow> int \<Rightarrow> string option \<Rightarrow> int option \<Rightarrow> 'c cmd" where
  "add_tcp = add_napt ''TCP''"

definition add_udp :: "'c nat_env \<Rightarrow> string \<Rightarrow> int \<Rightarrow> string \<Rightarrow> int \<Rightarrow> string option \<Rightarrow> int option \<Rightarrow> 'c cmd" where
  "add_udp = add_napt ''UDP''"

definition remove_basic :: "'c nat_env \<Rightarrow> string \<Rightarrow> string \<Rightarrow> 'c cmd" where
  "remove_basic N global_ip local_ip =
     seq [check_ip ''local'' local_ip, check_ip ''global'' global_ip,
          attempt (\<lambda>c. let data = db_get_entry (n_db N) ''STATIC_NAT'' global_ip c in
                       if data = [] then Inr False else rbind (need data ''local_ip'') (\<lambda>l. Inr (l = local_ip)))
            (\<lambda>b. if b then nat_remove N ''STATIC_NAT'' global_ip else finish)]"

definition remove_napt :: "string \<Rightarrow> 'c nat_env \<Rightarrow> string \<Rightarrow> int \<Rightarrow> string \<Rightarrow> int \<Rightarrow> 'c cmd" where
  "remove_napt proto N global_ip global_port local_ip local_port =
     (let key = napt_key proto global_ip global_port in
      seq [check_ip ''local'' local_ip, check_ip ''global'' global_ip,
           attempt (napt_present N key local_ip local_port)
             (\<lambda>b. if b then nat_remove N ''STATIC_NAPT'' key else finish)])"

definition remove_tcp :: "'c nat_env \<Rightarrow> string \<Rightarrow> int \<Rightarrow> string \<Rightarrow> int \<Rightarrow> 'c cmd" where
  "remove_tcp = remove_napt ''TCP''"

definition remove_udp :: "'c nat_env \<Rightarrow> string \<Rightarrow> int \<Rightarrow> string \<Rightarrow> int \<Rightarrow> 'c cmd" where
  "remove_udp = remove_napt ''UDP''"

definition remove_table :: "'c nat_env \<Rightarrow> string \<Rightarrow> 'c cmd" where
  "remove_table N t = ask (\<lambda>c. dkeys (db_get_table (n_db N) t c)) (\<lambda>ks. each ks (nat_remove N t))"

definition remove_static_all :: "'c nat_env \<Rightarrow> 'c cmd" where
  "remove_static_all N = seq [remove_table N ''STATIC_NAT'', remove_table N ''STATIC_NAPT'']"

section \<open>Pools and bindings\<close>

definition bad_range :: "string \<Rightarrow> 'c cmd" where
  "bad_range s = fail (''Given ip address range '' @ s @ '' is invalid. Please enter a valid ip address range !!'')"

definition check_global_ip :: "string \<Rightarrow> 'c cmd" where
  "check_global_ip ip =
     fail_if (\<not> is_valid_ipv4_address ip)
       (''Given ip address '' @ ip @ '' is not valid global address. Please enter a valid ip address !!'')"

definition check_ip_range :: "string \<Rightarrow> 'c cmd" where
  "check_ip_range r =
     (case split_on (CHR ''-'') r of
        [a] \<Rightarrow> check_global_ip a
      | [a, b] \<Rightarrow> seq [check_global_ip a, check_global_ip b,
                     attempt (\<lambda>c. pool_range r) (\<lambda>(lo, hi). if lo \<ge> hi then bad_range r else finish)]
      | _ \<Rightarrow> bad_range r)"

definition bad_port_range :: "string \<Rightarrow> 'c cmd" where
  "bad_port_range s = fail (''Given port address range '' @ s @ '' is invalid. Please enter a valid port address range !!'')"

definition check_port :: "string \<Rightarrow> 'c cmd" where
  "check_port p = fail_if (\<not> is_valid_port_address p) (''Given port value '' @ p @ '' is invalid. Please enter a valid port value !!'')"

definition check_port_range :: "string \<Rightarrow> 'c cmd" where
  "check_port_range r =
     (case split_on (CHR ''-'') r of
        [a] \<Rightarrow> check_port a
      | [a, b] \<Rightarrow> seq [check_port a, check_port b,
                     attempt (\<lambda>c. rbind (py_int a) (\<lambda>lo. rbind (py_int b) (\<lambda>hi. Inr (lo \<ge> hi))))
                       (\<lambda>bad. if bad then bad_port_range r else finish)]
      | _ \<Rightarrow> bad_port_range r)"

text \<open>The static entries with an address in the range, key by key.\<close>

definition static_in_range :: "'c nat_env \<Rightarrow> int \<times> int \<Rightarrow> 'c \<Rightarrow> bool res" where
  "static_in_range N lim c =
     exists_res (\<lambda>(k, values). case static_key_ip ''STATIC_NAT'' k of
         None \<Rightarrow> Inr False
       | Some global_ip \<Rightarrow>
           rbind (outside_ip global_ip values) (\<lambda>ip.
           rbind (ip4_int ip) (\<lambda>n. Inr (fst lim \<le> n \<and> n \<le> snd lim))))
       (db_get_table (n_db N) ''STATIC_NAT'' c)"

definition add_pool :: "'c nat_env \<Rightarrow> string \<Rightarrow> string \<Rightarrow> string option \<Rightarrow> 'c cmd" where
  "add_pool N pool_name global_ip_range global_port_range =
     (let ports = (case global_port_range of None \<Rightarrow> ''NULL'' | Some r \<Rightarrow> r) in
      seq [fail_if (length pool_name > 32) ''Invalid pool name. Maximum allowed pool name is 32 characters !!'',
           check_ip_range global_ip_range,
           (case global_port_range of None \<Rightarrow> finish | Some r \<Rightarrow> check_port_range r),
           attempt (\<lambda>c. let data = db_get_entry (n_db N) ''NAT_POOL'' pool_name c in
                        if data = [] then Inr False
                        else rbind (need data ''nat_ip'') (\<lambda>i. if i = global_ip_range
                             then rbind (need data ''nat_port'') (\<lambda>p. Inr (p = ports)) else Inr False))
             (\<lambda>present.
               ask (\<lambda>c. present \<or> length (db_get_table (n_db N) ''NAT_POOL'' c) = 16) (\<lambda>entryFound.
                 if entryFound then finish
                 else seq [attempt (\<lambda>c. rbind (pool_range global_ip_range) (\<lambda>r. static_in_range N r c))
                             (\<lambda>b. fail_if b ''Given Ip address entry is overlapping with existing Static NAT entry !!''),
                           nat_put N ''NAT_POOL'' pool_name [(''nat_ip'', FStr global_ip_range), (''nat_port'', FStr ports)]]))])"

definition add_binding :: "'c nat_env \<Rightarrow> string \<Rightarrow> string \<Rightarrow> string option \<Rightarrow> string option \<Rightarrow> int option \<Rightarrow> 'c cmd" where
  "add_binding N binding_name pool_name acl_name nat_type twice_nat_id =
     (let acl = (case acl_name of None \<Rightarrow> [] | Some a \<Rightarrow> a);
          twice = (case twice_nat_id of None \<Rightarrow> FStr ''NULL'' | Some i \<Rightarrow> FInt i) in
      seq [fail_if (length binding_name > 32) ''Invalid binding name. Maximum allowed binding name is 32 characters !!'',
           attempt (\<lambda>c. let data = db_get_entry (n_db N) ''NAT_BINDINGS'' binding_name c in
                        if data = [] then Inr False
                        else rbind (need data ''access_list'') (\<lambda>a. if a = acl
                             then rbind (need data ''nat_pool'') (\<lambda>p. Inr (p = pool_name)) else Inr False))
             (\<lambda>present.
               ask (\<lambda>c. present \<or> length (db_get_table (n_db N) ''NAT_BINDINGS'' c) = 16 \<or> nat_type = Some ''dnat'')
                 (\<lambda>entryFound.
                   if entryFound then finish
                   else seq [attempt (\<lambda>c.
                               rbind (getTwiceNatIdCountWithStaticEntries N twice ''STATIC_NAT'' 0 c) (\<lambda>cnt.
                               rbind (getTwiceNatIdCountWithStaticEntries N twice ''STATIC_NAPT'' cnt c) (\<lambda>cnt.
                               getTwiceNatIdCountWithDynamicBinding N twice cnt (Some binding_name) c)))
                             (\<lambda>cnt. fail_if (cnt > 1) ''Same Twice nat id is not allowed for more than 2 entries!!''),
                             nat_put N ''NAT_BINDINGS'' binding_name
                               [(''access_list'', FStr acl), (''nat_pool'', FStr pool_name),
                                (''nat_type'', FStr (case nat_type of None \<Rightarrow> ''snat'' | Some t \<Rightarrow> t)), (''twice_nat_id'', twice)]]))])"

text \<open>Whether a binding is mapped to the pool.\<close>

definition pool_bound :: "'c nat_env \<Rightarrow> string \<Rightarrow> 'c \<Rightarrow> bool res" where
  "pool_bound N pool_name c =
     exists_res (\<lambda>(k, values). rbind (need values ''nat_pool'') (\<lambda>p. Inr (p = pool_name)))
       (db_get_table (n_db N) ''NAT_BINDINGS'' c)"

definition remove_pool :: "'c nat_env \<Rightarrow> string \<Rightarrow> 'c cmd" where
  "remove_pool N pool_name =
     seq [fail_if (length pool_name > 32) ''Invalid pool name. Maximum allowed pool name is 32 characters !!'',
          attempt (\<lambda>c. if db_get_entry (n_db N) ''NAT_POOL'' pool_name c = [] then Inr True else pool_bound N pool_name c)
            (\<lambda>entryFound. if entryFound then finish else nat_remove N ''NAT_POOL'' pool_name)]"

text \<open>The bindings are those from before the loop.\<close>

definition remove_pools :: "'c nat_env \<Rightarrow> 'c cmd" where
  "remove_pools N =
     ask (\<lambda>c. (\<lambda>p. pool_bound N p c)) (\<lambda>bound.
     ask (\<lambda>c. dkeys (db_get_table (n_db N) ''NAT_POOL'' c)) (\<lambda>pools.
       each pools (\<lambda>p. attempt (\<lambda>_. bound p) (\<lambda>b. if b then finish else nat_remove N ''NAT_POOL'' p))))"

definition remove_binding :: "'c nat_env \<Rightarrow> string \<Rightarrow> 'c cmd" where
  "remove_binding N binding_name =
     seq [fail_if (length binding_name > 32) ''Invalid binding name. Maximum allowed binding name is 32 characters !!'',
          ask (db_get_entry (n_db N) ''NAT_BINDINGS'' binding_name)
            (\<lambda>data. if data = [] then finish else nat_remove N ''NAT_BINDINGS'' binding_name)]"

text \<open>The function names a class that does not exist.\<close>

definition remove_bindings :: "'c nat_env \<Rightarrow> 'c cmd" where
  "remove_bindings N = raise (NameError ''ValidatedConfigBConnector'')"

section \<open>Interfaces and global settings\<close>

definition interface_table_type :: "string \<Rightarrow> string" where
  "interface_table_type i =
     (if startswith i ''Ethernet'' then ''INTERFACE''
      else if startswith i ''PortChannel'' then ''PORTCHANNEL_INTERFACE''
      else if startswith i ''Vlan'' then ''VLAN_INTERFACE'' else ''LOOPBACK_INTERFACE'')"

definition set_nat_zone :: "'c nat_env \<Rightarrow> string \<Rightarrow> fval \<Rightarrow> string \<Rightarrow> 'c cmd" where
  "set_nat_zone N interface_name zone missing =
     seq [ask (nat_interface_name_is_valid N interface_name)
            (\<lambda>b. fail_if (\<not> b) ''Interface name is invalid. Please enter a  valid interface name!!''),
          ask (\<lambda>c. dhas (db_get_table (n_db N) (interface_table_type interface_name) c) interface_name) (\<lambda>b. fail_if (\<not> b) missing),
          nat_mod N (interface_table_type interface_name) interface_name [(''nat_zone'', zone)]]"

definition add_interface :: "'c nat_env \<Rightarrow> string \<Rightarrow> int \<Rightarrow> 'c cmd" where
  "add_interface N interface_name nat_zone =
     set_nat_zone N interface_name (FInt nat_zone)
       (''Interface table is not present. Please configure ip-address on '' @ interface_name @ '' and apply the nat zone !!'')"

definition remove_interface :: "'c nat_env \<Rightarrow> string \<Rightarrow> 'c cmd" where
  "remove_interface N interface_name =
     set_nat_zone N interface_name (FStr ''0'') ''Interface table is not present. Ignoring the nat zone configuration''"

definition remove_interfaces :: "'c nat_env \<Rightarrow> 'c cmd" where
  "remove_interfaces N =
     each [''INTERFACE'', ''PORTCHANNEL_INTERFACE'', ''VLAN_INTERFACE'', ''LOOPBACK_INTERFACE''] (\<lambda>t.
       ask (\<lambda>c. dkeys (db_get_table (n_db N) t c)) (\<lambda>ks.
         each (filter (\<lambda>k. length (key_parts k) = 1) ks) (\<lambda>k. nat_put N t k [(''nat_zone'', FStr ''0'')])))"

definition nat_global :: "'c nat_env \<Rightarrow> string \<Rightarrow> fval \<Rightarrow> 'c cmd" where
  "nat_global N f v = nat_mod N ''NAT_GLOBAL'' ''Values'' [(f, v)]"

datatype nat_static_cmd =
    AddBasic string string "string option" "int option"
  | AddTcp string int string int "string option" "int option"
  | AddUdp string int string int "string option" "int option"
  | RemoveBasic string string
  | RemoveTcp string int string int
  | RemoveUdp string int string int
  | RemoveStaticAll

datatype nat_dynamic_cmd =
    AddPool string string "string option"
  | AddBinding string string "string option" "string option" "int option"
  | RemovePool string
  | RemovePools
  | RemoveBinding string
  | RemoveBindings

datatype nat_other_cmd =
    AddInterface string int
  | RemoveInterface string
  | RemoveInterfaces
  | EnableFeature
  | DisableFeature
  | SetTimeout int
  | SetTcpTimeout int
  | SetUdpTimeout int
  | ResetTimeout
  | ResetTcpTimeout
  | ResetUdpTimeout

datatype nat_command = NatStatic nat_static_cmd | NatDynamic nat_dynamic_cmd | NatOther nat_other_cmd

fun run_static :: "'c nat_env \<Rightarrow> nat_static_cmd \<Rightarrow> 'c cmd" where
  "run_static N (AddBasic g l t i) = add_basic N g l t i"
| "run_static N (AddTcp g gp l lp t i) = add_tcp N g gp l lp t i"
| "run_static N (AddUdp g gp l lp t i) = add_udp N g gp l lp t i"
| "run_static N (RemoveBasic g l) = remove_basic N g l"
| "run_static N (RemoveTcp g gp l lp) = remove_tcp N g gp l lp"
| "run_static N (RemoveUdp g gp l lp) = remove_udp N g gp l lp"
| "run_static N RemoveStaticAll = remove_static_all N"

fun run_dynamic :: "'c nat_env \<Rightarrow> nat_dynamic_cmd \<Rightarrow> 'c cmd" where
  "run_dynamic N (AddPool p r ports) = add_pool N p r ports"
| "run_dynamic N (AddBinding b p a t i) = add_binding N b p a t i"
| "run_dynamic N (RemovePool p) = remove_pool N p"
| "run_dynamic N RemovePools = remove_pools N"
| "run_dynamic N (RemoveBinding b) = remove_binding N b"
| "run_dynamic N RemoveBindings = remove_bindings N"

fun run_other :: "'c nat_env \<Rightarrow> nat_other_cmd \<Rightarrow> 'c cmd" where
  "run_other N (AddInterface i z) = add_interface N i z"
| "run_other N (RemoveInterface i) = remove_interface N i"
| "run_other N RemoveInterfaces = remove_interfaces N"
| "run_other N EnableFeature = nat_global N ''admin_mode'' (FStr ''enabled'')"
| "run_other N DisableFeature = nat_global N ''admin_mode'' (FStr ''disabled'')"
| "run_other N (SetTimeout s) = nat_global N ''nat_timeout'' (FInt s)"
| "run_other N (SetTcpTimeout s) = nat_global N ''nat_tcp_timeout'' (FInt s)"
| "run_other N (SetUdpTimeout s) = nat_global N ''nat_udp_timeout'' (FInt s)"
| "run_other N ResetTimeout = nat_global N ''nat_timeout'' (FInt 600)"
| "run_other N ResetTcpTimeout = nat_global N ''nat_tcp_timeout'' (FInt 86400)"
| "run_other N ResetUdpTimeout = nat_global N ''nat_udp_timeout'' (FInt 300)"

fun run_nat :: "'c nat_env \<Rightarrow> nat_command \<Rightarrow> 'c cmd" where
  "run_nat N (NatStatic x) = run_static N x"
| "run_nat N (NatDynamic x) = run_dynamic N x"
| "run_nat N (NatOther x) = run_other N x"

text \<open>A session: commands one after the other, whether they succeed or fail.\<close>

inductive nat_session :: "'c nat_env \<Rightarrow> 'c \<Rightarrow> 'c \<Rightarrow> bool" for N where
  nat_start: "nat_session N c c"
| nat_step: "nat_session N c c' \<Longrightarrow> nat_session N c (snd (run_nat N cmd c'))"

lemma nat_session_invariant:
  assumes "nat_session N c c'" and "I c" and "\<And>cmd. keeps I (run_nat N cmd)"
  shows "I c'"
  using assms by (induction rule: nat_session.induct) (auto intro: keepsD)

end
