(* ===== verification/NatFacts.thy ===== *)
theory NatFacts
  imports NatCmd
begin

text \<open>
  What the commands of \<open>config nat\<close> keep: addresses of static entries and pools do not overlap, there
  are at most 16 pools and 16 bindings, and a pool a binding is mapped to stays.
\<close>

section \<open>The connector\<close>

text \<open>
  A write through the validated connector is done or refused; a table has the keys that were put there
  and not removed.
\<close>

locale nat_db =
  fixes N :: "'c nat_env"
  assumes db: "config_db (n_db N)"
    and set_or_not: "snd (v_set N t k x c) \<in> {c, db_set_entry (n_db N) t k x c}"
    and mod_or_not: "snd (v_mod N t k fv c) \<in> {c, db_mod_entry (n_db N) t k fv c}"
    and keys_set: "set (dkeys (db_get_table (n_db N) t (db_set_entry (n_db N) t' k x c))) =
      (if t \<noteq> t' then set (dkeys (db_get_table (n_db N) t c))
       else if x = None then set (dkeys (db_get_table (n_db N) t c)) - {k}
       else insert k (set (dkeys (db_get_table (n_db N) t c))))"
    and keys_mod: "t \<noteq> t' \<Longrightarrow> set (dkeys (db_get_table (n_db N) t (db_mod_entry (n_db N) t' k fv c))) = set (dkeys (db_get_table (n_db N) t c))"

sublocale nat_db \<subseteq> config_db "n_db N"
  by (rule db)

definition outside :: "'c nat_env \<Rightarrow> string \<Rightarrow> string \<Rightarrow> 'c \<Rightarrow> string option" where
  "outside N t k c =
     (case (static_key_ip t k, field_of (n_db N) t k ''local_ip'' c) of
        (Some g, Some l) \<Rightarrow> Some (if field_of (n_db N) t k ''nat_type'' c = Some ''snat'' then l else g)
      | _ \<Rightarrow> None)"

definition in_pool :: "'c nat_env \<Rightarrow> string \<Rightarrow> int \<Rightarrow> 'c \<Rightarrow> bool" where
  "in_pool N p n c \<longleftrightarrow>
     (\<exists>r lo hi. field_of (n_db N) ''NAT_POOL'' p ''nat_ip'' c = Some r \<and> pool_range r = Inr (lo, hi) \<and> lo \<le> n \<and> n \<le> hi)"

definition nat_ok :: "'c nat_env \<Rightarrow> 'c \<Rightarrow> bool" where
  "nat_ok N c \<longleftrightarrow>
     (\<forall>k ip. outside N ''STATIC_NAT'' k c = Some ip \<longrightarrow>
        (\<forall>k'. outside N ''STATIC_NAPT'' k' c \<noteq> Some ip) \<and> (\<forall>p n. ip4_of ip = Some n \<longrightarrow> \<not> in_pool N p n c))"

definition nat_limits :: "'c nat_env \<Rightarrow> 'c \<Rightarrow> bool" where
  "nat_limits N c \<longleftrightarrow>
     length (db_get_table (n_db N) ''NAT_POOL'' c) \<le> 16 \<and> length (db_get_table (n_db N) ''NAT_BINDINGS'' c) \<le> 16"

lemma exists_res_False: "exists_res p xs = Inr False \<Longrightarrow> x \<in> set xs \<Longrightarrow> p x = Inr False"
  by (induction xs) (auto simp: res_simps split: if_splits)

lemma wp_or_fail: "wp (or_fail f m) Q E c \<longleftrightarrow> wp m Q E c"
  by (auto simp: wp_def or_fail_def split: prod.splits sum.splits)

lemma need_Inr: "need e f = Inr v \<longleftrightarrow> dget e f = Some v"
  by (simp add: need_def split: option.splits)

lemma ip4_int_Inr: "ip4_int s = Inr n \<longleftrightarrow> ip4_of s = Some n"
  by (simp add: ip4_int_def split: option.splits)

lemma valid_ip: "is_valid_ipv4_address ip \<Longrightarrow> \<exists>n. ip4_of ip = Some n"
  by (simp add: is_valid_ipv4_address_def split: option.splits)

lemma ip4_chars:
  assumes "ip4_of s = Some n" and "c \<in> set s"
  shows "is_digit c \<or> c = CHR ''.''"
proof -
  have "\<exists>p \<in> set (split_on (CHR ''.'') s). c \<in> set p \<or> c = CHR ''.''"
    using assms(2)
  proof (induction s)
    case (Cons x xs)
    then show ?case by (cases "split_on (CHR ''.'') xs") (auto split: if_splits)
  qed simp
  moreover have "\<forall>p \<in> set (split_on (CHR ''.'') s). \<exists>k. octet p = Some k"
    using assms(1) by (auto simp: ip4_of_def split: list.splits option.splits)
  ultimately show ?thesis by (auto simp: octet_def isdigit_def list_all_iff split: if_splits)
qed

lemma ip4_no_bar: "ip4_of s = Some n \<Longrightarrow> CHR ''|'' \<notin> set s"
  using ip4_chars [of s n "CHR ''|''"] by (auto simp: is_digit_def)

lemma str_int_no_bar: "CHR ''|'' \<notin> set (str_int i)"
proof -
  have "\<not> is_digit CHR ''|''" by (simp add: is_digit_def)
  then show ?thesis
    using str_nat_digits [of "nat i"] str_nat_digits [of "nat (- i)"] by (auto simp: str_int_def list_all_iff)
qed

lemma basic_key: "is_valid_ipv4_address ip \<Longrightarrow> static_key_ip ''STATIC_NAT'' ip = Some ip"
  using valid_ip [of ip] ip4_no_bar [of ip] by (auto simp: static_key_ip_def key_parts_def split_on_none Let_def)

lemma napt_key_ip:
  assumes "is_valid_ipv4_address ip" and "CHR ''|'' \<notin> set proto"
  shows "static_key_ip ''STATIC_NAPT'' (napt_key proto ip port) = Some ip"
proof -
  have "CHR ''|'' \<notin> set ip" using valid_ip [OF assms(1)] ip4_no_bar by auto
  then have "key_parts (napt_key proto ip port) = [ip, proto, str_int port]"
    using assms(2) str_int_no_bar [of port]
    by (simp add: key_parts_def napt_key_def split_on_append split_on_none)
  then show ?thesis by (simp add: static_key_ip_def)
qed

lemma wp_checks:
  "Q c \<Longrightarrow> E c \<Longrightarrow> wp (check_ip_range r) Q E c" "Q c \<Longrightarrow> E c \<Longrightarrow> wp (check_port_range r) Q E c"
  by (auto simp: check_ip_range_def check_port_range_def check_global_ip_def check_port_def bad_range_def bad_port_range_def
      wp_rules split: list.splits sum.splits)

lemma optional_dget:
  "dget (optional_fields t i) ''nat_type'' = map_option FStr t"
  "f \<notin> {''nat_type'', ''twice_nat_id''} \<Longrightarrow> dget (optional_fields t i) f = None"
  by (auto simp: optional_fields_def split: option.splits)

context nat_db
begin

lemma entry_in_table:
  assumes "field_of (n_db N) t k f c = Some v"
  shows "(k, db_get_entry (n_db N) t k c) \<in> set (db_get_table (n_db N) t c)"
  using table_key [OF assms] table_entry by (auto simp: dhas_dget dest: dget_SomeD)

lemma static_checked:
  assumes "isIpOverlappingWithAnyStaticEntry N ip t c = Inr False"
  shows "outside N t k c \<noteq> Some ip"
proof
  assume o: "outside N t k c = Some ip"
  then obtain g l where g: "static_key_ip t k = Some g" and l: "field_of (n_db N) t k ''local_ip'' c = Some l"
    and ip: "ip = (if field_of (n_db N) t k ''nat_type'' c = Some ''snat'' then l else g)"
    by (auto simp: outside_def split: option.splits)
  from exists_res_False [OF assms [unfolded isIpOverlappingWithAnyStaticEntry_def] entry_in_table [OF l]]
  show False using g l ip by (simp add: outside_ip_def need_def field_of_def)
qed

lemma dynamic_checked:
  assumes "isOverlappingWithAnyDynamicEntry N ip c = Inr False" and "ip4_of ip = Some n"
  shows "\<not> in_pool N p n c"
proof
  assume "in_pool N p n c"
  then obtain r lo hi where r: "field_of (n_db N) ''NAT_POOL'' p ''nat_ip'' c = Some r"
    and "pool_range r = Inr (lo, hi)" "lo \<le> n" "n \<le> hi" by (auto simp: in_pool_def)
  moreover have "ip4_int ip = Inr n" using assms(2) by (simp add: ip4_int_Inr)
  ultimately show False
    using exists_res_False [OF _ entry_in_table [OF r]] assms(1)
    by (fastforce simp: isOverlappingWithAnyDynamicEntry_def need_def field_of_def)
qed

lemma range_checked:
  assumes "static_in_range N lim c = Inr False" and "outside N ''STATIC_NAT'' k c = Some ip" and "ip4_of ip = Some n"
  shows "\<not> (fst lim \<le> n \<and> n \<le> snd lim)"
proof -
  obtain g l where g: "static_key_ip ''STATIC_NAT'' k = Some g" and l: "field_of (n_db N) ''STATIC_NAT'' k ''local_ip'' c = Some l"
    and ip: "ip = (if field_of (n_db N) ''STATIC_NAT'' k ''nat_type'' c = Some ''snat'' then l else g)"
    using assms(2) by (auto simp: outside_def split: option.splits)
  from exists_res_False [OF assms(1) [unfolded static_in_range_def] entry_in_table [OF l]]
  show ?thesis using g l ip assms(3) by (auto simp: outside_ip_def need_def field_of_def ip4_int_def)
qed

section \<open>Effects on the invariants\<close>

lemma nat_ok_same:
  assumes "\<And>t k f. t \<in> {''STATIC_NAT'', ''STATIC_NAPT'', ''NAT_POOL''} \<Longrightarrow> field_of (n_db N) t k f c' = field_of (n_db N) t k f c"
  shows "nat_ok N c' = nat_ok N c"
proof -
  have "outside N t k c' = outside N t k c" if t: "t \<in> {''STATIC_NAT'', ''STATIC_NAPT''}" for t k
  proof -
    have "field_of (n_db N) t k f c' = field_of (n_db N) t k f c" for f by (rule assms) (use t in auto)
    then show ?thesis by (simp add: outside_def cong: option.case_cong)
  qed
  moreover have "in_pool N p n c' = in_pool N p n c" for p n
    using assms [of "''NAT_POOL''"] unfolding in_pool_def by simp
  ultimately show ?thesis by (simp add: nat_ok_def)
qed

lemma nat_ok_unset: "nat_ok N c \<Longrightarrow> nat_ok N (db_set_entry (n_db N) t k None c)"
  unfolding nat_ok_def outside_def in_pool_def unset_field by (auto split: option.splits if_splits)

lemma nat_ok_other:
  "t \<notin> {''STATIC_NAT'', ''STATIC_NAPT'', ''NAT_POOL''} \<Longrightarrow> nat_ok N (db_set_entry (n_db N) t k x c) = nat_ok N c"
  "t \<notin> {''STATIC_NAT'', ''STATIC_NAPT'', ''NAT_POOL''} \<Longrightarrow> nat_ok N (db_mod_entry (n_db N) t k fv c) = nat_ok N c"
  by (cases x; rule nat_ok_same; auto simp: db_laws)+

lemma outside_set:
  "outside N t k (db_set_entry (n_db N) t' k' (Some fv) c) =
     (if t = t' \<and> k = k'
      then (case (static_key_ip t k, dget fv ''local_ip'') of
              (Some g, Some l) \<Rightarrow> Some (if map_option field_text (dget fv ''nat_type'') = Some ''snat'' then field_text l else g)
            | _ \<Rightarrow> None)
      else outside N t k c)"
  by (auto simp: outside_def set_field split: option.splits)

lemma in_pool_set: "t \<noteq> ''NAT_POOL'' \<Longrightarrow> in_pool N p n (db_set_entry (n_db N) t k (Some fv) c) = in_pool N p n c"
  by (simp add: in_pool_def set_field)

lemma wp_set: "(\<And>c'. c' \<in> {c, db_set_entry (n_db N) t k x c} \<Longrightarrow> Q c' \<and> E c') \<Longrightarrow> wp (v_set N t k x) Q E c"
  using set_or_not [of t k x c] by (cases "v_set N t k x c") (fastforce simp: wp_def split: sum.splits)

lemma wp_mod: "(\<And>c'. c' \<in> {c, db_mod_entry (n_db N) t k fv c} \<Longrightarrow> Q c' \<and> E c') \<Longrightarrow> wp (v_mod N t k fv) Q E c"
  using mod_or_not [of t k fv c] by (cases "v_mod N t k fv c") (fastforce simp: wp_def split: sum.splits)

lemma wp_puts:
  "I c \<Longrightarrow> I (db_set_entry (n_db N) t k (Some fv) c) \<Longrightarrow> wp (nat_put N t k fv) I I c"
  "I c \<Longrightarrow> I (db_set_entry (n_db N) t k None c) \<Longrightarrow> wp (nat_remove N t k) I I c"
  "I c \<Longrightarrow> I (db_mod_entry (n_db N) t k fv c) \<Longrightarrow> wp (nat_mod N t k fv) I I c"
  unfolding nat_put_def nat_remove_def nat_mod_def wp_or_fail by (rule wp_set wp_mod; auto)+

lemma keeps_puts:
  "(\<And>c. I c \<Longrightarrow> I (db_set_entry (n_db N) t k (Some fv) c)) \<Longrightarrow> keeps I (nat_put N t k fv)"
  "(\<And>c. I c \<Longrightarrow> I (db_set_entry (n_db N) t k None c)) \<Longrightarrow> keeps I (nat_remove N t k)"
  "(\<And>c. I c \<Longrightarrow> I (db_mod_entry (n_db N) t k fv c)) \<Longrightarrow> keeps I (nat_mod N t k fv)"
  by (simp_all add: keeps_wp wp_puts)

lemma wp_check_ip: "wp (check_ip w ip) Q E c \<longleftrightarrow> (if is_valid_ipv4_address ip then Q c else E c)"
  by (simp add: check_ip_def wp_rules)

lemma wp_add_static:
  assumes "I c" and "I (db_set_entry (n_db N) t k (Some (fv @ optional_fields ty i)) c)"
  shows "wp (add_static N t k b ty i fv) I I c"
  using assms wp_puts(1) [of I c t k "fv @ optional_fields ty i"]
  by (auto simp: add_static_def twice_id_checked_def wp_rules split: sum.splits option.splits)

lemma add_basic_ok: "keeps (nat_ok N) (add_basic N g l ty i)"
proof -
  have "nat_ok N (db_set_entry (n_db N) ''STATIC_NAT'' g (Some ([(''local_ip'', FStr l)] @ optional_fields ty i)) c)"
    if "nat_ok N c" "is_valid_ipv4_address g" "is_valid_ipv4_address l"
      "isIpOverlappingWithAnyStaticEntry N (if ty = Some ''snat'' then l else g) ''STATIC_NAPT'' c = Inr False"
      "isOverlappingWithAnyDynamicEntry N (if ty = Some ''snat'' then l else g) c = Inr False" for c
  proof -
    let ?ip = "if ty = Some ''snat'' then l else g"
    have "outside N ''STATIC_NAT'' g (db_set_entry (n_db N) ''STATIC_NAT'' g (Some ([(''local_ip'', FStr l)] @ optional_fields ty i)) c)
        = Some ?ip"
      using basic_key [OF that(2)] by (cases ty) (auto simp: outside_set optional_dget)
    moreover have "outside N ''STATIC_NAPT'' k' c \<noteq> Some ?ip" for k' by (rule static_checked [OF that(4)])
    moreover have "ip4_of ?ip = Some n \<Longrightarrow> \<not> in_pool N p n c" for p n by (rule dynamic_checked [OF that(5)])
    ultimately show ?thesis
      using that(1) unfolding nat_ok_def by (simp add: in_pool_set) (auto simp: outside_set)
  qed
  then show ?thesis
    unfolding keeps_wp add_basic_def Let_def
    by (auto simp: wp_rules wp_check_ip wp_add_static split: sum.splits)
qed

lemma add_napt_ok:
  assumes "CHR ''|'' \<notin> set proto"
  shows "keeps (nat_ok N) (add_napt proto N g gp l lp ty i)"
proof -
  let ?fv = "[(''local_ip'', FStr l), (''local_port'', FInt lp)] @ optional_fields ty i" and ?k = "napt_key proto g gp"
  have "nat_ok N (db_set_entry (n_db N) ''STATIC_NAPT'' ?k (Some ?fv) c)"
    if "nat_ok N c" "is_valid_ipv4_address g"
      "isIpOverlappingWithAnyStaticEntry N (if ty = Some ''snat'' then l else g) ''STATIC_NAT'' c = Inr False" for c
  proof -
    let ?ip = "if ty = Some ''snat'' then l else g"
    have o: "outside N ''STATIC_NAPT'' ?k (db_set_entry (n_db N) ''STATIC_NAPT'' ?k (Some ?fv) c) = Some ?ip"
      using napt_key_ip [OF that(2) assms] by (cases ty) (auto simp: outside_set optional_dget)
    have n: "outside N ''STATIC_NAT'' k' c \<noteq> Some ?ip" for k' by (rule static_checked [OF that(3)])
    have s: "outside N ''STATIC_NAT'' k (db_set_entry (n_db N) ''STATIC_NAPT'' ?k (Some ?fv) c) = outside N ''STATIC_NAT'' k c" for k
      by (simp add: outside_set)
    have r: "outside N ''STATIC_NAPT'' k' (db_set_entry (n_db N) ''STATIC_NAPT'' ?k (Some ?fv) c) =
        (if k' = ?k then Some ?ip else outside N ''STATIC_NAPT'' k' c)" for k'
      using o by (cases "k' = ?k") (simp_all add: outside_set)
    show ?thesis
      using that(1) n unfolding nat_ok_def s r by (auto simp: in_pool_set)
  qed
  then show ?thesis
    unfolding keeps_wp add_napt_def Let_def
    by (auto simp: wp_rules wp_check_ip wp_add_static split: sum.splits)
qed

lemma add_pool_ok: "keeps (nat_ok N) (add_pool N p r ports)"
proof -
  have ok: "nat_ok N (db_set_entry (n_db N) ''NAT_POOL'' p (Some [(''nat_ip'', FStr r), (''nat_port'', x)]) c)"
    if i: "nat_ok N c" and a: "rbind (pool_range r) (\<lambda>lim. static_in_range N lim c) = Inr False" for c x
  proof -
    obtain lo hi where l: "pool_range r = Inr (lo, hi)" and s: "static_in_range N (lo, hi) c = Inr False"
      using a by (auto simp: res_simps)
    have "in_pool N p' n (db_set_entry (n_db N) ''NAT_POOL'' p (Some [(''nat_ip'', FStr r), (''nat_port'', x)]) c) =
        (if p' = p then lo \<le> n \<and> n \<le> hi else in_pool N p' n c)" for p' n
      by (auto simp: in_pool_def set_field l)
    then show ?thesis
      using i range_checked [OF s] unfolding nat_ok_def by (simp add: outside_set)
  qed
  note check = wp_checks
  have wr: "wp (nat_put N ''NAT_POOL'' p [(''nat_ip'', FStr r), (''nat_port'', x)]) (nat_ok N) (nat_ok N) c"
    if "nat_ok N c" "rbind (pool_range r) (\<lambda>lim. static_in_range N lim c) = Inr False" for c x
    using that by (simp add: wp_puts ok)
  show ?thesis
    unfolding keeps_wp add_pool_def Let_def
    by (intro allI impI) (auto simp: wp_rules intro!: check wr split: sum.splits option.splits)
qed

lemma keeps_nat_zone:
  "(\<And>c k. I c \<Longrightarrow> I (db_mod_entry (n_db N) (interface_table_type i) k [(''nat_zone'', z)] c)) \<Longrightarrow> keeps I (set_nat_zone N i z m)"
  unfolding set_nat_zone_def by (intro keeps_intros keeps_puts)

lemma interface_tables:
  "interface_table_type i \<in> {''INTERFACE'', ''PORTCHANNEL_INTERFACE'', ''VLAN_INTERFACE'', ''LOOPBACK_INTERFACE''}"
  by (simp add: interface_table_type_def)

text \<open>Everything but the commands that add an entry.\<close>

lemma keeps_other:
  assumes "\<And>c t k. I c \<Longrightarrow> t \<noteq> ''NAT_POOL'' \<Longrightarrow> I (db_set_entry (n_db N) t k None c)"
    and "\<And>c t k. I c \<Longrightarrow> t \<in> {''INTERFACE'', ''PORTCHANNEL_INTERFACE'', ''VLAN_INTERFACE'', ''LOOPBACK_INTERFACE''} \<Longrightarrow>
          I (db_set_entry (n_db N) t k (Some [(''nat_zone'', FStr ''0'')]) c)"
    and "\<And>c t k fv. I c \<Longrightarrow> t \<in> {''INTERFACE'', ''PORTCHANNEL_INTERFACE'', ''VLAN_INTERFACE'', ''LOOPBACK_INTERFACE'', ''NAT_GLOBAL''} \<Longrightarrow>
          I (db_mod_entry (n_db N) t k fv c)"
  shows "keeps I (remove_basic N g l)" "keeps I (remove_napt pr N g gp l lp)" "keeps I (remove_static_all N)"
    "keeps I (remove_binding N b)" "keeps I (remove_bindings N)" "keeps I (run_other N oc)"
proof -
  have r: "keeps I (nat_remove N ''STATIC_NAT'' k)" "keeps I (nat_remove N ''STATIC_NAPT'' k)" "keeps I (nat_remove N ''NAT_BINDINGS'' k)" for k
    by (rule keeps_puts(2), rule assms(1), simp_all)+
  show "keeps I (remove_basic N g l)" "keeps I (remove_napt pr N g gp l lp)"
    unfolding remove_basic_def remove_napt_def Let_def check_ip_def by (intro keeps_intros r; assumption)+
  show "keeps I (remove_static_all N)"
    unfolding remove_static_all_def remove_table_def by (intro keeps_intros r)
  show "keeps I (remove_binding N b)" "keeps I (remove_bindings N)"
    unfolding remove_binding_def remove_bindings_def by (intro keeps_intros r; assumption)+
  have i: "keeps I (remove_interfaces N)"
    unfolding remove_interfaces_def
    by (rule keeps_each_in, rule keeps_ask, rule keeps_each, rule keeps_puts(1), rule assms(2)) auto
  have m: "keeps I (set_nat_zone N j z msg)" for j z msg
    by (rule keeps_nat_zone, rule assms(3)) (use interface_tables [of j] in auto)
  have g: "keeps I (nat_global N f v)" for f v
    unfolding nat_global_def by (rule keeps_puts(3), rule assms(3)) auto
  show "keeps I (run_other N oc)" by (cases oc) (simp_all add: add_interface_def remove_interface_def i m g)
qed

lemma keeps_remove_pools:
  assumes "\<And>c k. I c \<Longrightarrow> I (db_set_entry (n_db N) ''NAT_POOL'' k None c)"
  shows "keeps I (remove_pool N p)" "keeps I (remove_pools N)"
  unfolding remove_pool_def remove_pools_def by (intro keeps_intros keeps_puts assms; assumption)+

lemma add_binding_keeps:
  assumes "\<And>c fv. I c \<Longrightarrow> length (db_get_table (n_db N) ''NAT_BINDINGS'' c) \<noteq> 16 \<Longrightarrow> I (db_set_entry (n_db N) ''NAT_BINDINGS'' b (Some fv) c)"
  shows "keeps I (add_binding N b p a ty i)"
  unfolding keeps_wp add_binding_def Let_def
  by (intro allI impI) (auto simp: wp_rules intro!: wp_puts assms split: sum.splits)

lemma nat_ok_kept:
  "keeps (nat_ok N) (remove_basic N g l)" "keeps (nat_ok N) (remove_napt pr N g gp l lp)" "keeps (nat_ok N) (remove_static_all N)"
  "keeps (nat_ok N) (remove_pool N p)" "keeps (nat_ok N) (remove_pools N)" "keeps (nat_ok N) (remove_binding N b)"
  "keeps (nat_ok N) (remove_bindings N)" "keeps (nat_ok N) (run_other N oc)" "keeps (nat_ok N) (add_binding N b p' a ty i)"
  by (rule keeps_other [where I = "nat_ok N"] keeps_remove_pools add_binding_keeps; auto simp: nat_ok_unset nat_ok_other)+

lemma run_nat_ok: "keeps (nat_ok N) (run_nat N cmd)"
proof (cases cmd)
  case (NatStatic x)
  then show ?thesis
    by (cases x) (simp_all add: add_basic_ok add_tcp_def add_udp_def add_napt_ok remove_tcp_def remove_udp_def nat_ok_kept)
next
  case (NatDynamic x)
  then show ?thesis by (cases x) (simp_all add: add_pool_ok nat_ok_kept)
next
  case (NatOther x)
  then show ?thesis by (simp add: nat_ok_kept)
qed

section \<open>The limits\<close>

lemma table_length: "length (db_get_table (n_db N) t c) = card (set (dkeys (db_get_table (n_db N) t c)))"
  using distinct_card [OF table_distinct] by (simp add: dkeys_def)

lemma nat_limits_iff:
  "nat_limits N c \<longleftrightarrow> card (set (dkeys (db_get_table (n_db N) ''NAT_POOL'' c))) \<le> 16
     \<and> card (set (dkeys (db_get_table (n_db N) ''NAT_BINDINGS'' c))) \<le> 16"
  by (simp add: nat_limits_def table_length)

lemma nat_limits_after:
  assumes "nat_limits N c"
  shows "nat_limits N (db_set_entry (n_db N) t k None c)"
    and "t \<notin> {''NAT_POOL'', ''NAT_BINDINGS''} \<Longrightarrow> nat_limits N (db_set_entry (n_db N) t k x c)"
    and "t \<notin> {''NAT_POOL'', ''NAT_BINDINGS''} \<Longrightarrow> nat_limits N (db_mod_entry (n_db N) t k fv c)"
    and "t \<in> {''NAT_POOL'', ''NAT_BINDINGS''} \<Longrightarrow> length (db_get_table (n_db N) t c) \<noteq> 16 \<Longrightarrow>
           nat_limits N (db_set_entry (n_db N) t k (Some fv) c)"
proof -
  have d: "card (S - {k}) \<le> card S" if "finite S" for S :: "string set" and k using that by (simp add: card_mono)
  show "nat_limits N (db_set_entry (n_db N) t k None c)"
    using assms order_trans [OF d] unfolding nat_limits_iff keys_set by (auto split: if_splits)
  show "t \<notin> {''NAT_POOL'', ''NAT_BINDINGS''} \<Longrightarrow> nat_limits N (db_set_entry (n_db N) t k x c)"
    "t \<notin> {''NAT_POOL'', ''NAT_BINDINGS''} \<Longrightarrow> nat_limits N (db_mod_entry (n_db N) t k fv c)"
    using assms unfolding nat_limits_iff by (auto simp: keys_set keys_mod)
  show "t \<in> {''NAT_POOL'', ''NAT_BINDINGS''} \<Longrightarrow> length (db_get_table (n_db N) t c) \<noteq> 16 \<Longrightarrow>
      nat_limits N (db_set_entry (n_db N) t k (Some fv) c)"
    using assms unfolding nat_limits_iff keys_set table_length by (auto simp: card_insert_if)
qed

lemma nat_limits_kept:
  "keeps (nat_limits N) (remove_basic N g l)" "keeps (nat_limits N) (remove_napt pr N g gp l lp)" "keeps (nat_limits N) (remove_static_all N)"
  "keeps (nat_limits N) (remove_pool N p)" "keeps (nat_limits N) (remove_pools N)" "keeps (nat_limits N) (remove_binding N b)"
  "keeps (nat_limits N) (remove_bindings N)" "keeps (nat_limits N) (run_other N oc)" "keeps (nat_limits N) (add_binding N b p' a ty i)"
  by (rule keeps_other [where I = "nat_limits N"] keeps_remove_pools add_binding_keeps; auto simp: nat_limits_after)+

lemma nat_limits_static:
  "keeps (nat_limits N) (add_basic N g l ty i)" "keeps (nat_limits N) (add_napt pr N g gp l lp ty i)"
  unfolding keeps_wp add_basic_def add_napt_def Let_def
  by (auto simp: wp_rules wp_check_ip nat_limits_after intro!: wp_add_static split: sum.splits)

lemma nat_limits_pool: "keeps (nat_limits N) (add_pool N p r ports)"
proof -
  note check = wp_checks
  have wr: "wp (nat_put N ''NAT_POOL'' p fv) (nat_limits N) (nat_limits N) c"
    if "nat_limits N c" "length (db_get_table (n_db N) ''NAT_POOL'' c) \<noteq> 16" for c fv
    using that by (simp add: wp_puts nat_limits_after)
  show ?thesis
    unfolding keeps_wp add_pool_def Let_def
    by (intro allI impI) (auto simp: wp_rules intro!: check wr split: sum.splits option.splits)
qed

lemma run_nat_limits: "keeps (nat_limits N) (run_nat N cmd)"
proof (cases cmd)
  case (NatStatic x)
  then show ?thesis
    by (cases x) (simp_all add: add_tcp_def add_udp_def nat_limits_static remove_tcp_def remove_udp_def nat_limits_kept)
next
  case (NatDynamic x)
  then show ?thesis by (cases x) (simp_all add: nat_limits_pool nat_limits_kept)
next
  case (NatOther x)
  then show ?thesis by (simp add: nat_limits_kept)
qed

section \<open>Pools in use\<close>

definition has_pool :: "string \<Rightarrow> 'c \<Rightarrow> bool" where
  "has_pool p c \<longleftrightarrow> field_of (n_db N) ''NAT_POOL'' p ''nat_ip'' c \<noteq> None"

lemma has_pool_after:
  "t \<noteq> ''NAT_POOL'' \<or> k \<noteq> p \<Longrightarrow> has_pool p c \<Longrightarrow> has_pool p (db_set_entry (n_db N) t k x c)"
  "t \<noteq> ''NAT_POOL'' \<Longrightarrow> has_pool p c \<Longrightarrow> has_pool p (db_mod_entry (n_db N) t k fv c)"
  "has_pool p c \<Longrightarrow> has_pool p (db_set_entry (n_db N) ''NAT_POOL'' k (Some ((''nat_ip'', v) # fv)) c)"
  by (cases x; auto simp: has_pool_def db_laws)+

lemma bound_pool:
  assumes "field_of (n_db N) ''NAT_BINDINGS'' b ''nat_pool'' c = Some p"
  shows "pool_bound N p c \<noteq> Inr False"
  using exists_res_False [OF _ entry_in_table [OF assms]] assms
  by (fastforce simp: pool_bound_def need_def field_of_def)

lemma bound_pool_stays:
  assumes "has_pool p c" and "field_of (n_db N) ''NAT_BINDINGS'' b ''nat_pool'' c = Some p"
  shows "has_pool p (snd (run_nat N cmd c))"
proof -
  note bound = bound_pool [OF assms(2)]
  have k: "keeps (has_pool p) (remove_basic N g l)" "keeps (has_pool p) (remove_napt pr N g gp l lp)"
    "keeps (has_pool p) (remove_static_all N)" "keeps (has_pool p) (remove_binding N b')" "keeps (has_pool p) (remove_bindings N)"
    "keeps (has_pool p) (run_other N oc)" "keeps (has_pool p) (add_binding N b' p' a ty i)" for g l pr gp lp b' oc p' a ty i
    by (rule keeps_other [where I = "has_pool p"] add_binding_keeps; auto intro: has_pool_after)+
  have st: "keeps (has_pool p) (add_basic N g l ty i)" "keeps (has_pool p) (add_napt pr N g gp l lp ty i)" for pr g gp l lp ty i
    unfolding keeps_wp add_basic_def add_napt_def Let_def
    by (auto simp: wp_rules wp_check_ip intro!: wp_add_static has_pool_after(1) split: sum.splits)
  have pool: "keeps (has_pool p) (add_pool N q r ports)" for q r ports
    unfolding keeps_wp add_pool_def Let_def
    by (intro allI impI) (auto simp: wp_rules intro!: wp_checks wp_puts has_pool_after(3) split: sum.splits option.splits)
  have "wp (remove_pool N q) (has_pool p) (has_pool p) c" for q
    using assms(1) bound by (cases "q = p") (auto simp: remove_pool_def wp_rules intro!: wp_puts has_pool_after(1) split: sum.splits)
  moreover have "wp (remove_pools N) (has_pool p) (has_pool p) c"
    unfolding remove_pools_def wp_rules
    by (rule wp_each [where I = "has_pool p"])
       (use assms(1) bound in \<open>auto simp: wp_rules intro!: wp_puts has_pool_after(1) split: sum.splits\<close>)
  ultimately have r: "has_pool p (snd (remove_pool N q c))" "has_pool p (snd (remove_pools N c))" for q
    by (auto dest: wp_snd)
  show ?thesis
  proof (cases cmd)
    case (NatStatic x)
    then show ?thesis
      using assms(1) by (cases x) (simp_all add: add_tcp_def add_udp_def remove_tcp_def remove_udp_def keepsD [OF st(1)] keepsD [OF st(2)] keepsD [OF k(1)] keepsD [OF k(2)] keepsD [OF k(3)])
  next
    case (NatDynamic x)
    then show ?thesis
      using assms(1) by (cases x) (simp_all add: r keepsD [OF pool] keepsD [OF k(4)] keepsD [OF k(5)] keepsD [OF k(7)])
  next
    case (NatOther x)
    then show ?thesis using assms(1) by (simp add: keepsD [OF k(6)])
  qed
qed

end

section \<open>A connector over nested dictionaries\<close>

text \<open>The function \<open>refuse\<close> says which writes the validation refuses, and with what exception.\<close>

definition or_refuse :: "py_error option \<Rightarrow> ('c \<Rightarrow> 'c) \<Rightarrow> 'c cmd" where
  "or_refuse r f c = (case r of None \<Rightarrow> (Inr (), f c) | Some e \<Rightarrow> (Inl e, c))"

definition nested_nat :: "(string \<Rightarrow> string \<Rightarrow> fvs option \<Rightarrow> string dict dict dict \<Rightarrow> py_error option) \<Rightarrow> string dict \<Rightarrow>
    string dict dict dict nat_env" where
  "nested_nat refuse counters =
     \<lparr>n_db = nested_env,
      v_set = (\<lambda>t k x c. or_refuse (refuse t k x c) (db_set_entry nested_env t k x) c),
      v_mod = (\<lambda>t k fv c. or_refuse (refuse t k (Some fv) c) (db_mod_entry nested_env t k fv) c),
      n_counters = (\<lambda>c. Some counters)\<rparr>"

lemma set_dkeys_nested: "set (dkeys (db_get_table nested_env t c)) = set (dkeys (nested_table t c))"
  by (simp add: nested_env_def dkeys_map_pair)

lemma nested_dkeys:
  "set (dkeys (nested_table t (db_set_entry nested_env t' k None c))) =
     (if t = t' then set (dkeys (nested_table t c)) - {k} else set (dkeys (nested_table t c)))"
  "set (dkeys (nested_table t (db_set_entry nested_env t' k (Some fv) c))) =
     (if t = t' then insert k (set (dkeys (nested_table t c))) else set (dkeys (nested_table t c)))"
  "t \<noteq> t' \<Longrightarrow> set (dkeys (nested_table t (db_mod_entry nested_env t' k fv c))) = set (dkeys (nested_table t c))"
  by (auto simp: nested_env_def dkeys_ddel)

interpretation nested_nat: nat_db "nested_nat refuse counters" for refuse counters
  unfolding nat_db_def
proof (intro conjI allI impI)
  show "config_db (n_db (nested_nat refuse counters))"
    using nested.config_db_axioms by (simp add: nested_nat_def)
qed (auto simp: nested_nat_def or_refuse_def set_dkeys_nested nested_dkeys split: option.splits)

end
