(* ===== verification/NatProps.thy ===== *)
theory NatProps
  imports NatFacts
begin

text \<open>Properties of the commands of \<open>config nat\<close>, and sample sessions.\<close>

section \<open>A sample session\<close>

definition sample_nat :: "string dict dict dict nat_env" where
  "sample_nat = nested_nat (\<lambda>t k x c. None) [(''SNAT_ENTRIES'', ''0''), (''MAX_NAT_ENTRIES'', ''9'')]"

definition sample_nat_pool :: "string dict dict dict" where
  "sample_nat_pool = [(''NAT_POOL'', [(''p1'', [(''nat_ip'', ''65.55.43.5-65.55.43.15''), (''nat_port'', ''NULL'')])])]"

definition sample_nat_bound :: "string dict dict dict" where
  "sample_nat_bound = sample_nat_pool @ [(''NAT_BINDINGS'', [(''b1'',
     [(''access_list'', []), (''nat_pool'', ''p1''), (''nat_type'', ''snat''), (''twice_nat_id'', ''7'')])])]"

definition sample_nat_full :: "string dict dict dict" where
  "sample_nat_full = sample_nat_bound @ [(''STATIC_NAT'', [(''65.55.42.1'', [(''local_ip'', ''10.0.0.1''), (''twice_nat_id'', ''7'')])])]"

lemma sample_nat_run:
  "run_nat sample_nat (NatDynamic (AddPool ''p1'' ''65.55.43.5-65.55.43.15'' None)) [] = (Inr (), sample_nat_pool)"
  "run_nat sample_nat (NatDynamic (AddBinding ''b1'' ''p1'' None None (Some 7))) sample_nat_pool = (Inr (), sample_nat_bound)"
  "run_nat sample_nat (NatStatic (AddBasic ''65.55.42.1'' ''10.0.0.1'' None (Some 7))) sample_nat_bound = (Inr (), sample_nat_full)"
  by code_simp+

lemma sample_nat_session: "nat_session sample_nat [] sample_nat_full"
proof -
  have "nat_session sample_nat [] sample_nat_pool"
    using nat_step [OF nat_start, of sample_nat "[]" "NatDynamic (AddPool ''p1'' ''65.55.43.5-65.55.43.15'' None)"]
    unfolding sample_nat_run by simp
  from nat_step [OF this, of "NatDynamic (AddBinding ''b1'' ''p1'' None None (Some 7))"]
  have "nat_session sample_nat [] sample_nat_bound" unfolding sample_nat_run by simp
  from nat_step [OF this, of "NatStatic (AddBasic ''65.55.42.1'' ''10.0.0.1'' None (Some 7))"]
  show ?thesis unfolding sample_nat_run by simp
qed

lemma sample_nat_db: "nat_db sample_nat"
  unfolding sample_nat_def by (rule nested_nat.nat_db_axioms)

lemma empty_fields: "field_of (n_db sample_nat) t k f [] = None"
  by (simp add: sample_nat_def nested_nat_def field_of_def nested_env_def nested_entry_def nested_table_def)

lemma sample_nat_start: "nat_ok sample_nat []" "nat_limits sample_nat []"
proof -
  show "nat_ok sample_nat []" by (simp add: nat_ok_def outside_def empty_fields split: option.splits)
  show "nat_limits sample_nat []" by code_simp
qed

section \<open>Sessions\<close>

text \<open>
  C21. In every state of a session of NAT commands, whatever ran and whether it failed, the address a static
  NAT entry translates is neither that of a port translation nor in the range of a pool, if this holds
  when the session starts.  A write of the connector is assumed to be all or nothing (\<open>nat_db\<close>).
\<close>

theorem nat_no_overlap:
  assumes "nat_db N" and "nat_session N c c'" and "nat_ok N c" and "outside N ''STATIC_NAT'' k c' = Some ip"
  shows "outside N ''STATIC_NAPT'' k' c' \<noteq> Some ip \<and> (\<forall>n p. ip4_of ip = Some n \<longrightarrow> \<not> in_pool N p n c')"
  using nat_session_invariant [where I = "nat_ok N", OF assms(2,3) nat_db.run_nat_ok [OF assms(1)]] assms(4)
  unfolding nat_ok_def by blast

theorem nat_no_overlap_witness:
  "outside sample_nat ''STATIC_NAPT'' ''65.55.42.1|TCP|80'' sample_nat_full \<noteq> Some ''65.55.42.1''
   \<and> \<not> in_pool sample_nat ''p1'' 1094134273 sample_nat_full"
proof -
  have "outside sample_nat ''STATIC_NAT'' ''65.55.42.1'' sample_nat_full = Some ''65.55.42.1''" by code_simp
  moreover have "ip4_of ''65.55.42.1'' = Some 1094134273" by code_simp
  ultimately show ?thesis
    using nat_no_overlap [OF sample_nat_db sample_nat_session sample_nat_start(1), of "''65.55.42.1''" "''65.55.42.1''"]
    by blast
qed

text \<open>No session of NAT commands creates more than 16 pools or more than 16 bindings.\<close>

theorem nat_table_limits:
  assumes "nat_db N" and "nat_session N c c'" and "nat_limits N c"
  shows "length (db_get_table (n_db N) ''NAT_POOL'' c') \<le> 16 \<and> length (db_get_table (n_db N) ''NAT_BINDINGS'' c') \<le> 16"
  using nat_session_invariant [where I = "nat_limits N", OF assms(2,3) nat_db.run_nat_limits [OF assms(1)]]
  by (simp add: nat_limits_def)

theorem nat_table_limits_witness:
  "length (db_get_table (n_db sample_nat) ''NAT_POOL'' sample_nat_full) \<le> 16"
  using nat_table_limits [OF sample_nat_db sample_nat_session sample_nat_start(2)] by simp

text \<open>C22. No NAT command removes a pool that a binding is mapped to.\<close>

theorem nat_bound_pool_stays:
  assumes "nat_db N" and "field_of (n_db N) ''NAT_POOL'' p ''nat_ip'' c \<noteq> None"
    and "field_of (n_db N) ''NAT_BINDINGS'' b ''nat_pool'' c = Some p"
  shows "field_of (n_db N) ''NAT_POOL'' p ''nat_ip'' (snd (run_nat N cmd c)) \<noteq> None"
  using nat_db.bound_pool_stays [OF assms(1), of p c b cmd] assms(2,3) by (simp add: nat_db.has_pool_def [OF assms(1)])

theorem nat_bound_pool_stays_witness:
  "field_of (n_db sample_nat) ''NAT_POOL'' ''p1'' ''nat_ip'' (snd (run_nat sample_nat (NatDynamic RemovePools) sample_nat_bound)) \<noteq> None"
proof -
  have "field_of (n_db sample_nat) ''NAT_POOL'' ''p1'' ''nat_ip'' sample_nat_bound \<noteq> None"
    "field_of (n_db sample_nat) ''NAT_BINDINGS'' ''b1'' ''nat_pool'' sample_nat_bound = Some ''p1''" by code_simp+
  then show ?thesis by (rule nat_bound_pool_stays [OF sample_nat_db])
qed

section \<open>What the commands do not keep\<close>

text \<open>Bindings to a pool that is not there yet are not counted, so three entries can share a twice NAT id.\<close>

definition absent_pool_session :: "nat_command list" where
  "absent_pool_session =
     [NatDynamic (AddBinding ''b1'' ''p1'' None None (Some 7)), NatDynamic (AddBinding ''b2'' ''p1'' None None (Some 7)),
      NatDynamic (AddBinding ''b3'' ''p1'' None None (Some 7)), NatDynamic (AddPool ''p1'' ''65.55.43.5'' None)]"

lemma twice_id_limit_missed:
  "getTwiceNatIdCountWithDynamicBinding sample_nat (FInt 7) 0 None
     (foldl (\<lambda>c cmd. snd (run_nat sample_nat cmd c)) [] absent_pool_session) = Inr 3"
  by code_simp

text \<open>The last port is refused, and clearing the NAT zones of all interfaces drops their other fields.\<close>

lemma last_port_refused: "\<not> is_valid_port_address ''65535'' \<and> is_valid_port_address ''65534''"
  by code_simp

lemma remove_interfaces_drops_fields:
  "remove_interfaces sample_nat [(''INTERFACE'', [(''Ethernet0'', [(''vrf_name'', ''Vrf1''), (''nat_zone'', ''1'')])])] =
     (Inr (), [(''INTERFACE'', [(''Ethernet0'', [(''nat_zone'', ''0'')])])])"
  by code_simp

lemma remove_bindings_never_works: "run_nat N (NatDynamic RemoveBindings) c = (Inl (NameError ''ValidatedConfigBConnector''), c)"
  by (simp add: remove_bindings_def raise_def)

end
