(* ===== verification/Migrator.thy ===== *)
theory Migrator
  imports ConfigDb Json
begin

text \<open>
  The script db_migrator.py: the class \<open>DBMigrator\<close> brings the databases of a device from the version
  recorded in ConfigDB to the current one, one handler after the other, and then runs the operations
  common to all upgrades.  The connectors are parameters: those of CONFIG_DB and APPL_DB as in
  \<open>ConfigDb\<close>, with a key of either database as a table and the rest of the key, the others by the few
  calls made of them.  The buffer migrator for Mellanox devices is a parameter, too.  A list in an entry
  is its text; logging is left out.
\<close>

type_synonym 'c test = "'c \<Rightarrow> bool res \<times> 'c"

type_synonym tables = "string dict dict dict"

record 'c mig_env =
  m_cfg :: "'c db_env"
  m_cfg_tables :: "'c \<Rightarrow> string list"
  m_app :: "'c db_env"
  m_state_get :: "string \<Rightarrow> string \<Rightarrow> 'c \<Rightarrow> string option"
  m_state_has :: "string \<Rightarrow> 'c \<Rightarrow> bool"
  m_state_set :: "string \<Rightarrow> string \<Rightarrow> string \<Rightarrow> 'c \<Rightarrow> 'c"
  m_log_keys :: "'c \<Rightarrow> string list"
  m_log_get :: "string \<Rightarrow> 'c \<Rightarrow> string dict"
  m_log_delete :: "string \<Rightarrow> 'c \<Rightarrow> 'c"
  m_warm_restart :: "'c \<Rightarrow> bool"              \<comment> \<open>\<open>device_info.is_warm_restart_enabled('swss')\<close>\<close>
  m_asic_type :: string
  m_hwsku :: string
  m_config_src :: "tables option"
  m_init_cfg :: "tables option"                \<comment> \<open>init_cfg.json, \<open>None\<close> if it cannot be read\<close>
  m_if_tables :: "string list"                 \<comment> \<open>the set of interface tables, in the order of its iteration\<close>
  mlnx_pool_size :: "string \<Rightarrow> string \<Rightarrow> 'c test"
  mlnx_profile :: "string \<Rightarrow> string \<Rightarrow> 'c test"
  mlnx_flush :: "'c test"
  mlnx_is_dynamic :: "'c test"
  mlnx_reclaim :: "'c cmd"
  mlnx_append :: "string \<Rightarrow> string \<Rightarrow> fvs option \<Rightarrow> 'c cmd"
  mlnx_abandon :: "'c cmd"
  mlnx_speeds :: "string list"
  mlnx_cables :: "string list"

section \<open>The source of configuration\<close>

definition update_config :: "tables \<Rightarrow> tables \<Rightarrow> tables" where
  "update_config current_config config_input = foldl (\<lambda>acc (t, v). dset t v acc) current_config config_input"

text \<open>Minigraph and golden configuration, where an empty one counts as missing.\<close>

definition generate_config_src :: "tables option \<Rightarrow> tables option \<Rightarrow> tables option" where
  "generate_config_src minigraph_data golden_config_data =
     (case (minigraph_data, golden_config_data) of
        (Some (m # ms), Some (g # gs)) \<Rightarrow> Some (update_config (m # ms) (g # gs))
      | (Some (m # ms), _) \<Rightarrow> Some (m # ms)
      | (_, Some (g # gs)) \<Rightarrow> Some (g # gs)
      | _ \<Rightarrow> None)"

text \<open>\<open>if not self.config_src_data or table not in self.config_src_data: return\<close>.\<close>

definition with_source :: "'c mig_env \<Rightarrow> string \<Rightarrow> (string dict dict \<Rightarrow> 'c cmd) \<Rightarrow> 'c cmd" where
  "with_source M t f =
     (case m_config_src M of
        None \<Rightarrow> finish
      | Some src \<Rightarrow> (case dget src t of None \<Rightarrow> finish | Some tbl \<Rightarrow> f tbl))"

section \<open>Reading and writing\<close>

definition as_fvs :: "string dict \<Rightarrow> fvs" where
  "as_fvs e = map (\<lambda>(f, v). (f, FStr v)) e"

definition set_cfg :: "'c mig_env \<Rightarrow> string \<Rightarrow> string \<Rightarrow> string dict \<Rightarrow> 'c cmd" where
  "set_cfg M t k e = put (db_set_entry (m_cfg M) t k (Some (as_fvs e)))"

text \<open>\<open>set_entry\<close> with what \<open>get\<close> found, which removes the entry if that is \<open>None\<close>.\<close>

definition set_cfg_opt :: "'c mig_env \<Rightarrow> string \<Rightarrow> string \<Rightarrow> string dict option \<Rightarrow> 'c cmd" where
  "set_cfg_opt M t k e = put (db_set_entry (m_cfg M) t k (map_option as_fvs e))"

definition del_cfg :: "'c mig_env \<Rightarrow> string \<Rightarrow> string \<Rightarrow> 'c cmd" where
  "del_cfg M t k = put (db_set_entry (m_cfg M) t k None)"

text \<open>\<open>configDB.set\<close> and \<open>appDB.set\<close> of one field; the field \<open>NULL\<close> stands for an entry without fields.\<close>

definition put_field :: "'c db_env \<Rightarrow> string \<Rightarrow> string \<Rightarrow> string \<Rightarrow> string \<Rightarrow> 'c cmd" where
  "put_field D t k f v = put (db_mod_entry D t k (if f = ''NULL'' then [] else [(f, FStr v)]))"

definition cfg_table :: "'c mig_env \<Rightarrow> string \<Rightarrow> 'c \<Rightarrow> string dict dict" where
  "cfg_table M t = db_get_table (m_cfg M) t"

definition cfg_entry :: "'c mig_env \<Rightarrow> string \<Rightarrow> string \<Rightarrow> 'c \<Rightarrow> string dict" where
  "cfg_entry M t k = db_get_entry (m_cfg M) t k"

definition app_table :: "'c mig_env \<Rightarrow> string \<Rightarrow> 'c \<Rightarrow> string dict dict" where
  "app_table M t = db_get_table (m_app M) t"

definition colon_key :: "string \<Rightarrow> string" where
  "colon_key k = join_with '':'' (key_parts k)"

definition is_tuple :: "string \<Rightarrow> bool" where
  "is_tuple k \<longleftrightarrow> length (key_parts k) > 1"

text \<open>Tests that may change the state, one after the other until one fails.\<close>

fun all_tests :: "'c test list \<Rightarrow> 'c test" where
  "all_tests [] c = (Inr True, c)"
| "all_tests (t # ts) c = (case t c of (Inr True, c') \<Rightarrow> all_tests ts c' | r \<Rightarrow> r)"

definition when_test :: "'c test \<Rightarrow> 'c cmd \<Rightarrow> 'c cmd" where
  "when_test t m c = (case t c of (Inl e, c') \<Rightarrow> (Inl e, c') | (Inr b, c') \<Rightarrow> if b then m c' else (Inr (), c'))"

definition true_after :: "'c cmd \<Rightarrow> 'c test" where
  "true_after m c = (case m c of (Inl e, c') \<Rightarrow> (Inl e, c') | (Inr _, c') \<Rightarrow> (Inr True, c'))"

definition not_or :: "'c test \<Rightarrow> 'c test \<Rightarrow> 'c test" where
  "not_or t u c = (case t c of (Inl e, c') \<Rightarrow> (Inl e, c') | (Inr b, c') \<Rightarrow> if b then u c' else (Inr True, c'))"

section \<open>Migrations of single tables\<close>

definition migrate_pfc_wd_table :: "'c mig_env \<Rightarrow> 'c cmd" where
  "migrate_pfc_wd_table M =
     seq [ask (cfg_table M ''PFC_WD_TABLE'') (\<lambda>data. each data (\<lambda>(k, e). set_cfg M ''PFC_WD'' k e)),
          put (db_delete_table (m_cfg M) ''PFC_WD_TABLE'')]"

definition is_ip_prefix_in_key :: "string \<Rightarrow> bool" where
  "is_ip_prefix_in_key k = is_tuple k"

text \<open>An entry for each interface that has one with an address only; \<open>done_with\<close> are the names that have it.\<close>

fun interface_entries :: "(string \<times> string \<times> string dict) list \<Rightarrow> string list \<Rightarrow> (string \<times> string \<times> string dict) list" where
  "interface_entries [] done_with = []"
| "interface_entries ((t, k, e) # xs) done_with =
     (let i = hd (key_parts k) in
      if \<not> is_ip_prefix_in_key k \<or> i \<in> set done_with then interface_entries xs done_with
      else (t, i, e) # interface_entries xs (i # done_with))"

definition interface_keys_of :: "'c mig_env \<Rightarrow> 'c \<Rightarrow> (string \<times> string \<times> string dict) list" where
  "interface_keys_of M c = concat (map (\<lambda>t. map (\<lambda>(k, e). (t, k, e)) (cfg_table M t c)) (m_if_tables M))"

definition migrate_interface_table :: "'c mig_env \<Rightarrow> 'c cmd" where
  "migrate_interface_table M =
     ask (interface_keys_of M) (\<lambda>es.
       each (interface_entries es (map (\<lambda>(t, k, e). k) (filter (\<lambda>(t, k, e). \<not> is_ip_prefix_in_key k) es)))
         (\<lambda>(t, i, e). set_cfg M t i e))"

definition s6100_ports :: "(string \<times> string dict) list" where
  "s6100_ports =
     [(''Ethernet64'', [(''alias'', ''tenGigE1/1''), (''description'', ''tenGigE1/1''), (''index'', ''64''), (''lanes'', ''129''),
                        (''mtu'', ''9100''), (''pfc_asym'', ''off''), (''speed'', ''10000'')]),
      (''Ethernet65'', [(''alias'', ''tenGigE1/2''), (''description'', ''tenGigE1/2''), (''index'', ''65''), (''lanes'', ''131''),
                        (''mtu'', ''9100''), (''pfc_asym'', ''off''), (''speed'', ''10000'')])]"

definition migrate_mgmt_ports_on_s6100 :: "'c mig_env \<Rightarrow> 'c cmd" where
  "migrate_mgmt_ports_on_s6100 M =
     ask (m_warm_restart M) (\<lambda>warm.
       if \<not> warm then finish
       else ask (\<lambda>c. filter (\<lambda>(p, e). cfg_entry M ''PORT'' p c = []) s6100_ports) (\<lambda>added.
         seq [each added (\<lambda>(p, e).
                seq [set_cfg M ''PORT'' p e,
                     each e (\<lambda>(f, v). put_field (m_app M) ''PORT_TABLE'' p f v),
                     put_field (m_app M) ''PORT_TABLE'' p ''admin_status'' ''down'']),
              attempt (\<lambda>c. case dget (db_get_entry (m_app M) ''PORT_TABLE'' ''PortConfigDone'' c) ''count'' of
                             None \<Rightarrow> Inl TypeError
                           | Some n \<Rightarrow> if n = [] then Inr None else rbind (py_int n) (\<lambda>i. Inr (Some (i + int (length added)))))
                (\<lambda>total. case total of
                   None \<Rightarrow> finish
                 | Some n \<Rightarrow> put_field (m_app M) ''PORT_TABLE'' ''PortConfigDone'' ''count'' (str_int n))]))"

text \<open>\<open>row.replace('lo', name)\<close>.\<close>

fun replace_lo :: "string \<Rightarrow> string \<Rightarrow> string" where
  "replace_lo n (a # b # s) = (if a = CHR ''l'' \<and> b = CHR ''o'' then n @ replace_lo n s else a # replace_lo n (b # s))"
| "replace_lo n s = s"

definition lo_addresses :: "'c mig_env \<Rightarrow> 'c \<Rightarrow> string dict" where
  "lo_addresses M c =
     dupdate [] (concat (map (\<lambda>k. case key_parts k of i # a # _ \<Rightarrow> [(a, i)] | _ \<Rightarrow> []) (dkeys (cfg_table M ''LOOPBACK_INTERFACE'' c))))"

text \<open>The part before the first colon of a key of \<open>INTF_TABLE\<close>, and the address of a key of \<open>lo\<close>.\<close>

definition intf_name :: "string \<Rightarrow> string" where
  "intf_name k = hd (split_on (CHR '':'') k)"

definition migrate_lo_row :: "'c mig_env \<Rightarrow> string dict \<Rightarrow> string \<Rightarrow> 'c cmd" where
  "migrate_lo_row M lo_addr_to_int k =
     (if intf_name k = ''lo''
      then seq [put (db_set_entry (m_app M) ''INTF_TABLE'' k None),
                (if startswith k ''lo:''
                 then (let name = (case dget lo_addr_to_int (drop 3 k) of
                                     None \<Rightarrow> ''Loopback0'' | Some i \<Rightarrow> if i = [] then ''Loopback0'' else i)
                       in put_field (m_app M) ''INTF_TABLE'' (replace_lo name k) ''NULL'' ''NULL'')
                 else raise IndexError)]
      else finish)"

fun new_names :: "string list \<Rightarrow> string list \<Rightarrow> string list" where
  "new_names [] seen = []"
| "new_names (n # ns) seen = (if n \<in> set seen then new_names ns seen else n # new_names ns (n # seen))"

definition migrate_intf_table :: "'c mig_env \<Rightarrow> 'c cmd" where
  "migrate_intf_table M =
     ask (\<lambda>c. (lo_addresses M c, dkeys (app_table M ''INTF_TABLE'' c))) (\<lambda>(lo_addr_to_int, lo_data).
       seq [each lo_data (migrate_lo_row M lo_addr_to_int),
            ask (\<lambda>c. dkeys (app_table M ''INTF_TABLE'' c)) (\<lambda>ks.
              each (new_names (map intf_name ks) (map intf_name (filter (\<lambda>k. CHR ''/'' \<notin> set k) lo_data)))
                (\<lambda>i. put_field (m_app M) ''INTF_TABLE'' i ''NULL'' ''NULL''))])"

definition migrate_copp_table :: "'c mig_env \<Rightarrow> 'c cmd" where
  "migrate_copp_table M =
     ask (\<lambda>c. dkeys (app_table M ''COPP_TABLE'' c)) (\<lambda>ks. each ks (\<lambda>k. put (db_set_entry (m_app M) ''COPP_TABLE'' k None)))"

text \<open>The entry with a field under a new name, if it has it.\<close>

definition renamed :: "string \<Rightarrow> string \<Rightarrow> string dict \<Rightarrow> string dict option" where
  "renamed old new e = (case dget e old of None \<Rightarrow> None | Some v \<Rightarrow> Some (ddel old (dset new v e)))"

definition rename_field :: "'c mig_env \<Rightarrow> string \<Rightarrow> string \<Rightarrow> string \<Rightarrow> 'c cmd" where
  "rename_field M t old new =
     ask (cfg_table M t) (\<lambda>es. each es (\<lambda>(k, e).
       case renamed old new e of None \<Rightarrow> finish | Some e' \<Rightarrow> set_cfg M t k e'))"

definition migrate_feature_table :: "'c mig_env \<Rightarrow> 'c cmd" where
  "migrate_feature_table M =
     seq [rename_field M ''FEATURE'' ''status'' ''state'',
          ask (cfg_table M ''CONTAINER_FEATURE'') (\<lambda>es. each es (\<lambda>(k, e).
            seq [put (db_mod_entry (m_cfg M) ''FEATURE'' k (as_fvs e)), del_cfg M ''CONTAINER_FEATURE'' k]))]"

definition migrate_feature_timer :: "'c mig_env \<Rightarrow> 'c cmd" where
  "migrate_feature_timer M = rename_field M ''FEATURE'' ''has_timer'' ''delayed''"

section \<open>Buffer tables\<close>

text \<open>\<open>pg_lossless_([1-9][0-9]*000)_([1-9][0-9]*m)_profile\<close>, at a place and anywhere.\<close>

definition profile_at :: "string \<Rightarrow> (string \<times> string) option" where
  "profile_at s =
     (let r = drop 12 s; d = takeWhile is_digit r; r2 = drop (Suc (length d)) r; l = takeWhile is_digit r2 in
      if startswith s ''pg_lossless_'' \<and> 4 \<le> length d \<and> hd d \<noteq> CHR ''0'' \<and> endswith d ''000'' \<and> startswith (drop (length d) r) ''_''
         \<and> l \<noteq> [] \<and> hd l \<noteq> CHR ''0'' \<and> startswith (drop (length l) r2) ''m_profile''
      then Some (d, l @ ''m'') else None)"

fun profile_search :: "string \<Rightarrow> (string \<times> string) option" where
  "profile_search [] = None"
| "profile_search (c # s) = (case profile_at (c # s) of Some m \<Rightarrow> Some m | None \<Rightarrow> profile_search s)"

text \<open>One entry of \<open>BUFFER_PG\<close>: nothing to do, an item, or an error, which abandons the migration.\<close>

definition need_key :: "'v dict \<Rightarrow> string \<Rightarrow> 'v res" where
  "need_key d k = (case dget d k of None \<Rightarrow> Inl (KeyError k) | Some v \<Rightarrow> Inr v)"

definition nth_part :: "string list \<Rightarrow> nat \<Rightarrow> string res" where
  "nth_part xs i = (if i < length xs then Inr (xs ! i) else Inl IndexError)"

definition dynamic_pg :: "string dict dict \<Rightarrow> string dict \<Rightarrow> string \<Rightarrow> string dict \<Rightarrow> bool res" where
  "dynamic_pg ports cable_lengths name profile =
     rbind (key_pair name) (\<lambda>(port, pg).
     rbind (need_key profile ''profile'') (\<lambda>p.
     rbind (nth_part (split_on (CHR ''|'') (butlast (tl p))) 1) (\<lambda>profile_name.
     if pg = ''0'' then (if profile_name \<noteq> ''ingress_lossy_profile'' then Inl (ValueError ''profile'') else Inr False)
     else if pg \<noteq> ''3-4'' then Inl (ValueError ''pg'')
     else (case profile_search profile_name of
             None \<Rightarrow> Inl (ValueError ''profile'')
           | Some (speed, cable_length) \<Rightarrow>
               rbind (need_key ports port) (\<lambda>e.
               rbind (need_key e ''speed'') (\<lambda>s.
               if speed \<noteq> s then Inl (ValueError ''speed'')
               else rbind (need_key cable_lengths port) (\<lambda>l.
                    if cable_length \<noteq> l then Inl (ValueError ''cable'') else Inr True)))))))"

fun dynamic_pgs :: "'c mig_env \<Rightarrow> string dict dict \<Rightarrow> string dict \<Rightarrow> (string \<times> string dict) list \<Rightarrow> 'c cmd \<Rightarrow> 'c cmd" where
  "dynamic_pgs M ports cable_lengths [] rest = rest"
| "dynamic_pgs M ports cable_lengths ((name, profile) # es) rest =
     (case dynamic_pg ports cable_lengths name profile of
        Inl e \<Rightarrow> mlnx_abandon M
      | Inr False \<Rightarrow> dynamic_pgs M ports cable_lengths es rest
      | Inr True \<Rightarrow> seq [mlnx_append M ''BUFFER_PG'' name (Some [(''profile'', FStr ''NULL'')]),
                         dynamic_pgs M ports cable_lengths es rest])"

definition migrate_config_db_buffer_tables_for_dynamic_calculation ::
    "'c mig_env \<Rightarrow> string list \<Rightarrow> string list \<Rightarrow> string \<Rightarrow> 'c cmd" where
  "migrate_config_db_buffer_tables_for_dynamic_calculation M speed_list cable_len_list default_dynamic_th =
     seq [ask (cfg_table M ''BUFFER_PROFILE'') (\<lambda>ps. each ps (\<lambda>(name, info).
            case profile_search name of
              None \<Rightarrow> finish
            | Some (speed, cable_length) \<Rightarrow>
                if speed \<in> set speed_list \<and> cable_length \<in> set cable_len_list
                then mlnx_append M ''BUFFER_PROFILE'' name None else finish)),
          ask (\<lambda>c. (cfg_table M ''BUFFER_PG'' c, cfg_table M ''PORT'' c, cfg_table M ''CABLE_LENGTH'' c)) (\<lambda>(pgs, ports, cables).
            if pgs = [] \<or> ports = [] \<or> cables = [] then mlnx_abandon M
            else dynamic_pgs M ports (snd (hd cables)) pgs
                   (ask (cfg_entry M ''DEVICE_METADATA'' ''localhost'') (\<lambda>metadata.
                     seq [mlnx_append M ''DEVICE_METADATA'' ''localhost'' (Some (as_fvs (dset ''buffer_model'' ''dynamic'' metadata))),
                          mlnx_append M ''DEFAULT_LOSSLESS_BUFFER_PARAMETER'' ''AZURE'' (Some [(''default_dynamic_th'', FStr default_dynamic_th)]),
                          mlnx_append M ''LOSSLESS_TRAFFIC_PATTERN'' ''AZURE''
                            (Some [(''mtu'', FStr ''1024''), (''small_packet_percentage'', FStr ''100'')])])))]"

text \<open>References with bars become references with colons to the tables of APPL_DB.\<close>

definition app_ref :: "string \<Rightarrow> string" where
  "app_ref r =
     join_with '','' (map (\<lambda>item. case split_on (CHR ''|'') item of
                             s # ss \<Rightarrow> s @ ''_TABLE'' @ concat (map (\<lambda>x. '':'' @ x) ss) | [] \<Rightarrow> [])
                       (split_on (CHR '','') r))"

definition copied_items :: "string option \<Rightarrow> string dict \<Rightarrow> string dict option" where
  "copied_items ref_field items =
     (case ref_field of
        None \<Rightarrow> Some items
      | Some f \<Rightarrow> (case dget items f of
            None \<Rightarrow> None
          | Some r \<Rightarrow> if r = [] \<or> r = ''NULL'' then None else Some (dset f (app_ref r) items)))"

definition copy_buffer_table :: "'c mig_env \<Rightarrow> string \<Rightarrow> string option \<Rightarrow> (string \<times> string dict) list \<Rightarrow> 'c cmd" where
  "copy_buffer_table M t ref_field entries =
     ask (cfg_table M t) (\<lambda>tbl. each (if entries = [] then tbl else entries) (\<lambda>(k, items).
       case copied_items ref_field items of
         None \<Rightarrow> finish
       | Some items' \<Rightarrow> each items' (\<lambda>(f, v). put_field (m_app M) (t @ ''_TABLE'') (colon_key k) f v)))"

definition prepare_dynamic_buffer_for_warm_reboot ::
    "'c mig_env \<Rightarrow> string dict dict \<Rightarrow> string dict dict \<Rightarrow> string dict dict \<Rightarrow> 'c cmd" where
  "prepare_dynamic_buffer_for_warm_reboot M buffer_pools buffer_profiles buffer_pgs =
     ask (\<lambda>c. (m_state_get M ''WARM_RESTART_ENABLE_TABLE|system'' ''enable'' c, m_state_get M ''BUFFER_MAX_PARAM_TABLE|global'' ''mmu_size'' c))
       (\<lambda>(warm, mmu).
         if warm = Some ''true'' \<and> (mmu = None \<or> mmu = Some [])
         then seq [copy_buffer_table M ''BUFFER_POOL'' None buffer_pools,
                   copy_buffer_table M ''BUFFER_PROFILE'' (Some ''pool'') buffer_profiles,
                   copy_buffer_table M ''BUFFER_PG'' (Some ''profile'') buffer_pgs,
                   copy_buffer_table M ''BUFFER_QUEUE'' (Some ''profile'') [],
                   copy_buffer_table M ''BUFFER_PORT_INGRESS_PROFILE_LIST'' (Some ''profile_list'') [],
                   copy_buffer_table M ''BUFFER_PORT_EGRESS_PROFILE_LIST'' (Some ''profile_list'') []]
         else finish)"

definition migrate_config_db_port_table_for_auto_neg :: "'c mig_env \<Rightarrow> 'c cmd" where
  "migrate_config_db_port_table_for_auto_neg M =
     ask (cfg_table M ''PORT'') (\<lambda>ps. each ps (\<lambda>(k, e).
       if dget e ''autoneg'' = Some ''1''
       then seq [put_field (m_cfg M) ''PORT'' k ''autoneg'' ''on'',
                 (case dget e ''speed'' of
                    None \<Rightarrow> finish
                  | Some s \<Rightarrow> if dhas e ''adv_speeds'' then finish else put_field (m_cfg M) ''PORT'' k ''adv_speeds'' s)]
       else if dget e ''autoneg'' = Some ''0'' then put_field (m_cfg M) ''PORT'' k ''autoneg'' ''off'' else finish))"

definition migrate_config_db_port_table_for_dhcp_rate_limit :: "'c mig_env \<Rightarrow> 'c cmd" where
  "migrate_config_db_port_table_for_dhcp_rate_limit M =
     ask (cfg_table M ''PORT'') (\<lambda>ps. each ps (\<lambda>(k, e).
       put_field (m_cfg M) ''PORT'' k ''dhcp_rate_limit'' (case dget e ''dhcp_rate_limit'' of Some v \<Rightarrow> v | None \<Rightarrow> ''300'')))"

section \<open>References in brackets\<close>

text \<open>The names of the references in a value; an empty item raises an \<open>IndexError\<close>.\<close>

fun abnf_names :: "char \<Rightarrow> string list \<Rightarrow> string list res" where
  "abnf_names d [] = Inr []"
| "abnf_names d (item # items) =
     (if item = [] then Inl IndexError
      else rbind (abnf_names d items) (\<lambda>ns.
           if hd item \<noteq> CHR ''['' \<or> d \<notin> set item \<or> last item \<noteq> CHR '']'' then Inr ns
           else Inr (split_on d (butlast (tl item)) ! 1 # ns)))"

definition remove_reference :: "char \<Rightarrow> string \<Rightarrow> string option res" where
  "remove_reference d fieldVal =
     (if fieldVal = [] \<or> fieldVal = ''NULL'' then Inr None
      else if CHR ''['' \<in> set fieldVal \<and> d \<in> set fieldVal \<and> CHR '']'' \<in> set fieldVal
      then rbind (abnf_names d (split_on (CHR '','') fieldVal)) (\<lambda>ns. Inr (Some (join_with '','' ns)))
      else Inr None)"

definition migrate_qos_db_fieldval_reference_remove :: "(string \<times> string list) list \<Rightarrow> 'c db_env \<Rightarrow> char \<Rightarrow> 'c cmd" where
  "migrate_qos_db_fieldval_reference_remove table_list D d =
     each table_list (\<lambda>(t, fields).
       ask (db_get_table D t) (\<lambda>es. each es (\<lambda>(k, e).
         each fields (\<lambda>f.
           case dget e f of
             None \<Rightarrow> finish
           | Some v \<Rightarrow> attempt (\<lambda>c. remove_reference d v) (\<lambda>r.
               case r of None \<Rightarrow> finish | Some v' \<Rightarrow> put_field D t k f v')))))"

definition qos_app_table_list :: "(string \<times> string list) list" where
  "qos_app_table_list =
     [(''BUFFER_PG_TABLE'', [''profile'']), (''BUFFER_QUEUE_TABLE'', [''profile'']), (''BUFFER_PROFILE_TABLE'', [''pool'']),
      (''BUFFER_PORT_INGRESS_PROFILE_LIST_TABLE'', [''profile_list'']), (''BUFFER_PORT_EGRESS_PROFILE_LIST_TABLE'', [''profile_list''])]"

definition qos_table_list :: "(string \<times> string list) list" where
  "qos_table_list =
     [(''QUEUE'', [''scheduler'', ''wred_profile'']),
      (''PORT_QOS_MAP'', [''dscp_to_tc_map'', ''dot1p_to_tc_map'', ''pfc_to_queue_map'', ''tc_to_pg_map'', ''tc_to_queue_map'', ''pfc_to_pg_map'']),
      (''BUFFER_PG'', [''profile'']), (''BUFFER_QUEUE'', [''profile'']), (''BUFFER_PROFILE'', [''pool'']),
      (''BUFFER_PORT_INGRESS_PROFILE_LIST'', [''profile_list'']), (''BUFFER_PORT_EGRESS_PROFILE_LIST'', [''profile_list''])]"

definition migrate_qos_fieldval_reference_format :: "'c mig_env \<Rightarrow> 'c cmd" where
  "migrate_qos_fieldval_reference_format M =
     seq [migrate_qos_db_fieldval_reference_remove qos_app_table_list (m_app M) (CHR '':''),
          migrate_qos_db_fieldval_reference_remove qos_table_list (m_cfg M) (CHR ''|'')]"

section \<open>Missing configuration\<close>

definition migrate_vxlan_config :: "'c mig_env \<Rightarrow> 'c cmd" where
  "migrate_vxlan_config M =
     ask (\<lambda>c. concat (map (\<lambda>t. map (\<lambda>k. (t, k)) (dkeys (cfg_table M t c))) (filter (\<lambda>t. startswith t ''VXLAN_TUNNEL'') (m_cfg_tables M c))))
       (\<lambda>ks. each ks (\<lambda>(t, k).
         ask (cfg_entry M t k) (\<lambda>e.
           each (if e = [] then [(''NULL'', ''NULL'')] else e) (\<lambda>(f, v).
             ask (\<lambda>c. dhas (db_get_entry (m_app M) (t @ ''_TABLE'') (colon_key k) c) f) (\<lambda>there.
               if there then finish else put_field (m_app M) (t @ ''_TABLE'') (colon_key k) f v)))))"

text \<open>An entry that is missing or empty is taken from the source.\<close>

definition add_missing :: "'c mig_env \<Rightarrow> string \<Rightarrow> string \<Rightarrow> string dict dict \<Rightarrow> 'c cmd" where
  "add_missing M t k src =
     ask (cfg_entry M t k) (\<lambda>e. if e = [] then set_cfg_opt M t k (dget src k) else finish)"

definition migrate_restapi :: "'c mig_env \<Rightarrow> 'c cmd" where
  "migrate_restapi M =
     with_source M ''RESTAPI'' (\<lambda>src. seq [add_missing M ''RESTAPI'' ''config'' src, add_missing M ''RESTAPI'' ''certs'' src])"

definition migrate_telemetry :: "'c mig_env \<Rightarrow> 'c cmd" where
  "migrate_telemetry M =
     with_source M ''TELEMETRY'' (\<lambda>src. seq [add_missing M ''TELEMETRY'' ''gnmi'' src, add_missing M ''TELEMETRY'' ''certs'' src])"

definition migrate_gnmi :: "'c mig_env \<Rightarrow> 'c cmd" where
  "migrate_gnmi M =
     ask (\<lambda>c. cfg_entry M ''GNMI'' ''gnmi'' c \<noteq> [] \<and> cfg_entry M ''GNMI'' ''certs'' c \<noteq> []) (\<lambda>there.
       if there then finish
       else (case m_config_src M of
               Some (s # ss) \<Rightarrow>
                 (case dget (s # ss) ''GNMI'' of
                    None \<Rightarrow> finish
                  | Some gnmi_data \<Rightarrow>
                      each [''gnmi'', ''certs''] (\<lambda>k. case dget gnmi_data k of None \<Rightarrow> finish | Some e \<Rightarrow> set_cfg M ''GNMI'' k e))
             | _ \<Rightarrow>
                 each [''gnmi'', ''certs''] (\<lambda>k.
                   ask (cfg_entry M ''TELEMETRY'' k) (\<lambda>e. if e = [] then finish else set_cfg M ''GNMI'' k e))))"

definition migrate_console_switch :: "'c mig_env \<Rightarrow> 'c cmd" where
  "migrate_console_switch M =
     with_source M ''CONSOLE_SWITCH'' (\<lambda>src. add_missing M ''CONSOLE_SWITCH'' ''console_mgmt'' src)"

text \<open>A field that is missing in the source is written as \<open>None\<close>.\<close>

definition field_or_none :: "string dict \<Rightarrow> string \<Rightarrow> fval" where
  "field_or_none e f = opt_val (dget e f)"

definition with_field :: "string dict \<Rightarrow> string \<Rightarrow> fval \<Rightarrow> fvs" where
  "with_field e f v = dset f v (as_fvs e)"

definition migrate_device_metadata :: "'c mig_env \<Rightarrow> 'c cmd" where
  "migrate_device_metadata M =
     with_source M ''DEVICE_METADATA'' (\<lambda>src.
       attempt (\<lambda>c. rbind (need_key src ''localhost'') (\<lambda>new. Inr (new, cfg_entry M ''DEVICE_METADATA'' ''localhost'' c))) (\<lambda>(new, metadata).
         if dhas metadata ''synchronous_mode'' then finish
         else put (db_set_entry (m_cfg M) ''DEVICE_METADATA'' ''localhost''
                (Some (with_field metadata ''synchronous_mode'' (field_or_none new ''synchronous_mode''))))))"

definition migrate_routing_config_mode :: "'c mig_env \<Rightarrow> 'c cmd" where
  "migrate_routing_config_mode M =
     with_source M ''DEVICE_METADATA'' (\<lambda>src.
       attempt (\<lambda>c. rbind (need_key src ''localhost'') (\<lambda>new. Inr (new, cfg_entry M ''DEVICE_METADATA'' ''localhost'' c))) (\<lambda>(new, old).
         if dget old ''docker_routing_config_mode'' \<noteq> dget new ''docker_routing_config_mode''
         then put (db_set_entry (m_cfg M) ''DEVICE_METADATA'' ''localhost''
                (Some (with_field old ''docker_routing_config_mode'' (field_or_none new ''docker_routing_config_mode''))))
         else finish))"

definition migrate_ipinip_tunnel :: "'c mig_env \<Rightarrow> 'c cmd" where
  "migrate_ipinip_tunnel M =
     ask (app_table M ''TUNNEL_DECAP_TABLE'') (\<lambda>es. each es (\<lambda>(k, e).
       (let dst_ip = dget e ''dst_ip''; src_ip = dget e ''src_ip''; attrs = ddel ''src_ip'' (ddel ''dst_ip'' e);
            given = (\<lambda>x. x \<noteq> None \<and> x \<noteq> Some []) in
        seq [(case dst_ip of
                None \<Rightarrow> finish
              | Some d \<Rightarrow>
                  if d = [] then finish
                  else each (split_on (CHR '','') d) (\<lambda>dip.
                    let key = k @ '':'' @ dip in
                    if given src_ip
                    then seq [put_field (m_app M) ''TUNNEL_DECAP_TERM_TABLE'' key ''src_ip'' (the src_ip),
                              put_field (m_app M) ''TUNNEL_DECAP_TERM_TABLE'' key ''term_type'' ''P2P'']
                    else put_field (m_app M) ''TUNNEL_DECAP_TERM_TABLE'' key ''term_type'' ''P2MP'')),
             (if given dst_ip \<or> given src_ip
              then put (db_set_entry (m_app M) ''TUNNEL_DECAP_TABLE'' k (Some (as_fvs attrs))) else finish)])))"

definition migrate_port_qos_map_global :: "'c mig_env \<Rightarrow> 'c cmd" where
  "migrate_port_qos_map_global M =
     (if m_asic_type M \<noteq> ''broadcom'' then finish
      else ask (\<lambda>c. (dkeys (cfg_table M ''DSCP_TO_TC_MAP'' c), dhas (cfg_table M ''PORT_QOS_MAP'' c) ''global'')) (\<lambda>(names, there).
        if names = [] \<or> there then finish
        else set_cfg M ''PORT_QOS_MAP'' ''global'' [(''dscp_to_tc_map'', hd names)]))"

definition migrate_dns_nameserver :: "'c mig_env \<Rightarrow> 'c cmd" where
  "migrate_dns_nameserver M =
     with_source M ''DNS_NAMESERVER'' (\<lambda>src.
       ask (cfg_table M ''DNS_NAMESERVER'') (\<lambda>tbl.
         if tbl = [] then each src (\<lambda>(k, e). set_cfg M ''DNS_NAMESERVER'' k e) else finish))"

definition update_edgezone_aggregator_config :: "'c mig_env \<Rightarrow> 'c cmd" where
  "update_edgezone_aggregator_config M =
     ask (\<lambda>c. (cfg_table M ''DEVICE_NEIGHBOR_METADATA'' c, cfg_table M ''DEVICE_NEIGHBOR'' c, cfg_entry M ''CABLE_LENGTH'' ''AZURE'' c))
       (\<lambda>(devices, neighbors, cables).
         let devs = map fst (filter (\<lambda>(k, e). dget e ''type'' = Some ''EdgeZoneAggregator'') devices);
             intfs = map fst (filter (\<lambda>(k, e). case dget e ''name'' of None \<Rightarrow> False | Some n \<Rightarrow> n \<in> set devs) neighbors) in
         if devs = [] then finish
         else (case cables of
                 [] \<Rightarrow> raise (RuntimeError ''StopIteration'')
               | (i, first) # rest \<Rightarrow>
                   if list_all (\<lambda>(j, l). l = first) rest then finish
                   else each cables (\<lambda>(j, l).
                     if j \<in> set intfs then put_field (m_cfg M) ''CABLE_LENGTH'' ''AZURE'' j ''40m'' else finish)))"

definition migrate_config_db_flex_counter_delay_status :: "'c mig_env \<Rightarrow> 'c cmd" where
  "migrate_config_db_flex_counter_delay_status M =
     ask (\<lambda>c. dkeys (cfg_table M ''FLEX_COUNTER_TABLE'' c)) (\<lambda>ks. each ks (\<lambda>k.
       ask (cfg_entry M ''FLEX_COUNTER_TABLE'' k) (\<lambda>e.
         if dget e ''FLEX_COUNTER_DELAY_STATUS'' \<in> {None, Some ''false''}
         then put (db_mod_entry (m_cfg M) ''FLEX_COUNTER_TABLE'' k (as_fvs (dset ''FLEX_COUNTER_DELAY_STATUS'' ''true'' e)))
         else finish)))"

definition migrate_flex_counter_delay_status_removal :: "'c mig_env \<Rightarrow> 'c cmd" where
  "migrate_flex_counter_delay_status_removal M =
     ask (\<lambda>c. dkeys (cfg_table M ''FLEX_COUNTER_TABLE'' c)) (\<lambda>ks. each ks (\<lambda>k.
       ask (cfg_entry M ''FLEX_COUNTER_TABLE'' k) (\<lambda>e.
         set_cfg M ''FLEX_COUNTER_TABLE'' k (ddel ''FLEX_COUNTER_DELAY_STATUS'' e))))"

definition default_direction :: "('k \<times> string dict) list \<Rightarrow> ('k \<Rightarrow> string dict \<Rightarrow> 'c cmd) \<Rightarrow> 'c cmd" where
  "default_direction es f = each es (\<lambda>(k, e). if dhas e ''sample_direction'' then finish else f k e)"

definition migrate_sflow_table :: "'c mig_env \<Rightarrow> 'c cmd" where
  "migrate_sflow_table M =
     (let cfg = (\<lambda>t. ask (cfg_table M t) (\<lambda>es. default_direction es (\<lambda>k e. set_cfg M t k (dset ''sample_direction'' ''rx'' e))));
          app = (\<lambda>t. ask (app_table M t) (\<lambda>es. default_direction es (\<lambda>k e. put_field (m_app M) t k ''sample_direction'' ''rx'')))
      in seq [cfg ''SFLOW'', cfg ''SFLOW_SESSION'', app ''SFLOW_TABLE'', app ''SFLOW_SESSION_TABLE''])"

definition migrate_tacplus :: "'c mig_env \<Rightarrow> 'c cmd" where
  "migrate_tacplus M = with_source M ''TACPLUS'' (\<lambda>src. add_missing M ''TACPLUS'' ''global'' src)"

definition migrate_aaa :: "'c mig_env \<Rightarrow> 'c cmd" where
  "migrate_aaa M =
     with_source M ''AAA'' (\<lambda>src.
       seq [add_missing M ''AAA'' ''authentication'' src, add_missing M ''AAA'' ''accounting'' src,
            ask (cfg_entry M ''TACPLUS'' ''global'') (\<lambda>tacplus.
              if dget tacplus ''passkey'' \<noteq> None \<and> dget tacplus ''passkey'' \<noteq> Some []
              then add_missing M ''AAA'' ''authorization'' src
              else ask (\<lambda>c. dhas (cfg_table M ''AAA'' c) ''authorization'') (\<lambda>there.
                     if there then del_cfg M ''AAA'' ''authorization'' else finish))])"

definition migrate_dhcp_servers_to_dhcpv4_relay :: "'c mig_env \<Rightarrow> 'c cmd" where
  "migrate_dhcp_servers_to_dhcpv4_relay M =
     ask (cfg_table M ''VLAN'') (\<lambda>vlans. each vlans (\<lambda>(vlan, e).
       case dget e ''dhcp_servers'' of
         None \<Rightarrow> finish
       | Some servers \<Rightarrow>
           ask (cfg_entry M ''DHCPV4_RELAY'' vlan) (\<lambda>relay.
             seq [(if dhas relay ''dhcpv4_servers'' then finish
                   else set_cfg M ''DHCPV4_RELAY'' vlan (dset ''dhcpv4_servers'' servers relay)),
                  ask (\<lambda>c. dhas relay ''dhcpv4_servers'' \<or> dget (cfg_entry M ''DHCPV4_RELAY'' vlan c) ''dhcpv4_servers'' = Some servers)
                    (\<lambda>ok. if ok then set_cfg M ''VLAN'' vlan (ddel ''dhcp_servers'' e) else finish)])))"

definition ipinip_keys :: "string list" where
  "ipinip_keys = [''IPINIP_SUBNET'', ''IPINIP_TUNNEL'', ''IPINIP_SUBNET_V6'', ''IPINIP_V6_TUNNEL'']"

definition migrate_ipinip_tunnel_ecn_mode_mellanox :: "'c mig_env \<Rightarrow> 'c cmd" where
  "migrate_ipinip_tunnel_ecn_mode_mellanox M =
     seq [ask (app_table M ''TUNNEL_DECAP_TABLE'') (\<lambda>es. each es (\<lambda>(k, e).
            if k \<in> set ipinip_keys
            then put (db_set_entry (m_app M) ''TUNNEL_DECAP_TABLE'' k (Some (as_fvs (dset ''ecn_mode'' ''copy_from_outer'' e)))) else finish)),
          ask (\<lambda>c. filter (\<lambda>k. m_state_has M (''TUNNEL_DECAP_TABLE|'' @ k) c) ipinip_keys) (\<lambda>ks.
            each ks (\<lambda>k. put (m_state_set M (''TUNNEL_DECAP_TABLE|'' @ k) ''ecn_mode'' ''copy_from_outer'')))]"

section \<open>Versions\<close>

definition current_version :: string where
  "current_version = ''version_202605_01''"

definition get_version :: "'c mig_env \<Rightarrow> 'c \<Rightarrow> string res" where
  "get_version M c =
     (let e = cfg_entry M ''VERSIONS'' ''DATABASE'' c in
      if e = [] then Inr ''version_unknown''
      else rbind (need_key e ''VERSION'') (\<lambda>v. Inr (if v = [] then ''version_unknown'' else v)))"

definition set_version :: "'c mig_env \<Rightarrow> string \<Rightarrow> 'c cmd" where
  "set_version M version =
     set_cfg M ''VERSIONS'' ''DATABASE'' [(''VERSION'', if version = [] then current_version else version)]"

text \<open>A handler: what it does, and the version it returns.\<close>

type_synonym 'c handler = "'c cmd \<times> string option"

definition step_to :: "'c mig_env \<Rightarrow> 'c cmd list \<Rightarrow> string \<Rightarrow> 'c handler" where
  "step_to M ms v = (seq (ms @ [set_version M v]), Some v)"

definition version_unknown :: "'c mig_env \<Rightarrow> 'c handler" where
  "version_unknown M = step_to M [migrate_pfc_wd_table M, migrate_interface_table M, migrate_intf_table M] ''version_1_0_2''"

definition version_1_0_1 :: "'c mig_env \<Rightarrow> 'c handler" where
  "version_1_0_1 M = step_to M [migrate_interface_table M, migrate_intf_table M] ''version_1_0_2''"

text \<open>On Mellanox devices the version is recorded only if the buffers were migrated.\<close>

definition buffer_step :: "'c mig_env \<Rightarrow> 'c test list \<Rightarrow> string \<Rightarrow> 'c cmd" where
  "buffer_step M tests v =
     (if m_asic_type M = ''mellanox'' then when_test (all_tests tests) (set_version M v) else set_version M v)"

definition version_1_0_2 :: "'c mig_env \<Rightarrow> 'c handler" where
  "version_1_0_2 M = (buffer_step M [mlnx_pool_size M ''version_1_0_2'' ''version_1_0_3'', mlnx_flush M] ''version_1_0_3'', Some ''version_1_0_3'')"

definition version_1_0_3 :: "'c mig_env \<Rightarrow> 'c handler" where
  "version_1_0_3 M =
     (seq [migrate_feature_table M,
           buffer_step M [mlnx_pool_size M ''version_1_0_3'' ''version_1_0_4'', mlnx_profile M ''version_1_0_3'' ''version_1_0_4'', mlnx_flush M]
             ''version_1_0_4''],
      Some ''version_1_0_4'')"

definition version_1_0_4 :: "'c mig_env \<Rightarrow> 'c handler" where
  "version_1_0_4 M =
     (buffer_step M [mlnx_pool_size M ''version_1_0_4'' ''version_1_0_5'', mlnx_profile M ''version_1_0_4'' ''version_1_0_5'', mlnx_flush M]
        ''version_1_0_5'',
      Some ''version_1_0_5'')"

definition version_1_0_5 :: "'c mig_env \<Rightarrow> 'c handler" where
  "version_1_0_5 M =
     (buffer_step M [mlnx_pool_size M ''version_1_0_5'' ''version_1_0_6'', mlnx_profile M ''version_1_0_5'' ''version_1_0_6'', mlnx_flush M]
        ''version_1_0_6'',
      Some ''version_1_0_6'')"

definition version_1_0_6 :: "'c mig_env \<Rightarrow> 'c handler" where
  "version_1_0_6 M =
     (if m_asic_type M = ''mellanox''
      then ask (\<lambda>c. (cfg_table M ''BUFFER_POOL'' c, cfg_table M ''BUFFER_PROFILE'' c, cfg_table M ''BUFFER_PG'' c)) (\<lambda>(pools, profiles, pgs).
        when_test
          (all_tests [mlnx_pool_size M ''version_1_0_6'' ''version_2_0_0'', mlnx_profile M ''version_1_0_6'' ''version_2_0_0'',
             not_or (mlnx_is_dynamic M)
               (true_after (migrate_config_db_buffer_tables_for_dynamic_calculation M (mlnx_speeds M) (mlnx_cables M) ''0'')),
             mlnx_flush M, true_after (prepare_dynamic_buffer_for_warm_reboot M pools profiles pgs)])
          (set_version M ''version_2_0_0''))
      else seq [prepare_dynamic_buffer_for_warm_reboot M [] [] [],
                ask (cfg_entry M ''DEVICE_METADATA'' ''localhost'') (\<lambda>metadata.
                  set_cfg M ''DEVICE_METADATA'' ''localhost'' (dset ''buffer_model'' ''traditional'' metadata)),
                set_version M ''version_2_0_0''],
      Some ''version_2_0_0'')"

definition version_2_0_0 :: "'c mig_env \<Rightarrow> 'c handler" where
  "version_2_0_0 M = step_to M [migrate_port_qos_map_global M] ''version_2_0_1''"

definition version_2_0_1 :: "'c mig_env \<Rightarrow> 'c handler" where
  "version_2_0_1 M =
     step_to M [migrate_vxlan_config M, migrate_restapi M, migrate_telemetry M, migrate_console_switch M, migrate_device_metadata M] ''version_2_0_2''"

definition version_2_0_2 :: "'c mig_env \<Rightarrow> 'c handler" where
  "version_2_0_2 M = step_to M [] ''version_3_0_0''"

definition version_3_0_0 :: "'c mig_env \<Rightarrow> 'c handler" where
  "version_3_0_0 M =
     step_to M [migrate_config_db_port_table_for_auto_neg M, migrate_config_db_port_table_for_dhcp_rate_limit M] ''version_3_0_1''"

definition warm_reboot :: "'c mig_env \<Rightarrow> 'c \<Rightarrow> bool" where
  "warm_reboot M c \<longleftrightarrow> m_state_get M ''WARM_RESTART_ENABLE_TABLE|system'' ''enable'' c = Some ''true''"

definition version_3_0_1 :: "'c mig_env \<Rightarrow> 'c handler" where
  "version_3_0_1 M =
     step_to M [ask (warm_reboot M) (\<lambda>warm.
                  if warm then finish
                  else ask (cfg_table M ''PORTCHANNEL'') (\<lambda>es. each es (\<lambda>(k, e). set_cfg M ''PORTCHANNEL'' k (dset ''lacp_key'' ''auto'' e))))]
       ''version_3_0_2''"

definition version_3_0_2 :: "'c mig_env \<Rightarrow> 'c handler" where
  "version_3_0_2 M = step_to M [migrate_qos_fieldval_reference_format M] ''version_3_0_3''"

definition version_3_0_3 :: "'c mig_env \<Rightarrow> 'c handler" where
  "version_3_0_3 M = step_to M [if m_asic_type M = ''mellanox'' then mlnx_reclaim M else finish] ''version_3_0_4''"

definition version_3_0_4 :: "'c mig_env \<Rightarrow> 'c handler" where
  "version_3_0_4 M =
     step_to M [ask (cfg_table M ''PORT_QOS_MAP'') (\<lambda>es. each es (\<lambda>(k, e).
                  case dget e ''pfc_enable'' of None \<Rightarrow> finish | Some v \<Rightarrow> set_cfg M ''PORT_QOS_MAP'' k (dset ''pfcwd_sw_enable'' v e)))]
       ''version_3_0_5''"

text \<open>The log levels of one component; an exception only leaves them out.\<close>

definition migrate_log_key :: "'c mig_env \<Rightarrow> string \<Rightarrow> 'c cmd" where
  "migrate_log_key M key =
     seq [ask (m_log_get M key) (\<lambda>fvs.
            if key = ''JINJA2_CACHE'' then finish
            else (case (split_on (CHR '':'') key, dget fvs ''LOGLEVEL'', dget fvs ''LOGOUTPUT'') of
                    (_ # component # _, Some loglevel, Some logoutput) \<Rightarrow>
                      seq [put_field (m_cfg M) ''LOGGER'' component ''LOGLEVEL'' loglevel,
                           put_field (m_cfg M) ''LOGGER'' component ''LOGOUTPUT'' logoutput]
                  | _ \<Rightarrow> finish)),
          put (m_log_delete M key)]"

definition version_3_0_5 :: "'c mig_env \<Rightarrow> 'c handler" where
  "version_3_0_5 M =
     step_to M [ask (warm_reboot M) (\<lambda>warm. if warm then ask (m_log_keys M) (\<lambda>ks. each ks (migrate_log_key M)) else finish)] ''version_3_0_6''"

definition version_3_0_6 :: "'c mig_env \<Rightarrow> 'c handler" where
  "version_3_0_6 M = step_to M [] ''version_3_0_7''"

definition version_3_0_7 :: "'c mig_env \<Rightarrow> 'c handler" where
  "version_3_0_7 M = step_to M [] ''version_4_0_0''"

definition version_4_0_0 :: "'c mig_env \<Rightarrow> 'c handler" where
  "version_4_0_0 M =
     step_to M [ask (\<lambda>c. (m_state_has M ''FAST_RESTART_ENABLE_TABLE|system'' c, m_state_has M ''FAST_REBOOT|system'' c)) (\<lambda>(there, fast).
                  if there then finish
                  else put (m_state_set M ''FAST_RESTART_ENABLE_TABLE|system'' ''enable'' (if fast then ''true'' else ''false'')))]
       ''version_4_0_1''"

definition version_4_0_1 :: "'c mig_env \<Rightarrow> 'c handler" where
  "version_4_0_1 M = step_to M [migrate_feature_timer M] ''version_4_0_2''"

definition version_4_0_2 :: "'c mig_env \<Rightarrow> 'c handler" where
  "version_4_0_2 M =
     step_to M [ask (m_state_has M ''FAST_REBOOT|system'') (\<lambda>fast. if fast then migrate_config_db_flex_counter_delay_status M else finish)] ''version_4_0_3''"

definition version_4_0_3 :: "'c mig_env \<Rightarrow> 'c handler" where
  "version_4_0_3 M = step_to M [] ''version_202305_01''"

definition check_has_sonic_dhcpv4_relay_flag :: "'c mig_env \<Rightarrow> 'c \<Rightarrow> bool" where
  "check_has_sonic_dhcpv4_relay_flag M c \<longleftrightarrow>
     (case dget (cfg_table M ''DEVICE_METADATA'' c) ''localhost'' of
        None \<Rightarrow> False | Some e \<Rightarrow> dget e ''has_sonic_dhcpv4_relay'' = Some ''True'')"

definition dhcp_step :: "'c mig_env \<Rightarrow> 'c cmd" where
  "dhcp_step M = ask (check_has_sonic_dhcpv4_relay_flag M) (\<lambda>b. if b then migrate_dhcp_servers_to_dhcpv4_relay M else finish)"

definition version_202305_01 :: "'c mig_env \<Rightarrow> 'c handler" where
  "version_202305_01 M = step_to M [dhcp_step M] ''version_202311_01''"

definition version_202311_01 :: "'c mig_env \<Rightarrow> 'c handler" where
  "version_202311_01 M = step_to M [migrate_dns_nameserver M, migrate_sflow_table M, dhcp_step M] ''version_202311_02''"

definition version_202311_02 :: "'c mig_env \<Rightarrow> 'c handler" where
  "version_202311_02 M = step_to M [migrate_gnmi M, dhcp_step M] ''version_202311_03''"

definition version_202311_03 :: "'c mig_env \<Rightarrow> 'c handler" where
  "version_202311_03 M = step_to M [dhcp_step M] ''version_202405_01''"

definition version_202405_01 :: "'c mig_env \<Rightarrow> 'c handler" where
  "version_202405_01 M = step_to M [dhcp_step M] ''version_202405_02''"

definition version_202405_02 :: "'c mig_env \<Rightarrow> 'c handler" where
  "version_202405_02 M = step_to M [dhcp_step M, migrate_ipinip_tunnel M] ''version_202411_01''"

definition version_202411_01 :: "'c mig_env \<Rightarrow> 'c handler" where
  "version_202411_01 M = step_to M [dhcp_step M] ''version_202411_02''"

definition version_202411_02 :: "'c mig_env \<Rightarrow> 'c handler" where
  "version_202411_02 M = step_to M [dhcp_step M] ''version_202505_01''"

definition version_202505_01 :: "'c mig_env \<Rightarrow> 'c handler" where
  "version_202505_01 M = step_to M [dhcp_step M, migrate_flex_counter_delay_status_removal M] ''version_202511_01''"

definition version_202511_01 :: "'c mig_env \<Rightarrow> 'c handler" where
  "version_202511_01 M =
     step_to M [if m_asic_type M = ''mellanox'' then migrate_ipinip_tunnel_ecn_mode_mellanox M else finish] ''version_202605_01''"

definition version_202605_01 :: "'c mig_env \<Rightarrow> 'c handler" where
  "version_202605_01 M = (finish, None)"

text \<open>\<open>getattr(self, version)\<close>; a recorded version that names no handler is an \<open>AttributeError\<close>.\<close>

definition handlers :: "'c mig_env \<Rightarrow> (string \<times> 'c handler) list" where
  "handlers M =
     [(''version_unknown'', version_unknown M), (''version_1_0_1'', version_1_0_1 M), (''version_1_0_2'', version_1_0_2 M),
      (''version_1_0_3'', version_1_0_3 M), (''version_1_0_4'', version_1_0_4 M), (''version_1_0_5'', version_1_0_5 M),
      (''version_1_0_6'', version_1_0_6 M), (''version_2_0_0'', version_2_0_0 M), (''version_2_0_1'', version_2_0_1 M),
      (''version_2_0_2'', version_2_0_2 M), (''version_3_0_0'', version_3_0_0 M), (''version_3_0_1'', version_3_0_1 M),
      (''version_3_0_2'', version_3_0_2 M), (''version_3_0_3'', version_3_0_3 M), (''version_3_0_4'', version_3_0_4 M),
      (''version_3_0_5'', version_3_0_5 M), (''version_3_0_6'', version_3_0_6 M), (''version_3_0_7'', version_3_0_7 M),
      (''version_4_0_0'', version_4_0_0 M), (''version_4_0_1'', version_4_0_1 M), (''version_4_0_2'', version_4_0_2 M),
      (''version_4_0_3'', version_4_0_3 M), (''version_202305_01'', version_202305_01 M), (''version_202311_01'', version_202311_01 M),
      (''version_202311_02'', version_202311_02 M), (''version_202311_03'', version_202311_03 M), (''version_202405_01'', version_202405_01 M),
      (''version_202405_02'', version_202405_02 M), (''version_202411_01'', version_202411_01 M), (''version_202411_02'', version_202411_02 M),
      (''version_202505_01'', version_202505_01 M), (''version_202511_01'', version_202511_01 M), (''version_202605_01'', version_202605_01 M)]"

section \<open>The chain\<close>

text \<open>What the handlers return, without running them.\<close>

definition version_chain :: "(string \<times> string option) list" where
  "version_chain =
     (let vs = [''version_1_0_2'', ''version_1_0_3'', ''version_1_0_4'', ''version_1_0_5'', ''version_1_0_6'', ''version_2_0_0'', ''version_2_0_1'',
                ''version_2_0_2'', ''version_3_0_0'', ''version_3_0_1'', ''version_3_0_2'', ''version_3_0_3'', ''version_3_0_4'', ''version_3_0_5'',
                ''version_3_0_6'', ''version_3_0_7'', ''version_4_0_0'', ''version_4_0_1'', ''version_4_0_2'', ''version_4_0_3'', ''version_202305_01'',
                ''version_202311_01'', ''version_202311_02'', ''version_202311_03'', ''version_202405_01'', ''version_202405_02'', ''version_202411_01'',
                ''version_202411_02'', ''version_202505_01'', ''version_202511_01'', ''version_202605_01'']
      in [(''version_unknown'', Some ''version_1_0_2''), (''version_1_0_1'', Some ''version_1_0_2'')]
         @ zip vs (map Some (tl vs) @ [None]))"

lemmas handler_defs =
  version_unknown_def version_1_0_1_def version_1_0_2_def version_1_0_3_def version_1_0_4_def version_1_0_5_def version_1_0_6_def
  version_2_0_0_def version_2_0_1_def version_2_0_2_def version_3_0_0_def version_3_0_1_def version_3_0_2_def version_3_0_3_def
  version_3_0_4_def version_3_0_5_def version_3_0_6_def version_3_0_7_def version_4_0_0_def version_4_0_1_def version_4_0_2_def
  version_4_0_3_def version_202305_01_def version_202311_01_def version_202311_02_def version_202311_03_def version_202405_01_def
  version_202405_02_def version_202411_01_def version_202411_02_def version_202505_01_def version_202511_01_def version_202605_01_def

lemma handlers_chain: "map (\<lambda>(v, m, n). (v, n)) (handlers M) = version_chain"
  by (simp add: handlers_def version_chain_def handler_defs step_to_def)

text \<open>
  The number of handlers that are left from a version.  A text that is no version has none left, as if it
  came after the last version.
\<close>

definition version_rank :: "string \<Rightarrow> nat" where
  "version_rank v = length (dropWhile (\<lambda>p. fst p \<noteq> v) version_chain)"

lemma dget_map_snd: "dget (map (\<lambda>(v, m, n). (v, n)) hs) v = map_option snd (dget hs v)"
  by (induction hs) auto

lemma chain_decreases:
  "list_all (\<lambda>(v, n). case n of None \<Rightarrow> v = current_version | Some v' \<Rightarrow> version_rank v' < version_rank v) version_chain"
  by code_simp

lemma handler_next:
  assumes "dget (handlers M) v = Some (m, n)"
  shows "case n of None \<Rightarrow> v = current_version | Some v' \<Rightarrow> version_rank v' < version_rank v"
proof -
  have "dget version_chain v = Some n"
    using assms by (simp add: handlers_chain [of M, symmetric] dget_map_snd)
  then show ?thesis using chain_decreases by (auto simp: list_all_iff dest: dget_SomeD)
qed

text \<open>
  The loop of \<open>migrate\<close>.  The handler is \<open>getattr(self, version)\<close>: the recorded text is expected to name a
  handler, \<open>version_...\<close>; for any other text this is the error of a missing attribute, also for the names of
  other methods of the class, which Python would find.
\<close>

function migrate_from :: "'c mig_env \<Rightarrow> string \<Rightarrow> 'c cmd" where
  "migrate_from M version =
     (case dget (handlers M) version of
        None \<Rightarrow> raise AttributeError
      | Some (m, next) \<Rightarrow>
          seq [m,
               if next = Some version then raise (RuntimeError ''stuck in same version'')
               else (case next of None \<Rightarrow> finish | Some v \<Rightarrow> if v = [] then finish else migrate_from M v)])"
  by pat_completeness auto
termination
  by (relation "measure (\<lambda>(M, v). version_rank v)") (auto dest!: handler_next)

declare migrate_from.simps [simp del]

text \<open>
  New fields of the initial configuration are added, what is configured stays.  The fields of an entry
  have no order, and the first one of a name counts.
\<close>

definition merge_init :: "'c mig_env \<Rightarrow> tables \<Rightarrow> 'c cmd" where
  "merge_init M init_db =
     each init_db (\<lambda>(t, tbl). each tbl (\<lambda>(k, init).
       ask (cfg_entry M t k) (\<lambda>curr. set_cfg M t k (dupdate init (rev curr)))))"

definition common_migration_ops :: "'c mig_env \<Rightarrow> 'c cmd" where
  "common_migration_ops M =
     (case m_init_cfg M of
        None \<Rightarrow> raise (RuntimeError ''init_cfg.json'')
      | Some init_db \<Rightarrow>
          seq [merge_init M init_db,
               (if m_asic_type M \<noteq> ''mellanox'' then migrate_copp_table M else finish),
               (if m_asic_type M = ''broadcom'' \<and> is_infix ''Force10-S6100'' (m_hwsku M) then migrate_mgmt_ports_on_s6100 M else finish),
               update_edgezone_aggregator_config M, migrate_routing_config_mode M, migrate_tacplus M, migrate_aaa M])"

definition migrate :: "'c mig_env \<Rightarrow> 'c cmd" where
  "migrate M = attempt (get_version M) (\<lambda>v. seq [migrate_from M v, common_migration_ops M])"

end
