(* ===== verification/MigratorFacts.thy ===== *)
theory MigratorFacts
  imports Migrator
begin

text \<open>
  What a migration does to the recorded version and to single tables, for connectors with the laws of
  ConfigDB on separate databases.
\<close>

locale migration =
  fixes M :: "'c mig_env"
  assumes cfg: "config_db (m_cfg M)"
    and app_set: "field_of (m_cfg M) t k f (db_set_entry (m_app M) t' k' x c) = field_of (m_cfg M) t k f c"
    and app_mod: "field_of (m_cfg M) t k f (db_mod_entry (m_app M) t' k' fv c) = field_of (m_cfg M) t k f c"
    and state_set: "field_of (m_cfg M) t k f (m_state_set M t' f' v c) = field_of (m_cfg M) t k f c"
    and log_delete: "field_of (m_cfg M) t k f (m_log_delete M k' c) = field_of (m_cfg M) t k f c"
    and if_tables: "set (m_if_tables M) = {''INTERFACE'', ''PORTCHANNEL_INTERFACE'', ''VLAN_INTERFACE'', ''LOOPBACK_INTERFACE''}"
    and mlnx_tests: "field_of (m_cfg M) ''VERSIONS'' k f (snd (mlnx_pool_size M a b c)) = field_of (m_cfg M) ''VERSIONS'' k f c"
      "field_of (m_cfg M) ''VERSIONS'' k f (snd (mlnx_profile M a b c)) = field_of (m_cfg M) ''VERSIONS'' k f c"
      "field_of (m_cfg M) ''VERSIONS'' k f (snd (mlnx_flush M c)) = field_of (m_cfg M) ''VERSIONS'' k f c"
      "field_of (m_cfg M) ''VERSIONS'' k f (snd (mlnx_is_dynamic M c)) = field_of (m_cfg M) ''VERSIONS'' k f c"
    and mlnx_cmds: "field_of (m_cfg M) ''VERSIONS'' k f (snd (mlnx_reclaim M c)) = field_of (m_cfg M) ''VERSIONS'' k f c"
      "field_of (m_cfg M) ''VERSIONS'' k f (snd (mlnx_append M t k' x c)) = field_of (m_cfg M) ''VERSIONS'' k f c"
      "field_of (m_cfg M) ''VERSIONS'' k f (snd (mlnx_abandon M c)) = field_of (m_cfg M) ''VERSIONS'' k f c"

sublocale migration \<subseteq> config_db "m_cfg M"
  by (rule cfg)

definition recorded :: "'c mig_env \<Rightarrow> 'c \<Rightarrow> string option" where
  "recorded M c = field_of (m_cfg M) ''VERSIONS'' ''DATABASE'' ''VERSION'' c"

lemma leaves_iff: "leaves D t m \<longleftrightarrow> (\<forall>k f c. field_of D t k f (snd (m c)) = field_of D t k f c)"
  using leavesD by (auto simp: leaves_def keeps_def same_def)

text \<open>A test that keeps an invariant.\<close>

definition test_keeps :: "('c \<Rightarrow> bool) \<Rightarrow> 'c test \<Rightarrow> bool" where
  "test_keeps I t \<longleftrightarrow> (\<forall>c. I c \<longrightarrow> I (snd (t c)))"

lemma test_keeps_all: "(\<And>t. t \<in> set ts \<Longrightarrow> test_keeps I t) \<Longrightarrow> test_keeps I (all_tests ts)"
  unfolding test_keeps_def
proof (intro allI impI)
  fix c assume "\<And>t. t \<in> set ts \<Longrightarrow> \<forall>c. I c \<longrightarrow> I (snd (t c))" and "I c"
  then show "I (snd (all_tests ts c))"
    by (induction ts c rule: all_tests.induct) (fastforce split: prod.splits sum.splits bool.splits)+
qed

lemma test_keeps_rules:
  "test_keeps I t \<Longrightarrow> keeps I m \<Longrightarrow> keeps I (when_test t m)" "keeps I m \<Longrightarrow> test_keeps I (true_after m)"
  "test_keeps I t \<Longrightarrow> test_keeps I u \<Longrightarrow> test_keeps I (not_or t u)"
  unfolding test_keeps_def keeps_def when_test_def true_after_def not_or_def
  by (force split: prod.splits sum.splits)+

lemma wp_conj: "wp m Q E c \<Longrightarrow> wp m Q' E' c \<Longrightarrow> wp m (\<lambda>c. Q c \<and> Q' c) (\<lambda>c. E c \<and> E' c) c"
  by (auto simp: wp_def split: prod.splits sum.splits)

lemma wp_true: "wp m (\<lambda>_. True) (\<lambda>_. True) c"
  by (simp add: wp_def split: prod.split sum.split)

text \<open>The fields of a configuration.\<close>

definition init_fields :: "tables \<Rightarrow> ((string \<times> string \<times> string) \<times> string) list" where
  "init_fields db = concat (map (\<lambda>(t, tbl). concat (map (\<lambda>(k, e). map (\<lambda>(f, v). ((t, k, f), v)) e) tbl)) db)"

text \<open>Of the keys given, the servers have moved from the VLANs to the relays, unless a relay had its own.\<close>

definition servers_moved :: "'c mig_env \<Rightarrow> string set \<Rightarrow> 'c \<Rightarrow> 'c \<Rightarrow> bool" where
  "servers_moved M ks c c' \<longleftrightarrow> (\<forall>t k f. field_of (m_cfg M) t k f c' =
     (if k \<in> ks \<and> t = ''VLAN'' \<and> f = ''dhcp_servers'' then None
      else if k \<in> ks \<and> t = ''DHCPV4_RELAY'' \<and> f = ''dhcpv4_servers'' \<and> field_of (m_cfg M) t k f c = None
      then field_of (m_cfg M) ''VLAN'' k ''dhcp_servers'' c
      else field_of (m_cfg M) t k f c))"

text \<open>The first of the given values is in each field that had none.\<close>

definition merged :: "'c mig_env \<Rightarrow> ((string \<times> string \<times> string) \<times> string) list \<Rightarrow> 'c \<Rightarrow> 'c \<Rightarrow> bool" where
  "merged M fs c c' \<longleftrightarrow> (\<forall>t k f. field_of (m_cfg M) t k f c' =
     (case field_of (m_cfg M) t k f c of Some v \<Rightarrow> Some v | None \<Rightarrow> map_of fs (t, k, f)))"

context migration
begin

lemma leaves_others [leaves_intros]:
  "leaves (m_cfg M) t (put (db_set_entry (m_app M) t' k' x))" "leaves (m_cfg M) t (put (db_mod_entry (m_app M) t' k' fv))"
  "leaves (m_cfg M) t (put (m_state_set M t' f' v))" "leaves (m_cfg M) t (put (m_log_delete M k'))"
  "leaves (m_cfg M) t (put_field (m_app M) t' k' f v')"
  "leaves (m_cfg M) ''VERSIONS'' (mlnx_reclaim M)" "leaves (m_cfg M) ''VERSIONS'' (mlnx_append M t' k' x)"
  "leaves (m_cfg M) ''VERSIONS'' (mlnx_abandon M)"
  by (simp_all add: leaves_iff put_def put_field_def app_set app_mod state_set log_delete mlnx_cmds)

lemma leaves_cfg [leaves_intros]:
  "t \<noteq> t' \<Longrightarrow> leaves (m_cfg M) t (set_cfg M t' k e)" "t \<noteq> t' \<Longrightarrow> leaves (m_cfg M) t (set_cfg_opt M t' k e')"
  "t \<noteq> t' \<Longrightarrow> leaves (m_cfg M) t (del_cfg M t' k)" "t \<noteq> t' \<Longrightarrow> leaves (m_cfg M) t (put_field (m_cfg M) t' k f v)"
  unfolding set_cfg_def set_cfg_opt_def del_cfg_def put_field_def by (simp_all add: leaves_put)

lemma leaves_with_source [leaves_intros]:
  "(\<And>src. leaves (m_cfg M) t (f src)) \<Longrightarrow> leaves (m_cfg M) t (with_source M t' f)"
  by (auto simp: with_source_def intro: leaves_intros split: option.split)

lemma leaves_add_missing [leaves_intros]: "t \<noteq> t' \<Longrightarrow> leaves (m_cfg M) t (add_missing M t' k src)"
  by (auto simp: add_missing_def intro!: leaves_intros)

section \<open>Migrations leave the version alone\<close>

lemma leaves_first [leaves_intros]: "leaves (m_cfg M) ''VERSIONS'' (migrate_interface_table M)"
proof -
  have sub: "(t, i, e) \<in> set (interface_entries es s) \<Longrightarrow> t \<in> fst ` set es" for t i e es s
    by (induction es s rule: interface_entries.induct) (auto simp: Let_def split: if_splits)
  have "leaves (m_cfg M) ''VERSIONS'' (each (interface_entries (interface_keys_of M c) s) (\<lambda>(t, i, e). set_cfg M t i e))" for c s
    unfolding leaves_def
  proof (intro allI keeps_each_in)
    fix F and x :: "string \<times> string \<times> string dict"
    assume x: "x \<in> set (interface_entries (interface_keys_of M c) s)"
    obtain t i e where p: "x = (t, i, e)" by (cases x)
    have "t \<in> set (m_if_tables M)" using sub [OF x [unfolded p]] by (auto simp: interface_keys_of_def)
    then have "leaves (m_cfg M) ''VERSIONS'' (set_cfg M t i e)" using if_tables by (auto intro: leaves_cfg)
    then show "keeps (same (m_cfg M) ''VERSIONS'' F) (case x of (t, i, e) \<Rightarrow> set_cfg M t i e)"
      by (simp add: p leaves_def)
  qed
  then show ?thesis
    unfolding migrate_interface_table_def by (auto simp: leaves_iff ask_def)
qed

lemma leaves_simple [leaves_intros]:
  "leaves (m_cfg M) ''VERSIONS'' (migrate_pfc_wd_table M)" "leaves (m_cfg M) ''VERSIONS'' (migrate_mgmt_ports_on_s6100 M)"
  "leaves (m_cfg M) ''VERSIONS'' (migrate_copp_table M)" "leaves (m_cfg M) ''VERSIONS'' (rename_field M ''FEATURE'' old new)"
  "leaves (m_cfg M) ''VERSIONS'' (migrate_config_db_port_table_for_auto_neg M)"
  "leaves (m_cfg M) ''VERSIONS'' (migrate_config_db_port_table_for_dhcp_rate_limit M)"
  "leaves (m_cfg M) ''VERSIONS'' (migrate_vxlan_config M)" "leaves (m_cfg M) ''VERSIONS'' (migrate_restapi M)"
  "leaves (m_cfg M) ''VERSIONS'' (migrate_telemetry M)" "leaves (m_cfg M) ''VERSIONS'' (migrate_console_switch M)"
  "leaves (m_cfg M) ''VERSIONS'' (migrate_device_metadata M)" "leaves (m_cfg M) ''VERSIONS'' (migrate_routing_config_mode M)"
  "leaves (m_cfg M) ''VERSIONS'' (migrate_port_qos_map_global M)" "leaves (m_cfg M) ''VERSIONS'' (migrate_dns_nameserver M)"
  "leaves (m_cfg M) ''VERSIONS'' (update_edgezone_aggregator_config M)"
  "leaves (m_cfg M) ''VERSIONS'' (migrate_config_db_flex_counter_delay_status M)"
  "leaves (m_cfg M) ''VERSIONS'' (migrate_flex_counter_delay_status_removal M)"
  "leaves (m_cfg M) ''VERSIONS'' (migrate_tacplus M)" "leaves (m_cfg M) ''VERSIONS'' (migrate_aaa M)"
  "leaves (m_cfg M) ''VERSIONS'' (migrate_dhcp_servers_to_dhcpv4_relay M)"
  "leaves (m_cfg M) ''VERSIONS'' (migrate_ipinip_tunnel_ecn_mode_mellanox M)"
  unfolding migrate_pfc_wd_table_def migrate_mgmt_ports_on_s6100_def migrate_copp_table_def rename_field_def
    migrate_config_db_port_table_for_auto_neg_def migrate_config_db_port_table_for_dhcp_rate_limit_def migrate_vxlan_config_def
    migrate_restapi_def migrate_telemetry_def migrate_console_switch_def migrate_device_metadata_def migrate_routing_config_mode_def
    migrate_port_qos_map_global_def migrate_dns_nameserver_def update_edgezone_aggregator_config_def
    migrate_config_db_flex_counter_delay_status_def migrate_flex_counter_delay_status_removal_def migrate_tacplus_def migrate_aaa_def
    migrate_dhcp_servers_to_dhcpv4_relay_def migrate_ipinip_tunnel_ecn_mode_mellanox_def
  by (auto simp: Let_def intro!: leaves_intros leaves_put split: option.split list.split)+

lemma leaves_lo_row [leaves_intros]: "leaves (m_cfg M) ''VERSIONS'' (migrate_lo_row M lo k)"
  by (auto simp: migrate_lo_row_def Let_def intro!: leaves_intros split: option.split)

lemma leaves_copy [leaves_intros]: "leaves (m_cfg M) t (copy_buffer_table M t' r es)"
  by (auto simp: copy_buffer_table_def intro!: leaves_intros split: option.split)

lemma leaves_dynamic [leaves_intros]:
  "leaves (m_cfg M) ''VERSIONS'' rest \<Longrightarrow> leaves (m_cfg M) ''VERSIONS'' (dynamic_pgs M ps cs es rest)"
  by (induction es) (auto intro!: leaves_intros split: sum.split bool.split)

lemma leaves_references [leaves_intros]:
  "leaves (m_cfg M) t (migrate_qos_db_fieldval_reference_remove ts (m_app M) d)"
  "t \<notin> fst ` set ts \<Longrightarrow> leaves (m_cfg M) t (migrate_qos_db_fieldval_reference_remove ts (m_cfg M) d)"
proof -
  show "leaves (m_cfg M) t (migrate_qos_db_fieldval_reference_remove ts (m_app M) d)"
    unfolding migrate_qos_db_fieldval_reference_remove_def by (auto intro!: leaves_intros split: option.split)
  assume t: "t \<notin> fst ` set ts"
  have "leaves (m_cfg M) t
      (ask (db_get_table (m_cfg M) t') (\<lambda>es. each es (\<lambda>(k, e). each fields (\<lambda>f. case dget e f of None \<Rightarrow> finish
         | Some v \<Rightarrow> attempt (\<lambda>c. remove_reference d v) (\<lambda>r. case r of None \<Rightarrow> finish | Some v' \<Rightarrow> put_field (m_cfg M) t' k f v')))))"
    if "(t', fields) \<in> set ts" for t' fields
  proof -
    have "t \<noteq> t'" using t that by force
    then show ?thesis by (auto intro!: leaves_intros split: option.split)
  qed
  then show "leaves (m_cfg M) t (migrate_qos_db_fieldval_reference_remove ts (m_cfg M) d)"
    unfolding migrate_qos_db_fieldval_reference_remove_def leaves_def by (auto intro!: keeps_each_in)
qed

lemma leaves_more [leaves_intros]:
  "leaves (m_cfg M) ''VERSIONS'' (migrate_intf_table M)" "leaves (m_cfg M) ''VERSIONS'' (migrate_feature_table M)"
  "leaves (m_cfg M) ''VERSIONS'' (migrate_feature_timer M)" "leaves (m_cfg M) t (prepare_dynamic_buffer_for_warm_reboot M a b e)"
  "leaves (m_cfg M) ''VERSIONS'' (migrate_config_db_buffer_tables_for_dynamic_calculation M sl cl th)"
  "leaves (m_cfg M) ''VERSIONS'' (migrate_qos_fieldval_reference_format M)" "leaves (m_cfg M) ''VERSIONS'' (migrate_gnmi M)"
  "leaves (m_cfg M) ''VERSIONS'' (migrate_ipinip_tunnel M)" "leaves (m_cfg M) ''VERSIONS'' (migrate_sflow_table M)"
  "leaves (m_cfg M) ''VERSIONS'' (migrate_log_key M key)" "leaves (m_cfg M) ''VERSIONS'' (dhcp_step M)"
  unfolding migrate_intf_table_def migrate_feature_table_def migrate_feature_timer_def prepare_dynamic_buffer_for_warm_reboot_def
    migrate_config_db_buffer_tables_for_dynamic_calculation_def migrate_qos_fieldval_reference_format_def migrate_gnmi_def
    migrate_ipinip_tunnel_def migrate_sflow_table_def default_direction_def migrate_log_key_def dhcp_step_def
  by (auto simp: Let_def qos_table_list_def intro!: leaves_intros leaves_put split: option.split list.split)+

section \<open>The recorded version\<close>

lemma leaves_recorded: "leaves (m_cfg M) ''VERSIONS'' m \<Longrightarrow> keeps (\<lambda>c. recorded M c \<in> S) m"
  by (simp add: leaves_iff keeps_def recorded_def)

lemma set_version_recorded: "v \<noteq> [] \<Longrightarrow> recorded M (snd (set_version M v c)) = Some v"
  by (simp add: set_version_def set_cfg_def put_def recorded_def as_fvs_def set_field)

lemma set_version_keeps: "v \<noteq> [] \<Longrightarrow> Some v \<in> S \<Longrightarrow> keeps (\<lambda>c. recorded M c \<in> S) (set_version M v)"
  by (simp add: keeps_def set_version_recorded)

lemma keeps_seq_all: "(\<And>m. m \<in> set ms \<Longrightarrow> keeps I m) \<Longrightarrow> keeps I (seq ms)"
  by (induction ms) (auto intro: keeps_intros)

lemma leaves_test:
  "test_keeps (\<lambda>c. recorded M c \<in> S) (mlnx_pool_size M a b)" "test_keeps (\<lambda>c. recorded M c \<in> S) (mlnx_profile M a b)"
  "test_keeps (\<lambda>c. recorded M c \<in> S) (mlnx_flush M)" "test_keeps (\<lambda>c. recorded M c \<in> S) (mlnx_is_dynamic M)"
  by (simp_all add: test_keeps_def recorded_def mlnx_tests)

lemma step_keeps:
  assumes "\<And>m. m \<in> set ms \<Longrightarrow> leaves (m_cfg M) ''VERSIONS'' m" and "v \<noteq> []" and "Some v \<in> S"
  shows "keeps (\<lambda>c. recorded M c \<in> S) (fst (step_to M ms v))"
  unfolding step_to_def fst_conv
  by (rule keeps_seq_all) (auto intro: set_version_keeps [OF assms(2,3)] leaves_recorded [OF assms(1)])

lemma buffer_step_keeps:
  assumes "\<And>t. t \<in> set ts \<Longrightarrow> test_keeps (\<lambda>c. recorded M c \<in> S) t" and "v \<noteq> []" and "Some v \<in> S"
  shows "keeps (\<lambda>c. recorded M c \<in> S) (buffer_step M ts v)"
  unfolding buffer_step_def
  by (auto intro!: keeps_intros test_keeps_rules test_keeps_all set_version_keeps simp: assms)

lemma inline_steps [leaves_intros]:
  "t \<noteq> t' \<Longrightarrow> leaves (m_cfg M) t (ask r (\<lambda>es. each es (\<lambda>(k, e). case o' k e of None \<Rightarrow> finish | Some v \<Rightarrow> set_cfg M t' k (g k e v))))"
  by (auto intro!: leaves_intros)

text \<open>Each handler leaves the recorded version alone or records the version it returns.\<close>

lemma keeps_step_tests:
  "test_keeps (\<lambda>c. recorded M c \<in> S) (true_after (migrate_config_db_buffer_tables_for_dynamic_calculation M sl cl th))"
  "test_keeps (\<lambda>c. recorded M c \<in> S) (true_after (prepare_dynamic_buffer_for_warm_reboot M a b e))"
  by (auto intro!: test_keeps_rules leaves_recorded leaves_intros)

lemma handlers_keep:
  "list_all (\<lambda>(v, m, n). Some (the n) \<in> S \<or> n = None \<longrightarrow> keeps (\<lambda>c. recorded M c \<in> S) m) (handlers M)"
  unfolding handlers_def list.pred_inject prod.case
  apply (intro conjI impI TrueI)
  apply (simp_all only: handler_defs step_to_def append.simps fst_conv snd_conv prod.case option.sel option.simps simp_thms cong: if_cong)
  by ((rule set_version_keeps buffer_step_keeps keeps_seq keeps_if keeps_each keeps_ask test_keeps_rules test_keeps_all leaves_test keeps_step_tests, (simp; fail)?
    | rule leaves_recorded, (auto intro!: leaves_intros; fail) | (auto intro!: leaves_test keeps_step_tests test_keeps_rules; fail) | (clarsimp simp only: split: prod.splits))+)

lemma handler_keeps:
  assumes h: "dget (handlers M) v = Some (m, n)" and S: "\<And>v'. version_rank v' < version_rank v \<Longrightarrow> Some v' \<in> S"
  shows "keeps (\<lambda>c. recorded M c \<in> S) m"
proof -
  have "Some (the n) \<in> S \<or> n = None"
    using handler_next [OF h] S by (cases n) simp_all
  then show ?thesis
    using handlers_keep [of S] dget_SomeD [OF h] by (auto simp: list_all_iff)
qed

lemma migrate_from_keeps:
  "(\<And>v'. version_rank v' < version_rank v \<Longrightarrow> Some v' \<in> S) \<Longrightarrow> keeps (\<lambda>c. recorded M c \<in> S) (migrate_from M v)"
proof (induction "version_rank v" arbitrary: v rule: less_induct)
  case less
  show ?case
  proof (cases "dget (handlers M) v")
    case None
    then show ?thesis by (subst migrate_from.simps) (simp add: keeps_basic)
  next
    case (Some h)
    obtain m n where h: "h = (m, n)" by (cases h)
    have m: "keeps (\<lambda>c. recorded M c \<in> S) m" using handler_keeps Some h less.prems by blast
    have rest: "keeps (\<lambda>c. recorded M c \<in> S) (migrate_from M v')" if "n = Some v'" for v'
    proof -
      have "version_rank v' < version_rank v" using handler_next [OF Some [unfolded h]] that by simp
      then show ?thesis using less.hyps less.prems by (meson less_trans)
    qed
    show ?thesis
      by (subst migrate_from.simps) (auto simp: Some h intro!: keeps_intros m rest split: option.split)
  qed
qed

lemma dget_as_fvs: "dget (as_fvs e) f = map_option FStr (dget e f)"
  by (induction e) (auto simp: as_fvs_def)

lemma set_cfg_field:
  "field_of (m_cfg M) t k f (snd (set_cfg M t' k' e c)) = (if t = t' \<and> k = k' then dget e f else field_of (m_cfg M) t k f c)"
  by (simp add: set_cfg_def put_def set_field dget_as_fvs option.map_comp comp_def option.map_ident)

lemma merge_keeps_fields: "keeps (\<lambda>c. field_of (m_cfg M) t k f c = Some v) (merge_init M init_db)"
  unfolding merge_init_def
  by (auto intro!: keeps_each)
     (auto simp: keeps_def ask_def set_cfg_field [unfolded field_of_def] dget_dupdate cfg_entry_def field_of_def)

lemma common_keeps:
  "keeps (\<lambda>c. field_of (m_cfg M) ''VERSIONS'' k f c = Some v) (common_migration_ops M)"
proof -
  have "keeps (\<lambda>c. field_of (m_cfg M) ''VERSIONS'' k f c = Some v) m" if "leaves (m_cfg M) ''VERSIONS'' m" for m
    using that by (simp add: leaves_iff keeps_def)
  then show ?thesis
    unfolding common_migration_ops_def
    by (auto intro!: keeps_intros merge_keeps_fields split: option.split intro: leaves_intros)
qed

lemma chain_nonempty: "dget (handlers M) v = Some (m, Some v') \<Longrightarrow> v' \<noteq> []"
  using dget_SomeD [of "handlers M" v] by (auto simp: handlers_def handler_defs step_to_def)

lemma last_handler:
  assumes "dget (handlers M) v = Some (m, Some current_version)"
  shows "wp m (\<lambda>c. recorded M c = Some current_version) (\<lambda>_. True) c"
proof -
  have "list_all (\<lambda>(v, m, n). n = Some current_version \<longrightarrow> m = fst (version_202511_01 M)) (handlers M)"
    unfolding handlers_def handler_defs step_to_def current_version_def by simp
  then have m: "m = fst (version_202511_01 M)" using dget_SomeD [OF assms] by (auto simp: list_all_iff)
  have "wp (set_version M current_version) (\<lambda>c. recorded M c = Some current_version) (\<lambda>_. True) c" for c
    using set_version_recorded [of current_version c] by (auto simp: wp_def current_version_def split: prod.splits sum.splits)
  then show ?thesis
    unfolding m version_202511_01_def step_to_def
    by (auto simp: wp_rules current_version_def [symmetric] intro: wp_mono [OF wp_true])
qed

lemma migrate_from_records:
  "wp (migrate_from M v) (\<lambda>c'. recorded M c' = Some current_version \<or> v = current_version \<and> c' = c) (\<lambda>_. True) c"
proof (induction "version_rank v" arbitrary: v c rule: less_induct)
  case less
  show ?case
  proof (cases "dget (handlers M) v")
    case None
    then show ?thesis by (subst migrate_from.simps) (simp add: wp_rules)
  next
    case (Some h)
    obtain m n where h: "h = (m, n)" by (cases h)
    note run = migrate_from.simps [of M v, unfolded Some h option.case prod.case]
    note next_ok = handler_next [OF Some [unfolded h]]
    show ?thesis
    proof (cases n)
      case None
      then have "m = finish" using Some h by (auto simp: handlers_def handler_defs step_to_def split: if_splits)
      then show ?thesis using next_ok unfolding run by (simp add: None wp_rules)
    next
      case next_version: (Some v')
      have less_rank: "version_rank v' < version_rank v" using next_ok by (simp add: next_version)
      show ?thesis
      proof (cases "v' = current_version")
        case True
        have "wp m (\<lambda>c. recorded M c = Some current_version) (\<lambda>_. True) c"
          using last_handler Some by (simp add: h next_version True)
        then show ?thesis
          using less.hyps [OF less_rank] less_rank unfolding run
          by (fastforce simp: wp_rules next_version True current_version_def elim!: wp_mono)
      next
        case False
        then show ?thesis
          using less.hyps [OF less_rank] less_rank unfolding run
          by (fastforce simp: wp_rules next_version chain_nonempty [OF Some [unfolded h next_version]]
              intro: wp_mono [OF wp_true] elim!: wp_mono)
      qed
    qed
  qed
qed

lemma common_records: "recorded M c = Some v \<Longrightarrow> wp (common_migration_ops M) (\<lambda>c'. recorded M c' = Some v) (\<lambda>c'. recorded M c' = Some v) c"
  unfolding recorded_def by (rule wp_keeps [OF common_keeps])

lemma get_version_current: "get_version M c = Inr current_version \<Longrightarrow> recorded M c = Some current_version"
  by (auto simp: get_version_def Let_def cfg_entry_def need_key_def recorded_def field_of_def current_version_def
      split: if_splits option.splits)

lemma migrate_records: "wp (migrate M) (\<lambda>c'. recorded M c' = Some current_version) (\<lambda>_. True) c"
  unfolding migrate_def
  by (auto simp: wp_rules split: sum.split
      intro!: wp_mono [OF migrate_from_records] intro: wp_mono [OF common_records [OF get_version_current]] wp_mono [OF common_records])

lemma migrate_monotone:
  assumes "get_version M c = Inr v"
  shows "recorded M (snd (migrate M c)) \<in> insert (recorded M c) {Some v' |v'. version_rank v' < version_rank v}" (is "_ \<in> ?S")
proof -
  have "wp (migrate_from M v) (\<lambda>c'. recorded M c' \<in> ?S) (\<lambda>c'. recorded M c' \<in> ?S) c"
    by (rule wp_keeps [OF migrate_from_keeps]) auto
  moreover have "wp (common_migration_ops M) (\<lambda>c'. recorded M c' \<in> ?S) (\<lambda>c'. recorded M c' \<in> ?S) c'"
    if "recorded M c' = Some current_version" "recorded M c' \<in> ?S" for c'
    using common_records [OF that(1)] that by (auto elim: wp_mono)
  ultimately have "wp (seq [migrate_from M v, common_migration_ops M]) (\<lambda>c'. recorded M c' \<in> ?S) (\<lambda>c'. recorded M c' \<in> ?S) c"
    using wp_conj [OF migrate_from_records [of v c]] get_version_current [of c] assms unfolding wp_seq wp_seq_nil
    by (elim wp_mono [OF wp_conj [OF migrate_from_records [of v c]]]) auto
  then have "wp (migrate M) (\<lambda>c'. recorded M c' \<in> ?S) (\<lambda>c'. recorded M c' \<in> ?S) c"
    using assms by (simp add: migrate_def wp_reads)
  then show ?thesis by (rule wp_snd)
qed

section \<open>DHCP servers\<close>

lemma wp_set_cfg [wp_rules]: "wp (set_cfg M t k e) Q E c \<longleftrightarrow> Q (snd (set_cfg M t k e c))"
  by (simp add: set_cfg_def wp_rules) (simp add: put_def)

lemma wp_case_option [wp_rules]:
  "wp (case x of None \<Rightarrow> m | Some a \<Rightarrow> f a) Q E c \<longleftrightarrow> (case x of None \<Rightarrow> wp m Q E c | Some a \<Rightarrow> wp (f a) Q E c)"
  by (cases x) simp_all

lemma wp_each_simps:
  "wp (each [] g) Q E c \<longleftrightarrow> Q c" "wp (each (x # xs) g) Q E c \<longleftrightarrow> wp (g x) (wp (each xs g) Q E) E c"
  by (simp_all add: each_def wp_rules del: seq.simps)

lemma table_field:
  assumes "(k, e) \<in> set (db_get_table (m_cfg M) t c)"
  shows "dget e f = field_of (m_cfg M) t k f c"
  using table_entry [of t c k e] assms by (simp add: dget_Some_iff table_distinct field_of_def)

lemma servers_moved_step:
  assumes "\<And>f. dget e f = field_of (m_cfg M) ''VLAN'' k f c"
  shows "wp (case dget e ''dhcp_servers'' of
         None \<Rightarrow> finish
       | Some servers \<Rightarrow>
           ask (cfg_entry M ''DHCPV4_RELAY'' k) (\<lambda>relay.
             seq [(if dhas relay ''dhcpv4_servers'' then finish
                   else set_cfg M ''DHCPV4_RELAY'' k (dset ''dhcpv4_servers'' servers relay)),
                  ask (\<lambda>c. dhas relay ''dhcpv4_servers'' \<or> dget (cfg_entry M ''DHCPV4_RELAY'' k c) ''dhcpv4_servers'' = Some servers)
                    (\<lambda>ok. if ok then set_cfg M ''VLAN'' k (ddel ''dhcp_servers'' e) else finish)]))
     (servers_moved M {k} c) (\<lambda>_. False) c"
  using assms
  by (auto simp: wp_rules servers_moved_def set_cfg_field set_cfg_field [unfolded field_of_def] cfg_entry_def dhas_dget
      field_of_def [symmetric] split: option.split)

lemma servers_moved_trans:
  assumes "servers_moved M {k} c c'" and "servers_moved M ks c' c''" and "k \<notin> ks"
  shows "servers_moved M (insert k ks) c c''"
  unfolding servers_moved_def
proof (intro allI)
  fix t k' f
  show "field_of (m_cfg M) t k' f c'' =
     (if k' \<in> insert k ks \<and> t = ''VLAN'' \<and> f = ''dhcp_servers'' then None
      else if k' \<in> insert k ks \<and> t = ''DHCPV4_RELAY'' \<and> f = ''dhcpv4_servers'' \<and> field_of (m_cfg M) t k' f c = None
      then field_of (m_cfg M) ''VLAN'' k' ''dhcp_servers'' c
      else field_of (m_cfg M) t k' f c)"
    using assms(1) [unfolded servers_moved_def, rule_format, of t k' f]
      assms(1) [unfolded servers_moved_def, rule_format, of "''VLAN''" k' "''dhcp_servers''"]
      assms(2) [unfolded servers_moved_def, rule_format, of t k' f] assms(3)
    by (cases "k' = k"; cases "k' \<in> ks"; cases "t = ''VLAN''"; cases "t = ''DHCPV4_RELAY''") (simp_all split del: if_split cong: if_cong)
qed

lemma dhcp_servers_moved:
  "wp (migrate_dhcp_servers_to_dhcpv4_relay M) (servers_moved M (set (dkeys (cfg_table M ''VLAN'' c))) c) (\<lambda>_. False) c"
proof -
  let ?step = "\<lambda>(k, e). case dget e ''dhcp_servers'' of
         None \<Rightarrow> finish
       | Some servers \<Rightarrow>
           ask (cfg_entry M ''DHCPV4_RELAY'' k) (\<lambda>relay.
             seq [(if dhas relay ''dhcpv4_servers'' then finish
                   else set_cfg M ''DHCPV4_RELAY'' k (dset ''dhcpv4_servers'' servers relay)),
                  ask (\<lambda>c. dhas relay ''dhcpv4_servers'' \<or> dget (cfg_entry M ''DHCPV4_RELAY'' k c) ''dhcpv4_servers'' = Some servers)
                    (\<lambda>ok. if ok then set_cfg M ''VLAN'' k (ddel ''dhcp_servers'' e) else finish)])"
  have "wp (each vs ?step) (servers_moved M (set (dkeys vs)) c) (\<lambda>_. False) c"
    if "distinct (dkeys vs)" and "\<And>k e f. (k, e) \<in> set vs \<Longrightarrow> dget e f = field_of (m_cfg M) ''VLAN'' k f c" for vs c
    using that
  proof (induction vs arbitrary: c)
    case Nil
    then show ?case by (simp add: wp_each_simps servers_moved_def)
  next
    case (Cons v vs)
    obtain k e where v: "v = (k, e)" by (cases v)
    have "wp (?step (k, e)) (\<lambda>c'. servers_moved M {k} c c' \<and> wp (each vs ?step) (servers_moved M (set (dkeys vs)) c') (\<lambda>_. False) c') (\<lambda>_. False) c"
    proof (rule wp_mono)
      show "wp (?step (k, e)) (servers_moved M {k} c) (\<lambda>_. False) c"
        unfolding prod.case by (rule servers_moved_step) (simp add: Cons.prems v)
      fix c' assume m: "servers_moved M {k} c c'"
      have "dget e' f = field_of (m_cfg M) ''VLAN'' k' f c'" if "(k', e') \<in> set vs" for k' e' f
        using m that Cons.prems by (auto simp: servers_moved_def v dkeys_def image_iff)
      then show "servers_moved M {k} c c' \<and> wp (each vs ?step) (servers_moved M (set (dkeys vs)) c') (\<lambda>_. False) c'"
        using m Cons.IH Cons.prems(1) by (simp add: v)
    qed simp
    then show ?case
      unfolding wp_each_simps v
      by (rule wp_mono) (use Cons.prems(1) in \<open>auto simp: v elim!: wp_mono intro: servers_moved_trans\<close>)
  qed
  from this [OF table_distinct table_field] show ?thesis
    unfolding migrate_dhcp_servers_to_dhcpv4_relay_def cfg_table_def by (simp add: wp_rules)
qed

section \<open>Initial configuration\<close>

lemma merged_trans: "merged M fs c c' \<Longrightarrow> merged M gs c' c'' \<Longrightarrow> merged M (fs @ gs) c c''"
  by (simp add: merged_def map_add_def split: option.splits)

lemma merged_each:
  assumes "\<And>x c. wp (g x) (merged M (h x) c) (\<lambda>_. False) c"
  shows "wp (each xs g) (merged M (concat (map h xs)) c) (\<lambda>_. False) c"
proof (induction xs arbitrary: c)
  case Nil
  then show ?case by (auto simp: wp_each_simps merged_def split: option.split)
next
  case (Cons x xs)
  show ?case
    unfolding wp_each_simps
    by (rule wp_mono [OF assms]) (auto intro: wp_mono [OF Cons.IH] merged_trans)
qed

lemma entry_fields: "map_of (map (\<lambda>(f, v). ((t, k, f), v)) e) (t', k', f') = (if t = t' \<and> k = k' then dget e f' else None)"
  by (induction e) auto

lemma merge_init_merged: "wp (merge_init M init_db) (merged M (init_fields init_db) c) (\<lambda>_. False) c"
  unfolding merge_init_def init_fields_def
proof (rule merged_each, clarify, rule merged_each, clarify)
  fix t k e c
  show "wp (ask (cfg_entry M t k) (\<lambda>curr. set_cfg M t k (dupdate e (rev curr))))
      (merged M (map (\<lambda>(f, v). ((t, k, f), v)) e) c) (\<lambda>_. False) c"
    by (auto simp: wp_rules merged_def set_cfg_field dget_dupdate entry_fields cfg_entry_def field_of_def [symmetric] split: option.split)
qed

end

section \<open>A device\<close>

type_synonym device_dbs = "tables \<times> tables \<times> string dict dict \<times> string dict dict"

text \<open>CONFIG_DB, APPL_DB, STATE_DB and LOGLEVEL_DB as dictionaries, and a buffer migrator with nothing to do.\<close>

definition device_env :: "string \<Rightarrow> string \<Rightarrow> tables option \<Rightarrow> tables option \<Rightarrow> device_dbs mig_env" where
  "device_env asic hwsku src init =
     \<lparr>m_cfg = left_env nested_env, m_cfg_tables = (\<lambda>c. dkeys (fst c)), m_app = right_env (left_env nested_env),
      m_state_get = (\<lambda>t f (a, b, s, l). case dget s t of None \<Rightarrow> None | Some e \<Rightarrow> dget e f),
      m_state_has = (\<lambda>t (a, b, s, l). dhas s t),
      m_state_set = (\<lambda>t f v (a, b, s, l). (a, b, dset t (dset f v (case dget s t of None \<Rightarrow> [] | Some e \<Rightarrow> e)) s, l)),
      m_log_keys = (\<lambda>(a, b, s, l). dkeys l), m_log_get = (\<lambda>k (a, b, s, l). case dget l k of None \<Rightarrow> [] | Some e \<Rightarrow> e),
      m_log_delete = (\<lambda>k (a, b, s, l). (a, b, s, ddel k l)),
      m_warm_restart = (\<lambda>(a, b, s, l). (case dget s ''WARM_RESTART_ENABLE_TABLE|swss'' of None \<Rightarrow> False | Some e \<Rightarrow> dget e ''enable'' = Some ''true'')),
      m_asic_type = asic, m_hwsku = hwsku, m_config_src = src, m_init_cfg = init,
      m_if_tables = [''INTERFACE'', ''PORTCHANNEL_INTERFACE'', ''VLAN_INTERFACE'', ''LOOPBACK_INTERFACE''],
      mlnx_pool_size = (\<lambda>a b c. (Inr True, c)), mlnx_profile = (\<lambda>a b c. (Inr True, c)), mlnx_flush = Pair (Inr True),
      mlnx_is_dynamic = Pair (Inr False), mlnx_reclaim = finish, mlnx_append = (\<lambda>t k x. finish), mlnx_abandon = finish,
      mlnx_speeds = [], mlnx_cables = []\<rparr>"

interpretation device: migration "device_env asic hwsku src init"
  by (rule migration.intro)
    (auto simp: device_env_def left_field finish_def right_env_def nested.left_config_db split: prod.split)

end
