(* ===== verification/MigratorProps.thy ===== *)
theory MigratorProps
  imports MigratorFacts
begin

text \<open>Properties of the migration of the databases, and a sample device.\<close>

section \<open>A sample device\<close>

definition sample_init :: tables where
  "sample_init = [(''FEATURE'', [(''bgp'', [(''state'', ''enabled''), (''delayed'', ''False'')])])]"

definition sample_migration :: "device_dbs mig_env" where
  "sample_migration = device_env ''broadcom'' ''sku'' None (Some sample_init)"

definition sample_old :: device_dbs where
  "sample_old =
     ([(''VERSIONS'', [(''DATABASE'', [(''VERSION'', ''version_202411_02'')])]),
       (''DEVICE_METADATA'', [(''localhost'', [(''has_sonic_dhcpv4_relay'', ''True'')])]),
       (''FEATURE'', [(''bgp'', [(''state'', ''disabled'')])]),
       (''VLAN'', [(''Vlan10'', [(''vlanid'', ''10''), (''dhcp_servers'', ''1.1.1.1'')])])],
      [], [], [])"

definition sample_new :: device_dbs where
  "sample_new =
     ([(''VERSIONS'', [(''DATABASE'', [(''VERSION'', ''version_202605_01'')])]),
       (''DEVICE_METADATA'', [(''localhost'', [(''has_sonic_dhcpv4_relay'', ''True'')])]),
       (''FEATURE'', [(''bgp'', [(''state'', ''disabled''), (''delayed'', ''False'')])]),
       (''VLAN'', [(''Vlan10'', [(''vlanid'', ''10'')])]),
       (''DHCPV4_RELAY'', [(''Vlan10'', [(''dhcpv4_servers'', ''1.1.1.1'')])])],
      [], [], [])"

lemma sample_migrate: "migrate sample_migration sample_old = (Inr (), sample_new)"
  by code_simp

lemma sample_migration_ok: "migration sample_migration"
  unfolding sample_migration_def by (rule device.migration_axioms)

section \<open>The recorded version\<close>

text \<open>
  C23. Whatever version is recorded and whatever the buffer migrator does, a migration that ends without an
  exception leaves the current version recorded.  The recorded text is taken for a version: a text that
  names another method of the class, which \<open>getattr\<close> would find, is an error here as every unknown version is.
\<close>

theorem migration_reaches_current:
  assumes "migration M" and "migrate M c = (Inr (), c')"
  shows "recorded M c' = Some current_version"
  using migration.migrate_records [OF assms(1), of c] assms(2) by (simp add: wp_def)

theorem migration_reaches_current_witness:
  "recorded sample_migration sample_new = Some ''version_202605_01''"
  using migration_reaches_current [OF sample_migration_ok sample_migrate] by (simp add: current_version_def)

text \<open>
  C24. A migration never takes the recorded version back: wherever it stops, the version is the one it found or
  one with fewer handlers left than the one it started from.  A text that is no version of the chain counts as
  one after the last (\<open>version_rank\<close> is 0); that the version recorded at the end is the current one is C23.
\<close>

theorem migration_never_goes_back:
  assumes "migration M" and "get_version M c = Inr v"
  shows "recorded M (snd (migrate M c)) = recorded M c
    \<or> (\<exists>v'. recorded M (snd (migrate M c)) = Some v' \<and> version_rank v' < version_rank v)"
  using migration.migrate_monotone [OF assms] by auto

theorem migration_never_goes_back_witness:
  "version_rank ''version_202605_01'' < version_rank ''version_202411_02''"
proof -
  have "get_version sample_migration sample_old = Inr ''version_202411_02''" by code_simp
  note step = migration_never_goes_back [OF sample_migration_ok this, unfolded sample_migrate snd_conv]
  have "recorded sample_migration sample_old = Some ''version_202411_02''" by code_simp
  moreover have "recorded sample_migration sample_new = Some ''version_202605_01''" by code_simp
  ultimately show ?thesis using step by simp
qed

section \<open>Single migrations\<close>

text \<open>
  C25. Merging the initial configuration keeps every configured field, adds each field of the initial
  configuration that is missing, and changes nothing else.
\<close>

theorem init_config_merged:
  assumes "migration M"
  shows "fst (merge_init M init_db c) = Inr () \<and> field_of (m_cfg M) t k f (snd (merge_init M init_db c)) =
    (case field_of (m_cfg M) t k f c of Some v \<Rightarrow> Some v | None \<Rightarrow> map_of (init_fields init_db) (t, k, f))"
  using migration.merge_init_merged [OF assms, of init_db c]
  by (auto simp: wp_def merged_def split: prod.splits sum.splits)

theorem init_config_merged_witness:
  "field_of (m_cfg sample_migration) ''FEATURE'' ''bgp'' ''delayed'' (snd (merge_init sample_migration sample_init sample_old)) = Some ''False''
   \<and> field_of (m_cfg sample_migration) ''FEATURE'' ''bgp'' ''state'' (snd (merge_init sample_migration sample_init sample_old)) = Some ''disabled''"
proof -
  note merged = init_config_merged [OF sample_migration_ok, THEN conjunct2, of "''FEATURE''" "''bgp''" _ sample_init sample_old]
  have "field_of (m_cfg sample_migration) ''FEATURE'' ''bgp'' ''delayed'' sample_old = None" by code_simp
  moreover have "field_of (m_cfg sample_migration) ''FEATURE'' ''bgp'' ''state'' sample_old = Some ''disabled''" by code_simp
  moreover have "map_of (init_fields sample_init) (''FEATURE'', ''bgp'', ''delayed'') = Some ''False''" by code_simp
  ultimately show ?thesis by (simp add: merged)
qed

text \<open>
  C26. The migration of the DHCP servers raises nothing; after it no VLAN has servers, each relay without
  servers has those of the VLAN of its name, and nothing else has changed.
\<close>

theorem dhcp_servers_migrated:
  assumes "migration M"
  shows "fst (migrate_dhcp_servers_to_dhcpv4_relay M c) = Inr ()
    \<and> field_of (m_cfg M) t k f (snd (migrate_dhcp_servers_to_dhcpv4_relay M c)) =
      (if t = ''VLAN'' \<and> f = ''dhcp_servers'' then None
       else if t = ''DHCPV4_RELAY'' \<and> f = ''dhcpv4_servers'' \<and> field_of (m_cfg M) t k f c = None
       then field_of (m_cfg M) ''VLAN'' k ''dhcp_servers'' c
       else field_of (m_cfg M) t k f c)"
proof -
  have "fst (migrate_dhcp_servers_to_dhcpv4_relay M c) = Inr ()"
    using migration.dhcp_servers_moved [OF assms, of c] by (auto simp: wp_def split: prod.splits sum.splits)
  moreover have "field_of (m_cfg M) ''VLAN'' k ''dhcp_servers'' c = None" if "k \<notin> set (dkeys (cfg_table M ''VLAN'' c))"
    using config_db.table_key [OF migration.cfg [OF assms], of "''VLAN''" k "''dhcp_servers''" c] that
    by (cases "field_of (m_cfg M) ''VLAN'' k ''dhcp_servers'' c") (auto simp: cfg_table_def dhas_iff)
  moreover have "servers_moved M (set (dkeys (cfg_table M ''VLAN'' c))) c (snd (migrate_dhcp_servers_to_dhcpv4_relay M c))"
    using migration.dhcp_servers_moved [OF assms, of c] by (auto simp: wp_def split: prod.splits sum.splits)
  ultimately show ?thesis
    unfolding servers_moved_def by auto
qed

theorem dhcp_servers_migrated_witness:
  "field_of (m_cfg sample_migration) ''DHCPV4_RELAY'' ''Vlan10'' ''dhcpv4_servers''
     (snd (migrate_dhcp_servers_to_dhcpv4_relay sample_migration sample_old)) = Some ''1.1.1.1''"
proof -
  have "field_of (m_cfg sample_migration) ''DHCPV4_RELAY'' ''Vlan10'' ''dhcpv4_servers'' sample_old = None" by code_simp
  moreover have "field_of (m_cfg sample_migration) ''VLAN'' ''Vlan10'' ''dhcp_servers'' sample_old = Some ''1.1.1.1''" by code_simp
  ultimately show ?thesis by (simp add: dhcp_servers_migrated [OF sample_migration_ok, THEN conjunct2])
qed

section \<open>References\<close>

text \<open>A reference as it was written before version 3.0.3: the table and the name in brackets.\<close>

definition bracketed :: "char \<Rightarrow> string \<times> string \<Rightarrow> string" where
  "bracketed d r = ''['' @ fst r @ d # snd r @ '']''"

lemma set_join_with: "s \<in> set ss \<Longrightarrow> set s \<subseteq> set (join_with sep ss)"
  by (induction sep ss rule: join_with.induct) auto

lemma join_with_set: "set (join_with sep ss) \<subseteq> set sep \<union> \<Union> (set ` set ss)"
  by (induction sep ss rule: join_with.induct) auto

lemma abnf_names_bracketed:
  assumes "\<And>r. r \<in> set refs \<Longrightarrow> d \<notin> set (fst r) \<and> d \<notin> set (snd r)"
  shows "abnf_names d (map (bracketed d) refs) = Inr (map snd refs)"
  using assms by (induction refs) (auto simp: bracketed_def butlast_append split_on_append split_on_none rbind_simps)

text \<open>
  C27. A field that holds references to tables in brackets, separated by commas, becomes the list of their
  names, and a field that holds names already is not touched by a second migration.
\<close>

theorem references_rewritten:
  assumes "refs \<noteq> []" and "\<And>r. r \<in> set refs \<Longrightarrow> set (fst r @ snd r) \<inter> {CHR '','', d} = {}" and "d \<noteq> CHR '',''"
  shows "remove_reference d (join_with '','' (map (bracketed d) refs)) = Inr (Some (join_with '','' (map snd refs)))
    \<and> remove_reference d (join_with '','' (map snd refs)) = Inr None"
proof -
  have items: "CHR '','' \<notin> set s" if "s \<in> set (map (bracketed d) refs)" for s
    using that assms(2,3) by (fastforce simp: bracketed_def)
  obtain r where r: "r \<in> set refs" using assms(1) by (cases refs) auto
  have "set (bracketed d r) \<subseteq> set (join_with '','' (map (bracketed d) refs))"
    by (rule set_join_with) (use r in simp)
  then have "CHR ''['' \<in> set (join_with '','' (map (bracketed d) refs))" "d \<in> set (join_with '','' (map (bracketed d) refs))"
      "CHR '']'' \<in> set (join_with '','' (map (bracketed d) refs))" "length (join_with '','' (map (bracketed d) refs)) \<noteq> 4 \<or> True"
    by (auto simp: bracketed_def)
  moreover have "abnf_names d (map (bracketed d) refs) = Inr (map snd refs)"
    by (rule abnf_names_bracketed) (use assms(2) in auto)
  ultimately have rewritten: "remove_reference d (join_with '','' (map (bracketed d) refs)) = Inr (Some (join_with '','' (map snd refs)))"
    using split_on_join [of "map (bracketed d) refs" "CHR '',''"] items assms(1)
    by (auto simp: remove_reference_def rbind_simps)
  have "d \<notin> set (join_with '','' (map snd refs))"
    using join_with_set [of "'',''" "map snd refs"] assms(2,3) by fastforce
  then have "remove_reference d (join_with '','' (map snd refs)) = Inr None"
    by (simp add: remove_reference_def)
  with rewritten show ?thesis by simp
qed

theorem references_rewritten_witness:
  "remove_reference (CHR ''|'') ''[SCHEDULER|s.0],[SCHEDULER|s.1]'' = Inr (Some ''s.0,s.1'')"
proof -
  have "remove_reference (CHR ''|'') (join_with '','' (map (bracketed (CHR ''|'')) [(''SCHEDULER'', ''s.0''), (''SCHEDULER'', ''s.1'')])) =
      Inr (Some (join_with '','' (map snd [(''SCHEDULER'', ''s.0''), (''SCHEDULER'', ''s.1'')])))"
    by (rule references_rewritten [THEN conjunct1]) auto
  then show ?thesis by (simp add: bracketed_def)
qed

section \<open>Inputs that stop a migration\<close>

text \<open>
  A row of \<open>INTF_TABLE\<close> for the interface lo without an address is deleted before its missing address raises; so
  a second run of the migration succeeds, without it.
\<close>

theorem lo_row_lost:
  "migrate_intf_table sample_migration ([], [(''INTF_TABLE'', [(''lo'', [(''NULL'', ''NULL'')])])], [], []) =
   (Inl IndexError, ([], [(''INTF_TABLE'', [])], [], []))"
  by code_simp

text \<open>A device with an edge zone aggregator and no cable lengths cannot be migrated.\<close>

theorem no_cable_lengths:
  "fst (update_edgezone_aggregator_config sample_migration
     ([(''DEVICE_NEIGHBOR_METADATA'', [(''d'', [(''type'', ''EdgeZoneAggregator'')])])], [], [], [])) = Inl (RuntimeError ''StopIteration'')"
  by code_simp

text \<open>
  If the buffers cannot be migrated, the step records no version, but still returns the next one, whose handler
  records the version after it: the step is not tried again.
\<close>

theorem failed_buffers_skipped:
  assumes "m_asic_type M = ''mellanox''" and "mlnx_pool_size M ''version_1_0_2'' ''version_1_0_3'' c = (Inr False, c)"
  shows "fst (version_1_0_2 M) c = (Inr (), c)" and "snd (version_1_0_2 M) = Some ''version_1_0_3''"
  using assms by (simp_all add: version_1_0_2_def buffer_step_def when_test_def)

end
