(* ===== verification/Acl.thy ===== *)
theory Acl
  imports ConfigDb Json NetAddr "HOL-Library.Word"
begin

text \<open>
  The ACL loader, acl_loader/main.py: it converts the rules of a file in the openconfig format to entries of
  \<open>ACL_RULE\<close> and brings the databases of the host and of each ASIC to them, by a full or an incremental
  update.  The parser of the file, the connectors and the state database are parameters; the commands that
  only display tables are left out, and so are messages.
\<close>

unbundle bit_operations_syntax

section \<open>What the loader reads\<close>

record table_info =
  ti_fields :: "string dict"             \<comment> \<open>without the list of ports\<close>
  ti_ports :: "string list option"

text \<open>The host and the ASICs by namespace; what \<open>get_table\<close>, \<open>keys\<close> and \<open>get_all\<close> return of the tables read once.\<close>

record 'c acl_env =
  a_host :: "'c db_env"
  a_npus :: "(string \<times> 'c db_env) list"
  a_tables :: "string option \<Rightarrow> 'c \<Rightarrow> table_info dict"
  a_types :: "string option \<Rightarrow> 'c \<Rightarrow> string list option dict"
  a_appl_tables :: "'c \<Rightarrow> string dict dict"
  a_appl_rules :: "'c \<Rightarrow> string dict dict"
  a_state :: "string option \<Rightarrow> string \<Rightarrow> 'c \<Rightarrow> string dict"

text \<open>The state of an \<open>AclLoader\<close> after its constructor; \<open>l_state\<close> is the state database it asks for capabilities.\<close>

record loader =
  l_tables :: "table_info dict"
  l_types :: "string list option dict"
  l_rules :: "string dict dict"
  l_sessions :: "string dict dict"
  l_requested :: "string option"
  l_stage :: "string option"
  l_current :: "string option"
  l_max :: int
  l_state :: "string \<Rightarrow> string dict"

definition is_ctrlplane :: "table_info \<Rightarrow> bool" where
  "is_ctrlplane t \<longleftrightarrow> dget (ti_fields t) ''type'' = Some ''CTRLPLANE''"

text \<open>The tables of one ASIC: a new table is taken, of a known one the ports are appended.\<close>

fun add_ns_tables :: "(string \<times> table_info) list \<Rightarrow> table_info dict \<Rightarrow> table_info dict res" where
  "add_ns_tables [] acc = Inr acc"
| "add_ns_tables ((t, e) # es) acc =
     (if is_ctrlplane e then add_ns_tables es acc
      else case dget acc t of
        None \<Rightarrow> add_ns_tables es (dset t e acc)
      | Some old \<Rightarrow>
          (case ti_ports old of
             None \<Rightarrow> Inl (KeyError ''ports'')
           | Some ps \<Rightarrow>
               add_ns_tables es (dset t (old\<lparr>ti_ports := Some (ps @ (case ti_ports e of None \<Rightarrow> [] | Some qs \<Rightarrow> qs))\<rparr>) acc)))"

definition appl_table :: "string dict \<Rightarrow> table_info" where
  "appl_table fs =
     (let gs = map (\<lambda>(f, v). (ascii_lower f, v)) fs in
      \<lparr>ti_fields = dupdate [] (filter (\<lambda>(f, v). f \<noteq> ''ports'') gs),
       ti_ports = map_option (split_on (CHR '','')) (dget (rev gs) ''ports'')\<rparr>)"

definition last_part :: "string \<Rightarrow> string" where
  "last_part k = last (split_on (CHR '':'') k)"

definition read_tables_info :: "'c acl_env \<Rightarrow> 'c \<Rightarrow> table_info dict res" where
  "read_tables_info A c =
     (if a_npus A \<noteq> []
      then fold_res (\<lambda>(ns, D) acc. add_ns_tables (a_tables A (Some ns) c) acc) (a_npus A)
             (filter (\<lambda>(t, e). is_ctrlplane e) (a_tables A None c))
      else Inr (foldl (\<lambda>acc (k, fs). if dhas acc (last_part k) then acc else dset (last_part k) (appl_table fs) acc)
                 (a_tables A None c) (a_appl_tables A c)))"

definition read_tables_types :: "'c acl_env \<Rightarrow> 'c \<Rightarrow> string list option dict" where
  "read_tables_types A c =
     (if a_npus A \<noteq> []
      then foldl (\<lambda>acc (ns, D). foldl (\<lambda>acc (t, e). if dhas acc t then acc else dset t e acc) acc (a_types A (Some ns) c)) [] (a_npus A)
      else a_types A None c)"

text \<open>The rules of APPL_DB have keys \<open>ACL_RULE_TABLE:table:rule\<close>.\<close>

definition read_rules_info :: "'c acl_env \<Rightarrow> 'c \<Rightarrow> string dict dict res" where
  "read_rules_info A c =
     (let rules = db_get_table (a_host A) ''ACL_RULE'' c in
      if a_npus A \<noteq> [] then Inr rules
      else fold_res (\<lambda>(k, fs) acc.
             case split_on (CHR '':'') k of
               [_, t, r] \<Rightarrow> Inr (if dhas acc (t @ ''|'' @ r) then acc else dset (t @ ''|'' @ r) fs acc)
             | _ \<Rightarrow> Inl (ValueError ''unpack'')) (a_appl_rules A c) rules)"

definition merge_session :: "string dict \<Rightarrow> string dict \<Rightarrow> string dict" where
  "merge_session existing val =
     (case dget val ''src_port'' of
        None \<Rightarrow> existing
      | Some p \<Rightarrow>
          (case dget existing ''src_port'' of
             Some q \<Rightarrow> dset ''src_port'' (q @ '','' @ p) existing
           | None \<Rightarrow> (let e = dset ''src_port'' p existing in
                     case dget val ''direction'' of None \<Rightarrow> e | Some d \<Rightarrow> dset ''direction'' d e)))"

definition read_sessions_info :: "'c acl_env \<Rightarrow> 'c \<Rightarrow> string dict dict" where
  "read_sessions_info A c =
     (if a_npus A \<noteq> []
      then foldl (\<lambda>acc (ns, D). foldl (\<lambda>acc (k, val).
               case dget acc k of None \<Rightarrow> dset k val acc | Some e \<Rightarrow> dset k (merge_session e val) acc)
             acc (db_get_table D ''MIRROR_SESSION'' c)) [] (a_npus A)
      else db_get_table (a_host A) ''MIRROR_SESSION'' c)"

definition new_loader :: "'c acl_env \<Rightarrow> 'c \<Rightarrow> loader res" where
  "new_loader A c =
     rbind (read_tables_info A c) (\<lambda>ts.
     rbind (read_rules_info A c) (\<lambda>rs.
       Inr \<lparr>l_tables = ts, l_types = read_tables_types A c, l_rules = rs, l_sessions = read_sessions_info A c, l_requested = None,
            l_stage = None, l_current = None, l_max = 10000,
            l_state = (\<lambda>k. a_state A (case a_npus A of [] \<Rightarrow> None | (ns, D) # _ \<Rightarrow> Some ns) k c)\<rparr>))"

section \<open>Settings\<close>

definition get_session_name :: "loader \<Rightarrow> string option" where
  "get_session_name L =
     (if l_requested L \<noteq> None \<and> l_requested L \<noteq> Some [] then l_requested L
      else find (\<lambda>k. startswith k ''everflow'') (dkeys (l_sessions L)))"

definition set_table_name :: "string \<Rightarrow> loader \<Rightarrow> loader" where
  "set_table_name t L = L\<lparr>l_current := Some t\<rparr>"

definition set_session_name :: "string \<Rightarrow> loader \<Rightarrow> loader res" where
  "set_session_name s L =
     (if dhas (l_sessions L) s then Inr (L\<lparr>l_requested := Some s\<rparr>) else Inl (AclLoaderException ''session''))"

definition set_mirror_stage :: "string \<Rightarrow> loader \<Rightarrow> loader" where
  "set_mirror_stage s L = L\<lparr>l_stage := Some (upper s)\<rparr>"

definition set_max_priority :: "int \<Rightarrow> loader \<Rightarrow> loader" where
  "set_max_priority p L = L\<lparr>l_max := p\<rparr>"

section \<open>Tables\<close>

definition is_table_valid :: "loader \<Rightarrow> string \<Rightarrow> bool" where
  "is_table_valid L t = (case dget (l_tables L) t of None \<Rightarrow> False | Some e \<Rightarrow> ti_fields e \<noteq> [] \<or> ti_ports e \<noteq> None)"

definition table_field :: "loader \<Rightarrow> string \<Rightarrow> string \<Rightarrow> string option res" where
  "table_field L t f = (case dget (l_tables L) t of None \<Rightarrow> Inl (KeyError t) | Some e \<Rightarrow> Inr (dget (ti_fields e) f))"

definition table_type :: "loader \<Rightarrow> string \<Rightarrow> string res" where
  "table_type L t = rbind (table_field L t ''type'') (\<lambda>x. case x of None \<Rightarrow> Inl (KeyError ''type'') | Some ty \<Rightarrow> Inr ty)"

definition table_stage :: "loader \<Rightarrow> string \<Rightarrow> string res" where
  "table_stage L t = rbind (table_field L t ''stage'') (\<lambda>x. Inr (upper (case x of None \<Rightarrow> ''INGRESS'' | Some s \<Rightarrow> s)))"

definition is_table_egress :: "loader \<Rightarrow> string \<Rightarrow> bool res" where
  "is_table_egress L t = rbind (table_stage L t) (\<lambda>s. Inr (s = ''EGRESS''))"

definition type_in :: "string list \<Rightarrow> loader \<Rightarrow> string \<Rightarrow> bool res" where
  "type_in tys L t = rbind (table_type L t) (\<lambda>ty. Inr (upper ty \<in> set tys))"

definition is_table_mirror :: "loader \<Rightarrow> string \<Rightarrow> bool res" where
  "is_table_mirror L t = rbind (table_type L t) (\<lambda>ty. Inr (startswith (upper ty) ''MIRROR''))"

definition is_table_l3v6 :: "loader \<Rightarrow> string \<Rightarrow> bool res" where
  "is_table_l3v6 = type_in [''L3V6'']"

definition is_table_l3v4v6 :: "loader \<Rightarrow> string \<Rightarrow> bool res" where
  "is_table_l3v4v6 = type_in [''L3V4V6'']"

definition is_table_l3 :: "loader \<Rightarrow> string \<Rightarrow> bool res" where
  "is_table_l3 = type_in [''L3'']"

definition is_table_ipv6 :: "loader \<Rightarrow> string \<Rightarrow> bool res" where
  "is_table_ipv6 = type_in [''L3V6'', ''MIRRORV6'']"

definition is_table_control_plane :: "loader \<Rightarrow> string \<Rightarrow> bool res" where
  "is_table_control_plane = type_in [''CTRLPLANE'']"

definition acl_table_has_match :: "loader \<Rightarrow> string \<Rightarrow> string \<Rightarrow> bool res" where
  "acl_table_has_match L t mt =
     rbind (table_type L t) (\<lambda>ty.
       case dget (l_types L) ty of
         None \<Rightarrow> Inr True
       | Some None \<Rightarrow> Inl (KeyError ''MATCHES'')
       | Some (Some ms) \<Rightarrow> Inr (mt \<in> set ms))"

section \<open>Rules\<close>

text \<open>What the loader reads of a rule; \<open>FNone\<close> and \<open>None\<close> are fields that are not set.\<close>

record acl_rule =
  r_seq :: int
  r_action :: string
  r_ethertype :: fval
  r_vlan :: "int option"
  r_protocol :: fval
  r_src_ip :: string
  r_dst_ip :: string
  r_dscp :: fval
  r_icmp_type :: "int option"
  r_icmp_code :: "int option"
  r_src_port :: string
  r_dst_port :: string
  r_tcp_flags :: "string list"
  r_interface :: string
  r_filled :: bool                     \<comment> \<open>\<open>rule.ip or rule.transport\<close>\<close>

fun fval_true :: "fval \<Rightarrow> bool" where
  "fval_true (FStr s) \<longleftrightarrow> s \<noteq> []"
| "fval_true (FInt i) \<longleftrightarrow> i \<noteq> 0"
| "fval_true FNone \<longleftrightarrow> False"

definition ethertype_map :: "int dict" where
  "ethertype_map =
     [(''ETHERTYPE_LLDP'', 0x88CC), (''ETHERTYPE_VLAN'', 0x8100), (''ETHERTYPE_ROCE'', 0x8915), (''ETHERTYPE_ARP'', 0x0806),
      (''ETHERTYPE_IPV4'', 0x0800), (''ETHERTYPE_IPV6'', 0x86DD), (''ETHERTYPE_MPLS'', 0x8847)]"

definition ip_protocol_map :: "int dict" where
  "ip_protocol_map =
     [(''IP_TCP'', 6), (''IP_ICMP'', 1), (''IP_UDP'', 17), (''IP_IGMP'', 2), (''IP_PIM'', 103), (''IP_RSVP'', 46), (''IP_GRE'', 47),
      (''IP_AUTH'', 51), (''IP_ICMPV6'', 58), (''IP_L2TP'', 115)]"

text \<open>A look-up of a value that may be a number in a map with names as keys.\<close>

fun known :: "int dict \<Rightarrow> fval \<Rightarrow> int option" where
  "known d (FStr s) = dget d s"
| "known d v = None"

section \<open>Actions\<close>

definition action_supported :: "string dict \<Rightarrow> string dict \<Rightarrow> string \<times> string \<Rightarrow> bool" where
  "action_supported acl switch p \<longleftrightarrow>
     (case dget acl ''action_list'' of
        None \<Rightarrow> False
      | Some l \<Rightarrow>
          upper (fst p) \<in> set (split_on (CHR '','') l)
          \<and> (fst p = ''PACKET_ACTION'' \<longrightarrow>
               (case dget switch (''ACL_ACTION|'' @ upper (fst p)) of None \<Rightarrow> False | Some vs \<Rightarrow> is_infix (snd p) vs)))"

definition validate_actions :: "loader \<Rightarrow> string \<Rightarrow> (string \<times> string) list \<Rightarrow> bool \<Rightarrow> bool res" where
  "validate_actions L t props skip =
     rbind (is_table_control_plane L t) (\<lambda>cp.
       if cp then Inr True
       else rbind (table_stage L t) (\<lambda>stage.
         let acl = l_state L (''ACL_STAGE_CAPABILITY_TABLE|'' @ stage); switch = l_state L ''SWITCH_CAPABILITY|switch'' in
         if skip \<and> (acl = [] \<or> switch = []) then Inr True
         else Inr (length (filter (action_supported acl switch) props) = length props)))"

definition rule_action :: "loader \<Rightarrow> string \<Rightarrow> string \<Rightarrow> (string \<times> string) res" where
  "rule_action L t action =
     (if action = ''ACCEPT''
      then rbind (is_table_control_plane L t) (\<lambda>cp.
        if cp then Inr (''PACKET_ACTION'', ''ACCEPT'')
        else rbind (is_table_mirror L t) (\<lambda>mirror.
          if \<not> mirror then Inr (''PACKET_ACTION'', ''FORWARD'')
          else (case get_session_name L of
                  None \<Rightarrow> Inl (AclLoaderException ''no session'')
                | Some s \<Rightarrow>
                    if s = [] then Inl (AclLoaderException ''no session'')
                    else if l_stage L = Some ''INGRESS'' then Inr (''MIRROR_INGRESS_ACTION'', s)
                    else if l_stage L = Some ''EGRESS'' then Inr (''MIRROR_EGRESS_ACTION'', s)
                    else Inl (AclLoaderException ''mirror stage''))))
      else if action \<in> {''DROP'', ''REJECT''} then Inr (''PACKET_ACTION'', ''DROP'')
      else Inl (AclLoaderException ''unknown action''))"

definition convert_action :: "loader \<Rightarrow> string \<Rightarrow> acl_rule \<Rightarrow> bool \<Rightarrow> fvs res" where
  "convert_action L t r skip =
     rbind (rule_action L t (r_action r)) (\<lambda>(k, v).
     rbind (validate_actions L t [(k, v)] skip) (\<lambda>ok.
       if ok then Inr [(k, FStr v)] else Inl (AclLoaderException ''unsupported action'')))"

section \<open>Matches\<close>

text \<open>An exception of \<open>int\<close> becomes one of the loader.\<close>

definition or_acl_error :: "'a res \<Rightarrow> 'a res" where
  "or_acl_error x = (case x of Inl e \<Rightarrow> Inl (AclLoaderException ''conversion'') | Inr a \<Rightarrow> Inr a)"

definition in_bounds :: "int \<Rightarrow> int \<Rightarrow> string \<Rightarrow> int option \<Rightarrow> fvs res" where
  "in_bounds lo hi f x =
     (case x of
        None \<Rightarrow> Inr []
      | Some v \<Rightarrow> if v < lo \<or> hi < v then Inl (AclLoaderException ''out of bounds'') else Inr [(f, FInt v)])"

definition convert_l2 :: "acl_rule \<Rightarrow> fvs res" where
  "convert_l2 r =
     rbind (if \<not> fval_true (r_ethertype r) then Inr []
            else (case known ethertype_map (r_ethertype r) of
                    Some n \<Rightarrow> Inr [(''ETHER_TYPE'', FInt n)]
                  | None \<Rightarrow> rbind (or_acl_error (val_int (r_ethertype r))) (\<lambda>n. Inr [(''ETHER_TYPE'', FInt n)]))) (\<lambda>e.
     rbind (in_bounds 1 4095 ''VLAN_ID'' (r_vlan r)) (\<lambda>v. Inr (e @ v)))"

definition protocol_value :: "loader \<Rightarrow> string \<Rightarrow> acl_rule \<Rightarrow> fval res" where
  "protocol_value L t r =
     (case known ip_protocol_map (r_protocol r) of
        Some n \<Rightarrow>
          if r_protocol r = FStr ''IP_ICMP''
          then rbind (is_table_ipv6 L t) (\<lambda>v6.
                 if v6 then Inr (FInt 58)
                 else rbind (is_table_l3v4v6 L t) (\<lambda>both.
                        if both \<and> r_ethertype r = FStr ''ETHERTYPE_IPV6'' then Inr (FInt 58) else Inr (FInt n)))
          else Inr (FInt n)
      | None \<Rightarrow> rbind (or_acl_error (val_int (r_protocol r))) (\<lambda>_. Inr (r_protocol r)))"

text \<open>A network in \<open>ip_network\<close>; other text raises a \<open>ValueError\<close>.\<close>

definition network_field :: "string \<Rightarrow> string \<Rightarrow> string \<Rightarrow> fvs res" where
  "network_field f4 f6 s =
     (if s = [] then Inr []
      else (case ip_network s of
              None \<Rightarrow> Inl (ValueError ''network'')
            | Some _ \<Rightarrow> Inr [(if ip4_interface s \<noteq> None then f4 else f6, FStr s)]))"

definition convert_ip :: "loader \<Rightarrow> string \<Rightarrow> acl_rule \<Rightarrow> fvs res" where
  "convert_ip L t r =
     rbind (if fval_true (r_protocol r) then rbind (protocol_value L t r) (\<lambda>p. Inr [(''IP_PROTOCOL'', p)]) else Inr []) (\<lambda>p.
     rbind (network_field ''SRC_IP'' ''SRC_IPV6'' (r_src_ip r)) (\<lambda>s.
     rbind (network_field ''DST_IP'' ''DST_IPV6'' (r_dst_ip r)) (\<lambda>d.
     rbind (is_table_mirror L t) (\<lambda>mirror.
       Inr (p @ s @ d @ (if mirror \<and> fval_true (r_dscp r) then [(''DSCP'', r_dscp r)] else []))))))"

definition icmp_v6 :: "loader \<Rightarrow> string \<Rightarrow> acl_rule \<Rightarrow> bool res" where
  "icmp_v6 L t r =
     rbind (is_table_ipv6 L t) (\<lambda>v6.
       if v6 then Inr True
       else rbind (is_table_l3v4v6 L t) (\<lambda>both.
         if both then Inr (r_ethertype r = FStr ''ETHERTYPE_IPV6'')
         else Inr (r_protocol r = FStr ''IP_ICMPV6'' \<or> val_int (r_protocol r) = Inr 58)))"

definition convert_icmp :: "loader \<Rightarrow> string \<Rightarrow> acl_rule \<Rightarrow> fvs res" where
  "convert_icmp L t r =
     rbind (icmp_v6 L t r) (\<lambda>v6.
     rbind (in_bounds 0 255 (if v6 then ''ICMPV6_TYPE'' else ''ICMP_TYPE'') (r_icmp_type r)) (\<lambda>ty.
     rbind (in_bounds 0 255 (if v6 then ''ICMPV6_CODE'' else ''ICMP_CODE'') (r_icmp_code r)) (\<lambda>co.
       Inr (ty @ co))))"

text \<open>\<open>port.replace('..', '-')\<close>.\<close>

fun replace_dots :: "string \<Rightarrow> string" where
  "replace_dots (a # b # s) =
     (if a = CHR ''.'' \<and> b = CHR ''.'' then CHR ''-'' # replace_dots s else a # replace_dots (b # s))"
| "replace_dots s = s"

definition convert_port :: "string \<Rightarrow> string \<times> bool" where
  "convert_port p = (if is_infix ''..'' p then (replace_dots p, True) else (p, False))"

fun flag_bit :: "string \<Rightarrow> 8 word" where
  "flag_bit f =
     (if f = ''TCP_FIN'' then 0x01 else if f = ''TCP_SYN'' then 0x02 else if f = ''TCP_RST'' then 0x04 else if f = ''TCP_PSH'' then 0x08
      else if f = ''TCP_ACK'' then 0x10 else if f = ''TCP_URG'' then 0x20 else if f = ''TCP_ECE'' then 0x40
      else if f = ''TCP_CWR'' then 0x80 else 0)"

definition tcp_flags :: "string list \<Rightarrow> 8 word" where
  "tcp_flags fs = foldl (\<lambda>acc f. acc OR flag_bit f) 0 fs"

definition hex_digit :: "nat \<Rightarrow> char" where
  "hex_digit n = ''0123456789abcdef'' ! n"

definition hex_byte :: "8 word \<Rightarrow> string" where
  "hex_byte w = ''0x'' @ [hex_digit (unat w div 16), hex_digit (unat w mod 16)]"

definition port_field :: "string \<Rightarrow> string \<Rightarrow> fvs" where
  "port_field f p =
     (if p = [] then [] else (let (q, is_range) = convert_port p in [(if is_range then f @ ''_RANGE'' else f, FStr q)]))"

definition convert_transport :: "acl_rule \<Rightarrow> fvs" where
  "convert_transport r =
     (let w = tcp_flags (r_tcp_flags r) in
      port_field ''L4_SRC_PORT'' (r_src_port r) @ port_field ''L4_DST_PORT'' (r_dst_port r)
      @ (if w \<noteq> 0 then [(''TCP_FLAGS'', FStr (hex_byte w @ ''/'' @ hex_byte w))] else []))"

definition convert_input_interface :: "acl_rule \<Rightarrow> fvs" where
  "convert_input_interface r = (if r_interface r \<noteq> [] then [(''IN_PORTS'', FStr (r_interface r))] else [])"

section \<open>Whole rules\<close>

definition protocol_is :: "int \<Rightarrow> fvs \<Rightarrow> bool" where
  "protocol_is n props \<longleftrightarrow> (case dget props ''IP_PROTOCOL'' of None \<Rightarrow> True | Some p \<Rightarrow> \<not> fval_true p \<or> p = FInt n)"

definition validate_rule_fields :: "fvs \<Rightarrow> unit res" where
  "validate_rule_fields props =
     (if dhas props ''TCP_FLAGS'' \<and> \<not> protocol_is 6 props then Inl (AclLoaderException ''not TCP'')
      else if (dhas props ''ICMP_TYPE'' \<or> dhas props ''ICMP_CODE'') \<and> \<not> protocol_is 1 props then Inl (AclLoaderException ''not ICMP'')
      else if (dhas props ''ICMPV6_TYPE'' \<or> dhas props ''ICMPV6_CODE'') \<and> \<not> protocol_is 58 props
      then Inl (AclLoaderException ''not ICMPV6'')
      else Inr ())"

definition base_fields :: "loader \<Rightarrow> string \<Rightarrow> acl_rule \<Rightarrow> fvs res" where
  "base_fields L t r =
     rbind (is_table_l3v4v6 L t) (\<lambda>both.
       if both
       then (case r_ethertype r of
               FStr e \<Rightarrow>
                 if e \<notin> {''ETHERTYPE_IPV4'', ''ETHERTYPE_IPV6''} \<and> r_filled r then Inl (AclLoaderException ''ethertype'')
                 else (case dget ethertype_map e of None \<Rightarrow> Inl (KeyError e) | Some n \<Rightarrow> Inr [(''ETHER_TYPE'', FStr (str_int n))])
             | v \<Rightarrow> if r_filled r then Inl (AclLoaderException ''ethertype'') else Inl (KeyError (field_text v)))
       else rbind (is_table_l3v6 L t) (\<lambda>v6.
         if v6 then Inr [(''IP_TYPE'', FStr ''IPV6ANY'')]
         else rbind (is_table_l3 L t) (\<lambda>v4.
           Inr (if v4 then [(''ETHER_TYPE'', FStr (str_int 0x0800))] else []))))"

definition rule_key :: "string \<Rightarrow> int \<Rightarrow> string" where
  "rule_key t n = t @ ''|RULE_'' @ str_int n"

definition convert_rule_to_db_schema :: "loader \<Rightarrow> string \<Rightarrow> acl_rule \<Rightarrow> bool \<Rightarrow> (string \<times> fvs) res" where
  "convert_rule_to_db_schema L t r skip =
     rbind (base_fields L t r) (\<lambda>base.
     rbind (convert_action L t r skip) (\<lambda>act.
     rbind (convert_l2 r) (\<lambda>l2.
     rbind (convert_ip L t r) (\<lambda>ip.
     rbind (convert_icmp L t r) (\<lambda>icmp.
       let props = foldl dupdate [(''PRIORITY'', FStr (str_int (l_max L - r_seq r)))]
                     [base, act, l2, ip, icmp, convert_transport r, convert_input_interface r] in
       rbind (if dhas props ''IP_PROTOCOL'' \<and> \<not> dhas props ''IP_TYPE''
              then rbind (acl_table_has_match L t ''IP_TYPE'') (\<lambda>m. Inr (if m then dset ''IP_TYPE'' (FStr ''IP'') props else props))
              else Inr props) (\<lambda>props.
       rbind (validate_rule_fields props) (\<lambda>_. Inr (rule_key t (r_seq r), props))))))))"

definition deny_rule :: "loader \<Rightarrow> string \<Rightarrow> fvs option res" where
  "deny_rule L t =
     (let deny = [(''PRIORITY'', FStr ''1''), (''PACKET_ACTION'', FStr ''DROP'')] in
      rbind (is_table_l3v6 L t) (\<lambda>v6.
        if v6 then Inr (Some (deny @ [(''IP_TYPE'', FStr ''IPV6ANY'')]))
        else rbind (is_table_l3 L t) (\<lambda>v4.
          if v4 then Inr (Some (deny @ [(''ETHER_TYPE'', FStr (str_int 0x0800))]))
          else rbind (is_table_l3v4v6 L t) (\<lambda>both. Inr (if both then Some (deny @ [(''IP_TYPE'', FStr ''IP'')]) else None)))))"

text \<open>\<open>deep_update\<close> with the fields of one key.\<close>

definition deep_update :: "fvs dict \<Rightarrow> string \<Rightarrow> fvs \<Rightarrow> fvs dict" where
  "deep_update info k props = dset k (dupdate (case dget info k of None \<Rightarrow> [] | Some e \<Rightarrow> e) props) info"

fun add_rules :: "loader \<Rightarrow> string \<Rightarrow> bool \<Rightarrow> acl_rule list \<Rightarrow> fvs dict \<Rightarrow> fvs dict res" where
  "add_rules L t skip [] info = Inr info"
| "add_rules L t skip (r # rs) info =
     (case convert_rule_to_db_schema L t r skip of
        Inr (k, props) \<Rightarrow> add_rules L t skip rs (deep_update info k props)
      | Inl (AclLoaderException m) \<Rightarrow> add_rules L t skip rs info
      | Inl e \<Rightarrow> Inl e)"

definition table_name :: "string \<Rightarrow> string" where
  "table_name s = upper (map (\<lambda>c. if c = CHR '' '' \<or> c = CHR ''-'' then CHR ''_'' else c) s)"

fun convert_rules :: "loader \<Rightarrow> bool \<Rightarrow> (string \<times> acl_rule list) list \<Rightarrow> fvs dict \<Rightarrow> fvs dict res" where
  "convert_rules L skip [] info = Inr info"
| "convert_rules L skip ((name, rs) # sets) info =
     (let t = table_name name in
      if \<not> is_table_valid L t \<or> (l_current L \<noteq> None \<and> l_current L \<noteq> Some t) then convert_rules L skip sets info
      else rbind (add_rules L t skip rs info) (\<lambda>info.
           rbind (is_table_egress L t) (\<lambda>egress.
             if egress then convert_rules L skip sets info
             else rbind (deny_rule L t) (\<lambda>deny.
                    convert_rules L skip sets
                      (case deny of None \<Rightarrow> info | Some props \<Rightarrow> deep_update info (t @ ''|DEFAULT_RULE'') props)))))"

section \<open>Updates\<close>

text \<open>A write to the host and to every ASIC; writing \<open>None\<close> removes the entry.\<close>

definition acl_dbs :: "'c acl_env \<Rightarrow> 'c db_env list" where
  "acl_dbs A = a_host A # map snd (a_npus A)"

definition all_mod :: "'c acl_env \<Rightarrow> string \<Rightarrow> fvs option \<Rightarrow> 'c cmd" where
  "all_mod A k x =
     each (acl_dbs A) (\<lambda>D. case x of
       None \<Rightarrow> put (db_set_entry D ''ACL_RULE'' k None) | Some fv \<Rightarrow> put (db_mod_entry D ''ACL_RULE'' k fv))"

definition all_set :: "'c acl_env \<Rightarrow> string \<Rightarrow> fvs option \<Rightarrow> 'c cmd" where
  "all_set A k x = each (acl_dbs A) (\<lambda>D. put (db_set_entry D ''ACL_RULE'' k x))"

definition rule_table :: "string \<Rightarrow> string" where
  "rule_table k = hd (key_parts k)"

definition full_update :: "'c acl_env \<Rightarrow> loader \<Rightarrow> fvs dict \<Rightarrow> 'c cmd" where
  "full_update A L info =
     seq [each (filter (\<lambda>k. l_current L = None \<or> l_current L = Some (rule_table k)) (dkeys (l_rules L))) (\<lambda>k. all_mod A k None),
          each (acl_dbs A) (\<lambda>D. each info (\<lambda>(k, fv). put (db_mod_entry D ''ACL_RULE'' k fv)))]"

definition control_plane_key :: "loader \<Rightarrow> string \<Rightarrow> bool res" where
  "control_plane_key L k = is_table_control_plane L (rule_table k)"

definition same_fields :: "fvs \<Rightarrow> string dict \<Rightarrow> bool" where
  "same_fields fv e \<longleftrightarrow>
     list_all (\<lambda>(f, v). dget fv f = Some (FStr v)) e \<and> list_all (\<lambda>(f, v). dget e f \<noteq> None) fv"

text \<open>The sets of keys are lists here; the loops of the code go through them in any order.\<close>

definition incremental_update :: "'c acl_env \<Rightarrow> loader \<Rightarrow> fvs dict \<Rightarrow> 'c cmd" where
  "incremental_update A L info =
     attempt (\<lambda>c. rbind (map_res (\<lambda>k. rbind (control_plane_key L k) (\<lambda>b. Inr (k, b))) (dkeys info)) (\<lambda>new.
                  rbind (map_res (\<lambda>k. rbind (control_plane_key L k) (\<lambda>b. Inr (k, b))) (dkeys (l_rules L))) (\<lambda>cur. Inr (new, cur))))
       (\<lambda>(new, cur).
         let new_cp = map fst (filter snd new); cur_cp = map fst (filter snd cur) in
         seq [each (map fst (filter (\<lambda>(k, b). \<not> b) cur)) (\<lambda>k. all_mod A k None),
              each (map fst (filter (\<lambda>(k, b). \<not> b) new)) (\<lambda>k. all_mod A k (dget info k)),
              each (filter (\<lambda>k. k \<notin> set cur_cp) new_cp) (\<lambda>k. all_mod A k (dget info k)),
              each (filter (\<lambda>k. k \<notin> set new_cp) cur_cp) (\<lambda>k. all_mod A k None),
              each (filter (\<lambda>k. k \<in> set cur_cp) (dkeys info)) (\<lambda>k.
                case (dget info k, dget (l_rules L) k) of
                  (Some fv, Some e) \<Rightarrow> if same_fields fv e then finish else all_set A k (Some fv)
                | _ \<Rightarrow> raise (KeyError k))])"

definition acl_delete :: "'c acl_env \<Rightarrow> loader \<Rightarrow> string \<Rightarrow> string \<Rightarrow> 'c cmd" where
  "acl_delete A L t r =
     each (filter (\<lambda>k. (t = [] \<or> rule_table k = t) \<and> (r = [] \<or> key_parts k ! 1 = r)) (dkeys (l_rules L))) (\<lambda>k. all_set A k None)"

section \<open>Commands\<close>

text \<open>The options of both updates; an empty name and a maximum of 0 count as missing.\<close>

record acl_options =
  o_table :: string
  o_session :: string
  o_stage :: string
  o_max :: int
  o_skip :: bool

definition configured :: "acl_options \<Rightarrow> loader \<Rightarrow> loader res" where
  "configured p L =
     rbind (let L = (if o_table p \<noteq> [] then set_table_name (o_table p) L else L) in
            if o_session p \<noteq> [] then set_session_name (o_session p) L else Inr L) (\<lambda>L.
       let L = set_mirror_stage (o_stage p) L in Inr (if o_max p \<noteq> 0 then set_max_priority (o_max p) L else L))"

definition acl_full :: "'c acl_env \<Rightarrow> acl_options \<Rightarrow> (string \<times> acl_rule list) list res \<Rightarrow> 'c cmd" where
  "acl_full A p file =
     attempt (\<lambda>c. rbind (new_loader A c) (\<lambda>L. rbind (configured p L) (\<lambda>L.
                  rbind file (\<lambda>sets. rbind (convert_rules L (o_skip p) sets []) (\<lambda>info. Inr (L, info))))))
       (\<lambda>(L, info). full_update A L info)"

definition acl_incremental :: "'c acl_env \<Rightarrow> acl_options \<Rightarrow> (string \<times> acl_rule list) list res \<Rightarrow> 'c cmd" where
  "acl_incremental A p file =
     attempt (\<lambda>c. rbind (new_loader A c) (\<lambda>L. rbind (configured (p\<lparr>o_table := []\<rparr>) L) (\<lambda>L.
                  rbind file (\<lambda>sets. rbind (convert_rules L False sets []) (\<lambda>info. Inr (L, info))))))
       (\<lambda>(L, info). incremental_update A L info)"

definition acl_delete_command :: "'c acl_env \<Rightarrow> string \<Rightarrow> string \<Rightarrow> 'c cmd" where
  "acl_delete_command A t r = attempt (new_loader A) (\<lambda>L. acl_delete A L t r)"

end
