(* ===== verification/AclFacts.thy ===== *)
theory AclFacts
  imports Acl
begin

text \<open>What the updates of the ACL loader do to every database, and what the conversion of a rule yields.\<close>

lemma in_dkeys: "k \<in> set (dkeys d) \<longleftrightarrow> dget d k \<noteq> None"
  using dget_None_iff by metis

section \<open>Several databases\<close>

locale acl_databases =
  fixes A :: "'c acl_env"
  assumes each_db: "D \<in> set (acl_dbs A) \<Longrightarrow> config_db D"
    and set_apart: "D \<in> set (acl_dbs A) \<Longrightarrow> D' \<in> set (acl_dbs A) \<Longrightarrow> D \<noteq> D' \<Longrightarrow>
      field_of D t k f (db_set_entry D' t' k' x c) = field_of D t k f c"
    and mod_apart: "D \<in> set (acl_dbs A) \<Longrightarrow> D' \<in> set (acl_dbs A) \<Longrightarrow> D \<noteq> D' \<Longrightarrow>
      field_of D t k f (db_mod_entry D' t' k' fv c) = field_of D t k f c"

text \<open>A command that always returns and changes the fields of every database alike.\<close>

type_synonym change = "string \<Rightarrow> string \<Rightarrow> string \<Rightarrow> string option \<Rightarrow> string option"

definition effect :: "'c acl_env \<Rightarrow> 'c cmd \<Rightarrow> change \<Rightarrow> bool" where
  "effect A m u \<longleftrightarrow> (\<forall>c. fst (m c) = Inr ()
     \<and> (\<forall>D \<in> set (acl_dbs A). \<forall>t k f. field_of D t k f (snd (m c)) = u t k f (field_of D t k f c)))"

definition removed :: "string \<Rightarrow> change" where
  "removed k' t k f x = (if t = ''ACL_RULE'' \<and> k = k' then None else x)"

definition modified :: "string \<Rightarrow> fvs \<Rightarrow> change" where
  "modified k' fv t k f x =
     (if t = ''ACL_RULE'' \<and> k = k' then (case dget fv f of None \<Rightarrow> x | Some v \<Rightarrow> Some (field_text v)) else x)"

definition replaced :: "string \<Rightarrow> fvs \<Rightarrow> change" where
  "replaced k' fv t k f x = (if t = ''ACL_RULE'' \<and> k = k' then map_option field_text (dget fv f) else x)"

definition then_change :: "change \<Rightarrow> change \<Rightarrow> change" where
  "then_change u v t k f x = v t k f (u t k f x)"

definition no_change :: change where
  "no_change t k f x = x"

lemma effect_finish: "effect A finish no_change"
  by (simp add: effect_def finish_def no_change_def)

lemma effect_nil: "effect A (seq []) no_change"
  by (simp add: effect_def no_change_def)

lemma effect_seq:
  assumes "effect A m u" and "effect A (seq ms) v"
  shows "effect A (seq (m # ms)) (then_change u v)"
proof -
  have "seq (m # ms) c = seq ms (snd (m c))" for c
    using assms(1) by (cases "m c") (auto simp: effect_def split: sum.split dest: spec [of _ c])
  then show ?thesis using assms unfolding effect_def then_change_def by simp
qed

lemma effect_each:
  assumes "\<And>x. x \<in> set xs \<Longrightarrow> effect A (m x) (u x)"
  shows "effect A (each xs m) (foldr (\<lambda>x v. then_change (u x) v) xs no_change)"
  using assms unfolding each_def by (induction xs) (auto intro: effect_nil effect_seq simp del: seq.simps)

lemma effectD: "effect A m u \<Longrightarrow> fst (m c) = Inr ()"
  "effect A m u \<Longrightarrow> D \<in> set (acl_dbs A) \<Longrightarrow> field_of D t k f (snd (m c)) = u t k f (field_of D t k f c)"
  by (simp_all add: effect_def)

lemma effect_cong: "effect A m u \<Longrightarrow> u = v \<Longrightarrow> effect A m v"
  by simp

text \<open>Changes of many keys.\<close>

definition removed_keys :: "string list \<Rightarrow> change" where
  "removed_keys ks t k f x = (if t = ''ACL_RULE'' \<and> k \<in> set ks then None else x)"

definition modified_all :: "fvs dict \<Rightarrow> change" where
  "modified_all info t k f x =
     (if t \<noteq> ''ACL_RULE'' then x
      else (case dget info k of
              None \<Rightarrow> x
            | Some fv \<Rightarrow> (case dget fv f of None \<Rightarrow> x | Some v \<Rightarrow> Some (field_text v))))"

definition at_key :: "string \<Rightarrow> change \<Rightarrow> bool" where
  "at_key k' u \<longleftrightarrow> (\<forall>t k f x. t \<noteq> ''ACL_RULE'' \<or> k \<noteq> k' \<longrightarrow> u t k f x = x)"

lemma at_key_changes: "at_key k (removed k)" "at_key k (modified k fv)" "at_key k (replaced k fv)" "at_key k no_change"
  by (auto simp: at_key_def removed_def modified_def replaced_def no_change_def)

lemma removed_fold: "foldr (\<lambda>k v. then_change (removed k) v) ks no_change = removed_keys ks"
  by (induction ks) (auto simp: fun_eq_iff then_change_def removed_def removed_keys_def no_change_def)

lemma fold_keys:
  assumes "distinct ks" and "\<And>k. at_key k (u k)"
  shows "foldr (\<lambda>k v. then_change (u k) v) ks no_change t k f x = (if t = ''ACL_RULE'' \<and> k \<in> set ks then u k t k f x else x)"
  using assms(1)
proof (induction ks arbitrary: x)
  case (Cons k' ks)
  then show ?case using assms(2) [of k', unfolded at_key_def, rule_format, of t k f x]
    by (cases "k = k'") (auto simp: then_change_def)
qed (simp add: no_change_def)

lemma each_puts: "each xs (\<lambda>(k, fv). put (g k fv)) = put (\<lambda>c. foldl (\<lambda>c (k, fv). g k fv c) c xs)"
proof
  show "each xs (\<lambda>(k, fv). put (g k fv)) c = put (\<lambda>c. foldl (\<lambda>c (k, fv). g k fv c) c xs) c" for c
    by (induction xs arbitrary: c) (auto simp: each_def put_def)
qed

text \<open>The loader knows the rules of every database.\<close>

definition in_sync :: "'c acl_env \<Rightarrow> loader \<Rightarrow> 'c \<Rightarrow> bool" where
  "in_sync A L c \<longleftrightarrow> (\<forall>D \<in> set (acl_dbs A). \<forall>k f. field_of D ''ACL_RULE'' k f c =
     (case dget (l_rules L) k of None \<Rightarrow> None | Some e \<Rightarrow> dget e f))"

definition installed :: "'c acl_env \<Rightarrow> fvs dict \<Rightarrow> 'c \<Rightarrow> 'c \<Rightarrow> bool" where
  "installed A info c c' \<longleftrightarrow> (\<forall>D \<in> set (acl_dbs A). \<forall>t k f. field_of D t k f c' =
     (if t \<noteq> ''ACL_RULE'' then field_of D t k f c
      else (case dget info k of None \<Rightarrow> None | Some fv \<Rightarrow> map_option field_text (dget fv f))))"

context acl_databases
begin

text \<open>One write to each database, where a second one would change nothing.\<close>

lemma effect_write:
  assumes own: "\<And>D t k f c. D \<in> set (acl_dbs A) \<Longrightarrow> field_of D t k f (w D c) = u t k f (field_of D t k f c)"
    and other: "\<And>D D' t k f c. D \<in> set (acl_dbs A) \<Longrightarrow> D' \<in> set (acl_dbs A) \<Longrightarrow> D \<noteq> D' \<Longrightarrow>
      field_of D t k f (w D' c) = field_of D t k f c"
    and idem: "\<And>t k f x. u t k f (u t k f x) = u t k f x"
  shows "effect A (each (acl_dbs A) (\<lambda>D. put (w D))) u"
proof -
  have "fst (each Ds (\<lambda>D. put (w D)) c) = Inr () \<and> (\<forall>D \<in> set (acl_dbs A). \<forall>t k f.
      field_of D t k f (snd (each Ds (\<lambda>D. put (w D)) c)) = (if D \<in> set Ds then u t k f (field_of D t k f c) else field_of D t k f c))"
    if "set Ds \<subseteq> set (acl_dbs A)" for Ds c
    using that
  proof (induction Ds arbitrary: c)
    case (Cons D' Ds)
    have step: "each (D' # Ds) (\<lambda>D. put (w D)) c = each Ds (\<lambda>D. put (w D)) (w D' c)"
      by (simp add: each_def put_def)
    show ?case
      unfolding step using Cons.IH [of "w D' c"] Cons.prems by (metis (no_types, lifting) idem insert_subset list.simps(15) own other insert_iff)
  qed (simp add: each_def)
  then show ?thesis by (simp add: effect_def)
qed

lemma effect_all:
  "effect A (all_mod A k None) (removed k)" "effect A (all_mod A k (Some fv)) (modified k fv)"
  "effect A (all_set A k None) (removed k)" "effect A (all_set A k (Some fv)) (replaced k fv)"
  unfolding all_mod_def all_set_def option.case
  by (rule effect_write; auto simp: removed_def modified_def replaced_def config_db.unset_field [OF each_db]
      config_db.set_field [OF each_db] config_db.mod_field [OF each_db] set_apart mod_apart split: option.split)+

section \<open>The updates\<close>

lemma effect_full:
  assumes "distinct (dkeys info)"
  shows "effect A (full_update A L info)
    (then_change (removed_keys (filter (\<lambda>k. l_current L = None \<or> l_current L = Some (rule_table k)) (dkeys (l_rules L)))) (modified_all info))"
proof -
  have "effect A (each (acl_dbs A) (\<lambda>D. put (\<lambda>c. foldl (\<lambda>c (k, fv). db_mod_entry D ''ACL_RULE'' k fv c) c info))) (modified_all info)"
  proof (rule effect_write)
    fix D t k f c assume D: "D \<in> set (acl_dbs A)"
    show "field_of D t k f (foldl (\<lambda>c (k, fv). db_mod_entry D ''ACL_RULE'' k fv c) c info) = modified_all info t k f (field_of D t k f c)"
      using assms by (induction info arbitrary: c)
        (auto simp: modified_all_def config_db.mod_field [OF each_db [OF D]] dget_None_iff [symmetric] split: option.split)
  next
    fix D D' t k f c assume "D \<in> set (acl_dbs A)" "D' \<in> set (acl_dbs A)" "D \<noteq> D'"
    then show "field_of D t k f (foldl (\<lambda>c (k, fv). db_mod_entry D' ''ACL_RULE'' k fv c) c info) = field_of D t k f c"
      by (induction info arbitrary: c) (auto simp: mod_apart)
  qed (auto simp: modified_all_def split: option.split)
  then have "effect A (each (acl_dbs A) (\<lambda>D. each info (\<lambda>(k, fv). put (db_mod_entry D ''ACL_RULE'' k fv)))) (modified_all info)"
    by (simp add: each_puts)
  moreover have "effect A (each ks (\<lambda>k. all_mod A k None)) (removed_keys ks)" for ks
    by (rule effect_cong [OF effect_each [OF effect_all(1)]]) (simp_all add: removed_fold)
  ultimately show ?thesis
    unfolding full_update_def
    by (intro effect_cong [OF effect_seq [OF _ effect_seq [OF _ effect_nil]]]) (auto simp: then_change_def no_change_def fun_eq_iff)
qed

lemma full_installs:
  assumes "distinct (dkeys info)" and "l_current L = None" and "in_sync A L c"
  shows "fst (full_update A L info c) = Inr ()" and "installed A info c (snd (full_update A L info c))"
proof -
  note e = effect_full [OF assms(1), of L]
  show "fst (full_update A L info c) = Inr ()" by (rule effectD(1) [OF e])
  show "installed A info c (snd (full_update A L info c))"
    unfolding installed_def using assms(2,3) [unfolded in_sync_def]
    by (auto simp: effectD(2) [OF e] then_change_def removed_keys_def modified_all_def dget_None_iff [symmetric] split: option.splits)
qed

lemma map_res_pairs:
  assumes "map_res (\<lambda>k. rbind (g k) (\<lambda>b. Inr (k, b))) ks = Inr ps"
  shows "ps = map (\<lambda>k. (k, g k = Inr True)) ks"
  using assms by (induction ks arbitrary: ps) (auto simp: rbind_Inr_iff)

lemma same_fields_text: "same_fields fv e \<Longrightarrow> map_option field_text (dget fv f) = dget e f"
proof -
  assume same: "same_fields fv e"
  show ?thesis
  proof (cases "dget e f")
    case None
    have "dget fv f = None"
    proof (rule ccontr)
      assume "dget fv f \<noteq> None"
      then obtain v where "(f, v) \<in> set fv" by (auto dest: dget_SomeD)
      then show False using same None by (fastforce simp: same_fields_def list_all_iff)
    qed
    then show ?thesis by (simp add: None)
  next
    case (Some a)
    then have "dget fv f = Some (FStr a)" using same dget_SomeD [OF Some] by (auto simp: same_fields_def list_all_iff)
    then show ?thesis by (simp add: Some)
  qed
qed

lemma incremental_tested:
  assumes "distinct (dkeys info)" and "distinct (dkeys (l_rules L))" and "in_sync A L c"
    and tested: "map_res (\<lambda>k. rbind (control_plane_key L k) (\<lambda>b. Inr (k, b))) (dkeys info) = Inr new"
      "map_res (\<lambda>k. rbind (control_plane_key L k) (\<lambda>b. Inr (k, b))) (dkeys (l_rules L)) = Inr cur"
  shows "fst (incremental_update A L info c) = Inr () \<and> installed A info c (snd (incremental_update A L info c))"
proof -
  let ?b = "\<lambda>k. control_plane_key L k = Inr True" and ?new = "dkeys info" and ?cur = "dkeys (l_rules L)"
  note pairs = tested [THEN map_res_pairs]
  let ?last = "\<lambda>k. case (dget info k, dget (l_rules L) k) of
      (Some fv, Some e) \<Rightarrow> if same_fields fv e then no_change else replaced k fv | _ \<Rightarrow> no_change"
  let ?fold = "\<lambda>u ks. foldr (\<lambda>k v. then_change (u k) v) ks no_change"
  let ?mod = "\<lambda>k. case dget info k of None \<Rightarrow> removed k | Some fv \<Rightarrow> modified k fv"
  have mods: "effect A (each ks (\<lambda>k. all_mod A k (dget info k))) (?fold ?mod ks)" for ks
    by (rule effect_each) (auto intro: effect_all split: option.split)
  have rems: "effect A (each ks (\<lambda>k. all_mod A k None)) (?fold removed ks)" for ks
    by (rule effect_each) (rule effect_all)
  have last: "effect A (each (filter (\<lambda>k. k \<in> set ks) ?new) (\<lambda>k. case (dget info k, dget (l_rules L) k) of
          (Some fv, Some e) \<Rightarrow> if same_fields fv e then finish else all_set A k (Some fv) | _ \<Rightarrow> raise (KeyError k)))
        (?fold ?last (filter (\<lambda>k. k \<in> set ks) ?new))" if "set ks \<subseteq> set ?cur" for ks
    using that
    by (intro effect_each) (auto intro: effect_all effect_finish split: option.split simp: dget_None_iff dest: subsetD)
  let ?new_cp = "filter ?b ?new" and ?cur_cp = "filter ?b ?cur"
  let ?steps = "[each (filter (\<lambda>k. \<not> ?b k) ?cur) (\<lambda>k. all_mod A k None),
      each (filter (\<lambda>k. \<not> ?b k) ?new) (\<lambda>k. all_mod A k (dget info k)),
      each (filter (\<lambda>k. k \<notin> set ?cur_cp) ?new_cp) (\<lambda>k. all_mod A k (dget info k)),
      each (filter (\<lambda>k. k \<notin> set ?new_cp) ?cur_cp) (\<lambda>k. all_mod A k None),
      each (filter (\<lambda>k. k \<in> set ?cur_cp) ?new) (\<lambda>k. case (dget info k, dget (l_rules L) k) of
          (Some fv, Some e) \<Rightarrow> if same_fields fv e then finish else all_set A k (Some fv) | _ \<Rightarrow> raise (KeyError k))]"
  have run: "incremental_update A L info c = seq ?steps c"
    unfolding incremental_update_def attempt_def tested rbind_simps sum.case prod.case Let_def pairs
    by (simp add: filter_map comp_def del: seq.simps)
  have e: "effect A (seq ?steps) (then_change (?fold removed (filter (\<lambda>k. \<not> ?b k) ?cur))
      (then_change (?fold ?mod (filter (\<lambda>k. \<not> ?b k) ?new)) (then_change (?fold ?mod (filter (\<lambda>k. k \<notin> set ?cur_cp) ?new_cp))
      (then_change (?fold removed (filter (\<lambda>k. k \<notin> set ?new_cp) ?cur_cp))
      (then_change (?fold ?last (filter (\<lambda>k. k \<in> set ?cur_cp) ?new)) no_change)))))"
    by (intro effect_seq effect_nil rems mods last) auto
  have at: "at_key k (removed k)" "at_key k (?mod k)" "at_key k (?last k)" for k
    by (auto simp: at_key_changes split: option.split)
  note changes_at = fold_keys [OF _ at(1)] fold_keys [OF _ at(2)] fold_keys [OF _ at(3)]
  show ?thesis
    unfolding installed_def run
  proof (intro conjI ballI allI)
    show "fst (seq ?steps c) = Inr ()" by (rule effectD(1) [OF e])
  next
    fix D t k f assume D: "D \<in> set (acl_dbs A)"
    show "field_of D t k f (snd (seq ?steps c)) = (if t \<noteq> ''ACL_RULE'' then field_of D t k f c
      else (case dget info k of None \<Rightarrow> None | Some fv \<Rightarrow> map_option field_text (dget fv f)))"
      unfolding effectD(2) [OF e D]
      unfolding then_change_def [of "foldr _ _ _"]
      apply (simp only: changes_at distinct_filter assms(1,2) no_change_def)
      using assms(3) [unfolded in_sync_def, rule_format, OF D, of k f]
      by (cases "t = ''ACL_RULE''"; cases "dget info k"; cases "dget (l_rules L) k"; cases "?b k")
        (simp_all add: in_dkeys removed_def modified_def replaced_def no_change_def same_fields_text split: option.split)
  qed
qed

lemma incremental_installs:
  assumes "distinct (dkeys info)" and "distinct (dkeys (l_rules L))" and "in_sync A L c" and run: "fst (incremental_update A L info c) = Inr ()"
  shows "installed A info c (snd (incremental_update A L info c))"
proof -
  obtain new cur where "map_res (\<lambda>k. rbind (control_plane_key L k) (\<lambda>b. Inr (k, b))) (dkeys info) = Inr new"
      "map_res (\<lambda>k. rbind (control_plane_key L k) (\<lambda>b. Inr (k, b))) (dkeys (l_rules L)) = Inr cur"
    using run by (auto simp: incremental_update_def attempt_def rbind_def split: sum.splits)
  then show ?thesis using incremental_tested assms(1-3) by blast
qed

end

section \<open>Converted rules\<close>

definition action_fields :: "string list" where
  "action_fields = [''PACKET_ACTION'', ''MIRROR_INGRESS_ACTION'', ''MIRROR_EGRESS_ACTION'']"

named_theorems part_keys

lemma dkeys_append [simp]: "dkeys (xs @ ys) = dkeys xs @ dkeys ys"
  by (simp add: dkeys_def)

lemma rule_action_field: "rule_action L t a = Inr (k, v) \<Longrightarrow> k \<in> set action_fields"
  by (auto simp: rule_action_def action_fields_def rbind_Inr_iff split: if_splits option.splits)

lemma action_keys [part_keys]: "convert_action L t r skip = Inr fv \<Longrightarrow> set (dkeys fv) \<subseteq> set action_fields"
  by (auto simp: convert_action_def rbind_Inr_iff dest: rule_action_field split: if_splits)

lemma base_keys [part_keys]: "base_fields L t r = Inr fv \<Longrightarrow> set (dkeys fv) \<subseteq> {''ETHER_TYPE'', ''IP_TYPE''}"
  by (auto simp: base_fields_def rbind_Inr_iff split: if_splits fval.splits option.splits)

lemma bounded_keys: "in_bounds lo hi f x = Inr fv \<Longrightarrow> set (dkeys fv) \<subseteq> {f}"
  by (auto simp: in_bounds_def split: option.splits if_splits)

lemma l2_keys [part_keys]: "convert_l2 r = Inr fv \<Longrightarrow> set (dkeys fv) \<subseteq> {''ETHER_TYPE'', ''VLAN_ID''}"
  by (auto simp: convert_l2_def rbind_Inr_iff dest!: bounded_keys split: if_splits option.splits)

lemma network_keys: "network_field f g s = Inr fv \<Longrightarrow> set (dkeys fv) \<subseteq> {f, g}"
  by (auto simp: network_field_def split: if_splits option.splits)

lemma ip_keys [part_keys]:
  "convert_ip L t r = Inr fv \<Longrightarrow> set (dkeys fv) \<subseteq> {''IP_PROTOCOL'', ''SRC_IP'', ''SRC_IPV6'', ''DST_IP'', ''DST_IPV6'', ''DSCP''}"
  by (auto simp: convert_ip_def rbind_Inr_iff dest!: network_keys split: if_splits)

lemma icmp_keys [part_keys]:
  "convert_icmp L t r = Inr fv \<Longrightarrow> set (dkeys fv) \<subseteq> {''ICMP_TYPE'', ''ICMPV6_TYPE'', ''ICMP_CODE'', ''ICMPV6_CODE''}"
  by (auto simp: convert_icmp_def rbind_Inr_iff dest!: bounded_keys split: if_splits)

lemma transport_keys:
  "set (dkeys (convert_transport r)) \<subseteq> {''L4_SRC_PORT'', ''L4_SRC_PORT_RANGE'', ''L4_DST_PORT'', ''L4_DST_PORT_RANGE'', ''TCP_FLAGS''}"
  by (auto simp: convert_transport_def port_field_def Let_def split: prod.splits)

lemma interface_keys: "set (dkeys (convert_input_interface r)) \<subseteq> {''IN_PORTS''}"
  by (simp add: convert_input_interface_def)

lemma merge_parts: "foldl dupdate d es = dupdate d (concat es)"
  by (induction es arbitrary: d) (auto simp: dupdate_def)

lemma dget_append: "dget (xs @ ys) f = (case dget xs f of None \<Rightarrow> dget ys f | Some v \<Rightarrow> Some v)"
  by (cases "map_of xs f") (simp_all add: dget_def map_add_def)

lemma dkeys_rev: "set (dkeys (rev d)) = set (dkeys d)"
  by (simp add: dkeys_def)

lemma rev_other: "set (dkeys fv) \<subseteq> S \<Longrightarrow> f \<notin> S \<Longrightarrow> dget (rev fv) f = None"
  using in_dkeys dkeys_rev by (metis subsetD)

text \<open>The parts of a converted rule.\<close>

lemma converted_parts:
  assumes "convert_rule_to_db_schema L t r skip = Inr (k, props)"
  obtains base act l2 ip icmp props' where
    "base_fields L t r = Inr base" "convert_action L t r skip = Inr act" "convert_l2 r = Inr l2" "convert_ip L t r = Inr ip"
    "convert_icmp L t r = Inr icmp" "validate_rule_fields props = Inr ()" "k = rule_key t (r_seq r)"
    "props' = dupdate [(''PRIORITY'', FStr (str_int (l_max L - r_seq r)))]
       (base @ act @ l2 @ ip @ icmp @ convert_transport r @ convert_input_interface r)"
    "\<And>f. f \<noteq> ''IP_TYPE'' \<Longrightarrow> dget props f = dget props' f"
proof -
  let ?p = "\<lambda>base act l2 ip icmp. foldl dupdate [(''PRIORITY'', FStr (str_int (l_max L - r_seq r)))]
      [base, act, l2, ip, icmp, convert_transport r, convert_input_interface r]"
  let ?q = "\<lambda>p. if dhas p ''IP_PROTOCOL'' \<and> \<not> dhas p ''IP_TYPE''
      then rbind (acl_table_has_match L t ''IP_TYPE'') (\<lambda>m. Inr (if m then dset ''IP_TYPE'' (FStr ''IP'') p else p)) else Inr p"
  from assms obtain base act l2 ip icmp where parts: "base_fields L t r = Inr base" "convert_action L t r skip = Inr act"
      "convert_l2 r = Inr l2" "convert_ip L t r = Inr ip" "convert_icmp L t r = Inr icmp"
      and rest: "rbind (?q (?p base act l2 ip icmp)) (\<lambda>props. rbind (validate_rule_fields props) (\<lambda>_. Inr (rule_key t (r_seq r), props))) = Inr (k, props)"
    unfolding convert_rule_to_db_schema_def Let_def rbind_Inr_iff by blast
  have q: "?q (?p base act l2 ip icmp) = Inr props" "validate_rule_fields props = Inr ()" "k = rule_key t (r_seq r)"
    using rest by (auto simp only: rbind_Inr_iff prod.inject sum.inject) simp_all
  have "dget props f = dget (?p base act l2 ip icmp) f" if "f \<noteq> ''IP_TYPE''" for f
    using q(1) that by (auto simp: rbind_Inr_iff simp del: foldl_Cons split: if_splits)
  then show ?thesis using that [OF parts q(2,3) refl] by (simp add: merge_parts del: foldl_Cons)
qed

text \<open>Each field comes from one part.\<close>

lemma converted_fields:
  assumes "convert_rule_to_db_schema L t r skip = Inr (k, props)"
  obtains act l2 ip icmp where "convert_action L t r skip = Inr act" "convert_l2 r = Inr l2" "convert_ip L t r = Inr ip"
    "convert_icmp L t r = Inr icmp" "validate_rule_fields props = Inr ()"
    "dget props ''PRIORITY'' = Some (FStr (str_int (l_max L - r_seq r)))"
    "\<And>f. f \<in> set action_fields \<Longrightarrow> dget props f = dget (rev act) f"
    "dget props ''VLAN_ID'' = dget (rev l2) ''VLAN_ID''" "dget props ''IP_PROTOCOL'' = dget (rev ip) ''IP_PROTOCOL''"
    "\<And>f. f \<in> {''ICMP_TYPE'', ''ICMPV6_TYPE'', ''ICMP_CODE'', ''ICMPV6_CODE''} \<Longrightarrow> dget props f = dget (rev icmp) f"
proof (rule converted_parts [OF assms])
  fix base act l2 ip icmp props'
  assume parts: "base_fields L t r = Inr base" "convert_action L t r skip = Inr act"
      "convert_l2 r = Inr l2" "convert_ip L t r = Inr ip" "convert_icmp L t r = Inr icmp" "validate_rule_fields props = Inr ()"
    and merged: "props' = dupdate [(''PRIORITY'', FStr (str_int (l_max L - r_seq r)))]
       (base @ act @ l2 @ ip @ icmp @ convert_transport r @ convert_input_interface r)"
    and "\<And>f. f \<noteq> ''IP_TYPE'' \<Longrightarrow> dget props f = dget props' f"
  note props = this(8) [unfolded merged]
  note keys = base_keys [OF parts(1)] action_keys [OF parts(2), unfolded action_fields_def] l2_keys [OF parts(3)] ip_keys [OF parts(4)]
    icmp_keys [OF parts(5)] transport_keys [of r] interface_keys [of r]
  note others = keys [THEN rev_other]
  have at: "dget props f = dget (rev (base @ act @ l2 @ ip @ icmp @ convert_transport r @ convert_input_interface r)) f"
    if "f \<notin> {''IP_TYPE'', ''PRIORITY''}" for f
    using that by (simp add: props dget_dupdate split: option.split cong: option.case_cong)
  show thesis
  proof (rule that [OF parts(2-6)])
    show "dget props ''PRIORITY'' = Some (FStr (str_int (l_max L - r_seq r)))"
      by (simp add: props dget_dupdate dget_append others)
    show "dget props ''VLAN_ID'' = dget (rev l2) ''VLAN_ID''" "dget props ''IP_PROTOCOL'' = dget (rev ip) ''IP_PROTOCOL''"
      by (simp_all add: at dget_append others split: option.split)
    show "dget props f = dget (rev act) f" if "f \<in> set action_fields" for f
    proof -
      from that consider "f = ''PACKET_ACTION''" | "f = ''MIRROR_INGRESS_ACTION''" | "f = ''MIRROR_EGRESS_ACTION''"
        by (auto simp: action_fields_def)
      then show ?thesis by cases (simp_all add: at dget_append others split: option.split)
    qed
    show "dget props f = dget (rev icmp) f" if "f \<in> {''ICMP_TYPE'', ''ICMPV6_TYPE'', ''ICMP_CODE'', ''ICMPV6_CODE''}" for f
    proof -
      from that consider "f = ''ICMP_TYPE''" | "f = ''ICMPV6_TYPE''" | "f = ''ICMP_CODE''" | "f = ''ICMPV6_CODE''" by blast
      then show ?thesis by cases (simp_all add: at dget_append others split: option.split)
    qed
  qed
qed

lemma bounded_values: "in_bounds lo hi g x = Inr fv \<Longrightarrow> (f, v) \<in> set fv \<Longrightarrow> \<exists>n. v = FInt n \<and> lo \<le> n \<and> n \<le> hi"
  by (auto simp: in_bounds_def split: option.splits if_splits)

lemma vlan_bounds:
  assumes "convert_l2 r = Inr l2" and "dget (rev l2) ''VLAN_ID'' = Some v"
  shows "\<exists>n. v = FInt n \<and> 1 \<le> n \<and> n \<le> 4095"
proof -
  obtain e w where "l2 = e @ w" "set (dkeys e) \<subseteq> {''ETHER_TYPE''}" "in_bounds 1 4095 ''VLAN_ID'' (r_vlan r) = Inr w"
    using assms(1) by (auto simp: convert_l2_def rbind_Inr_iff split: if_splits option.splits)
  moreover from this have "(''VLAN_ID'', v) \<in> set w"
    using dget_SomeD [OF assms(2)] by (auto simp: dkeys_def)
  ultimately show ?thesis by (blast dest: bounded_values)
qed

lemma icmp_bounds:
  assumes "convert_icmp L t r = Inr icmp" and "dget (rev icmp) f = Some v"
  shows "\<exists>n. v = FInt n \<and> 0 \<le> n \<and> n \<le> 255"
  using assms dget_SomeD [OF assms(2)] by (auto simp: convert_icmp_def rbind_Inr_iff dest: bounded_values)

lemma protocol_true:
  assumes "convert_ip L t r = Inr ip" and "dget (rev ip) ''IP_PROTOCOL'' = Some p"
  shows "fval_true p"
proof -
  obtain q s d mirror where q: "(if fval_true (r_protocol r) then rbind (protocol_value L t r) (\<lambda>p. Inr [(''IP_PROTOCOL'', p)]) else Inr []) = Inr q"
    and "network_field ''SRC_IP'' ''SRC_IPV6'' (r_src_ip r) = Inr s" "network_field ''DST_IP'' ''DST_IPV6'' (r_dst_ip r) = Inr d"
    and ip: "ip = q @ s @ d @ (if mirror \<and> fval_true (r_dscp r) then [(''DSCP'', r_dscp r)] else [])"
    using assms(1) unfolding convert_ip_def rbind_Inr_iff by blast
  then have "''IP_PROTOCOL'' \<notin> set (dkeys s)" "''IP_PROTOCOL'' \<notin> set (dkeys d)" by (auto dest!: network_keys)
  then have "(''IP_PROTOCOL'', p) \<in> set q"
    using dget_SomeD [OF assms(2)] by (force simp: ip dkeys_def split: if_splits)
  then have "protocol_value L t r = Inr p" "fval_true (r_protocol r)"
    using q by (auto simp: rbind_Inr_iff split: if_splits)
  moreover have "dget ip_protocol_map v = Some n \<Longrightarrow> n \<noteq> 0" for v n
    by (auto simp: ip_protocol_map_def split: if_splits)
  moreover from this have "known ip_protocol_map v = Some n \<Longrightarrow> n \<noteq> 0" for v n by (cases v) auto
  ultimately show ?thesis
    by (auto simp: protocol_value_def rbind_Inr_iff split: option.splits if_splits)
qed

lemma action_valid:
  assumes "convert_action L t r skip = Inr act"
  shows "\<exists>a v. a \<in> set action_fields \<and> (\<forall>a' \<in> set action_fields. dget (rev act) a' = (if a' = a then Some (FStr v) else None))
    \<and> validate_actions L t [(a, v)] skip = Inr True"
proof -
  obtain a v where "rule_action L t (r_action r) = Inr (a, v)" "validate_actions L t [(a, v)] skip = Inr True" "act = [(a, FStr v)]"
    using assms by (auto simp: convert_action_def rbind_Inr_iff split: if_splits)
  then show ?thesis using rule_action_field by (intro exI [of _ a] exI [of _ v]) auto
qed

section \<open>Loaders\<close>

lemma new_loader_fields: "new_loader A c = Inr L \<Longrightarrow> l_current L = None"
  by (auto simp: new_loader_def rbind_Inr_iff)

lemma configured_fields:
  "configured p L = Inr L' \<Longrightarrow> l_rules L' = l_rules L \<and> (o_table p = [] \<longrightarrow> l_current L' = l_current L)"
  by (auto simp: configured_def Let_def rbind_Inr_iff set_session_name_def set_table_name_def set_mirror_stage_def set_max_priority_def
      split: if_splits)

context acl_databases
begin

lemma loaded_distinct:
  assumes "new_loader A c = Inr L"
  shows "distinct (dkeys (l_rules L))"
proof -
  have host: "distinct (dkeys (db_get_table (a_host A) ''ACL_RULE'' c))"
    by (rule config_db.table_distinct [OF each_db]) (simp add: acl_dbs_def)
  have "fold_res (\<lambda>(k, fs) acc. case split_on (CHR '':'') k of
      [_, t, r] \<Rightarrow> Inr (if dhas acc (t @ ''|'' @ r) then acc else dset (t @ ''|'' @ r) fs acc)
    | _ \<Rightarrow> Inl (ValueError ''unpack'')) xs acc = Inr rs \<Longrightarrow> distinct (dkeys acc) \<Longrightarrow> distinct (dkeys rs)" for xs acc rs
    by (induction xs arbitrary: acc) (auto simp: rbind_Inr_iff split: list.splits)
  then show ?thesis
    using assms host by (auto simp: new_loader_def read_rules_info_def rbind_Inr_iff Let_def split: if_splits)
qed

end

section \<open>The rules of a file\<close>

lemma add_rules_distinct: "add_rules L t skip rs info = Inr info' \<Longrightarrow> distinct (dkeys info) \<Longrightarrow> distinct (dkeys info')"
  by (induction L t skip rs info rule: add_rules.induct) (auto simp: deep_update_def split: sum.splits py_error.splits)

lemma convert_rules_distinct: "convert_rules L skip sets info = Inr info' \<Longrightarrow> distinct (dkeys info) \<Longrightarrow> distinct (dkeys info')"
proof (induction L skip sets info rule: convert_rules.induct)
  case (2 L skip name rs sets info)
  then show ?case
    by (auto simp: Let_def rbind_Inr_iff deep_update_def dest: add_rules_distinct split: if_splits option.splits)
qed simp

definition default_key :: "string \<Rightarrow> string" where
  "default_key t = t @ ''|DEFAULT_RULE''"

lemma rule_key_default: "rule_key t n \<noteq> default_key t'"
proof
  assume "rule_key t n = default_key t'"
  then have "last (rule_key t n) = last (default_key t')" by simp
  moreover have "is_digit (last (str_int n))" "str_int n \<noteq> []"
    using str_nat_digits [of "nat n"] str_nat_digits [of "nat (- n)"] by (auto simp: str_int_def list_all_iff)
  ultimately show False by (simp add: rule_key_def default_key_def is_digit_def split: if_splits)
qed

lemma converted_key: "convert_rule_to_db_schema L t r skip = Inr (k, props) \<Longrightarrow> k = rule_key t (r_seq r)"
  by (erule converted_parts)

lemma add_rules_default: "add_rules L t skip rs info = Inr info' \<Longrightarrow> dget info' (default_key t') = dget info (default_key t')"
proof (induction rs arbitrary: info)
  case (Cons r rs)
  then show ?case
    by (auto simp: deep_update_def rule_key_default dest!: converted_key split: sum.splits py_error.splits)
      (metis rule_key_default)+
qed simp

text \<open>Which tables of a file get a default rule, and what it says.\<close>

definition denied :: "loader \<Rightarrow> (string \<times> acl_rule list) list \<Rightarrow> string \<Rightarrow> bool" where
  "denied L sets t \<longleftrightarrow> t \<in> set (map (table_name \<circ> fst) sets) \<and> is_table_valid L t \<and> l_current L \<in> {None, Some t}
     \<and> is_table_egress L t = Inr False \<and> (\<exists>ty. table_type L t = Inr ty \<and> upper ty \<in> {''L3'', ''L3V6'', ''L3V4V6''})"

definition drops_last :: "fvs \<Rightarrow> bool" where
  "drops_last props \<longleftrightarrow> dget props ''PRIORITY'' = Some (FStr ''1'') \<and> dget props ''PACKET_ACTION'' = Some (FStr ''DROP'')"

lemma deny_rule_iff:
  "(\<exists>props. deny_rule L t = Inr (Some props)) \<longleftrightarrow> (\<exists>ty. table_type L t = Inr ty \<and> upper ty \<in> {''L3'', ''L3V6'', ''L3V4V6''})"
  by (cases "table_type L t")
    (auto simp: deny_rule_def Let_def is_table_l3v6_def is_table_l3_def is_table_l3v4v6_def type_in_def)

lemma deny_rule_drops: "deny_rule L t = Inr (Some props) \<Longrightarrow> drops_last (dupdate e props)"
  by (auto simp: deny_rule_def Let_def rbind_Inr_iff drops_last_def dget_dupdate split: if_splits)

lemma convert_rules_step:
  assumes "convert_rules L skip ((name, rs) # sets) info = Inr info'"
  obtains mid where "convert_rules L skip sets mid = Inr info'"
    and "\<And>t. dhas mid (default_key t) \<longleftrightarrow> dhas info (default_key t) \<or> denied L [(name, rs)] t"
    and "\<And>t props. dget mid (default_key t) = Some props \<Longrightarrow> dget info (default_key t) = Some props \<or> drops_last props"
proof -
  let ?t = "table_name name"
  consider (skipped) "\<not> is_table_valid L ?t \<or> (l_current L \<noteq> None \<and> l_current L \<noteq> Some ?t)" "convert_rules L skip sets info = Inr info'"
    | (egress) i where "add_rules L ?t skip rs info = Inr i" "is_table_egress L ?t = Inr True" "convert_rules L skip sets i = Inr info'"
    | (other) i where "is_table_valid L ?t" "l_current L \<in> {None, Some ?t}" "is_table_egress L ?t = Inr False"
        "add_rules L ?t skip rs info = Inr i" "deny_rule L ?t = Inr None" "convert_rules L skip sets i = Inr info'"
    | (deny) i props where "is_table_valid L ?t" "l_current L \<in> {None, Some ?t}" "is_table_egress L ?t = Inr False"
        "add_rules L ?t skip rs info = Inr i" "deny_rule L ?t = Inr (Some props)"
        "convert_rules L skip sets (deep_update i (default_key ?t) props) = Inr info'"
    using assms
    by (auto simp: Let_def rbind_Inr_iff default_key_def split: if_splits)
      (rename_tac i e d, case_tac d, force, force)+
  then show thesis
  proof cases
    case skipped
    then have "\<not> denied L [(name, rs)] t" for t by (auto simp: denied_def)
    with skipped(2) show ?thesis by (intro that [of info]) simp_all
  next
    case egress
    then have "\<not> denied L [(name, rs)] t" for t by (auto simp: denied_def)
    with egress(3) show ?thesis by (intro that [of i]) (simp_all add: dhas_dget add_rules_default [OF egress(1)])
  next
    case other
    have "\<not> denied L [(name, rs)] t" for t
      using other(5) deny_rule_iff [of L ?t] by (auto simp: denied_def)
    with other(6) show ?thesis by (intro that [of i]) (simp_all add: dhas_dget add_rules_default [OF other(4)])
  next
    case deny
    let ?mid = "deep_update i (default_key ?t) props"
    have denied: "denied L [(name, rs)] t \<longleftrightarrow> t = ?t" for t
      using deny(1-3,5) deny_rule_iff [of L ?t] by (auto simp: denied_def)
    have same: "default_key t = default_key t' \<longleftrightarrow> t = t'" for t t' by (simp add: default_key_def)
    have mid: "dget ?mid (default_key t) = (if t = ?t then Some (dupdate (case dget i (default_key ?t) of None \<Rightarrow> [] | Some e \<Rightarrow> e) props)
        else dget info (default_key t))" for t
      by (simp add: deep_update_def same add_rules_default [OF deny(4)])
    show ?thesis
      by (rule that [of ?mid, OF deny(6)]) (use deny_rule_drops [OF deny(5)] in \<open>auto simp: dhas_dget mid denied split: if_splits\<close>)
  qed
qed

lemma default_rules:
  assumes "convert_rules L skip sets info = Inr info'"
  shows "dhas info' (default_key t) \<longleftrightarrow> dhas info (default_key t) \<or> denied L sets t"
    and "dget info' (default_key t) = Some props \<Longrightarrow> dget info (default_key t) = Some props \<or> drops_last props"
proof -
  have "(dhas info' (default_key t) \<longleftrightarrow> dhas info (default_key t) \<or> denied L sets t)
    \<and> (dget info' (default_key t) = Some props \<longrightarrow> dget info (default_key t) = Some props \<or> drops_last props)"
    using assms
  proof (induction sets arbitrary: info)
    case (Cons x sets)
    obtain name rs where x: "x = (name, rs)" by (cases x)
    from Cons.prems [unfolded x] obtain mid where mid: "convert_rules L skip sets mid = Inr info'"
      "dhas mid (default_key t) \<longleftrightarrow> dhas info (default_key t) \<or> denied L [(name, rs)] t"
      "dget mid (default_key t) = Some props \<Longrightarrow> dget info (default_key t) = Some props \<or> drops_last props"
      by (rule convert_rules_step) blast
    have "denied L (x # sets) t \<longleftrightarrow> denied L [(name, rs)] t \<or> denied L sets t" by (auto simp: denied_def x)
    then show ?case using Cons.IH [OF mid(1)] mid(2,3) by blast
  qed (simp add: denied_def)
  then show "dhas info' (default_key t) \<longleftrightarrow> dhas info (default_key t) \<or> denied L sets t"
    and "dget info' (default_key t) = Some props \<Longrightarrow> dget info (default_key t) = Some props \<or> drops_last props" by auto
qed

section \<open>A device with a host and one ASIC\<close>

definition acl_device :: "table_info dict \<Rightarrow> (string \<Rightarrow> string dict) \<Rightarrow> (string dict dict dict \<times> string dict dict dict) acl_env" where
  "acl_device tables state =
     \<lparr>a_host = left_env nested_env, a_npus = [(''asic0'', right_env nested_env)],
      a_tables = (\<lambda>ns c. case ns of None \<Rightarrow> filter (\<lambda>(t, e). is_ctrlplane e) tables | Some n \<Rightarrow> filter (\<lambda>(t, e). \<not> is_ctrlplane e) tables),
      a_types = (\<lambda>ns c. []), a_appl_tables = (\<lambda>c. []), a_appl_rules = (\<lambda>c. []), a_state = (\<lambda>ns k c. state k)\<rparr>"

interpretation acl_device: acl_databases "acl_device tables state"
  by (rule acl_databases.intro)
    (auto simp: acl_device_def acl_dbs_def nested.left_config_db nested.right_config_db left_field right_field left_simps right_simps)

end
