(* ===== verification/AclProps.thy ===== *)
theory AclProps
  imports AclFacts
begin

text \<open>Properties of the ACL loader, and a sample file on a device with a host and one ASIC.\<close>

section \<open>A sample file\<close>

definition sample_acl_tables :: "table_info dict" where
  "sample_acl_tables =
     [(''DATAACL'', \<lparr>ti_fields = [(''type'', ''L3'')], ti_ports = Some [''Ethernet0'']\<rparr>),
      (''SSH_ONLY'', \<lparr>ti_fields = [(''type'', ''CTRLPLANE'')], ti_ports = None\<rparr>)]"

definition sample_acl_state :: "string \<Rightarrow> string dict" where
  "sample_acl_state k =
     (if k = ''ACL_STAGE_CAPABILITY_TABLE|INGRESS'' then [(''action_list'', ''PACKET_ACTION,REDIRECT_ACTION'')]
      else if k = ''SWITCH_CAPABILITY|switch'' then [(''ACL_ACTION|PACKET_ACTION'', ''DROP,FORWARD'')] else [])"

definition sample_acl :: "(string dict dict dict \<times> string dict dict dict) acl_env" where
  "sample_acl = acl_device sample_acl_tables sample_acl_state"

definition sample_rule :: "int \<Rightarrow> string \<Rightarrow> acl_rule" where
  "sample_rule n action =
     \<lparr>r_seq = n, r_action = action, r_ethertype = FNone, r_vlan = Some 7, r_protocol = FStr ''IP_TCP'', r_src_ip = ''10.0.0.0/8'', r_dst_ip = [],
      r_dscp = FNone, r_icmp_type = None, r_icmp_code = None, r_src_port = ''1..99'', r_dst_port = [], r_tcp_flags = [''TCP_SYN''],
      r_interface = [], r_filled = True\<rparr>"

definition sample_sets :: "(string \<times> acl_rule list) list" where
  "sample_sets = [(''dataacl'', [sample_rule 1 ''ACCEPT'', sample_rule 2 ''MIRROR'']), (''ssh-only'', [sample_rule 3 ''ACCEPT''])]"

definition sample_options :: acl_options where
  "sample_options = \<lparr>o_table = [], o_session = [], o_stage = ''ingress'', o_max = 0, o_skip = False\<rparr>"

definition sample_acl_db :: "string dict dict dict" where
  "sample_acl_db =
     [(''ACL_RULE'', [(''DATAACL|RULE_9'', [(''PRIORITY'', ''9991''), (''PACKET_ACTION'', ''DROP'')]),
                      (''SSH_ONLY|RULE_3'', [(''PRIORITY'', ''9997''), (''PACKET_ACTION'', ''DROP'')])])]"

definition sample_loader :: loader where
  "sample_loader =
     \<lparr>l_tables = [(''SSH_ONLY'', \<lparr>ti_fields = [(''type'', ''CTRLPLANE'')], ti_ports = None\<rparr>),
                  (''DATAACL'', \<lparr>ti_fields = [(''type'', ''L3'')], ti_ports = Some [''Ethernet0'']\<rparr>)],
      l_types = [], l_rules = [(''DATAACL|RULE_9'', [(''PRIORITY'', ''9991''), (''PACKET_ACTION'', ''DROP'')]),
                      (''SSH_ONLY|RULE_3'', [(''PRIORITY'', ''9997''), (''PACKET_ACTION'', ''DROP'')])],
      l_sessions = [], l_requested = None, l_stage = None, l_current = None, l_max = 10000, l_state = sample_acl_state\<rparr>"

definition sample_props :: "int \<Rightarrow> string \<Rightarrow> fvs" where
  "sample_props n action =
     [(''PRIORITY'', FStr (str_int (10000 - n))), (''PACKET_ACTION'', FStr action), (''VLAN_ID'', FInt 7), (''IP_PROTOCOL'', FInt 6),
      (''SRC_IP'', FStr ''10.0.0.0/8''), (''L4_SRC_PORT_RANGE'', FStr ''1-99''), (''TCP_FLAGS'', FStr ''0x02/0x02''), (''IP_TYPE'', FStr ''IP'')]"

definition sample_info :: "fvs dict" where
  "sample_info =
     [(''DATAACL|RULE_1'', (''PRIORITY'', FStr ''9999'') # (''ETHER_TYPE'', FStr ''2048'') # tl (sample_props 1 ''FORWARD'')),
      (''DATAACL|DEFAULT_RULE'', [(''PRIORITY'', FStr ''1''), (''PACKET_ACTION'', FStr ''DROP''), (''ETHER_TYPE'', FStr ''2048'')]),
      (''SSH_ONLY|RULE_3'', sample_props 3 ''ACCEPT'')]"

lemma sample_new_loader: "new_loader sample_acl (sample_acl_db, sample_acl_db) = Inr sample_loader"
proof -
  have "read_tables_info sample_acl (sample_acl_db, sample_acl_db) = Inr (l_tables sample_loader)" by code_simp
  moreover have "read_rules_info sample_acl (sample_acl_db, sample_acl_db) = Inr (l_rules sample_loader)" by code_simp
  moreover have "read_sessions_info sample_acl (sample_acl_db, sample_acl_db) = []" by code_simp
  moreover have "read_tables_types sample_acl (sample_acl_db, sample_acl_db) = []" by code_simp
  moreover have "(\<lambda>k. a_state sample_acl (case a_npus sample_acl of [] \<Rightarrow> None | (ns, D) # _ \<Rightarrow> Some ns) k (sample_acl_db, sample_acl_db)) = sample_acl_state"
    by (simp add: sample_acl_def acl_device_def)
  ultimately show ?thesis by (simp add: new_loader_def sample_loader_def)
qed

definition sample_ready :: loader where
  "sample_ready = sample_loader\<lparr>l_stage := Some ''INGRESS''\<rparr>"

lemma sample_configured: "configured sample_options sample_loader = Inr sample_ready"
proof -
  have "upper ''ingress'' = ''INGRESS''" by code_simp
  then show ?thesis by (simp add: configured_def sample_options_def sample_ready_def set_mirror_stage_def)
qed

lemma sample_rule_1: "convert_rule_to_db_schema sample_ready ''DATAACL'' (sample_rule 1 ''ACCEPT'') False =
    Inr (hd sample_info)"
  by code_simp

lemma sample_converted: "convert_rules sample_ready False sample_sets [] = Inr sample_info"
  by code_simp

lemma sample_acl_databases: "acl_databases sample_acl"
  unfolding sample_acl_def by (rule acl_device.acl_databases_axioms)

lemma sample_in_sync: "in_sync sample_acl sample_loader (sample_acl_db, sample_acl_db)"
proof -
  have "field_of nested_env ''ACL_RULE'' k f sample_acl_db = (case dget (l_rules sample_loader) k of None \<Rightarrow> None | Some e \<Rightarrow> dget e f)" for k f
    by (simp add: field_of_def nested_env_def nested_entry_def nested_table_def sample_acl_db_def sample_loader_def)
  then show ?thesis
    by (auto simp: in_sync_def sample_acl_def acl_device_def acl_dbs_def left_field right_field)
qed

section \<open>Updates\<close>

text \<open>
  C28. A full update and an incremental update that ends without an exception leave the same rules in every
  database, those converted from the file, where the loader knows the rules of each database; other tables
  are not touched.
\<close>

theorem acl_updates_install:
  assumes "acl_databases A" and "new_loader A c = Inr L" and "in_sync A L c" and "configured p L = Inr L'"
    and "o_table p = []" and "o_skip p = False" and "convert_rules L' False sets [] = Inr info"
    and "fst (acl_incremental A p (Inr sets) c) = Inr ()"
  shows "fst (acl_full A p (Inr sets) c) = Inr ()
    \<and> installed A info c (snd (acl_full A p (Inr sets) c)) \<and> installed A info c (snd (acl_incremental A p (Inr sets) c))"
proof -
  have L: "l_rules L' = l_rules L" "l_current L' = None" "distinct (dkeys (l_rules L))"
    using assms(2,4,5) new_loader_fields [OF assms(2)] configured_fields [OF assms(4)]
      acl_databases.loaded_distinct [OF assms(1,2)] by auto
  have p: "p\<lparr>o_table := []\<rparr> = p" using assms(5) by simp
  have d: "distinct (dkeys info)" using convert_rules_distinct [OF assms(7)] by simp
  have runs: "acl_full A p (Inr sets) c = full_update A L' info c" "acl_incremental A p (Inr sets) c = incremental_update A L' info c"
    using assms(2,4,6,7) by (simp_all add: acl_full_def acl_incremental_def attempt_def p)
  have sync: "in_sync A L' c" using assms(3) by (simp add: in_sync_def L(1))
  show ?thesis
    using acl_databases.full_installs [OF assms(1) d L(2) sync]
      acl_databases.incremental_installs [OF assms(1) d _ sync] L assms(8) by (simp add: runs)
qed

theorem acl_updates_install_witness:
  "field_of (right_env nested_env) ''ACL_RULE'' ''DATAACL|RULE_1'' ''PRIORITY'' (snd (acl_full sample_acl sample_options (Inr sample_sets) (sample_acl_db, sample_acl_db))) = Some ''9999''
   \<and> field_of (right_env nested_env) ''ACL_RULE'' ''DATAACL|RULE_9'' ''PRIORITY'' (snd (acl_incremental sample_acl sample_options (Inr sample_sets) (sample_acl_db, sample_acl_db))) = None"
proof -
  have tested: "map_res (\<lambda>k. rbind (control_plane_key sample_ready k) (\<lambda>b. Inr (k, b))) (dkeys sample_info) =
      Inr [(''DATAACL|RULE_1'', False), (''DATAACL|DEFAULT_RULE'', False), (''SSH_ONLY|RULE_3'', True)]"
    "map_res (\<lambda>k. rbind (control_plane_key sample_ready k) (\<lambda>b. Inr (k, b))) (dkeys (l_rules sample_ready)) =
      Inr [(''DATAACL|RULE_9'', False), (''SSH_ONLY|RULE_3'', True)]"
    by code_simp+
  have "distinct (dkeys sample_info)" "distinct (dkeys (l_rules sample_ready))" by code_simp+
  moreover have "in_sync sample_acl sample_ready (sample_acl_db, sample_acl_db)"
    using sample_in_sync by (simp add: in_sync_def sample_ready_def)
  ultimately have "fst (incremental_update sample_acl sample_ready sample_info (sample_acl_db, sample_acl_db)) = Inr ()"
    using acl_databases.incremental_tested [OF sample_acl_databases _ _ _ tested] by blast
  moreover have "sample_options\<lparr>o_table := []\<rparr> = sample_options" by (simp add: sample_options_def)
  ultimately have "fst (acl_incremental sample_acl sample_options (Inr sample_sets) (sample_acl_db, sample_acl_db)) = Inr ()"
    by (simp add: acl_incremental_def attempt_def sample_new_loader sample_converted sample_configured)
  from acl_updates_install [OF sample_acl_databases sample_new_loader sample_in_sync sample_configured _ _ sample_converted this]
  have "installed sample_acl sample_info (sample_acl_db, sample_acl_db) (snd (acl_full sample_acl sample_options (Inr sample_sets) (sample_acl_db, sample_acl_db)))"
    "installed sample_acl sample_info (sample_acl_db, sample_acl_db) (snd (acl_incremental sample_acl sample_options (Inr sample_sets) (sample_acl_db, sample_acl_db)))"
    by (simp_all add: sample_options_def)
  moreover have "right_env nested_env \<in> set (acl_dbs sample_acl)" by (simp add: sample_acl_def acl_device_def acl_dbs_def)
  moreover have "dget sample_info ''DATAACL|RULE_9'' = None" "dget (the (dget sample_info ''DATAACL|RULE_1'')) ''PRIORITY'' = Some (FStr ''9999'')"
    "dget sample_info ''DATAACL|RULE_1'' \<noteq> None" by code_simp+
  ultimately show ?thesis by (auto simp: installed_def)
qed

section \<open>Rules\<close>

text \<open>
  C29. Of two rules of a table that are converted, the one with the smaller sequence number gets the higher
  priority and another key, and a rule stays above the default rule exactly while its number is less than the
  maximal priority minus 1.
\<close>

theorem acl_priorities:
  assumes "convert_rule_to_db_schema L t r skip = Inr (k, props)" and "convert_rule_to_db_schema L t r' skip = Inr (k', props')"
    and "r_seq r < r_seq r'"
  shows "k \<noteq> k' \<and> (\<exists>n n'. dget props ''PRIORITY'' = Some (FStr (str_int n)) \<and> dget props' ''PRIORITY'' = Some (FStr (str_int n'))
    \<and> n' < n \<and> (1 < n' \<longleftrightarrow> r_seq r' < l_max L - 1))"
proof -
  have "dget props ''PRIORITY'' = Some (FStr (str_int (l_max L - r_seq r)))" "dget props' ''PRIORITY'' = Some (FStr (str_int (l_max L - r_seq r')))"
    using assms(1,2) by (auto elim: converted_fields)
  moreover have "k \<noteq> k'"
    using converted_key [OF assms(1)] converted_key [OF assms(2)] assms(3) by (auto simp: rule_key_def str_int_inject)
  ultimately show ?thesis using assms(3) by auto
qed

lemma sample_rule_2: "convert_rule_to_db_schema sample_ready ''DATAACL'' (sample_rule 2 ''DROP'') False =
    Inr (''DATAACL|RULE_2'', (''PRIORITY'', FStr ''9998'') # (''ETHER_TYPE'', FStr ''2048'') # tl (sample_props 2 ''DROP''))"
  by code_simp

theorem acl_priorities_witness:
  "\<exists>n n'. dget (snd (hd sample_info)) ''PRIORITY'' = Some (FStr (str_int n)) \<and> n' < n \<and> 1 < n'"
proof -
  have "convert_rule_to_db_schema sample_ready ''DATAACL'' (sample_rule 1 ''ACCEPT'') False = Inr (fst (hd sample_info), snd (hd sample_info))"
    by (simp add: sample_rule_1)
  from acl_priorities [OF this sample_rule_2] show ?thesis
    by (auto simp: sample_rule_def sample_ready_def sample_loader_def)
qed

text \<open>
  C30. A converted rule has TCP flags, ICMP and ICMPv6 fields only if it names no protocol or that of the
  fields, its VLAN and ICMP numbers are in range, and it has one action, which the device supports unless
  the table is of the control plane or validation is skipped for want of capabilities.
\<close>

theorem acl_rule_consistent:
  assumes "convert_rule_to_db_schema L t r skip = Inr (k, props)"
  shows "(dhas props ''TCP_FLAGS'' \<longrightarrow> dget props ''IP_PROTOCOL'' \<in> {None, Some (FInt 6)})
    \<and> (dhas props ''ICMP_TYPE'' \<or> dhas props ''ICMP_CODE'' \<longrightarrow> dget props ''IP_PROTOCOL'' \<in> {None, Some (FInt 1)})
    \<and> (dhas props ''ICMPV6_TYPE'' \<or> dhas props ''ICMPV6_CODE'' \<longrightarrow> dget props ''IP_PROTOCOL'' \<in> {None, Some (FInt 58)})
    \<and> (\<forall>v. dget props ''VLAN_ID'' = Some v \<longrightarrow> (\<exists>n. v = FInt n \<and> 1 \<le> n \<and> n \<le> 4095))
    \<and> (\<forall>f \<in> {''ICMP_TYPE'', ''ICMP_CODE'', ''ICMPV6_TYPE'', ''ICMPV6_CODE''}. \<forall>v. dget props f = Some v \<longrightarrow> (\<exists>n. v = FInt n \<and> 0 \<le> n \<and> n \<le> 255))
    \<and> (\<exists>a v. a \<in> set action_fields \<and> (\<forall>a' \<in> set action_fields. dget props a' = (if a' = a then Some (FStr v) else None))
        \<and> validate_actions L t [(a, v)] skip = Inr True)"
  using assms
proof (rule converted_fields)
  fix act l2 ip icmp
  assume parts: "convert_action L t r skip = Inr act" "convert_l2 r = Inr l2" "convert_ip L t r = Inr ip" "convert_icmp L t r = Inr icmp"
    and valid: "validate_rule_fields props = Inr ()"
    and act: "\<And>f. f \<in> set action_fields \<Longrightarrow> dget props f = dget (rev act) f"
    and vlan: "dget props ''VLAN_ID'' = dget (rev l2) ''VLAN_ID''" and proto: "dget props ''IP_PROTOCOL'' = dget (rev ip) ''IP_PROTOCOL''"
    and icmp: "\<And>f. f \<in> {''ICMP_TYPE'', ''ICMPV6_TYPE'', ''ICMP_CODE'', ''ICMPV6_CODE''} \<Longrightarrow> dget props f = dget (rev icmp) f"
  have "\<not> fval_true p \<longrightarrow> dget props ''IP_PROTOCOL'' \<noteq> Some p" for p
    using protocol_true [OF parts(3)] by (auto simp: proto)
  then have protocol: "protocol_is n props \<Longrightarrow> dget props ''IP_PROTOCOL'' \<in> {None, Some (FInt n)}" for n
    by (auto simp: protocol_is_def split: option.splits)
  show ?thesis
    using valid protocol vlan_bounds [OF parts(2)] icmp_bounds [OF parts(4)] action_valid [OF parts(1)]
    by (auto simp: validate_rule_fields_def vlan icmp act split: if_splits)
qed

theorem acl_rule_consistent_witness:
  "dget (snd (hd sample_info)) ''IP_PROTOCOL'' = Some (FInt 6) \<and> validate_actions sample_ready ''DATAACL'' [(''PACKET_ACTION'', ''FORWARD'')] False = Inr True"
proof -
  have "convert_rule_to_db_schema sample_ready ''DATAACL'' (sample_rule 1 ''ACCEPT'') False = Inr (fst (hd sample_info), snd (hd sample_info))"
    by (simp add: sample_rule_1)
  from acl_rule_consistent [OF this, THEN conjunct2, THEN conjunct2, THEN conjunct2, THEN conjunct2, THEN conjunct2]
  obtain a v where a: "a \<in> set action_fields" "validate_actions sample_ready ''DATAACL'' [(a, v)] False = Inr True"
      "\<And>a'. a' \<in> set action_fields \<Longrightarrow> dget (snd (hd sample_info)) a' = (if a' = a then Some (FStr v) else None)"
    by blast
  have packet: "dget (snd (hd sample_info)) ''PACKET_ACTION'' = Some (FStr ''FORWARD'')" by code_simp
  have "''PACKET_ACTION'' = a" "v = ''FORWARD''"
    using a(3) [of "''PACKET_ACTION''"] unfolding packet by (auto simp: action_fields_def split: if_splits)
  moreover have "dget (snd (hd sample_info)) ''IP_PROTOCOL'' = Some (FInt 6)" by code_simp
  ultimately show ?thesis using a(2) by simp
qed

text \<open>
  C31. After a file is loaded there is a default rule for exactly the ingress tables of type L3, L3V6 and L3V4V6
  that the file names, that exist and that the update is not kept from; it drops with priority 1.  The docstring of
  \<open>deny_rule\<close> and the comment at its end name L3 and L3V6 only; the code has a branch for L3V4V6 as well
  (\<open>deny_rule_mixed\<close>).
\<close>

theorem acl_default_deny:
  assumes "convert_rules L skip sets [] = Inr info"
  shows "(dhas info (default_key t) \<longleftrightarrow> denied L sets t) \<and> (\<forall>props. dget info (default_key t) = Some props \<longrightarrow> drops_last props)"
  using default_rules [OF assms] by (auto simp: dhas_dget)

theorem acl_default_deny_witness:
  "denied sample_ready sample_sets ''DATAACL'' \<and> \<not> denied sample_ready sample_sets ''SSH_ONLY''"
proof -
  have "dhas sample_info (default_key ''DATAACL'')" "\<not> dhas sample_info (default_key ''SSH_ONLY'')" by code_simp+
  then show ?thesis using acl_default_deny [OF sample_converted] by simp
qed

text \<open>A table of type L3V4V6 gets a default rule that drops both versions.\<close>

lemma deny_rule_mixed:
  "table_type L t = Inr ''L3V4V6'' \<Longrightarrow> deny_rule L t =
     Inr (Some [(''PRIORITY'', FStr ''1''), (''PACKET_ACTION'', FStr ''DROP''), (''IP_TYPE'', FStr ''IP'')])"
proof -
  have "upper ''L3V4V6'' = ''L3V4V6''" by code_simp
  then show "table_type L t = Inr ''L3V4V6'' \<Longrightarrow> ?thesis"
    by (simp add: deny_rule_def is_table_l3v6_def is_table_l3_def is_table_l3v4v6_def type_in_def Let_def)
qed

text \<open>
  Deleting rules returns, and removes from every database exactly the loaded rules of the table and the
  name given, where an empty argument stands for all.
\<close>

theorem acl_delete_exact:
  assumes "acl_databases A" and "new_loader A c = Inr L"
  shows "fst (acl_delete_command A t r c) = Inr () \<and> (\<forall>D \<in> set (acl_dbs A). field_of D t' k f (snd (acl_delete_command A t r c)) =
    (if t' = ''ACL_RULE'' \<and> dhas (l_rules L) k \<and> (t = [] \<or> rule_table k = t) \<and> (r = [] \<or> key_parts k ! 1 = r) then None
     else field_of D t' k f c))"
proof -
  have "effect A (acl_delete A L t r) (removed_keys (filter (\<lambda>k. (t = [] \<or> rule_table k = t) \<and> (r = [] \<or> key_parts k ! 1 = r)) (dkeys (l_rules L))))"
    unfolding acl_delete_def removed_fold [symmetric] by (rule effect_each) (rule acl_databases.effect_all(3) [OF assms(1)])
  then show ?thesis
    by (auto simp: acl_delete_command_def attempt_def assms(2) effectD removed_keys_def dhas_iff)
qed

theorem acl_delete_exact_witness:
  "field_of (left_env nested_env) ''ACL_RULE'' ''SSH_ONLY|RULE_3'' ''PRIORITY'' (snd (acl_delete_command sample_acl ''DATAACL'' [] (sample_acl_db, sample_acl_db))) = Some ''9997''
   \<and> field_of (left_env nested_env) ''ACL_RULE'' ''DATAACL|RULE_9'' ''PRIORITY'' (snd (acl_delete_command sample_acl ''DATAACL'' [] (sample_acl_db, sample_acl_db))) = None"
proof -
  have D: "left_env nested_env \<in> set (acl_dbs sample_acl)" by (simp add: sample_acl_def acl_device_def acl_dbs_def)
  have "field_of (left_env nested_env) ''ACL_RULE'' ''SSH_ONLY|RULE_3'' ''PRIORITY'' (sample_acl_db, sample_acl_db) = Some ''9997''" by code_simp
  moreover have "rule_table ''SSH_ONLY|RULE_3'' = ''SSH_ONLY''" "rule_table ''DATAACL|RULE_9'' = ''DATAACL''"
    "dhas (l_rules sample_loader) ''DATAACL|RULE_9''" by code_simp+
  ultimately show ?thesis
    using acl_delete_exact [OF sample_acl_databases sample_new_loader, THEN conjunct2, rule_format, OF D] by simp
qed

section \<open>Files that are not loaded as meant\<close>

text \<open>An address with host bits is no exception of the loader: it stops the load of all rules instead of one.\<close>

theorem host_bits_stop_load:
  "convert_rules sample_ready False [(''dataacl'', [sample_rule 1 ''ACCEPT'', (sample_rule 2 ''ACCEPT'')\<lparr>r_src_ip := ''10.0.0.1/8''\<rparr>])] [] =
     Inl (ValueError ''network'')"
  by code_simp

text \<open>A rule with a large sequence number is accepted with a priority below that of the default rule.\<close>

theorem priority_below_default:
  "map_option (\<lambda>p. dget p ''PRIORITY'') (case convert_rule_to_db_schema sample_ready ''DATAACL'' (sample_rule 10000 ''ACCEPT'') False of
     Inl e \<Rightarrow> None | Inr (k, p) \<Rightarrow> Some p) = Some (Some (FStr ''0''))"
  by code_simp

text \<open>A rule in the database whose table is gone makes every incremental update fail.\<close>

theorem orphan_rule_stops_incremental:
  "incremental_update sample_acl (sample_ready\<lparr>l_rules := [(''GONE|RULE_1'', [])]\<rparr>) [] c = (Inl (KeyError ''GONE''), c)"
proof -
  have "control_plane_key (sample_ready\<lparr>l_rules := [(''GONE|RULE_1'', [])]\<rparr>) ''GONE|RULE_1'' = Inl (KeyError ''GONE'')" by code_simp
  then show ?thesis by (simp add: incremental_update_def attempt_def)
qed

end
