(* ===== verification/PkgData.thy ===== *)
theory PkgData
  imports ConfigDb Json
begin

text \<open>
  The data of the package manager, sonic_package_manager: versions and their constraints, the package
  database, the schema of a package manifest with its two marshalling directions, the metadata read from
  the labels of an image, and the checks of a set of packages.

  The packages semantic_version and json are parameters.  A version or a constraint is its text.
\<close>

section \<open>Versions and constraints\<close>

text \<open>
  semantic_version: \<open>Version(text)\<close> and \<open>SimpleSpec(text)\<close> with what the code asks of them; \<open>None\<close> stands for
  their \<open>ValueError\<close>, \<open>sp_exact\<close> for the target of a clause whose operator is \<open>==\<close>.
\<close>

record semver =
  sv_parse :: "string \<Rightarrow> string option"
  sv_less :: "string \<Rightarrow> string \<Rightarrow> bool"
  sv_major :: "string \<Rightarrow> nat"
  sv_minor :: "string \<Rightarrow> nat"
  sp_parse :: "string \<Rightarrow> string option"
  sp_match :: "string \<Rightarrow> string \<Rightarrow> bool"
  sp_exact :: "string \<Rightarrow> string option"

definition version_parse :: "semver \<Rightarrow> json \<Rightarrow> string res" where
  "version_parse V j =
     (case j of
        JStr s \<Rightarrow> (case sv_parse V s of Some v \<Rightarrow> Inr v | None \<Rightarrow> Inl (ValueError s))
      | _ \<Rightarrow> Inl TypeError)"

definition version_to_tag :: "string \<Rightarrow> string" where
  "version_to_tag v = replace_char (CHR ''+'') ''_'' v"

definition tag_to_version :: "semver \<Rightarrow> string \<Rightarrow> string res" where
  "tag_to_version V tag = version_parse V (JStr (replace_char (CHR ''_'') ''+'' tag))"

definition constraint_parse :: "semver \<Rightarrow> json \<Rightarrow> string res" where
  "constraint_parse V j =
     (case j of
        JStr s \<Rightarrow> (case sp_parse V s of Some c \<Rightarrow> Inr c | None \<Rightarrow> Inl (ValueError s))
      | _ \<Rightarrow> Inl TypeError)"

text \<open>\<open>constraint.allows(version)\<close> reads \<open>version._version\<close>, which \<open>None\<close> has not.\<close>

definition allows :: "semver \<Rightarrow> string \<Rightarrow> string option \<Rightarrow> bool res" where
  "allows V c v = (case v of None \<Rightarrow> Inl AttributeError | Some v' \<Rightarrow> Inr (sp_match V c v'))"

definition components_parse :: "semver \<Rightarrow> json \<Rightarrow> string dict res" where
  "components_parse V j =
     (case j of
        JObj d \<Rightarrow> map_res (\<lambda>(c, e). rbind (constraint_parse V e) (\<lambda>s. Inr (c, s))) d
      | _ \<Rightarrow> Inl AttributeError)"

definition components_deparse :: "string dict \<Rightarrow> json" where
  "components_deparse cs = JObj (map (\<lambda>(c, s). (c, JStr s)) cs)"

record pkg_constraint =
  pc_name :: json
  pc_constraint :: string
  pc_components :: "string dict"

definition is_name_char :: "char \<Rightarrow> bool" where
  "is_name_char c =
     (let n = of_char c :: nat in
      (97 \<le> n \<and> n \<le> 122) \<or> (65 \<le> n \<and> n \<le> 90) \<or> is_digit c \<or> c = CHR ''_'' \<or> c = CHR ''-'')"

text \<open>The pattern ends with \<open>.*\<close>, which stops at a line break.\<close>

definition constraint_from_string :: "semver \<Rightarrow> string \<Rightarrow> pkg_constraint res" where
  "constraint_from_string V s =
     (let n = takeWhile is_name_char s;
          r = takeWhile (\<lambda>c. c \<noteq> CHR 0x0A) (dropWhile is_name_char s) in
      if n = [] then Inl (ValueError s)
      else rbind (constraint_parse V (JStr (if r = [] then ''*'' else r))) (\<lambda>c.
             Inr \<lparr>pc_name = JStr n, pc_constraint = c, pc_components = []\<rparr>))"

definition constraint_from_dict :: "semver \<Rightarrow> (string \<times> json) list \<Rightarrow> pkg_constraint res" where
  "constraint_from_dict V d =
     rbind (case dget d ''name'' of None \<Rightarrow> Inl (KeyError ''name'') | Some n \<Rightarrow> Inr n) (\<lambda>n.
     rbind (constraint_parse V (case dget d ''version'' of
              Some v \<Rightarrow> if truthy v then v else JStr ''*'' | None \<Rightarrow> JStr ''*'')) (\<lambda>c.
     rbind (components_parse V (case dget d ''components'' of Some e \<Rightarrow> e | None \<Rightarrow> JObj [])) (\<lambda>cs.
       Inr \<lparr>pc_name = n, pc_constraint = c, pc_components = cs\<rparr>)))"

definition package_constraint_parse :: "semver \<Rightarrow> json \<Rightarrow> pkg_constraint res" where
  "package_constraint_parse V j =
     (case j of
        JStr s \<Rightarrow> constraint_from_string V s
      | JObj d \<Rightarrow> constraint_from_dict V d
      | _ \<Rightarrow> Inl (ValueError ''Input argument should be either str or dict''))"

definition package_constraint_deparse :: "pkg_constraint \<Rightarrow> json" where
  "package_constraint_deparse c =
     JObj [(''name'', pc_name c), (''version'', JStr (pc_constraint c)),
           (''components'', components_deparse (pc_components c))]"

section \<open>The package database\<close>

record pkg_entry =
  pe_name :: string
  pe_repository :: "string option"
  pe_description :: "string option"
  pe_default_reference :: "string option"
  pe_version :: "string option"
  pe_installed :: bool
  pe_built_in :: bool
  pe_image_id :: "string option"
  pe_image_ref :: "string option"

definition new_entry :: "string \<Rightarrow> string option \<Rightarrow> string option \<Rightarrow> string option \<Rightarrow> pkg_entry" where
  "new_entry n r d ref =
     \<lparr>pe_name = n, pe_repository = r, pe_description = d, pe_default_reference = ref, pe_version = None,
      pe_installed = False, pe_built_in = False, pe_image_id = None, pe_image_ref = None\<rparr>"

text \<open>
  A field of the file, by its type.  The code keeps a value of another type and fails where it uses it;
  here reading it fails.
\<close>

fun opt_str :: "json option \<Rightarrow> string option res" where
  "opt_str None = Inr None"
| "opt_str (Some JNull) = Inr None"
| "opt_str (Some (JStr s)) = Inr (Some s)"
| "opt_str (Some _) = Inl TypeError"

fun opt_flag :: "json option \<Rightarrow> bool res" where
  "opt_flag None = Inr False"
| "opt_flag (Some (JBool b)) = Inr b"
| "opt_flag (Some _) = Inl TypeError"

definition opt_version :: "semver \<Rightarrow> json option \<Rightarrow> string option res" where
  "opt_version V j = rbind (opt_str j) (\<lambda>v.
     case v of
       None \<Rightarrow> Inr None
     | Some s \<Rightarrow> if s = [] then Inr (Some []) else rbind (version_parse V (JStr s)) (\<lambda>w. Inr (Some w)))"

definition package_from_dict :: "semver \<Rightarrow> string \<Rightarrow> (string \<times> json) list \<Rightarrow> pkg_entry res" where
  "package_from_dict V n d =
     rbind (opt_str (dget d ''repository'')) (\<lambda>r.
     rbind (opt_str (dget d ''description'')) (\<lambda>desc.
     rbind (opt_str (dget d ''default-reference'')) (\<lambda>ref.
     rbind (opt_version V (dget d ''installed-version'')) (\<lambda>v.
     rbind (opt_flag (dget d ''installed'')) (\<lambda>inst.
     rbind (opt_flag (dget d ''built-in'')) (\<lambda>built.
     rbind (opt_str (dget d ''image-id'')) (\<lambda>img.
     rbind (opt_str (dget d ''docker-image-reference'')) (\<lambda>iref.
       Inr \<lparr>pe_name = n, pe_repository = r, pe_description = desc, pe_default_reference = ref, pe_version = v,
            pe_installed = inst, pe_built_in = built, pe_image_id = img, pe_image_ref = iref\<rparr>))))))))"

fun str_json :: "string option \<Rightarrow> json" where
  "str_json None = JNull"
| "str_json (Some s) = JStr s"

definition package_to_dict :: "pkg_entry \<Rightarrow> (string \<times> json) list" where
  "package_to_dict e =
     [(''repository'', str_json (pe_repository e)), (''description'', str_json (pe_description e)),
      (''default-reference'', str_json (pe_default_reference e)), (''installed-version'', str_json (pe_version e)),
      (''installed'', JBool (pe_installed e)), (''built-in'', JBool (pe_built_in e)),
      (''image-id'', str_json (pe_image_id e)), (''docker-image-reference'', str_json (pe_image_ref e))]"

type_synonym pkg_db = "pkg_entry dict"

abbreviation (input) "not_found n \<equiv> Raised ''PackageNotFoundError'' [n]"
abbreviation (input) "manager_error n \<equiv> Raised ''PackageManagerError'' [n]"

definition get_entry :: "pkg_db \<Rightarrow> string \<Rightarrow> pkg_entry res" where
  "get_entry db n = (case dget db n of None \<Rightarrow> Inl (not_found n) | Some e \<Rightarrow> Inr e)"

definition has_package :: "pkg_db \<Rightarrow> string \<Rightarrow> bool" where
  "has_package db n = (case get_entry db n of Inl _ \<Rightarrow> False | Inr _ \<Rightarrow> True)"

definition add_package :: "string \<Rightarrow> string option \<Rightarrow> string option \<Rightarrow> string option \<Rightarrow> pkg_db \<Rightarrow> pkg_db res" where
  "add_package n r d ref db =
     (if has_package db n then Inl (Raised ''PackageAlreadyExistsError'' [n])
      else Inr (dset n (new_entry n r d ref) db))"

definition remove_package :: "string \<Rightarrow> pkg_db \<Rightarrow> pkg_db res" where
  "remove_package n db =
     rbind (get_entry db n) (\<lambda>e.
       if pe_built_in e then Inl (manager_error n)
       else if pe_installed e then Inl (manager_error n)
       else Inr (ddel n db))"

definition update_package :: "pkg_entry \<Rightarrow> pkg_db \<Rightarrow> pkg_db res" where
  "update_package e db =
     (if has_package db (pe_name e) then Inr (dset (pe_name e) e db) else Inl (not_found (pe_name e)))"

definition entries :: "pkg_db \<Rightarrow> pkg_entry list" where
  "entries db = map snd db"

definition db_to_json :: "pkg_db \<Rightarrow> json" where
  "db_to_json db = JObj (map (\<lambda>(n, e). (n, JObj (package_to_dict e))) db)"

definition db_from_json :: "semver \<Rightarrow> json \<Rightarrow> pkg_db res" where
  "db_from_json V j =
     (case j of
        JObj d \<Rightarrow> map_res (\<lambda>(n, i). case i of
            JObj fs \<Rightarrow> rbind (package_from_dict V n fs) (\<lambda>e. Inr (n, e))
          | _ \<Rightarrow> Inl AttributeError) d
      | _ \<Rightarrow> Inl TypeError)"

section \<open>The manifest\<close>

datatype kind = TStr | TBool | TDict

datatype parsed = PVersion | PComponents | PPackage

text \<open>Values of a marshalled manifest: parsed objects, JSON, and the lists and dictionaries the schema builds.\<close>

datatype mval =
    VVersion string
  | VComponents "string dict"
  | VPackage pkg_constraint
  | VJson json
  | VList "mval list"
  | VDict "(string \<times> mval) list"

text \<open>The classes of \<open>ManifestSchema\<close>.\<close>

datatype marshaller =
    Parsed parsed
  | Default kind
  | Listing kind
  | Root string "marshaller list"
  | Field string marshaller "mval option"
  | Array string marshaller

fun node_key :: "marshaller \<Rightarrow> string" where
  "node_key (Root k _) = k"
| "node_key (Field k _ _) = k"
| "node_key (Array k _) = k"
| "node_key _ = []"

fun is_kind :: "kind \<Rightarrow> json \<Rightarrow> bool" where
  "is_kind TStr (JStr _) = True"
| "is_kind TBool (JBool _) = True"
| "is_kind TDict (JObj _) = True"
| "is_kind _ _ = False"

abbreviation (input) "manifest_error k \<equiv> Raised ''ManifestError'' [k]"

definition parse_value :: "semver \<Rightarrow> parsed \<Rightarrow> json \<Rightarrow> mval res" where
  "parse_value V t j =
     (case t of
        PVersion \<Rightarrow> rbind (version_parse V j) (\<lambda>v. Inr (VVersion v))
      | PComponents \<Rightarrow> rbind (components_parse V j) (\<lambda>cs. Inr (VComponents cs))
      | PPackage \<Rightarrow> rbind (package_constraint_parse V j) (\<lambda>c. Inr (VPackage c)))"

definition parsed_marshal :: "semver \<Rightarrow> parsed \<Rightarrow> json \<Rightarrow> mval res" where
  "parsed_marshal V t j =
     (case parse_value V t j of
        Inr v \<Rightarrow> Inr v
      | Inl e \<Rightarrow> Inl (case e of ValueError s \<Rightarrow> manifest_error s | _ \<Rightarrow> e))"

lemma map_res_cong [fundef_cong]:
  "xs = ys \<Longrightarrow> (\<And>x. x \<in> set ys \<Longrightarrow> f x = g x) \<Longrightarrow> map_res f xs = map_res g ys"
  by (induction xs arbitrary: ys) auto

text \<open>\<open>value.get(key)\<close>: a missing key is \<open>None\<close>.\<close>

definition get_or_null :: "(string \<times> json) list \<Rightarrow> string \<Rightarrow> json" where
  "get_or_null d k = (case dget d k of None \<Rightarrow> JNull | Some j \<Rightarrow> j)"

fun marshal :: "semver \<Rightarrow> marshaller \<Rightarrow> json \<Rightarrow> mval res" where
  "marshal V (Parsed t) j = parsed_marshal V t j"
| "marshal V (Default t) j = (if is_kind t j then Inr (VJson j) else Inl (manifest_error []))"
| "marshal V (Listing t) j =
     (case j of
        JList xs \<Rightarrow> if list_all (is_kind t) xs then Inr (VList (map VJson xs)) else Inl (manifest_error [])
      | _ \<Rightarrow> if is_kind t j then Inr (VList [VJson j]) else Inl (manifest_error []))"
| "marshal V (Root k items) j =
     (case (if truthy j then j else JObj []) of
        JObj d \<Rightarrow> rbind (map_res (\<lambda>i. rbind (marshal V i (get_or_null d (node_key i))) (\<lambda>v. Inr (node_key i, v))) items)
                     (\<lambda>r. Inr (VDict r))
      | _ \<Rightarrow> Inl (manifest_error k))"
| "marshal V (Field k t def) j =
     (if j = JNull then (case def of Some v \<Rightarrow> Inr v | None \<Rightarrow> Inl (manifest_error k))
      else case marshal V t j of Inl _ \<Rightarrow> Inl (manifest_error k) | Inr v \<Rightarrow> Inr v)"
| "marshal V (Array k t) j =
     (case (if truthy j then j else JList []) of
        JList xs \<Rightarrow> (case map_res (marshal V t) xs of Inl _ \<Rightarrow> Inl (manifest_error k) | Inr vs \<Rightarrow> Inr (VList vs))
      | _ \<Rightarrow> Inl (manifest_error k))"

text \<open>A value that is written out as it is.\<close>

fun plain_json :: "mval \<Rightarrow> json res" where
  "plain_json (VJson j) = Inr j"
| "plain_json (VList vs) = rbind (map_res plain_json vs) (\<lambda>js. Inr (JList js))"
| "plain_json _ = Inl TypeError"

definition parsed_unmarshal :: "mval \<Rightarrow> json res" where
  "parsed_unmarshal v =
     (case v of
        VVersion s \<Rightarrow> Inr (JStr s)
      | VComponents cs \<Rightarrow> Inr (components_deparse cs)
      | VPackage c \<Rightarrow> Inr (package_constraint_deparse c)
      | _ \<Rightarrow> Inl TypeError)"

fun unmarshal :: "marshaller \<Rightarrow> mval \<Rightarrow> json res" where
  "unmarshal (Parsed t) v = parsed_unmarshal v"
| "unmarshal (Default t) v = plain_json v"
| "unmarshal (Listing t) v = plain_json v"
| "unmarshal (Root k items) v =
     (case v of
        VDict d \<Rightarrow>
          rbind (map_res (\<lambda>i. rbind (case dget d (node_key i) of None \<Rightarrow> Inl (KeyError (node_key i)) | Some x \<Rightarrow> unmarshal i x)
                                  (\<lambda>j. Inr (node_key i, j))) items)
                (\<lambda>r. Inr (JObj r))
      | _ \<Rightarrow> Inl TypeError)"
| "unmarshal (Field k t def) v = unmarshal t v"
| "unmarshal (Array k t) v =
     (case v of
        VList vs \<Rightarrow> rbind (map_res (unmarshal t) vs) (\<lambda>js. Inr (JList js))
      | _ \<Rightarrow> Inl TypeError)"

subsection \<open>The schema\<close>

abbreviation (input) "jstr s \<equiv> VJson (JStr s)"
abbreviation (input) "text_field k def \<equiv> Field k (Default TStr) def"
abbreviation (input) "flag_field k b \<equiv> Field k (Default TBool) (Some (VJson (JBool b)))"
abbreviation (input) "dict_field k \<equiv> Field k (Default TDict) (Some (VJson (JObj [])))"
abbreviation (input) "texts k \<equiv> Array k (Default TStr)"

definition package_schema :: marshaller where
  "package_schema = Root ''package''
     [Field ''version'' (Parsed PVersion) None, text_field ''name'' None, text_field ''description'' (Some (jstr [])),
      Field ''base-os'' (Parsed PComponents) (Some (VComponents [])),
      Array ''depends'' (Parsed PPackage), Array ''breaks'' (Parsed PPackage),
      dict_field ''init-cfg'', dict_field ''changelog'', text_field ''debug-dump'' (Some (jstr []))]"

definition service_schema :: marshaller where
  "service_schema = Root ''service''
     [text_field ''name'' None, texts ''requires'', texts ''requisite'', texts ''wanted-by'', texts ''after'',
      texts ''before'', texts ''dependent'', texts ''dependent-of'',
      text_field ''post-start-action'' (Some (jstr [])), text_field ''pre-shutdown-action'' (Some (jstr [])),
      flag_field ''asic-service'' False, flag_field ''host-service'' True, flag_field ''delayed'' False,
      flag_field ''check_up_status'' False, text_field ''type'' (Some (jstr [])), text_field ''stop-time'' (Some (jstr [])),
      Root ''warm-shutdown'' [texts ''after'', texts ''before''],
      Root ''fast-shutdown'' [texts ''after'', texts ''before''],
      Root ''syslog'' [flag_field ''support-rate-limit'' False]]"

definition container_schema :: marshaller where
  "container_schema = Root ''container''
     [flag_field ''privileged'' False, texts ''cap-add'', texts ''security-opt'', texts ''ulimits'', texts ''devices'',
      texts ''volumes'',
      Array ''mounts'' (Root ''mounts'' [text_field ''source'' None, text_field ''target'' None, text_field ''type'' None]),
      dict_field ''environment'', texts ''tmpfs'']"

definition processes_schema :: marshaller where
  "processes_schema = Array ''processes'' (Root ''processes'' [text_field ''name'' None, flag_field ''reconciles'' False])"

definition cli_schema :: marshaller where
  "cli_schema = Root ''cli''
     [flag_field ''mandatory'' False,
      Field ''show'' (Listing TStr) (Some (VList [])), Field ''config'' (Listing TStr) (Some (VList [])),
      Field ''clear'' (Listing TStr) (Some (VList [])),
      flag_field ''auto-generate-show'' False, flag_field ''auto-generate-config'' False,
      texts ''auto-generate-show-source-yang-modules'', texts ''auto-generate-config-source-yang-modules'']"

definition manifest_schema :: marshaller where
  "manifest_schema = Root ''root''
     [Field ''version'' (Parsed PVersion) (Some (VVersion ''1.0.0'')),
      package_schema, service_schema, container_schema, processes_schema, cli_schema]"

definition manifest_marshal :: "semver \<Rightarrow> json \<Rightarrow> mval res" where
  "manifest_marshal V j = marshal V manifest_schema j"

definition manifest_unmarshal :: "mval \<Rightarrow> json res" where
  "manifest_unmarshal m = unmarshal manifest_schema m"

subsection \<open>Reading a manifest\<close>

text \<open>\<open>manifest[section][key]\<close>, by the type the schema gives it.\<close>

fun mget :: "mval \<Rightarrow> string list \<Rightarrow> mval option" where
  "mget v [] = Some v"
| "mget (VDict d) (k # ks) = (case dget d k of None \<Rightarrow> None | Some v \<Rightarrow> mget v ks)"
| "mget _ (k # ks) = None"

definition m_text :: "mval \<Rightarrow> string list \<Rightarrow> string" where
  "m_text m ks = (case mget m ks of Some (VJson (JStr s)) \<Rightarrow> s | _ \<Rightarrow> [])"

definition m_flag :: "mval \<Rightarrow> string list \<Rightarrow> bool" where
  "m_flag m ks = (case mget m ks of Some (VJson (JBool b)) \<Rightarrow> b | _ \<Rightarrow> False)"

definition m_dict :: "mval \<Rightarrow> string list \<Rightarrow> (string \<times> json) list" where
  "m_dict m ks = (case mget m ks of Some (VJson (JObj d)) \<Rightarrow> d | _ \<Rightarrow> [])"

definition m_items :: "mval \<Rightarrow> string list \<Rightarrow> mval list" where
  "m_items m ks = (case mget m ks of Some (VList vs) \<Rightarrow> vs | _ \<Rightarrow> [])"

definition m_texts :: "mval \<Rightarrow> string list \<Rightarrow> string list" where
  "m_texts m ks = map (\<lambda>v. m_text v []) (m_items m ks)"

definition m_version :: "mval \<Rightarrow> string" where
  "m_version m = (case mget m [''package'', ''version''] of Some (VVersion v) \<Rightarrow> v | _ \<Rightarrow> [])"

definition m_base_os :: "mval \<Rightarrow> string dict" where
  "m_base_os m = (case mget m [''package'', ''base-os''] of Some (VComponents cs) \<Rightarrow> cs | _ \<Rightarrow> [])"

definition m_constraints :: "mval \<Rightarrow> string list \<Rightarrow> pkg_constraint list" where
  "m_constraints m ks = concat (map (\<lambda>v. case v of VPackage c \<Rightarrow> [c] | _ \<Rightarrow> []) (m_items m ks))"

definition m_service :: "mval \<Rightarrow> string" where
  "m_service m = m_text m [''service'', ''name'']"

section \<open>Metadata\<close>

fun pkg_deep_update :: "json \<Rightarrow> (string \<times> json) list \<Rightarrow> json res" where
  "pkg_deep_update dst [] = Inr dst"
| "pkg_deep_update dst ((k, v) # src) =
     (case dst of
        JObj d \<Rightarrow>
          (case v of
             JObj sv \<Rightarrow>
               rbind (pkg_deep_update (case dget d k of None \<Rightarrow> JObj [] | Some n \<Rightarrow> n) sv) (\<lambda>n.
                 pkg_deep_update (JObj (dset k n d)) src)
           | _ \<Rightarrow> pkg_deep_update (JObj (dset k v d)) src)
      | _ \<Rightarrow> Inl (if is_obj v then AttributeError else TypeError))"

text \<open>\<open>translate_plain_to_tree({key: value})\<close>, then over the whole dictionary.\<close>

function tree_of :: "string \<Rightarrow> json \<Rightarrow> (string \<times> json) list res" where
  "tree_of key v =
     (if CHR ''.'' \<notin> set key then Inr [(key, v)]
      else
        rbind (tree_of (tl (dropWhile (\<lambda>c. c \<noteq> CHR ''.'') key)) v) (\<lambda>t.
        rbind (pkg_deep_update (JObj []) t) (\<lambda>n.
          Inr [(takeWhile (\<lambda>c. c \<noteq> CHR ''.'') key, n)])))"
  by pat_completeness auto
termination
proof (relation "measure (\<lambda>(key, v). length key)")
  fix key :: string and v :: json
  assume "\<not> CHR ''.'' \<notin> set key"
  then have "dropWhile (\<lambda>c. c \<noteq> CHR ''.'') key \<noteq> []" by (auto simp: dropWhile_eq_Nil_conv)
  moreover have "length (dropWhile (\<lambda>c. c \<noteq> CHR ''.'') key) \<le> length key" by (rule length_dropWhile_le)
  ultimately show "((tl (dropWhile (\<lambda>c. c \<noteq> CHR ''.'') key), v), key, v) \<in> measure (\<lambda>(key, v). length key)"
    by (cases "dropWhile (\<lambda>c. c \<noteq> CHR ''.'') key") auto
qed simp

declare tree_of.simps [simp del]

fun translate_plain_to_tree :: "(string \<times> json) list \<Rightarrow> (string \<times> json) list \<Rightarrow> (string \<times> json) list res" where
  "translate_plain_to_tree [] acc = Inr acc"
| "translate_plain_to_tree ((key, v) # plain) acc =
     (if CHR ''.'' \<notin> set key then translate_plain_to_tree plain (dset key v acc)
      else
        let ns = takeWhile (\<lambda>c. c \<noteq> CHR ''.'') key in
        rbind (tree_of (tl (dropWhile (\<lambda>c. c \<noteq> CHR ''.'') key)) v) (\<lambda>t.
        rbind (pkg_deep_update (case dget acc ns of None \<Rightarrow> JObj [] | Some n \<Rightarrow> n) t) (\<lambda>n.
          translate_plain_to_tree plain (dset ns n acc))))"

record metadata =
  md_manifest :: mval
  md_components :: "string dict"
  md_yang :: "json list"

definition metadata_error :: "string \<Rightarrow> 'a res" where
  "metadata_error msg = Inl (Raised ''MetadataError'' [msg])"

text \<open>\<open>j[k]\<close> of a document; a \<open>KeyError\<close> becomes a \<open>MetadataError\<close>.\<close>

definition label_item :: "string \<Rightarrow> json \<Rightarrow> string \<Rightarrow> json res" where
  "label_item msg j k =
     (case j of
        JObj d \<Rightarrow> (case dget d k of Some v \<Rightarrow> Inr v | None \<Rightarrow> metadata_error msg)
      | _ \<Rightarrow> Inl TypeError)"

definition label_version :: "semver \<Rightarrow> string \<times> json \<Rightarrow> (string \<times> string) res" where
  "label_version V p =
     (case version_parse V (snd p) of
        Inr v \<Rightarrow> Inr (fst p, v)
      | Inl (ValueError s) \<Rightarrow> metadata_error ''Failed to parse component version''
      | Inl e \<Rightarrow> Inl e)"

text \<open>\<open>json.loads\<close> is a parameter; \<open>None\<close> stands for its \<open>ValueError\<close>.\<close>

definition from_labels :: "semver \<Rightarrow> (string \<Rightarrow> json option) \<Rightarrow> (string \<times> json) list \<Rightarrow> metadata res" where
  "from_labels V loads labels =
     rbind (translate_plain_to_tree labels []) (\<lambda>tree.
     rbind (label_item ''No metadata found in image labels'' (JObj tree) ''com'') (\<lambda>com.
     rbind (label_item ''No metadata found in image labels'' com ''azure'') (\<lambda>azure.
     rbind (label_item ''No metadata found in image labels'' azure ''sonic'') (\<lambda>sonic.
     rbind (label_item ''No manifest found in image labels'' sonic ''manifest'') (\<lambda>text.
     rbind (case text of
              JStr s \<Rightarrow> (case loads s of Some j \<Rightarrow> Inr j | None \<Rightarrow> metadata_error ''Failed to parse manifest JSON'')
            | _ \<Rightarrow> metadata_error ''Failed to parse manifest JSON'') (\<lambda>j.
     rbind (case sonic of
              JObj d \<Rightarrow> (case dget d ''versions'' of
                  None \<Rightarrow> Inr []
                | Some (JObj vs) \<Rightarrow> map_res (label_version V) vs
                | Some _ \<Rightarrow> Inl AttributeError)
            | _ \<Rightarrow> Inl AttributeError) (\<lambda>comps.
     rbind (manifest_marshal V j) (\<lambda>m.
       Inr \<lparr>md_manifest = m, md_components = comps,
            md_yang = (case sonic of
                JObj d \<Rightarrow> (case dget d ''yang-module'' of
                    Some (JStr s) \<Rightarrow> [JStr s] | Some (JObj ys) \<Rightarrow> map snd ys | _ \<Rightarrow> [])
              | _ \<Rightarrow> [])\<rparr>))))))))"

section \<open>Packages and their checks\<close>

record package =
  p_entry :: pkg_entry
  p_metadata :: metadata

abbreviation (input) "p_manifest p \<equiv> md_manifest (p_metadata p)"
abbreviation (input) "p_components p \<equiv> md_components (p_metadata p)"
abbreviation (input) "p_name p \<equiv> pe_name (p_entry p)"

text \<open>\<open>None\<close> in the exceptions' version is the empty list of the last component.\<close>

definition requirement_error :: "string \<Rightarrow> string list \<Rightarrow> 'a res" where
  "requirement_error cls args = Inl (Raised cls args)"

fun check_base_os :: "semver \<Rightarrow> string \<Rightarrow> string dict \<Rightarrow> string dict \<Rightarrow> unit res" where
  "check_base_os V n info [] = Inr ()"
| "check_base_os V n info ((c, spec) # cs) =
     (case dget info c of
        None \<Rightarrow> requirement_error ''PackageSonicRequirementError'' [n, c, spec]
      | Some text \<Rightarrow>
          rbind (version_parse V (JStr text)) (\<lambda>v.
          rbind (allows V spec (Some v)) (\<lambda>ok.
            if ok then check_base_os V n info cs
            else requirement_error ''PackageSonicRequirementError'' [n, c, spec, v])))"

definition validate_package_base_os_constraints :: "semver \<Rightarrow> package \<Rightarrow> string dict \<Rightarrow> unit res" where
  "validate_package_base_os_constraints V p info = check_base_os V (p_name p) info (m_base_os (p_manifest p))"

text \<open>\<open>packages.get(name)\<close> for a name that is any JSON value; lists and dictionaries are no keys.\<close>

definition find_package :: "package dict \<Rightarrow> json \<Rightarrow> package option res" where
  "find_package ps n =
     (case n of
        JStr s \<Rightarrow> Inr (dget ps s)
      | JList _ \<Rightarrow> Inl TypeError
      | JObj _ \<Rightarrow> Inl TypeError
      | _ \<Rightarrow> Inr None)"

definition shown :: "json \<Rightarrow> string" where
  "shown j = (case j of JStr s \<Rightarrow> s | _ \<Rightarrow> [])"

text \<open>The implicit constraints a dependency without components gets from the components of the package itself.\<close>

definition implicit_components :: "semver \<Rightarrow> package \<Rightarrow> string dict res" where
  "implicit_components V p =
     map_res (\<lambda>(c, v). rbind (constraint_parse V (JStr (''^'' @ str_int (int (sv_major V v)) @ ''.'' @ str_int (int (sv_minor V v)) @ ''.0'')))
                         (\<lambda>s. Inr (c, s))) (p_components p)"

fun check_components :: "semver \<Rightarrow> string \<Rightarrow> json \<Rightarrow> string dict \<Rightarrow> string dict \<Rightarrow> unit res" where
  "check_components V n dep have [] = Inr ()"
| "check_components V n dep have ((c, spec) # cs) =
     (case dget have c of
        None \<Rightarrow> requirement_error ''PackageComponentDependencyError'' [n, shown dep, c, spec]
      | Some v \<Rightarrow> rbind (allows V spec (Some v)) (\<lambda>ok.
          if ok then check_components V n dep have cs
          else requirement_error ''PackageComponentDependencyError'' [n, shown dep, c, spec, v]))"

definition check_dependency :: "semver \<Rightarrow> package dict \<Rightarrow> package \<Rightarrow> pkg_constraint \<Rightarrow> unit res" where
  "check_dependency V ps p dep =
     rbind (find_package ps (pc_name dep)) (\<lambda>found.
       case found of
         None \<Rightarrow> requirement_error ''PackageDependencyError'' [p_name p, shown (pc_name dep), pc_constraint dep]
       | Some q \<Rightarrow>
           rbind (allows V (pc_constraint dep) (pe_version (p_entry q))) (\<lambda>ok.
             if \<not> ok then requirement_error ''PackageDependencyError'' [p_name p, shown (pc_name dep), pc_constraint dep, the (pe_version (p_entry q))]
             else
               rbind (if pc_components dep = [] then implicit_components V p else Inr (pc_components dep)) (\<lambda>cs.
                 check_components V (p_name p) (pc_name dep) (p_components q) cs)))"

text \<open>
  The loop over the components of a conflicting package: it takes them from the package, so that what it
  calls the constraint is a version, which has no \<open>allows\<close>.
\<close>

definition check_conflict :: "semver \<Rightarrow> package dict \<Rightarrow> package \<Rightarrow> pkg_constraint \<Rightarrow> unit res" where
  "check_conflict V ps p con =
     rbind (find_package ps (pc_name con)) (\<lambda>found.
       case found of
         None \<Rightarrow> Inr ()
       | Some q \<Rightarrow>
           rbind (allows V (pc_constraint con) (pe_version (p_entry q))) (\<lambda>hit.
             if hit then requirement_error ''PackageConflictError'' [p_name p, shown (pc_name con), pc_constraint con, the (pe_version (p_entry q))]
             else if p_components q = [] then Inr ()
             else Inl AttributeError))"

definition check_package :: "semver \<Rightarrow> package dict \<Rightarrow> package \<Rightarrow> unit res" where
  "check_package V ps p =
     rbind (fold_res (\<lambda>dep _. check_dependency V ps p dep) (m_constraints (p_manifest p) [''package'', ''depends'']) ()) (\<lambda>_.
       fold_res (\<lambda>con _. check_conflict V ps p con) (m_constraints (p_manifest p) [''package'', ''breaks'']) ())"

definition validate_package_tree :: "semver \<Rightarrow> package dict \<Rightarrow> unit res" where
  "validate_package_tree V ps = fold_res (\<lambda>(n, p) _. check_package V ps p) ps ()"

definition validate_package_cli_can_be_skipped :: "package \<Rightarrow> bool \<Rightarrow> unit res" where
  "validate_package_cli_can_be_skipped p skip =
     (if m_flag (p_manifest p) [''cli'', ''mandatory''] \<and> skip
      then Inl (manager_error (''CLI is mandatory for package '' @ p_name p)) else Inr ())"

end
