(* ===== verification/PkgService.thy ===== *)
theory PkgService
  imports PkgData
begin

text \<open>
  The service creator of the package manager, sonic_package_manager/service_creator: the connectors of
  the configuration databases, the registry of features, and the files, scripts, modules and
  configuration of the service a package provides.

  Docker, systemd, jinja2, the YANG library, the generator of command line plugins and toposort are
  parameters; they act on a part of the state of their own.  Writing, removing and renaming files and
  writing the database of packages cannot fail: a full or read-only disk is outside the model.
\<close>

section \<open>Connectors\<close>

text \<open>The operations the code calls of a connector of \<open>swsscommon\<close> or of \<open>PersistentConfigDbConnector\<close>.\<close>

type_synonym fields = "(string \<times> json) list"
type_synonym config = "fields dict dict"

text \<open>\<open>{**a, **b}\<close>, as the fields it has; the order in which \<open>b\<close> adds fields is not kept.\<close>

definition merged :: "fields \<Rightarrow> fields \<Rightarrow> fields" where
  "merged a b = dupdate a (rev b)"

lemma dget_merged [simp]: "dget (merged a b) f = (case dget b f of None \<Rightarrow> dget a f | Some v \<Rightarrow> Some v)"
  by (simp add: merged_def dget_dupdate)

record 'c conn =
  cn_entry :: "string \<Rightarrow> string \<Rightarrow> 'c \<Rightarrow> fields"
  cn_keys :: "string \<Rightarrow> 'c \<Rightarrow> string list"
  cn_set :: "string \<Rightarrow> string \<Rightarrow> fields option \<Rightarrow> 'c \<Rightarrow> 'c"
  cn_mod :: "string \<Rightarrow> string \<Rightarrow> fields \<Rightarrow> 'c \<Rightarrow> 'c"
  cn_config :: "'c \<Rightarrow> config"

definition cfield :: "'c conn \<Rightarrow> string \<Rightarrow> string \<Rightarrow> string \<Rightarrow> 'c \<Rightarrow> json option" where
  "cfield C t k f c = dget (cn_entry C t k c) f"

text \<open>
  The contract: tables are named in upper case, an entry is replaced, removed or updated by field, and
  values come back as \<open>norm\<close> has them, strings unchanged.
\<close>

locale config_store =
  fixes C :: "'c conn" and norm :: "json \<Rightarrow> json"
  assumes set_entry: "cfield C t k f (cn_set C t' k' (Some fv) c) =
      (if upper t = upper t' \<and> k = k' then map_option norm (dget fv f) else cfield C t k f c)"
    and unset_entry: "cfield C t k f (cn_set C t' k' None c) =
      (if upper t = upper t' \<and> k = k' then None else cfield C t k f c)"
    and mod_entry: "cfield C t k f (cn_mod C t' k' fv c) =
      (if upper t = upper t' \<and> k = k' then (case dget fv f of Some v \<Rightarrow> Some (norm v) | None \<Rightarrow> cfield C t k f c)
       else cfield C t k f c)"
    and config_field: "cfield C t k f c = (case dget (cn_config C c) (upper t) of None \<Rightarrow> None
      | Some tbl \<Rightarrow> (case dget tbl k of None \<Rightarrow> None | Some e \<Rightarrow> dget e f))"
    and norm_text: "norm (JStr s) = JStr s"
    and norm_stored: "cfield C t k f c = Some v \<Longrightarrow> norm v = v"

subsection \<open>The file init_cfg.json\<close>

text \<open>The file is its content after \<open>to_deserialized\<close>; a key is its text.\<close>

definition pers_table :: "string \<Rightarrow> config \<Rightarrow> fields dict" where
  "pers_table t cfg = (case dget cfg (upper t) of None \<Rightarrow> [] | Some tbl \<Rightarrow> tbl)"

definition pers_get_entry :: "string \<Rightarrow> string \<Rightarrow> config \<Rightarrow> fields" where
  "pers_get_entry t k cfg = (case dget (pers_table t cfg) k of None \<Rightarrow> [] | Some e \<Rightarrow> e)"

definition pers_del_table :: "string \<Rightarrow> config \<Rightarrow> config" where
  "pers_del_table t cfg = ddel t cfg"

definition pers_del_key :: "string \<Rightarrow> string \<Rightarrow> config \<Rightarrow> config" where
  "pers_del_key t k cfg =
     (case dget cfg t of
        None \<Rightarrow> cfg
      | Some tbl \<Rightarrow> (let cfg' = dset t (ddel k tbl) cfg in if ddel k tbl = [] then pers_del_table t cfg' else cfg'))"

definition pers_set_entry :: "string \<Rightarrow> string \<Rightarrow> fields option \<Rightarrow> config \<Rightarrow> config" where
  "pers_set_entry t k data cfg =
     (case data of
        None \<Rightarrow> pers_del_key (upper t) k cfg
      | Some fv \<Rightarrow> dset (upper t) (dset k fv (pers_table t cfg)) cfg)"

definition pers_mod_entry :: "string \<Rightarrow> string \<Rightarrow> fields option \<Rightarrow> config \<Rightarrow> config" where
  "pers_mod_entry t k data cfg =
     (case data of
        None \<Rightarrow> pers_del_key (upper t) k cfg
      | Some fv \<Rightarrow> dset (upper t) (dset k (merged (pers_get_entry t k cfg) fv) (pers_table t cfg)) cfg)"

text \<open>
  \<open>mod_config\<close> takes a table that is \<open>None\<close> out of its own argument, which it is iterating over: the next
  step of the loop raises.
\<close>

fun pers_mod_config :: "(string \<times> (string \<times> fields option) list option) list \<Rightarrow> config cmd" where
  "pers_mod_config [] = finish"
| "pers_mod_config ((t, None) # ts) = raise (RuntimeError ''dictionary changed size during iteration'')"
| "pers_mod_config ((t, Some ks) # ts) =
     seq [each ks (\<lambda>(k, data). put (pers_mod_entry t k data)), pers_mod_config ts]"

definition pers :: "config conn" where
  "pers = \<lparr>cn_entry = pers_get_entry, cn_keys = (\<lambda>t cfg. dkeys (pers_table t cfg)), cn_set = pers_set_entry,
           cn_mod = (\<lambda>t k fv. pers_mod_entry t k (Some fv)), cn_config = (\<lambda>cfg. cfg)\<rparr>"

section \<open>The state\<close>

text \<open>
  The database of packages with the file it was loaded from, the files by path and those with the
  executable bit, init_cfg.json, the running databases (that of the host first, none when there is no
  connection) and the state of everything that is a parameter.
\<close>

record ('c, 'x) world =
  w_db :: pkg_db
  w_files :: "string dict"
  w_exec :: "string list"
  w_init :: config
  w_run :: "'c list"
  w_ext :: 'x

record docker_image =
  im_id :: string
  im_tags :: "string list"
  im_repotags :: "string list"

record ('c, 'x) env =
  e_ver :: semver
  e_conn :: "'c conn"
  e_loads :: "string \<Rightarrow> json option"
  e_dumps :: "json \<Rightarrow> string"
  e_repr :: "json \<Rightarrow> string"
  e_render :: "string \<Rightarrow> fields \<Rightarrow> string res"
  e_order :: "string list \<Rightarrow> string list"
  e_toposort :: "(string \<times> string list) list \<Rightarrow> string list option"
  e_chroot :: bool
  e_platform :: json
  e_multi_npu :: bool
  e_num_npus :: nat
  e_version_info :: "string dict"
  e_exec :: "string list \<Rightarrow> 'x \<Rightarrow> bool \<times> 'x"
  e_unit_state :: "string \<Rightarrow> 'x \<Rightarrow> string option"
  e_module_name :: "json \<Rightarrow> string res"
  e_yang_tables :: "'x \<Rightarrow> (string \<times> string) list"
  e_add_module :: "json \<Rightarrow> 'x cmd"
  e_remove_module :: "string \<Rightarrow> 'x cmd"
  e_load_data :: "json \<Rightarrow> 'x cmd"
  e_gen_cli :: "string \<Rightarrow> string \<Rightarrow> 'x cmd"
  e_remove_cli :: "string \<Rightarrow> string \<Rightarrow> 'x cmd"
  e_wait_state :: "string \<Rightarrow> string \<Rightarrow> 'x cmd"
  e_docker_ref :: "string \<Rightarrow> (string \<times> string option \<times> string option) option"
  e_save :: "string option \<Rightarrow> 'x \<Rightarrow> string res \<times> 'x"
  e_download :: "string \<Rightarrow> 'x \<Rightarrow> string option \<times> 'x"
  e_pull :: "string \<Rightarrow> string \<Rightarrow> 'x \<Rightarrow> docker_image res \<times> 'x"
  e_load :: "string \<Rightarrow> 'x \<Rightarrow> docker_image res \<times> 'x"
  e_rmi :: "string option \<Rightarrow> bool \<Rightarrow> 'x cmd"
  e_rm_by_ancestor :: "string option \<Rightarrow> 'x cmd"
  e_extract :: "string option \<Rightarrow> string \<Rightarrow> 'x \<Rightarrow> string res \<times> 'x"
  e_labels :: "string option \<Rightarrow> 'x \<Rightarrow> fields option res"
  e_plugin_dir :: "string \<Rightarrow> string option"
  e_registry_labels :: "string \<Rightarrow> string \<Rightarrow> 'x \<Rightarrow> fields option res"
  e_tarball_labels :: "string \<Rightarrow> 'x \<Rightarrow> fields option res"

definition act_bind :: "('s \<Rightarrow> 'a res \<times> 's) \<Rightarrow> ('a \<Rightarrow> 's \<Rightarrow> 'b res \<times> 's) \<Rightarrow> 's \<Rightarrow> 'b res \<times> 's" where
  "act_bind m f s = (case m s of (Inl e, s') \<Rightarrow> (Inl e, s') | (Inr x, s') \<Rightarrow> f x s')"

definition act_ret :: "'a \<Rightarrow> 's \<Rightarrow> 'a res \<times> 's" where
  "act_ret x s = (Inr x, s)"

definition act_res :: "'a res \<Rightarrow> 's \<Rightarrow> 'a res \<times> 's" where
  "act_res r s = (r, s)"

text \<open>A step of the parameters.\<close>

definition ext :: "('x \<Rightarrow> 'a res \<times> 'x) \<Rightarrow> ('c, 'x) world \<Rightarrow> 'a res \<times> ('c, 'x) world" where
  "ext m w = (case m (w_ext w) of (r, x) \<Rightarrow> (r, w\<lparr>w_ext := x\<rparr>))"

section \<open>Files\<close>

definition path_join :: "string \<Rightarrow> string \<Rightarrow> string" where
  "path_join a b = (if startswith b ''/'' then b else if a = [] \<or> endswith a ''/'' then a @ b else a @ ''/'' @ b)"

definition read_file :: "string \<Rightarrow> ('c, 'x) world \<Rightarrow> string res" where
  "read_file p w = (case dget (w_files w) p of None \<Rightarrow> Inl (Raised ''FileNotFoundError'' [p]) | Some s \<Rightarrow> Inr s)"

definition write_file :: "string \<Rightarrow> string \<Rightarrow> ('c, 'x) world cmd" where
  "write_file p s = put (\<lambda>w. w\<lparr>w_files := dset p s (w_files w)\<rparr>)"

text \<open>\<open>remove_file\<close> and \<open>remove_dir\<close> pass over what is not there; a directory is the files below it.\<close>

definition remove_file :: "string \<Rightarrow> ('c, 'x) world cmd" where
  "remove_file p = put (\<lambda>w. w\<lparr>w_files := ddel p (w_files w), w_exec := filter (\<lambda>q. q \<noteq> p) (w_exec w)\<rparr>)"

definition remove_dir :: "string \<Rightarrow> ('c, 'x) world cmd" where
  "remove_dir p = put (\<lambda>w. w\<lparr>w_files := filter (\<lambda>(q, _). \<not> startswith q (p @ ''/'')) (w_files w)\<rparr>)"

text \<open>\<open>glob(pre + '*' + suf)\<close> for the files, and for the directories above files.\<close>

definition glob_match :: "string \<Rightarrow> string \<Rightarrow> string \<Rightarrow> bool" where
  "glob_match pre suf p \<longleftrightarrow>
     length pre + length suf \<le> length p \<and> startswith p pre \<and> endswith p suf \<and>
     CHR ''/'' \<notin> set (take (length p - length pre - length suf) (drop (length pre) p))"

definition glob_files :: "string \<Rightarrow> string \<Rightarrow> ('c, 'x) world \<Rightarrow> string list" where
  "glob_files pre suf w = filter (glob_match pre suf) (dkeys (w_files w))"

text \<open>The first directory below that of the pattern, of a path that goes on below it.\<close>

definition dir_below :: "string \<Rightarrow> string \<Rightarrow> string" where
  "dir_below pre p = pre @ takeWhile (\<lambda>c. c \<noteq> CHR ''/'') (drop (length pre) p)"

definition glob_dirs :: "string \<Rightarrow> string \<Rightarrow> ('c, 'x) world \<Rightarrow> string list" where
  "glob_dirs pre suf w =
     dedup (filter (glob_match pre suf)
       (map (dir_below pre) (filter (\<lambda>p. startswith p pre \<and> CHR ''/'' \<in> set (drop (length pre) p)) (dkeys (w_files w)))))"

text \<open>\<open>open(outfile, 'w')\<close> empties the file before the template is rendered.\<close>

definition render_template :: "('c, 'x) env \<Rightarrow> string \<Rightarrow> string \<Rightarrow> fields \<Rightarrow> bool \<Rightarrow> ('c, 'x) world cmd" where
  "render_template E tmpl out ctx executable =
     attempt (read_file tmpl) (\<lambda>text. seq
       [write_file out [],
        attempt (\<lambda>_. e_render E text ctx) (\<lambda>s. write_file out s),
        if executable then put (\<lambda>w. w\<lparr>w_exec := List.insert out (w_exec w)\<rparr>) else finish])"

definition run_command :: "('c, 'x) env \<Rightarrow> string list \<Rightarrow> ('c, 'x) world cmd" where
  "run_command E args = ext (\<lambda>x. case e_exec E args x of (ok, x') \<Rightarrow>
     (if ok then Inr () else Inl (Raised ''ServiceCreatorError'' args), x'))"

definition post_operation_hook :: "('c, 'x) env \<Rightarrow> ('c, 'x) world cmd" where
  "post_operation_hook E = (if e_chroot E then finish else run_command E [''systemctl'', ''daemon-reload''])"

section \<open>The registry of features\<close>

definition default_feature_config :: fields where
  "default_feature_config =
     [(''state'', JStr ''disabled''), (''auto_restart'', JStr ''enabled''), (''high_mem_alert'', JStr ''disabled''),
      (''set_owner'', JStr ''local'')]"

definition default_auto_ts_config :: fields where
  "default_auto_ts_config =
     [(''state'', JStr ''disabled''), (''rate_limit_interval'', JStr ''600''), (''available_mem_threshold'', JStr ''10.0'')]"

definition default_syslog_config :: fields where
  "default_syslog_config = [(''rate_limit_interval'', JStr ''300''), (''rate_limit_burst'', JStr ''20000'')]"

definition default_feature_entries :: "string \<Rightarrow> string \<Rightarrow> fields" where
  "default_feature_entries state owner =
     (let cfg = default_feature_config;
          cfg = (if state \<noteq> [] then dset ''state'' (JStr state) cfg else cfg) in
      if owner \<noteq> [] then dset ''set_owner'' (JStr owner) cfg else cfg)"

definition str_bool :: "bool \<Rightarrow> json" where
  "str_bool b = JStr (if b then ''True'' else ''False'')"

definition non_configurable_entries :: "mval \<Rightarrow> fields" where
  "non_configurable_entries m =
     [(''has_per_asic_scope'', str_bool (m_flag m [''service'', ''asic-service''])),
      (''has_global_scope'', str_bool (m_flag m [''service'', ''host-service''])),
      (''delayed'', str_bool (m_flag m [''service'', ''delayed''])),
      (''check_up_status'', str_bool (m_flag m [''service'', ''check_up_status''])),
      (''support_syslog_rate_limit'', str_bool (m_flag m [''service'', ''syslog'', ''support-rate-limit'']))]"

text \<open>\<open>for conn in connectors\<close>: one step on the file, one on each running database.\<close>

definition on_all :: "(config \<Rightarrow> config) \<Rightarrow> ('c \<Rightarrow> 'c) \<Rightarrow> ('c, 'x) world \<Rightarrow> ('c, 'x) world" where
  "on_all f g w = w\<lparr>w_init := f (w_init w), w_run := map g (w_run w)\<rparr>"

definition register_on :: "'c conn \<Rightarrow> string \<Rightarrow> fields \<Rightarrow> fields \<Rightarrow> 'c \<Rightarrow> 'c" where
  "register_on C n cfg fixed c =
     cn_set C ''FEATURE'' n (Some (merged (merged cfg (cn_entry C ''FEATURE'' n c)) fixed)) c"

definition update_on :: "'c conn \<Rightarrow> string \<Rightarrow> string \<Rightarrow> fields \<Rightarrow> 'c \<Rightarrow> 'c" where
  "update_on C old new fixed c =
     cn_set C ''FEATURE'' new (Some (merged (cn_entry C ''FEATURE'' old c) fixed)) (cn_set C ''FEATURE'' old None c)"

text \<open>The steps of \<open>register_auto_ts\<close> and \<open>register_syslog_config\<close> on a table with its defaults.\<close>

definition move_entry :: "'c conn \<Rightarrow> string \<Rightarrow> fields \<Rightarrow> string \<Rightarrow> string option \<Rightarrow> 'c \<Rightarrow> 'c" where
  "move_entry C t def new old c =
     (case old of
        None \<Rightarrow> cn_set C t new (Some def) c
      | Some o' \<Rightarrow> if o' = [] then cn_set C t new (Some def) c
                  else cn_set C t new (Some (merged def (cn_entry C t o' c))) (cn_set C t o' None c))"

text \<open>The state of \<open>AUTO_TECHSUPPORT|GLOBAL\<close> in init_cfg.json, when there is one.\<close>

definition infer_auto_ts :: "config \<Rightarrow> json option" where
  "infer_auto_ts cfg =
     (case dget (pers_get_entry ''AUTO_TECHSUPPORT'' ''GLOBAL'' cfg) ''state'' of
        None \<Rightarrow> None
      | Some s \<Rightarrow> if truthy s then Some s else None)"

definition register_auto_ts :: "('c, 'x) env \<Rightarrow> string \<Rightarrow> string option \<Rightarrow> ('c, 'x) world \<Rightarrow> ('c, 'x) world" where
  "register_auto_ts E new old w =
     (case infer_auto_ts (w_init w) of
        None \<Rightarrow> w
      | Some s \<Rightarrow>
          let def = dset ''state'' s default_auto_ts_config in
          on_all (move_entry pers ''AUTO_TECHSUPPORT_FEATURE'' def new old)
                 (move_entry (e_conn E) ''AUTO_TECHSUPPORT_FEATURE'' def new old) w)"

definition register_syslog_config :: "('c, 'x) env \<Rightarrow> string \<Rightarrow> string option \<Rightarrow> ('c, 'x) world \<Rightarrow> ('c, 'x) world" where
  "register_syslog_config E new old =
     on_all (move_entry pers ''SYSLOG_CONFIG_FEATURE'' default_syslog_config new old)
            (move_entry (e_conn E) ''SYSLOG_CONFIG_FEATURE'' default_syslog_config new old)"

definition rate_limited :: "mval \<Rightarrow> bool" where
  "rate_limited m = m_flag m [''service'', ''syslog'', ''support-rate-limit'']"

definition feature_register :: "('c, 'x) env \<Rightarrow> mval \<Rightarrow> string \<Rightarrow> string \<Rightarrow> ('c, 'x) world cmd" where
  "feature_register E m state owner =
     (let n = m_service m; cfg = default_feature_entries state owner; fixed = non_configurable_entries m in
      seq [put (on_all (register_on pers n cfg fixed) (register_on (e_conn E) n cfg fixed)),
           put (register_auto_ts E n None),
           if rate_limited m then put (register_syslog_config E n None) else finish])"

definition deregister_on :: "'c conn \<Rightarrow> string \<Rightarrow> 'c \<Rightarrow> 'c" where
  "deregister_on C n c =
     cn_set C ''SYSLOG_CONFIG_FEATURE'' n None (cn_set C ''AUTO_TECHSUPPORT_FEATURE'' n None (cn_set C ''FEATURE'' n None c))"

definition feature_deregister :: "('c, 'x) env \<Rightarrow> string \<Rightarrow> ('c, 'x) world cmd" where
  "feature_deregister E n = put (on_all (deregister_on pers n) (deregister_on (e_conn E) n))"

definition feature_update :: "('c, 'x) env \<Rightarrow> mval \<Rightarrow> mval \<Rightarrow> ('c, 'x) world cmd" where
  "feature_update E old new =
     (let o' = m_service old; n = m_service new; fixed = non_configurable_entries new in
      seq [put (on_all (update_on pers o' n fixed) (update_on (e_conn E) o' n fixed)),
           put (register_auto_ts E n (Some o')),
           if rate_limited new then put (register_syslog_config E n (Some o')) else finish])"

definition lower_text :: "json \<Rightarrow> string res" where
  "lower_text j = (case j of JStr s \<Rightarrow> Inr (ascii_lower s) | _ \<Rightarrow> Inl AttributeError)"

definition is_feature_enabled :: "('c, 'x) env \<Rightarrow> string \<Rightarrow> ('c, 'x) world \<Rightarrow> bool res" where
  "is_feature_enabled E n w =
     (case w_run w of
        [] \<Rightarrow> Inr False
      | c # _ \<Rightarrow>
          (case dget (cn_entry (e_conn E) ''FEATURE'' n c) ''state'' of
             None \<Rightarrow> Inr False
           | Some s \<Rightarrow> rbind (lower_text s) (\<lambda>t. Inr (t = ''enabled''))))"

definition is_multi_instance :: "fields \<Rightarrow> bool" where
  "is_multi_instance cfg =
     (case dget cfg ''has_per_asic_scope'' of
        Some (JStr s) \<Rightarrow> ascii_lower s = ''true'' | Some (JBool b) \<Rightarrow> b | _ \<Rightarrow> False)"

definition multi_instance_features :: "('c, 'x) world \<Rightarrow> string list" where
  "multi_instance_features w =
     map fst (filter (\<lambda>(_, cfg). is_multi_instance cfg) (pers_table ''FEATURE'' (w_init w)))"

section \<open>Generated files\<close>

definition systemd_location :: string where "systemd_location = ''/usr/lib/systemd/system''"
definition etc_systemd_location :: string where "etc_systemd_location = ''/etc/systemd/system''"
definition generated_services_file :: string where "generated_services_file = ''/etc/sonic/generated_services.conf''"
definition service_mgmt_location :: string where "service_mgmt_location = ''/usr/local/bin''"
definition docker_ctl_location :: string where "docker_ctl_location = ''/usr/bin''"
definition debug_dump_location :: string where "debug_dump_location = ''/usr/local/bin/debug-dump/''"
definition etc_sonic :: string where "etc_sonic = ''/etc/sonic''"

definition get_tmpl_path :: "string \<Rightarrow> string" where
  "get_tmpl_path t = path_join ''/usr/share/sonic/templates'' t"

text \<open>\<open>str(value)\<close> of a JSON value; the text of lists, dictionaries and of no value is a parameter.\<close>

definition str_of :: "('c, 'x) env \<Rightarrow> json \<Rightarrow> string" where
  "str_of E j =
     (case j of
        JStr s \<Rightarrow> s
      | JInt i \<Rightarrow> str_int i
      | JBool b \<Rightarrow> if b then ''True'' else ''False''
      | _ \<Rightarrow> e_repr E j)"

definition run_options :: "('c, 'x) env \<Rightarrow> mval \<Rightarrow> string list" where
  "run_options E m =
     (let texts = (\<lambda>k. m_texts m [''container'', k]) in
      (if m_flag m [''container'', ''privileged''] then [''--privileged''] else []) @
      map (\<lambda>s. ''--cap-add='' @ s) (texts ''cap-add'') @
      map (\<lambda>s. ''--security-opt='' @ s) (texts ''security-opt'') @
      map (\<lambda>s. ''--ulimit='' @ s) (texts ''ulimits'') @
      map (\<lambda>s. ''--device='' @ s) (texts ''devices'') @
      [''-t''] @
      map (\<lambda>s. ''-v '' @ s) (texts ''volumes'') @
      map (\<lambda>v. ''--mount type='' @ m_text v [''type''] @ '',source='' @ m_text v [''source''] @ '',target='' @ m_text v [''target''])
        (m_items m [''container'', ''mounts'']) @
      map (\<lambda>s. ''--tmpfs '' @ s) (texts ''tmpfs'') @
      map (\<lambda>(n, j). ''-e '' @ n @ ''='' @ str_of E j) (m_dict m [''container'', ''environment'']))"

definition generate_container_mgmt :: "('c, 'x) env \<Rightarrow> package \<Rightarrow> ('c, 'x) world cmd" where
  "generate_container_mgmt E p =
     (let m = p_manifest p; n = m_service m in
      render_template E (get_tmpl_path ''docker_image_ctl.j2'') (path_join docker_ctl_location (n @ ''.sh''))
        [(''docker_container_name'', JStr n), (''docker_image_id'', str_json (pe_image_id (p_entry p))),
         (''docker_image_name'', str_json (pe_repository (p_entry p))),
         (''docker_image_reference'', str_json (pe_image_ref (p_entry p))),
         (''docker_image_run_opt'', JStr (join_with '' '' (run_options E m))),
         (''sonic_asic_platform'', e_platform E), (''stop_time'', JStr (m_text m [''service'', ''stop-time'']))] True)"

definition manifest_ctx :: "package \<Rightarrow> (json \<Rightarrow> ('c, 'x) world cmd) \<Rightarrow> ('c, 'x) world cmd" where
  "manifest_ctx p f = attempt (\<lambda>_. manifest_unmarshal (p_manifest p)) f"

definition generate_service_mgmt :: "('c, 'x) env \<Rightarrow> package \<Rightarrow> ('c, 'x) world cmd" where
  "generate_service_mgmt E p =
     ask multi_instance_features (\<lambda>multi. manifest_ctx p (\<lambda>j.
       render_template E (get_tmpl_path ''service_mgmt.sh.j2'')
         (path_join service_mgmt_location (m_service (p_manifest p) @ ''.sh''))
         [(''source'', JStr (get_tmpl_path ''service_mgmt.sh.j2'')), (''manifest'', j),
          (''multi_instance_services'', JList (map JStr multi))] True))"

definition service_ctx :: "json \<Rightarrow> string list \<Rightarrow> bool \<Rightarrow> fields" where
  "service_ctx j multi inst =
     [(''source'', JStr (get_tmpl_path ''sonic.service.j2'')), (''manifest'', j), (''multi_instance'', JBool inst),
      (''multi_instance_services'', JList (map JStr multi))]"

definition generate_systemd_service :: "('c, 'x) env \<Rightarrow> package \<Rightarrow> ('c, 'x) world cmd" where
  "generate_systemd_service E p =
     (let m = p_manifest p; n = m_service m; t = get_tmpl_path ''sonic.service.j2'' in
      ask multi_instance_features (\<lambda>multi. manifest_ctx p (\<lambda>j. seq
        [render_template E t (path_join systemd_location (n @ ''.service'')) (service_ctx j multi False) False,
         if m_flag m [''service'', ''asic-service'']
         then render_template E t (path_join systemd_location (n @ ''@.service'')) (service_ctx j multi True) False
         else finish])))"

text \<open>\<open>s.split()\<close>.\<close>

fun words_of :: "string \<Rightarrow> string \<Rightarrow> string list" where
  "words_of acc [] = (if acc = [] then [] else [rev acc])"
| "words_of acc (c # cs) =
     (if is_space c then (if acc = [] then words_of [] cs else rev acc # words_of [] cs) else words_of (c # acc) cs)"

definition discard :: "string \<Rightarrow> string list \<Rightarrow> string list" where
  "discard s xs = filter (\<lambda>x. x \<noteq> s) xs"

definition updated_services :: "mval \<Rightarrow> bool \<Rightarrow> string list \<Rightarrow> string list" where
  "updated_services m remove services =
     (let n = m_service m in
      if remove then discard (n @ ''@.service'') (discard (n @ ''.service'') services)
      else (let s = List.insert (n @ ''.service'') services in
            if m_flag m [''service'', ''asic-service''] then List.insert (n @ ''@.service'') s else s))"

definition lines :: "string list \<Rightarrow> string" where
  "lines ls = join_with [CHR 0x0A] ls"

definition update_generated_services_conf_file :: "('c, 'x) env \<Rightarrow> package \<Rightarrow> bool \<Rightarrow> ('c, 'x) world cmd" where
  "update_generated_services_conf_file E p remove =
     attempt (read_file generated_services_file) (\<lambda>text.
       write_file generated_services_file
         (lines (e_order E (updated_services (p_manifest p) remove (dedup (words_of [] text)))) @ [CHR 0x0A]))"

text \<open>\<open>{line.strip() for line in fp.readlines()}\<close>: the piece after a last line break is no line.\<close>

definition file_lines :: "string \<Rightarrow> string list" where
  "file_lines s =
     (let ls = split_on (CHR 0x0A) s in
      dedup (map strip (if last ls = [] then butlast ls else ls)))"

definition update_dependent :: "('c, 'x) env \<Rightarrow> bool \<Rightarrow> string \<Rightarrow> string \<Rightarrow> bool \<Rightarrow> ('c, 'x) world cmd" where
  "update_dependent E remove service n multi =
     (let path = path_join etc_sonic (service @ (if multi then ''_multi_inst_dependent'' else ''_dependent'')) in
      ask (\<lambda>w. case dget (w_files w) path of None \<Rightarrow> [] | Some s \<Rightarrow> file_lines s) (\<lambda>old.
        write_file path (lines (e_order E (if remove then discard n old else List.insert n old)))))"

definition update_dependent_list_file :: "('c, 'x) env \<Rightarrow> package \<Rightarrow> bool \<Rightarrow> ('c, 'x) world cmd" where
  "update_dependent_list_file E p remove =
     (let m = p_manifest p in
      each (m_texts m [''service'', ''dependent-of'']) (\<lambda>service. seq
        [if m_flag m [''service'', ''host-service''] then update_dependent E remove service (m_service m) False else finish,
         if m_flag m [''service'', ''asic-service''] then update_dependent E remove service (m_service m) True else finish]))"

definition generate_dump_script :: "('c, 'x) env \<Rightarrow> package \<Rightarrow> ('c, 'x) world cmd" where
  "generate_dump_script E p =
     (if m_text (p_manifest p) [''package'', ''debug-dump''] = [] then finish
      else manifest_ctx p (\<lambda>j.
        render_template E (path_join ''/usr/share/sonic/templates'' ''dump.sh.j2'')
          (path_join debug_dump_location (m_service (p_manifest p)))
          [(''source'', JStr (get_tmpl_path ''service_mgmt.sh.j2'')), (''manifest'', j)] True))"

definition generate_service_reconciliation_file :: "package \<Rightarrow> ('c, 'x) world cmd" where
  "generate_service_reconciliation_file p =
     (let m = p_manifest p in
      write_file (path_join etc_sonic (m_service m @ ''_reconcile''))
        (join_with '' '' (map (\<lambda>v. m_text v [''name'']) (filter (\<lambda>v. m_flag v [''reconciles'']) (m_items m [''processes''])))))"

section \<open>The order of shutdown\<close>

definition service_exists :: "package dict \<Rightarrow> string \<Rightarrow> bool" where
  "service_exists ps s = list_ex (\<lambda>(_, p). m_service (p_manifest p) = s) ps"

text \<open>A graph maps a service to the services that have to go down before it; a missing key is the empty set.\<close>

definition graph_add :: "string \<Rightarrow> string list \<Rightarrow> string list dict \<Rightarrow> string list dict" where
  "graph_add n ss g = dset n (dedup ((case dget g n of None \<Rightarrow> [] | Some old \<Rightarrow> old) @ ss)) g"

definition add_shutdown :: "package dict \<Rightarrow> string \<Rightarrow> package \<Rightarrow> string list dict \<Rightarrow> string list dict" where
  "add_shutdown ps reboot p g =
     (let m = p_manifest p;
          after = filter (service_exists ps) (m_texts m [''service'', reboot @ ''-shutdown'', ''after'']);
          before = filter (service_exists ps) (m_texts m [''service'', reboot @ ''-shutdown'', ''before'']);
          n = m_service m in
      if after = [] \<and> before = [] then g
      else foldl (\<lambda>g s. graph_add s [n] g) (graph_add n after g) before)"

definition shutdown_graph :: "string \<Rightarrow> package dict \<Rightarrow> string list dict" where
  "shutdown_graph reboot ps = foldl (\<lambda>g (_, p). add_shutdown ps reboot p g) [] ps"

definition get_shutdown_sequence :: "('c, 'x) env \<Rightarrow> string \<Rightarrow> package dict \<Rightarrow> string list res" where
  "get_shutdown_sequence E reboot ps =
     (case e_toposort E (shutdown_graph reboot ps) of
        None \<Rightarrow> Inl (Raised ''ServiceCreatorError'' [reboot])
      | Some order \<Rightarrow> Inr order)"

definition reboot_order_file :: "string \<Rightarrow> string" where
  "reboot_order_file reboot = path_join etc_sonic (reboot @ ''-reboot_order'')"

definition generate_shutdown_sequence_file :: "('c, 'x) env \<Rightarrow> package dict \<Rightarrow> string \<Rightarrow> ('c, 'x) world cmd" where
  "generate_shutdown_sequence_file E ps reboot =
     attempt (\<lambda>_. get_shutdown_sequence E reboot ps) (\<lambda>order.
       write_file (reboot_order_file reboot) (join_with '' '' order))"

definition generate_shutdown_sequence_files :: "('c, 'x) env \<Rightarrow> package dict \<Rightarrow> ('c, 'x) world cmd" where
  "generate_shutdown_sequence_files E ps =
     each [''fast'', ''warm''] (generate_shutdown_sequence_file E ps)"

section \<open>Initial configuration\<close>

text \<open>What \<open>dict.update\<close> takes.\<close>

definition fields_of :: "json \<Rightarrow> fields res" where
  "fields_of j = (case j of JObj d \<Rightarrow> Inr d | JList [] \<Rightarrow> Inr [] | JStr [] \<Rightarrow> Inr [] | _ \<Rightarrow> Inl TypeError)"

definition config_json :: "config \<Rightarrow> json" where
  "config_json cfg = JObj (map (\<lambda>(t, ks). (t, JObj (map (\<lambda>(k, fv). (k, JObj fv)) ks))) cfg)"

text \<open>
  \<open>new_cfg = init_cfg.copy()\<close> is shallow, so \<open>deep_update(new_cfg, cfg)\<close> also writes into the tables of
  \<open>init_cfg\<close>: the second component is \<open>init_cfg\<close> after the call.
\<close>

definition merge_config :: "fields \<Rightarrow> config \<Rightarrow> (json \<times> fields) res" where
  "merge_config init cfg =
     (case config_json cfg of
        JObj src \<Rightarrow> rbind (pkg_deep_update (JObj init) src) (\<lambda>j.
          case j of
            JObj d \<Rightarrow> Inr (j, map (\<lambda>(t, v). (t, case dget d t of None \<Rightarrow> v | Some v' \<Rightarrow> v')) init)
          | _ \<Rightarrow> Inl TypeError)
      | _ \<Rightarrow> Inl TypeError)"

text \<open>\<open>update_config_with_init_cfg\<close>, on one table and on all.\<close>

definition write_init_table :: "'d conn \<Rightarrow> config \<Rightarrow> string \<Rightarrow> json \<Rightarrow> 'd cmd" where
  "write_init_table C cfg t content =
     (case content of
        JObj ks \<Rightarrow> each ks (\<lambda>(k, fvs). attempt (\<lambda>_. fields_of fvs) (\<lambda>fv.
          put (cn_mod C t k
            (merged (case dget cfg t of None \<Rightarrow> [] | Some tbl \<Rightarrow> (case dget tbl k of None \<Rightarrow> [] | Some e \<Rightarrow> e)) fv))))
      | _ \<Rightarrow> finish)"

definition write_init_cfg :: "'d conn \<Rightarrow> config \<Rightarrow> fields \<Rightarrow> 'd cmd" where
  "write_init_cfg C cfg init = each init (\<lambda>(t, content). write_init_table C cfg t content)"

definition init_conn :: "('c, 'x) env \<Rightarrow> 'd conn \<Rightarrow> fields \<Rightarrow> 'd \<Rightarrow> 'x \<Rightarrow> fields res \<times> 'd \<times> 'x" where
  "init_conn E C init c x =
     (case merge_config init (cn_config C c) of
        Inl e \<Rightarrow> (Inl e, c, x)
      | Inr (new, init') \<Rightarrow>
          (case e_load_data E new x of
             (Inl e, x') \<Rightarrow> (Inl e, c, x')
           | (Inr _, x') \<Rightarrow>
               (case write_init_cfg C (cn_config C c) init' c of
                  (Inl e, c') \<Rightarrow> (Inl e, c', x')
                | (Inr _, c') \<Rightarrow> (Inr init', c', x'))))"

fun init_running :: "('c, 'x) env \<Rightarrow> fields \<Rightarrow> 'c list \<Rightarrow> 'x \<Rightarrow> unit res \<times> 'c list \<times> 'x" where
  "init_running E init [] x = (Inr (), [], x)"
| "init_running E init (c # cs) x =
     (case init_conn E (e_conn E) init c x of
        (Inl e, c', x') \<Rightarrow> (Inl e, c' # cs, x')
      | (Inr init', c', x') \<Rightarrow> (case init_running E init' cs x' of (r, cs', x'') \<Rightarrow> (r, c' # cs', x'')))"

definition set_initial_config :: "('c, 'x) env \<Rightarrow> package \<Rightarrow> ('c, 'x) world cmd" where
  "set_initial_config E p w =
     (let init = m_dict (p_manifest p) [''package'', ''init-cfg''] in
      if init = [] then (Inr (), w)
      else case init_conn E pers init (w_init w) (w_ext w) of
        (Inl e, cfg, x) \<Rightarrow> (Inl e, w\<lparr>w_init := cfg, w_ext := x\<rparr>)
      | (Inr init', cfg, x) \<Rightarrow>
          (case init_running E init' (w_run w) x of
             (r, cs, x') \<Rightarrow> (r, w\<lparr>w_init := cfg, w_run := cs, w_ext := x'\<rparr>)))"

definition clear_table :: "'d conn \<Rightarrow> string \<Rightarrow> 'd \<Rightarrow> 'd" where
  "clear_table C t c = foldl (\<lambda>c k. cn_set C t k None c) c (cn_keys C t c)"

definition remove_config :: "('c, 'x) env \<Rightarrow> package \<Rightarrow> ('c, 'x) world cmd" where
  "remove_config E p =
     each (md_yang (p_metadata p)) (\<lambda>y. attempt (\<lambda>_. e_module_name E y) (\<lambda>n.
       ask (\<lambda>w. e_yang_tables E (w_ext w)) (\<lambda>tables.
         each (map fst (filter (\<lambda>(_, m). m = n) tables)) (\<lambda>t.
           put (on_all (clear_table pers t) (clear_table (e_conn E) t))))))"

section \<open>Modules and generated commands\<close>

definition install_yang_module :: "('c, 'x) env \<Rightarrow> package \<Rightarrow> ('c, 'x) world cmd" where
  "install_yang_module E p = each (md_yang (p_metadata p)) (\<lambda>y. ext (e_add_module E y))"

definition uninstall_yang_module :: "('c, 'x) env \<Rightarrow> package \<Rightarrow> ('c, 'x) world cmd" where
  "uninstall_yang_module E p =
     each (md_yang (p_metadata p)) (\<lambda>y. attempt (\<lambda>_. e_module_name E y) (\<lambda>n. ext (e_remove_module E n)))"

definition yang_modules_for_auto_gen :: "('c, 'x) env \<Rightarrow> string \<Rightarrow> package \<Rightarrow> string list res" where
  "yang_modules_for_auto_gen E command p =
     (let sources = m_texts (p_manifest p) [''cli'', ''auto-generate-'' @ command @ ''-source-yang-modules''] in
      rbind (map_res (e_module_name E) (md_yang (p_metadata p))) (\<lambda>ns.
        Inr (filter (\<lambda>n. sources = [] \<or> n \<in> set sources) ns)))"

text \<open>The schema has no \<open>auto-generate-clear\<close>: \<open>m_flag\<close> is false there, as the check for the key is.\<close>

definition autogen_cli :: "('c, 'x) env \<Rightarrow> (string \<Rightarrow> string \<Rightarrow> 'x cmd) \<Rightarrow> package \<Rightarrow> string \<Rightarrow> ('c, 'x) world cmd" where
  "autogen_cli E f p command =
     (if md_yang (p_metadata p) = [] \<or> \<not> m_flag (p_manifest p) [''cli'', ''auto-generate-'' @ command] then finish
      else attempt (\<lambda>_. yang_modules_for_auto_gen E command p) (\<lambda>ns. each ns (\<lambda>n. ext (f command n))))"

definition cli_commands :: "string list" where
  "cli_commands = [''show'', ''config'', ''clear'']"

definition install_autogen_cli_all :: "('c, 'x) env \<Rightarrow> package \<Rightarrow> ('c, 'x) world cmd" where
  "install_autogen_cli_all E p = each cli_commands (autogen_cli E (e_gen_cli E) p)"

definition uninstall_autogen_cli_all :: "('c, 'x) env \<Rightarrow> package \<Rightarrow> ('c, 'x) world cmd" where
  "uninstall_autogen_cli_all E p = each cli_commands (autogen_cli E (e_remove_cli E) p)"

section \<open>Creating and removing a service\<close>

definition service_remove :: "('c, 'x) env \<Rightarrow> package \<Rightarrow> bool \<Rightarrow> bool \<Rightarrow> ('c, 'x) world cmd" where
  "service_remove E p deregister keep_config =
     (let n = m_service (p_manifest p) in seq
      [remove_file (path_join systemd_location (n @ ''.service'')),
       remove_file (path_join systemd_location (n @ ''@.service'')),
       remove_file (path_join service_mgmt_location (n @ ''.sh'')),
       remove_file (path_join docker_ctl_location (n @ ''.sh'')),
       remove_file (path_join debug_dump_location n),
       remove_file (path_join etc_sonic (n @ ''_reconcile'')),
       remove_file (path_join etc_systemd_location (n @ ''.service'')),
       ask (glob_files (path_join etc_systemd_location (n @ ''@'')) ''.service'') (\<lambda>fs. each fs remove_file),
       remove_dir (path_join etc_systemd_location (n @ ''.service.d'')),
       ask (glob_dirs (path_join etc_systemd_location (n @ ''@'')) ''.service.d'') (\<lambda>ds. each ds remove_dir),
       update_dependent_list_file E p True,
       update_generated_services_conf_file E p True,
       if deregister \<and> \<not> keep_config then remove_config E p else finish,
       uninstall_autogen_cli_all E p,
       uninstall_yang_module E p,
       post_operation_hook E,
       if deregister then feature_deregister E n else finish])"

definition create_steps :: "('c, 'x) env \<Rightarrow> package \<Rightarrow> bool \<Rightarrow> string \<Rightarrow> string \<Rightarrow> ('c, 'x) world cmd" where
  "create_steps E p register state owner = seq
     [generate_container_mgmt E p,
      generate_service_mgmt E p,
      update_dependent_list_file E p False,
      generate_systemd_service E p,
      update_generated_services_conf_file E p False,
      generate_dump_script E p,
      generate_service_reconciliation_file p,
      install_yang_module E p,
      set_initial_config E p,
      install_autogen_cli_all E p,
      post_operation_hook E,
      if register then feature_register E (p_manifest p) state owner else finish]"

text \<open>When creation fails the service is removed and the exception raised again, unless removing raises too.\<close>

definition service_create :: "('c, 'x) env \<Rightarrow> package \<Rightarrow> bool \<Rightarrow> string \<Rightarrow> string \<Rightarrow> ('c, 'x) world cmd" where
  "service_create E p register state owner w =
     (case create_steps E p register state owner w of
        (Inr _, w') \<Rightarrow> (Inr (), w')
      | (Inl e, w') \<Rightarrow>
          (case service_remove E p register False w' of
             (Inl e', w'') \<Rightarrow> (Inl e', w'')
           | (Inr _, w'') \<Rightarrow> (Inl e, w'')))"

end
