(* ===== verification/PkgManager.thy ===== *)
theory PkgManager
  imports PkgService
begin

text \<open>
  The package manager itself, sonic_package_manager/manager.py with source.py and metadata.py: where the
  metadata and the image of a package come from, and how packages are installed, uninstalled, upgraded,
  reset and migrated, with the rollback of what an operation did before it failed.

  The interrupt from the keyboard and the lock are left out, as are messages.
\<close>

section \<open>Control\<close>

type_synonym ('c, 'x, 'a) act = "('c, 'x) world \<Rightarrow> 'a res \<times> ('c, 'x) world"

text \<open>
  \<open>exits.callback(rollback(undo))\<close> and the rest of the block: when the rest raises, the callback runs, with
  its own exceptions suppressed, and the exception goes on.  Nested, the callbacks run last to first;
  \<open>exits.pop_all()\<close> at the end of the block drops them.
\<close>

definition with_undo :: "'s cmd \<Rightarrow> ('s \<Rightarrow> 'a res \<times> 's) \<Rightarrow> 's \<Rightarrow> 'a res \<times> 's" where
  "with_undo undo rest s =
     (case rest s of (Inr x, s') \<Rightarrow> (Inr x, s') | (Inl e, s') \<Rightarrow> (Inl e, snd (undo s')))"

definition act_seq :: "'s cmd \<Rightarrow> ('s \<Rightarrow> 'a res \<times> 's) \<Rightarrow> 's \<Rightarrow> 'a res \<times> 's" where
  "act_seq m rest = act_bind m (\<lambda>_. rest)"

text \<open>\<open>except Exception as err: raise cls(...)\<close>.\<close>

definition wrapped :: "py_error \<Rightarrow> ('s \<Rightarrow> 'a res \<times> 's) \<Rightarrow> 's \<Rightarrow> 'a res \<times> 's" where
  "wrapped e m s = (case m s of (Inl _, s') \<Rightarrow> (Inl e, s') | (Inr x, s') \<Rightarrow> (Inr x, s'))"

text \<open>\<open>with failure_ignore(force)\<close> around checks.\<close>

definition failure_ignore :: "bool \<Rightarrow> unit res \<Rightarrow> unit res" where
  "failure_ignore force r = (case r of Inl e \<Rightarrow> if force then Inr () else Inl e | Inr _ \<Rightarrow> Inr ())"

definition check_if :: "bool \<Rightarrow> py_error \<Rightarrow> unit res" where
  "check_if b e = (if b then Inl e else Inr ())"

section \<open>Local manifest files\<close>

definition manifests_location :: string where
  "manifests_location = ''/var/lib/sonic-package-manager/manifests''"

definition default_manifest_file :: string where
  "default_manifest_file = ''/var/lib/sonic-package-manager/default_manifest''"

definition load_json :: "('c, 'x) env \<Rightarrow> string \<Rightarrow> ('c, 'x) world \<Rightarrow> json res" where
  "load_json E path w =
     rbind (read_file path w) (\<lambda>s. case e_loads E s of Some j \<Rightarrow> Inr j | None \<Rightarrow> Inl (ValueError path))"

text \<open>\<open>d[section]['name'] = name\<close>.\<close>

definition set_name :: "string \<Rightarrow> string \<Rightarrow> json \<Rightarrow> json res" where
  "set_name section n j =
     (case j of
        JObj d \<Rightarrow>
          (case dget d section of
             None \<Rightarrow> Inl (KeyError section)
           | Some (JObj s) \<Rightarrow> Inr (JObj (dset section (JObj (dset ''name'' (JStr n) s)) d))
           | Some _ \<Rightarrow> Inl TypeError)
      | _ \<Rightarrow> Inl TypeError)"

definition set_names :: "string \<Rightarrow> json \<Rightarrow> json res" where
  "set_names n j = rbind (set_name ''package'' n j) (set_name ''service'' n)"

text \<open>\<open>name.split('.edit')[0]\<close>.\<close>

fun before_edit :: "string \<Rightarrow> string" where
  "before_edit [] = []"
| "before_edit (c # s) = (if startswith (c # s) ''.edit'' then [] else c # before_edit s)"

definition local_labels :: "('c, 'x) env \<Rightarrow> json \<Rightarrow> fields" where
  "local_labels E j =
     [(''Tag'', JStr ''master''),
      (''com'', JObj [(''azure'', JObj [(''sonic'', JObj [(''manifest'', JStr (e_dumps E j))])])])]"

definition get_manifest_from_local_file :: "('c, 'x) env \<Rightarrow> string \<Rightarrow> ('c, 'x, fields) act" where
  "get_manifest_from_local_file E n w =
     (let actual = before_edit n; path = path_join manifests_location n in
      if dhas (w_files w) path then
        (case rbind (load_json E path w) (set_names actual) of
           Inl e \<Rightarrow> (Inl e, w)
         | Inr j \<Rightarrow> (Inr (local_labels E j), w))
      else
        (case rbind (load_json E default_manifest_file w) (set_names actual) of
           Inl e \<Rightarrow> (Inl e, w)
         | Inr j \<Rightarrow> (Inr (local_labels E j), w\<lparr>w_files := dset path (e_dumps E j) (w_files w)\<rparr>)))"

section \<open>Metadata and sources\<close>

definition metadata_of :: "('c, 'x) env \<Rightarrow> fields \<Rightarrow> ('c, 'x, metadata) act" where
  "metadata_of E labels = act_res (from_labels (e_ver E) (e_loads E) labels)"

definition no_manifest :: "fields option \<Rightarrow> bool" where
  "no_manifest labels = (case labels of None \<Rightarrow> True | Some d \<Rightarrow> \<not> dhas d ''com.azure.sonic.manifest'')"

definition metadata_from_local :: "('c, 'x) env \<Rightarrow> string option \<Rightarrow> bool \<Rightarrow> string \<Rightarrow> bool \<Rightarrow> ('c, 'x, metadata) act" where
  "metadata_from_local E img use_local n use_edit =
     (if n \<noteq> [] \<and> use_edit then act_bind (get_manifest_from_local_file E (n @ ''.edit'')) (metadata_of E)
      else if n \<noteq> [] \<and> use_local then act_bind (get_manifest_from_local_file E n) (metadata_of E)
      else act_bind (\<lambda>w. (e_labels E img (w_ext w), w)) (\<lambda>labels.
        if no_manifest labels then
          (if n \<noteq> [] then act_bind (get_manifest_from_local_file E n) (metadata_of E)
           else act_res (metadata_error ''No manifest found in image labels''))
        else metadata_of E (the labels)))"

text \<open>The labels of an image in a registry or a tarball; without a manifest there the local file is used.\<close>

definition metadata_from_image :: "('c, 'x) env \<Rightarrow> ('x \<Rightarrow> fields option res) \<Rightarrow> bool \<Rightarrow> string option \<Rightarrow> ('c, 'x, metadata) act" where
  "metadata_from_image E labels_of use_local n =
     (let local_file = (case n of
            None \<Rightarrow> act_res (Inl TypeError)
          | Some s \<Rightarrow> act_bind (get_manifest_from_local_file E s) (metadata_of E)) in
      if use_local then local_file
      else act_bind (\<lambda>w. (labels_of (w_ext w), w)) (\<lambda>labels.
        if no_manifest labels then
          (if n = None then act_res (metadata_error ''The name(custom) option is required'') else local_file)
        else metadata_of E (the labels)))"

datatype source =
    TarballSource string bool "string option"
  | RegistrySource string string bool "string option"
  | LocalSource pkg_entry bool string bool

definition local_image :: "pkg_entry \<Rightarrow> string option" where
  "local_image e =
     (if pe_built_in e then Some ((case pe_repository e of Some r \<Rightarrow> r | None \<Rightarrow> ''None'') @ '':latest'')
      else pe_image_id e)"

fun source_metadata :: "('c, 'x) env \<Rightarrow> source \<Rightarrow> ('c, 'x, metadata) act" where
  "source_metadata E (TarballSource path use_local n) = metadata_from_image E (e_tarball_labels E path) use_local n"
| "source_metadata E (RegistrySource repo ref use_local n) = metadata_from_image E (e_registry_labels E repo ref) use_local n"
| "source_metadata E (LocalSource e use_local n use_edit) = metadata_from_local E (local_image e) use_local n use_edit"

definition package_entry_for :: "pkg_db \<Rightarrow> mval \<Rightarrow> pkg_entry" where
  "package_entry_for db m =
     (let n = m_text m [''package'', ''name''] in
      case get_entry db n of
        Inr e \<Rightarrow> e
      | Inl _ \<Rightarrow> new_entry n None (Some (m_text m [''package'', ''description''])) None)"

definition source_package :: "('c, 'x) env \<Rightarrow> source \<Rightarrow> ('c, 'x, package) act" where
  "source_package E src =
     act_bind (source_metadata E src) (\<lambda>md w.
       (Inr \<lparr>p_entry = (case src of LocalSource e _ _ _ \<Rightarrow> e | _ \<Rightarrow> package_entry_for (w_db w) (md_manifest md)),
             p_metadata = md\<rparr>, w))"

text \<open>\<open>repository, tag = repotag.split(':')\<close> of the first tag.\<close>

definition repository_from_image :: "docker_image \<Rightarrow> string option res" where
  "repository_from_image i =
     (case im_repotags i of
        [] \<Rightarrow> Inr None
      | t # _ \<Rightarrow> (case split_on (CHR '':'') t of [r, _] \<Rightarrow> Inr (Some r) | _ \<Rightarrow> Inl (ValueError ''unpack'')))"

definition no_text :: "string option \<Rightarrow> bool" where
  "no_text s = (case s of None \<Rightarrow> True | Some t \<Rightarrow> t = [])"

fun install_image :: "('c, 'x) env \<Rightarrow> source \<Rightarrow> package \<Rightarrow> ('c, 'x, docker_image \<times> package) act" where
  "install_image E (TarballSource path _ _) p = act_bind (ext (e_load E path)) (\<lambda>i. act_ret (i, p))"
| "install_image E (RegistrySource repo ref _ _) p = act_bind (ext (e_pull E repo ref)) (\<lambda>i.
     act_ret (i, if no_text (pe_default_reference (p_entry p))
                 then p\<lparr>p_entry := (p_entry p)\<lparr>pe_default_reference := Some ref\<rparr>\<rparr> else p))"
| "install_image E (LocalSource _ _ _ _) p = act_res (Inl (Raised ''NotImplementedError'' []))"

definition source_install :: "('c, 'x) env \<Rightarrow> source \<Rightarrow> package \<Rightarrow> ('c, 'x, package) act" where
  "source_install E src p =
     act_bind (install_image E src p) (\<lambda>(i, p').
       let e = (p_entry p')\<lparr>pe_image_id := Some (im_id i),
                 pe_image_ref := Some (case im_tags i of [] \<Rightarrow> im_id i | t # _ \<Rightarrow> t)\<rparr> in
       if no_text (pe_repository e) then
         act_bind (act_res (repository_from_image i)) (\<lambda>r. act_ret (p'\<lparr>p_entry := e\<lparr>pe_repository := r\<rparr>\<rparr>))
       else act_ret (p'\<lparr>p_entry := e\<rparr>))"

definition source_uninstall :: "('c, 'x) env \<Rightarrow> package \<Rightarrow> ('c, 'x) world cmd" where
  "source_uninstall E p = ext (e_rmi E (pe_image_id (p_entry p)) False)"

section \<open>Installed packages\<close>

definition is_installed :: "string \<Rightarrow> pkg_db \<Rightarrow> bool" where
  "is_installed n db = (case get_entry db n of Inl _ \<Rightarrow> False | Inr e \<Rightarrow> pe_installed e)"

definition get_installed_package :: "('c, 'x) env \<Rightarrow> string \<Rightarrow> bool \<Rightarrow> ('c, 'x, package) act" where
  "get_installed_package E n use_edit =
     act_bind (\<lambda>w. (get_entry (w_db w) n, w)) (\<lambda>e. source_package E (LocalSource e False n use_edit))"

fun packages_of :: "('c, 'x) env \<Rightarrow> string list \<Rightarrow> ('c, 'x, package dict) act" where
  "packages_of E [] = act_ret []"
| "packages_of E (n # ns) =
     act_bind (get_installed_package E n False) (\<lambda>p. act_bind (packages_of E ns) (\<lambda>ps. act_ret ((p_name p, p) # ps)))"

text \<open>The keys of the database are the names of its entries, each once, so that no name comes twice.\<close>

definition get_installed_packages :: "('c, 'x) env \<Rightarrow> ('c, 'x, package dict) act" where
  "get_installed_packages E w =
     packages_of E (map pe_name (filter pe_installed (entries (w_db w)))) w"

definition installed_and :: "('c, 'x) env \<Rightarrow> package \<Rightarrow> ('c, 'x, package dict) act" where
  "installed_and E p = act_bind (get_installed_packages E) (\<lambda>ps. act_ret (dset (p_name p) p ps))"

definition installed_except :: "('c, 'x) env \<Rightarrow> package \<Rightarrow> ('c, 'x, package dict) act" where
  "installed_except E p = act_bind (get_installed_packages E) (\<lambda>ps.
     if dhas ps (p_name p) then act_ret (ddel (p_name p) ps) else act_res (Inl (KeyError (p_name p))))"

definition db_file :: string where
  "db_file = ''/var/lib/sonic-package-manager/packages.json''"

definition commit :: "('c, 'x) env \<Rightarrow> ('c, 'x) world cmd" where
  "commit E = ask (\<lambda>w. e_dumps E (db_to_json (w_db w))) (write_file db_file)"

text \<open>An operation of the database that may raise.\<close>

definition db_step :: "(pkg_db \<Rightarrow> pkg_db res) \<Rightarrow> ('c, 'x) world cmd" where
  "db_step f = attempt (\<lambda>w. f (w_db w)) (\<lambda>db. put (\<lambda>w. w\<lparr>w_db := db\<rparr>))"

definition add_repository :: "('c, 'x) env \<Rightarrow> string \<Rightarrow> string option \<Rightarrow> string option \<Rightarrow> string option \<Rightarrow> ('c, 'x) world cmd" where
  "add_repository E n r d ref = seq [db_step (add_package n r d ref), commit E]"

definition remove_repository :: "('c, 'x) env \<Rightarrow> string \<Rightarrow> ('c, 'x) world cmd" where
  "remove_repository E n = seq [db_step (remove_package n), commit E]"

section \<open>Command line plugins\<close>

definition get_cli_plugin_path :: "('c, 'x) env \<Rightarrow> package \<Rightarrow> nat \<Rightarrow> string \<Rightarrow> string res" where
  "get_cli_plugin_path E p i command =
     (case e_plugin_dir E command of
        None \<Rightarrow> Inl (manager_error (''Failed to get plugins path for '' @ command))
      | Some dir \<Rightarrow> Inr (path_join dir (if i = 0 then p_name p @ ''.py'' else p_name p @ ''_'' @ str_nat i @ ''.py'')))"

definition cli_plugins :: "package \<Rightarrow> string \<Rightarrow> string list" where
  "cli_plugins p command = m_texts (p_manifest p) [''cli'', command]"

definition install_cli_plugin :: "('c, 'x) env \<Rightarrow> package \<Rightarrow> string \<Rightarrow> ('c, 'x) world cmd" where
  "install_cli_plugin E p command =
     each (List.enumerate 0 (cli_plugins p command)) (\<lambda>(i, path).
       attempt (\<lambda>_. get_cli_plugin_path E p i command) (\<lambda>host.
         act_bind (ext (e_extract E (pe_image_id (p_entry p)) path)) (write_file host)))"

definition uninstall_cli_plugin :: "('c, 'x) env \<Rightarrow> package \<Rightarrow> string \<Rightarrow> ('c, 'x) world cmd" where
  "uninstall_cli_plugin E p command =
     each (List.enumerate 0 (cli_plugins p command)) (\<lambda>(i, path).
       attempt (\<lambda>_. get_cli_plugin_path E p i command) remove_file)"

definition install_cli_plugins :: "('c, 'x) env \<Rightarrow> package \<Rightarrow> ('c, 'x) world cmd" where
  "install_cli_plugins E p = each cli_commands (install_cli_plugin E p)"

definition uninstall_cli_plugins :: "('c, 'x) env \<Rightarrow> package \<Rightarrow> ('c, 'x) world cmd" where
  "uninstall_cli_plugins E p = each cli_commands (uninstall_cli_plugin E p)"

section \<open>Features\<close>

definition generated_or_transient :: "('c, 'x) env \<Rightarrow> string \<Rightarrow> ('c, 'x) world \<Rightarrow> bool" where
  "generated_or_transient E unit_name w =
     (case e_unit_state E unit_name (w_ext w) of
        None \<Rightarrow> False
      | Some s \<Rightarrow> ascii_lower (strip s) \<in> {''generated'', ''transient''})"

definition systemctl :: "('c, 'x) env \<Rightarrow> string \<Rightarrow> string \<Rightarrow> ('c, 'x) world cmd" where
  "systemctl E action unit_name =
     ask (generated_or_transient E unit_name) (\<lambda>skip.
       if action \<in> {''enable'', ''disable''} \<and> skip then finish else run_command E [''systemctl'', action, unit_name])"

definition systemctl_action :: "('c, 'x) env \<Rightarrow> package \<Rightarrow> string \<Rightarrow> ('c, 'x) world cmd" where
  "systemctl_action E p action =
     (let m = p_manifest p; n = m_service m;
          host = m_flag m [''service'', ''host-service'']; asic = m_flag m [''service'', ''asic-service''] in seq
      [if host \<or> (asic \<and> \<not> e_multi_npu E) then systemctl E action n else finish,
       if asic \<and> e_multi_npu E
       then each [0..<e_num_npus E] (\<lambda>i. systemctl E action (n @ ''@'' @ str_nat i)) else finish])"

definition stop_feature :: "('c, 'x) env \<Rightarrow> package \<Rightarrow> ('c, 'x) world cmd" where
  "stop_feature E p = seq [systemctl_action E p ''stop'', systemctl_action E p ''disable'']"

definition start_feature :: "('c, 'x) env \<Rightarrow> package \<Rightarrow> ('c, 'x) world cmd" where
  "start_feature E p = seq [systemctl_action E p ''enable'', systemctl_action E p ''start'']"

text \<open>
  \<open>set_feature_state\<close> of config/feature.py for the running database alone, which its validated connector
  writes to as it is, and the wait for the state database, a parameter.
\<close>

definition set_feature_state :: "('c, 'x) env \<Rightarrow> string \<Rightarrow> string \<Rightarrow> bool \<Rightarrow> ('c, 'x) world cmd" where
  "set_feature_state E n state block w =
     (case w_run w of
        [] \<Rightarrow> (Inl AttributeError, w)
      | c # cs \<Rightarrow>
          (let e = cn_entry (e_conn E) ''FEATURE'' n c in
           if e = [] then (Inl (Raised ''Exception'' [n]), w)
           else case dget e ''state'' of
             None \<Rightarrow> (Inl (Raised ''Exception'' [n]), w)
           | Some s \<Rightarrow>
               if s = JStr ''always_enabled'' then (Inl (Raised ''Exception'' [n]), w)
               else seq [put (\<lambda>w. w\<lparr>w_run := cn_mod (e_conn E) ''FEATURE'' n [(''state'', JStr state)] c # cs\<rparr>),
                         if block then ext (e_wait_state E n state) else finish] w))"

definition disable_feature :: "('c, 'x) env \<Rightarrow> package \<Rightarrow> ('c, 'x) world cmd" where
  "disable_feature E p =
     (if e_chroot E then finish else set_feature_state E (m_service (p_manifest p)) ''disabled'' True)"

section \<open>Installing\<close>

text \<open>Options as they are given; \<open>opt_check\<close> rejects those the operation has no parameter for.\<close>

record install_opts =
  o_force :: bool
  o_skip_plugins :: bool
  o_enable :: "bool option"
  o_owner :: "string option"
  o_allow_downgrade :: "bool option"

definition install_checks :: "('c, 'x) env \<Rightarrow> package \<Rightarrow> package dict \<Rightarrow> bool \<Rightarrow> unit res" where
  "install_checks E p ps skip =
     rbind (validate_package_base_os_constraints (e_ver E) p (e_version_info E)) (\<lambda>_.
     rbind (validate_package_tree (e_ver E) ps) (\<lambda>_.
       validate_package_cli_can_be_skipped p skip))"

text \<open>The block under the exit stack; the result is the package with what the installation recorded in it.\<close>

definition install_block :: "('c, 'x) env \<Rightarrow> source \<Rightarrow> package \<Rightarrow> string \<Rightarrow> string \<Rightarrow> bool \<Rightarrow> ('c, 'x, package) act" where
  "install_block E src p state owner skip =
     act_bind (source_install E src p) (\<lambda>p'.
     with_undo (source_uninstall E p')
     (act_seq (service_create E p' True state owner)
     (with_undo (service_remove E p' True False)
     (act_bind (installed_and E p') (\<lambda>ps.
      act_seq (generate_shutdown_sequence_files E ps)
     (act_bind (get_installed_packages E) (\<lambda>ps'.
      with_undo (generate_shutdown_sequence_files E ps')
     (act_seq (if skip then finish else install_cli_plugins E p')
     (act_ret p')))))))))"

definition add_if_unknown :: "package \<Rightarrow> ('c, 'x) world cmd" where
  "add_if_unknown p =
     ask (\<lambda>w. has_package (w_db w) (p_name p)) (\<lambda>known.
       if known then finish else db_step (add_package (p_name p) (pe_repository (p_entry p)) None None))"

text \<open>\<open>entry.installed = True\<close>, \<open>entry.version = version\<close>, \<open>update_package(entry)\<close>, \<open>commit()\<close>.\<close>

definition record_installed :: "('c, 'x) env \<Rightarrow> package \<Rightarrow> string \<Rightarrow> ('c, 'x) world cmd" where
  "record_installed E p v = seq
     [db_step (update_package ((p_entry p)\<lparr>pe_installed := True, pe_version := Some v\<rparr>)), commit E]"

definition install_from_source :: "('c, 'x) env \<Rightarrow> source \<Rightarrow> install_opts \<Rightarrow> ('c, 'x) world cmd" where
  "install_from_source E src opts =
     (if o_allow_downgrade opts \<noteq> None then raise (manager_error ''Unsupported options'')
      else act_bind (source_package E src) (\<lambda>p.
        let force = o_force opts; n = p_name p; v = m_version (p_manifest p);
            state = (if o_enable opts = Some True then ''enabled'' else ''disabled'');
            owner = (case o_owner opts of None \<Rightarrow> ''local'' | Some o' \<Rightarrow> o') in
        ask (\<lambda>w. is_installed n (w_db w)) (\<lambda>inst.
        attempt (\<lambda>_. failure_ignore force (check_if inst (Raised ''PackageInstallationError'' [n]))) (\<lambda>_.
        act_bind (installed_and E p) (\<lambda>ps.
        attempt (\<lambda>_. failure_ignore force (install_checks E p ps (o_skip_plugins opts))) (\<lambda>_.
        act_seq (add_if_unknown p)
       (act_bind (wrapped (Raised ''PackageInstallationError'' [n]) (install_block E src p state owner (o_skip_plugins opts)))
          (\<lambda>p'. record_installed E p' v))))))))"

section \<open>Uninstalling\<close>

definition remove_unused_docker_image :: "('c, 'x) env \<Rightarrow> package \<Rightarrow> ('c, 'x) world cmd" where
  "remove_unused_docker_image E p =
     ask (\<lambda>w. list_ex (\<lambda>e. pe_name e \<noteq> p_name p \<and> pe_image_id e = pe_image_id (p_entry p)) (entries (w_db w))) (\<lambda>used.
       if used then finish else ext (e_rmi E (pe_image_id (p_entry p)) True))"

definition uninstall_block :: "('c, 'x) env \<Rightarrow> package \<Rightarrow> bool \<Rightarrow> ('c, 'x) world cmd" where
  "uninstall_block E p keep_config = seq
     [disable_feature E p,
      uninstall_cli_plugins E p,
      service_remove E p True keep_config,
      act_bind (installed_except E p) (generate_shutdown_sequence_files E),
      ext (e_rm_by_ancestor E (pe_image_id (p_entry p))),
      remove_unused_docker_image E p]"

definition record_uninstalled :: "('c, 'x) env \<Rightarrow> package \<Rightarrow> ('c, 'x) world cmd" where
  "record_uninstalled E p = seq
     [db_step (update_package ((p_entry p)\<lparr>pe_image_id := None, pe_installed := False, pe_version := None\<rparr>)), commit E]"

definition uninstall :: "('c, 'x) env \<Rightarrow> string \<Rightarrow> bool \<Rightarrow> bool \<Rightarrow> ('c, 'x) world cmd" where
  "uninstall E n force keep_config =
     ask (\<lambda>w. is_installed n (w_db w)) (\<lambda>inst.
     attempt (\<lambda>_. failure_ignore force (check_if (\<not> inst) (Raised ''PackageUninstallationError'' [n]))) (\<lambda>_.
     act_bind (get_installed_package E n False) (\<lambda>p.
     ask (is_feature_enabled E (m_service (p_manifest p))) (\<lambda>enabled.
     attempt (\<lambda>_. failure_ignore force (rbind enabled (\<lambda>b. check_if b (Raised ''PackageUninstallationError'' [m_service (p_manifest p)])))) (\<lambda>_.
     if pe_built_in (p_entry p) then raise (Raised ''PackageUninstallationError'' [n])
     else act_bind (installed_except E p) (\<lambda>ps.
     attempt (\<lambda>_. failure_ignore force (validate_package_tree (e_ver E) ps)) (\<lambda>_. seq
       [wrapped (Raised ''PackageUninstallationError'' [n]) (uninstall_block E p keep_config),
        record_uninstalled E p,
        remove_file (path_join manifests_location n),
        remove_file (path_join manifests_location (n @ ''.edit''))])))))))"

section \<open>Upgrading\<close>

text \<open>
  The block under the exit stack.  The callback registered last names \<open>_uninstall_cli_plugin\<close>, which
  wants a command that is not given: it raises \<open>TypeError\<close>, which the rollback suppresses.
\<close>

definition upgrade_block :: "('c, 'x) env \<Rightarrow> source option \<Rightarrow> package \<Rightarrow> package \<Rightarrow> bool \<Rightarrow> ('c, 'x, package) act" where
  "upgrade_block E src old new skip =
     act_seq (uninstall_cli_plugins E old)
     (with_undo (install_cli_plugins E old)
     (act_bind (case src of None \<Rightarrow> act_ret new | Some s \<Rightarrow> source_install E s new) (\<lambda>new'.
      with_undo (if src = None then finish else source_uninstall E new')
     (act_bind (\<lambda>w. (is_feature_enabled E (m_service (p_manifest old)) w, w)) (\<lambda>enabled.
      act_seq (if enabled then stop_feature E old else finish)
     (with_undo (if enabled then start_feature E old else finish)
     (act_seq (service_remove E old False False)
     (with_undo (service_create E old False ''enabled'' ''local'')
     (act_seq (ext (e_rm_by_ancestor E (pe_image_id (p_entry old))))
     (act_seq (service_create E new' False ''enabled'' ''local'')
     (with_undo (service_remove E new' False False)
     (act_bind (installed_and E new') (\<lambda>ps.
      act_seq (generate_shutdown_sequence_files E ps)
     (act_bind (installed_and E old) (\<lambda>ps'.
      with_undo (generate_shutdown_sequence_files E ps')
     (act_seq (feature_update E (p_manifest old) (p_manifest new'))
     (with_undo (feature_update E (p_manifest new') (p_manifest old))
     (act_seq (if enabled then start_feature E new' else finish)
     (with_undo (if enabled then stop_feature E new' else finish)
     (act_seq (if skip then finish else install_cli_plugins E new')
     (with_undo (if skip then finish else raise TypeError)
     (act_seq (if pe_image_id (p_entry old) \<noteq> pe_image_id (p_entry new') then remove_unused_docker_image E old else finish)
     (act_ret new')))))))))))))))))))))))"

text \<open>\<open>a > b\<close> of two versions, either of which may be missing.\<close>

definition version_gt :: "semver \<Rightarrow> string option \<Rightarrow> string option \<Rightarrow> bool res" where
  "version_gt V a b =
     (case (a, b) of
        (Some x, Some y) \<Rightarrow> Inr (sv_less V y x)
      | (None, None) \<Rightarrow> Inl TypeError
      | _ \<Rightarrow> Inl AttributeError)"

definition version_checks :: "('c, 'x) env \<Rightarrow> string \<Rightarrow> string \<Rightarrow> string \<Rightarrow> bool \<Rightarrow> unit res" where
  "version_checks E n old new allow =
     (if old = new then Inl (Raised ''PackageUpgradeError'' [n, ''installed''])
      else if sv_less (e_ver E) new old \<and> \<not> allow then Inl (Raised ''PackageUpgradeError'' [n, ''downgrade''])
      else Inr ())"

text \<open>\<open>os.rename\<close>.\<close>

definition rename_file :: "string \<Rightarrow> string \<Rightarrow> ('c, 'x) world cmd" where
  "rename_file a b = attempt (read_file a) (\<lambda>s. seq [remove_file a, write_file b s])"

definition is_given :: "'a option \<Rightarrow> bool" where
  "is_given x = (case x of None \<Rightarrow> False | Some _ \<Rightarrow> True)"

text \<open>The source is missing for an update, which takes the edited manifest of the package instead.\<close>

definition upgrade_package :: "('c, 'x) env \<Rightarrow> source option \<Rightarrow> package \<Rightarrow> string \<Rightarrow> bool \<Rightarrow> bool \<Rightarrow> bool \<Rightarrow> ('c, 'x) world cmd" where
  "upgrade_package E src new n force skip allow =
     ask (\<lambda>w. is_installed n (w_db w)) (\<lambda>inst.
     attempt (\<lambda>_. failure_ignore force (check_if (\<not> inst) (Raised ''PackageUpgradeError'' [n]))) (\<lambda>_.
     act_bind (get_installed_package E n False) (\<lambda>old.
     if pe_built_in (p_entry old) then raise (Raised ''PackageUpgradeError'' [n])
     else attempt (\<lambda>_. if is_given src then failure_ignore force
            (version_checks E n (m_version (p_manifest old)) (m_version (p_manifest new)) allow) else Inr ()) (\<lambda>_.
     act_bind (installed_and E new) (\<lambda>ps.
     attempt (\<lambda>_. failure_ignore force (install_checks E new ps skip)) (\<lambda>_.
     act_bind (wrapped (Raised ''PackageUpgradeError'' [p_name new]) (upgrade_block E src old new skip)) (\<lambda>new'. seq
       [record_installed E new' (m_version (p_manifest new)),
        if is_given src then finish
        else rename_file (path_join manifests_location (n @ ''.edit'')) (path_join manifests_location n)])))))))"

definition upgrade_from_source :: "('c, 'x) env \<Rightarrow> source \<Rightarrow> install_opts \<Rightarrow> ('c, 'x) world cmd" where
  "upgrade_from_source E src opts =
     (if o_enable opts \<noteq> None \<or> o_owner opts \<noteq> None then raise (manager_error ''Unsupported options'')
      else act_bind (source_package E src) (\<lambda>new.
        upgrade_package E (Some src) new (p_name new) (o_force opts) (o_skip_plugins opts) (o_allow_downgrade opts = Some True)))"

text \<open>\<open>update(name, force, skip_host_plugins, update_only=True)\<close>.\<close>

definition update_installed :: "('c, 'x) env \<Rightarrow> string \<Rightarrow> bool \<Rightarrow> bool \<Rightarrow> ('c, 'x) world cmd" where
  "update_installed E n force skip =
     ask (\<lambda>w. is_installed n (w_db w) \<and> dhas (w_files w) (path_join manifests_location (n @ ''.edit''))) (\<lambda>b.
       if \<not> b then finish
       else act_bind (get_installed_package E n True) (\<lambda>new. upgrade_package E None new n force skip False))"

section \<open>Where a package comes from\<close>

record reference =
  r_name :: string
  r_ref :: "string option"

definition package_constraint_to_reference :: "('c, 'x) env \<Rightarrow> pkg_constraint \<Rightarrow> reference res" where
  "package_constraint_to_reference E c =
     (if pc_constraint c = ''*'' then Inr \<lparr>r_name = shown (pc_name c), r_ref = None\<rparr>
      else case sp_exact (e_ver E) (pc_constraint c) of
        None \<Rightarrow> Inl (manager_error ''Can only install specific version'')
      | Some v \<Rightarrow> Inr \<lparr>r_name = shown (pc_name c), r_ref = Some (version_to_tag v)\<rparr>)"

text \<open>The pattern is \<open>[A-Za-z0-9_-]+@.*\<close>.\<close>

definition reference_parse :: "string \<Rightarrow> reference res" where
  "reference_parse s =
     (let n = takeWhile is_name_char s; r = dropWhile is_name_char s in
      if n = [] \<or> \<not> startswith r ''@'' then Inl (ValueError s)
      else Inr \<lparr>r_name = n, r_ref = Some (takeWhile (\<lambda>c. c \<noteq> CHR 0x0A) (tl r))\<rparr>)"

definition parse_reference_expression :: "('c, 'x) env \<Rightarrow> string \<Rightarrow> reference res" where
  "parse_reference_expression E s =
     (case rbind (package_constraint_parse (e_ver E) (JStr s)) (package_constraint_to_reference E) of
        Inl (ValueError _) \<Rightarrow> reference_parse s
      | r \<Rightarrow> r)"

definition source_of_reference :: "reference \<Rightarrow> bool \<Rightarrow> pkg_db \<Rightarrow> source res" where
  "source_of_reference r use_local db =
     rbind (get_entry db (r_name r)) (\<lambda>e.
       let registry = (\<lambda>ref. RegistrySource (case pe_repository e of None \<Rightarrow> [] | Some s \<Rightarrow> s) ref use_local (Some (r_name r))) in
       case r_ref r of
         Some ref \<Rightarrow> Inr (registry ref)
       | None \<Rightarrow>
           if pe_installed e then Inr (LocalSource e use_local (r_name r) False)
           else case pe_default_reference e of
             Some ref \<Rightarrow> Inr (registry ref)
           | None \<Rightarrow> Inl (manager_error ''No default reference tag''))"

definition get_package_source :: "('c, 'x) env \<Rightarrow> string option \<Rightarrow> string option \<Rightarrow> string option \<Rightarrow> bool \<Rightarrow> string option \<Rightarrow> pkg_db \<Rightarrow> source res" where
  "get_package_source E expr repotag tarball use_local n db =
     (if \<not> no_text expr then rbind (parse_reference_expression E (the expr)) (\<lambda>r. source_of_reference r False db)
      else if \<not> no_text repotag then
        (case e_docker_ref E (the repotag) of
           None \<Rightarrow> Inl (ValueError (the repotag))
         | Some (repo, tag, digest) \<Rightarrow>
             Inr (RegistrySource repo
               (if \<not> no_text tag then the tag else if \<not> no_text digest then the digest else ''latest'') use_local n))
      else if \<not> no_text tarball then Inr (TarballSource (the tarball) use_local n)
      else Inl (ValueError ''No package source provided''))"

definition install :: "('c, 'x) env \<Rightarrow> string option \<Rightarrow> string option \<Rightarrow> string option \<Rightarrow> bool \<Rightarrow> string option \<Rightarrow> install_opts \<Rightarrow> ('c, 'x) world cmd" where
  "install E expr repotag tarball use_local n opts =
     attempt (\<lambda>w. get_package_source E expr repotag tarball use_local n (w_db w)) (\<lambda>src.
     act_bind (source_package E src) (\<lambda>p.
     ask (\<lambda>w. is_installed (p_name p) (w_db w)) (\<lambda>inst.
       if inst then upgrade_from_source E src opts else install_from_source E src opts)))"

definition reset :: "('c, 'x) env \<Rightarrow> string \<Rightarrow> bool \<Rightarrow> bool \<Rightarrow> ('c, 'x) world cmd" where
  "reset E n force skip =
     ask (\<lambda>w. is_installed n (w_db w)) (\<lambda>inst.
     attempt (\<lambda>_. failure_ignore force (check_if (\<not> inst) (manager_error n))) (\<lambda>_.
     act_bind (get_installed_package E n False) (\<lambda>p.
     case pe_default_reference (p_entry p) of
       None \<Rightarrow> raise (manager_error n)
     | Some ref \<Rightarrow>
         attempt (\<lambda>w. source_of_reference \<lparr>r_name = n, r_ref = Some ref\<rparr> False (w_db w)) (\<lambda>src.
           upgrade_from_source E src
             \<lparr>o_force = force, o_skip_plugins = skip, o_enable = None, o_owner = None, o_allow_downgrade = Some True\<rparr>))))"

section \<open>Migrating the packages of another image\<close>

definition add_missing_entries :: "pkg_db \<Rightarrow> ('c, 'x) world cmd" where
  "add_missing_entries old =
     each (entries old) (\<lambda>e. ask (\<lambda>w. has_package (w_db w) (pe_name e)) (\<lambda>known.
       if known then finish
       else db_step (add_package (pe_name e) (pe_repository e) (pe_description e) (pe_default_reference e))))"

definition no_opts :: install_opts where
  "no_opts = \<lparr>o_force = False, o_skip_plugins = False, o_enable = None, o_owner = None, o_allow_downgrade = None\<rparr>"

definition shown_version :: "string option \<Rightarrow> string" where
  "shown_version v = (case v of None \<Rightarrow> ''None'' | Some s \<Rightarrow> s)"

definition migrate_package :: "('c, 'x) env \<Rightarrow> bool \<Rightarrow> pkg_entry \<Rightarrow> ('c, 'x) world cmd" where
  "migrate_package E sock old =
     (if sock then act_bind (ext (e_save E (pe_image_id old))) (\<lambda>tar.
        install E None None (Some tar) False (Some (pe_name old)) no_opts)
      else install E (Some (pe_name old @ ''='' @ shown_version (pe_version old))) None None False None no_opts)"

definition migrate_entry :: "('c, 'x) env \<Rightarrow> bool \<Rightarrow> pkg_entry \<Rightarrow> ('c, 'x) world cmd" where
  "migrate_entry E sock old =
     (if \<not> pe_installed old \<or> pe_built_in old then finish
      else seq [attempt (\<lambda>w. get_entry (w_db w) (pe_name old)) (\<lambda>new.
        if pe_installed new then
          attempt (\<lambda>_. version_gt (e_ver E) (pe_version old) (pe_version new)) (\<lambda>newer.
            if newer then migrate_package E sock old else finish)
        else case pe_default_reference new of
          Some ref \<Rightarrow>
            attempt (\<lambda>w. source_of_reference \<lparr>r_name = pe_name new, r_ref = Some ref\<rparr> False (w_db w)) (\<lambda>src.
            act_bind (source_package E src) (\<lambda>p.
            attempt (\<lambda>_. version_gt (e_ver E) (pe_version old) (Some (m_version (p_manifest p)))) (\<lambda>newer.
              if newer then migrate_package E sock old
              else install E None
                (Some ((case pe_repository new of None \<Rightarrow> ''None'' | Some s \<Rightarrow> s) @ '':'' @ ref)) None False (Some (pe_name new)) no_opts)))
        | None \<Rightarrow> migrate_package E sock old),
        commit E])"

definition migrate_packages :: "('c, 'x) env \<Rightarrow> pkg_db \<Rightarrow> bool \<Rightarrow> ('c, 'x) world cmd" where
  "migrate_packages E old sock = seq [add_missing_entries old, each (entries old) (migrate_entry E sock)]"

section \<open>Manifest files of the user\<close>

text \<open>Fetching a file from where the user says is a parameter; it is left in a local file.\<close>

definition local_json :: string where
  "local_json = ''/tmp/local_json''"

definition fetch :: "('c, 'x) env \<Rightarrow> string \<Rightarrow> ('c, 'x, bool) act" where
  "fetch E url w =
     (case e_download E url (w_ext w) of
        (None, x) \<Rightarrow> (Inr False, w\<lparr>w_ext := x, w_files := ddel local_json (w_files w)\<rparr>)
      | (Some s, x) \<Rightarrow> (Inr True, w\<lparr>w_ext := x, w_files := dset local_json s (w_files w)\<rparr>))"

definition checked_manifest :: "('c, 'x) env \<Rightarrow> string \<Rightarrow> string \<Rightarrow> ('c, 'x) world \<Rightarrow> json res" where
  "checked_manifest E n path w =
     rbind (load_json E path w) (\<lambda>j. rbind (manifest_marshal (e_ver E) j) (\<lambda>_. set_names n j))"

definition create_package_manifest :: "('c, 'x) env \<Rightarrow> string \<Rightarrow> string option \<Rightarrow> ('c, 'x) world cmd" where
  "create_package_manifest E n from =
     (let path = path_join manifests_location n in
      ask (\<lambda>w. n = ''default_manifest'' \<or> is_installed n (w_db w) \<or> dhas (w_files w) path) (\<lambda>refused.
        if refused then finish
        else act_bind (if no_text from then act_ret True else fetch E (the from)) (\<lambda>fetched.
          if \<not> fetched then finish
          else attempt (checked_manifest E n (if no_text from then default_manifest_file else local_json)) (\<lambda>j.
            write_file path (e_dumps E j)))))"

definition update_package_manifest :: "('c, 'x) env \<Rightarrow> string \<Rightarrow> string \<Rightarrow> ('c, 'x) world cmd" where
  "update_package_manifest E n from =
     (let path = path_join manifests_location n in
      ask (\<lambda>w. n = ''default_manifest'' \<or> \<not> dhas (w_files w) path) (\<lambda>refused.
        if refused then finish
        else act_bind (fetch E from) (\<lambda>fetched.
          if \<not> fetched then finish
          else attempt (checked_manifest E n local_json) (\<lambda>j. ask (\<lambda>w. is_installed n (w_db w)) (\<lambda>inst.
            write_file (if inst then path_join manifests_location (n @ ''.edit'') else path) (e_dumps E j))))))"

text \<open>The answer of the user to the prompt is an argument.\<close>

definition delete_package_manifest :: "string \<Rightarrow> string \<Rightarrow> ('c, 'x) world cmd" where
  "delete_package_manifest n answer =
     (let path = manifests_location @ ''/'' @ n in
      ask (\<lambda>w. n = ''default_manifest'' \<or> \<not> dhas (w_files w) path) (\<lambda>refused.
        if refused \<or> ascii_lower answer \<noteq> ''y'' then finish else remove_file path))"

end
