(* ===== verification/PkgFacts.thy ===== *)
theory PkgFacts
  imports PkgData
begin

text \<open>
  Facts about the data of the package manager: the checks of a set of packages against what they mean, the
  two directions of marshalling a manifest, and the package database.
\<close>

section \<open>The checks of a set of packages\<close>

lemma fold_res_unit: "fold_res (\<lambda>x _. f x) xs () = Inr () \<longleftrightarrow> list_all (\<lambda>x. f x = Inr ()) xs"
  by (induction xs) (auto simp: res_simps)

definition components_fit :: "semver \<Rightarrow> string dict \<Rightarrow> string dict \<Rightarrow> bool" where
  "components_fit V have cs \<longleftrightarrow>
     list_all (\<lambda>(c, spec). case dget have c of None \<Rightarrow> False | Some v \<Rightarrow> sp_match V spec v) cs"

definition version_fits :: "semver \<Rightarrow> string \<Rightarrow> package \<Rightarrow> bool" where
  "version_fits V spec q \<longleftrightarrow> (case pe_version (p_entry q) of None \<Rightarrow> False | Some v \<Rightarrow> sp_match V spec v)"

text \<open>The dependency names a package of the set, of a version it allows, with the components it asks for.\<close>

definition dependency_met :: "semver \<Rightarrow> package dict \<Rightarrow> package \<Rightarrow> pkg_constraint \<Rightarrow> bool" where
  "dependency_met V ps p dep \<longleftrightarrow>
     (\<exists>n q. pc_name dep = JStr n \<and> dget ps n = Some q \<and> version_fits V (pc_constraint dep) q \<and>
       (\<exists>cs. (if pc_components dep = [] then implicit_components V p else Inr (pc_components dep)) = Inr cs \<and>
             components_fit V (p_components q) cs))"

text \<open>The package is not in the set, or it has a version outside the broken range and no components at all.\<close>

definition conflict_avoided :: "semver \<Rightarrow> package dict \<Rightarrow> pkg_constraint \<Rightarrow> bool" where
  "conflict_avoided V ps con \<longleftrightarrow>
     find_package ps (pc_name con) = Inr None \<or>
     (\<exists>q v. find_package ps (pc_name con) = Inr (Some q) \<and> pe_version (p_entry q) = Some v \<and>
        \<not> sp_match V (pc_constraint con) v \<and> p_components q = [])"

definition package_ok :: "semver \<Rightarrow> package dict \<Rightarrow> package \<Rightarrow> bool" where
  "package_ok V ps p \<longleftrightarrow>
     list_all (dependency_met V ps p) (m_constraints (p_manifest p) [''package'', ''depends'']) \<and>
     list_all (conflict_avoided V ps) (m_constraints (p_manifest p) [''package'', ''breaks''])"

lemma allows_simps [simp]: "allows V c None = Inl AttributeError" "allows V c (Some v) = Inr (sp_match V c v)"
  by (simp_all add: allows_def)

lemma check_components_iff: "check_components V n dep have cs = Inr () \<longleftrightarrow> components_fit V have cs"
proof (induction cs)
  case (Cons p cs)
  then show ?case by (cases p; cases "dget have (fst p)") (auto simp: components_fit_def requirement_error_def)
qed (simp add: components_fit_def)

lemma check_dependency_iff: "check_dependency V ps p dep = Inr () \<longleftrightarrow> dependency_met V ps p dep"
  unfolding check_dependency_def dependency_met_def version_fits_def
  by (cases "pc_name dep")
    (auto simp: find_package_def res_simps allows_def requirement_error_def check_components_iff split: option.splits if_splits)

lemma check_conflict_iff: "check_conflict V ps p con = Inr () \<longleftrightarrow> conflict_avoided V ps con"
proof (cases "find_package ps (pc_name con)")
  case (Inr r)
  then show ?thesis
    unfolding check_conflict_def conflict_avoided_def
    by (cases r; cases "pe_version (p_entry (the r))") (auto simp: requirement_error_def)
qed (simp add: check_conflict_def conflict_avoided_def)

lemma check_package_iff: "check_package V ps p = Inr () \<longleftrightarrow> package_ok V ps p"
  unfolding check_package_def package_ok_def
  by (auto simp: res_simps fold_res_unit check_dependency_iff check_conflict_iff list_all_iff)

lemma validate_tree_iff: "validate_package_tree V ps = Inr () \<longleftrightarrow> list_all (\<lambda>x. package_ok V ps (snd x)) ps"
proof -
  have eq: "(\<lambda>(n, p) (_::unit). check_package V ps p) = (\<lambda>x _. check_package V ps (snd x))" by (auto simp: fun_eq_iff)
  show ?thesis unfolding validate_package_tree_def eq by (simp add: fold_res_unit check_package_iff)
qed

section \<open>Marshalling\<close>

text \<open>
  The documented laws of semantic_version: the text of a parsed version or constraint parses to itself, and
  a constraint has a text.
\<close>

locale semver_laws =
  fixes V :: semver
  assumes version_text: "sv_parse V s = Some v \<Longrightarrow> sv_parse V v = Some v"
    and constraint_text: "sp_parse V s = Some c \<Longrightarrow> sp_parse V c = Some c \<and> c \<noteq> []"
    and first_version: "sv_parse V ''1.0.0'' = Some ''1.0.0''"

fun typed :: "semver \<Rightarrow> marshaller \<Rightarrow> mval \<Rightarrow> bool" where
  "typed V (Parsed PVersion) (VVersion s) = (sv_parse V s = Some s)"
| "typed V (Parsed PComponents) (VComponents cs) = list_all (\<lambda>(c, s). sp_parse V s = Some s) cs"
| "typed V (Parsed PPackage) (VPackage c) =
     (sp_parse V (pc_constraint c) = Some (pc_constraint c) \<and> pc_constraint c \<noteq> [] \<and>
      list_all (\<lambda>(c, s). sp_parse V s = Some s) (pc_components c))"
| "typed V (Default t) (VJson j) = is_kind t j"
| "typed V (Listing t) (VList vs) = list_all (\<lambda>v. case v of VJson j \<Rightarrow> is_kind t j | _ \<Rightarrow> False) vs"
| "typed V (Root k items) (VDict d) = list_all2 (\<lambda>i (k', v). k' = node_key i \<and> typed V i v) items d"
| "typed V (Field k t def) v = typed V t v"
| "typed V (Array k t) (VList vs) = list_all (typed V t) vs"
| "typed V _ _ = False"

text \<open>Keys of a node are distinct, defaults have the type of their field.\<close>

fun well_formed :: "semver \<Rightarrow> marshaller \<Rightarrow> bool" where
  "well_formed V (Root k items) = (distinct (map node_key items) \<and> list_all (well_formed V) items)"
| "well_formed V (Field k t def) = (well_formed V t \<and> (case def of None \<Rightarrow> True | Some v \<Rightarrow> typed V t v))"
| "well_formed V (Array k t) = well_formed V t"
| "well_formed V _ = True"

context semver_laws
begin

lemma components_typed:
  assumes "components_parse V j = Inr cs"
  shows "list_all (\<lambda>(c, s). sp_parse V s = Some s) cs"
proof -
  from assms obtain d where d: "map_res (\<lambda>(c, e). rbind (constraint_parse V e) (\<lambda>s. Inr (c, s))) d = Inr cs"
    by (auto simp: components_parse_def split: json.splits)
  then show ?thesis
  proof (induction d arbitrary: cs)
    case (Cons p d)
    then show ?case
      by (cases p) (auto simp: res_simps constraint_parse_def constraint_text split: json.splits option.splits)
  qed simp
qed

lemma constraint_typed: "constraint_parse V j = Inr c \<Longrightarrow> sp_parse V c = Some c \<and> c \<noteq> []"
  using constraint_text by (auto simp: constraint_parse_def split: json.splits option.splits)

lemma package_constraint_typed:
  assumes "package_constraint_parse V j = Inr c"
  shows "typed V (Parsed PPackage) (VPackage c)"
  using assms
  by (cases j) (auto simp: package_constraint_parse_def constraint_from_string_def constraint_from_dict_def Let_def res_simps
      split: if_splits dest: constraint_typed components_typed)

lemma parsed_typed: "parsed_marshal V t j = Inr v \<Longrightarrow> typed V (Parsed t) v"
proof (cases t)
  case PVersion
  moreover assume "parsed_marshal V t j = Inr v"
  ultimately show ?thesis
    by (auto simp: parsed_marshal_def parse_value_def version_parse_def version_text
        split: sum.splits json.splits option.splits)
next
  case PComponents
  moreover assume "parsed_marshal V t j = Inr v"
  ultimately show ?thesis
    by (auto simp: parsed_marshal_def parse_value_def res_simps split: sum.splits dest: components_typed)
next
  case PPackage
  moreover assume "parsed_marshal V t j = Inr v"
  ultimately show ?thesis
    by (auto simp del: typed.simps simp: parsed_marshal_def parse_value_def res_simps split: sum.splits dest: package_constraint_typed)
qed

lemma marshal_typed: "well_formed V m \<Longrightarrow> marshal V m j = Inr v \<Longrightarrow> typed V m v"
proof (induction m arbitrary: j v)
  case (Parsed t)
  then show ?case using parsed_typed by simp
next
  case (Root k items)
  then obtain d r where v: "v = VDict r"
    and r: "map_res (\<lambda>i. rbind (marshal V i (get_or_null d (node_key i))) (\<lambda>v. Inr (node_key i, v))) items = Inr r"
    by (auto simp: res_simps split: json.splits if_splits)
  have "list_all2 (\<lambda>i (k', v). k' = node_key i \<and> typed V i v) items r"
    using r Root.IH Root.prems(1) unfolding map_res_Inr_iff
    by (auto simp: list_all2_conv_all_nth list_all_length res_simps split: prod.splits)
  with v show ?case by simp
next
  case (Field k t def)
  then show ?case by (auto split: if_splits option.splits sum.splits)
next
  case (Array k t)
  then obtain xs vs where v: "v = VList vs" and vs: "map_res (marshal V t) xs = Inr vs"
    by (cases "if truthy j then j else JList []") (auto split: sum.splits)
  then have "list_all (typed V t) vs"
    using Array unfolding map_res_Inr_iff list_all2_conv_all_nth list_all_length by auto
  with v show ?case by simp
qed (auto split: if_splits json.splits simp: list_all_iff)

text \<open>A marshalled value is written out to a document that marshals to it.\<close>

lemma components_back:
  assumes "list_all (\<lambda>(c, s). sp_parse V s = Some s) cs"
  shows "components_parse V (components_deparse cs) = Inr cs"
proof -
  have "map_res (\<lambda>(c, e). rbind (constraint_parse V e) (\<lambda>s. Inr (c, s))) (map (\<lambda>(c, s). (c, JStr s)) cs) = Inr cs"
    using assms by (induction cs) (auto simp: constraint_parse_def)
  then show ?thesis by (simp add: components_parse_def components_deparse_def)
qed

lemma parsed_back:
  assumes "typed V (Parsed t) v"
  shows "\<exists>j. parsed_unmarshal v = Inr j \<and> j \<noteq> JNull \<and> parsed_marshal V t j = Inr v"
proof (cases t)
  case PVersion
  with assms show ?thesis
    by (cases v) (auto simp: parsed_unmarshal_def parsed_marshal_def parse_value_def version_parse_def)
next
  case PComponents
  with assms show ?thesis
    by (cases v) (auto simp: parsed_unmarshal_def parsed_marshal_def parse_value_def components_back,
      simp add: components_deparse_def)
next
  case PPackage
  with assms obtain c where v: "v = VPackage c" and c: "sp_parse V (pc_constraint c) = Some (pc_constraint c)" "pc_constraint c \<noteq> []"
    "list_all (\<lambda>(c, s). sp_parse V s = Some s) (pc_components c)" by (cases v) auto
  then have "package_constraint_parse V (package_constraint_deparse c) = Inr c"
    by (simp add: package_constraint_parse_def package_constraint_deparse_def constraint_from_dict_def constraint_parse_def components_back)
  with v PPackage show ?thesis
    by (simp add: parsed_unmarshal_def parsed_marshal_def parse_value_def) (simp add: package_constraint_deparse_def)
qed

lemma listing_back:
  "list_all (\<lambda>v. case v of VJson j \<Rightarrow> is_kind t j | _ \<Rightarrow> False) vs \<Longrightarrow>
    \<exists>js. vs = map VJson js \<and> map_res plain_json vs = Inr js \<and> list_all (is_kind t) js"
proof (induction vs)
  case (Cons v vs)
  then obtain js where "vs = map VJson js" "map_res plain_json vs = Inr js" "list_all (is_kind t) js" by auto
  with Cons.prems show ?case by (cases v) (auto intro!: exI [of _ "j # js" for j])
qed simp

lemma list_all2_choice: "(\<And>x. x \<in> set xs \<Longrightarrow> \<exists>y. P x y) \<Longrightarrow> \<exists>ys. list_all2 P xs ys"
proof (induction xs)
  case (Cons x xs)
  then obtain y ys where "P x y" "list_all2 P xs ys" by (meson list.set_intros)
  then show ?case by blast
qed (auto intro: exI [of _ "[]"])

lemma dget_list_all2:
  assumes "list_all2 (\<lambda>i p. fst p = f i \<and> P i (snd p)) items d" and "distinct (map f items)" and "i \<in> set items"
  shows "\<exists>v. dget d (f i) = Some v \<and> P i v"
  using assms
proof (induction items d rule: list_all2_induct)
  case (Cons x xs y ys)
  then show ?case by (cases y) (auto simp: image_iff)
qed simp

lemma marshal_back:
  "well_formed V m \<Longrightarrow> typed V m v \<Longrightarrow> \<exists>j. unmarshal m v = Inr j \<and> j \<noteq> JNull \<and> marshal V m j = Inr v"
proof (induction m arbitrary: v)
  case (Parsed t)
  then show ?case using parsed_back by simp
next
  case (Default t)
  then show ?case by (cases v; cases t) (auto elim!: is_kind.elims)
next
  case (Listing t)
  then obtain vs where v: "v = VList vs" and vs: "list_all (\<lambda>v. case v of VJson j \<Rightarrow> is_kind t j | _ \<Rightarrow> False) vs" by (cases v) auto
  from listing_back [OF vs] v show ?case by auto
next
  case (Root k items)
  then obtain d where v: "v = VDict d" and "list_all2 (\<lambda>i (k', v). k' = node_key i \<and> typed V i v) items d" by (cases v) auto
  then have d: "list_all2 (\<lambda>i p. fst p = node_key i \<and> typed V i (snd p)) items d"
    by (auto elim!: list_all2_mono)
  have dist: "distinct (map node_key items)" using Root.prems by simp
  let ?P = "\<lambda>i p. fst p = node_key i \<and> (\<exists>x. dget d (node_key i) = Some x \<and> unmarshal i x = Inr (snd p) \<and> marshal V i (snd p) = Inr x)"
  have step: "\<exists>p. ?P i p" if i: "i \<in> set items" for i
  proof -
    obtain x where x: "dget d (node_key i) = Some x" "typed V i x" using dget_list_all2 [OF d dist i] by blast
    then obtain j where "unmarshal i x = Inr j" "marshal V i j = Inr x"
      using Root.IH [OF i] Root.prems(1) i by (auto simp: list_all_iff)
    with x show ?thesis by (intro exI [of _ "(node_key i, j)"]) simp
  qed
  have "\<exists>r. list_all2 ?P items r" by (rule list_all2_choice) (rule step)
  then obtain r where r: "list_all2 ?P items r" by blast
  have out: "map_res (\<lambda>i. rbind (case dget d (node_key i) of None \<Rightarrow> Inl (KeyError (node_key i)) | Some x \<Rightarrow> unmarshal i x)
      (\<lambda>j. Inr (node_key i, j))) items = Inr r"
    unfolding map_res_Inr_iff by (rule list_all2_mono [OF r]) auto
  have "marshal V i (get_or_null r (node_key i)) = Inr x" if "i \<in> set items" "dget d (node_key i) = Some x" for i x
    using dget_list_all2 [OF r dist that(1)] that(2) by (auto simp: get_or_null_def)
  moreover have "map fst d = map node_key items"
    using d by (induction items d rule: list_all2_induct) auto
  with dist have "distinct (dkeys d)" by (simp add: dkeys_def)
  ultimately have "list_all2 (\<lambda>i p. rbind (marshal V i (get_or_null r (node_key i))) (\<lambda>v. Inr (node_key i, v)) = Inr p) items d"
    by (intro list.rel_mono_strong [OF d]) (metis dget_Some_iff prod.collapse rbind_simps(2))
  then have "map_res (\<lambda>i. rbind (marshal V i (get_or_null r (node_key i))) (\<lambda>v. Inr (node_key i, v))) items = Inr d"
    unfolding map_res_Inr_iff .
  with out v show ?case by (cases r) auto
next
  case (Field k t def)
  then obtain j where "unmarshal t v = Inr j" "j \<noteq> JNull" "marshal V t j = Inr v" by fastforce
  then show ?case by simp
next
  case (Array k t)
  then obtain vs where v: "v = VList vs" and vs: "list_all (typed V t) vs" by (cases v) auto
  have "\<exists>js. map_res (unmarshal t) vs = Inr js \<and> map_res (marshal V t) js = Inr vs"
    using vs
  proof (induction vs)
    case (Cons x xs)
    then obtain js j where "map_res (unmarshal t) xs = Inr js" "map_res (marshal V t) js = Inr xs"
      "unmarshal t x = Inr j" "marshal V t j = Inr x" using Array.IH [of x] Array.prems by auto
    then show ?case by (intro exI [of _ "j # js"]) simp
  qed simp
  then obtain js where "map_res (unmarshal t) vs = Inr js" "map_res (marshal V t) js = Inr vs" by blast
  with v show ?case by (cases js) auto
qed

lemma manifest_schema_well_formed: "well_formed V manifest_schema"
  using first_version
  by (simp add: manifest_schema_def package_schema_def service_schema_def container_schema_def processes_schema_def cli_schema_def)

end

text \<open>Nodes below a root are roots, fields and arrays; then marshalling only fails with a \<open>ManifestError\<close>.\<close>

fun is_node :: "marshaller \<Rightarrow> bool" where
  "is_node (Root k items) = list_all is_node items"
| "is_node (Field k t def) = True"
| "is_node (Array k t) = True"
| "is_node _ = False"

lemma map_res_Inl: "map_res f xs = Inl e \<Longrightarrow> \<exists>x \<in> set xs. f x = Inl e"
  by (induction xs) (auto simp: res_simps)

lemma node_error: "is_node m \<Longrightarrow> marshal V m j = Inl e \<Longrightarrow> \<exists>k. e = Raised ''ManifestError'' [k]"
proof (induction m arbitrary: j e)
  case (Root k items)
  show ?case
  proof (cases "if truthy j then j else JObj []")
    case (JObj d)
    with Root.prems(2) obtain i where "i \<in> set items" "marshal V i (get_or_null d (node_key i)) = Inl e"
      by (auto simp: res_simps dest!: map_res_Inl)
    with Root show ?thesis by (auto simp: list_all_iff)
  qed (use Root.prems(2) in auto)
next
  case (Field k t def)
  then show ?case by (auto split: if_splits option.splits sum.splits)
next
  case (Array k t)
  then show ?case by (cases "if truthy j then j else JList []") (auto split: sum.splits)
qed auto

section \<open>The package database\<close>

lemma opt_str_json [simp]: "opt_str (Some (str_json s)) = Inr s"
  by (cases s) simp_all

text \<open>Versions in the database are parsed versions, and a key is the name of its entry.\<close>

definition entry_ok :: "semver \<Rightarrow> string \<times> pkg_entry \<Rightarrow> bool" where
  "entry_ok V p \<longleftrightarrow> pe_name (snd p) = fst p \<and> (case pe_version (snd p) of None \<Rightarrow> True | Some v \<Rightarrow> v = [] \<or> sv_parse V v = Some v)"

lemma opt_version_json:
  "(case v of None \<Rightarrow> True | Some s \<Rightarrow> s = [] \<or> sv_parse V s = Some s) \<Longrightarrow> opt_version V (Some (str_json v)) = Inr v"
  by (cases v) (auto simp: opt_version_def version_parse_def)

lemma package_dict_back: "entry_ok V (n, e) \<Longrightarrow> package_from_dict V n (package_to_dict e) = Inr e"
  by (simp add: package_from_dict_def package_to_dict_def entry_ok_def opt_version_json)

lemma db_back: "list_all (entry_ok V) db \<Longrightarrow> db_from_json V (db_to_json db) = Inr db"
proof -
  have "map_res (\<lambda>(n, i). case i of JObj fs \<Rightarrow> rbind (package_from_dict V n fs) (\<lambda>e. Inr (n, e)) | _ \<Rightarrow> Inl AttributeError)
      (map (\<lambda>(n, e). (n, JObj (package_to_dict e))) db) = Inr db" if "list_all (entry_ok V) db"
    using that by (induction db) (auto simp: package_dict_back)
  then show "list_all (entry_ok V) db \<Longrightarrow> db_from_json V (db_to_json db) = Inr db"
    by (simp add: db_from_json_def db_to_json_def)
qed

end
