(* ===== verification/PkgSteps.thy ===== *)
theory PkgSteps
  imports PkgManager PkgFacts
begin

text \<open>
  Facts about the operations of the package manager: the two kinds of connectors keep one contract, the
  registry of features, what the steps leave alone, and the order of shutdown.
\<close>

section \<open>The connector of init_cfg.json\<close>

lemma pers_table_dset [simp]: "pers_table t (dset u tbl cfg) = (if upper t = u then tbl else pers_table t cfg)"
  by (simp add: pers_table_def)

lemma pers_table_del:
  "dget (pers_table t (pers_del_key u k' cfg)) k = (if upper t = u \<and> k = k' then None else dget (pers_table t cfg) k)"
proof (cases "dget cfg u")
  case None
  then show ?thesis by (auto simp: pers_del_key_def pers_table_def)
next
  case (Some tbl)
  show ?thesis
  proof (cases "ddel k' tbl = []")
    case True
    then have "dget tbl k = None" if "k \<noteq> k'" using dget_ddel [of k' tbl k] that by simp
    with True Some show ?thesis by (auto simp: pers_del_key_def pers_del_table_def pers_table_def)
  next
    case False
    with Some show ?thesis by (auto simp: pers_del_key_def pers_table_def)
  qed
qed

interpretation pers_store: config_store pers "\<lambda>j. j"
proof unfold_locales
  fix t k f t' k' fv c
  show "cfield pers t k f (cn_set pers t' k' (Some fv) c) =
      (if upper t = upper t' \<and> k = k' then map_option (\<lambda>j. j) (dget fv f) else cfield pers t k f c)"
    by (auto simp: cfield_def pers_def pers_set_entry_def pers_get_entry_def pers_table_def option.map_ident)
  show "cfield pers t k f (cn_set pers t' k' None c) = (if upper t = upper t' \<and> k = k' then None else cfield pers t k f c)"
    by (simp add: cfield_def pers_def pers_set_entry_def pers_get_entry_def pers_table_del)
  show "cfield pers t k f (cn_mod pers t' k' fv c) =
      (if upper t = upper t' \<and> k = k' then (case dget fv f of Some v \<Rightarrow> Some v | None \<Rightarrow> cfield pers t k f c) else cfield pers t k f c)"
    by (auto simp: cfield_def pers_def pers_mod_entry_def pers_get_entry_def pers_table_def split: option.splits)
  show "cfield pers t k f c = (case dget (cn_config pers c) (upper t) of None \<Rightarrow> None
      | Some tbl \<Rightarrow> (case dget tbl k of None \<Rightarrow> None | Some e \<Rightarrow> dget e f))"
    by (auto simp: cfield_def pers_def pers_get_entry_def pers_table_def split: option.splits)
qed simp_all

section \<open>Features\<close>

abbreviation (input) "setting C n f c \<equiv> cfield C ''FEATURE'' n f c"

text \<open>Fixed fields win over what is stored, what is stored over the defaults.\<close>

definition overlaid :: "fields \<Rightarrow> fields \<Rightarrow> string \<Rightarrow> json option \<Rightarrow> json option" where
  "overlaid fixed defaults f current =
     (case dget fixed f of Some v \<Rightarrow> Some v | None \<Rightarrow> (case current of Some v \<Rightarrow> Some v | None \<Rightarrow> dget defaults f))"

definition texts_only :: "fields \<Rightarrow> bool" where
  "texts_only fv = list_all (\<lambda>(f, v). case v of JStr _ \<Rightarrow> True | _ \<Rightarrow> False) fv"

lemma upper_tables:
  "upper ''FEATURE'' = ''FEATURE''" "upper ''AUTO_TECHSUPPORT_FEATURE'' = ''AUTO_TECHSUPPORT_FEATURE''"
  "upper ''SYSLOG_CONFIG_FEATURE'' = ''SYSLOG_CONFIG_FEATURE''"
  by code_simp+

lemma texts_only_entries: "texts_only (default_feature_entries state owner)" "texts_only (non_configurable_entries m)"
  by (simp_all add: texts_only_def default_feature_entries_def default_feature_config_def non_configurable_entries_def str_bool_def Let_def)

context config_store
begin

lemma norm_texts: "texts_only fv \<Longrightarrow> dget fv f = Some v \<Longrightarrow> norm v = v"
  by (drule dget_SomeD) (auto simp: texts_only_def list_all_iff norm_text split: json.splits)

lemma norm_option: "texts_only fv \<Longrightarrow> map_option norm (dget fv f) = dget fv f"
  by (cases "dget fv f") (auto simp: norm_texts)

lemma register_setting:
  assumes "texts_only cfg" and "texts_only fixed"
  shows "setting C n f (register_on C n cfg fixed c) = overlaid fixed cfg f (setting C n f c)"
proof -
  have "dget (cn_entry C ''FEATURE'' n c) f = setting C n f c" by (simp add: cfield_def)
  then show ?thesis
    using assms norm_stored [of "''FEATURE''" n f c]
    by (auto simp: register_on_def set_entry overlaid_def norm_texts norm_option split: option.splits)
qed

lemma update_setting:
  assumes "texts_only fixed"
  shows "setting C new f (update_on C old new fixed c) = overlaid fixed [] f (setting C old f c)"
    and "old \<noteq> new \<Longrightarrow> setting C old f (update_on C old new fixed c) = None"
proof -
  have "dget (cn_entry C ''FEATURE'' old c) f = setting C old f c" by (simp add: cfield_def)
  then show "setting C new f (update_on C old new fixed c) = overlaid fixed [] f (setting C old f c)"
    using assms norm_stored [of "''FEATURE''" old f c]
    by (auto simp: update_on_def set_entry overlaid_def norm_texts norm_option split: option.splits)
  show "old \<noteq> new \<Longrightarrow> setting C old f (update_on C old new fixed c) = None"
    by (simp add: update_on_def set_entry unset_entry)
qed

lemma move_entry_setting:
  "upper t \<noteq> ''FEATURE'' \<Longrightarrow> setting C n f (move_entry C t def new old c) = setting C n f c"
  by (auto simp: move_entry_def set_entry unset_entry upper_tables split: option.splits)

end

text \<open>The steps after the first touch other tables.\<close>

lemma register_auto_ts_setting:
  assumes "config_store (e_conn E) norm"
  shows "setting pers n f (w_init (register_auto_ts E new old w)) = setting pers n f (w_init w)"
    and "map (setting (e_conn E) n f) (w_run (register_auto_ts E new old w)) = map (setting (e_conn E) n f) (w_run w)"
  by (auto simp: register_auto_ts_def on_all_def Let_def pers_store.move_entry_setting upper_tables
      config_store.move_entry_setting [OF assms] split: option.splits)

lemma register_syslog_setting:
  assumes "config_store (e_conn E) norm"
  shows "setting pers n f (w_init (register_syslog_config E new old w)) = setting pers n f (w_init w)"
    and "map (setting (e_conn E) n f) (w_run (register_syslog_config E new old w)) = map (setting (e_conn E) n f) (w_run w)"
  by (auto simp: register_syslog_config_def on_all_def pers_store.move_entry_setting upper_tables
      config_store.move_entry_setting [OF assms])

lemmas later_settings = register_auto_ts_setting register_syslog_setting

lemma register_settings:
  assumes "config_store (e_conn E) norm"
  shows "setting pers (m_service m) f (w_init (snd (feature_register E m state owner w))) =
      overlaid (non_configurable_entries m) (default_feature_entries state owner) f (setting pers (m_service m) f (w_init w))"
    and "map (setting (e_conn E) (m_service m) f) (w_run (snd (feature_register E m state owner w))) =
      map (\<lambda>c. overlaid (non_configurable_entries m) (default_feature_entries state owner) f (setting (e_conn E) (m_service m) f c)) (w_run w)"
  by (simp_all add: feature_register_def Let_def put_def later_settings [OF assms] on_all_def finish_def
      pers_store.register_setting config_store.register_setting [OF assms] texts_only_entries comp_def)

lemma update_settings:
  assumes "config_store (e_conn E) norm"
  shows "setting pers (m_service new) f (w_init (snd (feature_update E old new w))) =
      overlaid (non_configurable_entries new) [] f (setting pers (m_service old) f (w_init w))"
    and "map (setting (e_conn E) (m_service new) f) (w_run (snd (feature_update E old new w))) =
      map (\<lambda>c. overlaid (non_configurable_entries new) [] f (setting (e_conn E) (m_service old) f c)) (w_run w)"
  by (simp_all add: feature_update_def Let_def put_def later_settings [OF assms] on_all_def finish_def
      pers_store.update_setting config_store.update_setting [OF assms] texts_only_entries comp_def)

section \<open>The order of shutdown\<close>

definition precedes :: "'a list \<Rightarrow> 'a \<Rightarrow> 'a \<Rightarrow> bool" where
  "precedes xs a b \<longleftrightarrow> a \<noteq> b \<and> a \<in> set xs \<and> b \<in> set (dropWhile (\<lambda>x. x \<noteq> a) xs)"

lemma precedes_split: "a \<in> set us \<Longrightarrow> b \<in> set ws \<Longrightarrow> a \<noteq> b \<Longrightarrow> precedes (us @ ws) a b"
  by (induction us) (auto simp: precedes_def)

lemma precedes_append: "precedes us a b \<Longrightarrow> precedes (us @ ws) a b"
  by (induction us) (auto simp: precedes_def split: if_splits)

text \<open>An edge from a service to one that has to go down before it.\<close>

definition edge :: "string list dict \<Rightarrow> string \<Rightarrow> string \<Rightarrow> bool" where
  "edge g n s \<longleftrightarrow> (case dget g n of None \<Rightarrow> False | Some ss \<Rightarrow> s \<in> set ss)"

text \<open>
  toposort: what a service depends on comes first, a dependency on itself is ignored, and only a cycle makes
  it fail.
\<close>

locale toposort_laws =
  fixes topo :: "string list dict \<Rightarrow> string list option"
  assumes dependencies_first: "topo g = Some order \<Longrightarrow> edge g n s \<Longrightarrow> s \<noteq> n \<Longrightarrow> precedes order s n"
    and only_cycles_fail: "acyclic {(n, s). edge g n s \<and> s \<noteq> n} \<Longrightarrow> topo g \<noteq> None"

subsection \<open>An instance\<close>

text \<open>Level by level: the nodes whose dependencies are all placed.\<close>

definition ready :: "string list dict \<Rightarrow> string list \<Rightarrow> string \<Rightarrow> bool" where
  "ready g placed n \<longleftrightarrow>
     (case dget g n of None \<Rightarrow> True | Some ss \<Rightarrow> list_all (\<lambda>s. s = n \<or> s \<in> set placed) ss)"

fun levels :: "nat \<Rightarrow> string list dict \<Rightarrow> string list \<Rightarrow> string list \<Rightarrow> string list option" where
  "levels 0 g rest placed = (if rest = [] then Some placed else None)"
| "levels (Suc k) g rest placed =
     (if rest = [] then Some placed
      else let now = filter (ready g placed) rest in
           if now = [] then None
           else levels k g (filter (\<lambda>n. \<not> ready g placed n) rest) (placed @ now))"

definition graph_nodes :: "string list dict \<Rightarrow> string list" where
  "graph_nodes g = dedup (dkeys g @ concat (map snd g))"

definition level_sort :: "string list dict \<Rightarrow> string list option" where
  "level_sort g = levels (length (graph_nodes g)) g (graph_nodes g) []"

lemma ready_edge: "ready g placed n \<longleftrightarrow> (\<forall>s. edge g n s \<longrightarrow> s \<noteq> n \<longrightarrow> s \<in> set placed)"
  by (auto simp: ready_def edge_def list_all_iff split: option.splits)

lemma edge_nodes: "edge g n s \<Longrightarrow> n \<in> set (graph_nodes g) \<and> s \<in> set (graph_nodes g)"
proof -
  assume "edge g n s"
  then obtain ss where ss: "(n, ss) \<in> set g" "s \<in> set ss" by (auto simp: edge_def split: option.splits dest: dget_SomeD)
  then have "n \<in> fst ` set g" "ss \<in> snd ` set g" by force+
  with ss(2) show ?thesis by (auto simp: graph_nodes_def dkeys_def)
qed

lemma levels_order:
  assumes "levels k g rest placed = Some order"
    and "\<And>n s. n \<in> set placed \<Longrightarrow> edge g n s \<Longrightarrow> s \<noteq> n \<Longrightarrow> precedes placed s n"
    and "n \<in> set placed \<union> set rest" and "edge g n s" and "s \<noteq> n"
  shows "precedes order s n"
  using assms
proof (induction k arbitrary: rest placed)
  case (Suc k)
  let ?now = "filter (ready g placed) rest"
  show ?case
  proof (cases "rest = []")
    case False
    have *: "levels k g (filter (\<lambda>n. \<not> ready g placed n) rest) (placed @ ?now) = Some order"
    proof (cases "?now = []")
      case True
      with Suc.prems(1) False show ?thesis by (simp only: levels.simps Let_def if_True if_False refl option.distinct)
    next
      case now: False
      with Suc.prems(1) False show ?thesis by (simp only: levels.simps Let_def if_False)
    qed
    show ?thesis
    proof (rule Suc.IH [OF *])
      fix n s assume n: "n \<in> set (placed @ ?now)" and e: "edge g n s" "s \<noteq> n"
      show "precedes (placed @ ?now) s n"
      proof (cases "n \<in> set placed")
        case True
        show ?thesis by (rule precedes_append) (rule Suc.prems(2) [OF True e])
      next
        case False
        with n e have "n \<in> set ?now" "s \<in> set placed" by (auto simp: ready_edge)
        with e show ?thesis by (intro precedes_split) auto
      qed
    next
      show "n \<in> set (placed @ ?now) \<union> set (filter (\<lambda>n. \<not> ready g placed n) rest)" using Suc.prems(3) by auto
    qed (fact Suc.prems(4) Suc.prems(5))+
  next
    case True
    with Suc.prems show ?thesis by simp
  qed
next
  case 0
  then show ?case by (cases "rest = []") simp_all
qed

lemma levels_total:
  assumes "acyclic {(n, s). edge g n s \<and> s \<noteq> n}" and "length rest \<le> k"
    and "\<And>n s. n \<in> set rest \<Longrightarrow> edge g n s \<Longrightarrow> s \<in> set placed \<union> set rest"
  shows "levels k g rest placed \<noteq> None"
  using assms(2,3)
proof (induction k arbitrary: rest placed)
  case (Suc k)
  let ?now = "filter (ready g placed) rest" and ?later = "filter (\<lambda>n. \<not> ready g placed n) rest"
  show ?case
  proof (cases "rest = []")
    case False
    have "finite {(n, s). edge g n s \<and> s \<noteq> n}"
      by (rule finite_subset [of _ "set (graph_nodes g) \<times> set (graph_nodes g)"]) (auto dest: edge_nodes)
    then have "wf ({(n, s). edge g n s \<and> s \<noteq> n}\<inverse>)" using assms(1) finite_acyclic_wf_converse by blast
    then obtain n where n: "n \<in> set rest" "\<And>s. (s, n) \<in> {(n, s). edge g n s \<and> s \<noteq> n}\<inverse> \<Longrightarrow> s \<notin> set rest"
      by (rule wfE_min [of _ "hd rest" "set rest"]) (use False in auto)
    then have "ready g placed n" using Suc.prems(2) by (fastforce simp: ready_edge)
    with n have now: "n \<in> set ?now" by simp
    then have ne: "?now \<noteq> []" by force
    have "length ?now + length ?later = length rest" by (rule sum_length_filter_compl)
    moreover have "0 < length ?now" using ne by blast
    ultimately have "length ?later \<le> k" using Suc.prems(1) by linarith
    moreover have "\<And>n s. n \<in> set ?later \<Longrightarrow> edge g n s \<Longrightarrow> s \<in> set (placed @ ?now) \<union> set ?later" using Suc.prems(2) by auto
    ultimately have "levels k g ?later (placed @ ?now) \<noteq> None" by (rule Suc.IH)
    with False ne show ?thesis by (simp add: Let_def)
  qed simp
qed simp

interpretation level_sort: toposort_laws level_sort
proof unfold_locales
  fix g order n s
  assume "level_sort g = Some order" "edge g n s" "s \<noteq> n"
  then show "precedes order s n"
    using levels_order [of "length (graph_nodes g)" g "graph_nodes g" "[]" order n s] edge_nodes [of g n s]
    by (simp add: level_sort_def)
next
  fix g assume "acyclic {(n, s). edge g n s \<and> s \<noteq> n}"
  then show "level_sort g \<noteq> None" unfolding level_sort_def by (rule levels_total) (auto dest: edge_nodes)
qed

subsection \<open>The graph of the packages\<close>

lemma edge_graph_add: "edge (graph_add n ss g) m s \<longleftrightarrow> edge g m s \<or> (m = n \<and> s \<in> set ss)"
  by (auto simp: edge_def graph_add_def split: option.splits)

lemma edge_adds: "edge (foldl (\<lambda>g s. graph_add s [n] g) g bs) m s \<longleftrightarrow> edge g m s \<or> (m \<in> set bs \<and> s = n)"
  by (induction bs arbitrary: g) (auto simp: edge_graph_add)

text \<open>Where a package wants its service with respect to the other services of the set.\<close>

definition shutdown_after :: "string \<Rightarrow> package \<Rightarrow> string list" where
  "shutdown_after reboot p = m_texts (p_manifest p) [''service'', reboot @ ''-shutdown'', ''after'']"

definition shutdown_before :: "string \<Rightarrow> package \<Rightarrow> string list" where
  "shutdown_before reboot p = m_texts (p_manifest p) [''service'', reboot @ ''-shutdown'', ''before'']"

definition wants :: "package dict \<Rightarrow> string \<Rightarrow> package \<Rightarrow> string \<Rightarrow> string \<Rightarrow> bool" where
  "wants ps reboot p n s \<longleftrightarrow>
     (n = m_service (p_manifest p) \<and> s \<in> set (shutdown_after reboot p) \<and> service_exists ps s) \<or>
     (s = m_service (p_manifest p) \<and> n \<in> set (shutdown_before reboot p) \<and> service_exists ps n)"

lemma edge_add_shutdown: "edge (add_shutdown ps reboot p g) n s \<longleftrightarrow> edge g n s \<or> wants ps reboot p n s"
  by (auto simp: add_shutdown_def Let_def edge_adds edge_graph_add wants_def shutdown_after_def shutdown_before_def filter_empty_conv)

lemma edge_shutdown_graph: "edge (shutdown_graph reboot ps) n s \<longleftrightarrow> (\<exists>(k, p) \<in> set ps. wants ps reboot p n s)"
proof -
  have *: "edge (foldl (\<lambda>g (_, p). add_shutdown ps reboot p g) g qs) n s \<longleftrightarrow> edge g n s \<or> (\<exists>(k, p) \<in> set qs. wants ps reboot p n s)" for g qs
    by (induction qs arbitrary: g) (auto simp: edge_add_shutdown)
  show ?thesis unfolding shutdown_graph_def * by (simp add: edge_def)
qed

context toposort_laws
begin

lemma shutdown_respects:
  assumes "topo (shutdown_graph reboot ps) = Some order" and "(k, p) \<in> set ps" and "wants ps reboot p n s" and "s \<noteq> n"
  shows "precedes order s n"
  using assms edge_shutdown_graph by (intro dependencies_first) blast+

end

end
