(* ===== verification/PkgRuns.thy ===== *)
theory PkgRuns
  imports PkgSteps
begin

text \<open>
  What whole operations of the package manager do to the package database and to the files of a service,
  when they return and when they raise.
\<close>

section \<open>What a step leaves alone\<close>

definition unchanged :: "('s \<Rightarrow> 'v) \<Rightarrow> ('s \<Rightarrow> 'r \<times> 's) \<Rightarrow> bool" where
  "unchanged g m \<longleftrightarrow> (\<forall>s. g (snd (m s)) = g s)"

lemma unchangedD: "unchanged g m \<Longrightarrow> m s = (r, s') \<Longrightarrow> g s' = g s"
  by (metis snd_conv unchanged_def)

named_theorems unchanged_intros

lemma unchanged_combinators [unchanged_intros]:
  "unchanged g finish" "unchanged g (raise e)" "unchanged g (seq [])"
  "unchanged g m \<Longrightarrow> unchanged g (seq ms) \<Longrightarrow> unchanged g (seq (m # ms))"
  "(\<And>x. unchanged g (k x)) \<Longrightarrow> unchanged g (ask f k)"
  "(\<And>x. unchanged g (k x)) \<Longrightarrow> unchanged g (attempt r k)"
  by (auto simp: unchanged_def finish_def raise_def ask_def attempt_def split: prod.splits sum.splits)
    (metis snd_conv)+

lemma unchanged_acts [unchanged_intros]:
  "unchanged g (act_ret x)" "unchanged g (act_res r)"
  "unchanged g m' \<Longrightarrow> (\<And>x. unchanged g (k' x)) \<Longrightarrow> unchanged g (act_bind m' k')"
  "unchanged g u \<Longrightarrow> unchanged g m'' \<Longrightarrow> unchanged g (with_undo u m'')"
  "unchanged g m' \<Longrightarrow> unchanged g (wrapped e m')"
  "unchanged g n \<Longrightarrow> unchanged g m'' \<Longrightarrow> unchanged g (act_seq n m'')"
  by (auto simp: unchanged_def act_ret_def act_res_def act_bind_def with_undo_def wrapped_def act_seq_def
      split: prod.splits sum.splits) (metis snd_conv)+

lemma unchanged_cases [unchanged_intros]:
  "unchanged g m \<Longrightarrow> unchanged g m' \<Longrightarrow> unchanged g (if b then m else m')"
  "(\<And>a b. unchanged g (p a b)) \<Longrightarrow> unchanged g (case q of (a, b) \<Rightarrow> p a b)"
  "unchanged g n \<Longrightarrow> (\<And>a. unchanged g (f a)) \<Longrightarrow> unchanged g (case o' of None \<Rightarrow> n | Some a \<Rightarrow> f a)"
  by (auto split: prod.split option.split)

lemma unchanged_each [unchanged_intros]: "(\<And>x. unchanged g (f x)) \<Longrightarrow> unchanged g (each xs f)"
  unfolding each_def by (induction xs) (auto intro: unchanged_intros)

lemma unchanged_put: "(\<And>s. g (f s) = g s) \<Longrightarrow> unchanged g (put f)"
  by (simp add: unchanged_def put_def)

subsection \<open>The database of packages\<close>

text \<open>Every step but the four operations of the database leaves it alone.\<close>

lemma db_primitives [unchanged_intros]:
  "unchanged w_db (write_file p s)" "unchanged w_db (remove_file p)" "unchanged w_db (remove_dir p)"
  "unchanged w_db (ext m)" "unchanged w_db (put (on_all f h))" "unchanged w_db (put (register_auto_ts E new old))"
  "unchanged w_db (put (register_syslog_config E new old))" "unchanged w_db (set_initial_config E pkg)"
  "unchanged w_db (set_feature_state E n st b)" "unchanged w_db (get_manifest_from_local_file E n)"
  "unchanged w_db (put (\<lambda>w. w\<lparr>w_exec := h' w\<rparr>))"
  by (auto simp: unchanged_def put_def write_file_def remove_file_def remove_dir_def ext_def on_all_def register_auto_ts_def
      register_syslog_config_def set_initial_config_def set_feature_state_def get_manifest_from_local_file_def finish_def Let_def
      split: prod.splits sum.splits option.splits list.splits if_splits)

lemma db_read [unchanged_intros]: "unchanged g (\<lambda>w. (f w, w))"
  by (simp add: unchanged_def)

lemma db_files [unchanged_intros]:
  "unchanged w_db (render_template E t out ctx ex)" "unchanged w_db (run_command E args)" "unchanged w_db (post_operation_hook E)"
  "unchanged w_db (update_dependent_list_file E p b)" "unchanged w_db (update_generated_services_conf_file E p b)"
  "unchanged w_db (generate_shutdown_sequence_files E ps)"
  by (auto simp: render_template_def run_command_def post_operation_hook_def update_dependent_list_file_def Let_def
      update_dependent_def update_generated_services_conf_file_def generate_shutdown_sequence_files_def generate_shutdown_sequence_file_def
      intro!: unchanged_intros)

lemma db_features [unchanged_intros]:
  "unchanged w_db (feature_register E m st ow)" "unchanged w_db (feature_deregister E n)" "unchanged w_db (feature_update E m m')"
  by (auto simp: feature_register_def feature_deregister_def feature_update_def Let_def intro!: unchanged_intros)

lemma db_service [unchanged_intros]:
  "unchanged w_db (service_remove E p b k)" "unchanged w_db (create_steps E p b st ow)"
  by (auto simp: service_remove_def create_steps_def Let_def remove_config_def uninstall_autogen_cli_all_def install_autogen_cli_all_def
      autogen_cli_def uninstall_yang_module_def install_yang_module_def generate_container_mgmt_def generate_service_mgmt_def manifest_ctx_def
      generate_systemd_service_def generate_dump_script_def generate_service_reconciliation_file_def
      intro!: unchanged_intros)

lemma db_create [unchanged_intros]: "unchanged w_db (service_create E p b st ow)"
proof -
  have "unchanged w_db (create_steps E p b st ow)" "unchanged w_db (service_remove E p b False)" by (rule unchanged_intros)+
  then show ?thesis by (auto simp: unchanged_def service_create_def split: prod.splits sum.splits) (metis snd_conv)+
qed

lemma db_metadata [unchanged_intros]: "unchanged w_db (source_metadata E src)"
  by (cases src) (auto simp: metadata_from_image_def metadata_from_local_def metadata_of_def Let_def intro!: unchanged_intros)

lemma db_source [unchanged_intros]:
  "unchanged w_db (source_package E src)" "unchanged w_db (install_image E src p)" "unchanged w_db (source_install E src p)"
  "unchanged w_db (source_uninstall E p)" "unchanged w_db (get_installed_package E n b)"
proof -
  show *: "unchanged w_db (source_package E src)" for src unfolding source_package_def by (auto intro!: unchanged_intros)
  show "unchanged w_db (install_image E src p)" by (cases src) (auto intro!: unchanged_intros)
  then show "unchanged w_db (source_install E src p)"
    unfolding source_install_def by (auto simp: Let_def intro!: unchanged_intros)
  show "unchanged w_db (source_uninstall E p)" by (auto simp: source_uninstall_def intro!: unchanged_intros)
  show "unchanged w_db (get_installed_package E n b)" unfolding get_installed_package_def by (intro unchanged_intros *)
qed

lemma db_packages_of: "unchanged w_db (packages_of E ns)"
  by (induction ns) (auto intro!: unchanged_intros)

lemma db_installed [unchanged_intros]:
  "unchanged w_db (get_installed_packages E)" "unchanged w_db (installed_and E p)" "unchanged w_db (installed_except E p)"
proof -
  show *: "unchanged w_db (get_installed_packages E)"
    using db_packages_of by (auto simp: unchanged_def get_installed_packages_def)
  show "unchanged w_db (installed_and E p)" "unchanged w_db (installed_except E p)"
    unfolding installed_and_def installed_except_def by (auto intro!: unchanged_intros *)
qed

lemma db_plugins [unchanged_intros]: "unchanged w_db (install_cli_plugins E p)" "unchanged w_db (uninstall_cli_plugins E p)"
  by (auto simp: install_cli_plugins_def uninstall_cli_plugins_def install_cli_plugin_def uninstall_cli_plugin_def
      intro!: unchanged_intros)

lemma db_systemctl [unchanged_intros]: "unchanged w_db (stop_feature E p)" "unchanged w_db (start_feature E p)"
  by (auto simp: stop_feature_def start_feature_def systemctl_action_def systemctl_def Let_def intro!: unchanged_intros)

lemma db_blocks [unchanged_intros]:
  "unchanged w_db (install_block E src p st ow sk)" "unchanged w_db (uninstall_block E p kc)" "unchanged w_db (upgrade_block E src' old new sk)"
  by (auto simp: install_block_def uninstall_block_def disable_feature_def remove_unused_docker_image_def upgrade_block_def
      intro!: unchanged_intros)

section \<open>Runs that return, runs that raise\<close>

lemma act_bind_returns:
  assumes "act_bind m k s = (Inr y, s'')"
  obtains x s' where "m s = (Inr x, s')" and "k x s' = (Inr y, s'')"
  using assms by (auto simp: act_bind_def split: prod.splits sum.splits)

lemma act_seq_returns:
  assumes "act_seq m rest s = (Inr y, s'')"
  obtains s' where "m s = (Inr (), s')" and "rest s' = (Inr y, s'')"
  using assms by (auto simp: act_seq_def elim: act_bind_returns)

lemma attempt_returns:
  assumes "attempt r k s = (Inr y, s')"
  obtains x where "r s = Inr x" and "k x s = (Inr y, s')"
  using assms by (auto simp: attempt_def split: sum.splits)

lemma seq_returns:
  assumes "seq (m # ms) s = (Inr y, s'')"
  obtains s' where "m s = (Inr (), s')" and "seq ms s' = (Inr y, s'')"
  using assms by (auto split: prod.splits sum.splits)

lemma wrapped_returns [simp]: "wrapped e m s = (Inr x, s') \<longleftrightarrow> m s = (Inr x, s')"
  by (auto simp: wrapped_def split: prod.splits sum.splits)

text \<open>What a step returns, when it does.\<close>

definition yields :: "('a \<Rightarrow> bool) \<Rightarrow> ('s \<Rightarrow> 'a res \<times> 's) \<Rightarrow> bool" where
  "yields P m \<longleftrightarrow> (\<forall>s x s'. m s = (Inr x, s') \<longrightarrow> P x)"

lemma yields_rules:
  "P x \<Longrightarrow> yields P (act_ret x)"
  "(\<And>x. yields P (k x)) \<Longrightarrow> yields P (act_bind m k)"
  "yields P m' \<Longrightarrow> yields P (with_undo u m')"
  "yields P m' \<Longrightarrow> yields P (act_seq n m')"
  "yields P m' \<Longrightarrow> yields P (wrapped e m')"
  by (auto simp: yields_def act_ret_def act_bind_def act_seq_def with_undo_def split: prod.splits sum.splits)

lemma yieldsD: "yields P m \<Longrightarrow> m s = (Inr x, s') \<Longrightarrow> P x"
  by (auto simp: yields_def)

lemma yields_act_bind: "yields Q m \<Longrightarrow> (\<And>x. Q x \<Longrightarrow> yields P (k x)) \<Longrightarrow> yields P (act_bind m k)"
  unfolding yields_def by (auto simp: act_bind_def split: prod.splits sum.splits) blast

text \<open>The installation of an image keeps the name and the metadata of the package.\<close>

definition same_package :: "package \<Rightarrow> package \<Rightarrow> bool" where
  "same_package p q \<longleftrightarrow> p_name q = p_name p \<and> p_metadata q = p_metadata p"

lemma install_image_yields: "yields (\<lambda>r. same_package p (snd r)) (install_image E src p)"
  by (cases src) (auto simp: same_package_def act_res_def yields_def [of _ "act_res r" for r] intro!: yields_rules)

lemma source_install_yields: "yields (same_package p) (source_install E src p)"
  unfolding source_install_def
  by (rule yields_act_bind [OF install_image_yields]) (auto simp: Let_def same_package_def intro!: yields_rules)

lemma install_block_yields: "yields (same_package p) (install_block E src p st ow sk)"
  unfolding install_block_def
  by (rule yields_act_bind [OF source_install_yields]) (intro yields_rules)

lemma upgrade_block_yields: "yields (same_package new) (upgrade_block E src old new sk)"
proof -
  have *: "yields (same_package new) (case src of None \<Rightarrow> act_ret new | Some s \<Rightarrow> source_install E s new)"
    by (cases src) (auto simp: same_package_def source_install_yields intro: yields_rules)
  show ?thesis unfolding upgrade_block_def
    by (intro yields_rules yields_act_bind [OF *])
qed

text \<open>A step that, when it raises, has not changed what \<open>g\<close> reads.\<close>

definition fails_safe :: "('s \<Rightarrow> 'v) \<Rightarrow> ('s \<Rightarrow> 'r res \<times> 's) \<Rightarrow> bool" where
  "fails_safe g m \<longleftrightarrow> (\<forall>s e s'. m s = (Inl e, s') \<longrightarrow> g s' = g s)"

lemma fails_safeD: "fails_safe g m \<Longrightarrow> m s = (Inl e, s') \<Longrightarrow> g s' = g s"
  by (auto simp: fails_safe_def)

lemma fails_safe_rules:
  "unchanged g m \<Longrightarrow> fails_safe g m"
  "unchanged g n \<Longrightarrow> (\<And>x. fails_safe g (k x)) \<Longrightarrow> fails_safe g (act_bind n k)"
  "unchanged g n' \<Longrightarrow> fails_safe g m \<Longrightarrow> fails_safe g (act_seq n' m)"
  "(\<And>x. fails_safe g (h x)) \<Longrightarrow> fails_safe g (attempt r h)"
  "(\<And>x. fails_safe g (h x)) \<Longrightarrow> fails_safe g (ask f h)"
  "fails_safe g m1 \<Longrightarrow> fails_safe g m2 \<Longrightarrow> fails_safe g (if b then m1 else m2)"
  by (auto simp: fails_safe_def unchanged_def act_bind_def act_seq_def attempt_def ask_def split: prod.splits sum.splits)
    (metis snd_conv)+

subsection \<open>The database\<close>

definition installed_in :: "string \<Rightarrow> ('c, 'x) world \<Rightarrow> bool" where
  "installed_in n w \<longleftrightarrow> is_installed n (w_db w)"

lemma installed_in_db: "unchanged w_db m \<Longrightarrow> unchanged (installed_in n) m"
  by (simp add: unchanged_def installed_in_def)

lemma get_entry_simps [simp]: "get_entry db n = Inr e \<longleftrightarrow> dget db n = Some e" "has_package db n \<longleftrightarrow> dhas db n"
  by (auto simp: get_entry_def has_package_def dhas_def split: option.splits)

lemma is_installed_iff: "is_installed n db \<longleftrightarrow> (\<exists>e. dget db n = Some e \<and> pe_installed e)"
  by (auto simp: is_installed_def get_entry_def split: option.splits)

lemma add_if_unknown_keeps: "unchanged (installed_in n) (add_if_unknown p)"
  by (auto simp: unchanged_def add_if_unknown_def ask_def finish_def db_step_def attempt_def put_def add_package_def new_entry_def
      installed_in_def is_installed_iff dhas_def)

lemma add_if_unknown_returns:
  "add_if_unknown p w = (Inr (), w\<lparr>w_db := if dhas (w_db w) (p_name p) then w_db w
     else dset (p_name p) (new_entry (p_name p) (pe_repository (p_entry p)) None None) (w_db w)\<rparr>)"
  by (simp add: add_if_unknown_def ask_def finish_def db_step_def attempt_def put_def add_package_def)

lemma record_fails_safe: "fails_safe (installed_in n) (record_installed E p v)"
  by (auto simp: fails_safe_def record_installed_def db_step_def attempt_def commit_def ask_def write_file_def put_def
      split: sum.splits)

lemma record_returns:
  assumes "record_installed E p v w = (Inr (), w')"
  shows "w_db w' = dset (p_name p) ((p_entry p)\<lparr>pe_installed := True, pe_version := Some v\<rparr>) (w_db w)"
    and "read_file db_file w' = Inr (e_dumps E (db_to_json (w_db w')))"
  using assms
  by (auto simp: record_installed_def db_step_def attempt_def commit_def ask_def write_file_def put_def update_package_def
      read_file_def split: sum.splits if_splits)

lemma install_fails_safe: "fails_safe (installed_in n) (install_from_source E src opts)"
  unfolding install_from_source_def Let_def
  by (intro fails_safe_rules(2-6) fails_safe_rules(1) [of _ "raise e" for e] installed_in_db unchanged_intros
      add_if_unknown_keeps record_fails_safe)

lemma install_returns:
  assumes "install_from_source E src opts w = (Inr (), w')"
  obtains p w1 ps w2 e where "source_package E src w = (Inr p, w1)" and "installed_and E p w1 = (Inr ps, w2)"
    and "o_force opts \<or> \<not> is_installed (p_name p) (w_db w) \<and> install_checks E p ps (o_skip_plugins opts) = Inr ()"
    and "pe_installed e" and "pe_version e = Some (m_version (p_manifest p))" and "pe_name e = p_name p"
    and "dget (w_db w') = (dget (w_db w))(p_name p \<mapsto> e)" and "read_file db_file w' = Inr (e_dumps E (db_to_json (w_db w')))"
proof -
  have "o_allow_downgrade opts = None" using assms by (auto simp: install_from_source_def raise_def split: if_splits)
  with assms obtain p w1 ps w2 w3 p' w4 where src: "source_package E src w = (Inr p, w1)"
    and inst: "failure_ignore (o_force opts) (check_if (is_installed (p_name p) (w_db w1)) (Raised ''PackageInstallationError'' [p_name p])) = Inr ()"
    and all: "installed_and E p w1 = (Inr ps, w2)"
    and checks: "failure_ignore (o_force opts) (install_checks E p ps (o_skip_plugins opts)) = Inr ()"
    and add: "add_if_unknown p w2 = (Inr (), w3)"
    and block: "install_block E src p (if o_enable opts = Some True then ''enabled'' else ''disabled'')
        (case o_owner opts of None \<Rightarrow> ''local'' | Some o' \<Rightarrow> o') (o_skip_plugins opts) w3 = (Inr p', w4)"
    and rec: "record_installed E p' (m_version (p_manifest p)) w4 = (Inr (), w')"
    unfolding install_from_source_def Let_def
    by (auto simp: ask_def elim!: act_bind_returns attempt_returns act_seq_returns)
  have same: "same_package p p'" by (rule yieldsD [OF install_block_yields block])
  have db: "w_db w1 = w_db w" "w_db w2 = w_db w1" "w_db w4 = w_db w3"
    using src all block by (auto intro: unchangedD [rotated] unchanged_intros)
  let ?e = "(p_entry p')\<lparr>pe_installed := True, pe_version := Some (m_version (p_manifest p))\<rparr>"
  have "dget (w_db w') = (dget (w_db w))(p_name p \<mapsto> ?e)"
    using record_returns(1) [OF rec] same add db by (auto simp: add_if_unknown_returns same_package_def fun_eq_iff)
  moreover have "o_force opts \<or> \<not> is_installed (p_name p) (w_db w) \<and> install_checks E p ps (o_skip_plugins opts) = Inr ()"
    using inst checks db by (auto simp: failure_ignore_def check_if_def split: if_splits sum.splits)
  ultimately show thesis
    using that [OF src all, of ?e] record_returns(2) [OF rec] same by (simp add: same_package_def)
qed

subsection \<open>Uninstalling\<close>

lemma record_uninstalled_returns:
  assumes "record_uninstalled E p w = (Inr (), w')"
  shows "w_db w' = dset (p_name p) ((p_entry p)\<lparr>pe_image_id := None, pe_installed := False, pe_version := None\<rparr>) (w_db w)"
  using assms
  by (auto simp: record_uninstalled_def db_step_def attempt_def commit_def ask_def write_file_def put_def update_package_def
      split: sum.splits if_splits)

lemma record_uninstalled_fails_safe: "fails_safe w_db (record_uninstalled E p)"
  by (auto simp: fails_safe_def record_uninstalled_def db_step_def attempt_def commit_def ask_def write_file_def put_def
      split: sum.splits)

text \<open>The database entry of an installed package is the one it is looked up with.\<close>

lemma installed_package_entry:
  assumes "get_installed_package E n b w = (Inr p, w')"
  shows "dget (w_db w) n = Some (p_entry p)"
  using assms
  by (auto simp: get_installed_package_def source_package_def elim!: act_bind_returns)

lemma fails_safe_seq:
  "fails_safe g m \<Longrightarrow> unchanged g (seq ms) \<Longrightarrow> (\<And>s s'. m s = (Inr (), s') \<Longrightarrow> fst (seq ms s') = Inr ()) \<Longrightarrow> fails_safe g (seq (m # ms))"
  by (fastforce simp: fails_safe_def split: prod.splits sum.splits)

lemma fails_safe_seq_unchanged:
  assumes "unchanged g m" and "fails_safe g (seq ms)"
  shows "fails_safe g (seq (m # ms))"
  unfolding fails_safe_def
proof (intro allI impI)
  fix s e s' assume run: "seq (m # ms) s = (Inl e, s')"
  obtain r t where m: "m s = (r, t)" by force
  have "g t = g s" by (rule unchangedD [OF assms(1) m])
  moreover have "g s' = g t" using run m assms(2) by (cases r) (auto simp: fails_safe_def)
  ultimately show "g s' = g s" by simp
qed

lemma removals_return: "seq [remove_file a, remove_file b] w = (Inr (), snd (seq [remove_file a, remove_file b] w))"
  by (simp add: remove_file_def put_def)

lemma uninstall_fails_safe: "fails_safe w_db (uninstall E n force keep)"
proof -
  have "fails_safe w_db (seq [record_uninstalled E p, remove_file a, remove_file b])" for p a b
  proof (rule fails_safe_seq [OF record_uninstalled_fails_safe])
    show "unchanged w_db (seq [remove_file a, remove_file b])" by (intro unchanged_intros)
    fix s' :: "('a, 'b) world"
    show "fst (seq [remove_file a, remove_file b] s') = Inr ()" by (subst removals_return) simp
  qed
  then have *: "fails_safe w_db (seq [wrapped e (uninstall_block E p keep), record_uninstalled E p, remove_file a, remove_file b])" for e p a b
    by (rule fails_safe_seq_unchanged [rotated]) (intro unchanged_intros)
  show ?thesis unfolding uninstall_def
    by (intro fails_safe_rules(2,4-6) fails_safe_rules(1) [of _ "raise e" for e] unchanged_intros *)
qed

lemma uninstall_returns:
  assumes "uninstall E n force keep w = (Inr (), w')"
  obtains p w1 ps w2 where "get_installed_package E n False w = (Inr p, w1)" and "\<not> pe_built_in (p_entry p)"
    and "installed_except E p w1 = (Inr ps, w2)"
    and "force \<or> pe_installed (p_entry p) \<and> is_feature_enabled E (m_service (p_manifest p)) w1 = Inr False \<and> validate_package_tree (e_ver E) ps = Inr ()"
    and "dget (w_db w') = (dget (w_db w))(p_name p \<mapsto> (p_entry p)\<lparr>pe_image_id := None, pe_installed := False, pe_version := None\<rparr>)"
proof -
  from assms obtain p w1 ps w2 where
    inst: "failure_ignore force (check_if (\<not> is_installed n (w_db w)) (Raised ''PackageUninstallationError'' [n])) = Inr ()"
    and get: "get_installed_package E n False w = (Inr p, w1)"
    and feature: "failure_ignore force (rbind (is_feature_enabled E (m_service (p_manifest p)) w1)
        (\<lambda>b. check_if b (Raised ''PackageUninstallationError'' [m_service (p_manifest p)]))) = Inr ()"
    and built: "\<not> pe_built_in (p_entry p)"
    and all: "installed_except E p w1 = (Inr ps, w2)"
    and tree: "failure_ignore force (validate_package_tree (e_ver E) ps) = Inr ()"
    and steps: "seq [wrapped (Raised ''PackageUninstallationError'' [n]) (uninstall_block E p keep), record_uninstalled E p,
        remove_file (path_join manifests_location n), remove_file (path_join manifests_location (n @ ''.edit''))] w2 = (Inr (), w')"
    unfolding uninstall_def
    by (auto simp: ask_def raise_def simp del: seq.simps elim!: act_bind_returns attempt_returns split: if_splits)
  from steps obtain w3 w4 where block: "wrapped (Raised ''PackageUninstallationError'' [n]) (uninstall_block E p keep) w2 = (Inr (), w3)" and rec: "record_uninstalled E p w3 = (Inr (), w4)"
    and rest: "seq [remove_file (path_join manifests_location n), remove_file (path_join manifests_location (n @ ''.edit''))] w4 = (Inr (), w')"
    by (rule seq_returns) (rule seq_returns)
  have db: "w_db w1 = w_db w" "w_db w2 = w_db w1" "w_db w3 = w_db w2"
    using get all block [unfolded wrapped_returns] by (auto intro: unchangedD [rotated] unchanged_intros)
  have "unchanged w_db (seq [remove_file (path_join manifests_location n), remove_file (path_join manifests_location (n @ ''.edit''))])"
    by (intro unchanged_intros)
  then have "w_db w' = w_db w4" using rest by (rule unchangedD)
  then have "dget (w_db w') = (dget (w_db w))(p_name p \<mapsto> (p_entry p)\<lparr>pe_image_id := None, pe_installed := False, pe_version := None\<rparr>)"
    using record_uninstalled_returns [OF rec] db by (auto simp: fun_eq_iff)
  moreover have "force \<or> pe_installed (p_entry p) \<and> is_feature_enabled E (m_service (p_manifest p)) w1 = Inr False \<and> validate_package_tree (e_ver E) ps = Inr ()"
    using inst feature tree installed_package_entry [OF get]
    by (auto simp: failure_ignore_def check_if_def is_installed_iff res_simps split: if_splits sum.splits)
  ultimately show thesis using that [OF get built all] by blast
qed

subsection \<open>Upgrading\<close>

lemma record_keeps_db: "fails_safe w_db (record_installed E p v)"
  by (auto simp: fails_safe_def record_installed_def db_step_def attempt_def commit_def ask_def write_file_def put_def
      split: sum.splits)

lemma upgrade_fails_safe: "fails_safe w_db (upgrade_from_source E src opts)"
proof -
  have *: "fails_safe w_db (seq [record_installed E p v, if is_given (Some src) then finish else m])" for p v m
    by (rule fails_safe_seq [OF record_keeps_db]) (auto simp: is_given_def finish_def intro!: unchanged_intros)
  show ?thesis
    unfolding upgrade_from_source_def upgrade_package_def
    by (intro fails_safe_rules(2,4-6) fails_safe_rules(1) [of _ "raise e" for e] unchanged_intros *)
qed

lemma upgrade_returns:
  assumes "upgrade_from_source E src opts w = (Inr (), w')"
  obtains new w1 old w2 e where "source_package E src w = (Inr new, w1)" and "get_installed_package E (p_name new) False w1 = (Inr old, w2)"
    and "\<not> pe_built_in (p_entry old)"
    and "o_force opts \<or> pe_installed (p_entry old) \<and> m_version (p_manifest old) \<noteq> m_version (p_manifest new) \<and>
      (o_allow_downgrade opts = Some True \<or> \<not> sv_less (e_ver E) (m_version (p_manifest new)) (m_version (p_manifest old)))"
    and "pe_installed e" and "pe_version e = Some (m_version (p_manifest new))" and "pe_name e = p_name new"
    and "dget (w_db w') = (dget (w_db w))(p_name new \<mapsto> e)"
proof -
  from assms obtain new w1 old w2 ps w3 new' w4 where src: "source_package E src w = (Inr new, w1)"
    and inst: "failure_ignore (o_force opts) (check_if (\<not> is_installed (p_name new) (w_db w1)) (Raised ''PackageUpgradeError'' [p_name new])) = Inr ()"
    and get: "get_installed_package E (p_name new) False w1 = (Inr old, w2)"
    and built: "\<not> pe_built_in (p_entry old)"
    and vers: "failure_ignore (o_force opts) (version_checks E (p_name new) (m_version (p_manifest old)) (m_version (p_manifest new))
        (o_allow_downgrade opts = Some True)) = Inr ()"
    and all: "installed_and E new w2 = (Inr ps, w3)"
    and block: "wrapped (Raised ''PackageUpgradeError'' [p_name new]) (upgrade_block E (Some src) old new (o_skip_plugins opts)) w3 = (Inr new', w4)"
    and steps: "seq [record_installed E new' (m_version (p_manifest new)), finish] w4 = (Inr (), w')"
    unfolding upgrade_from_source_def upgrade_package_def is_given_def option.case if_True
    by (auto simp: ask_def raise_def simp del: seq.simps wrapped_returns elim!: act_bind_returns attempt_returns split: if_splits)
  have rec: "record_installed E new' (m_version (p_manifest new)) w4 = (Inr (), w')"
    using steps by (auto simp: finish_def split: prod.splits sum.splits)
  have same: "same_package new new'" by (rule yieldsD [OF upgrade_block_yields block [unfolded wrapped_returns]])
  have db: "w_db w1 = w_db w" "w_db w2 = w_db w1" "w_db w3 = w_db w2" "w_db w4 = w_db w3"
    using src get all block [unfolded wrapped_returns] by (auto intro: unchangedD [rotated] unchanged_intros)
  let ?e = "(p_entry new')\<lparr>pe_installed := True, pe_version := Some (m_version (p_manifest new))\<rparr>"
  have upd: "dget (w_db w') = (dget (w_db w))(p_name new \<mapsto> ?e)"
    using record_returns(1) [OF rec] same db by (auto simp: same_package_def fun_eq_iff)
  have ok: "o_force opts \<or> pe_installed (p_entry old) \<and> m_version (p_manifest old) \<noteq> m_version (p_manifest new) \<and>
      (o_allow_downgrade opts = Some True \<or> \<not> sv_less (e_ver E) (m_version (p_manifest new)) (m_version (p_manifest old)))"
    using inst vers installed_package_entry [OF get]
    by (auto simp: failure_ignore_def check_if_def version_checks_def is_installed_iff split: if_splits sum.splits)
  show thesis using that [OF src get built ok, of ?e] upd same by (simp add: same_package_def)
qed

section \<open>The files of a service\<close>

text \<open>The unit files, the scripts and the list of processes that are written for a service.\<close>

definition service_files :: "string \<Rightarrow> string list" where
  "service_files n =
     [path_join systemd_location (n @ ''.service''), path_join systemd_location (n @ ''@.service''),
      path_join service_mgmt_location (n @ ''.sh''), path_join docker_ctl_location (n @ ''.sh''),
      path_join etc_sonic (n @ ''_reconcile'')]"

definition absent :: "string list \<Rightarrow> ('c, 'x) world \<Rightarrow> bool" where
  "absent ps w \<longleftrightarrow> list_all (\<lambda>p. \<not> dhas (w_files w) p) ps"

lemma absent_write: "q \<notin> set ps \<Longrightarrow> keeps (absent ps) (write_file q s)"
  by (auto simp: keeps_def write_file_def put_def absent_def list_all_iff dhas_def)

lemma dget_filter: "dget d p = None \<Longrightarrow> dget (filter P d) p = None"
  by (auto simp: dget_None_iff dkeys_def)

lemma absent_steps:
  "keeps (absent ps) (remove_file q)" "keeps (absent ps) (remove_dir q)" "keeps (absent ps) (ext m)" "keeps (absent ps) (put (on_all f g))"
  by (auto simp: keeps_def remove_file_def remove_dir_def ext_def on_all_def put_def absent_def list_all_iff dhas_def
      split: prod.splits intro: dget_filter)

lemma last_path_join: "s \<noteq> [] \<Longrightarrow> last (path_join a (n @ s)) = last s"
  by (simp add: path_join_def)

lemma not_service_file:
  assumes "q = path_join etc_sonic (service @ ''_dependent'') \<or> q = path_join etc_sonic (service @ ''_multi_inst_dependent'') \<or> q = generated_services_file"
  shows "q \<notin> set (service_files n)"
proof -
  have "last q \<in> {CHR ''t'', CHR ''f''}"
    using assms by (auto simp: last_path_join generated_services_file_def)
  moreover have "last q \<in> {CHR ''e'', CHR ''h''}" if "q \<in> set (service_files n)"
    using that by (auto simp: service_files_def last_path_join)
  ultimately show ?thesis by auto
qed

lemma absent_dependent: "keeps (absent (service_files n)) (update_dependent_list_file E p b)"
  unfolding update_dependent_list_file_def update_dependent_def Let_def
  by (intro keeps_intros absent_write) (auto intro!: not_service_file)

lemma absent_generated: "keeps (absent (service_files n)) (update_generated_services_conf_file E p b)"
  unfolding update_generated_services_conf_file_def
  by (intro keeps_intros absent_write not_service_file) simp

lemma absent_remaining:
  "keeps (absent ps) (remove_config E p)" "keeps (absent ps) (uninstall_autogen_cli_all E p)" "keeps (absent ps) (uninstall_yang_module E p)"
  "keeps (absent ps) (post_operation_hook E)" "keeps (absent ps) (feature_deregister E m)"
  by (auto simp: remove_config_def uninstall_autogen_cli_all_def autogen_cli_def uninstall_yang_module_def post_operation_hook_def
      run_command_def feature_deregister_def intro!: keeps_intros absent_steps)

lemma seq_remove: "seq (remove_file p # ms) w = seq ms (w\<lparr>w_files := ddel p (w_files w), w_exec := filter (\<lambda>q. q \<noteq> p) (w_exec w)\<rparr>)"
  by (simp add: remove_file_def put_def)

lemma service_remove_absent: "absent (service_files (m_service (p_manifest p))) (snd (service_remove E p d k w))"
proof -
  let ?n = "m_service (p_manifest p)"
  let ?rest = "[remove_file (path_join etc_systemd_location (?n @ ''.service'')),
       ask (glob_files (path_join etc_systemd_location (?n @ ''@'')) ''.service'') (\<lambda>fs. each fs remove_file),
       remove_dir (path_join etc_systemd_location (?n @ ''.service.d'')),
       ask (glob_dirs (path_join etc_systemd_location (?n @ ''@'')) ''.service.d'') (\<lambda>ds. each ds remove_dir),
       update_dependent_list_file E p True,
       update_generated_services_conf_file E p True,
       if d \<and> \<not> k then remove_config E p else finish,
       uninstall_autogen_cli_all E p,
       uninstall_yang_module E p,
       post_operation_hook E,
       if d then feature_deregister E ?n else finish]"
  have rest: "keeps (absent (service_files ?n)) (seq ?rest)"
    by (intro keeps_intros absent_steps absent_dependent absent_generated absent_remaining)
  show ?thesis
    unfolding service_remove_def Let_def seq_remove
    by (rule keepsD [OF rest [unfolded seq_remove]])
      (auto simp: absent_def service_files_def dhas_def)
qed

lemma service_create_absent:
  assumes "service_create E p b st ow w = (Inl e, w')"
  shows "absent (service_files (m_service (p_manifest p))) w'"
proof -
  from assms obtain w1 where "w' = snd (service_remove E p b False w1)"
    by (auto simp: service_create_def split: prod.splits sum.splits) (metis snd_conv)+
  then show ?thesis by (simp add: service_remove_absent)
qed

lemma with_undo_fails:
  assumes "with_undo u m s = (Inl e, s'')"
  obtains s' where "m s = (Inl e, s')" and "s'' = snd (u s')"
  using assms by (auto simp: with_undo_def split: prod.splits sum.splits)

lemma act_seq_fails:
  assumes "act_seq m rest s = (Inl e, s'')"
  obtains "m s = (Inl e, s'')" | s' where "m s = (Inr (), s')" and "rest s' = (Inl e, s'')"
  using assms by (auto simp: act_seq_def act_bind_def split: prod.splits sum.splits)

text \<open>
  After the image is there, every failure of an installation leaves none of the files of the service: either
  their creation failed and cleaned up after itself, or the rollback removed them.
\<close>

lemma install_block_cleans:
  assumes "install_block E src p st ow sk w = (Inl e, w')"
  shows "source_install E src p w = (Inl e, w') \<or> absent (service_files (m_service (p_manifest p))) w'"
proof (cases "source_install E src p w")
  case (Pair r w1)
  show ?thesis
  proof (cases r)
    case (Inl e')
    with Pair assms show ?thesis by (simp add: install_block_def act_bind_def)
  next
    case (Inr p')
    with Pair have "same_package p p'" by (auto intro: yieldsD [OF source_install_yields])
    then have m: "p_manifest p' = p_manifest p" by (simp add: same_package_def)
    let ?files = "service_files (m_service (p_manifest p))"
    from assms Pair Inr obtain w2 where w': "w' = snd (source_uninstall E p' w2)" and "absent ?files w2"
      unfolding install_block_def act_bind_def [of "source_install E src p"]
      by (auto elim!: with_undo_fails act_seq_fails simp: service_remove_absent [of p' for p', unfolded m] m
          dest: service_create_absent) (metis m service_remove_absent)
    then show ?thesis by (auto simp: source_uninstall_def intro!: keepsD [OF absent_steps(3)])
  qed
qed

end
