(* ===== verification/PkgInit.thy ===== *)
theory PkgInit
  imports PkgSteps
begin

text \<open>
  The initial configuration of a package: what is configured already stays as it is, in every database.
\<close>

section \<open>Deep updates\<close>

lemma deep_update_obj: "pkg_deep_update dst (x # xs) = Inr j \<Longrightarrow> \<exists>d. dst = JObj d"
  by (cases x) (auto split: json.splits)

text \<open>A dictionary in the source is merged into what is there, everything else replaces it.\<close>

lemma deep_update_get:
  assumes "pkg_deep_update (JObj d) src = Inr j" and "distinct (dkeys src)"
  shows "\<exists>d'. j = JObj d' \<and> (\<forall>k. case dget src k of
      None \<Rightarrow> dget d' k = dget d k
    | Some v \<Rightarrow> \<exists>n. dget d' k = Some n \<and>
        (case v of JObj sv \<Rightarrow> pkg_deep_update (case dget d k of None \<Rightarrow> JObj [] | Some m \<Rightarrow> m) sv = Inr n | _ \<Rightarrow> n = v))"
  using assms
proof (induction src arbitrary: d)
  case (Cons p src)
  obtain k v where p: "p = (k, v)" by force
  have step: "\<exists>n. pkg_deep_update (JObj (dset k n d)) src = Inr j \<and>
      (case v of JObj sv \<Rightarrow> pkg_deep_update (case dget d k of None \<Rightarrow> JObj [] | Some m \<Rightarrow> m) sv = Inr n | _ \<Rightarrow> n = v)"
    using Cons.prems(1) unfolding p by (cases v) (auto simp: res_simps)
  then obtain n where n: "pkg_deep_update (JObj (dset k n d)) src = Inr j"
    "case v of JObj sv \<Rightarrow> pkg_deep_update (case dget d k of None \<Rightarrow> JObj [] | Some m \<Rightarrow> m) sv = Inr n | _ \<Rightarrow> n = v" by blast
  have dist: "distinct (dkeys src)" "dget src k = None" using Cons.prems(2) p by (auto simp: dget_None_iff)
  from Cons.IH [OF n(1) dist(1)] obtain d' where d': "j = JObj d'" "\<And>k'. case dget src k' of
      None \<Rightarrow> dget d' k' = dget (dset k n d) k'
    | Some v \<Rightarrow> \<exists>m. dget d' k' = Some m \<and>
        (case v of JObj sv \<Rightarrow> pkg_deep_update (case dget (dset k n d) k' of None \<Rightarrow> JObj [] | Some m \<Rightarrow> m) sv = Inr m | _ \<Rightarrow> m = v)" by blast
  have "case dget (p # src) k' of
      None \<Rightarrow> dget d' k' = dget d k'
    | Some v \<Rightarrow> \<exists>m. dget d' k' = Some m \<and>
        (case v of JObj sv \<Rightarrow> pkg_deep_update (case dget d k' of None \<Rightarrow> JObj [] | Some m \<Rightarrow> m) sv = Inr m | _ \<Rightarrow> m = v)" for k'
    using d'(2) [of k'] n(2) dist(2) p by (cases "k' = k") (auto split: option.splits)
  with d'(1) show ?case by blast
qed auto

lemma deep_update_wf: "pkg_deep_update dst src = Inr j \<Longrightarrow> wf_json dst \<Longrightarrow> list_all (\<lambda>p. wf_json (snd p)) src \<Longrightarrow> wf_json j"
proof (induction dst src arbitrary: j rule: pkg_deep_update.induct)
  case (2 dst k v src)
  obtain d where d: "dst = JObj d" using deep_update_obj [OF "2.prems"(1)] by blast
  have step: "wf_json (JObj (dset k n d))" if "wf_json n" for n using that "2.prems"(2) d wf_json_dset by blast
  have v: "wf_json v" "list_all (\<lambda>p. wf_json (snd p)) src" using "2.prems"(3) by simp_all
  show ?case
  proof (cases v)
    case (JObj sv)
    from "2.prems"(1) d JObj obtain n where n: "pkg_deep_update (case dget d k of None \<Rightarrow> JObj [] | Some m \<Rightarrow> m) sv = Inr n"
      "pkg_deep_update (JObj (dset k n d)) src = Inr j" by (auto simp: res_simps)
    have "wf_json (case dget d k of None \<Rightarrow> JObj [] | Some m \<Rightarrow> m)"
      using "2.prems"(2) d wf_json_dget by (auto split: option.split)
    then have "wf_json n" using "2.IH"(6) [OF d JObj n(1)] v(1) JObj by simp
    then show ?thesis using "2.IH"(7) [OF d JObj n(1,2)] step v(2) by blast
  next
    case JNull
    show ?thesis by (rule "2.IH"(1) [OF d JNull _ step [OF v(1)] v(2)]) (use "2.prems"(1) d JNull in simp)
  next
    case (JBool b)
    show ?thesis by (rule "2.IH"(2) [OF d JBool _ step [OF v(1)] v(2)]) (use "2.prems"(1) d JBool in simp)
  next
    case (JInt i)
    show ?thesis by (rule "2.IH"(3) [OF d JInt _ step [OF v(1)] v(2)]) (use "2.prems"(1) d JInt in simp)
  next
    case (JStr s)
    show ?thesis by (rule "2.IH"(4) [OF d JStr _ step [OF v(1)] v(2)]) (use "2.prems"(1) d JStr in simp)
  next
    case (JList xs)
    show ?thesis by (rule "2.IH"(5) [OF d JList _ step [OF v(1)] v(2)]) (use "2.prems"(1) d JList in simp)
  qed
qed simp

text \<open>A leaf of the source is a leaf of the result, at one, two and three levels.\<close>

lemma leaf_entry:
  assumes "pkg_deep_update e (fs :: fields) = Inr j" and "distinct (dkeys fs)" and "dget fs f = Some v" and "\<not> is_obj v"
  shows "\<exists>e'. j = JObj e' \<and> dget e' f = Some v"
proof -
  from assms(3) obtain p ps where "fs = p # ps" by (cases fs) auto
  with assms(1) obtain d where "e = JObj d" using deep_update_obj by blast
  from deep_update_get [OF assms(1) [unfolded this] assms(2)] obtain e' where e': "j = JObj e'" "\<And>k. case dget fs k of
      None \<Rightarrow> dget e' k = dget d k
    | Some v \<Rightarrow> \<exists>n. dget e' k = Some n \<and>
        (case v of JObj sv \<Rightarrow> pkg_deep_update (case dget d k of None \<Rightarrow> JObj [] | Some m \<Rightarrow> m) sv = Inr n | _ \<Rightarrow> n = v)" by blast
  from e'(2) [of f] assms(3,4) have "dget e' f = Some v" by (cases v) auto
  with e'(1) show ?thesis by blast
qed

lemma obj_entry:
  assumes "pkg_deep_update e (ks :: fields) = Inr j" and "distinct (dkeys ks)" and "dget ks k = Some (JObj fs)"
  shows "\<exists>e' n m. j = JObj e' \<and> dget e' k = Some n \<and> pkg_deep_update m fs = Inr n"
proof -
  from assms(3) obtain p ps where "ks = p # ps" by (cases ks) auto
  with assms(1) obtain d where "e = JObj d" using deep_update_obj by blast
  from deep_update_get [OF assms(1) [unfolded this] assms(2)] obtain e' where e': "j = JObj e'" "\<And>k. case dget ks k of
      None \<Rightarrow> dget e' k = dget d k
    | Some v \<Rightarrow> \<exists>n. dget e' k = Some n \<and>
        (case v of JObj sv \<Rightarrow> pkg_deep_update (case dget d k of None \<Rightarrow> JObj [] | Some m \<Rightarrow> m) sv = Inr n | _ \<Rightarrow> n = v)" by blast
  from e'(2) [of k] assms(3) e'(1) show ?thesis by auto
qed

section \<open>Configurations\<close>

text \<open>Keys are distinct at every level and values of fields are no dictionaries.\<close>

definition plain_config :: "config \<Rightarrow> bool" where
  "plain_config cfg \<longleftrightarrow> distinct (dkeys cfg) \<and>
     list_all (\<lambda>(t, ks). distinct (dkeys ks) \<and>
       list_all (\<lambda>(k, fs). distinct (dkeys fs) \<and> list_all (\<lambda>(f, v). wf_json v \<and> \<not> is_obj v) fs) ks) cfg"

definition config_get :: "config \<Rightarrow> string \<Rightarrow> string \<Rightarrow> string \<Rightarrow> json option" where
  "config_get cfg t k f =
     (case dget cfg t of None \<Rightarrow> None | Some tbl \<Rightarrow> (case dget tbl k of None \<Rightarrow> None | Some e \<Rightarrow> dget e f))"

lemma dget_map_tables: "dget (map (\<lambda>(k, v). (k, g v)) d) k = map_option g (dget d k)"
  by (induction d) auto

lemma dkeys_map_snd: "dkeys (map (\<lambda>(k, v). (k, g v)) d) = dkeys d"
  by (induction d) auto

definition table_json :: "fields dict \<Rightarrow> json" where
  "table_json ks = JObj (map (\<lambda>(k, fv). (k, JObj fv)) ks)"

lemma config_json_tables: "config_json cfg = JObj (map (\<lambda>(t, ks). (t, table_json ks)) cfg)"
  by (simp add: config_json_def table_json_def)

lemma plain_configD:
  assumes "plain_config cfg" and "dget cfg t = Some tbl" and "dget tbl k = Some fs" and "dget fs f = Some v"
  shows "distinct (dkeys tbl) \<and> distinct (dkeys fs) \<and> \<not> is_obj v"
  using assms by (fastforce simp: plain_config_def list_all_iff dest: dget_SomeD)

lemma plain_config_wf: "plain_config cfg \<Longrightarrow> list_all (\<lambda>p. wf_json (snd p)) (map (\<lambda>(t, ks). (t, table_json ks)) cfg)"
  by (fastforce simp: plain_config_def table_json_def list_all_iff dkeys_map_snd)

lemma merge_configE:
  assumes "merge_config init cfg = Inr (new, init')"
  obtains d where "pkg_deep_update (JObj init) (map (\<lambda>(t, ks). (t, table_json ks)) cfg) = Inr (JObj d)"
    and "init' = map (\<lambda>(t, v). (t, case dget d t of None \<Rightarrow> v | Some v' \<Rightarrow> v')) init"
proof -
  from assms obtain j where "pkg_deep_update (JObj init) (map (\<lambda>(t, ks). (t, table_json ks)) cfg) = Inr j"
    and "(case j of JObj d \<Rightarrow> Inr (j, map (\<lambda>(t, v). (t, case dget d t of None \<Rightarrow> v | Some v' \<Rightarrow> v')) init) | _ \<Rightarrow> Inl TypeError) = Inr (new, init')"
    unfolding merge_config_def config_json_tables by (auto simp: rbind_Inr_iff)
  with that show thesis by (cases j) auto
qed

text \<open>After the merge, every configured field of a table of the initial configuration is in it as configured.\<close>

lemma merge_config_covers:
  assumes "merge_config init cfg = Inr (new, init')" and "plain_config cfg" and "wf_json (JObj init)"
    and "(t, JObj ks) \<in> set init'" and "(k, fvs) \<in> set ks" and "config_get cfg t k f = Some v"
  shows "\<exists>e. fvs = JObj e \<and> dget e f = Some v"
proof -
  let ?src = "map (\<lambda>(t, ks). (t, table_json ks)) cfg"
  from assms(1) obtain d where d: "pkg_deep_update (JObj init) ?src = Inr (JObj d)"
    and init': "init' = map (\<lambda>(t, v). (t, case dget d t of None \<Rightarrow> v | Some v' \<Rightarrow> v')) init"
    by (rule merge_configE)
  have wf: "wf_json (JObj d)" by (rule deep_update_wf [OF d assms(3) plain_config_wf [OF assms(2)]])
  from assms(6) obtain tbl fs where c: "dget cfg t = Some tbl" "dget tbl k = Some fs" "dget fs f = Some v"
    by (auto simp: config_get_def split: option.splits)
  have dist: "distinct (dkeys ?src)" using assms(2) by (simp add: plain_config_def dkeys_map_snd)
  have p: "distinct (dkeys tbl)" "distinct (dkeys fs)" "\<not> is_obj v" using plain_configD [OF assms(2) c] by auto
  have src: "dget ?src t = Some (JObj (map (\<lambda>(k, fv). (k, JObj fv)) tbl))" by (simp add: dget_map_tables c table_json_def)
  from obj_entry [OF d dist src] obtain n m where n: "dget d t = Some n"
    "pkg_deep_update m (map (\<lambda>(k, fv). (k, JObj fv)) tbl) = Inr n" by auto
  have tk: "dget (map (\<lambda>(k, fv). (k, JObj fv)) tbl) k = Some (JObj fs)" by (simp add: dget_map_tables c)
  from obj_entry [OF n(2) _ tk] p(1) obtain ks' n' m' where ks': "n = JObj ks'" "dget ks' k = Some n'" "pkg_deep_update m' fs = Inr n'"
    by (auto simp: dkeys_map_snd)
  from leaf_entry [OF ks'(3) p(2) c(3) p(3)] obtain e where e: "n' = JObj e" "dget e f = Some v" by blast
  from assms(4) n(1) ks'(1) have "ks = ks'" unfolding init' by (auto split: option.splits)
  moreover have "distinct (dkeys ks')" using wf_json_dget [OF wf n(1)] ks'(1) by simp
  ultimately have "dget ks' k = Some fvs" using assms(5) by (simp add: dget_Some_iff)
  with ks'(2) e show ?thesis by simp
qed

lemma merge_config_again:
  assumes "merge_config init cfg = Inr (new, init')" and "plain_config cfg" and "wf_json (JObj init)"
  shows "wf_json (JObj init')" and "dkeys init' = dkeys init"
proof -
  let ?src = "map (\<lambda>(t, ks). (t, table_json ks)) cfg"
  from assms(1) obtain d where d: "pkg_deep_update (JObj init) ?src = Inr (JObj d)"
    and init': "init' = map (\<lambda>(t, v). (t, case dget d t of None \<Rightarrow> v | Some v' \<Rightarrow> v')) init"
    by (rule merge_configE)
  show keys: "dkeys init' = dkeys init" unfolding init' dkeys_def by auto
  have wf: "wf_json (JObj d)" by (rule deep_update_wf [OF d assms(3) plain_config_wf [OF assms(2)]])
  have "wf_json (case dget d t of None \<Rightarrow> v | Some v' \<Rightarrow> v')" if "(t, v) \<in> set init" for t v
    using that assms(3) wf_json_dget [OF wf] by (cases "dget d t") (auto simp: list_all_iff)
  moreover have "distinct (dkeys init')" using keys assms(3) by simp
  ultimately show "wf_json (JObj init')" unfolding init' by (auto simp: list_all_iff)
qed

section \<open>What is configured stays\<close>

text \<open>Every configured field still has its value.\<close>

definition still_configured :: "'c conn \<Rightarrow> 'c \<Rightarrow> 'c \<Rightarrow> bool" where
  "still_configured C c0 c \<longleftrightarrow> (\<forall>t k f v. cfield C t k f c0 = Some v \<longrightarrow> cfield C t k f c = Some v)"

text \<open>Tables of the initial configuration in upper case, each once, as the databases name them.\<close>

definition plain_init :: "fields \<Rightarrow> bool" where
  "plain_init init \<longleftrightarrow> wf_json (JObj init) \<and> list_all (\<lambda>t. upper t = t) (dkeys init)"

lemma fields_of_obj [simp]: "fields_of (JObj e) = Inr e"
  by (simp add: fields_of_def)

context config_store
begin

lemma cfield_config: "cfield C t k f c = config_get (cn_config C c) (upper t) k f"
  by (simp add: config_field config_get_def)

lemma mod_keeps:
  assumes "\<And>f v. cfield C t k f c0 = Some v \<Longrightarrow> dget fv f = Some v"
  shows "keeps (still_configured C c0) (put (cn_mod C t k fv))"
proof (rule keeps_put)
  fix c assume c: "still_configured C c0 c"
  show "still_configured C c0 (cn_mod C t k fv c)"
    unfolding still_configured_def
  proof (intro allI impI)
    fix t' k' f v assume v: "cfield C t' k' f c0 = Some v"
    show "cfield C t' k' f (cn_mod C t k fv c) = Some v"
    proof (cases "upper t' = upper t \<and> k' = k")
      case True
      then have "cfield C t k f c0 = Some v" using v by (simp add: cfield_config)
      then have "dget fv f = Some v" "norm v = v" using assms norm_stored by blast+
      with True show ?thesis by (simp add: mod_entry)
    next
      case False
      with c v show ?thesis by (auto simp: mod_entry still_configured_def)
    qed
  qed
qed

lemma write_keeps:
  assumes "merge_config init (cn_config C c0) = Inr (new, init')" and "plain_config (cn_config C c0)" and "plain_init init"
  shows "keeps (still_configured C c0) (write_init_cfg C (cn_config C c0) init')"
proof -
  have wf: "wf_json (JObj init)" and up: "list_all (\<lambda>t. upper t = t) (dkeys init)" using assms(3) by (auto simp: plain_init_def)
  have table: "keeps (still_configured C c0) (write_init_table C (cn_config C c0) t content)" if tc: "(t, content) \<in> set init'" for t content
  proof (cases content)
    case (JObj ks)
    have "t \<in> set (dkeys init')" using tc by (force simp: dkeys_def)
    then have t: "upper t = t" using up merge_config_again(2) [OF assms(1,2) wf] by (simp add: list_all_iff)
    have "keeps (still_configured C c0)
        (attempt (\<lambda>_. fields_of fvs) (\<lambda>fv. put (cn_mod C t k (merged
          (case dget (cn_config C c0) t of None \<Rightarrow> [] | Some tbl \<Rightarrow> (case dget tbl k of None \<Rightarrow> [] | Some e \<Rightarrow> e)) fv))))"
      if kf: "(k, fvs) \<in> set ks" for k fvs
    proof (cases "fields_of fvs")
      case (Inr fv)
      have "dget fv f = Some v" if "cfield C t k f c0 = Some v" for f v
        using merge_config_covers [OF assms(1,2) wf tc [unfolded JObj] kf, of f v] that t Inr by (auto simp: cfield_config)
      then have "keeps (still_configured C c0) (put (cn_mod C t k (merged
          (case dget (cn_config C c0) t of None \<Rightarrow> [] | Some tbl \<Rightarrow> (case dget tbl k of None \<Rightarrow> [] | Some e \<Rightarrow> e)) fv)))"
        by (intro mod_keeps) simp
      with Inr show ?thesis by (simp add: keeps_def attempt_def)
    qed (simp add: keeps_def attempt_def)
    then show ?thesis unfolding write_init_table_def JObj by (auto intro!: keeps_each_in)
  qed (simp_all add: write_init_table_def keeps_intros)
  then show ?thesis unfolding write_init_cfg_def by (auto intro!: keeps_each_in)
qed

lemma init_conn_keeps:
  assumes "init_conn E C init c x = (r, c', x')" and "plain_config (cn_config C c)" and "plain_init init"
  shows "still_configured C c c'" and "r = Inr init' \<Longrightarrow> plain_init init'"
proof -
  have self: "still_configured C c c" by (simp add: still_configured_def)
  show "still_configured C c c'"
  proof (cases "merge_config init (cn_config C c)")
    case (Inr p)
    obtain new merged_init where p: "p = (new, merged_init)" by force
    have "still_configured C c (snd (write_init_cfg C (cn_config C c) merged_init c))"
      by (rule keepsD [OF write_keeps [OF Inr [unfolded p] assms(2,3)] self])
    with assms(1) Inr p self show ?thesis by (auto simp: init_conn_def split: prod.splits sum.splits)
  qed (use assms(1) self in \<open>auto simp: init_conn_def\<close>)
  assume "r = Inr init'"
  with assms(1) obtain new where "merge_config init (cn_config C c) = Inr (new, init')"
    by (auto simp: init_conn_def split: sum.splits prod.splits)
  from merge_config_again [OF this assms(2)] assms(3) show "plain_init init'" by (simp add: plain_init_def)
qed

end

lemma init_running_keeps:
  assumes "config_store (e_conn E) norm" and "list_all (\<lambda>c. plain_config (cn_config (e_conn E) c)) cs" and "plain_init init"
    and "init_running E init cs x = (r, cs', x')"
  shows "list_all2 (still_configured (e_conn E)) cs cs'"
  using assms(2-4)
proof (induction cs arbitrary: init x r cs' x')
  case (Cons c cs)
  obtain ri c' x1 where step: "init_conn E (e_conn E) init c x = (ri, c', x1)" by (metis prod_cases3)
  have c: "plain_config (cn_config (e_conn E) c)" using Cons.prems(1) by simp
  note one = config_store.init_conn_keeps [OF assms(1) step c Cons.prems(2)]
  show ?case
  proof (cases ri)
    case (Inl e)
    have "list_all2 (still_configured (e_conn E)) cs cs" by (simp add: list_all2_refl still_configured_def)
    with Inl Cons.prems(3) step one show ?thesis by auto
  next
    case (Inr init')
    obtain rr cs1 x2 where rest: "init_running E init' cs x1 = (rr, cs1, x2)" by (metis prod_cases3)
    have "list_all2 (still_configured (e_conn E)) cs cs1"
      by (rule Cons.IH [OF _ one(2) [OF Inr] rest]) (use Cons.prems(1) in simp)
    with Inr Cons.prems(3) step one rest show ?thesis by auto
  qed
qed simp

lemma set_initial_config_keeps:
  assumes "config_store (e_conn E) norm" and "plain_config (w_init w)" and "list_all (\<lambda>c. plain_config (cn_config (e_conn E) c)) (w_run w)"
    and "plain_init (m_dict (p_manifest p) [''package'', ''init-cfg''])"
  shows "still_configured pers (w_init w) (w_init (snd (set_initial_config E p w))) \<and>
    list_all2 (still_configured (e_conn E)) (w_run w) (w_run (snd (set_initial_config E p w)))"
proof -
  let ?init = "m_dict (p_manifest p) [''package'', ''init-cfg'']"
  have refl: "still_configured pers cfg cfg" "list_all2 (still_configured (e_conn E)) cs cs" for cfg cs
    by (simp_all add: list_all2_refl still_configured_def)
  obtain r cfg x where step: "init_conn E pers ?init (w_init w) (w_ext w) = (r, cfg, x)" by (metis prod_cases3)
  have "plain_config (cn_config pers (w_init w))" using assms(2) by (simp add: pers_def)
  note one = pers_store.init_conn_keeps [OF step this assms(4)]
  show ?thesis
  proof (cases "?init = [] \<or> (\<exists>e. r = Inl e)")
    case True
    with step one(1) refl show ?thesis by (auto simp: set_initial_config_def Let_def)
  next
    case False
    then obtain init' where r: "r = Inr init'" by (cases r) auto
    obtain rr cs x2 where rest: "init_running E init' (w_run w) x = (rr, cs, x2)" by (metis prod_cases3)
    have "list_all2 (still_configured (e_conn E)) (w_run w) cs"
      by (rule init_running_keeps [OF assms(1,3) one(2) [OF r] rest])
    with False step one(1) r rest show ?thesis by (simp add: set_initial_config_def Let_def)
  qed
qed

end
