(* ===== verification/PkgProps.thy ===== *)
theory PkgProps
  imports PkgRuns PkgInit
begin

text \<open>
  The properties of the package manager, over concrete packages, versions and an environment that show
  their hypotheses can hold.
\<close>

section \<open>Versions of three numbers\<close>

definition version_numbers :: "string \<Rightarrow> nat list" where
  "version_numbers s = map nat_digits (split_on (CHR ''.'') s)"

definition plain_version :: "string \<Rightarrow> bool" where
  "plain_version s \<longleftrightarrow> length (split_on (CHR ''.'') s) = 3 \<and> list_all isdigit (split_on (CHR ''.'') s)"

fun numbers_less :: "nat list \<Rightarrow> nat list \<Rightarrow> bool" where
  "numbers_less (x # xs) (y # ys) = (x < y \<or> x = y \<and> numbers_less xs ys)"
| "numbers_less _ _ = False"

text \<open>The constraints \<open>*\<close>, \<open>==v\<close>, \<open>=v\<close> and \<open>^v\<close> of semantic_version.\<close>

definition plain_match :: "string \<Rightarrow> string \<Rightarrow> bool" where
  "plain_match c v =
     (if c = ''*'' then True
      else if startswith c ''=='' then drop 2 c = v
      else if startswith c ''='' then drop 1 c = v
      else (let ns = version_numbers (drop 1 c); ms = version_numbers v in
            hd ns = hd ms \<and> \<not> numbers_less ms ns))"

definition plain_constraint :: "string \<Rightarrow> bool" where
  "plain_constraint c \<longleftrightarrow>
     c = ''*'' \<or> startswith c ''=='' \<and> plain_version (drop 2 c) \<or> startswith c ''='' \<and> plain_version (drop 1 c) \<or>
     startswith c ''^'' \<and> plain_version (drop 1 c)"

definition plain_semver :: semver where
  "plain_semver =
     \<lparr>sv_parse = (\<lambda>s. if plain_version s then Some s else None),
      sv_less = (\<lambda>v w. numbers_less (version_numbers v) (version_numbers w)),
      sv_major = (\<lambda>v. version_numbers v ! 0), sv_minor = (\<lambda>v. version_numbers v ! 1),
      sp_parse = (\<lambda>s. if plain_constraint s then Some s else None),
      sp_match = plain_match,
      sp_exact = (\<lambda>c. if startswith c ''=='' then Some (drop 2 c) else if startswith c ''='' then Some (drop 1 c) else None)\<rparr>"

interpretation plain_semver: semver_laws plain_semver
proof unfold_locales
  fix s v c
  show "sv_parse plain_semver s = Some v \<Longrightarrow> sv_parse plain_semver v = Some v"
    by (auto simp: plain_semver_def split: if_splits)
  show "sp_parse plain_semver s = Some c \<Longrightarrow> sp_parse plain_semver c = Some c \<and> c \<noteq> []"
    by (auto simp: plain_semver_def plain_constraint_def startswith_def split: if_splits)
  show "sv_parse plain_semver ''1.0.0'' = Some ''1.0.0''" by code_simp
qed

section \<open>Packages\<close>

text \<open>A manifest as a document, from its version, its name and what it depends on and breaks.\<close>

definition sample_manifest :: "string \<Rightarrow> string \<Rightarrow> json list \<Rightarrow> json list \<Rightarrow> json" where
  "sample_manifest n v deps breaks =
     JObj [(''package'', JObj [(''name'', JStr n), (''version'', JStr v), (''depends'', JList deps), (''breaks'', JList breaks)]),
           (''service'', JObj [(''name'', JStr n), (''warm-shutdown'', JObj [(''after'', JList [JStr ''swss''])])])]"

definition sample_package :: "string \<Rightarrow> string \<Rightarrow> json list \<Rightarrow> json list \<Rightarrow> string dict \<Rightarrow> package" where
  "sample_package n v deps breaks comps =
     \<lparr>p_entry = (new_entry n (Some n) None None)\<lparr>pe_version := Some v, pe_installed := True\<rparr>,
      p_metadata = \<lparr>md_manifest = (case manifest_marshal plain_semver (sample_manifest n v deps breaks) of Inr m \<Rightarrow> m | Inl _ \<Rightarrow> VDict []),
                    md_components = comps, md_yang = []\<rparr>\<rparr>"

definition sample_set :: "package dict" where
  "sample_set =
     [(''swss'', sample_package ''swss'' ''1.2.0'' [] [] [(''libsai'', ''1.1.0'')]),
      (''dhcp'', sample_package ''dhcp'' ''2.0.0'' [JStr ''swss^1.0.0''] [JStr ''old''] [(''libsai'', ''1.0.3'')])]"

lemma sample_set_ok: "validate_package_tree plain_semver sample_set = Inr ()"
  by code_simp

lemma sample_conflict:
  "validate_package_tree plain_semver
     [(''swss'', sample_package ''swss'' ''1.2.0'' [] [] [(''libsai'', ''1.1.0'')]),
      (''dhcp'', sample_package ''dhcp'' ''2.0.0'' [] [JStr ''swss^2.0.0''] [])] = Inl AttributeError"
  by code_simp

section \<open>An environment\<close>

text \<open>
  Images are known by name, a template renders to itself and commands of systemd succeed.
\<close>

definition sample_labels :: "string \<Rightarrow> fields option" where
  "sample_labels s = Some [(''com.azure.sonic.manifest'', JStr s)]"

definition sample_loads :: "string \<Rightarrow> json option" where
  "sample_loads s =
     (if s = ''swss'' then Some (sample_manifest ''swss'' ''1.2.0'' [] [])
      else if s = ''dhcp'' then Some (sample_manifest ''dhcp'' ''2.0.0'' [JStr ''swss^1.0.0''] [])
      else None)"

definition sample_env :: "(config, string list) env" where
  "sample_env =
     \<lparr>e_ver = plain_semver, e_conn = pers, e_loads = sample_loads, e_dumps = (\<lambda>j. ''{}''), e_repr = (\<lambda>j. []),
      e_render = (\<lambda>text ctx. Inr text), e_order = (\<lambda>xs. xs), e_toposort = level_sort, e_chroot = False,
      e_platform = JStr ''vs'', e_multi_npu = False, e_num_npus = 1, e_version_info = [],
      e_exec = (\<lambda>args x. (True, x)), e_unit_state = (\<lambda>u x. None),
      e_module_name = (\<lambda>j. Inr ''module''), e_yang_tables = (\<lambda>x. []), e_add_module = (\<lambda>j. finish),
      e_remove_module = (\<lambda>n. finish), e_load_data = (\<lambda>j. finish), e_gen_cli = (\<lambda>a b. finish), e_remove_cli = (\<lambda>a b. finish),
      e_wait_state = (\<lambda>n s. finish), e_docker_ref = (\<lambda>s. Some (s, None, None)), e_save = (\<lambda>i x. (Inr ''image.tar'', x)),
      e_download = (\<lambda>u x. (None, x)),
      e_pull = (\<lambda>repo ref x. (Inr \<lparr>im_id = repo, im_tags = [], im_repotags = []\<rparr>, repo # x)),
      e_load = (\<lambda>path x. (Inr \<lparr>im_id = path, im_tags = [], im_repotags = []\<rparr>, path # x)),
      e_rmi = (\<lambda>i force. put (\<lambda>x. filter (\<lambda>y. Some y \<noteq> i) x)), e_rm_by_ancestor = (\<lambda>i. finish),
      e_extract = (\<lambda>i path x. (Inr [], x)), e_labels = (\<lambda>i x. Inr (case i of None \<Rightarrow> None | Some s \<Rightarrow> sample_labels s)),
      e_plugin_dir = (\<lambda>c. Some c), e_registry_labels = (\<lambda>repo ref x. Inr (sample_labels repo)),
      e_tarball_labels = (\<lambda>path x. Inr (sample_labels path))\<rparr>"

definition sample_world :: "(config, string list) world" where
  "sample_world =
     \<lparr>w_db = [(''swss'', (new_entry ''swss'' (Some ''swss'') None None)
                 \<lparr>pe_version := Some ''1.2.0'', pe_installed := True, pe_image_id := Some ''swss''\<rparr>)],
      w_files = [(generated_services_file, ''swss.service''), (get_tmpl_path ''docker_image_ctl.j2'', ''ctl''),
                 (get_tmpl_path ''service_mgmt.sh.j2'', ''mgmt''), (get_tmpl_path ''sonic.service.j2'', ''unit'')],
      w_exec = [], w_init = [], w_run = [[(''FEATURE'', [(''dhcp'', [(''state'', JStr ''enabled'')])])]], w_ext = [''swss'']\<rparr>"

definition sample_source :: source where
  "sample_source = TarballSource ''dhcp'' False None"

lemma sample_install: "fst (install_from_source sample_env sample_source no_opts sample_world) = Inr ()"
  by code_simp

section \<open>Properties\<close>

text \<open>
  C33. A set of packages passes the checks exactly when every dependency of every package is a package of the
  set in a version the dependency allows, with the components it names or, when it names none, with those of
  the package itself in a compatible version, and every package that is broken is absent or outside the
  broken range; a broken package that is present and has components never passes.
\<close>

theorem package_checks_exact:
  "validate_package_tree V ps = Inr () \<longleftrightarrow> list_all (\<lambda>x. package_ok V ps (snd x)) ps"
  by (rule validate_tree_iff)

theorem package_checks_exact_witness: "list_all (\<lambda>x. package_ok plain_semver sample_set (snd x)) sample_set"
  using package_checks_exact [of plain_semver sample_set] sample_set_ok by simp

text \<open>
  C39. Marshalling a manifest either fails with a manifest error or gives a value that has the types of the
  schema everywhere, and whose unmarshalled document marshals to the same value.
\<close>

theorem manifest_round_trip:
  assumes "semver_laws V"
  shows "case manifest_marshal V j of
      Inl e \<Rightarrow> \<exists>k. e = Raised ''ManifestError'' [k]
    | Inr m \<Rightarrow> typed V manifest_schema m \<and> (\<exists>j'. manifest_unmarshal m = Inr j' \<and> manifest_marshal V j' = Inr m)"
proof (cases "manifest_marshal V j")
  case (Inl e)
  have "is_node manifest_schema"
    by (simp add: manifest_schema_def package_schema_def service_schema_def container_schema_def processes_schema_def cli_schema_def)
  with Inl show ?thesis using node_error by (simp add: manifest_marshal_def)
next
  case (Inr m)
  have wf: "well_formed V manifest_schema" by (rule semver_laws.manifest_schema_well_formed [OF assms])
  with Inr have "typed V manifest_schema m" by (auto simp: manifest_marshal_def dest: semver_laws.marshal_typed [OF assms])
  with Inr semver_laws.marshal_back [OF assms wf] show ?thesis by (auto simp: manifest_marshal_def manifest_unmarshal_def)
qed

lemma sample_marshal: "\<exists>m. manifest_marshal plain_semver (sample_manifest ''dhcp'' ''2.0.0'' [JStr ''swss^1.0.0''] []) = Inr m"
proof -
  have "(case manifest_marshal plain_semver (sample_manifest ''dhcp'' ''2.0.0'' [JStr ''swss^1.0.0''] []) of Inr m \<Rightarrow> True | Inl e \<Rightarrow> False)"
    by code_simp
  then show ?thesis by (auto split: sum.splits)
qed

theorem manifest_round_trip_witness:
  "\<exists>m j. manifest_marshal plain_semver (sample_manifest ''dhcp'' ''2.0.0'' [JStr ''swss^1.0.0''] []) = Inr m \<and>
     manifest_unmarshal m = Inr j \<and> manifest_marshal plain_semver j = Inr m"
  using manifest_round_trip [OF plain_semver.semver_laws_axioms, of "sample_manifest ''dhcp'' ''2.0.0'' [JStr ''swss^1.0.0''] []"] sample_marshal
  by auto

text \<open>
  C37. Registering a feature gives it, in init_cfg.json and in every running database, the entries its
  manifest fixes, for the others what the database already has, and the defaults only where it has nothing;
  updating the feature to another manifest carries over everything the new manifest does not fix.
\<close>

theorem feature_settings_kept:
  assumes "config_store (e_conn E) norm"
  shows "setting pers (m_service m) f (w_init (snd (feature_register E m state owner w))) =
      overlaid (non_configurable_entries m) (default_feature_entries state owner) f (setting pers (m_service m) f (w_init w)) \<and>
    map (setting (e_conn E) (m_service m) f) (w_run (snd (feature_register E m state owner w))) =
      map (\<lambda>c. overlaid (non_configurable_entries m) (default_feature_entries state owner) f (setting (e_conn E) (m_service m) f c)) (w_run w) \<and>
    setting pers (m_service new) f (w_init (snd (feature_update E m new w))) =
      overlaid (non_configurable_entries new) [] f (setting pers (m_service m) f (w_init w)) \<and>
    map (setting (e_conn E) (m_service new) f) (w_run (snd (feature_update E m new w))) =
      map (\<lambda>c. overlaid (non_configurable_entries new) [] f (setting (e_conn E) (m_service m) f c)) (w_run w)"
  using register_settings [OF assms] update_settings [OF assms] by simp

theorem feature_settings_kept_witness:
  "map (setting pers ''dhcp'' ''state'')
     (w_run (snd (feature_register sample_env (p_manifest (sample_package ''dhcp'' ''2.0.0'' [] [] [])) ''disabled'' ''local'' sample_world)))
   = [Some (JStr ''enabled'')]"
proof -
  let ?m = "p_manifest (sample_package ''dhcp'' ''2.0.0'' [] [] [])"
  have name: "m_service ?m = ''dhcp''" by code_simp
  have conn: "e_conn sample_env = pers" by (simp add: sample_env_def)
  have current: "map (\<lambda>c. overlaid (non_configurable_entries ?m) (default_feature_entries ''disabled'' ''local'') ''state'' (setting pers ''dhcp'' ''state'' c)) (w_run sample_world)
      = [Some (JStr ''enabled'')]" by code_simp
  have "config_store (e_conn sample_env) (\<lambda>j. j)" using pers_store.config_store_axioms conn by simp
  from feature_settings_kept [OF this, of ?m "''state''" "''disabled''" "''local''" sample_world] show ?thesis
    unfolding name conn current by blast
qed

text \<open>
  C32. An installation that returns has changed the database in the entry of the package alone: it is
  installed, in the version of its manifest, and the database is on disk; unless the installation was forced,
  the package was not installed before and passed all checks.  An installation that raises leaves every
  package installed or not as it was.  Files can always be written in the model.
\<close>

theorem install_all_or_nothing:
  "case install_from_source E src opts w of
     (Inl _, w') \<Rightarrow> \<forall>n. is_installed n (w_db w') = is_installed n (w_db w)
   | (Inr _, w') \<Rightarrow> \<exists>p w1 ps w2 e. source_package E src w = (Inr p, w1) \<and> installed_and E p w1 = (Inr ps, w2) \<and>
       (o_force opts \<or> install_checks E p ps (o_skip_plugins opts) = Inr () \<and> \<not> is_installed (p_name p) (w_db w)) \<and>
       pe_installed e \<and> pe_version e = Some (m_version (p_manifest p)) \<and> pe_name e = p_name p \<and>
       dget (w_db w') = (dget (w_db w))(p_name p \<mapsto> e) \<and>
       read_file db_file w' = Inr (e_dumps E (db_to_json (w_db w')))"
proof (cases "install_from_source E src opts w")
  case (Pair r w')
  show ?thesis
  proof (cases r)
    case (Inl e)
    have "installed_in n w' = installed_in n w" for n
      by (rule fails_safeD [OF install_fails_safe]) (use Pair Inl in simp)
    with Pair Inl show ?thesis by (simp add: installed_in_def)
  next
    case (Inr u)
    with Pair have "install_from_source E src opts w = (Inr (), w')" by simp
    from install_returns [OF this] show ?thesis unfolding Pair Inr by (simp, metis)
  qed
qed

theorem install_all_or_nothing_witness:
  "\<exists>e. dget (w_db (snd (install_from_source sample_env sample_source no_opts sample_world))) ''dhcp'' = Some e \<and> pe_installed e"
proof -
  let ?run = "install_from_source sample_env sample_source no_opts sample_world"
  have name: "(case source_package sample_env sample_source sample_world of (Inr p, w1) \<Rightarrow> p_name p = ''dhcp'' | (Inl e, w1) \<Rightarrow> False)"
    by code_simp
  obtain w' where run: "?run = (Inr (), w')" using sample_install by (cases ?run) auto
  show ?thesis
    using install_all_or_nothing [where E = sample_env and src = sample_source and opts = no_opts and w = sample_world] name
    unfolding run by (auto split: prod.splits sum.splits)
qed

text \<open>
  C34. When an installation fails after the image of the package is there, whatever step fails, neither the
  unit files of the service nor its scripts nor its list of processes are left behind.
\<close>

theorem failed_install_leaves_no_service:
  assumes "fst (install_block E src p state owner skip w) = Inl e" and "fst (source_install E src p w) = Inr p'"
  shows "absent (service_files (m_service (p_manifest p))) (snd (install_block E src p state owner skip w))"
proof -
  obtain w' where run: "install_block E src p state owner skip w = (Inl e, w')"
    using assms(1) by (cases "install_block E src p state owner skip w") simp
  have "source_install E src p w \<noteq> (Inl e, w')" using assms(2) by (metis fst_conv sum.distinct(1))
  then have "absent (service_files (m_service (p_manifest p))) w'" using install_block_cleans [OF run] by blast
  then show ?thesis by (subst run) (simp only: snd_conv)
qed

text \<open>A system without the templates.\<close>

definition bare_world :: "(config, string list) world" where
  "bare_world = sample_world\<lparr>w_files := [(generated_services_file, ''swss.service'')]\<rparr>"

definition bare_package :: package where
  "bare_package =
     \<lparr>p_entry = new_entry ''dhcp'' None None None,
      p_metadata = \<lparr>md_manifest = VDict [(''service'', VDict [(''name'', VJson (JStr ''dhcp''))])], md_components = [], md_yang = []\<rparr>\<rparr>"

theorem failed_install_leaves_no_service_witness:
  "absent (service_files (m_service (p_manifest bare_package)))
     (snd (install_block sample_env sample_source bare_package ''disabled'' ''local'' False bare_world))"
proof -
  have 1: "(case fst (install_block sample_env sample_source bare_package ''disabled'' ''local'' False bare_world) of
      Inl e \<Rightarrow> True | Inr r \<Rightarrow> False)" by code_simp
  have 2: "(case fst (source_install sample_env sample_source bare_package bare_world) of Inr p' \<Rightarrow> True | Inl e \<Rightarrow> False)" by code_simp
  from 1 obtain e where e: "fst (install_block sample_env sample_source bare_package ''disabled'' ''local'' False bare_world) = Inl e"
    by (auto split: sum.splits)
  from 2 obtain p' where "fst (source_install sample_env sample_source bare_package bare_world) = Inr p'" by (auto split: sum.splits)
  with e show ?thesis by (rule failed_install_leaves_no_service)
qed

text \<open>
  C36. An uninstallation that raises leaves the database as it was.  One that returns was of a package that is
  not built in and, unless forced, was installed, had its feature disabled and was needed by none of the
  packages that stay; its entry alone has changed, to not installed, without version and image.
\<close>

theorem uninstall_safe:
  "case uninstall E n force keep w of
     (Inl _, w') \<Rightarrow> w_db w' = w_db w
   | (Inr _, w') \<Rightarrow> \<exists>p w1 ps w2. get_installed_package E n False w = (Inr p, w1) \<and> installed_except E p w1 = (Inr ps, w2) \<and>
       pe_built_in (p_entry p) = False \<and>
       (force \<or> pe_installed (p_entry p) \<and> is_feature_enabled E (m_service (p_manifest p)) w1 = Inr False \<and>
          list_all (\<lambda>x. package_ok (e_ver E) ps (snd x)) ps) \<and>
       dget (w_db w') = (dget (w_db w))(p_name p \<mapsto> (p_entry p)\<lparr>pe_image_id := None, pe_installed := False, pe_version := None\<rparr>)"
proof (cases "uninstall E n force keep w")
  case (Pair r w')
  show ?thesis
  proof (cases r)
    case (Inl e)
    have "w_db w' = w_db w" by (rule fails_safeD [OF uninstall_fails_safe]) (use Pair Inl in simp)
    with Pair Inl show ?thesis by simp
  next
    case (Inr u)
    with Pair have "uninstall E n force keep w = (Inr (), w')" by simp
    from uninstall_returns [OF this] show ?thesis unfolding Pair Inr by (simp add: validate_tree_iff, metis)
  qed
qed

text \<open>
  C38. The order of shutdown puts every service after the services its package wants it after, and before
  those it wants it before, as far as they are installed; there is an order unless these wishes form a cycle.
\<close>

definition order_respected :: "string \<Rightarrow> package dict \<Rightarrow> string list \<Rightarrow> package \<Rightarrow> bool" where
  "order_respected reboot ps order p \<longleftrightarrow>
     (let n = m_service (p_manifest p); there = (\<lambda>s. service_exists ps s \<and> s \<noteq> n) in
      list_all (\<lambda>s. precedes order s n) (filter there (shutdown_after reboot p)) \<and>
      list_all (\<lambda>s. precedes order n s) (filter there (shutdown_before reboot p)))"

theorem shutdown_order:
  assumes "toposort_laws (e_toposort E)"
  shows "case get_shutdown_sequence E reboot ps of
      Inr order \<Rightarrow> list_all (\<lambda>x. order_respected reboot ps order (snd x)) ps
    | Inl e \<Rightarrow> e = Raised ''ServiceCreatorError'' [reboot] \<and> \<not> acyclic {(n, s). (\<exists>x \<in> set ps. wants ps reboot (snd x) n s) \<and> s \<noteq> n}"
proof (cases "e_toposort E (shutdown_graph reboot ps)")
  case None
  have "{(n, s). edge (shutdown_graph reboot ps) n s \<and> s \<noteq> n} = {(n, s). (\<exists>x \<in> set ps. wants ps reboot (snd x) n s) \<and> s \<noteq> n}"
    by (simp add: edge_shutdown_graph case_prod_beta')
  with None toposort_laws.only_cycles_fail [OF assms, of "shutdown_graph reboot ps"] show ?thesis
    by (auto simp: get_shutdown_sequence_def)
next
  case (Some order)
  have "order_respected reboot ps order p" if p: "(k, p) \<in> set ps" for k p
    using toposort_laws.shutdown_respects [OF assms Some p]
    by (auto simp: order_respected_def Let_def list_all_iff wants_def)
  with Some show ?thesis by (auto simp: get_shutdown_sequence_def list_all_iff)
qed

theorem shutdown_order_witness:
  "\<exists>order. get_shutdown_sequence sample_env ''warm'' sample_set = Inr order \<and>
     list_all (\<lambda>x. order_respected ''warm'' sample_set order (snd x)) sample_set"
proof -
  have "(case get_shutdown_sequence sample_env ''warm'' sample_set of Inr order \<Rightarrow> True | Inl e \<Rightarrow> False)" by code_simp
  moreover have "toposort_laws (e_toposort sample_env)" using level_sort.toposort_laws_axioms by (simp add: sample_env_def)
  ultimately show ?thesis using shutdown_order [of sample_env "''warm''" sample_set] by (auto split: sum.splits)
qed

text \<open>
  C40. Setting the initial configuration of a package leaves every field that is configured, in init_cfg.json
  and in every running database, with the value it has, also when it raises on the way.  Assumed are the laws of
  the connectors (\<open>config_store\<close>), that the values of configured fields are no dictionaries
  (\<open>plain_config\<close>), and that the initial configuration names its tables in upper case (\<open>plain_init\<close>): a table
  in lower case overrides what is configured (\<open>lower_case_overrides\<close>).
\<close>

theorem initial_config_overrides_nothing:
  assumes "config_store (e_conn E) norm" and "plain_config (w_init w)" and "list_all (\<lambda>c. plain_config (cn_config (e_conn E) c)) (w_run w)"
    and "plain_init (m_dict (p_manifest p) [''package'', ''init-cfg''])"
  shows "still_configured pers (w_init w) (w_init (snd (set_initial_config E p w))) \<and>
    list_all2 (still_configured (e_conn E)) (w_run w) (w_run (snd (set_initial_config E p w)))"
  by (rule set_initial_config_keeps [OF assms])

text \<open>A package with an initial configuration, and databases that have another value and another key.\<close>

definition init_package :: package where
  "init_package =
     \<lparr>p_entry = new_entry ''dhcp'' None None None,
      p_metadata = \<lparr>md_manifest = VDict [(''package'', VDict [(''init-cfg'', VJson (JObj [(''POOL'', JObj [(''a'', JObj [(''size'', JStr ''1'')])])]))])],
                    md_components = [], md_yang = []\<rparr>\<rparr>"

definition init_world :: "(config, string list) world" where
  "init_world = sample_world
     \<lparr>w_init := [(''POOL'', [(''a'', [(''size'', JStr ''5'')]), (''b'', [(''size'', JStr ''7'')])])],
      w_run := [[(''POOL'', [(''a'', [(''size'', JStr ''6'')])])], []]\<rparr>"

theorem initial_config_overrides_nothing_witness:
  "cfield pers ''POOL'' ''a'' ''size'' (w_init (snd (set_initial_config sample_env init_package init_world))) = Some (JStr ''5'')"
proof -
  have conn: "e_conn sample_env = pers" by (simp add: sample_env_def)
  have 1: "config_store (e_conn sample_env) (\<lambda>j. j)" using pers_store.config_store_axioms conn by simp
  have 2: "plain_config (w_init init_world)" by code_simp
  have 3: "list_all (\<lambda>c. plain_config (cn_config (e_conn sample_env) c)) (w_run init_world)" by code_simp
  have 4: "plain_init (m_dict (p_manifest init_package) [''package'', ''init-cfg''])" by code_simp
  have "cfield pers ''POOL'' ''a'' ''size'' (w_init init_world) = Some (JStr ''5'')" by code_simp
  with initial_config_overrides_nothing [OF 1 2 3 4] show ?thesis by (auto simp: still_configured_def)
qed

text \<open>
  The merge looks a table up as the initial configuration spells it, \<open>mod_entry\<close> writes it in upper case: a
  table in lower case is not found configured and its fields overwrite those that are.
\<close>

definition lower_case_package :: package where
  "lower_case_package = init_package
     \<lparr>p_metadata := \<lparr>md_manifest = VDict [(''package'', VDict [(''init-cfg'', VJson (JObj [(''pool'', JObj [(''a'', JObj [(''size'', JStr ''1'')])])]))])],
                    md_components = [], md_yang = []\<rparr>\<rparr>"

lemma lower_case_overrides:
  "(cfield pers ''POOL'' ''a'' ''size'' (w_init init_world),
    cfield pers ''POOL'' ''a'' ''size'' (w_init (snd (set_initial_config sample_env lower_case_package init_world)))) =
   (Some (JStr ''5''), Some (JStr ''1''))"
  by code_simp

text \<open>
  But what one database has under a table of the initial configuration goes on to the next: the key \<open>b\<close> of
  init_cfg.json to the running database, and the value of the host to the database of an ASIC that has none.
\<close>

lemma initial_config_leaks:
  "map (\<lambda>c. (cfield pers ''POOL'' ''b'' ''size'' c, cfield pers ''POOL'' ''a'' ''size'' c))
     (w_run (snd (set_initial_config sample_env init_package init_world)))
   = [(Some (JStr ''7''), Some (JStr ''6'')), (Some (JStr ''7''), Some (JStr ''6''))]"
  by code_simp

text \<open>
  C35. An upgrade that raises leaves the database as it was.  One that returns was of a package that is not
  built in and, unless forced, was installed in another version, not a later one unless downgrades are allowed;
  the entry of the package alone has changed, to the version of the new manifest.
\<close>

theorem upgrade_safe:
  "case upgrade_from_source E src opts w of
     (Inl _, w') \<Rightarrow> w_db w' = w_db w
   | (Inr _, w') \<Rightarrow> \<exists>new w1 old w2 e. source_package E src w = (Inr new, w1) \<and>
       get_installed_package E (p_name new) False w1 = (Inr old, w2) \<and> pe_built_in (p_entry old) = False \<and>
       (o_force opts \<or> pe_installed (p_entry old) \<and> m_version (p_manifest old) \<noteq> m_version (p_manifest new) \<and>
          (o_allow_downgrade opts = Some True \<or> sv_less (e_ver E) (m_version (p_manifest new)) (m_version (p_manifest old)) = False)) \<and>
       pe_installed e \<and> pe_version e = Some (m_version (p_manifest new)) \<and> pe_name e = p_name new \<and>
       dget (w_db w') = (dget (w_db w))(p_name new \<mapsto> e)"
proof (cases "upgrade_from_source E src opts w")
  case (Pair r w')
  show ?thesis
  proof (cases r)
    case (Inl e)
    have "w_db w' = w_db w" by (rule fails_safeD [OF upgrade_fails_safe]) (use Pair Inl in simp)
    with Pair Inl show ?thesis by simp
  next
    case (Inr u)
    with Pair have "upgrade_from_source E src opts w = (Inr (), w')" by simp
    from upgrade_returns [OF this] show ?thesis unfolding Pair Inr by (simp, metis)
  qed
qed

text \<open>
  The check of an upgrade takes the version of the package from its entry, which is still the old one: a
  package that needs version 1 of swss does not stop its upgrade to version 2.
\<close>

lemma upgrade_checked_in_old_version:
  "let old = sample_package ''swss'' ''1.2.0'' [] [] []; new = sample_package ''swss'' ''2.0.0'' [] [] [];
       upgraded = \<lparr>p_entry = p_entry old, p_metadata = p_metadata new\<rparr> in
   validate_package_tree plain_semver
     (dset ''swss'' upgraded [(''swss'', old), (''dhcp'', sample_package ''dhcp'' ''2.0.0'' [JStr ''swss^1.0.0''] [] [])]) = Inr ()"
  by code_simp

end
