(* ===== verification/Spec2Isabelle.thy ===== *)
theory Spec2Isabelle
  imports SortProps MoveProps FilterProps ConfigProps UpdateProps BreakoutProps FieldProps ServiceProps StpProps
    RouteProps NatProps MigratorProps AclProps PkgProps
begin

text \<open>
  A model of the configuration core of the SONiC command line utilities.

  \<^bold>\<open>What the program does.\<close>  A SONiC device keeps its configuration in ConfigDB, tables of entries of
  text fields.  The generic configuration updater (src/generic_config_updater) takes a JSON patch or
  a whole target configuration and changes a running device to it, through a sequence of small
  patches after each of which the configuration is still valid for the YANG models and nothing is
  done that a running device does not stand, like changing a field that can only be set when its
  entry is created.  Around it are programs that change or check the same databases: the commands of
  src/config (spanning tree, NAT, port breakout), the ACL loader (src/acl_loader), the migration of the
  databases after an upgrade (src/scripts/db_migrator.py), the check of the routes
  (src/scripts/route_check.py) and the package manager (src/sonic_package_manager).

  \<^bold>\<open>Shared theories.\<close>

  \<^item> \<open>Prelude\<close>: the exceptions as the datatype \<open>py_error\<close>, results \<open>'a res\<close> as the sum of an error and
    a value, generators (\<open>'a gen\<close>: what was yielded, and how it ended), dictionaries in insertion order
    (\<open>'v dict\<close>), and the string and number functions of Python the code calls.
  \<^item> \<open>Json\<close>: JSON values with Python's equality (\<open>json_eq\<close>, blind to the order of keys), JSON pointers
    and subscripting with its errors.
  \<^item> \<open>ConfigDb\<close>: the connector of \<open>swsscommon\<close> as the commands use it, the record \<open>db_env\<close> with the locale
    \<open>config_db\<close> of its laws, interpreted on nested dictionaries; commands as functions from the
    database to a result and the database, and their weakest preconditions.
  \<^item> \<open>NetAddr\<close>: the texts of IP addresses and networks, as Python's \<open>ipaddress\<close> reads them.
  \<^item> \<open>Samples\<close>: concrete packages and schemas at which the properties of the updater are applied.

  \<^bold>\<open>Generic configuration updater.\<close>

  \<^item> \<open>Moves\<close>, \<open>MoveFacts\<close>, \<open>MoveProps\<close>: gu_common.py \<open>OperationWrapper\<close> and \<open>PathAddressing\<close>,
    patch_sorter.py \<open>Diff\<close>, \<open>JsonMove\<close>, \<open>JsonMoveGroup\<close>.  The packages \<open>jsonpatch\<close> and \<open>jsonpointer\<close> are
    the record \<open>ext\<close>, what they document the locale \<open>json_ext\<close>, interpreted on the operations of RFC 6902.
  \<^item> \<open>Filters\<close>, \<open>Validators\<close>, \<open>Generators\<close>, \<open>Extenders\<close> with \<open>ValidatorFacts\<close>, \<open>GeneratorFacts\<close> and
    \<open>FilterProps\<close>: the classes of patch_sorter.py that find paths, judge a step, offer moves, extend moves.
  \<^item> \<open>MoveWrapper\<close>: the loop that offers each group of moves once, generators first, extensions from a
    queue; and \<open>SortAlgorithmFactory\<close>, which composes the pieces.
  \<^item> \<open>Sorters\<close>, \<open>SortProps\<close>: \<open>DfsSorter\<close> with the tree it records, \<open>BfsSorter\<close>, \<open>MemoizationSorter\<close>, over
    the record \<open>sort_env\<close> of what they use of the wrapper; the locale \<open>sorter\<close> is their common contract, a
    result is a chain of moves to a diff without differences, interpreted on all three.
  \<^item> \<open>ConfigWrap\<close>, \<open>ConfigFacts\<close>, \<open>ConfigProps\<close>: gu_common.py \<open>ConfigWrapper\<close>, \<open>PatchWrapper\<close> and the
    reference lookup, with the document loaded into the YANG library and the cached verdict as state.
  \<^item> \<open>PatchSort\<close>, \<open>PatchSortFacts\<close>: \<open>PatchSorter\<close>, \<open>StrictPatchSorter\<close>, \<open>NonStrictPatchSorter\<close>, the
    splitters that put aside what has no YANG model, and the changes they return.
  \<^item> \<open>ChangeApply\<close>: change_applier.py \<open>ChangeApplier\<close>, over a store.  The locale \<open>store_forms\<close> says what a
    store gives back of what is set, \<open>store_laws\<close> extends it to a store that gives back the same; they are
    interpreted on a store that writes an empty list as the blank list and on a JSON document.
  \<^item> \<open>Updater\<close>, \<open>UpdaterFacts\<close>, \<open>UpdateProps\<close>: generic_updater.py, from the scope in front of a path to
    \<open>PatchApplier\<close>, \<open>ConfigReplacer\<close>, checkpoints and rollback, their multi-ASIC variants and the lock.
  \<^item> \<open>FieldOps\<close>, \<open>FieldProps\<close>: field_operation_validators.py, over a record of what the device answers.
  \<^item> \<open>Services\<close>, \<open>ServiceProps\<close>: services_validator.py, over a shell that is a parameter.

  \<open>PatchApplier.apply\<close> simulates the patch on the current configuration, asks \<open>ConfigWrapper\<close> whether the
  fields may be changed and whether tables become empty, and hands both configurations to the patch sorter.
  The sorter makes a \<open>Diff\<close>, and one of the three search algorithms asks \<open>MoveWrapper\<close> for groups of moves,
  which the validators judge on the configuration each group leads to; the validators call \<open>ConfigWrapper\<close>
  for the YANG verdict and for references.  The moves come back as changes, which \<open>ChangeApplier\<close> writes to
  the store entry by entry.  The model composes the definitions in the same way: \<open>patch_applier_apply\<close> calls
  \<open>strict_sort\<close> or its non-strict variant, this \<open>patch_sort\<close> and the sorter that \<open>create_sorter\<close> picked, over
  \<open>factory_wrapper\<close>.

  \<^bold>\<open>Other programs.\<close>

  \<^item> \<open>Breakout\<close>, \<open>BreakoutFacts\<close>, \<open>BreakoutProps\<close>: config/config_mgmt.py, the configuration written for a
    difference of two configurations, and the deletion and addition of ports around it.
  \<^item> \<open>Stp\<close>, \<open>StpFacts\<close>, \<open>StpInv\<close>, \<open>StpResults\<close>, \<open>StpProps\<close>: every function of config/stp.py, and what
    all of them keep in a session of commands.
  \<^item> \<open>NatCmd\<close>, \<open>NatFacts\<close>, \<open>NatProps\<close>: every function of config/nat.py, likewise; a write may be refused.
  \<^item> \<open>Migrator\<close>, \<open>MigratorFacts\<close>, \<open>MigratorProps\<close>: the class \<open>DBMigrator\<close> with the handler of each version.
  \<^item> \<open>Acl\<close>, \<open>AclFacts\<close>, \<open>AclProps\<close>: the class \<open>AclLoader\<close> of acl_loader/main.py on the databases of the
    host and the ASICs.
  \<^item> \<open>Routes\<close>, \<open>RouteProps\<close>: route_check.py; what databases and \<open>vtysh\<close> answer is the record \<open>route_db\<close>.
  \<^item> \<open>PkgData\<close>, \<open>PkgService\<close>, \<open>PkgManager\<close> with \<open>PkgFacts\<close>, \<open>PkgSteps\<close>, \<open>PkgInit\<close>, \<open>PkgRuns\<close>, \<open>PkgProps\<close>:
    the package manager.  Its state \<open>world\<close> holds the package database, the files, and the configuration
    databases; an operation is a command on it, with the undo of its steps when one raises.

  \<^bold>\<open>What is shown.\<close>

  \<^item> Updater: a planned update of a quiet device succeeds and leaves the store equal to the target (C1); a
    returned update is a verified one (C5); nothing is written before all checks have passed (C6); the store
    follows the configuration in memory (C7).
  \<^item> Sorting: the changes lead to the target through valid configurations (C2); depth first finds a
    sorting whenever there is one, breadth first a shortest one, all three searches end (C3, C4, C10, C11);
    validators guarantee what they are there for (C8, C9); path filters find exactly what matches (C13).
  \<^item> Operations and services: the operations that write one field keep a port to what it supports (C16); a
    restart follows its plan (C17); neighbours are flushed up to the first flush that fails (C18).
  \<^item> Commands: the configuration that breakout writes leads to the one that was computed (C12); invariants
    of every session of spanning tree and NAT commands (C14, C15, C21, C22).
  \<^item> Routes, migration, ACLs: what is reported is exactly what is not accounted for, and repair messages are
    safe (C19, C20); migrations end in the current version, never go back, and rewrite tables exactly
    (C23 to C27); both ACL updates install the rules, with their priorities, fields and default (C28 to C31).
  \<^item> Packages: install, upgrade and uninstall change one entry of the database or none, after their checks
    (C32, C33, C35, C36); a failed installation leaves no service (C34); settings of features and of the
    configuration survive (C37, C40); shutdown order and marshalling of manifests are right (C38, C39).

  \<^bold>\<open>What is assumed.\<close>  Each of these is a visible hypothesis of the theorems that need it.

  \<^item> YANG validation is a parameter.  C1 assumes of it the nesting of tables, entries and fields
    (\<open>schema_sound\<close>), for the tables that have a model; other tables must be left alone by the changes.  It
    does not assume that what validates can be stored: ConfigDB has no form for an empty list, and that the
    simulated target has none is proved.
  \<^item> \<open>Diff.__hash__\<close> sorts the keys, so diffs that differ in their order have the same hash.  The searches are
    proved for hashes whose equal diffs have legal moves to the same hashes (\<open>respectful_hashes\<close>); memoizing
    reuses a result, so moves must be replayable (\<open>replayable_hashes\<close>).  Both are shown to hold for the
    order-blind hash on a diff that adds two fields in either order.
  \<^item> The class \<open>ValidatedConfigDBConnector\<close> of the NAT commands is a parameter that writes an entry whole or not
    at all; the recorded version of a migration is taken for the name of a handler, while \<open>getattr\<close> would find
    any method; a version that is not listed counts as later than all others in C24.
  \<^item> A session of spanning tree commands has no other command in it, like \<open>config vlan add\<close> with its hook
    \<open>vlan_enable_stp\<close>, which is modelled but breaks one half of C15 under MST (\<open>vlan_hook_under_mst\<close>).
  \<^item> Files of the package manager can always be written, removed and renamed.  C40 needs tables in upper case in
    the initial configuration (\<open>plain_init\<close>): others override what is configured (\<open>lower_case_overrides\<close>).

  \<^bold>\<open>Fuel.\<close>  The searches recurse over diffs whose number only the YANG models bound.  \<open>dfs_sort\<close>,
  \<open>memo_sort\<close> (depth), \<open>bfs_loop\<close> (rounds) and the queue of \<open>wrapper_generate\<close> take fuel, and running out is
  the error \<open>OutOfFuel\<close>, which no exception of the code is mapped to.  One more than the number of
  hashes of reachable diffs is enough depth (C3, C10), one round for the start and each pair of a
  hash and a candidate move is enough for the queue (C11), and one step for each operation list that
  extenders can reach is enough for the extensions (\<open>wrapper_generate_enough_fuel\<close>); a diff refused twice is never
  entered again, so a finite set of hashes is all these need.  The chain of migrations is a recursion with
  a proved measure; the other loops are structural recursions.

  \<^bold>\<open>Errors.\<close>  Every raise, including those Python itself raises on a missing key, a wrong index or a
  wrong type, is a value of \<open>py_error\<close>.  Stateful operations return what they had changed when they
  failed.  Messages are kept up to prefixes that name the scope and up to indentation.  Where the code falls
  short of its comments, a lemma next to the property shows it on an example.

  \<^bold>\<open>Not modelled.\<close>  Logging, printing, waiting and progress files; the YANG library, the patch packages, docker,
  systemd, jinja2 and the platform drivers, which are parameters where the code relies on them; the
  suspension of a Python generator between two moves: the low level generators keep the diff in a field while
  suspended, and the model's \<open>generate\<close> is a function of the diff; token lists are passed by value.  Of
  src/config the commands other than those above are not modelled, nor are the \<open>show\<close> commands, the platform
  utilities, the installer, the command line of the package manager and the remaining scripts.
\<close>

end
